(* ===== verification/Prelude.thy ===== *)
theory Prelude
  imports Main "HOL-Library.Char_ord" "HOL-Library.List_Lexorder" "HOL-Library.Multiset"
begin

text \<open>
  Shared vocabulary of the development: the lemma collections, the HTTP error values every
  service method can answer with, decimal printing as JavaScript's \<open>String(n)\<close> and
  \<open>padStart\<close> do it, stable sorting with a comparator (\<open>Array.prototype.sort\<close>), and
  the contracts (\<open>locale\<close>s) that several components share: a comparator that is a total
  preorder, and a system whose every step keeps an invariant.
\<close>

named_theorems table_simps \<open>facts about list-backed tables\<close>
named_theorems keeps_intros \<open>a program fragment keeps an invariant\<close>

subsection \<open>Instants\<close>

text \<open>
  A JavaScript \<open>Date\<close> is its \<open>getTime()\<close>: milliseconds since the epoch, an integer.
  A \<open>Date\<close> built from a text that does not parse is an Invalid Date, whose
  \<open>getTime()\<close> is \<open>NaN\<close>; it is \<open>None\<close> below. Every comparison with
  \<open>NaN\<close> is false.
\<close>

type_synonym time = int
type_synonym js_date = "time option"

definition js_less :: "js_date \<Rightarrow> js_date \<Rightarrow> bool" where
  "js_less a b = (case (a, b) of (Some x, Some y) \<Rightarrow> x < y | _ \<Rightarrow> False)"

definition js_less_eq :: "js_date \<Rightarrow> js_date \<Rightarrow> bool" where
  "js_less_eq a b = (case (a, b) of (Some x, Some y) \<Rightarrow> x \<le> y | _ \<Rightarrow> False)"

text \<open>\<open>a.getTime() - b.getTime()\<close> as a sort comparator's answer: \<open>NaN\<close> counts as 0.\<close>

definition js_cmp_date :: "js_date \<Rightarrow> js_date \<Rightarrow> int" where
  "js_cmp_date a b = (case (a, b) of (Some x, Some y) \<Rightarrow> x - y | _ \<Rightarrow> 0)"

lemma js_less_simps [simp]:
  "js_less (Some x) (Some y) \<longleftrightarrow> x < y"
  "\<not> js_less None b" "\<not> js_less a None"
  by (auto simp: js_less_def split: option.splits)

lemma js_less_eq_simps [simp]:
  "js_less_eq (Some x) (Some y) \<longleftrightarrow> x \<le> y"
  "\<not> js_less_eq None b" "\<not> js_less_eq a None"
  by (auto simp: js_less_eq_def split: option.splits)

subsection \<open>HTTP errors\<close>

text \<open>
  The exceptions a service method raises on purpose, over the message constants of its module;
  everything else leaves the service as a 500.
\<close>

datatype 'm http_error =
    BadRequest 'm | Unauthorized 'm | Forbidden 'm | NotFound 'm | Conflict 'm | Unprocessable 'm
  | InternalServerError "'m option" | BadGateway 'm | ServiceUnavailable 'm

text \<open>The back-office roles (\<open>enum SystemRole\<close> of the schema).\<close>

datatype system_role = SUPER_ADMIN | ADMIN | VIEWER

subsection \<open>Decimal text\<close>

definition digit_char :: "nat \<Rightarrow> char" where
  "digit_char n = ''0123456789'' ! n"

fun show_nat :: "nat \<Rightarrow> string" where
  "show_nat n = (if n < 10 then [digit_char n]
                 else show_nat (n div 10) @ [digit_char (n mod 10)])"

declare show_nat.simps [simp del]

definition show_int :: "int \<Rightarrow> string" where
  "show_int i = (if i < 0 then CHR ''-'' # show_nat (nat (- i)) else show_nat (nat i))"

text \<open>\<open>s.padStart(w, '0')\<close>: never truncates.\<close>

definition pad_start :: "nat \<Rightarrow> string \<Rightarrow> string" where
  "pad_start w s = replicate (w - length s) (CHR ''0'') @ s"

lemma less_10_cases: "n < 10 \<Longrightarrow> n \<in> {0, 1, 2, 3, 4, 5, 6, 7, 8, 9 :: nat}"
  by auto

lemma digit_char_inj: "a < 10 \<Longrightarrow> b < 10 \<Longrightarrow> digit_char a = digit_char b \<Longrightarrow> a = b"
  by (drule less_10_cases, drule less_10_cases) (auto simp: digit_char_def)

lemma digit_char_less: "a < 10 \<Longrightarrow> b < 10 \<Longrightarrow> digit_char a < digit_char b \<longleftrightarrow> a < b"
  by (drule less_10_cases, drule less_10_cases) (auto simp: digit_char_def less_char_def)

lemma digit_char_not_minus: "a < 10 \<Longrightarrow> digit_char a \<noteq> CHR ''-''"
  by (drule less_10_cases) (auto simp: digit_char_def)

lemma digit_char_0: "digit_char 0 = CHR ''0''"
  by (simp add: digit_char_def)

lemma show_nat_nonempty [simp]: "show_nat n \<noteq> []" "[] \<noteq> show_nat n"
  by (subst show_nat.simps, simp)+

lemma show_nat_inj: "show_nat a = show_nat b \<Longrightarrow> a = b"
proof (induction a arbitrary: b rule: show_nat.induct)
  case (1 a)
  show ?case
  proof (cases "a < 10")
    case True
    with "1.prems" show ?thesis
      by (cases "b < 10")
        (auto simp: show_nat.simps [of a] show_nat.simps [of b] digit_char_inj)
  next
    case False
    with "1.prems" have b: "\<not> b < 10"
      by (auto simp: show_nat.simps [of a] show_nat.simps [of b])
    with False "1.prems" have eq: "show_nat (a div 10) = show_nat (b div 10)"
      and dig: "digit_char (a mod 10) = digit_char (b mod 10)"
      by (auto simp: show_nat.simps [of a] show_nat.simps [of b])
    from "1.IH" False eq have "a div 10 = b div 10" by blast
    moreover from dig have "a mod 10 = b mod 10"
      by (intro digit_char_inj) auto
    ultimately show ?thesis by (metis div_mult_mod_eq)
  qed
qed

lemma show_nat_no_minus: "CHR ''-'' \<notin> set (show_nat n)"
proof (induction n rule: show_nat.induct)
  case (1 n)
  show ?case
  proof (cases "n < 10")
    case True
    then show ?thesis using digit_char_not_minus [of n] by (auto simp: show_nat.simps [of n])
  next
    case False
    moreover have "digit_char (n mod 10) \<noteq> CHR ''-''" by (rule digit_char_not_minus) simp
    ultimately show ?thesis using 1 by (auto simp: show_nat.simps [of n])
  qed
qed

lemma show_int_inj: "show_int a = show_int b \<Longrightarrow> a = b"
proof -
  assume eq: "show_int a = show_int b"
  show "a = b"
  proof (cases "a < 0"; cases "b < 0")
    assume "a < 0" "b < 0"
    with eq show "a = b" by (auto simp: show_int_def dest!: show_nat_inj)
  next
    assume "a < 0" "\<not> b < 0"
    with eq have "CHR ''-'' # show_nat (nat (- a)) = show_nat (nat b)" by (simp add: show_int_def)
    with show_nat_no_minus [of "nat b"] show "a = b" by (metis list.set_intros(1))
  next
    assume "\<not> a < 0" "b < 0"
    with eq have "CHR ''-'' # show_nat (nat (- b)) = show_nat (nat a)" by (simp add: show_int_def)
    with show_nat_no_minus [of "nat a"] show "a = b" by (metis list.set_intros(1))
  next
    assume "\<not> a < 0" "\<not> b < 0"
    with eq show "a = b" by (auto simp: show_int_def dest!: show_nat_inj)
  qed
qed

lemma length_show_nat_2: "n < 100 \<Longrightarrow> length (show_nat n) \<le> 2"
  by (subst show_nat.simps, subst show_nat.simps) auto

lemma pad2: "n < 100 \<Longrightarrow> pad_start 2 (show_nat n) = [digit_char (n div 10), digit_char (n mod 10)]"
  by (cases "n < 10")
    (auto simp: pad_start_def digit_char_0 show_nat.simps [of n] show_nat.simps [of "n div 10"])

text \<open>The comparison of two lists of equal length prefixes, the order of the library's strings.\<close>

lemma less_append_same_length:
  fixes a c :: "'a::linorder list"
  assumes "length a = length c"
  shows "a @ b < c @ d \<longleftrightarrow> a < c \<or> a = c \<and> b < d"
  using assms by (induction a c rule: list_induct2) auto

subsection \<open>Sorting with a comparator\<close>

text \<open>
  \<open>xs.sort(cmp)\<close> of ECMAScript is stable: an element goes before the first one it does not
  compare greater than.
\<close>

fun js_insert :: "('a \<Rightarrow> 'a \<Rightarrow> int) \<Rightarrow> 'a \<Rightarrow> 'a list \<Rightarrow> 'a list" where
  "js_insert cmp x [] = [x]"
| "js_insert cmp x (y # ys) = (if cmp x y \<le> 0 then x # y # ys else y # js_insert cmp x ys)"

fun js_sort :: "('a \<Rightarrow> 'a \<Rightarrow> int) \<Rightarrow> 'a list \<Rightarrow> 'a list" where
  "js_sort cmp [] = []"
| "js_sort cmp (x # xs) = js_insert cmp x (js_sort cmp xs)"

lemma mset_js_insert [simp]: "mset (js_insert cmp x ys) = add_mset x (mset ys)"
  by (induction ys) auto

lemma mset_js_sort [simp]: "mset (js_sort cmp xs) = mset xs"
  by (induction xs) auto

lemma set_js_sort [simp]: "set (js_sort cmp xs) = set xs"
  by (metis mset_js_sort set_mset_mset)

lemma length_js_sort [simp]: "length (js_sort cmp xs) = length xs"
  by (metis mset_js_sort size_mset)

text \<open>Consecutive slices of \<open>Suc n\<close> elements, the last one possibly shorter.\<close>

function chunks :: "nat \<Rightarrow> 'a list \<Rightarrow> 'a list list" where
  "chunks n [] = []"
| "chunks n (x # xs) = take (Suc n) (x # xs) # chunks n (drop (Suc n) (x # xs))"
  by pat_completeness auto
termination by (relation "measure (\<lambda>(n, xs). length xs)") auto

lemma concat_chunks [simp]: "concat (chunks n xs) = xs"
  by (induction n xs rule: chunks.induct) (auto simp del: take_Suc_Cons drop_Suc_Cons)

lemma chunks_bounds: "c \<in> set (chunks n xs) \<Longrightarrow> c \<noteq> [] \<and> length c \<le> Suc n"
  by (induction n xs rule: chunks.induct) auto

lemma chunks_full: "chunks n xs = us @ c # bs \<Longrightarrow> bs \<noteq> [] \<Longrightarrow> length c = Suc n"
proof (induction n xs arbitrary: us rule: chunks.induct)
  case (1 n)
  then show ?case by simp
next
  case (2 n x xs)
  have "length c = Suc n" if us: "us = []"
  proof -
    have "c = take (Suc n) (x # xs)" "chunks n (drop (Suc n) (x # xs)) = bs" using us "2.prems"(1) by auto
    then show ?thesis using "2.prems"(2) by (cases "drop (Suc n) (x # xs)") (auto simp: min_def simp del: take_Suc_Cons)
  qed
  then show ?case using 2 by (cases us) auto
qed

text \<open>
  The contract of a comparator: a total preorder. Inside it, sorting yields a sorted
  permutation, and two inputs with the same elements sort to the same list whenever elements
  that compare equal are equal: the result then does not depend on the order of the input.
\<close>

locale comparator =
  fixes cmp :: "'a \<Rightarrow> 'a \<Rightarrow> int"
  assumes cmp_flip: "cmp x y \<le> 0 \<or> cmp y x \<le> 0"
    and cmp_trans: "cmp x y \<le> 0 \<Longrightarrow> cmp y z \<le> 0 \<Longrightarrow> cmp x z \<le> 0"
begin

abbreviation ordered :: "'a list \<Rightarrow> bool" where
  "ordered \<equiv> sorted_wrt (\<lambda>x y. cmp x y \<le> 0)"

lemma set_js_insert: "set (js_insert cmp x ys) = insert x (set ys)"
  by (induction ys) auto

lemma ordered_js_insert: "ordered ys \<Longrightarrow> ordered (js_insert cmp x ys)"
proof (induction ys)
  case Nil
  then show ?case by simp
next
  case (Cons y ys)
  then show ?case
    using cmp_flip [of x y] by (auto simp: set_js_insert intro: cmp_trans)
qed

lemma ordered_js_sort: "ordered (js_sort cmp xs)"
  by (induction xs) (auto simp: ordered_js_insert)

lemma ordered_mset_unique:
  assumes "mset xs = mset ys" "ordered xs" "ordered ys"
    and eq: "\<And>x y. x \<in> set xs \<Longrightarrow> y \<in> set xs \<Longrightarrow> cmp x y \<le> 0 \<Longrightarrow> cmp y x \<le> 0 \<Longrightarrow> x = y"
  shows "xs = ys"
  using assms
proof (induction xs arbitrary: ys)
  case Nil
  then show ?case by simp
next
  case (Cons x xs)
  from Cons.prems(1) obtain y zs where ys: "ys = y # zs"
    by (cases ys) auto
  from Cons.prems(1) ys have "x \<in> set (y # zs)" "y \<in> set (x # xs)"
    by (metis list.set_intros(1) set_mset_mset)+
  with Cons.prems(2,3) ys Cons.prems(4) [of x y] Cons.prems(4) [of y x] have "x = y"
    by auto
  moreover from this Cons.prems ys have "xs = zs"
    by (intro Cons.IH) auto
  ultimately show ?case using ys by simp
qed

lemma js_sort_input_order:
  assumes "mset xs = mset ys"
    and "\<And>x y. x \<in> set xs \<Longrightarrow> y \<in> set xs \<Longrightarrow> cmp x y \<le> 0 \<Longrightarrow> cmp y x \<le> 0 \<Longrightarrow> x = y"
  shows "js_sort cmp xs = js_sort cmp ys"
  using assms by (intro ordered_mset_unique) (auto simp: ordered_js_sort)

end

subsection \<open>Systems that keep an invariant\<close>

text \<open>
  Several services share one contract: a state, operations on it, and an invariant that every
  single admissible operation keeps. A run of admissible operations in any order then keeps it.
\<close>

fun run_ops :: "('s \<Rightarrow> 'op \<Rightarrow> 's) \<Rightarrow> 's \<Rightarrow> 'op list \<Rightarrow> 's" where
  "run_ops step s [] = s"
| "run_ops step s (x # xs) = run_ops step (step s x) xs"

locale invariant_system =
  fixes step :: "'s \<Rightarrow> 'op \<Rightarrow> 's" and inv :: "'s \<Rightarrow> bool" and ok :: "'op \<Rightarrow> bool"
  assumes step_inv: "inv s \<Longrightarrow> ok x \<Longrightarrow> inv (step s x)"
begin

lemma run_inv: "inv s \<Longrightarrow> list_all ok xs \<Longrightarrow> inv (run_ops step s xs)"
  by (induction xs arbitrary: s) (auto intro: step_inv)

lemma run_append: "run_ops step s (xs @ ys) = run_ops step (run_ops step s xs) ys"
  by (induction xs arbitrary: s) auto

end

end
