(* ===== verification/JsDate.thy ===== *)
theory JsDate
  imports Prelude
begin

text \<open>
  The part of ECMAScript's \<open>Date\<close> the source uses: the UTC calendar fields of an instant
  (\<open>getUTCFullYear\<close>, \<open>getUTCMonth\<close>, \<open>getUTCDate\<close>, \<open>getUTCDay\<close>,
  \<open>getUTCHours\<close>, \<open>getUTCMinutes\<close>) and \<open>Date.UTC\<close>, after the definitions of
  the language standard (\<open>DayFromYear\<close>, \<open>YearFromTime\<close>, \<open>MakeDay\<close>): the proleptic
  Gregorian calendar over all integers. The lemmas show the year function is the one the
  standard characterises, and that fields and day number determine each other.
\<close>

definition ms_per_day :: int where
  "ms_per_day = 86400000"

definition day_from_year :: "int \<Rightarrow> int" where
  "day_from_year y =
     365 * (y - 1970) + (y - 1969) div 4 - (y - 1901) div 100 + (y - 1601) div 400"

definition leap_year :: "int \<Rightarrow> bool" where
  "leap_year y \<longleftrightarrow> y mod 4 = 0 \<and> (y mod 100 \<noteq> 0 \<or> y mod 400 = 0)"

text \<open>
  \<open>YearFromTime\<close>: the largest year that starts on or before the day. The estimate from the
  mean year length is off by at most one, which the two comparisons correct.
\<close>

definition year_of_day :: "int \<Rightarrow> int" where
  "year_of_day d =
     (let y = 1970 + (400 * d) div 146097
      in if d < day_from_year y then y - 1
         else if day_from_year (y + 1) \<le> d then y + 1
         else y)"

definition month_starts :: "bool \<Rightarrow> int list" where
  "month_starts leap =
     (if leap then [0, 31, 60, 91, 121, 152, 182, 213, 244, 274, 305, 335]
      else [0, 31, 59, 90, 120, 151, 181, 212, 243, 273, 304, 334])"

definition year_length :: "bool \<Rightarrow> int" where
  "year_length leap = (if leap then 366 else 365)"

definition month_of_doy :: "bool \<Rightarrow> int \<Rightarrow> int" where
  "month_of_doy leap n = int (length (filter (\<lambda>s. s \<le> n) (month_starts leap))) - 1"

definition doy :: "int \<Rightarrow> int" where
  "doy d = d - day_from_year (year_of_day d)"

definition month_of_day :: "int \<Rightarrow> int" where
  "month_of_day d = month_of_doy (leap_year (year_of_day d)) (doy d)"

definition date_of_day :: "int \<Rightarrow> int" where
  "date_of_day d =
     doy d - month_starts (leap_year (year_of_day d)) ! nat (month_of_day d) + 1"

text \<open>The getters, on milliseconds. \<open>getUTCDay\<close>: the epoch was a Thursday (4).\<close>

definition get_utc_full_year :: "time \<Rightarrow> int" where
  "get_utc_full_year t = year_of_day (t div ms_per_day)"

definition get_utc_month :: "time \<Rightarrow> int" where
  "get_utc_month t = month_of_day (t div ms_per_day)"

definition get_utc_date :: "time \<Rightarrow> int" where
  "get_utc_date t = date_of_day (t div ms_per_day)"

definition get_utc_day :: "time \<Rightarrow> int" where
  "get_utc_day t = (t div ms_per_day + 4) mod 7"

definition get_utc_hours :: "time \<Rightarrow> int" where
  "get_utc_hours t = (t div 3600000) mod 24"

definition get_utc_minutes :: "time \<Rightarrow> int" where
  "get_utc_minutes t = (t div 60000) mod 60"

definition get_utc_seconds :: "time \<Rightarrow> int" where
  "get_utc_seconds t = (t div 1000) mod 60"

definition get_utc_milliseconds :: "time \<Rightarrow> int" where
  "get_utc_milliseconds t = t mod 1000"

text \<open>\<open>toISOString()\<close>: years outside 0..9999 have a sign and six digits.\<close>

definition iso_year :: "int \<Rightarrow> string" where
  "iso_year y = (if 0 \<le> y \<and> y \<le> 9999 then pad_start 4 (show_int y)
     else (if y < 0 then ''-'' else ''+'') @ pad_start 6 (show_int \<bar>y\<bar>))"

definition toISOString :: "time \<Rightarrow> string" where
  "toISOString t =
     iso_year (get_utc_full_year t) @ ''-'' @ pad_start 2 (show_int (get_utc_month t + 1)) @ ''-'' @
     pad_start 2 (show_int (get_utc_date t)) @ ''T'' @ pad_start 2 (show_int (get_utc_hours t)) @ '':'' @
     pad_start 2 (show_int (get_utc_minutes t)) @ '':'' @ pad_start 2 (show_int (get_utc_seconds t)) @ ''.'' @
     pad_start 3 (show_int (get_utc_milliseconds t)) @ ''Z''"

text \<open>
  \<open>MakeDay\<close>: a month outside 0..11 carries into the year, a date outside the month runs on.
  \<open>Date.UTC\<close> reads a year 0..99 as 19xx.
\<close>

definition make_day :: "int \<Rightarrow> int \<Rightarrow> int \<Rightarrow> int" where
  "make_day y m dt =
     (let y' = y + m div 12
      in day_from_year y' + month_starts (leap_year y') ! nat (m mod 12) + dt - 1)"

definition date_utc :: "int \<Rightarrow> int \<Rightarrow> int \<Rightarrow> time" where
  "date_utc y m dt = make_day (if 0 \<le> y \<and> y \<le> 99 then 1900 + y else y) m dt * ms_per_day"

subsection \<open>Years\<close>

lemma div_step:
  fixes x n :: int
  assumes "0 < n"
  shows "(x + 1) div n = x div n + (if (x + 1) mod n = 0 then 1 else 0)"
proof -
  define q r where "q = (x + 1) div n" and "r = (x + 1) mod n"
  have x: "x + 1 = n * q + r" and r: "0 \<le> r" "r < n"
    using assms by (auto simp: q_def r_def)
  show ?thesis
  proof (cases "r = 0")
    case True
    with x have "x = n * (q - 1) + (n - 1)" by (simp add: algebra_simps)
    with assms have "x div n = q - 1" by (intro int_div_pos_eq [of x n "q - 1" "n - 1"]) auto
    with True show ?thesis by (simp add: q_def r_def)
  next
    case False
    with x r have "x = n * q + (r - 1)" "0 \<le> r - 1" "r - 1 < n" by auto
    then have "x div n = q" by (intro int_div_pos_eq [of x n q "r - 1"]) auto
    with False show ?thesis by (simp add: q_def r_def)
  qed
qed
lemma mod_diff_dvd: "n dvd c \<Longrightarrow> (y - c) mod n = y mod (n::int)"
  by (metis mod_diff_right_eq dvd_imp_mod_0 diff_zero)

lemma mod_shift: "((y::int) - 1969 + 1) mod 4 = y mod 4"
  "((y::int) - 1901 + 1) mod 100 = y mod 100"
  "((y::int) - 1601 + 1) mod 400 = y mod 400"
  using mod_diff_dvd [of 4 1968 y] mod_diff_dvd [of 100 1900 y] mod_diff_dvd [of 400 1600 y] by simp_all

lemma mods: "(y::int) mod 100 = 0 \<Longrightarrow> y mod 4 = 0" "(y::int) mod 400 = 0 \<Longrightarrow> y mod 100 = 0"
  using dvd_trans [of 4 100 y] dvd_trans [of 100 400 y] by (simp_all flip: dvd_eq_mod_eq_0)

lemma day_from_year_Suc: "day_from_year (y + 1) = day_from_year y + year_length (leap_year y)"
proof -
  have e: "y + 1 - 1969 = (y - 1969) + 1" "y + 1 - 1901 = (y - 1901) + 1" "y + 1 - 1601 = (y - 1601) + 1"
    by simp_all
  have d4: "(y + 1 - 1969) div 4 = (y - 1969) div 4 + (if y mod 4 = 0 then 1 else 0)"
    using div_step [of 4 "y - 1969"] by (simp only: e mod_shift)
  have d100: "(y + 1 - 1901) div 100 = (y - 1901) div 100 + (if y mod 100 = 0 then 1 else 0)"
    using div_step [of 100 "y - 1901"] by (simp only: e mod_shift)
  have d400: "(y + 1 - 1601) div 400 = (y - 1601) div 400 + (if y mod 400 = 0 then 1 else 0)"
    using div_step [of 400 "y - 1601"] by (simp only: e mod_shift)
  have arith: "365 * (y + 1 - 1970) + (a + i) - (b + j) + (c + k)
      = 365 * (y - 1970) + a - b + c + (365 + i - j + k)" for a b c i j k :: int
    by simp
  have "day_from_year (y + 1) = day_from_year y + (365 + (if y mod 4 = 0 then 1 else 0)
      - (if y mod 100 = 0 then 1 else 0) + (if y mod 400 = 0 then 1 else 0))"
    unfolding day_from_year_def d4 d100 d400 by (rule arith)
  then show ?thesis using mods [of y] by (auto simp only: leap_year_def year_length_def split: if_splits)
qed

lemma div_bounds: 
  assumes "0 < (n::int)" shows "n * (x div n) \<le> x" "x < n * (x div n) + n"
  using assms mult_div_mod_eq [of n x] pos_mod_bound [of n x] pos_mod_sign [of n x] by linarith+

lemma day_from_year_mono: "y \<le> z \<Longrightarrow> day_from_year y \<le> day_from_year z"
proof (induction z rule: int_ge_induct)
  case base then show ?case by simp
next
  case (step z) then show ?case by (simp add: day_from_year_Suc year_length_def)
qed

lemma day_from_year_bounds:
  "146097 * (y - 1970) - 400 * 2 \<le> 400 * day_from_year y \<and> 400 * day_from_year y \<le> 146097 * (y - 1970) + 400 * 2"
  using div_bounds [of 4 "y - 1969"] div_bounds [of 100 "y - 1901"] div_bounds [of 400 "y - 1601"]
  unfolding day_from_year_def by auto

lemma year_of_day_bounds:
  "day_from_year (year_of_day d) \<le> d \<and> d < day_from_year (year_of_day d + 1)"
proof -
  define y where "y = 1970 + (400 * d) div 146097"
  have y: "146097 * (y - 1970) \<le> 400 * d" "400 * d < 146097 * (y - 1970) + 146097"
    using div_bounds [of 146097 "400 * d"] by (auto simp: y_def)
  have lo: "day_from_year (y - 1) \<le> d"
    using day_from_year_bounds [of "y - 1"] y by simp
  have hi: "d < day_from_year (y + 1 + 1)"
    using day_from_year_bounds [of "y + 1 + 1"] y by simp
  show ?thesis
    using lo hi by (auto simp: year_of_day_def Let_def simp flip: y_def)
qed

text \<open>The standard's characterisation determines the year.\<close>

lemma year_of_day_unique:
  assumes "day_from_year y \<le> d" "d < day_from_year (y + 1)"
  shows "year_of_day d = y"
proof (rule antisym)
  show "year_of_day d \<le> y"
    using year_of_day_bounds [of d] assms day_from_year_mono [of "y + 1" "year_of_day d"] by fastforce
  show "y \<le> year_of_day d"
    using year_of_day_bounds [of d] assms day_from_year_mono [of "year_of_day d + 1" y] by fastforce
qed

subsection \<open>Months and dates\<close>

definition month_length :: "bool \<Rightarrow> int \<Rightarrow> int" where
  "month_length leap m = (if m = 11 then 31 else month_starts leap ! nat (m + 1) - month_starts leap ! nat m)"

lemma doy_bounds: "0 \<le> doy d" "doy d < year_length (leap_year (year_of_day d))"
  using year_of_day_bounds [of d] by (auto simp: doy_def day_from_year_Suc)

lemma less_12_cases: "0 \<le> m \<Longrightarrow> m \<le> 11 \<Longrightarrow> m \<in> {0, 1, 2, 3, 4, 5, 6, 7, 8, 9, 10, 11 :: int}"
  by simp presburger

lemma month_of_doy_bounds:
  assumes "0 \<le> n" "n < year_length leap"
  shows "0 \<le> month_of_doy leap n \<and> month_of_doy leap n \<le> 11
    \<and> month_starts leap ! nat (month_of_doy leap n) \<le> n
    \<and> n < month_starts leap ! nat (month_of_doy leap n) + month_length leap (month_of_doy leap n)"
  using assms
  by (cases leap)
    (auto simp: month_of_doy_def month_starts_def year_length_def month_length_def split: if_splits)

lemma month_of_doy_unique:
  assumes "0 \<le> m" "m \<le> 11" "month_starts leap ! nat m \<le> n"
    "n < month_starts leap ! nat m + month_length leap m"
  shows "month_of_doy leap n = m"
  using less_12_cases [OF assms(1,2)] assms(3,4)
  by (cases leap) (auto simp: month_of_doy_def month_starts_def month_length_def)

lemma month_starts_in_year:
  assumes "0 \<le> m" "m \<le> 11"
  shows "0 \<le> month_starts leap ! nat m"
    "month_starts leap ! nat m + month_length leap m \<le> year_length leap"
    "28 \<le> month_length leap m" "month_length leap m \<le> 31"
  using less_12_cases [OF assms]
  by (cases leap; auto simp: month_starts_def month_length_def year_length_def)+

definition valid_civil :: "int \<Rightarrow> int \<Rightarrow> int \<Rightarrow> bool" where
  "valid_civil y m dt \<longleftrightarrow>
     0 \<le> m \<and> m \<le> 11 \<and> 1 \<le> dt \<and> dt \<le> month_length (leap_year y) m"

lemma make_day_simple:
  "0 \<le> m \<Longrightarrow> m \<le> 11 \<Longrightarrow>
   make_day y m dt = day_from_year y + month_starts (leap_year y) ! nat m + dt - 1"
  by (simp add: make_day_def)

text \<open>The fields of a day are a valid date, and determine the day.\<close>

lemma civil_valid: "valid_civil (year_of_day d) (month_of_day d) (date_of_day d)"
  using month_of_doy_bounds [of "doy d" "leap_year (year_of_day d)"] doy_bounds [of d]
  by (auto simp: valid_civil_def month_of_day_def date_of_day_def)

lemma make_day_civil: "make_day (year_of_day d) (month_of_day d) (date_of_day d) = d"
  using civil_valid [of d]
  by (simp add: valid_civil_def make_day_simple date_of_day_def doy_def)

lemma civil_make_day:
  assumes "valid_civil y m dt"
  shows "year_of_day (make_day y m dt) = y"
    and "month_of_day (make_day y m dt) = m"
    and "date_of_day (make_day y m dt) = dt"
proof -
  let ?l = "leap_year y" and ?d = "make_day y m dt"
  from assms have m: "0 \<le> m" "m \<le> 11" and dt: "1 \<le> dt" "dt \<le> month_length ?l m"
    by (auto simp: valid_civil_def)
  have d: "?d = day_from_year y + (month_starts ?l ! nat m + dt - 1)"
    using m by (simp add: make_day_simple)
  show y: "year_of_day ?d = y"
    using d dt month_starts_in_year [OF m, of ?l]
    by (intro year_of_day_unique) (auto simp: day_from_year_Suc)
  have n: "doy ?d = month_starts ?l ! nat m + dt - 1"
    unfolding doy_def y by (simp add: d)
  show mo: "month_of_day ?d = m"
    unfolding month_of_day_def y n using m dt by (intro month_of_doy_unique) auto
  show "date_of_day ?d = dt"
    by (simp add: date_of_day_def mo y n)
qed

lemma civil_inj:
  "year_of_day a = year_of_day b \<Longrightarrow> month_of_day a = month_of_day b \<Longrightarrow>
   date_of_day a = date_of_day b \<Longrightarrow> a = b"
  by (metis make_day_civil)

lemma month_date_small:
  "0 \<le> month_of_day d" "month_of_day d \<le> 11" "1 \<le> date_of_day d" "date_of_day d \<le> 31"
  using civil_valid [of d] month_starts_in_year [of "month_of_day d" "leap_year (year_of_day d)"]
  by (auto simp: valid_civil_def)

subsection \<open>The order of dates\<close>

text \<open>Days are ordered as their (year, month, date) triples are, lexicographically.\<close>

lemma year_of_day_mono: "a \<le> b \<Longrightarrow> year_of_day a \<le> year_of_day b"
  using year_of_day_bounds [of a] year_of_day_bounds [of b]
    day_from_year_mono [of "year_of_day b + 1" "year_of_day a"] by fastforce

lemma length_filter_mono:
  "(\<And>x. P x \<Longrightarrow> Q x) \<Longrightarrow> length (filter P xs) \<le> length (filter Q xs)"
  by (induction xs) (auto simp: le_Suc_eq)

lemma month_of_doy_mono: "m \<le> n \<Longrightarrow> month_of_doy leap m \<le> month_of_doy leap n"
  using length_filter_mono [of "\<lambda>s. s \<le> m" "\<lambda>s. s \<le> n" "month_starts leap"]
  by (simp add: month_of_doy_def)

definition date_less :: "int \<times> int \<times> int \<Rightarrow> int \<times> int \<times> int \<Rightarrow> bool" where
  "date_less a b \<longleftrightarrow> (case (a, b) of ((y, m, dt), (y', m', dt')) \<Rightarrow>
     y < y' \<or> y = y' \<and> (m < m' \<or> m = m' \<and> dt < dt'))"

definition civil :: "int \<Rightarrow> int \<times> int \<times> int" where
  "civil d = (year_of_day d, month_of_day d, date_of_day d)"

lemma civil_less_mono:
  assumes "a < b"
  shows "date_less (civil a) (civil b)"
proof (cases "year_of_day a = year_of_day b")
  case False
  with year_of_day_mono [of a b] assms show ?thesis by (simp add: date_less_def civil_def)
next
  case True
  then have doy: "doy a < doy b" using assms by (simp add: doy_def)
  have le: "month_of_day a \<le> month_of_day b"
    unfolding month_of_day_def True using doy by (intro month_of_doy_mono) simp
  show ?thesis
  proof (cases "month_of_day a = month_of_day b")
    case False
    with True le show ?thesis by (simp add: date_less_def civil_def)
  next
    case eq: True
    with doy True have "date_of_day a < date_of_day b" by (simp add: date_of_day_def)
    with True eq show ?thesis by (simp add: date_less_def civil_def)
  qed
qed

lemma date_less_civil_iff: "date_less (civil a) (civil b) \<longleftrightarrow> a < b"
  using civil_less_mono [of a b] civil_less_mono [of b a]
  by (cases a b rule: linorder_cases) (auto simp: date_less_def civil_def)

end
