(* ===== verification/BangkokTime.thy ===== *)
theory BangkokTime
  imports JsDate
begin

text \<open>
  Bangkok wall-clock arithmetic and the texts built from it:
  \<open>src/src/bookings/booking-code.ts\<close> (the day a booking number is counted in and its printed
  form), \<open>booking-window.ts\<close> (the calendar window three endpoints share) and
  \<open>booking-time-text.ts\<close> (Thai dates, clock times, the description of a set of slots).
  Thai literals are their UTF-8 bytes.
\<close>

subsection \<open>Constants and refusals\<close>

definition BANGKOK_UTC_OFFSET_MINUTES :: int where
  "BANGKOK_UTC_OFFSET_MINUTES = 420"

definition BUDDHIST_ERA_OFFSET :: int where
  "BUDDHIST_ERA_OFFSET = 543"

definition BOOKING_CODE_PREFIX :: string where
  "BOOKING_CODE_PREFIX = ''BR''"

definition BOOKING_CODE_SEQUENCE_WIDTH :: nat where
  "BOOKING_CODE_SEQUENCE_WIDTH = 3"

definition AVAILABILITY_MAX_DAYS :: int where
  "AVAILABILITY_MAX_DAYS = 366"

lemmas time_constants =
  BANGKOK_UTC_OFFSET_MINUTES_def BUDDHIST_ERA_OFFSET_def ms_per_day_def

subsection \<open>The Bangkok day and the booking number\<close>

definition inBangkok :: "time \<Rightarrow> time" where
  "inBangkok at = at + BANGKOK_UTC_OFFSET_MINUTES * 60000"

definition bookingCodeDatePart :: "time \<Rightarrow> string" where
  "bookingCodeDatePart at =
     (let local = inBangkok at;
          year = get_utc_full_year local + BUDDHIST_ERA_OFFSET;
          month = pad_start 2 (show_int (get_utc_month local + 1));
          day = pad_start 2 (show_int (get_utc_date local))
      in show_int year @ month @ day)"

definition bangkokDayRange :: "time \<Rightarrow> time \<times> time" where
  "bangkokDayRange at =
     (let local = inBangkok at;
          midnightLocal = date_utc (get_utc_full_year local) (get_utc_month local)
                            (get_utc_date local);
          start = midnightLocal - BANGKOK_UTC_OFFSET_MINUTES * 60000
      in (start, start + 86400000))"

definition formatBookingCode :: "time \<Rightarrow> nat \<Rightarrow> string" where
  "formatBookingCode at sameDayCount =
     (let seq = pad_start BOOKING_CODE_SEQUENCE_WIDTH (show_nat (sameDayCount + 1))
      in BOOKING_CODE_PREFIX @ ''-'' @ bookingCodeDatePart at @ ''-'' @ seq)"

subsection \<open>The calendar window\<close>

datatype window_message = AVAILABILITY_RANGE_INVALID | AVAILABILITY_RANGE_TOO_WIDE

text \<open>
  \<open>from\<close> and \<open>to\<close> are the query's texts, \<open>parse\<close> is \<open>new Date(text)\<close>; \<open>None\<close>
  or an empty text is an absent parameter (JavaScript's falsy test). Comparisons with an Invalid
  Date are false, so such a window is returned as it is.
\<close>

definition date_of_query :: "(string \<Rightarrow> js_date) \<Rightarrow> string option \<Rightarrow> time \<Rightarrow> js_date" where
  "date_of_query parse q dflt =
     (case q of None \<Rightarrow> Some dflt | Some s \<Rightarrow> if s = [] then Some dflt else parse s)"

definition js_minus_greater :: "js_date \<Rightarrow> js_date \<Rightarrow> int \<Rightarrow> bool" where
  "js_minus_greater a b n = (case (a, b) of (Some x, Some y) \<Rightarrow> x - y > n | _ \<Rightarrow> False)"

definition resolveWindow ::
  "(string \<Rightarrow> js_date) \<Rightarrow> time \<Rightarrow> string option \<Rightarrow> string option \<Rightarrow> window_message + (js_date \<times> js_date)"
where
  "resolveWindow parse now qfrom qto =
     (let offset = BANGKOK_UTC_OFFSET_MINUTES * 60000;
          nowLocal = now + offset;
          monthStart = date_utc (get_utc_full_year nowLocal) (get_utc_month nowLocal) 1 - offset;
          monthEnd = date_utc (get_utc_full_year nowLocal) (get_utc_month nowLocal + 1) 1 - offset;
          from = date_of_query parse qfrom monthStart;
          to = date_of_query parse qto monthEnd
      in if js_less to from then Inl AVAILABILITY_RANGE_INVALID
         else if js_minus_greater to from (AVAILABILITY_MAX_DAYS * 86400000)
         then Inl AVAILABILITY_RANGE_TOO_WIDE
         else Inr (from, to))"

subsection \<open>Thai dates and slot descriptions\<close>

definition THAI_MONTHS_SHORT :: "string list" where
  "THAI_MONTHS_SHORT =
     [[CHR 0xE0, CHR 0xB8, CHR 0xA1, CHR 0x2E, CHR 0xE0, CHR 0xB8, CHR 0x84, CHR 0x2E],
      [CHR 0xE0, CHR 0xB8, CHR 0x81, CHR 0x2E, CHR 0xE0, CHR 0xB8, CHR 0x9E, CHR 0x2E],
      [CHR 0xE0, CHR 0xB8, CHR 0xA1, CHR 0xE0, CHR 0xB8, CHR 0xB5, CHR 0x2E, CHR 0xE0, CHR 0xB8,
      CHR 0x84, CHR 0x2E],
      [CHR 0xE0, CHR 0xB9, CHR 0x80, CHR 0xE0, CHR 0xB8, CHR 0xA1, CHR 0x2E, CHR 0xE0, CHR 0xB8,
      CHR 0xA2, CHR 0x2E],
      [CHR 0xE0, CHR 0xB8, CHR 0x9E, CHR 0x2E, CHR 0xE0, CHR 0xB8, CHR 0x84, CHR 0x2E],
      [CHR 0xE0, CHR 0xB8, CHR 0xA1, CHR 0xE0, CHR 0xB8, CHR 0xB4, CHR 0x2E, CHR 0xE0, CHR 0xB8,
      CHR 0xA2, CHR 0x2E],
      [CHR 0xE0, CHR 0xB8, CHR 0x81, CHR 0x2E, CHR 0xE0, CHR 0xB8, CHR 0x84, CHR 0x2E],
      [CHR 0xE0, CHR 0xB8, CHR 0xAA, CHR 0x2E, CHR 0xE0, CHR 0xB8, CHR 0x84, CHR 0x2E],
      [CHR 0xE0, CHR 0xB8, CHR 0x81, CHR 0x2E, CHR 0xE0, CHR 0xB8, CHR 0xA2, CHR 0x2E],
      [CHR 0xE0, CHR 0xB8, CHR 0x95, CHR 0x2E, CHR 0xE0, CHR 0xB8, CHR 0x84, CHR 0x2E],
      [CHR 0xE0, CHR 0xB8, CHR 0x9E, CHR 0x2E, CHR 0xE0, CHR 0xB8, CHR 0xA2, CHR 0x2E],
      [CHR 0xE0, CHR 0xB8, CHR 0x98, CHR 0x2E, CHR 0xE0, CHR 0xB8, CHR 0x84, CHR 0x2E]]"

definition thaiShortDate :: "time \<Rightarrow> string" where
  "thaiShortDate at =
     (let local = inBangkok at
      in show_int (get_utc_date local) @ '' '' @ THAI_MONTHS_SHORT ! nat (get_utc_month local)
           @ '' '' @ show_int (get_utc_full_year local + BUDDHIST_ERA_OFFSET))"

definition bangkokClock :: "time \<Rightarrow> string" where
  "bangkokClock at =
     (let local = inBangkok at;
          hh = pad_start 2 (show_int (get_utc_hours local));
          mm = pad_start 2 (show_int (get_utc_minutes local))
      in hh @ '':'' @ mm)"

record slot_times =
  st_startAt :: time
  st_endAt :: time

text \<open>A JavaScript \<open>Set\<close> built from a list keeps first occurrences, in order.\<close>

definition js_set :: "'a list \<Rightarrow> 'a list" where
  "js_set xs = rev (remdups (rev xs))"

fun js_join :: "string \<Rightarrow> string list \<Rightarrow> string" where
  "js_join sep [] = []"
| "js_join sep [x] = x"
| "js_join sep (x # xs) = x @ sep @ js_join sep xs"

definition cmp_start :: "slot_times \<Rightarrow> slot_times \<Rightarrow> int" where
  "cmp_start a b = st_startAt a - st_startAt b"

definition slot_dates :: "slot_times list \<Rightarrow> string list" where
  "slot_dates slots = js_set (map (\<lambda>s. thaiShortDate (st_startAt s)) (js_sort cmp_start slots))"

definition slot_periods :: "slot_times list \<Rightarrow> string list" where
  "slot_periods slots =
     js_set (map (\<lambda>s. bangkokClock (st_startAt s) @ '' - '' @ bangkokClock (st_endAt s)) slots)"

record slots_text =
  dateText :: string
  dateSummary :: string
  periodText :: string

definition describeSlots :: "slot_times list \<Rightarrow> slots_text" where
  "describeSlots slots =
     (if slots = [] then \<lparr>dateText = ''-'', dateSummary = ''-'', periodText = ''-''\<rparr>
      else
        (let dates = slot_dates slots;
             periods = slot_periods slots
         in \<lparr>dateText =
               (if length dates = 1 then hd dates
                else js_join [CHR 0x0A] (map (\<lambda>d. [CHR 0xE2, CHR 0x80, CHR 0xA2, CHR 0x20] @ d) dates)),
             dateSummary =
               (if length dates = 1 then hd dates
                else hd dates @ '' - '' @ last dates @
                  [CHR 0x20, CHR 0x28, CHR 0xE0, CHR 0xB8, CHR 0xA3, CHR 0xE0, CHR 0xB8, CHR 0xA7, CHR 0xE0,
      CHR 0xB8, CHR 0xA1, CHR 0x20] @
                  show_nat (length dates) @
                  [CHR 0x20, CHR 0xE0, CHR 0xB8, CHR 0xA7, CHR 0xE0, CHR 0xB8, CHR 0xB1, CHR 0xE0, CHR 0xB8,
      CHR 0x99, CHR 0x29]),
             periodText =
               (if length periods = 1 then hd periods @
                  [CHR 0x20, CHR 0xE0, CHR 0xB8, CHR 0x99, CHR 0x2E]
                else
                  [CHR 0xE0, CHR 0xB8, CHR 0xAB, CHR 0xE0, CHR 0xB8, CHR 0xA5, CHR 0xE0, CHR 0xB8, CHR 0xB2,
      CHR 0xE0, CHR 0xB8, CHR 0xA2, CHR 0xE0, CHR 0xB8, CHR 0x8A, CHR 0xE0, CHR 0xB9, CHR
      0x88, CHR 0xE0, CHR 0xB8, CHR 0xA7, CHR 0xE0, CHR 0xB8, CHR 0x87, CHR 0xE0, CHR 0xB9,
      CHR 0x80, CHR 0xE0, CHR 0xB8, CHR 0xA7, CHR 0xE0, CHR 0xB8, CHR 0xA5, CHR 0xE0, CHR
      0xB8, CHR 0xB2])\<rparr>))"

subsection \<open>Printing is injective\<close>

definition digit_value :: "char \<Rightarrow> nat" where
  "digit_value c = of_char c - 48"

definition read_nat :: "string \<Rightarrow> nat" where
  "read_nat s = foldl (\<lambda>n c. 10 * n + digit_value c) 0 s"

lemma digit_value_digit_char: "n < 10 \<Longrightarrow> digit_value (digit_char n) = n"
  by (drule less_10_cases) (auto simp: digit_char_def digit_value_def)

lemma read_nat_append_digit:
  "n < 10 \<Longrightarrow> read_nat (s @ [digit_char n]) = 10 * read_nat s + n"
  by (simp add: read_nat_def digit_value_digit_char)

lemma read_show_nat: "read_nat (show_nat n) = n"
proof (induction n rule: show_nat.induct)
  case (1 n)
  show ?case
  proof (cases "n < 10")
    case True
    then show ?thesis using read_nat_append_digit [of n "[]"]
      by (simp add: show_nat.simps [of n] read_nat_def)
  next
    case False
    with 1 have "read_nat (show_nat (n div 10)) = n div 10" by blast
    with False show ?thesis by (simp add: show_nat.simps [of n] read_nat_append_digit)
  qed
qed

lemma read_nat_zeros: "read_nat (replicate k (CHR ''0'') @ s) = read_nat s"
proof (induction k)
  case 0
  then show ?case by simp
next
  case (Suc k)
  have "digit_value (CHR ''0'') = 0" using digit_value_digit_char [of 0] by (simp add: digit_char_0)
  then have "read_nat (CHR ''0'' # t) = read_nat t" for t by (simp add: read_nat_def)
  with Suc show ?case by simp
qed

lemma read_pad_start: "read_nat (pad_start w (show_nat n)) = n"
  by (simp add: pad_start_def read_nat_zeros read_show_nat)

lemma show_int_nonneg: "0 \<le> i \<Longrightarrow> show_int i = show_nat (nat i)"
  by (simp add: show_int_def)

lemma length_pad2: "0 \<le> i \<Longrightarrow> i < 100 \<Longrightarrow> length (pad_start 2 (show_int i)) = 2"
  by (simp add: show_int_nonneg pad2)

lemma pad2_inj:
  assumes "0 \<le> i" "0 \<le> j" "pad_start w (show_int i) = pad_start w (show_int j)"
  shows "i = j"
proof -
  from assms(3) have "pad_start w (show_nat (nat i)) = pad_start w (show_nat (nat j))"
    by (simp only: show_int_nonneg assms(1,2))
  then have "nat i = nat j" by (metis read_pad_start)
  with assms(1,2) show ?thesis by simp
qed

subsection \<open>Days, ranges and labels agree\<close>

definition bangkok_day :: "time \<Rightarrow> int" where
  "bangkok_day at = inBangkok at div ms_per_day"

lemma local_fields:
  "get_utc_full_year (inBangkok at) = year_of_day (bangkok_day at)"
  "get_utc_month (inBangkok at) = month_of_day (bangkok_day at)"
  "get_utc_date (inBangkok at) = date_of_day (bangkok_day at)"
  by (simp_all add: get_utc_full_year_def get_utc_month_def get_utc_date_def bangkok_day_def)

lemma append3_inj:
  assumes "x @ a @ b = x' @ a' @ b'" "length a = length a'" "length b = length b'"
  shows "x = x'" "a = a'" "b = b'"
  using assms by auto

lemma bookingCodeDatePart_eq_iff:
  "bookingCodeDatePart a = bookingCodeDatePart b \<longleftrightarrow> bangkok_day a = bangkok_day b"
proof
  assume eq: "bookingCodeDatePart a = bookingCodeDatePart b"
  let ?m = "\<lambda>t. pad_start 2 (show_int (month_of_day (bangkok_day t) + 1))"
  let ?d = "\<lambda>t. pad_start 2 (show_int (date_of_day (bangkok_day t)))"
  have len: "length (?m t) = 2" "length (?d t) = 2" for t
    using month_date_small [of "bangkok_day t"] by (auto intro: length_pad2)
  from eq have eq': "show_int (year_of_day (bangkok_day a) + BUDDHIST_ERA_OFFSET) @ ?m a @ ?d a =
      show_int (year_of_day (bangkok_day b) + BUDDHIST_ERA_OFFSET) @ ?m b @ ?d b"
    by (simp only: bookingCodeDatePart_def Let_def local_fields)
  have parts: "show_int (year_of_day (bangkok_day a) + BUDDHIST_ERA_OFFSET) =
      show_int (year_of_day (bangkok_day b) + BUDDHIST_ERA_OFFSET)" "?m a = ?m b" "?d a = ?d b"
    by (rule append3_inj [OF eq']; simp only: len)+
  have small: "0 \<le> month_of_day (bangkok_day t) + 1" "0 \<le> date_of_day (bangkok_day t)" for t
    using month_date_small [of "bangkok_day t"] by auto
  from parts(1) have "year_of_day (bangkok_day a) = year_of_day (bangkok_day b)"
    by (auto dest: show_int_inj)
  moreover from pad2_inj [OF small(1) small(1) parts(2)]
  have "month_of_day (bangkok_day a) = month_of_day (bangkok_day b)" by simp
  moreover from pad2_inj [OF small(2) small(2) parts(3)]
  have "date_of_day (bangkok_day a) = date_of_day (bangkok_day b)" .
  ultimately show "bangkok_day a = bangkok_day b" by (rule civil_inj)
next
  assume "bangkok_day a = bangkok_day b"
  then show "bookingCodeDatePart a = bookingCodeDatePart b"
    by (simp add: bookingCodeDatePart_def Let_def local_fields)
qed

text \<open>A year printed and parsed as 19xx is the one corner of \<open>Date.UTC\<close>.\<close>

lemma date_utc_local:
  assumes "99 < year_of_day d \<or> year_of_day d < 0"
  shows "date_utc (year_of_day d) (month_of_day d) (date_of_day d) = d * ms_per_day"
  using assms by (auto simp: date_utc_def make_day_civil)

lemma bangkokDayRange_eq:
  assumes "99 < get_utc_full_year (inBangkok at) \<or> get_utc_full_year (inBangkok at) < 0"
  shows "bangkokDayRange at =
    (bangkok_day at * ms_per_day - 25200000, (bangkok_day at + 1) * ms_per_day - 25200000)"
  using assms
  by (simp add: bangkokDayRange_def Let_def local_fields date_utc_local time_constants algebra_simps)

lemma in_bangkok_day_iff:
  "d * ms_per_day - 25200000 \<le> t \<and> t < (d + 1) * ms_per_day - 25200000 \<longleftrightarrow> bangkok_day t = d"
proof -
  have "bangkok_day t = d \<longleftrightarrow> d * ms_per_day \<le> inBangkok t \<and> inBangkok t < (d + 1) * ms_per_day"
    using div_bounds [of ms_per_day "inBangkok t"]
      int_div_pos_eq [of "inBangkok t" ms_per_day d "inBangkok t - ms_per_day * d"]
    by (auto simp: bangkok_day_def ms_per_day_def algebra_simps)
  then show ?thesis by (auto simp: inBangkok_def time_constants)
qed

text \<open>
  The day a booking number is counted in is exactly the day printed in it: an instant lies
  in the half-open range \<open>bangkokDayRange at\<close> if and only if its date part is the one of
  \<open>at\<close>.
\<close>

theorem day_range_agrees_with_label:
  assumes "99 < get_utc_full_year (inBangkok at)"
  shows "fst (bangkokDayRange at) \<le> t \<and> t < snd (bangkokDayRange at) \<longleftrightarrow>
    bookingCodeDatePart t = bookingCodeDatePart at"
  using assms by (simp add: bangkokDayRange_eq bookingCodeDatePart_eq_iff in_bangkok_day_iff)

theorem day_range_agrees_with_label_witness:
  "bookingCodeDatePart 1788370200000 = ''25690903'' \<and>
   bookingCodeDatePart 1788368399999 \<noteq> bookingCodeDatePart 1788370200000"
proof -
  have y: "99 < get_utc_full_year (inBangkok 1788370200000)" by code_simp
  have r: "\<not> fst (bangkokDayRange 1788370200000) \<le> 1788368399999" by code_simp
  have "bookingCodeDatePart 1788370200000 = ''25690903''" by code_simp
  then show ?thesis using day_range_agrees_with_label [OF y, of 1788368399999] r by simp
qed

subsection \<open>Booking numbers are injective\<close>

lemma show_nat_digits: "c \<in> set (show_nat n) \<Longrightarrow> \<exists>k < 10. c = digit_char k"
proof (induction n rule: show_nat.induct)
  case (1 n)
  show ?case
  proof (cases "n < 10")
    case True
    with "1.prems" show ?thesis by (auto simp: show_nat.simps [of n])
  next
    case False
    with "1.prems" consider "c \<in> set (show_nat (n div 10))" | "c = digit_char (n mod 10)"
      by (auto simp: show_nat.simps [of n])
    then show ?thesis
    proof cases
      case 1
      with "1.IH" False show ?thesis by blast
    next
      case 2
      then show ?thesis by (intro exI [of _ "n mod 10"]) simp
    qed
  qed
qed

lemma pad_show_no_minus: "CHR ''-'' \<notin> set (pad_start w (show_nat n))"
  using show_nat_no_minus [of n] by (auto simp: pad_start_def)

lemma date_part_no_minus:
  assumes "0 \<le> get_utc_full_year (inBangkok at) + BUDDHIST_ERA_OFFSET"
  shows "CHR ''-'' \<notin> set (bookingCodeDatePart at)"
  using assms month_date_small [of "bangkok_day at"] show_nat_no_minus
  by (simp add: bookingCodeDatePart_def Let_def local_fields show_int_nonneg pad_show_no_minus)

text \<open>
  The printed booking number determines the Bangkok day and the position in that day's
  sequence: two requests get the same number only if they were counted at the same position of
  the same day. The sequence field widens past 999 instead of wrapping.
\<close>

theorem booking_code_injective:
  assumes "0 \<le> get_utc_full_year (inBangkok a) + BUDDHIST_ERA_OFFSET"
    and "0 \<le> get_utc_full_year (inBangkok b) + BUDDHIST_ERA_OFFSET"
  shows "formatBookingCode a m = formatBookingCode b n \<longleftrightarrow>
    bookingCodeDatePart a = bookingCodeDatePart b \<and> m = n"
proof -
  let ?seq = "\<lambda>n. pad_start BOOKING_CODE_SEQUENCE_WIDTH (show_nat (n + 1))"
  have seq: "?seq m = ?seq n \<longleftrightarrow> m = n"
    by (metis add_right_cancel read_pad_start)
  have "formatBookingCode a m = formatBookingCode b n \<longleftrightarrow>
      bookingCodeDatePart a @ CHR ''-'' # ?seq m = bookingCodeDatePart b @ CHR ''-'' # ?seq n"
    by (simp add: formatBookingCode_def)
  also have "\<dots> \<longleftrightarrow> bookingCodeDatePart a = bookingCodeDatePart b \<and> ?seq m = ?seq n"
    using date_part_no_minus [OF assms(1)] pad_show_no_minus [of BOOKING_CODE_SEQUENCE_WIDTH "m + 1"]
    by (intro append_Cons_eq_iff)
  finally show ?thesis by (simp only: seq)
qed

theorem booking_code_injective_witness:
  "formatBookingCode 1788370200000 0 = ''BR-25690903-001'' \<and>
   formatBookingCode 1788370200000 999 = ''BR-25690903-1000'' \<and>
   formatBookingCode 1788370200000 999 \<noteq> formatBookingCode 1788370200000 99"
proof -
  have y: "0 \<le> get_utc_full_year (inBangkok 1788370200000) + BUDDHIST_ERA_OFFSET" by code_simp
  have "formatBookingCode 1788370200000 0 = ''BR-25690903-001''"
    "formatBookingCode 1788370200000 999 = ''BR-25690903-1000''"
    by code_simp+
  with booking_code_injective [OF y y, of 999 99] show ?thesis by simp
qed

subsection \<open>The calendar window\<close>

lemma window_bounds:
  "resolveWindow parse now qf qt = Inr (Some f, Some t) \<Longrightarrow>
   f \<le> t \<and> t - f \<le> AVAILABILITY_MAX_DAYS * 86400000"
  by (auto simp: resolveWindow_def Let_def js_minus_greater_def split: if_splits)

definition month_first :: "int \<Rightarrow> int" where
  "month_first d = make_day (year_of_day d) (month_of_day d) 1"

definition month_next :: "int \<Rightarrow> int" where
  "month_next d = make_day (year_of_day d) (month_of_day d + 1) 1"

lemma month_next_eq:
  "month_next d = month_first d + month_length (leap_year (year_of_day d)) (month_of_day d)"
proof (cases "month_of_day d = 11")
  case True
  then show ?thesis
    by (simp add: month_next_def month_first_def make_day_def Let_def day_from_year_Suc month_length_def
        year_length_def month_starts_def)
next
  case False
  with month_date_small [of d] show ?thesis
    by (simp add: month_next_def month_first_def make_day_simple month_length_def)
qed

lemma in_month_iff:
  "month_first d \<le> e \<and> e < month_next d \<longleftrightarrow>
   year_of_day e = year_of_day d \<and> month_of_day e = month_of_day d"
proof
  assume e: "month_first d \<le> e \<and> e < month_next d"
  let ?dt = "e - month_first d + 1"
  have m: "0 \<le> month_of_day d" "month_of_day d \<le> 11" using month_date_small [of d] by auto
  have "valid_civil (year_of_day d) (month_of_day d) ?dt"
    using e m by (simp add: valid_civil_def month_next_eq)
  moreover have "make_day (year_of_day d) (month_of_day d) ?dt = e"
    using m by (simp add: make_day_simple month_first_def)
  ultimately show "year_of_day e = year_of_day d \<and> month_of_day e = month_of_day d"
    using civil_make_day by metis
next
  assume e: "year_of_day e = year_of_day d \<and> month_of_day e = month_of_day d"
  have "e = make_day (year_of_day d) (month_of_day d) (date_of_day e)"
    using make_day_civil [of e] e by simp
  then show "month_first d \<le> e \<and> e < month_next d"
    using civil_valid [of e] e month_date_small [of d]
    by (auto simp: valid_civil_def month_next_eq month_first_def make_day_simple)
qed

lemma month_span: "0 < month_next d - month_first d" "month_next d - month_first d \<le> 31"
  using month_starts_in_year [of "month_of_day d" "leap_year (year_of_day d)"] month_date_small [of d]
  by (auto simp: month_next_eq)

lemma default_window:
  assumes "99 < get_utc_full_year (inBangkok now)"
  shows "resolveWindow parse now None None =
    Inr (Some (month_first (bangkok_day now) * ms_per_day - 25200000),
         Some (month_next (bangkok_day now) * ms_per_day - 25200000))"
proof -
  let ?d = "bangkok_day now"
  have loc: "now + BANGKOK_UTC_OFFSET_MINUTES * 60000 = inBangkok now" by (simp add: inBangkok_def)
  have y: "\<not> (0 \<le> year_of_day ?d \<and> year_of_day ?d \<le> 99)"
    using assms by (simp add: local_fields)
  have u: "date_utc (year_of_day ?d) (month_of_day ?d) 1 = month_first ?d * ms_per_day"
    "date_utc (year_of_day ?d) (month_of_day ?d + 1) 1 = month_next ?d * ms_per_day"
    using y by (auto simp: date_utc_def month_first_def month_next_def)
  have le: "month_first ?d \<le> month_next ?d" "month_next ?d - month_first ?d \<le> 366"
    using month_span [of ?d] by auto
  then have "month_next ?d * ms_per_day - month_first ?d * ms_per_day \<le> 366 * 86400000"
    "month_first ?d * ms_per_day \<le> month_next ?d * ms_per_day"
    by (auto simp: ms_per_day_def)
  then show ?thesis
    unfolding resolveWindow_def Let_def loc local_fields u date_of_query_def
    by (simp add: js_minus_greater_def AVAILABILITY_MAX_DAYS_def BANGKOK_UTC_OFFSET_MINUTES_def)
qed

lemma in_days_iff:
  "a * ms_per_day - 25200000 \<le> t \<and> t < b * ms_per_day - 25200000 \<longleftrightarrow>
   a \<le> bangkok_day t \<and> bangkok_day t < b"
proof -
  have "bangkok_day t * ms_per_day - 25200000 \<le> t \<and> t < (bangkok_day t + 1) * ms_per_day - 25200000"
    by (simp add: in_bangkok_day_iff)
  then show ?thesis by (auto simp: ms_per_day_def)
qed

text \<open>
  With no parameters the window is the Bangkok calendar month of now: the request is
  answered, and an instant lies in the half-open window if and only if its Bangkok year and
  month are those of now.
\<close>

theorem default_window_is_bangkok_month:
  assumes "99 < get_utc_full_year (inBangkok now)"
  shows "\<exists>from to. resolveWindow parse now None None = Inr (Some from, Some to) \<and>
    (\<forall>t. from \<le> t \<and> t < to \<longleftrightarrow>
      get_utc_full_year (inBangkok t) = get_utc_full_year (inBangkok now) \<and>
      get_utc_month (inBangkok t) = get_utc_month (inBangkok now))"
  unfolding default_window [OF assms] local_fields by (simp add: in_days_iff in_month_iff)

theorem default_window_is_bangkok_month_witness:
  "\<exists>from to. resolveWindow (\<lambda>_. None) 1788370200000 None None = Inr (Some from, Some to) \<and>
    (\<forall>t. from \<le> t \<and> t < to \<longleftrightarrow>
      get_utc_full_year (inBangkok t) = 2026 \<and> get_utc_month (inBangkok t) = 8)"
proof -
  have y: "get_utc_full_year (inBangkok 1788370200000) = 2026" by code_simp
  have m: "get_utc_month (inBangkok 1788370200000) = 8" by code_simp
  have g: "99 < get_utc_full_year (inBangkok 1788370200000)" by (simp add: y)
  show ?thesis using default_window_is_bangkok_month [OF g, of "\<lambda>_. None"] by (simp only: y m)
qed

subsection \<open>Slot descriptions\<close>

lemma set_js_set [simp]: "set (js_set xs) = set xs"
  by (simp add: js_set_def)

lemma distinct_js_set: "distinct (js_set xs)"
  by (simp add: js_set_def)

interpretation by_start: comparator cmp_start
  by unfold_locales (auto simp: cmp_start_def)

text \<open>Sorting by start orders the starts, whichever slots share one.\<close>

lemma starts_sorted: "map st_startAt (js_sort cmp_start xs) = sort (map st_startAt xs)"
proof (rule properties_for_sort [symmetric])
  show "mset (map st_startAt (js_sort cmp_start xs)) = mset (map st_startAt xs)"
    by (metis mset_js_sort mset_map)
  show "sorted (map st_startAt (js_sort cmp_start xs))"
    using by_start.ordered_js_sort [of xs] by (simp add: sorted_map cmp_start_def)
qed

lemma slot_dates_eq: "slot_dates xs = js_set (map thaiShortDate (sort (map st_startAt xs)))"
  unfolding slot_dates_def starts_sorted [symmetric] by (simp add: comp_def)

lemma js_set_singleton_iff:
  assumes "set xs = set ys"
  shows "length (js_set xs) = length (js_set ys)"
    and "length (js_set xs) = 1 \<Longrightarrow> hd (js_set xs) = hd (js_set ys)"
proof -
  have card: "length (js_set zs) = card (set zs)" for zs :: "'a list"
    using distinct_card [OF distinct_js_set, of zs] by simp
  then show len: "length (js_set xs) = length (js_set ys)" using assms by metis
  assume one: "length (js_set xs) = 1"
  with len obtain x y where "js_set xs = [x]" "js_set ys = [y]"
    by (metis One_nat_def length_0_conv length_Suc_conv)
  then show "hd (js_set xs) = hd (js_set ys)"
    using assms set_js_set [of xs] set_js_set [of ys] by auto
qed

text \<open>
  The description of a set of slots does not depend on the order the rows arrive in.
\<close>

theorem describeSlots_order_independent:
  assumes "mset xs = mset ys"
  shows "describeSlots xs = describeSlots ys"
proof -
  have dates: "slot_dates xs = slot_dates ys"
    using assms by (simp add: slot_dates_eq) (metis sorted_list_of_multiset_mset mset_map)
  have same: "set (map f xs) = set (map f ys)" for f :: "slot_times \<Rightarrow> string"
    using assms by (metis set_map set_mset_mset)
  have len: "length (slot_periods xs) = length (slot_periods ys)"
    unfolding slot_periods_def by (rule js_set_singleton_iff(1) [OF same])
  have hd: "length (slot_periods xs) = 1 \<Longrightarrow> hd (slot_periods xs) = hd (slot_periods ys)"
    unfolding slot_periods_def by (rule js_set_singleton_iff(2) [OF same])
  have empty: "xs = [] \<longleftrightarrow> ys = []" using assms by auto
  show ?thesis
    by (cases "length (slot_periods xs) = 1")
      (simp_all only: describeSlots_def Let_def dates empty len hd if_True if_False refl)
qed

theorem describeSlots_order_independent_witness:
  "describeSlots [\<lparr>st_startAt = 1788370200000, st_endAt = 1788373800000\<rparr>,
                  \<lparr>st_startAt = 1788370200001, st_endAt = 1788373800000\<rparr>] =
   describeSlots [\<lparr>st_startAt = 1788370200001, st_endAt = 1788373800000\<rparr>,
                  \<lparr>st_startAt = 1788370200000, st_endAt = 1788373800000\<rparr>]"
  by (rule describeSlots_order_independent) simp

end
