(* ===== verification/JsText.thy ===== *)
theory JsText
  imports Prelude
begin

text \<open>
  The text operations of JavaScript the services use, on UTF-8 bytes: \<open>trim\<close>,
  \<open>replace(/^#/, '')\<close>, \<open>||\<close> on an empty string, \<open>Number.parseInt(s, 10)\<close>,
  \<open>includes\<close>; and JSON values as Prisma returns them, with
  \<open>toNotificationPreferences\<close> (\<open>src/src/line/line-user.service.ts\<close>), the reader of the one
  JSON column the booking notifications depend on.
\<close>

subsection \<open>White space\<close>

text \<open>The white space and line terminators of ECMAScript, as UTF-8.\<close>

definition js_space :: "string list" where
  "js_space =
     [[CHR 0x09], [CHR 0x0A], [CHR 0x0B], [CHR 0x0C], [CHR 0x0D], [CHR 0x20],
      [CHR 0xC2, CHR 0xA0], [CHR 0xE1, CHR 0x9A, CHR 0x80], [CHR 0xE2, CHR 0x80, CHR 0x80],
      [CHR 0xE2, CHR 0x80, CHR 0x81], [CHR 0xE2, CHR 0x80, CHR 0x82],
      [CHR 0xE2, CHR 0x80, CHR 0x83], [CHR 0xE2, CHR 0x80, CHR 0x84],
      [CHR 0xE2, CHR 0x80, CHR 0x85], [CHR 0xE2, CHR 0x80, CHR 0x86],
      [CHR 0xE2, CHR 0x80, CHR 0x87], [CHR 0xE2, CHR 0x80, CHR 0x88],
      [CHR 0xE2, CHR 0x80, CHR 0x89], [CHR 0xE2, CHR 0x80, CHR 0x8A],
      [CHR 0xE2, CHR 0x80, CHR 0xA8], [CHR 0xE2, CHR 0x80, CHR 0xA9],
      [CHR 0xE2, CHR 0x80, CHR 0xAF], [CHR 0xE2, CHR 0x81, CHR 0x9F],
      [CHR 0xE3, CHR 0x80, CHR 0x80], [CHR 0xEF, CHR 0xBB, CHR 0xBF]]"

fun js_prefix :: "string \<Rightarrow> string \<Rightarrow> bool" where
  "js_prefix [] s = True"
| "js_prefix (c # cs) [] = False"
| "js_prefix (c # cs) (d # ds) = (c = d \<and> js_prefix cs ds)"

text \<open>How many bytes of white space \<open>s\<close> opens with: the length of the first that fits, or 0.\<close>

definition space_width :: "string list \<Rightarrow> string \<Rightarrow> nat" where
  "space_width ws s = (case filter (\<lambda>w. js_prefix w s) ws of [] \<Rightarrow> 0 | w # _ \<Rightarrow> length w)"

fun skip_space :: "string list \<Rightarrow> nat \<Rightarrow> string \<Rightarrow> string" where
  "skip_space ws 0 s = s"
| "skip_space ws (Suc n) s =
     (let k = space_width ws s in if k = 0 then s else skip_space ws n (drop k s))"

definition trim_start :: "string \<Rightarrow> string" where
  "trim_start s = skip_space js_space (length s) s"

definition trim_end :: "string \<Rightarrow> string" where
  "trim_end s = rev (skip_space (map rev js_space) (length s) (rev s))"

definition js_trim :: "string \<Rightarrow> string" where
  "js_trim s = trim_end (trim_start s)"

text \<open>\<open>s.replace(/^#/, '')\<close>.\<close>

fun strip_hash :: "string \<Rightarrow> string" where
  "strip_hash (c # cs) = (if c = CHR ''#'' then cs else c # cs)"
| "strip_hash [] = []"

text \<open>\<open>s || null\<close>.\<close>

definition or_null :: "string \<Rightarrow> string option" where
  "or_null s = (if s = [] then None else Some s)"

text \<open>\<open>hay.includes(needle)\<close>.\<close>

fun js_includes :: "string \<Rightarrow> string \<Rightarrow> bool" where
  "js_includes [] needle = (needle = [])"
| "js_includes (c # cs) needle = (js_prefix needle (c # cs) \<or> js_includes cs needle)"

subsection \<open>Number.parseInt\<close>

definition digit_value :: "char \<Rightarrow> int option" where
  "digit_value c = (let n = of_char c :: nat in if 48 \<le> n \<and> n \<le> 57 then Some (int n - 48) else None)"

fun read_digits :: "int \<Rightarrow> string \<Rightarrow> int" where
  "read_digits acc [] = acc"
| "read_digits acc (c # cs) =
     (case digit_value c of None \<Rightarrow> acc | Some d \<Rightarrow> read_digits (acc * 10 + d) cs)"

text \<open>Leading white space, an optional sign, then digits up to the first other character.\<close>

definition parse_digits :: "string \<Rightarrow> int option" where
  "parse_digits s = (case s of
       [] \<Rightarrow> None
     | c # _ \<Rightarrow> (case digit_value c of None \<Rightarrow> None | Some _ \<Rightarrow> Some (read_digits 0 s)))"

definition js_parse_int :: "string \<Rightarrow> int option" where
  "js_parse_int s = (case trim_start s of
       [] \<Rightarrow> None
     | c # cs \<Rightarrow> if c = CHR ''-'' then map_option uminus (parse_digits cs)
                else if c = CHR ''+'' then parse_digits cs
                else parse_digits (c # cs))"

subsection \<open>JSON values\<close>

datatype json =
    JNull | JBool bool | JNumber int | JString string
  | JArray "json list" | JObject "(string \<times> json) list"

record notification_preferences =
  np_announcements :: bool
  np_decisions :: bool
  np_reminders :: bool

definition defaultNotificationPreferences :: notification_preferences where
  "defaultNotificationPreferences =
     \<lparr>np_announcements = True, np_decisions = True, np_reminders = True\<rparr>"

definition read_flag :: "(string \<times> json) list \<Rightarrow> string \<Rightarrow> bool \<Rightarrow> bool" where
  "read_flag row key dflt = (case map_of row key of Some (JBool b) \<Rightarrow> b | _ \<Rightarrow> dflt)"

definition toNotificationPreferences :: "json option \<Rightarrow> notification_preferences" where
  "toNotificationPreferences stored = (case stored of
       Some (JObject row) \<Rightarrow>
         \<lparr>np_announcements = read_flag row ''announcements'' (np_announcements defaultNotificationPreferences),
          np_decisions = read_flag row ''decisions'' (np_decisions defaultNotificationPreferences),
          np_reminders = read_flag row ''reminders'' (np_reminders defaultNotificationPreferences)\<rparr>
     | _ \<Rightarrow> defaultNotificationPreferences)"

subsection \<open>Trimming\<close>

lemma js_prefix_length: "js_prefix w s \<Longrightarrow> length w \<le> length s"
  by (induction w s rule: js_prefix.induct) auto

lemma space_width_le: "space_width ws s \<le> length s"
proof (cases "filter (\<lambda>w. js_prefix w s) ws")
  case Nil
  then show ?thesis by (simp add: space_width_def)
next
  case (Cons w ws')
  then have "w \<in> set (filter (\<lambda>w. js_prefix w s) ws)" by simp
  then have "js_prefix w s" by simp
  then show ?thesis using Cons by (simp add: space_width_def js_prefix_length)
qed

lemma skip_space_done: "length s \<le> n \<Longrightarrow> space_width ws (skip_space ws n s) = 0"
proof (induction n arbitrary: s)
  case 0
  then show ?case using space_width_le [of ws s] by simp
next
  case (Suc n)
  then show ?case by (auto simp: Let_def)
qed

lemma skip_space_idem:
  "length s \<le> n \<Longrightarrow> skip_space ws m (skip_space ws n s) = skip_space ws n s"
  using skip_space_done [of s n ws] by (cases m) simp_all

lemma trim_start_idem: "trim_start (trim_start s) = trim_start s"
  by (simp add: trim_start_def skip_space_idem)

lemma strip_hash_idem: "hd (strip_hash s) \<noteq> CHR ''#'' \<Longrightarrow> strip_hash (strip_hash s) = strip_hash s"
  by (cases "strip_hash s") auto

lemma trim_example: "strip_hash (js_trim ('' #BR-1'' @ [CHR 0xC2, CHR 0xA0])) = ''BR-1''"
  by code_simp

end
