(* ===== verification/DriverErrors.thy ===== *)
theory DriverErrors
  imports JsText
begin

text \<open>
  The errors the database driver throws and how the services read them: the walk over an error's
  causes (\<open>errorChain\<close> of \<open>src/src/bookings/booking-overlap.ts\<close>) and \<open>isWriteConflict\<close> of
  \<open>src/src/common/prisma-tx.util.ts\<close>, with the bounded search of \<open>isLockNotAvailable\<close>.
\<close>

text \<open>
  What the classification code looks at in a thrown object: whether it is a
  \<open>PrismaClientKnownRequestError\<close>, its \<open>code\<close>, \<open>originalCode\<close> and \<open>message\<close>
  where they are strings, \<open>meta.target\<close>, the objects under \<open>cause\<close> and \<open>meta.cause\<close>,
  \<open>originalMessage\<close>, and the adapter's error under \<open>meta.driverAdapterError\<close>. The driver
  builds these as finite trees.
\<close>

datatype error_target = NoTarget | TargetString string | TargetList "string list"

datatype js_error = JsError
  (err_known: bool) (err_code: "string option") (err_original: "string option")
  (err_message: "string option") (err_target: error_target)
  (err_cause: "js_error option") (err_meta_cause: "js_error option")
  (err_original_message: "string option") (err_adapter: "js_error option")

text \<open>\<open>typeof node.originalCode === 'string' ? node.originalCode : node.code\<close>.\<close>

definition node_code :: "js_error \<Rightarrow> string option" where
  "node_code e = (case err_original e of Some c \<Rightarrow> Some c | None \<Rightarrow> err_code e)"

text \<open>The nodes of an error tree, in the queue's order; the set of nodes seen never fires on a tree.\<close>

fun err_size :: "js_error \<Rightarrow> nat" where
  "err_size (JsError k c oc m t cause meta om ad) =
     Suc ((case cause of None \<Rightarrow> 0 | Some e \<Rightarrow> err_size e) +
          (case meta of None \<Rightarrow> 0 | Some e \<Rightarrow> err_size e))"

definition children :: "js_error \<Rightarrow> js_error list" where
  "children e = (case err_cause e of None \<Rightarrow> [] | Some c \<Rightarrow> [c]) @
     (case err_meta_cause e of None \<Rightarrow> [] | Some c \<Rightarrow> [c])"

lemma err_size_children: "sum_list (map err_size (children e)) < err_size e"
  by (cases e) (auto simp: children_def split: option.splits)

function errorChain :: "js_error list \<Rightarrow> js_error list" where
  "errorChain [] = []"
| "errorChain (cur # queue) = cur # errorChain (queue @ children cur)"
  by pat_completeness auto
termination
  by (relation "measure (\<lambda>q. sum_list (map err_size q))")
    (use err_size_children in auto)

definition WRITE_CONFLICT_SQLSTATES :: "string list" where
  "WRITE_CONFLICT_SQLSTATES = [''40001'', ''40P01'']"

fun cause_chain :: "js_error \<Rightarrow> js_error list" where
  "cause_chain (JsError k c oc m t cause meta om ad) =
     JsError k c oc m t cause meta om ad # (case cause of None \<Rightarrow> [] | Some e \<Rightarrow> cause_chain e)"

definition isWriteConflict :: "js_error \<Rightarrow> bool" where
  "isWriteConflict e \<longleftrightarrow> err_known e \<and> err_code e = Some ''P2034'' \<or>
     list_ex (\<lambda>c. case node_code c of None \<Rightarrow> False | Some s \<Rightarrow> s \<in> set WRITE_CONFLICT_SQLSTATES)
       (cause_chain e)"

subsection \<open>A row lock held by somebody else\<close>

definition LOCK_NOT_AVAILABLE_SQLSTATE :: string where
  "LOCK_NOT_AVAILABLE_SQLSTATE = ''55P03''"

definition LOCK_NOT_AVAILABLE_TEXT :: string where
  "LOCK_NOT_AVAILABLE_TEXT = ''could not obtain lock on row''"

definition ERROR_CHAIN_MAX_NODES :: nat where
  "ERROR_CHAIN_MAX_NODES = 16"

definition lock_texts :: "js_error \<Rightarrow> string list" where
  "lock_texts e = (case err_message e of None \<Rightarrow> [] | Some t \<Rightarrow> [t]) @
     (case err_original_message e of None \<Rightarrow> [] | Some t \<Rightarrow> [t])"

definition lock_node :: "js_error \<Rightarrow> bool" where
  "lock_node e \<longleftrightarrow> node_code e = Some LOCK_NOT_AVAILABLE_SQLSTATE \<or>
     list_ex (\<lambda>t. js_includes t LOCK_NOT_AVAILABLE_TEXT) (lock_texts e)"

definition lock_children :: "js_error \<Rightarrow> js_error list" where
  "lock_children e = children e @ (case err_adapter e of None \<Rightarrow> [] | Some a \<Rightarrow> [a])"

text \<open>The queue of the search and how many more nodes it may look at.\<close>

fun lock_search :: "nat \<Rightarrow> js_error list \<Rightarrow> bool" where
  "lock_search 0 queue = False"
| "lock_search (Suc n) [] = False"
| "lock_search (Suc n) (cur # queue) = (lock_node cur \<or> lock_search n (queue @ lock_children cur))"

definition isLockNotAvailable :: "js_error \<Rightarrow> bool" where
  "isLockNotAvailable e \<longleftrightarrow>
     err_known e \<and> err_code e = Some ''P2010'' \<and>
       (case err_message e of None \<Rightarrow> False
        | Some t \<Rightarrow> js_includes t (''Code: `'' @ LOCK_NOT_AVAILABLE_SQLSTATE @ ''`'')) \<or>
     lock_search ERROR_CHAIN_MAX_NODES [e]"

end
