(* ===== verification/BookingDb.thy ===== *)
theory BookingDb
  imports BangkokTime DriverErrors
begin

text \<open>
  The booking tables and the transactions over them. Records follow \<open>src/prisma/schema.prisma\<close>
  (the columns the booking code reads or writes); a table is the list of its rows. The two
  \<open>holdsSlot\<close> triggers and the exclusion constraint are those of the migration
  \<open>20260904061248_add_booking_overlap_constraint\<close>.

  A transaction runs statement by statement at READ COMMITTED: before statement \<open>k\<close> other
  transactions may commit anything (\<open>interfere env k\<close>) and the driver may fail it
  (\<open>fault env k\<close>). The world keeps the committed state apart from the transaction's own
  view, so a failure rolls back exactly the transaction's own writes. What the application gets
  from outside is the record \<open>env\<close>: clock readings, new ids, text collation, the
  case-insensitive match, the date parser, the configured LIFF address and the driver's error
  objects. \<open>lu_notifications\<close> is the \<open>notifications\<close> column of the user's settings row,
  \<open>None\<close> without a row; a venue's photos and amenity ids are its joined rows.
\<close>

subsection \<open>Rows\<close>

datatype booking_status = PENDING | APPROVED | REJECTED | CANCELLED | EXPIRED

datatype app_access = ACC_UNREGISTERED | ACC_PENDING | ACC_ALLOWED | ACC_BLOCKED | ACC_REJECTED

record registration =
  reg_firstName :: string
  reg_lastName :: string
  reg_phone :: string
  reg_departmentId :: int
  reg_deletedAt :: "time option"

record line_user =
  lu_id :: string
  lu_lineUserId :: string
  lu_access :: app_access
  lu_deletedAt :: "time option"
  lu_registration :: "registration option"
  lu_notifications :: "json option"

record venue_type =
  vt_id :: int
  vt_name :: string
  vt_isSystemReserved :: bool

record photo =
  ph_id :: string
  ph_url :: string
  ph_position :: int

record amenity =
  am_id :: int
  am_name :: string
  am_deletedAt :: "time option"

record venue =
  ve_id :: string
  ve_name :: string
  ve_location :: "string option"
  ve_capacity :: int
  ve_isOpen :: bool
  ve_deletedAt :: "time option"
  ve_venueTypeId :: int
  ve_photos :: "photo list"
  ve_amenities :: "int list"

record department =
  dp_id :: int
  dp_name :: string
  dp_deletedAt :: "time option"

record staff_name =
  sn_id :: string
  sn_firstName :: string
  sn_lastName :: string

record booking =
  bk_id :: string
  bk_code :: string
  bk_lineUserId :: "string option"
  bk_createdById :: "string option"
  bk_requesterName :: "string option"
  bk_contactPhone :: "string option"
  bk_departmentId :: "int option"
  bk_venueId :: string
  bk_purpose :: string
  bk_attendees :: int
  bk_status :: booking_status
  bk_rejectReason :: "string option"
  bk_firstStartAt :: time
  bk_lastEndAt :: time
  bk_approvedById :: "string option"
  bk_approvedAt :: "time option"
  bk_createdAt :: time

record slot =
  sl_id :: string
  sl_bookingRequestId :: string
  sl_venueId :: string
  sl_startAt :: time
  sl_endAt :: time
  sl_isCancelled :: bool
  sl_cancelledAt :: "time option"
  sl_cancelledById :: "string option"
  sl_cancelledByRole :: "string option"
  sl_cancelReason :: "string option"
  sl_reminderSentAt :: "time option"
  sl_holdsSlot :: bool

record db =
  bookings :: "booking list"
  slots :: "slot list"
  venues :: "venue list"
  venue_types :: "venue_type list"
  line_users :: "line_user list"
  amenities :: "amenity list"
  departments :: "department list"
  staff_names :: "staff_name list"
  app_settings :: "(string \<times> string) list"

subsection \<open>Reading a table\<close>

text \<open>\<open>findFirst\<close>, \<open>findUnique\<close> and \<open>count\<close>; \<open>findMany\<close> is \<open>filter\<close>.\<close>

definition find_first :: "('a \<Rightarrow> bool) \<Rightarrow> 'a list \<Rightarrow> 'a option" where
  "find_first p xs = List.find p xs"

definition count_rows :: "('a \<Rightarrow> bool) \<Rightarrow> 'a list \<Rightarrow> nat" where
  "count_rows p xs = length (filter p xs)"

definition update_rows :: "('a \<Rightarrow> bool) \<Rightarrow> ('a \<Rightarrow> 'a) \<Rightarrow> 'a list \<Rightarrow> 'a list" where
  "update_rows p f xs = map (\<lambda>x. if p x then f x else x) xs"

definition booking_of :: "db \<Rightarrow> string \<Rightarrow> booking option" where
  "booking_of d i = find_first (\<lambda>b. bk_id b = i) (bookings d)"

definition slots_of :: "db \<Rightarrow> string \<Rightarrow> slot list" where
  "slots_of d i = filter (\<lambda>s. sl_bookingRequestId s = i) (slots d)"

definition live_slots_of :: "db \<Rightarrow> string \<Rightarrow> slot list" where
  "live_slots_of d i = filter (\<lambda>s. sl_bookingRequestId s = i \<and> \<not> sl_isCancelled s) (slots d)"

definition has_booking :: "booking list \<Rightarrow> string \<Rightarrow> booking_status \<Rightarrow> bool" where
  "has_booking bs i st = list_ex (\<lambda>b. bk_id b = i \<and> bk_status b = st) bs"

subsection \<open>Triggers and the exclusion constraint\<close>

text \<open>BEFORE INSERT OR UPDATE on \<open>booking_slots\<close>: the column is always recomputed.\<close>

definition booking_slots_holds_slot :: "booking list \<Rightarrow> slot \<Rightarrow> slot" where
  "booking_slots_holds_slot bs s =
     s\<lparr>sl_holdsSlot := \<not> sl_isCancelled s \<and> has_booking bs (sl_bookingRequestId s) APPROVED\<rparr>"

text \<open>AFTER UPDATE OF status on \<open>booking_requests\<close>: a changed status is pushed to the children.\<close>

definition booking_requests_holds_slot :: "booking \<Rightarrow> booking \<Rightarrow> slot list \<Rightarrow> slot list" where
  "booking_requests_holds_slot old new ss =
     (if bk_status new \<noteq> bk_status old
      then update_rows
             (\<lambda>s. sl_bookingRequestId s = bk_id new \<and>
                  sl_holdsSlot s \<noteq> (\<not> sl_isCancelled s \<and> bk_status new = APPROVED))
             (\<lambda>s. s\<lparr>sl_holdsSlot := \<not> sl_isCancelled s \<and> bk_status new = APPROVED\<rparr>) ss
      else ss)"

text \<open>\<open>tsrange(a, b, '[)') && tsrange(c, d, '[)')\<close>: an empty range overlaps nothing.\<close>

definition ranges_overlap :: "time \<Rightarrow> time \<Rightarrow> time \<Rightarrow> time \<Rightarrow> bool" where
  "ranges_overlap a b c d \<longleftrightarrow> a < b \<and> c < d \<and> a < d \<and> c < b"

definition slots_clash :: "slot \<Rightarrow> slot \<Rightarrow> bool" where
  "slots_clash s t \<longleftrightarrow> sl_venueId s = sl_venueId t \<and>
     ranges_overlap (sl_startAt s) (sl_endAt s) (sl_startAt t) (sl_endAt t)"

definition booking_slots_no_overlap :: "slot list \<Rightarrow> bool" where
  "booking_slots_no_overlap ss =
     sorted_wrt (\<lambda>s t. \<not> (sl_holdsSlot s \<and> sl_holdsSlot t \<and> slots_clash s t)) ss"

subsection \<open>What a call can end with\<close>

datatype booking_message =
    VENUE_NOT_FOUND | VENUE_CLOSED | BOOKING_NOT_ALLOWED | SLOT_RANGE_INVALID
  | SLOT_IN_THE_PAST | SLOT_SELF_OVERLAP | SLOT_TAKEN | BOOKING_NOT_FOUND
  | BOOKING_NOT_PENDING | BOOKING_NOT_APPROVED | SLOT_NOT_FOUND | SLOT_ALREADY_CANCELLED
  | SLOT_CANCEL_TOO_LATE | BOOKING_NOT_PENDING_FOR_DECISION | BOOKING_NOT_APPROVED_FOR_CANCEL
  | BOOKING_ALREADY_CANCELLED | SLOT_NOT_ON_THIS_BOOKING | INVALID_DEPARTMENT
  | INVALID_LINE_USER | BOOKING_DECISION_RACE | ORIGIN_OVERRIDES_WITH_LINE_USER
  | WINDOW_REFUSED window_message

datatype failure = Http "booking_message http_error" | Raw js_error

subsection \<open>The application's surroundings\<close>

record env =
  interfere :: "nat \<Rightarrow> db \<Rightarrow> db"
  fault :: "nat \<Rightarrow> js_error option"
  clock :: "nat \<Rightarrow> time"
  db_clock :: "nat \<Rightarrow> time"
  new_booking_id :: "nat \<Rightarrow> string"
  new_slot_id :: "nat \<Rightarrow> nat \<Rightarrow> string"
  collate :: "string \<Rightarrow> string \<Rightarrow> int"
  ilike :: "string \<Rightarrow> string \<Rightarrow> bool"
  parse_date :: "string \<Rightarrow> js_date"
  liff_url :: "string option"
  unique_code_error :: js_error
  unique_id_error :: js_error
  exclusion_error :: js_error
  validation_error :: js_error
  missing_row_error :: js_error

subsection \<open>Statements and transactions\<close>

record 'e world =
  committed :: db
  view :: db
  log :: "'e list"

type_synonym ('e, 'a) tx = "'e world \<Rightarrow> (failure + 'a) \<times> 'e world"

definition tx_return :: "'a \<Rightarrow> ('e, 'a) tx" where
  "tx_return a = (\<lambda>w. (Inr a, w))"

definition tx_throw :: "booking_message http_error \<Rightarrow> ('e, 'a) tx" where
  "tx_throw e = (\<lambda>w. (Inl (Http e), w))"

definition tx_throw_raw :: "js_error \<Rightarrow> ('e, 'a) tx" where
  "tx_throw_raw e = (\<lambda>w. (Inl (Raw e), w))"

definition tx_bind :: "('e, 'a) tx \<Rightarrow> ('a \<Rightarrow> ('e, 'b) tx) \<Rightarrow> ('e, 'b) tx" where
  "tx_bind m f = (\<lambda>w. case m w of (Inl e, w') \<Rightarrow> (Inl e, w') | (Inr a, w') \<Rightarrow> f a w')"

text \<open>\<open>if (!ok) throw e\<close>.\<close>

definition tx_assert :: "bool \<Rightarrow> booking_message http_error \<Rightarrow> ('e, unit) tx" where
  "tx_assert ok e = (if ok then tx_return () else tx_throw e)"

text \<open>\<open>if (!row) throw e\<close>, then the row.\<close>

definition tx_require :: "'a option \<Rightarrow> booking_message http_error \<Rightarrow> ('e, 'a) tx" where
  "tx_require x e = (case x of None \<Rightarrow> tx_throw e | Some a \<Rightarrow> tx_return a)"

definition statement :: "env \<Rightarrow> nat \<Rightarrow> ('e, 'a) tx \<Rightarrow> ('e, 'a) tx" where
  "statement env k q = (\<lambda>w.
     let w' = w\<lparr>committed := interfere env k (committed w), view := interfere env k (view w)\<rparr>
     in case fault env k of Some e \<Rightarrow> (Inl (Raw e), w') | None \<Rightarrow> q w')"

definition tx_read :: "env \<Rightarrow> nat \<Rightarrow> (db \<Rightarrow> 'a) \<Rightarrow> ('e, 'a) tx" where
  "tx_read env k f = statement env k (\<lambda>w. (Inr (f (view w)), w))"

definition tx_write :: "env \<Rightarrow> nat \<Rightarrow> (db \<Rightarrow> js_error + (db \<times> 'a)) \<Rightarrow> ('e, 'a) tx" where
  "tx_write env k g = statement env k (\<lambda>w.
     case g (view w) of Inl e \<Rightarrow> (Inl (Raw e), w) | Inr (d, a) \<Rightarrow> (Inr a, w\<lparr>view := d\<rparr>))"

text \<open>\<open>$transaction(work)\<close>: commit the view, or fall back to what others committed.\<close>

definition transaction :: "('e, 'a) tx \<Rightarrow> ('e, 'a) tx" where
  "transaction m = (\<lambda>w. case m w of
       (Inr a, w') \<Rightarrow> (Inr a, w'\<lparr>committed := view w'\<rparr>)
     | (Inl e, w') \<Rightarrow> (Inl e, w'\<lparr>view := committed w'\<rparr>))"

definition emit :: "'e list \<Rightarrow> ('e, unit) tx" where
  "emit es = (\<lambda>w. (Inr (), w\<lparr>log := log w @ es\<rparr>))"

text \<open>A service call starts from the committed state with nothing announced.\<close>

definition fresh_world :: "db \<Rightarrow> 'e world" where
  "fresh_world d = \<lparr>committed = d, view = d, log = []\<rparr>"

definition run_call :: "('e, 'a) tx \<Rightarrow> db \<Rightarrow> (failure + 'a) \<times> db \<times> 'e list" where
  "run_call m d = (case m (fresh_world d) of (r, w) \<Rightarrow> (r, view w, log w))"

subsection \<open>Writing the booking tables\<close>

definition update_bookings ::
  "js_error \<Rightarrow> (booking \<Rightarrow> bool) \<Rightarrow> (booking \<Rightarrow> booking) \<Rightarrow> db \<Rightarrow> js_error + (db \<times> booking list)"
where
  "update_bookings err p f d =
     (let hit = filter p (bookings d);
          ss = fold (\<lambda>b. booking_requests_holds_slot b (f b)) hit (slots d);
          d' = d\<lparr>bookings := update_rows p f (bookings d), slots := ss\<rparr>
      in if booking_slots_no_overlap ss then Inr (d', map f hit) else Inl err)"

definition update_slots ::
  "js_error \<Rightarrow> (slot \<Rightarrow> bool) \<Rightarrow> (slot \<Rightarrow> slot) \<Rightarrow> db \<Rightarrow> js_error + (db \<times> slot list)"
where
  "update_slots err p g d =
     (let g' = (\<lambda>s. booking_slots_holds_slot (bookings d) (g s));
          ss = update_rows p g' (slots d)
      in if booking_slots_no_overlap ss
         then Inr (d\<lparr>slots := ss\<rparr>, map g' (filter p (slots d))) else Inl err)"

text \<open>
  \<open>bookingRequest.create\<close> with nested slots: primary keys and \<open>code\<close> are unique, the
  owner check holds, the slot trigger runs, the exclusion constraint is checked.
\<close>

definition owner_check :: "booking \<Rightarrow> bool" where
  "owner_check b \<longleftrightarrow> bk_lineUserId b \<noteq> None \<or> bk_createdById b \<noteq> None"

definition create_booking :: "env \<Rightarrow> booking \<Rightarrow> slot list \<Rightarrow> db \<Rightarrow> js_error + (db \<times> booking)" where
  "create_booking env b new d =
     (let bs = bookings d @ [b];
          ss = slots d @ map (booking_slots_holds_slot bs) new
      in if bk_id b \<in> bk_id ` set (bookings d) \<or> \<not> distinct (map sl_id ss)
         then Inl (unique_id_error env)
         else if bk_code b \<in> bk_code ` set (bookings d) then Inl (unique_code_error env)
         else if \<not> owner_check b then Inl (validation_error env)
         else if booking_slots_no_overlap ss then Inr (d\<lparr>bookings := bs, slots := ss\<rparr>, b)
         else Inl (exclusion_error env))"

end
