(* ===== verification/BookingInv.thy ===== *)
theory BookingInv
  imports BookingDb
begin

text \<open>
  The invariant of the booking tables, the calculus that lifts a database invariant through
  transactions under interference (\<open>keeps\<close>), and the proof that each of the three kinds of
  write keeps the invariant.
\<close>

subsection \<open>The invariant\<close>

definition ids_ok :: "db \<Rightarrow> bool" where
  "ids_ok d \<longleftrightarrow> distinct (map bk_id (bookings d)) \<and> distinct (map bk_code (bookings d)) \<and>
     distinct (map sl_id (slots d))"

text \<open>The writer's contract of the schema: a slot repeats its request's venue.\<close>

definition refs_ok :: "db \<Rightarrow> bool" where
  "refs_ok d \<longleftrightarrow> (\<forall>s \<in> set (slots d). \<exists>b \<in> set (bookings d).
     bk_id b = sl_bookingRequestId s \<and> bk_venueId b = sl_venueId s)"

definition holds_ok :: "db \<Rightarrow> bool" where
  "holds_ok d \<longleftrightarrow> (\<forall>s \<in> set (slots d).
     sl_holdsSlot s \<longleftrightarrow> \<not> sl_isCancelled s \<and> has_booking (bookings d) (sl_bookingRequestId s) APPROVED)"

text \<open>A cancellation writes its columns together.\<close>

definition cancellation_ok :: "slot \<Rightarrow> bool" where
  "cancellation_ok s \<longleftrightarrow>
     (sl_isCancelled s \<longleftrightarrow> sl_cancelledAt s \<noteq> None) \<and>
     (sl_isCancelled s \<longleftrightarrow> sl_cancelledById s \<noteq> None) \<and>
     (sl_isCancelled s \<longleftrightarrow> sl_cancelledByRole s \<noteq> None)"

text \<open>Spans are proper, and the spans of one request are disjoint.\<close>

definition siblings_disjoint :: "slot list \<Rightarrow> bool" where
  "siblings_disjoint ss \<longleftrightarrow> sorted_wrt (\<lambda>s t.
     sl_bookingRequestId s = sl_bookingRequestId t \<longrightarrow>
     \<not> ranges_overlap (sl_startAt s) (sl_endAt s) (sl_startAt t) (sl_endAt t)) ss"

definition spans_ok :: "db \<Rightarrow> bool" where
  "spans_ok d \<longleftrightarrow> (\<forall>s \<in> set (slots d). sl_startAt s < sl_endAt s) \<and> siblings_disjoint (slots d)"

text \<open>What the status says about the decision columns.\<close>

definition decision_ok :: "booking \<Rightarrow> bool" where
  "decision_ok b \<longleftrightarrow>
     (bk_status b = PENDING \<longrightarrow> bk_approvedAt b = None \<and> bk_approvedById b = None) \<and>
     (bk_status b = APPROVED \<longrightarrow> bk_approvedAt b \<noteq> None \<and> bk_approvedById b \<noteq> None) \<and>
     (bk_status b = REJECTED \<or> bk_status b = EXPIRED \<longrightarrow> bk_rejectReason b \<noteq> None)"

definition db_inv :: "db \<Rightarrow> bool" where
  "db_inv d \<longleftrightarrow> ids_ok d \<and> refs_ok d \<and> holds_ok d \<and> spans_ok d \<and>
     (\<forall>s \<in> set (slots d). cancellation_ok s) \<and>
     (\<forall>b \<in> set (bookings d). owner_check b \<and> decision_ok b) \<and>
     booking_slots_no_overlap (slots d)"

lemma db_invD:
  assumes "db_inv d"
  shows "ids_ok d" "refs_ok d" "holds_ok d" "spans_ok d"
    "s \<in> set (slots d) \<Longrightarrow> cancellation_ok s"
    "b \<in> set (bookings d) \<Longrightarrow> owner_check b" "b \<in> set (bookings d) \<Longrightarrow> decision_ok b"
    "booking_slots_no_overlap (slots d)"
  using assms by (auto simp: db_inv_def)

subsection \<open>Tables\<close>

lemma find_first_Some_iff_distinct [table_simps]:
  assumes "distinct (map key xs)"
  shows "find_first (\<lambda>x. key x = i) xs = Some x \<longleftrightarrow> x \<in> set xs \<and> key x = i"
  using assms unfolding find_first_def
  by (induction xs) (auto simp: image_iff)

lemma find_first_SomeD: "find_first p xs = Some x \<Longrightarrow> x \<in> set xs \<and> p x"
  by (auto simp: find_first_def find_Some_iff)

lemma find_first_None_iff: "find_first p xs = None \<longleftrightarrow> (\<forall>x \<in> set xs. \<not> p x)"
  by (auto simp: find_first_def find_None_iff)

lemma set_update_rows: "set (update_rows p f xs) = {if p x then f x else x | x. x \<in> set xs}"
  by (auto simp: update_rows_def)

lemma length_update_rows [simp]: "length (update_rows p f xs) = length xs"
  by (simp add: update_rows_def)

lemma map_update_rows: "(\<And>x. p x \<Longrightarrow> key (f x) = key x) \<Longrightarrow> map key (update_rows p f xs) = map key xs"
  by (auto simp: update_rows_def)

lemma has_booking_iff:
  "has_booking bs i st \<longleftrightarrow> (\<exists>b \<in> set bs. bk_id b = i \<and> bk_status b = st)"
  by (auto simp: has_booking_def list_ex_iff)

lemma distinct_bk_idD:
  "distinct (map bk_id bs) \<Longrightarrow> b \<in> set bs \<Longrightarrow> c \<in> set bs \<Longrightarrow> bk_id b = bk_id c \<Longrightarrow> b = c"
  by (induction bs) (auto simp: image_iff)

lemma has_booking_unique:
  "distinct (map bk_id bs) \<Longrightarrow> b \<in> set bs \<Longrightarrow> has_booking bs (bk_id b) st \<longleftrightarrow> bk_status b = st"
  by (auto simp: has_booking_iff dest: distinct_bk_idD)

subsection \<open>Lifting an invariant through transactions\<close>

definition keeps :: "(db \<Rightarrow> bool) \<Rightarrow> ('e, 'a) tx \<Rightarrow> bool" where
  "keeps I m \<longleftrightarrow> (\<forall>w. I (committed w) \<and> I (view w) \<longrightarrow>
     I (committed (snd (m w))) \<and> I (view (snd (m w))))"

definition env_keeps :: "(db \<Rightarrow> bool) \<Rightarrow> env \<Rightarrow> bool" where
  "env_keeps I env \<longleftrightarrow> (\<forall>k d. I d \<longrightarrow> I (interfere env k d))"

lemma keeps_return [keeps_intros]: "keeps I (tx_return a)"
  by (simp add: keeps_def tx_return_def)

lemma keeps_throw [keeps_intros]: "keeps I (tx_throw e)"
  by (simp add: keeps_def tx_throw_def)

lemma keeps_throw_raw [keeps_intros]: "keeps I (tx_throw_raw e)"
  by (simp add: keeps_def tx_throw_raw_def)

lemma keeps_assert [keeps_intros]: "keeps I (tx_assert b e)"
  by (simp add: tx_assert_def keeps_return keeps_throw)

lemma keeps_require [keeps_intros]: "keeps I (tx_require x e)"
  by (cases x) (simp_all add: tx_require_def keeps_return keeps_throw)

lemma keeps_emit [keeps_intros]: "keeps I (emit es)"
  by (simp add: keeps_def emit_def)

lemma keeps_bind [keeps_intros]:
  "keeps I m \<Longrightarrow> (\<And>a. keeps I (f a)) \<Longrightarrow> keeps I (tx_bind m f)"
  unfolding keeps_def tx_bind_def
  by (fastforce split: prod.splits sum.splits)

lemma keeps_statement:
  "env_keeps I env \<Longrightarrow> keeps I q \<Longrightarrow> keeps I (statement env k q)"
  by (auto simp: keeps_def statement_def env_keeps_def Let_def split: option.splits)

lemma keeps_read [keeps_intros]: "env_keeps I env \<Longrightarrow> keeps I (tx_read env k f)"
  unfolding tx_read_def by (rule keeps_statement) (auto simp: keeps_def)

lemma keeps_write:
  "env_keeps I env \<Longrightarrow> (\<And>d d' a. I d \<Longrightarrow> g d = Inr (d', a) \<Longrightarrow> I d') \<Longrightarrow> keeps I (tx_write env k g)"
  unfolding tx_write_def
  by (rule keeps_statement) (auto simp: keeps_def split: sum.splits prod.splits)

lemma keeps_transaction [keeps_intros]: "keeps I m \<Longrightarrow> keeps I (transaction m)"
  unfolding keeps_def transaction_def by (fastforce split: prod.splits sum.splits)

lemma keeps_if [keeps_intros]: "(b \<Longrightarrow> keeps I m) \<Longrightarrow> (\<not> b \<Longrightarrow> keeps I n) \<Longrightarrow> keeps I (if b then m else n)"
  by simp

lemma keeps_option [keeps_intros]:
  "(x = None \<Longrightarrow> keeps I m) \<Longrightarrow> (\<And>a. x = Some a \<Longrightarrow> keeps I (f a)) \<Longrightarrow>
   keeps I (case x of None \<Rightarrow> m | Some a \<Rightarrow> f a)"
  by (cases x) auto

lemma keeps_sum [keeps_intros]:
  "(\<And>a. x = Inl a \<Longrightarrow> keeps I (f a)) \<Longrightarrow> (\<And>a. x = Inr a \<Longrightarrow> keeps I (g a)) \<Longrightarrow>
   keeps I (case x of Inl a \<Rightarrow> f a | Inr a \<Rightarrow> g a)"
  by (cases x) auto

lemma keeps_run_call: "keeps I m \<Longrightarrow> I d \<Longrightarrow> run_call m d = (r, d', es) \<Longrightarrow> I d'"
  by (auto simp: keeps_def run_call_def fresh_world_def split: prod.splits)
    (metis select_convs(1,2) snd_conv)

subsection \<open>The status trigger recomputes the children\<close>

lemma fold_trigger_map:
  "fold (\<lambda>b. booking_requests_holds_slot b (f b)) bs ss =
   map (\<lambda>s. fold (\<lambda>b s. hd (booking_requests_holds_slot b (f b) [s])) bs s) ss"
proof (induction bs arbitrary: ss)
  case Nil
  then show ?case by simp
next
  case (Cons b bs)
  have "booking_requests_holds_slot b (f b) ss = map (\<lambda>s. hd (booking_requests_holds_slot b (f b) [s])) ss"
    by (auto simp: booking_requests_holds_slot_def update_rows_def)
  with Cons show ?case by (simp add: comp_def)
qed

lemma trigger_one:
  "hd (booking_requests_holds_slot b (f b) [s]) =
   (if bk_status (f b) \<noteq> bk_status b \<and> sl_bookingRequestId s = bk_id (f b)
    then s\<lparr>sl_holdsSlot := \<not> sl_isCancelled s \<and> bk_status (f b) = APPROVED\<rparr> else s)"
  by (cases s) (auto simp: booking_requests_holds_slot_def update_rows_def)

lemma fold_trigger_slot:
  assumes "distinct (map bk_id bs)" "\<And>b. b \<in> set bs \<Longrightarrow> bk_id (f b) = bk_id b"
  shows "fold (\<lambda>b s. hd (booking_requests_holds_slot b (f b) [s])) bs s =
    (case find_first (\<lambda>b. bk_id b = sl_bookingRequestId s) bs of
       None \<Rightarrow> s
     | Some b \<Rightarrow> if bk_status (f b) \<noteq> bk_status b
                then s\<lparr>sl_holdsSlot := \<not> sl_isCancelled s \<and> bk_status (f b) = APPROVED\<rparr> else s)"
  using assms
proof (induction bs arbitrary: s)
  case Nil
  then show ?case by (simp add: find_first_def)
next
  case (Cons b bs)
  have rest: "bk_id b \<notin> bk_id ` set bs" using Cons.prems by simp
  then have none: "find_first (\<lambda>c. bk_id c = bk_id b) bs = None"
    by (simp add: find_first_None_iff) (metis image_eqI)
  show ?case
    using Cons.IH Cons.prems none by (auto simp: trigger_one find_first_def)
qed

text \<open>
  The two triggers together are one function of the tables: after a status write each slot's
  column is what the row trigger computes from the updated parents.
\<close>

lemma status_trigger_recomputes:
  assumes "ids_ok d" "refs_ok d" "holds_ok d" "\<And>b. p b \<Longrightarrow> bk_id (f b) = bk_id b"
  shows "fold (\<lambda>b. booking_requests_holds_slot b (f b)) (filter p (bookings d)) (slots d) =
    map (booking_slots_holds_slot (update_rows p f (bookings d))) (slots d)"
  unfolding fold_trigger_map
proof (rule map_cong [OF refl])
  fix s assume s: "s \<in> set (slots d)"
  let ?bs = "bookings d"
  have dist: "distinct (map bk_id ?bs)" using assms(1) by (simp add: ids_ok_def)
  obtain b where b: "b \<in> set ?bs" "bk_id b = sl_bookingRequestId s"
    using assms(2) s by (auto simp: refs_ok_def)
  have old: "sl_holdsSlot s \<longleftrightarrow> \<not> sl_isCancelled s \<and> bk_status b = APPROVED"
    using assms(3) s has_booking_unique [OF dist b(1)] b(2) by (simp add: holds_ok_def)
  let ?c = "if p b then f b else b"
  have id: "bk_id ?c = bk_id b" using assms(4) by simp
  have in_new: "?c \<in> set (update_rows p f ?bs)" using b(1) by (auto simp: set_update_rows)
  have dist': "distinct (map bk_id (update_rows p f ?bs))"
    using dist assms(4) by (simp add: map_update_rows)
  have new: "has_booking (update_rows p f ?bs) (sl_bookingRequestId s) APPROVED \<longleftrightarrow> bk_status ?c = APPROVED"
    using has_booking_unique [OF dist' in_new] id b(2) by simp
  have find: "find_first (\<lambda>c. bk_id c = sl_bookingRequestId s) (filter p ?bs) = (if p b then Some b else None)"
    using b dist by (auto simp: find_first_None_iff find_first_Some_iff_distinct distinct_map_filter
        dest: distinct_bk_idD)
  have dist_f: "distinct (map bk_id (filter p ?bs))" using dist by (rule distinct_map_filter)
  show "fold (\<lambda>b s. hd (booking_requests_holds_slot b (f b) [s])) (filter p ?bs) s =
      booking_slots_holds_slot (update_rows p f ?bs) s"
    using fold_trigger_slot [OF dist_f, of f s] assms(4) find old new
    by (cases s) (auto simp: booking_slots_holds_slot_def)
qed

subsection \<open>Each write keeps the invariant\<close>

lemma slot_trigger_simps [simp]:
  "sl_id (booking_slots_holds_slot bs s) = sl_id s"
  "sl_bookingRequestId (booking_slots_holds_slot bs s) = sl_bookingRequestId s"
  "sl_venueId (booking_slots_holds_slot bs s) = sl_venueId s"
  "sl_startAt (booking_slots_holds_slot bs s) = sl_startAt s"
  "sl_endAt (booking_slots_holds_slot bs s) = sl_endAt s"
  "sl_isCancelled (booking_slots_holds_slot bs s) = sl_isCancelled s"
  "cancellation_ok (booking_slots_holds_slot bs s) = cancellation_ok s"
  "sl_holdsSlot (booking_slots_holds_slot bs s) \<longleftrightarrow>
     \<not> sl_isCancelled s \<and> has_booking bs (sl_bookingRequestId s) APPROVED"
  by (simp_all add: booking_slots_holds_slot_def cancellation_ok_def)

lemma siblings_disjoint_map:
  assumes "\<And>s. sl_bookingRequestId (h s) = sl_bookingRequestId s \<and> sl_startAt (h s) = sl_startAt s \<and>
    sl_endAt (h s) = sl_endAt s"
  shows "siblings_disjoint (map h ss) = siblings_disjoint ss"
  using assms by (simp add: siblings_disjoint_def sorted_wrt_map)

text \<open>Updating requests: keys, venue and owners stay, and the decision columns follow the status.\<close>

definition booking_frame :: "(booking \<Rightarrow> booking) \<Rightarrow> booking \<Rightarrow> bool" where
  "booking_frame f b \<longleftrightarrow> bk_id (f b) = bk_id b \<and> bk_code (f b) = bk_code b \<and>
     bk_venueId (f b) = bk_venueId b \<and> bk_lineUserId (f b) = bk_lineUserId b \<and>
     bk_createdById (f b) = bk_createdById b"

lemma update_bookings_inv:
  assumes inv: "db_inv d" and upd: "update_bookings err p f d = Inr (d', hit)"
    and frame: "\<And>b. p b \<Longrightarrow> booking_frame f b"
    and dec: "\<And>b. b \<in> set (bookings d) \<Longrightarrow> p b \<Longrightarrow> decision_ok (f b)"
  shows "db_inv d'"
proof -
  let ?bs = "update_rows p f (bookings d)"
  have id: "p b \<Longrightarrow> bk_id (f b) = bk_id b" for b using frame by (simp add: booking_frame_def)
  have ss: "fold (\<lambda>b. booking_requests_holds_slot b (f b)) (filter p (bookings d)) (slots d) =
      map (booking_slots_holds_slot ?bs) (slots d)"
    by (rule status_trigger_recomputes) (use db_invD [OF inv] id in auto)
  with upd have d': "d' = d\<lparr>bookings := ?bs, slots := map (booking_slots_holds_slot ?bs) (slots d)\<rparr>"
    and no: "booking_slots_no_overlap (map (booking_slots_holds_slot ?bs) (slots d))"
    by (auto simp: update_bookings_def Let_def split: if_splits)
  have "ids_ok d'"
    using db_invD(1) [OF inv] frame
    by (simp add: d' ids_ok_def map_update_rows booking_frame_def comp_def)
  moreover have "refs_ok d'"
    unfolding refs_ok_def
  proof
    fix s assume "s \<in> set (slots d')"
    then obtain s0 where s0: "s0 \<in> set (slots d)" "sl_bookingRequestId s = sl_bookingRequestId s0"
      "sl_venueId s = sl_venueId s0" by (auto simp: d')
    then obtain b where b: "b \<in> set (bookings d)" "bk_id b = sl_bookingRequestId s0"
      "bk_venueId b = sl_venueId s0" using db_invD(2) [OF inv] by (auto simp: refs_ok_def)
    then have "(if p b then f b else b) \<in> set (bookings d')" by (auto simp: d' set_update_rows)
    with b s0 frame show "\<exists>b \<in> set (bookings d'). bk_id b = sl_bookingRequestId s \<and> bk_venueId b = sl_venueId s"
      by (intro bexI [of _ "if p b then f b else b"]) (auto simp: booking_frame_def)
  qed
  moreover have "holds_ok d'" by (auto simp: d' holds_ok_def)
  moreover have "spans_ok d'"
    using db_invD(4) [OF inv] by (auto simp: d' spans_ok_def siblings_disjoint_map)
  moreover have "\<forall>s \<in> set (slots d'). cancellation_ok s"
    using db_invD(5) [OF inv] by (auto simp: d')
  moreover have "\<forall>b \<in> set (bookings d'). owner_check b \<and> decision_ok b"
  proof
    fix c assume "c \<in> set (bookings d')"
    then obtain b where b: "b \<in> set (bookings d)" and c: "c = (if p b then f b else b)"
      by (auto simp: d' set_update_rows)
    have "owner_check c = owner_check b"
      using frame [of b] by (auto simp: c owner_check_def booking_frame_def)
    with db_invD(6,7) [OF inv b] dec b show "owner_check c \<and> decision_ok c" by (auto simp: c)
  qed
  ultimately show ?thesis using no by (simp add: db_inv_def d')
qed

definition slot_frame :: "(slot \<Rightarrow> slot) \<Rightarrow> slot \<Rightarrow> bool" where
  "slot_frame g s \<longleftrightarrow> sl_id (g s) = sl_id s \<and> sl_bookingRequestId (g s) = sl_bookingRequestId s \<and>
     sl_venueId (g s) = sl_venueId s \<and> sl_startAt (g s) = sl_startAt s \<and> sl_endAt (g s) = sl_endAt s \<and>
     (cancellation_ok s \<longrightarrow> cancellation_ok (g s))"

lemma update_slots_inv:
  assumes inv: "db_inv d" and upd: "update_slots err p g d = Inr (d', hit)"
    and frame: "\<And>s. p s \<Longrightarrow> slot_frame g s"
  shows "db_inv d'"
proof -
  let ?h = "\<lambda>s. if p s then booking_slots_holds_slot (bookings d) (g s) else s"
  from upd have d': "d' = d\<lparr>slots := map ?h (slots d)\<rparr>"
    and no: "booking_slots_no_overlap (map ?h (slots d))"
    by (auto simp: update_slots_def Let_def update_rows_def split: if_splits)
  have h: "sl_id (?h s) = sl_id s" "sl_bookingRequestId (?h s) = sl_bookingRequestId s"
    "sl_venueId (?h s) = sl_venueId s" "sl_startAt (?h s) = sl_startAt s" "sl_endAt (?h s) = sl_endAt s"
    "cancellation_ok s \<Longrightarrow> cancellation_ok (?h s)" for s
    using frame [of s] by (auto simp: slot_frame_def)
  have ids: "map sl_id (slots d') = map sl_id (slots d)" by (simp add: d' h(1))
  have "ids_ok d'"
    unfolding ids_ok_def ids using db_invD(1) [OF inv] by (simp add: ids_ok_def d')
  moreover have "refs_ok d'"
    using db_invD(2) [OF inv] frame by (auto simp: d' refs_ok_def slot_frame_def)
  moreover have "holds_ok d'"
    using db_invD(3) [OF inv] by (auto simp: d' holds_ok_def)
  moreover have "spans_ok d'"
    using db_invD(4) [OF inv] h(2,4,5) siblings_disjoint_map [of ?h "slots d"] frame
    by (auto simp: d' spans_ok_def slot_frame_def)
  moreover have "\<forall>s \<in> set (slots d'). cancellation_ok s"
    using db_invD(5) [OF inv] frame by (auto simp: d' slot_frame_def)
  moreover have "\<forall>b \<in> set (bookings d'). owner_check b \<and> decision_ok b"
    using db_invD(6,7) [OF inv] by (simp add: d')
  ultimately show ?thesis using no by (simp add: db_inv_def d')
qed

text \<open>Creating a request with its slots.\<close>

definition new_slots_ok :: "booking \<Rightarrow> slot list \<Rightarrow> bool" where
  "new_slots_ok b new \<longleftrightarrow>
     (\<forall>s \<in> set new. sl_bookingRequestId s = bk_id b \<and> sl_venueId s = bk_venueId b \<and>
        sl_startAt s < sl_endAt s \<and> cancellation_ok s) \<and> siblings_disjoint new"

lemma create_booking_inv:
  assumes inv: "db_inv d" and cr: "create_booking env b new d = Inr (d', b')"
    and new: "new_slots_ok b new" and dec: "decision_ok b"
  shows "db_inv d'"
proof -
  let ?bs = "bookings d @ [b]"
  let ?new = "map (booking_slots_holds_slot ?bs) new"
  from cr have d': "d' = d\<lparr>bookings := ?bs, slots := slots d @ ?new\<rparr>"
    and fresh: "bk_id b \<notin> bk_id ` set (bookings d)" "bk_code b \<notin> bk_code ` set (bookings d)"
    and dist: "distinct (map sl_id (slots d @ ?new))" and owner: "owner_check b"
    and no: "booking_slots_no_overlap (slots d @ ?new)"
    by (auto simp: create_booking_def Let_def split: if_splits)
  have old: "sl_bookingRequestId s \<noteq> bk_id b" if "s \<in> set (slots d)" for s
    using that db_invD(2) [OF inv] fresh(1) by (metis refs_ok_def image_eqI)
  have "ids_ok d'" using db_invD(1) [OF inv] fresh dist by (auto simp: ids_ok_def d')
  moreover have "refs_ok d'"
    using db_invD(2) [OF inv] new by (auto simp: d' refs_ok_def new_slots_ok_def)
  moreover have "holds_ok d'"
  proof -
    have "has_booking ?bs i APPROVED \<longleftrightarrow> has_booking (bookings d) i APPROVED" if "i \<noteq> bk_id b" for i
      using that by (auto simp: has_booking_iff)
    then show ?thesis using db_invD(3) [OF inv] old by (auto simp: d' holds_ok_def)
  qed
  moreover have "spans_ok d'"
  proof -
    have "siblings_disjoint (slots d @ ?new)"
      using db_invD(4) [OF inv] new old siblings_disjoint_map [of "booking_slots_holds_slot ?bs" new]
      by (auto simp: spans_ok_def siblings_disjoint_def sorted_wrt_append new_slots_ok_def)
    then show ?thesis using db_invD(4) [OF inv] new
      by (auto simp: d' spans_ok_def new_slots_ok_def)
  qed
  moreover have "\<forall>s \<in> set (slots d'). cancellation_ok s"
    using db_invD(5) [OF inv] new by (auto simp: d' new_slots_ok_def)
  moreover have "\<forall>b \<in> set (bookings d'). owner_check b \<and> decision_ok b"
    using db_invD(6,7) [OF inv] owner dec by (auto simp: d')
  ultimately show ?thesis using no by (simp add: db_inv_def d')
qed

subsection \<open>What the invariant says to a reader of the calendar\<close>

lemma no_overlap_pair:
  assumes "booking_slots_no_overlap ss" "s \<in> set ss" "t \<in> set ss" "s \<noteq> t"
    "sl_holdsSlot s" "sl_holdsSlot t"
  shows "\<not> slots_clash s t"
  using assms
proof (induction ss)
  case Nil
  then show ?case by simp
next
  case (Cons u us)
  have sym: "slots_clash x y = slots_clash y x" for x y
    by (auto simp: slots_clash_def ranges_overlap_def)
  from Cons show ?case by (auto simp: booking_slots_no_overlap_def sym)
qed

definition approved_live :: "db \<Rightarrow> slot \<Rightarrow> bool" where
  "approved_live d s \<longleftrightarrow> s \<in> set (slots d) \<and> \<not> sl_isCancelled s \<and>
     has_booking (bookings d) (sl_bookingRequestId s) APPROVED"

lemma db_inv_no_double_booking:
  assumes "db_inv d" "approved_live d s" "approved_live d t" "s \<noteq> t"
    "sl_venueId s = sl_venueId t"
  shows "sl_endAt s \<le> sl_startAt t \<or> sl_endAt t \<le> sl_startAt s"
proof -
  have "sl_holdsSlot s" "sl_holdsSlot t"
    using assms db_invD(3) [OF assms(1)] by (auto simp: approved_live_def holds_ok_def)
  then have "\<not> slots_clash s t"
    using assms db_invD(8) [OF assms(1)] no_overlap_pair by (auto simp: approved_live_def)
  moreover have "sl_startAt s < sl_endAt s" "sl_startAt t < sl_endAt t"
    using assms db_invD(4) [OF assms(1)] by (auto simp: approved_live_def spans_ok_def)
  ultimately show ?thesis using assms(5) by (auto simp: slots_clash_def ranges_overlap_def)
qed

end
