(* ===== verification/Overlap.thy ===== *)
theory Overlap
  imports BookingInv
begin

text \<open>
  \<open>src/src/bookings/booking-overlap.ts\<close>: the half-open overlap rule, the two questions asked
  with it (an APPROVED clash, the PENDING losers), \<open>parseSlots\<close>, and the classification of
  driver errors; with \<open>isCodeCollision\<close> of \<open>booking-code.ts\<close>. The lemmas relate the TypeScript rule to the database's
  exclusion constraint.
\<close>

subsection \<open>The overlap rule\<close>

record slot_span =
  sp_start :: time
  sp_end :: time

text \<open>\<open>OR: spans.map(s => { startAt: { lt: s.end }, endAt: { gt: s.start } })\<close>.\<close>

definition overlapOr :: "slot_span list \<Rightarrow> slot \<Rightarrow> bool" where
  "overlapOr spans x = list_ex (\<lambda>s. sl_startAt x < sp_end s \<and> sl_endAt x > sp_start s) spans"

definition approvedClashWhere :: "booking list \<Rightarrow> string \<Rightarrow> slot_span list \<Rightarrow> string option \<Rightarrow> slot \<Rightarrow> bool" where
  "approvedClashWhere bs venueId spans excludeRequestId x \<longleftrightarrow>
     sl_venueId x = venueId \<and> \<not> sl_isCancelled x \<and>
     has_booking bs (sl_bookingRequestId x) APPROVED \<and>
     (case excludeRequestId of
        None \<Rightarrow> True
      | Some i \<Rightarrow> i = [] \<or> sl_bookingRequestId x \<noteq> i) \<and>
     overlapOr spans x"

definition findApprovedClash ::
  "env \<Rightarrow> nat \<Rightarrow> string \<Rightarrow> slot_span list \<Rightarrow> string option \<Rightarrow> ('e, slot option) tx"
where
  "findApprovedClash env k venueId spans excludeRequestId =
     (if spans = [] then tx_return None
      else tx_read env k (\<lambda>d.
        find_first (approvedClashWhere (bookings d) venueId spans excludeRequestId) (slots d)))"

definition assertNoApprovedClash ::
  "env \<Rightarrow> nat \<Rightarrow> string \<Rightarrow> slot_span list \<Rightarrow> string option \<Rightarrow> ('e, unit) tx"
where
  "assertNoApprovedClash env k venueId spans excludeRequestId =
     tx_bind (findApprovedClash env k venueId spans excludeRequestId)
       (\<lambda>clash. tx_assert (clash = None) (Conflict SLOT_TAKEN))"

record loser =
  lo_id :: string
  lo_code :: string
  lo_firstStartAt :: time
  lo_lastEndAt :: time

definition pendingLoserWhere :: "db \<Rightarrow> string \<Rightarrow> slot_span list \<Rightarrow> string option \<Rightarrow> booking \<Rightarrow> bool" where
  "pendingLoserWhere d venueId spans excludeRequestId b \<longleftrightarrow>
     bk_venueId b = venueId \<and> bk_status b = PENDING \<and>
     (case excludeRequestId of None \<Rightarrow> True | Some i \<Rightarrow> i = [] \<or> bk_id b \<noteq> i) \<and>
     list_ex (\<lambda>s. sl_bookingRequestId s = bk_id b \<and> \<not> sl_isCancelled s \<and> overlapOr spans s) (slots d)"

definition loser_of :: "booking \<Rightarrow> loser" where
  "loser_of b = \<lparr>lo_id = bk_id b, lo_code = bk_code b,
     lo_firstStartAt = bk_firstStartAt b, lo_lastEndAt = bk_lastEndAt b\<rparr>"

text \<open>\<open>orderBy: { code: 'asc' }\<close> in the database's collation.\<close>

definition by_code :: "env \<Rightarrow> booking \<Rightarrow> booking \<Rightarrow> int" where
  "by_code env a b = collate env (bk_code a) (bk_code b)"

definition pending_losers :: "env \<Rightarrow> string \<Rightarrow> slot_span list \<Rightarrow> string option \<Rightarrow> db \<Rightarrow> loser list" where
  "pending_losers env venueId spans excludeRequestId d =
     map loser_of (js_sort (by_code env)
       (filter (pendingLoserWhere d venueId spans excludeRequestId) (bookings d)))"

definition findPendingLosers ::
  "env \<Rightarrow> nat \<Rightarrow> string \<Rightarrow> slot_span list \<Rightarrow> string option \<Rightarrow> ('e, loser list) tx"
where
  "findPendingLosers env k venueId spans excludeRequestId =
     (if spans = [] then tx_return []
      else tx_read env k (pending_losers env venueId spans excludeRequestId))"

subsection \<open>Parsing the requested slots\<close>

text \<open>A span as parsed: the two \<open>Date\<close>s, either of which may be invalid.\<close>

type_synonym parsed_span = "js_date \<times> js_date"

fun check_spans :: "(string \<Rightarrow> js_date) \<Rightarrow> time \<Rightarrow> (string \<times> string) list \<Rightarrow> booking_message + parsed_span list" where
  "check_spans parse now [] = Inr []"
| "check_spans parse now ((startAt, endAt) # rest) =
     (let start = parse startAt; end' = parse endAt
      in if js_less_eq end' start then Inl SLOT_RANGE_INVALID
         else if js_less_eq start (Some now) then Inl SLOT_IN_THE_PAST
         else (case check_spans parse now rest of
                 Inl e \<Rightarrow> Inl e
               | Inr ss \<Rightarrow> Inr ((start, end') # ss)))"

definition cmp_parsed :: "parsed_span \<Rightarrow> parsed_span \<Rightarrow> int" where
  "cmp_parsed a b = js_cmp_date (fst a) (fst b)"

fun adjacent_overlap :: "parsed_span list \<Rightarrow> bool" where
  "adjacent_overlap (a # b # rest) = (js_less (fst b) (snd a) \<or> adjacent_overlap (b # rest))"
| "adjacent_overlap _ = False"

definition parseSlots :: "(string \<Rightarrow> js_date) \<Rightarrow> time \<Rightarrow> (string \<times> string) list \<Rightarrow> booking_message + parsed_span list" where
  "parseSlots parse now input =
     (case check_spans parse now input of
        Inl e \<Rightarrow> Inl e
      | Inr ss \<Rightarrow> if adjacent_overlap (js_sort cmp_parsed ss) then Inl SLOT_SELF_OVERLAP else Inr ss)"

subsection \<open>Classifying driver errors\<close>

definition OVERLAP_CONSTRAINT :: string where
  "OVERLAP_CONSTRAINT = ''booking_slots_no_overlap''"

definition EXCLUSION_VIOLATION :: string where
  "EXCLUSION_VIOLATION = ''23P01''"

definition isOverlapViolation :: "js_error \<Rightarrow> bool" where
  "isOverlapViolation err =
     list_ex (\<lambda>node. node_code node = Some EXCLUSION_VIOLATION \<or>
       (case err_message node of None \<Rightarrow> False | Some m \<Rightarrow> js_includes m OVERLAP_CONSTRAINT))
       (errorChain [err])"

definition isTransactionRace :: "js_error \<Rightarrow> bool" where
  "isTransactionRace err = isWriteConflict err"

definition isCodeCollision :: "js_error \<Rightarrow> bool" where
  "isCodeCollision err \<longleftrightarrow> err_known err \<and> err_code err = Some ''P2002'' \<and>
     (case err_target err of
        TargetList ts \<Rightarrow> ''code'' \<in> set ts
      | TargetString t \<Rightarrow> t = ''code''
      | NoTarget \<Rightarrow> False)"

end
