(* ===== verification/BookingView.thy ===== *)
theory BookingView
  imports Overlap
begin

text \<open>
  \<open>src/src/bookings/booking-list-view.ts\<close>: who a booking is for, the queue row the admin screens
  and the realtime events share, and its re-read by id; with the joins of the tables it needs.
\<close>

subsection \<open>Joins\<close>

definition line_user_of :: "db \<Rightarrow> string option \<Rightarrow> line_user option" where
  "line_user_of d i = (case i of None \<Rightarrow> None | Some u \<Rightarrow> find_first (\<lambda>x. lu_id x = u) (line_users d))"

definition registration_of :: "db \<Rightarrow> string option \<Rightarrow> registration option" where
  "registration_of d i = (case line_user_of d i of None \<Rightarrow> None | Some u \<Rightarrow> lu_registration u)"

definition department_name :: "db \<Rightarrow> int option \<Rightarrow> string option" where
  "department_name d i = (case i of None \<Rightarrow> None
     | Some n \<Rightarrow> map_option dp_name (find_first (\<lambda>x. dp_id x = n) (departments d)))"

definition venue_of :: "db \<Rightarrow> string \<Rightarrow> venue option" where
  "venue_of d i = find_first (\<lambda>v. ve_id v = i) (venues d)"

text \<open>\<open>orderBy: [{ startAt: 'asc' }, { id: 'asc' }]\<close>.\<close>

definition by_start_id :: "env \<Rightarrow> slot \<Rightarrow> slot \<Rightarrow> int" where
  "by_start_id env s t =
     (if sl_startAt s \<noteq> sl_startAt t then sl_startAt s - sl_startAt t
      else collate env (sl_id s) (sl_id t))"

definition ordered_slots_of :: "env \<Rightarrow> db \<Rightarrow> string \<Rightarrow> slot list" where
  "ordered_slots_of env d i = js_sort (by_start_id env) (slots_of d i)"

subsection \<open>The requester\<close>

record requester_dto =
  rq_name :: "string option"
  rq_phone :: "string option"
  rq_departmentName :: "string option"

definition full_name :: "registration \<Rightarrow> string option" where
  "full_name reg = or_null (js_trim (reg_firstName reg @ '' '' @ reg_lastName reg))"

definition requesterOf :: "db \<Rightarrow> booking \<Rightarrow> requester_dto" where
  "requesterOf d row = (case registration_of d (bk_lineUserId row) of
       Some reg \<Rightarrow> \<lparr>rq_name = full_name reg, rq_phone = Some (reg_phone reg),
                    rq_departmentName = department_name d (Some (reg_departmentId reg))\<rparr>
     | None \<Rightarrow> \<lparr>rq_name = bk_requesterName row, rq_phone = bk_contactPhone row,
                rq_departmentName = department_name d (bk_departmentId row)\<rparr>)"

definition effectiveDepartmentIdOf :: "db \<Rightarrow> booking \<Rightarrow> int option" where
  "effectiveDepartmentIdOf d row = (case registration_of d (bk_lineUserId row) of
       Some reg \<Rightarrow> Some (reg_departmentId reg)
     | None \<Rightarrow> bk_departmentId row)"

subsection \<open>The queue row\<close>

datatype booking_origin = ORIGIN_LINE | ORIGIN_ADMIN

record admin_slot_dto =
  as_id :: string
  as_startAt :: time
  as_endAt :: time
  as_isCancelled :: bool
  as_cancelledAt :: "time option"
  as_cancelReason :: "string option"
  as_cancelledByRole :: "string option"

definition toAdminSlotDto :: "slot \<Rightarrow> admin_slot_dto" where
  "toAdminSlotDto s = \<lparr>as_id = sl_id s, as_startAt = sl_startAt s, as_endAt = sl_endAt s,
     as_isCancelled = sl_isCancelled s, as_cancelledAt = sl_cancelledAt s,
     as_cancelReason = sl_cancelReason s, as_cancelledByRole = sl_cancelledByRole s\<rparr>"

record venue_ref =
  vr_id :: string
  vr_name :: string
  vr_location :: "string option"

definition venue_ref_of :: "db \<Rightarrow> string \<Rightarrow> venue_ref option" where
  "venue_ref_of d i = map_option
     (\<lambda>v. \<lparr>vr_id = ve_id v, vr_name = ve_name v, vr_location = ve_location v\<rparr>) (venue_of d i)"

record booking_list_dto =
  bl_id :: string
  bl_code :: string
  bl_status :: booking_status
  bl_origin :: booking_origin
  bl_requester :: requester_dto
  bl_venue :: "venue_ref option"
  bl_purpose :: string
  bl_attendees :: int
  bl_firstStartAt :: time
  bl_lastEndAt :: time
  bl_slots :: "admin_slot_dto list"
  bl_rejectReason :: "string option"
  bl_createdAt :: time

definition toBookingListDto :: "env \<Rightarrow> db \<Rightarrow> booking \<Rightarrow> booking_list_dto" where
  "toBookingListDto env d row =
     \<lparr>bl_id = bk_id row, bl_code = bk_code row, bl_status = bk_status row,
      bl_origin = (if bk_createdById row = None then ORIGIN_LINE else ORIGIN_ADMIN),
      bl_requester = requesterOf d row,
      bl_venue = venue_ref_of d (bk_venueId row),
      bl_purpose = bk_purpose row, bl_attendees = bk_attendees row,
      bl_firstStartAt = bk_firstStartAt row, bl_lastEndAt = bk_lastEndAt row,
      bl_slots = map toAdminSlotDto (ordered_slots_of env d (bk_id row)),
      bl_rejectReason = bk_rejectReason row, bl_createdAt = bk_createdAt row\<rparr>"

text \<open>\<open>findMany({ where: { id: { in: ids } } })\<close>.\<close>

definition bookings_in :: "db \<Rightarrow> string list \<Rightarrow> booking list" where
  "bookings_in d ids = filter (\<lambda>b. bk_id b \<in> set ids) (bookings d)"

text \<open>A \<open>Map\<close> built from the rows keeps the last of equal keys; the caller's order is kept.\<close>

definition readBookingListDtos :: "env \<Rightarrow> db \<Rightarrow> string list \<Rightarrow> booking_list_dto list" where
  "readBookingListDtos env d ids =
     (if ids = [] then []
      else (let byId = map_of (rev (map (\<lambda>row. (bk_id row, toBookingListDto env d row)) (bookings_in d ids)))
            in List.map_filter byId ids))"

subsection \<open>Lemmas\<close>

lemma map_of_rows:
  assumes "distinct (map bk_id bs)"
  shows "map_of (rev (map (\<lambda>row. (bk_id row, g row)) bs)) i =
    map_option g (find_first (\<lambda>b. bk_id b = i) bs)"
proof -
  have "distinct (map fst (map (\<lambda>row. (bk_id row, g row)) bs))"
    using assms by (simp add: comp_def)
  then have "map_of (rev (map (\<lambda>row. (bk_id row, g row)) bs)) = map_of (map (\<lambda>row. (bk_id row, g row)) bs)"
    by (intro map_of_inject_set [THEN iffD2]) (auto simp: rev_map [symmetric])
  moreover have "map_of (map (\<lambda>row. (bk_id row, g row)) bs) i =
      map_option g (find_first (\<lambda>b. bk_id b = i) bs)"
    by (induction bs) (auto simp: find_first_def)
  ultimately show ?thesis by simp
qed

lemma find_first_filter:
  "(\<And>x. p x \<Longrightarrow> q x) \<Longrightarrow> find_first p (filter q xs) = find_first p xs"
  by (induction xs) (auto simp: find_first_def)

lemma find_first_Cons: "find_first p (x # xs) = (if p x then Some x else find_first p xs)"
  by (simp add: find_first_def)

text \<open>The batch read is the pointwise read, in the caller's order.\<close>

lemma readBookingListDtos_pointwise:
  assumes "ids_ok d"
  shows "readBookingListDtos env d ids =
    List.map_filter (\<lambda>i. map_option (toBookingListDto env d) (booking_of d i)) ids"
proof -
  let ?bs = "bookings_in d ids"
  have dist: "distinct (map bk_id ?bs)"
    using assms by (auto simp: ids_ok_def bookings_in_def intro: distinct_map_filter)
  have "map_of (rev (map (\<lambda>row. (bk_id row, toBookingListDto env d row)) ?bs)) i =
      map_option (toBookingListDto env d) (booking_of d i)" if "i \<in> set ids" for i
    using that find_first_filter [of "\<lambda>b. bk_id b = i" "\<lambda>b. bk_id b \<in> set ids" "bookings d"]
    by (subst map_of_rows [OF dist]) (simp add: bookings_in_def booking_of_def)
  then show ?thesis
    by (simp add: readBookingListDtos_def List.map_filter_def cong: filter_cong map_cong)
qed

end
