(* ===== verification/Fanout.thy ===== *)
theory Fanout
  imports BookingView
begin

text \<open>
  What leaves the booking services after a commit: the realtime fan-out to the two socket
  namespaces (\<open>src/src/bookings/booking-realtime.ts\<close>) and the LINE cards
  (\<open>booking-notifier.ts\<close>). An emission is a value of \<open>event\<close> appended to the world's log;
  a failed re-read is swallowed, as in the code. The transports themselves are not modelled: an
  event in the log was handed to the gateway or to the LINE client.
\<close>

subsection \<open>Events\<close>

record actor =
  ac_id :: string
  ac_name :: string
  ac_role :: system_role

record realtime_actor =
  ra_id :: string
  ra_name :: string

record client_booking_payload =
  cb_id :: string
  cb_code :: string
  cb_status :: booking_status
  cb_rejectReason :: "string option"

datatype decision_status =
    DS_PENDING | DS_APPROVED | DS_REJECTED | DS_AUTO_REJECTED | DS_EXPIRED
  | DS_CANCELLED_BY_USER | DS_CANCELLED_BY_STAFF

record decision_card =
  dc_status :: decision_status
  dc_bookingCode :: string
  dc_purpose :: string
  dc_attendees :: int
  dc_venueName :: "string option"
  dc_venueLocation :: "string option"
  dc_text :: slots_text
  dc_reason :: "string option"
  dc_bookingId :: string
  dc_venueId :: string
  dc_liffUrl :: "string option"

record reminder_card =
  rc_leadTimeText :: string
  rc_bookingCode :: string
  rc_purpose :: string
  rc_attendees :: int
  rc_venueName :: "string option"
  rc_venueLocation :: "string option"
  rc_dateText :: string
  rc_periodText :: string

record auto_rejected =
  ar_id :: string
  ar_code :: string

datatype admin_trigger =
    BookingRequested string
  | BookingCancelledByRequester string "string option"
  | BookingsAutoRejected string "auto_rejected list" actor
  | DirectBookingCreated string actor
  | BookingsExpired "string list"

datatype event =
    AdminBookingCreated booking_list_dto "realtime_actor option"
  | AdminBookingUpdated booking_list_dto "realtime_actor option"
  | ClientBookingUpdated string client_booking_payload
  | ClientVenueAvailabilityChanged string
  | ClientScheduleUpdated
  | DecisionCard string decision_card
  | ReminderCard string reminder_card
  | AdminTrigger admin_trigger

text \<open>\<open>try { ... } catch { logger.warn }\<close>: the failure ends here.\<close>

definition fail_soft :: "('e, unit) tx \<Rightarrow> ('e, unit) tx" where
  "fail_soft m = (\<lambda>w. case m w of (Inl _, w') \<Rightarrow> (Inr (), w') | (Inr a, w') \<Rightarrow> (Inr a, w'))"

definition read_and_emit :: "env \<Rightarrow> nat \<Rightarrow> (db \<Rightarrow> 'e list) \<Rightarrow> ('e, unit) tx" where
  "read_and_emit env k f = fail_soft (tx_bind (tx_read env k f) emit)"

subsection \<open>Realtime\<close>

datatype publish_kind = CREATED | UPDATED

definition realtime_actor_of :: "actor \<Rightarrow> realtime_actor" where
  "realtime_actor_of a = \<lparr>ra_id = ac_id a, ra_name = ac_name a\<rparr>"

definition admin_events :: "env \<Rightarrow> publish_kind \<Rightarrow> string list \<Rightarrow> actor option \<Rightarrow> db \<Rightarrow> event list" where
  "admin_events env kind ids act d =
     (let who = map_option realtime_actor_of act
      in map (\<lambda>b. case kind of CREATED \<Rightarrow> AdminBookingCreated b who | UPDATED \<Rightarrow> AdminBookingUpdated b who)
           (readBookingListDtos env d ids))"

definition CLIENT_ANNOUNCED_STATUSES :: "booking_status list" where
  "CLIENT_ANNOUNCED_STATUSES = [APPROVED, REJECTED, CANCELLED, PENDING, EXPIRED]"

definition SCHEDULE_PULSE_STATUSES :: "booking_status list" where
  "SCHEDULE_PULSE_STATUSES = [APPROVED, CANCELLED]"

definition client_row_events :: "booking \<Rightarrow> event list" where
  "client_row_events row =
     (if bk_status row \<notin> set CLIENT_ANNOUNCED_STATUSES then []
      else (case bk_lineUserId row of
              None \<Rightarrow> []
            | Some u \<Rightarrow> if u = [] then []
                else [ClientBookingUpdated u \<lparr>cb_id = bk_id row, cb_code = bk_code row,
                        cb_status = bk_status row, cb_rejectReason = bk_rejectReason row\<rparr>])
           @ [ClientVenueAvailabilityChanged (bk_venueId row)]
           @ (if bk_status row \<in> set SCHEDULE_PULSE_STATUSES then [ClientScheduleUpdated] else []))"

definition client_events :: "string list \<Rightarrow> db \<Rightarrow> event list" where
  "client_events ids d = concat (map client_row_events (bookings_in d ids))"

definition publishClientBookingUpdates :: "env \<Rightarrow> nat \<Rightarrow> string list \<Rightarrow> (event, unit) tx" where
  "publishClientBookingUpdates env k ids = read_and_emit env k (client_events ids)"

definition publishBookingRequests ::
  "env \<Rightarrow> nat \<Rightarrow> publish_kind \<Rightarrow> string list \<Rightarrow> actor option \<Rightarrow> (event, unit) tx"
where
  "publishBookingRequests env k kind ids act =
     (if ids = [] then tx_return ()
      else tx_bind (read_and_emit env k (admin_events env kind ids act))
             (\<lambda>_. publishClientBookingUpdates env (k + 1) ids))"

subsection \<open>LINE cards\<close>

definition BOOKING_REMINDER_LEAD_MINUTES :: int where
  "BOOKING_REMINDER_LEAD_MINUTES = 60"

definition REMINDER_LEAD_SPLIT_MINUTES :: int where
  "REMINDER_LEAD_SPLIT_MINUTES = 45"

definition reminderLeadText :: "time \<Rightarrow> time \<Rightarrow> string" where
  "reminderLeadText startAt now =
     (if startAt - now > REMINDER_LEAD_SPLIT_MINUTES * 60000
      then [CHR 0x31, CHR 0x20, CHR 0xE0, CHR 0xB8, CHR 0x8A, CHR 0xE0, CHR 0xB8, CHR 0xB1, CHR 0xE0,
      CHR 0xB9, CHR 0x88, CHR 0xE0, CHR 0xB8, CHR 0xA7, CHR 0xE0, CHR 0xB9, CHR 0x82, CHR
      0xE0, CHR 0xB8, CHR 0xA1, CHR 0xE0, CHR 0xB8, CHR 0x87]
      else [CHR 0x33, CHR 0x30, CHR 0x20, CHR 0xE0, CHR 0xB8, CHR 0x99, CHR 0xE0, CHR 0xB8, CHR 0xB2,
      CHR 0xE0, CHR 0xB8, CHR 0x97, CHR 0xE0, CHR 0xB8, CHR 0xB5])"

definition reminderDateText :: "time \<Rightarrow> time \<Rightarrow> string" where
  "reminderDateText startAt now =
     (let date = thaiShortDate startAt
      in if bookingCodeDatePart startAt = bookingCodeDatePart now
         then [CHR 0xE0, CHR 0xB8, CHR 0xA7, CHR 0xE0, CHR 0xB8, CHR 0xB1, CHR 0xE0, CHR 0xB8, CHR 0x99,
      CHR 0xE0, CHR 0xB8, CHR 0x99, CHR 0xE0, CHR 0xB8, CHR 0xB5, CHR 0xE0, CHR 0xB9, CHR
      0x89, CHR 0x20, CHR 0x28] @ date @ '')''
         else date)"

record decision_notice =
  dn_bookingId :: string
  dn_status :: decision_status
  dn_reason :: "string option"
  dn_slotIds :: "string list option"

definition notice :: "string \<Rightarrow> decision_status \<Rightarrow> decision_notice" where
  "notice i st = \<lparr>dn_bookingId = i, dn_status = st, dn_reason = None, dn_slotIds = None\<rparr>"

text \<open>\<open>!user || user.deletedAt\<close>, then the category of the stored preferences.\<close>

definition recipientOf :: "line_user option \<Rightarrow> (notification_preferences \<Rightarrow> bool) \<Rightarrow> string option" where
  "recipientOf user category = (case user of
       None \<Rightarrow> None
     | Some u \<Rightarrow> if lu_deletedAt u \<noteq> None then None
                else if category (toNotificationPreferences (lu_notifications u))
                then Some (lu_lineUserId u) else None)"

definition pickSlots :: "slot list \<Rightarrow> string list option \<Rightarrow> slot list" where
  "pickSlots ss slotIds =
     (let live = filter (\<lambda>s. \<not> sl_isCancelled s) ss;
          rest = (if live \<noteq> [] then live else ss)
      in case slotIds of
           None \<Rightarrow> rest
         | Some ids \<Rightarrow>
             (let picked = filter (\<lambda>s. sl_id s \<in> set ids) ss
              in if ids \<noteq> [] \<and> picked \<noteq> [] then picked else rest))"

definition slot_times_of :: "slot \<Rightarrow> slot_times" where
  "slot_times_of s = \<lparr>st_startAt = sl_startAt s, st_endAt = sl_endAt s\<rparr>"

definition sendDecision :: "env \<Rightarrow> db \<Rightarrow> decision_notice \<Rightarrow> booking option \<Rightarrow> event list" where
  "sendDecision env d n row = (case row of
       None \<Rightarrow> []
     | Some b \<Rightarrow> (case recipientOf (line_user_of d (bk_lineUserId b)) np_decisions of
           None \<Rightarrow> []
         | Some to \<Rightarrow> if to = [] then [] else
             [DecisionCard to
               \<lparr>dc_status = dn_status n, dc_bookingCode = bk_code b, dc_purpose = bk_purpose b,
                dc_attendees = bk_attendees b,
                dc_venueName = map_option ve_name (venue_of d (bk_venueId b)),
                dc_venueLocation = Option.bind (venue_of d (bk_venueId b)) ve_location,
                dc_text = describeSlots (map slot_times_of
                  (pickSlots (ordered_slots_of env d (bk_id b)) (dn_slotIds n))),
                dc_reason = (if dn_status n = DS_AUTO_REJECTED then None else dn_reason n),
                dc_bookingId = bk_id b, dc_venueId = bk_venueId b, dc_liffUrl = liff_url env\<rparr>]))"

definition decision_events :: "env \<Rightarrow> decision_notice list \<Rightarrow> db \<Rightarrow> event list" where
  "decision_events env notices d =
     (let ids = js_set (map dn_bookingId notices);
          rows = filter (\<lambda>b. bk_lineUserId b \<noteq> None) (bookings_in d ids);
          byId = map_of (rev (map (\<lambda>row. (bk_id row, row)) rows))
      in concat (map (\<lambda>n. sendDecision env d n (byId (dn_bookingId n))) notices))"

definition notifyDecisions :: "env \<Rightarrow> nat \<Rightarrow> decision_notice list \<Rightarrow> (event, unit) tx" where
  "notifyDecisions env k notices =
     (if notices = [] then tx_return () else read_and_emit env k (decision_events env notices))"

definition sendReminder :: "db \<Rightarrow> time \<Rightarrow> slot \<Rightarrow> event list" where
  "sendReminder d now s = (case booking_of d (sl_bookingRequestId s) of
       None \<Rightarrow> []
     | Some b \<Rightarrow> (case recipientOf (line_user_of d (bk_lineUserId b)) np_reminders of
           None \<Rightarrow> []
         | Some to \<Rightarrow> if to = [] then [] else
             [ReminderCard to
               \<lparr>rc_leadTimeText = reminderLeadText (sl_startAt s) now,
                rc_bookingCode = bk_code b, rc_purpose = bk_purpose b, rc_attendees = bk_attendees b,
                rc_venueName = map_option ve_name (venue_of d (bk_venueId b)),
                rc_venueLocation = Option.bind (venue_of d (bk_venueId b)) ve_location,
                rc_dateText = reminderDateText (sl_startAt s) now,
                rc_periodText = bangkokClock (sl_startAt s) @ '' - '' @ bangkokClock (sl_endAt s)
                  @ [CHR 0x20, CHR 0xE0, CHR 0xB8, CHR 0x99, CHR 0x2E]\<rparr>]))"

definition reminder_events :: "string list \<Rightarrow> time \<Rightarrow> db \<Rightarrow> event list" where
  "reminder_events slotIds now d =
     concat (map (sendReminder d now) (filter (\<lambda>s. sl_id s \<in> set slotIds) (slots d)))"

definition notifyReminders :: "env \<Rightarrow> nat \<Rightarrow> string list \<Rightarrow> time \<Rightarrow> (event, unit) tx" where
  "notifyReminders env k slotIds now =
     (if slotIds = [] then tx_return () else read_and_emit env k (reminder_events slotIds now))"

subsection \<open>The fan-out cannot fail a call or write a table\<close>

lemma keeps_fail_soft: "keeps I m \<Longrightarrow> keeps I (fail_soft m)"
  unfolding keeps_def fail_soft_def by (fastforce split: prod.splits sum.splits)

lemma keeps_read_and_emit [keeps_intros]: "env_keeps I env \<Longrightarrow> keeps I (read_and_emit env k f)"
  unfolding read_and_emit_def by (intro keeps_fail_soft keeps_intros)

lemma keeps_publish [keeps_intros]: "env_keeps I env \<Longrightarrow> keeps I (publishBookingRequests env k kind ids act)"
  unfolding publishBookingRequests_def publishClientBookingUpdates_def by (intro keeps_intros)

lemma keeps_notifyDecisions [keeps_intros]: "env_keeps I env \<Longrightarrow> keeps I (notifyDecisions env k ns)"
  unfolding notifyDecisions_def by (intro keeps_intros)

lemma keeps_notifyReminders [keeps_intros]: "env_keeps I env \<Longrightarrow> keeps I (notifyReminders env k ids now)"
  unfolding notifyReminders_def by (intro keeps_intros)

definition never_fails :: "('e, unit) tx \<Rightarrow> bool" where
  "never_fails m \<longleftrightarrow> (\<forall>w. fst (m w) = Inr ())"

lemma never_fails_read_and_emit: "never_fails (read_and_emit env k f)"
  by (auto simp: never_fails_def read_and_emit_def fail_soft_def split: prod.splits sum.splits)

lemma never_fails_bind: "never_fails m \<Longrightarrow> (\<And>u. never_fails (f u)) \<Longrightarrow> never_fails (tx_bind m f)"
  unfolding never_fails_def tx_bind_def by (auto split: prod.splits sum.splits) (metis fst_conv sum.distinct(1))

lemma never_fails_return: "never_fails (tx_return ())"
  by (simp add: never_fails_def tx_return_def)

lemma never_fails_emit: "never_fails (emit es)"
  by (simp add: never_fails_def emit_def)

lemma never_fails_publish: "never_fails (publishBookingRequests env k kind ids act)"
  by (simp add: publishBookingRequests_def publishClientBookingUpdates_def never_fails_return
      never_fails_bind never_fails_read_and_emit)

lemma never_fails_notifyDecisions: "never_fails (notifyDecisions env k ns)"
  by (simp add: notifyDecisions_def never_fails_return never_fails_read_and_emit)

end
