(* ===== verification/LineViews.thy ===== *)
theory LineViews
  imports Fanout
begin

text \<open>
  The reading half of \<open>src/src/bookings/bookings.service.ts\<close>: the predicates My Bookings is
  filtered with, the orders, the DTO mappers, and the setting \<open>booking-settings.ts\<close> reads. The
  operations over them are in \<open>LineBookings\<close>.
\<close>

subsection \<open>Predicates\<close>

definition OCCUPYING_STATUSES :: "booking_status list" where
  "OCCUPYING_STATUSES = [APPROVED, PENDING]"

text \<open>The key of a booking as typed by its owner: trimmed, without a leading \<open>#\<close>.\<close>

definition booking_key :: "string \<Rightarrow> string" where
  "booking_key idOrCode = strip_hash (js_trim idOrCode)"

definition ownedBookingWhere :: "string \<Rightarrow> string \<Rightarrow> booking \<Rightarrow> bool" where
  "ownedBookingWhere idOrCode lineUserId b =
     (let key = booking_key idOrCode
      in bk_lineUserId b = Some lineUserId \<and> (bk_id b = key \<or> bk_code b = key))"

definition search_term :: "string option \<Rightarrow> string" where
  "search_term q = (case q of None \<Rightarrow> [] | Some t \<Rightarrow> strip_hash (js_trim t))"

text \<open>\<open>contains\<close> on a nullable column: \<open>NULL\<close> never matches.\<close>

definition like_opt :: "env \<Rightarrow> string \<Rightarrow> string option \<Rightarrow> bool" where
  "like_opt env term x = (case x of None \<Rightarrow> False | Some s \<Rightarrow> ilike env term s)"

definition searchWhere :: "env \<Rightarrow> db \<Rightarrow> string option \<Rightarrow> booking \<Rightarrow> bool" where
  "searchWhere env d q b =
     (let term = search_term q; v = venue_of d (bk_venueId b)
      in if term = [] then True
         else ilike env term (bk_code b) \<or> ilike env term (bk_purpose b) \<or>
              like_opt env term (map_option ve_name v) \<or> like_opt env term (Option.bind v ve_location))"

datatype list_state = ST_PENDING | ST_APPROVED | ST_HISTORY

definition has_live_slot :: "db \<Rightarrow> booking \<Rightarrow> bool" where
  "has_live_slot d b = list_ex (\<lambda>s. \<not> sl_isCancelled s) (slots_of d (bk_id b))"

definition state_pending :: "db \<Rightarrow> booking \<Rightarrow> bool" where
  "state_pending d b \<longleftrightarrow> bk_status b = PENDING \<and> has_live_slot d b"

definition state_approved :: "db \<Rightarrow> time \<Rightarrow> booking \<Rightarrow> bool" where
  "state_approved d now b \<longleftrightarrow> bk_status b = APPROVED \<and> has_live_slot d b \<and>
     list_ex (\<lambda>s. sl_endAt s \<ge> now) (slots_of d (bk_id b))"

definition stateWhere :: "db \<Rightarrow> list_state option \<Rightarrow> time \<Rightarrow> booking \<Rightarrow> bool" where
  "stateWhere d st now b = (case st of
       None \<Rightarrow> True
     | Some ST_PENDING \<Rightarrow> state_pending d b
     | Some ST_APPROVED \<Rightarrow> state_approved d now b
     | Some ST_HISTORY \<Rightarrow> \<not> (state_pending d b \<or> state_approved d now b))"

definition venueTypeWhere :: "db \<Rightarrow> int option \<Rightarrow> booking \<Rightarrow> bool" where
  "venueTypeWhere d t b = (case t of
       None \<Rightarrow> True
     | Some n \<Rightarrow> n = 0 \<or> map_option ve_venueTypeId (venue_of d (bk_venueId b)) = Some n)"

subsection \<open>Orders\<close>

datatype booking_sort = CREATED_DESC | CREATED_ASC | EVENT_ASC | EVENT_DESC

text \<open>The two services declare the same table of orders; every one ends in \<open>code: 'asc'\<close>.\<close>

definition sort_key :: "booking_sort \<Rightarrow> booking \<Rightarrow> int" where
  "sort_key srt b = (case srt of
       CREATED_DESC \<Rightarrow> - bk_createdAt b
     | CREATED_ASC \<Rightarrow> bk_createdAt b
     | EVENT_ASC \<Rightarrow> bk_firstStartAt b
     | EVENT_DESC \<Rightarrow> - bk_firstStartAt b)"

definition SORT_ORDER :: "env \<Rightarrow> booking_sort \<Rightarrow> booking \<Rightarrow> booking \<Rightarrow> int" where
  "SORT_ORDER env srt a b =
     (if sort_key srt a \<noteq> sort_key srt b then sort_key srt a - sort_key srt b else by_code env a b)"

definition page_of :: "nat \<Rightarrow> nat \<Rightarrow> 'a list \<Rightarrow> 'a list" where
  "page_of page limit xs = take limit (drop ((page - 1) * limit) xs)"

text \<open>\<open>Math.ceil(total / limit)\<close>.\<close>

definition total_pages :: "nat \<Rightarrow> nat \<Rightarrow> nat" where
  "total_pages n limit = (n + limit - 1) div limit"

subsection \<open>DTOs\<close>

definition TOMBSTONE_VENUE_TYPE_NAME :: string where
  "TOMBSTONE_VENUE_TYPE_NAME =
     [CHR 0xE0, CHR 0xB9, CHR 0x84, CHR 0xE0, CHR 0xB8, CHR 0xA1, CHR 0xE0, CHR 0xB9, CHR 0x88,
      CHR 0xE0, CHR 0xB8, CHR 0x9E, CHR 0xE0, CHR 0xB8, CHR 0x9A, CHR 0xE0, CHR 0xB8, CHR
      0x9B, CHR 0xE0, CHR 0xB8, CHR 0xA3, CHR 0xE0, CHR 0xB8, CHR 0xB0, CHR 0xE0, CHR 0xB9,
      CHR 0x80, CHR 0xE0, CHR 0xB8, CHR 0xA0, CHR 0xE0, CHR 0xB8, CHR 0x97, CHR 0xE0, CHR
      0xB8, CHR 0xAA, CHR 0xE0, CHR 0xB8, CHR 0x96, CHR 0xE0, CHR 0xB8, CHR 0xB2, CHR 0xE0,
      CHR 0xB8, CHR 0x99, CHR 0xE0, CHR 0xB8, CHR 0x97, CHR 0xE0, CHR 0xB8, CHR 0xB5, CHR
      0xE0, CHR 0xB9, CHR 0x88]"

record venue_type_dto =
  vtd_id :: int
  vtd_name :: string
  vtd_isFallback :: bool

definition toVenueTypeDto :: "venue_type \<Rightarrow> venue_type_dto" where
  "toVenueTypeDto t = \<lparr>vtd_id = vt_id t, vtd_name = vt_name t,
     vtd_isFallback = (vt_isSystemReserved t \<and> vt_name t = TOMBSTONE_VENUE_TYPE_NAME)\<rparr>"

definition venue_type_of :: "db \<Rightarrow> venue \<Rightarrow> venue_type option" where
  "venue_type_of d v = find_first (\<lambda>t. vt_id t = ve_venueTypeId v) (venue_types d)"

record slot_dto =
  so_id :: string
  so_startAt :: time
  so_endAt :: time
  so_isCancelled :: bool
  so_cancelledAt :: "time option"
  so_cancelReason :: "string option"

definition toSlotDto :: "slot \<Rightarrow> slot_dto" where
  "toSlotDto s = \<lparr>so_id = sl_id s, so_startAt = sl_startAt s, so_endAt = sl_endAt s,
     so_isCancelled = sl_isCancelled s, so_cancelledAt = sl_cancelledAt s,
     so_cancelReason = sl_cancelReason s\<rparr>"

definition by_position :: "env \<Rightarrow> photo \<Rightarrow> photo \<Rightarrow> int" where
  "by_position env a b = (if ph_position a \<noteq> ph_position b then ph_position a - ph_position b
     else collate env (ph_id a) (ph_id b))"

record venue_card =
  vc_id :: string
  vc_name :: string
  vc_location :: "string option"
  vc_venueType :: "venue_type_dto option"
  vc_photos :: "photo list"

definition venue_card_of :: "env \<Rightarrow> db \<Rightarrow> venue \<Rightarrow> venue_card" where
  "venue_card_of env d v = \<lparr>vc_id = ve_id v, vc_name = ve_name v, vc_location = ve_location v,
     vc_venueType = map_option toVenueTypeDto (venue_type_of d v),
     vc_photos = js_sort (by_position env) (ve_photos v)\<rparr>"

record booking_item =
  bi_id :: string
  bi_code :: string
  bi_venue :: "venue_card option"
  bi_purpose :: string
  bi_attendees :: int
  bi_status :: booking_status
  bi_rejectReason :: "string option"
  bi_firstStartAt :: time
  bi_lastEndAt :: time
  bi_slots :: "slot_dto list"
  bi_createdAt :: time

definition toListDto :: "env \<Rightarrow> db \<Rightarrow> booking \<Rightarrow> booking_item" where
  "toListDto env d row =
     \<lparr>bi_id = bk_id row, bi_code = bk_code row,
      bi_venue = map_option (venue_card_of env d) (venue_of d (bk_venueId row)),
      bi_purpose = bk_purpose row, bi_attendees = bk_attendees row, bi_status = bk_status row,
      bi_rejectReason = bk_rejectReason row, bi_firstStartAt = bk_firstStartAt row,
      bi_lastEndAt = bk_lastEndAt row,
      bi_slots = map toSlotDto (ordered_slots_of env d (bk_id row)),
      bi_createdAt = bk_createdAt row\<rparr>"

text \<open>Only amenities that still exist are printed, by name.\<close>

definition live_amenities :: "env \<Rightarrow> db \<Rightarrow> venue \<Rightarrow> amenity list" where
  "live_amenities env d v = js_sort (\<lambda>a b. collate env (am_name a) (am_name b))
     (filter (\<lambda>a. am_id a \<in> set (ve_amenities v) \<and> am_deletedAt a = None) (amenities d))"

record venue_detail =
  vd_card :: venue_card
  vd_capacity :: int
  vd_isOpen :: bool
  vd_amenities :: "(int \<times> string) list"

record booking_detail =
  bd_item :: booking_item
  bd_venue :: "venue_detail option"
  bd_approvedAt :: "time option"
  bd_cancelLeadMinutes :: int

definition toDetailDto :: "env \<Rightarrow> db \<Rightarrow> booking \<Rightarrow> int \<Rightarrow> booking_detail" where
  "toDetailDto env d row leadMinutes =
     \<lparr>bd_item = toListDto env d row,
      bd_venue = map_option (\<lambda>v. \<lparr>vd_card = venue_card_of env d v, vd_capacity = ve_capacity v,
         vd_isOpen = ve_isOpen v,
         vd_amenities = map (\<lambda>a. (am_id a, am_name a)) (live_amenities env d v)\<rparr>)
         (venue_of d (bk_venueId row)),
      bd_approvedAt = bk_approvedAt row,
      bd_cancelLeadMinutes = leadMinutes\<rparr>"

definition requesterNameOf :: "db \<Rightarrow> booking \<Rightarrow> string option" where
  "requesterNameOf d req = (case registration_of d (bk_lineUserId req) of
       Some reg \<Rightarrow> full_name reg
     | None \<Rightarrow> bk_requesterName req)"

record availability_dto =
  av_id :: string
  av_startAt :: time
  av_endAt :: time
  av_status :: booking_status
  av_isMine :: bool
  av_purpose :: string
  av_requesterName :: "string option"

definition toAvailabilityDto :: "db \<Rightarrow> string \<Rightarrow> slot \<times> booking \<Rightarrow> availability_dto" where
  "toAvailabilityDto d caller row = (case row of (s, req) \<Rightarrow>
     \<lparr>av_id = sl_id s, av_startAt = sl_startAt s, av_endAt = sl_endAt s, av_status = bk_status req,
      av_isMine = (bk_lineUserId req = Some caller), av_purpose = bk_purpose req,
      av_requesterName = requesterNameOf d req\<rparr>)"

record schedule_dto =
  sc_id :: string
  sc_startAt :: time
  sc_endAt :: time
  sc_venueId :: string
  sc_venueName :: string
  sc_venueType :: "(int \<times> string) option"
  sc_purpose :: string
  sc_requesterName :: "string option"
  sc_isMine :: bool

definition toScheduleDto :: "db \<Rightarrow> string \<Rightarrow> slot \<times> booking \<times> venue \<Rightarrow> schedule_dto" where
  "toScheduleDto d caller row = (case row of (s, req, v) \<Rightarrow>
     \<lparr>sc_id = sl_id s, sc_startAt = sl_startAt s, sc_endAt = sl_endAt s, sc_venueId = ve_id v,
      sc_venueName = ve_name v,
      sc_venueType = map_option (\<lambda>t. (vt_id t, vt_name t)) (venue_type_of d v),
      sc_purpose = bk_purpose req, sc_requesterName = requesterNameOf d req,
      sc_isMine = (bk_lineUserId req = Some caller)\<rparr>)"

record created_dto =
  cd_id :: string
  cd_code :: string
  cd_venueId :: string
  cd_venueName :: string
  cd_purpose :: string
  cd_attendees :: int
  cd_status :: booking_status
  cd_firstStartAt :: time
  cd_lastEndAt :: time
  cd_slots :: "slot_dto list"
  cd_createdAt :: time

definition toRequestDto :: "booking \<times> slot list \<Rightarrow> string \<Rightarrow> created_dto" where
  "toRequestDto created venueName = (case created of (row, ss) \<Rightarrow>
     \<lparr>cd_id = bk_id row, cd_code = bk_code row, cd_venueId = bk_venueId row,
      cd_venueName = venueName, cd_purpose = bk_purpose row, cd_attendees = bk_attendees row,
      cd_status = bk_status row, cd_firstStartAt = bk_firstStartAt row,
      cd_lastEndAt = bk_lastEndAt row, cd_slots = map toSlotDto ss,
      cd_createdAt = bk_createdAt row\<rparr>)"

subsection \<open>The cancellation setting\<close>

definition CANCEL_LEAD_MINUTES_KEY :: string where
  "CANCEL_LEAD_MINUTES_KEY = ''booking.cancel_lead_minutes''"

definition CANCEL_LEAD_MINUTES_DEFAULT :: int where
  "CANCEL_LEAD_MINUTES_DEFAULT = 30"

definition readCancelLeadMinutes :: "db \<Rightarrow> int" where
  "readCancelLeadMinutes d =
     (let value = (case map_of (app_settings d) CANCEL_LEAD_MINUTES_KEY of None \<Rightarrow> [] | Some v \<Rightarrow> v)
      in case js_parse_int value of
           None \<Rightarrow> CANCEL_LEAD_MINUTES_DEFAULT
         | Some parsed \<Rightarrow> if parsed \<ge> 0 then parsed else CANCEL_LEAD_MINUTES_DEFAULT)"

end
