(* ===== verification/LineBookings.thy ===== *)
theory LineBookings
  imports LineViews
begin

text \<open>
  The LIFF half of the booking domain, \<open>BookingsService\<close> of
  \<open>src/src/bookings/bookings.service.ts\<close>: submit a request, read calendars and one's own
  bookings, withdraw a pending request, drop one slot of an approved one. Every statement of an
  operation has its own number, under which \<open>env\<close> decides what other transactions commit
  before it and whether the driver fails it; the reads of the clock are numbered likewise.
\<close>

subsection \<open>Shared by both services: minting a code, creating a request, retrying\<close>

definition same_day_count :: "time \<Rightarrow> db \<Rightarrow> nat" where
  "same_day_count now d = (case bangkokDayRange now of (start, end') \<Rightarrow>
     count_rows (\<lambda>b. start \<le> bk_createdAt b \<and> bk_createdAt b < end') (bookings d))"

definition nextBookingCode :: "env \<Rightarrow> nat \<Rightarrow> time \<Rightarrow> (event, string) tx" where
  "nextBookingCode env k now =
     tx_bind (tx_read env k (same_day_count now)) (\<lambda>n. tx_return (formatBookingCode now n))"

text \<open>The spans as dates the driver accepts: it refuses an Invalid Date before sending anything.\<close>

fun valid_spans :: "parsed_span list \<Rightarrow> slot_span list option" where
  "valid_spans [] = Some []"
| "valid_spans ((Some a, Some b) # rest) =
     map_option (\<lambda>ss. \<lparr>sp_start = a, sp_end = b\<rparr> # ss) (valid_spans rest)"
| "valid_spans (_ # rest) = None"

definition js_min :: "int list \<Rightarrow> int" where
  "js_min xs = foldr min (tl xs) (hd xs)"

definition js_max :: "int list \<Rightarrow> int" where
  "js_max xs = foldr max (tl xs) (hd xs)"

fun new_slots :: "env \<Rightarrow> nat \<Rightarrow> nat \<Rightarrow> string \<Rightarrow> string \<Rightarrow> slot_span list \<Rightarrow> slot list" where
  "new_slots env k i bid venueId [] = []"
| "new_slots env k i bid venueId (s # rest) =
     \<lparr>sl_id = new_slot_id env k i, sl_bookingRequestId = bid, sl_venueId = venueId,
      sl_startAt = sp_start s, sl_endAt = sp_end s, sl_isCancelled = False, sl_cancelledAt = None,
      sl_cancelledById = None, sl_cancelledByRole = None, sl_cancelReason = None,
      sl_reminderSentAt = None, sl_holdsSlot = False\<rparr> # new_slots env k (Suc i) bid venueId rest"

text \<open>
  \<open>bookingRequest.create\<close> with nested slots. \<open>Math.min()\<close> of no slots is \<open>Infinity\<close>, an
  Invalid Date the driver refuses.
\<close>

definition create_request ::
  "env \<Rightarrow> nat \<Rightarrow> booking \<Rightarrow> slot_span list \<Rightarrow> (event, booking \<times> slot list) tx"
where
  "create_request env k b spans =
     (if spans = [] then tx_throw_raw (validation_error env)
      else tx_write env k (\<lambda>d.
        case create_booking env b (new_slots env k 0 (bk_id b) (bk_venueId b) spans) d of
          Inl e \<Rightarrow> Inl e
        | Inr (d', row) \<Rightarrow> Inr (d', (row, ordered_slots_of env d' (bk_id row)))))"

definition BOOKING_CODE_MAX_ATTEMPTS :: nat where
  "BOOKING_CODE_MAX_ATTEMPTS = 5"

definition code_collision :: "failure \<Rightarrow> bool" where
  "code_collision e = (case e of Http _ \<Rightarrow> False | Raw err \<Rightarrow> isCodeCollision err)"

text \<open>
  The retry loop both services wrap a create in; \<open>n\<close> attempts are left, the next one is
  \<open>attempt\<close>.
\<close>

fun retry_on_code :: "nat \<Rightarrow> nat \<Rightarrow> (nat \<Rightarrow> (event, 'a) tx) \<Rightarrow> (event, 'a) tx" where
  "retry_on_code 0 attempt once = tx_throw (InternalServerError None)"
| "retry_on_code (Suc n) attempt once = (\<lambda>w. case once attempt w of
       (Inr a, w') \<Rightarrow> (Inr a, w')
     | (Inl e, w') \<Rightarrow>
         if \<not> code_collision e \<or> attempt = BOOKING_CODE_MAX_ATTEMPTS then (Inl e, w')
         else retry_on_code n (attempt + 1) once w')"

subsection \<open>Who is calling\<close>

definition resolveAllowedRequester :: "env \<Rightarrow> nat \<Rightarrow> string \<Rightarrow> (event, string) tx" where
  "resolveAllowedRequester env k lineSub =
     tx_bind (tx_read env k (\<lambda>d.
         find_first (\<lambda>u. lu_lineUserId u = lineSub \<and> lu_deletedAt u = None) (line_users d)))
       (\<lambda>user. case user of
          None \<Rightarrow> tx_throw (Forbidden BOOKING_NOT_ALLOWED)
        | Some u \<Rightarrow> if lu_access u \<noteq> ACC_ALLOWED then tx_throw (Forbidden BOOKING_NOT_ALLOWED)
                   else tx_return (lu_id u))"

subsection \<open>Submitting a request\<close>

record line_booking_dto =
  lb_venueId :: string
  lb_purpose :: string
  lb_attendees :: int
  lb_slots :: "(string \<times> string) list"

definition line_request ::
  "env \<Rightarrow> nat \<Rightarrow> string \<Rightarrow> string \<Rightarrow> string \<Rightarrow> line_booking_dto \<Rightarrow> slot_span list \<Rightarrow> booking"
where
  "line_request env k code venueId lineUserId dto spans =
     \<lparr>bk_id = new_booking_id env k, bk_code = code, bk_lineUserId = Some lineUserId,
      bk_createdById = None, bk_requesterName = None, bk_contactPhone = None,
      bk_departmentId = None, bk_venueId = venueId, bk_purpose = lb_purpose dto,
      bk_attendees = lb_attendees dto, bk_status = PENDING, bk_rejectReason = None,
      bk_firstStartAt = js_min (map sp_start spans), bk_lastEndAt = js_max (map sp_end spans),
      bk_approvedById = None, bk_approvedAt = None, bk_createdAt = db_clock env k\<rparr>"

definition insertOnce ::
  "env \<Rightarrow> nat \<Rightarrow> string \<Rightarrow> string \<Rightarrow> line_booking_dto \<Rightarrow> parsed_span list \<Rightarrow> (event, booking \<times> slot list) tx"
where
  "insertOnce env k venueId lineUserId dto parsed =
     transaction (case valid_spans parsed of
         None \<Rightarrow> tx_throw_raw (validation_error env)
       | Some spans \<Rightarrow>
           tx_bind (assertNoApprovedClash env k venueId spans None) (\<lambda>_.
           tx_bind (nextBookingCode env (k + 1) (clock env (k + 1))) (\<lambda>code.
           create_request env (k + 2) (line_request env (k + 2) code venueId lineUserId dto spans) spans)))"

definition insertWithCode ::
  "env \<Rightarrow> nat \<Rightarrow> string \<Rightarrow> string \<Rightarrow> line_booking_dto \<Rightarrow> parsed_span list \<Rightarrow> (event, booking \<times> slot list) tx"
where
  "insertWithCode env k venueId lineUserId dto parsed =
     retry_on_code BOOKING_CODE_MAX_ATTEMPTS 1
       (\<lambda>attempt. insertOnce env (k + 10 * attempt) venueId lineUserId dto parsed)"

definition createFromLine :: "env \<Rightarrow> string \<Rightarrow> line_booking_dto \<Rightarrow> (event, created_dto) tx" where
  "createFromLine env lineSub dto =
     tx_bind (resolveAllowedRequester env 0 lineSub) (\<lambda>requester.
     case parseSlots (parse_date env) (clock env 1) (lb_slots dto) of
       Inl m \<Rightarrow> tx_throw (BadRequest m)
     | Inr parsed \<Rightarrow>
         tx_bind (tx_read env 1 (\<lambda>d.
           find_first (\<lambda>v. ve_id v = lb_venueId dto \<and> ve_deletedAt v = None) (venues d))) (\<lambda>found.
         tx_bind (tx_require found (NotFound VENUE_NOT_FOUND)) (\<lambda>venue.
         tx_bind (tx_assert (ve_isOpen venue) (Conflict VENUE_CLOSED)) (\<lambda>_.
         tx_bind (insertWithCode env 10 (ve_id venue) requester dto parsed) (\<lambda>row.
         tx_bind (publishBookingRequests env 100 CREATED [bk_id (fst row)] None) (\<lambda>_.
         tx_bind (notifyDecisions env 102 [notice (bk_id (fst row)) DS_PENDING]) (\<lambda>_.
         tx_bind (emit [AdminTrigger (BookingRequested (bk_id (fst row)))]) (\<lambda>_.
         tx_return (toRequestDto row (ve_name venue))))))))))"

subsection \<open>Calendars\<close>

text \<open>A window with an Invalid Date is refused by the driver.\<close>

definition window_dates :: "env \<Rightarrow> js_date \<times> js_date \<Rightarrow> (event, time \<times> time) tx" where
  "window_dates env w = (case w of (Some a, Some b) \<Rightarrow> tx_return (a, b)
     | _ \<Rightarrow> tx_throw_raw (validation_error env))"

definition window_or_400 :: "env \<Rightarrow> nat \<Rightarrow> string option \<Rightarrow> string option \<Rightarrow> (event, js_date \<times> js_date) tx" where
  "window_or_400 env k qfrom qto = (case resolveWindow (parse_date env) (clock env k) qfrom qto of
     Inl m \<Rightarrow> tx_throw (BadRequest (WINDOW_REFUSED m)) | Inr w \<Rightarrow> tx_return w)"

definition in_window :: "time \<Rightarrow> time \<Rightarrow> slot \<Rightarrow> bool" where
  "in_window from to s \<longleftrightarrow> sl_startAt s < to \<and> sl_endAt s > from"

text \<open>Slots joined with their request, filtered, in \<open>startAt\<close>, \<open>id\<close> order.\<close>

definition slots_where :: "env \<Rightarrow> (slot \<Rightarrow> booking \<Rightarrow> bool) \<Rightarrow> db \<Rightarrow> (slot \<times> booking) list" where
  "slots_where env p d = List.map_filter
     (\<lambda>s. case booking_of d (sl_bookingRequestId s) of
            None \<Rightarrow> None | Some b \<Rightarrow> if p s b then Some (s, b) else None)
     (js_sort (by_start_id env) (slots d))"

definition availability_rows :: "env \<Rightarrow> string \<Rightarrow> time \<Rightarrow> time \<Rightarrow> db \<Rightarrow> (slot \<times> booking) list" where
  "availability_rows env venueId from to d = slots_where env
     (\<lambda>s b. sl_venueId s = venueId \<and> \<not> sl_isCancelled s \<and>
            bk_status b \<in> set OCCUPYING_STATUSES \<and> in_window from to s) d"

definition listVenueAvailability ::
  "env \<Rightarrow> string \<Rightarrow> string \<Rightarrow> string option \<Rightarrow> string option \<Rightarrow> (event, availability_dto list) tx"
where
  "listVenueAvailability env lineSub venueId qfrom qto =
     tx_bind (resolveAllowedRequester env 0 lineSub) (\<lambda>requester.
     tx_bind (window_or_400 env 1 qfrom qto) (\<lambda>window.
     tx_bind (tx_read env 1 (\<lambda>d.
       find_first (\<lambda>v. ve_id v = venueId \<and> ve_deletedAt v = None) (venues d))) (\<lambda>found.
     tx_bind (tx_require found (NotFound VENUE_NOT_FOUND)) (\<lambda>venue.
     tx_bind (window_dates env window) (\<lambda>(from, to).
     tx_read env 2 (\<lambda>d. map (toAvailabilityDto d requester) (availability_rows env (ve_id venue) from to d)))))))"

definition schedule_rows :: "env \<Rightarrow> time \<Rightarrow> time \<Rightarrow> db \<Rightarrow> (slot \<times> booking \<times> venue) list" where
  "schedule_rows env from to d = List.map_filter
     (\<lambda>(s, b). case venue_of d (sl_venueId s) of
        None \<Rightarrow> None
      | Some v \<Rightarrow> if ve_deletedAt v = None then Some (s, b, v) else None)
     (slots_where env (\<lambda>s b. \<not> sl_isCancelled s \<and> bk_status b = APPROVED \<and> in_window from to s) d)"

definition getMasterSchedule ::
  "env \<Rightarrow> string \<Rightarrow> string option \<Rightarrow> string option \<Rightarrow> (event, schedule_dto list) tx"
where
  "getMasterSchedule env lineSub qfrom qto =
     tx_bind (resolveAllowedRequester env 0 lineSub) (\<lambda>requester.
     tx_bind (window_or_400 env 1 qfrom qto) (\<lambda>window.
     tx_bind (window_dates env window) (\<lambda>(from, to).
     tx_read env 1 (\<lambda>d. map (toScheduleDto d requester) (schedule_rows env from to d)))))"

subsection \<open>My Bookings\<close>

record list_query =
  lq_q :: "string option"
  lq_state :: "list_state option"
  lq_venueTypeId :: "int option"
  lq_sort :: booking_sort
  lq_page :: nat
  lq_limit :: nat

record list_answer =
  la_data :: "booking_item list"
  la_total :: nat
  la_totalPages :: nat
  la_facets :: "(int \<times> string) list"

definition list_where :: "env \<Rightarrow> db \<Rightarrow> string \<Rightarrow> list_query \<Rightarrow> time \<Rightarrow> booking \<Rightarrow> bool" where
  "list_where env d requester q now b \<longleftrightarrow>
     bk_lineUserId b = Some requester \<and> searchWhere env d (lq_q q) b \<and>
     venueTypeWhere d (lq_venueTypeId q) b \<and> stateWhere d (lq_state q) now b"

definition facet_where :: "env \<Rightarrow> db \<Rightarrow> string \<Rightarrow> list_query \<Rightarrow> booking \<Rightarrow> bool" where
  "facet_where env d requester q b \<longleftrightarrow>
     bk_lineUserId b = Some requester \<and> searchWhere env d (lq_q q) b"

definition by_name_id :: "env \<Rightarrow> venue_type \<Rightarrow> venue_type \<Rightarrow> int" where
  "by_name_id env a b = (let c = collate env (vt_name a) (vt_name b)
     in if c \<noteq> 0 then c else vt_id a - vt_id b)"

definition facet_types :: "env \<Rightarrow> string \<Rightarrow> list_query \<Rightarrow> db \<Rightarrow> (int \<times> string) list" where
  "facet_types env requester q d = map (\<lambda>t. (vt_id t, vt_name t)) (js_sort (by_name_id env)
     (filter (\<lambda>t. list_ex (\<lambda>v. ve_venueTypeId v = vt_id t \<and>
        list_ex (\<lambda>b. bk_venueId b = ve_id v \<and> facet_where env d requester q b) (bookings d)) (venues d))
       (venue_types d)))"

definition list_rows :: "env \<Rightarrow> string \<Rightarrow> list_query \<Rightarrow> time \<Rightarrow> db \<Rightarrow> booking list" where
  "list_rows env requester q now d =
     js_sort (SORT_ORDER env (lq_sort q)) (filter (list_where env d requester q now) (bookings d))"

definition list_answer_of :: "env \<Rightarrow> string \<Rightarrow> list_query \<Rightarrow> time \<Rightarrow> db \<Rightarrow> list_answer" where
  "list_answer_of env requester q now d =
     (let n = count_rows (list_where env d requester q now) (bookings d)
      in \<lparr>la_data = map (toListDto env d) (page_of (lq_page q) (lq_limit q) (list_rows env requester q now d)),
          la_total = n, la_totalPages = total_pages n (lq_limit q),
          la_facets = facet_types env requester q d\<rparr>)"

text \<open>One \<open>RepeatableRead\<close> snapshot serves the rows, the count and the facets.\<close>

definition listUserBookings :: "env \<Rightarrow> string \<Rightarrow> list_query \<Rightarrow> (event, list_answer) tx" where
  "listUserBookings env lineSub q =
     tx_bind (resolveAllowedRequester env 0 lineSub) (\<lambda>requester.
     tx_read env 1 (list_answer_of env requester q (clock env 1)))"

text \<open>The detail read: the row and the setting.\<close>

definition readDetail :: "env \<Rightarrow> nat \<Rightarrow> (booking \<Rightarrow> bool) \<Rightarrow> (event, booking_detail) tx" where
  "readDetail env k p =
     tx_bind (tx_read env k (\<lambda>d. map_option (toDetailDto env d) (find_first p (bookings d)))) (\<lambda>row.
     tx_bind (tx_read env (k + 1) readCancelLeadMinutes) (\<lambda>leadMinutes.
     tx_bind (tx_require row (NotFound BOOKING_NOT_FOUND)) (\<lambda>dto. tx_return (dto leadMinutes))))"

definition getUserBookingDetail :: "env \<Rightarrow> string \<Rightarrow> string \<Rightarrow> (event, booking_detail) tx" where
  "getUserBookingDetail env lineSub idOrCode =
     tx_bind (resolveAllowedRequester env 0 lineSub) (\<lambda>requester.
     readDetail env 1 (ownedBookingWhere idOrCode requester))"

subsection \<open>Withdrawing\<close>

definition CANCELLED_BY_LINE_USER :: string where
  "CANCELLED_BY_LINE_USER = ''LINE_USER''"

definition cancellation :: "time \<Rightarrow> string \<Rightarrow> slot \<Rightarrow> slot" where
  "cancellation at lineUserId s = s\<lparr>sl_isCancelled := True, sl_cancelledAt := Some at,
     sl_cancelledById := Some lineUserId, sl_cancelledByRole := Some CANCELLED_BY_LINE_USER\<rparr>"

definition set_status :: "booking_status \<Rightarrow> booking \<Rightarrow> booking" where
  "set_status st b = b\<lparr>bk_status := st\<rparr>"

definition cancelPending_tx :: "env \<Rightarrow> (booking \<Rightarrow> bool) \<Rightarrow> time \<Rightarrow> string \<Rightarrow> (event, string) tx" where
  "cancelPending_tx env p now requester = transaction (
     tx_bind (tx_read env 1 (\<lambda>d. find_first p (bookings d))) (\<lambda>found.
     tx_bind (tx_require found (NotFound BOOKING_NOT_FOUND)) (\<lambda>booking.
     tx_bind (tx_assert (bk_status booking = PENDING) (Unprocessable BOOKING_NOT_PENDING)) (\<lambda>_.
     tx_bind (tx_write env 2 (update_bookings (exclusion_error env)
       (\<lambda>b. bk_id b = bk_id booking \<and> bk_status b = PENDING) (set_status CANCELLED))) (\<lambda>flipped.
     tx_bind (tx_assert (length flipped = 1) (Unprocessable BOOKING_NOT_PENDING)) (\<lambda>_.
     tx_bind (tx_write env 3 (update_slots (exclusion_error env)
       (\<lambda>s. sl_bookingRequestId s = bk_id booking \<and> \<not> sl_isCancelled s) (cancellation now requester))) (\<lambda>_.
     tx_return (bk_id booking))))))))"

definition cancelPendingBooking :: "env \<Rightarrow> string \<Rightarrow> string \<Rightarrow> (event, booking_detail) tx" where
  "cancelPendingBooking env lineSub idOrCode =
     tx_bind (resolveAllowedRequester env 0 lineSub) (\<lambda>requester.
     tx_bind (cancelPending_tx env (ownedBookingWhere idOrCode requester) (clock env 1) requester) (\<lambda>i.
     tx_bind (publishBookingRequests env 10 UPDATED [i] None) (\<lambda>_.
     tx_bind (notifyDecisions env 12 [notice i DS_CANCELLED_BY_USER]) (\<lambda>_.
     tx_bind (emit [AdminTrigger (BookingCancelledByRequester i None)]) (\<lambda>_.
     readDetail env 13 (\<lambda>b. bk_id b = i))))))"

text \<open>\<open>update({ where: { id } })\<close> refuses a missing row.\<close>

definition update_booking_row ::
  "env \<Rightarrow> string \<Rightarrow> (booking \<Rightarrow> booking) \<Rightarrow> db \<Rightarrow> js_error + (db \<times> booking list)"
where
  "update_booking_row env i f d =
     (if booking_of d i = None then Inl (missing_row_error env)
      else update_bookings (exclusion_error env) (\<lambda>b. bk_id b = i) f d)"

text \<open>
  After a cancellation: the last live slot takes the request with it, else the span is
  recomputed over what is left.
\<close>

definition settle_span :: "slot list \<Rightarrow> booking \<Rightarrow> booking" where
  "settle_span remaining b =
     (if remaining = [] then b\<lparr>bk_status := CANCELLED\<rparr>
      else b\<lparr>bk_firstStartAt := js_min (map sl_startAt remaining),
             bk_lastEndAt := js_max (map sl_endAt remaining)\<rparr>)"

definition cancelSlot_tx ::
  "env \<Rightarrow> (booking \<Rightarrow> bool) \<Rightarrow> string \<Rightarrow> time \<Rightarrow> time \<Rightarrow> string \<Rightarrow> (event, string) tx"
where
  "cancelSlot_tx env p slotId now cutoff requester = transaction (
     tx_bind (tx_read env 2 (\<lambda>d. find_first p (bookings d))) (\<lambda>found.
     tx_bind (tx_require found (NotFound BOOKING_NOT_FOUND)) (\<lambda>booking.
     tx_bind (tx_assert (bk_status booking = APPROVED) (Unprocessable BOOKING_NOT_APPROVED)) (\<lambda>_.
     tx_bind (tx_read env 3 (\<lambda>d.
       find_first (\<lambda>s. sl_id s = slotId \<and> sl_bookingRequestId s = bk_id booking) (slots d))) (\<lambda>foundSlot.
     tx_bind (tx_require foundSlot (NotFound SLOT_NOT_FOUND)) (\<lambda>s.
     tx_bind (tx_assert (\<not> sl_isCancelled s) (Unprocessable SLOT_ALREADY_CANCELLED)) (\<lambda>_.
     tx_bind (tx_assert (\<not> sl_startAt s \<le> cutoff) (Unprocessable SLOT_CANCEL_TOO_LATE)) (\<lambda>_.
     tx_bind (tx_write env 4 (update_slots (exclusion_error env)
       (\<lambda>x. sl_id x = sl_id s \<and> \<not> sl_isCancelled x) (cancellation now requester))) (\<lambda>cancelled.
     tx_bind (tx_assert (length cancelled = 1) (Unprocessable SLOT_ALREADY_CANCELLED)) (\<lambda>_.
     tx_bind (tx_read env 5 (\<lambda>d. live_slots_of d (bk_id booking))) (\<lambda>remaining.
     tx_bind (tx_write env 6 (update_booking_row env (bk_id booking) (settle_span remaining))) (\<lambda>_.
     tx_return (bk_id booking)))))))))))))"

definition cancelApprovedSlot :: "env \<Rightarrow> string \<Rightarrow> string \<Rightarrow> string \<Rightarrow> (event, booking_detail) tx" where
  "cancelApprovedSlot env lineSub idOrCode slotId =
     tx_bind (resolveAllowedRequester env 0 lineSub) (\<lambda>requester.
     tx_bind (tx_read env 1 readCancelLeadMinutes) (\<lambda>leadMinutes.
     let now = clock env 2; cutoff = now + leadMinutes * 60000 in
     tx_bind (cancelSlot_tx env (ownedBookingWhere idOrCode requester) slotId now cutoff requester) (\<lambda>i.
     tx_bind (publishBookingRequests env 10 UPDATED [i] None) (\<lambda>_.
     tx_bind (notifyDecisions env 12
       [(notice i DS_CANCELLED_BY_USER)\<lparr>dn_slotIds := Some [slotId]\<rparr>]) (\<lambda>_.
     tx_bind (emit [AdminTrigger (BookingCancelledByRequester i (Some slotId))]) (\<lambda>_.
     readDetail env 13 (\<lambda>b. bk_id b = i)))))))"

end
