(* ===== verification/AdminViews.thy ===== *)
theory AdminViews
  imports LineBookings
begin

text \<open>
  The reading half of \<open>src/src/bookings/admin-bookings.service.ts\<close>: the queue with its tab
  counts, the detail with its conflict block, the preflight of the create dialog, the calendar.
\<close>

subsection \<open>The queue\<close>

definition adminSearchWhere :: "env \<Rightarrow> db \<Rightarrow> string option \<Rightarrow> booking \<Rightarrow> bool" where
  "adminSearchWhere env d search b =
     (let term = search_term search; v = venue_of d (bk_venueId b);
          reg = registration_of d (bk_lineUserId b)
      in if term = [] then True
         else ilike env term (bk_code b) \<or> ilike env term (bk_purpose b) \<or>
              like_opt env term (map_option ve_name v) \<or> like_opt env term (bk_requesterName b) \<or>
              like_opt env term (map_option reg_firstName reg) \<or>
              like_opt env term (map_option reg_lastName reg))"

record queue_query =
  qq_status :: "booking_status option"
  qq_venueId :: "string option"
  qq_search :: "string option"
  qq_sort :: booking_sort
  qq_page :: nat
  qq_limit :: nat

record status_counts =
  ct_all :: nat
  ct_pending :: nat
  ct_approved :: nat
  ct_rejected :: nat
  ct_cancelled :: nat
  ct_expired :: nat

text \<open>\<open>groupBy({ by: ['status'] })\<close>: one row per status that occurs.\<close>

definition group_by_status :: "booking list \<Rightarrow> (booking_status \<times> nat) list" where
  "group_by_status bs =
     map (\<lambda>st. (st, count_rows (\<lambda>b. bk_status b = st) bs)) (js_set (map bk_status bs))"

definition count_at :: "(booking_status \<times> nat) list \<Rightarrow> booking_status \<Rightarrow> nat" where
  "count_at grouped st = (case find_first (\<lambda>g. fst g = st) grouped of None \<Rightarrow> 0 | Some g \<Rightarrow> snd g)"

definition toCounts :: "(booking_status \<times> nat) list \<Rightarrow> status_counts" where
  "toCounts grouped =
     (let pending = count_at grouped PENDING; approved = count_at grouped APPROVED;
          rejected = count_at grouped REJECTED; cancelled = count_at grouped CANCELLED;
          expired = count_at grouped EXPIRED
      in \<lparr>ct_all = pending + approved + rejected + cancelled + expired, ct_pending = pending,
          ct_approved = approved, ct_rejected = rejected, ct_cancelled = cancelled,
          ct_expired = expired\<rparr>)"

definition base_where :: "env \<Rightarrow> db \<Rightarrow> queue_query \<Rightarrow> booking \<Rightarrow> bool" where
  "base_where env d q b \<longleftrightarrow>
     (case qq_venueId q of None \<Rightarrow> True | Some v \<Rightarrow> v = [] \<or> bk_venueId b = v) \<and>
     adminSearchWhere env d (qq_search q) b"

definition queue_where :: "env \<Rightarrow> db \<Rightarrow> queue_query \<Rightarrow> booking \<Rightarrow> bool" where
  "queue_where env d q b \<longleftrightarrow> base_where env d q b \<and>
     (case qq_status q of None \<Rightarrow> True | Some st \<Rightarrow> bk_status b = st)"

record queue_answer =
  qa_data :: "booking_list_dto list"
  qa_total :: nat
  qa_totalPages :: nat
  qa_counts :: status_counts

text \<open>Three reads in parallel, no snapshot.\<close>

definition list_queue :: "env \<Rightarrow> queue_query \<Rightarrow> (event, queue_answer) tx" where
  "list_queue env q =
     tx_bind (tx_read env 0 (\<lambda>d. map (toBookingListDto env d)
       (page_of (qq_page q) (qq_limit q)
         (js_sort (SORT_ORDER env (qq_sort q)) (filter (queue_where env d q) (bookings d)))))) (\<lambda>rows.
     tx_bind (tx_read env 1 (\<lambda>d. count_rows (queue_where env d q) (bookings d))) (\<lambda>n.
     tx_bind (tx_read env 2 (\<lambda>d. group_by_status (filter (base_where env d q) (bookings d)))) (\<lambda>grouped.
     tx_return \<lparr>qa_data = rows, qa_total = n, qa_totalPages = total_pages n (qq_limit q),
       qa_counts = toCounts grouped\<rparr>)))"

subsection \<open>The conflict picture\<close>

record pending_conflict =
  pc_id :: string
  pc_code :: string
  pc_purpose :: string
  pc_requesterName :: "string option"
  pc_firstStartAt :: time
  pc_lastEndAt :: time

definition requestersOf :: "string list \<Rightarrow> db \<Rightarrow> string \<Rightarrow> (string option \<times> string) option" where
  "requestersOf ids d =
     (if ids = [] then Map.empty
      else map_of (rev (map (\<lambda>r. (bk_id r, (rq_name (requesterOf d r), bk_purpose r))) (bookings_in d ids))))"

definition count_clashes ::
  "env \<Rightarrow> nat \<Rightarrow> string \<Rightarrow> slot_span list \<Rightarrow> string option \<Rightarrow> (event, nat) tx"
where
  "count_clashes env k venueId spans excludeRequestId =
     tx_read env k (\<lambda>d. count_rows (approvedClashWhere (bookings d) venueId spans excludeRequestId) (slots d))"

definition pending_conflict_of :: "(string \<Rightarrow> (string option \<times> string) option) \<Rightarrow> loser \<Rightarrow> pending_conflict" where
  "pending_conflict_of requesters l =
     \<lparr>pc_id = lo_id l, pc_code = lo_code l,
      pc_purpose = (case requesters (lo_id l) of None \<Rightarrow> [] | Some who \<Rightarrow> snd who),
      pc_requesterName = (case requesters (lo_id l) of None \<Rightarrow> None | Some who \<Rightarrow> fst who),
      pc_firstStartAt = lo_firstStartAt l, pc_lastEndAt = lo_lastEndAt l\<rparr>"

definition read_requesters ::
  "env \<Rightarrow> nat \<Rightarrow> string list \<Rightarrow> (event, string \<Rightarrow> (string option \<times> string) option) tx"
where
  "read_requesters env k ids = (if ids = [] then tx_return Map.empty else tx_read env k (requestersOf ids))"

definition conflictPicture ::
  "env \<Rightarrow> nat \<Rightarrow> string \<Rightarrow> slot_span list \<Rightarrow> string option \<Rightarrow> (event, nat \<times> pending_conflict list) tx"
where
  "conflictPicture env k venueId spans excludeRequestId =
     (if spans = [] then tx_return (0, [])
      else tx_bind (count_clashes env k venueId spans excludeRequestId) (\<lambda>approvedClashCount.
           tx_bind (findPendingLosers env (k + 1) venueId spans excludeRequestId) (\<lambda>losers.
           tx_bind (read_requesters env (k + 2) (map lo_id losers)) (\<lambda>requesters.
           tx_return (approvedClashCount, map (pending_conflict_of requesters) losers)))))"

record conflicts_dto =
  cf_approvedClash :: bool
  cf_pendingLosers :: "(string \<times> string \<times> string option \<times> time \<times> time) list"

definition span_of :: "slot \<Rightarrow> slot_span" where
  "span_of s = \<lparr>sp_start = sl_startAt s, sp_end = sl_endAt s\<rparr>"

definition no_conflicts :: conflicts_dto where
  "no_conflicts = \<lparr>cf_approvedClash = False, cf_pendingLosers = []\<rparr>"

definition conflictsOf :: "env \<Rightarrow> nat \<Rightarrow> booking \<Rightarrow> slot list \<Rightarrow> (event, conflicts_dto) tx" where
  "conflictsOf env k row ss =
     (if bk_status row \<noteq> PENDING then tx_return no_conflicts
      else (let spans = map span_of (filter (\<lambda>s. \<not> sl_isCancelled s) ss)
            in if spans = [] then tx_return no_conflicts
               else tx_bind (conflictPicture env k (bk_venueId row) spans (Some (bk_id row))) (\<lambda>(n, pending).
                    tx_return \<lparr>cf_approvedClash = (n > 0),
                      cf_pendingLosers = map (\<lambda>p. (pc_id p, pc_code p, pc_requesterName p,
                        pc_firstStartAt p, pc_lastEndAt p)) pending\<rparr>)))"

record admin_venue =
  av_ref :: venue_ref
  av_capacity :: int
  av_isOpen :: bool

record admin_detail =
  ad_row :: booking_list_dto
  ad_venue :: "admin_venue option"
  ad_createdBy :: "staff_name option"
  ad_approvedBy :: "staff_name option"
  ad_approvedAt :: "time option"
  ad_conflicts :: conflicts_dto

definition staff_of :: "db \<Rightarrow> string option \<Rightarrow> staff_name option" where
  "staff_of d i = (case i of None \<Rightarrow> None | Some u \<Rightarrow> find_first (\<lambda>x. sn_id x = u) (staff_names d))"

definition admin_venue_of :: "db \<Rightarrow> string \<Rightarrow> admin_venue option" where
  "admin_venue_of d i = map_option (\<lambda>v. \<lparr>av_ref = \<lparr>vr_id = ve_id v, vr_name = ve_name v,
     vr_location = ve_location v\<rparr>, av_capacity = ve_capacity v, av_isOpen = ve_isOpen v\<rparr>) (venue_of d i)"

definition detail_of :: "env \<Rightarrow> db \<Rightarrow> booking \<Rightarrow> conflicts_dto \<Rightarrow> admin_detail" where
  "detail_of env d row cf = \<lparr>ad_row = toBookingListDto env d row,
     ad_venue = admin_venue_of d (bk_venueId row), ad_createdBy = staff_of d (bk_createdById row),
     ad_approvedBy = staff_of d (bk_approvedById row), ad_approvedAt = bk_approvedAt row,
     ad_conflicts = cf\<rparr>"

definition readAdminDetail :: "env \<Rightarrow> nat \<Rightarrow> string \<Rightarrow> (event, admin_detail) tx" where
  "readAdminDetail env k i =
     tx_bind (tx_read env k (\<lambda>d. map_option
       (\<lambda>row. (row, ordered_slots_of env d (bk_id row), detail_of env d row)) (booking_of d i))) (\<lambda>found.
     tx_bind (tx_require found (NotFound BOOKING_NOT_FOUND)) (\<lambda>(row, ss, dto).
     tx_bind (conflictsOf env (k + 1) row ss) (\<lambda>cf. tx_return (dto cf))))"

definition getDetail :: "env \<Rightarrow> string \<Rightarrow> (event, admin_detail) tx" where
  "getDetail env i = readAdminDetail env 0 i"

subsection \<open>Preflight\<close>

record preflight_answer =
  pf_hasApprovedClash :: bool
  pf_approvedClashCount :: nat
  pf_overlapping :: "(string \<times> string \<times> string \<times> string option) list"
  pf_venueIsOpen :: bool

text \<open>An Invalid Date is refused by the first query that carries it.\<close>

definition checkPreflight :: "env \<Rightarrow> string \<Rightarrow> (string \<times> string) list \<Rightarrow> (event, preflight_answer) tx" where
  "checkPreflight env venueId slotTexts =
     (case parseSlots (parse_date env) (clock env 0) slotTexts of
        Inl m \<Rightarrow> tx_throw (BadRequest m)
      | Inr parsed \<Rightarrow>
          tx_bind (tx_read env 0 (\<lambda>d.
            find_first (\<lambda>v. ve_id v = venueId \<and> ve_deletedAt v = None) (venues d))) (\<lambda>found.
          tx_bind (tx_require found (NotFound VENUE_NOT_FOUND)) (\<lambda>venue.
          case valid_spans parsed of
            None \<Rightarrow> tx_throw_raw (validation_error env)
          | Some spans \<Rightarrow>
              tx_bind (conflictPicture env 1 (ve_id venue) spans None) (\<lambda>(n, pending).
              tx_return \<lparr>pf_hasApprovedClash = (n > 0), pf_approvedClashCount = n,
                pf_overlapping = map (\<lambda>p. (pc_id p, pc_code p, pc_purpose p, pc_requesterName p)) pending,
                pf_venueIsOpen = ve_isOpen venue\<rparr>))))"

subsection \<open>The calendar\<close>

record calendar_dto =
  cs_id :: string
  cs_bookingRequestId :: string
  cs_code :: string
  cs_status :: booking_status
  cs_purpose :: string
  cs_requesterName :: "string option"
  cs_venueId :: string
  cs_venueName :: "string option"
  cs_startAt :: time
  cs_endAt :: time
  cs_date :: string
  cs_start :: string
  cs_end :: string
  cs_slotIndex :: int
  cs_slotCount :: nat

definition CALENDAR_STATUSES :: "booking_status list" where
  "CALENDAR_STATUSES = [APPROVED, PENDING]"

definition CALENDAR_STATUS_RANK :: "booking_status \<Rightarrow> int" where
  "CALENDAR_STATUS_RANK st = (if st = APPROVED then 0 else 1)"

definition compareCalendarSlots :: "calendar_dto \<Rightarrow> calendar_dto \<Rightarrow> int" where
  "compareCalendarSlots a b =
     (let byStart = cs_startAt a - cs_startAt b;
          byStatus = CALENDAR_STATUS_RANK (cs_status a) - CALENDAR_STATUS_RANK (cs_status b)
      in if byStart \<noteq> 0 then byStart
         else if byStatus \<noteq> 0 then byStatus
         else if cs_code a \<noteq> cs_code b then (if cs_code a < cs_code b then -1 else 1)
         else if cs_id a \<noteq> cs_id b then (if cs_id a < cs_id b then -1 else 1)
         else 0)"

text \<open>\<open>toISOString().slice(0, 10)\<close> for a year of four digits.\<close>

definition bangkokIsoDate :: "time \<Rightarrow> string" where
  "bangkokIsoDate at =
     (let local = at + BANGKOK_UTC_OFFSET_MINUTES * 60000
      in pad_start 4 (show_int (get_utc_full_year local)) @ ''-'' @
         pad_start 2 (show_int (get_utc_month local + 1)) @ ''-'' @
         pad_start 2 (show_int (get_utc_date local)))"

text \<open>\<open>xs.findIndex(p)\<close>.\<close>

fun find_index :: "('a \<Rightarrow> bool) \<Rightarrow> 'a list \<Rightarrow> int" where
  "find_index p [] = -1"
| "find_index p (x # xs) = (if p x then 0 else (let i = find_index p xs in if i = -1 then -1 else i + 1))"

definition toCalendarSlotDto :: "env \<Rightarrow> db \<Rightarrow> slot \<times> booking \<Rightarrow> calendar_dto" where
  "toCalendarSlotDto env d row = (case row of (s, request) \<Rightarrow>
     (let nextMidnight = snd (bangkokDayRange (sl_startAt s));
          siblings = js_sort (by_start_id env) (live_slots_of d (bk_id request))
      in \<lparr>cs_id = sl_id s, cs_bookingRequestId = bk_id request, cs_code = bk_code request,
          cs_status = bk_status request, cs_purpose = bk_purpose request,
          cs_requesterName = rq_name (requesterOf d request), cs_venueId = sl_venueId s,
          cs_venueName = map_option ve_name (venue_of d (sl_venueId s)),
          cs_startAt = sl_startAt s, cs_endAt = sl_endAt s, cs_date = bangkokIsoDate (sl_startAt s),
          cs_start = bangkokClock (sl_startAt s),
          cs_end = (if sl_endAt s = nextMidnight then ''24:00'' else bangkokClock (sl_endAt s)),
          cs_slotIndex = find_index (\<lambda>x. sl_id x = sl_id s) siblings + 1,
          cs_slotCount = length siblings\<rparr>))"

text \<open>The read has no \<open>orderBy\<close>: its rows come in the database's own order.\<close>

definition calendar_rows ::
  "string option \<Rightarrow> booking_status option \<Rightarrow> time \<Rightarrow> time \<Rightarrow> db \<Rightarrow> (slot \<times> booking) list"
where
  "calendar_rows venueId status from to d = List.map_filter
     (\<lambda>s. case (booking_of d (sl_bookingRequestId s), venue_of d (sl_venueId s)) of
        (Some b, Some v) \<Rightarrow>
          if \<not> sl_isCancelled s \<and> ve_deletedAt v = None \<and>
             (case venueId of None \<Rightarrow> True | Some i \<Rightarrow> i = [] \<or> sl_venueId s = i) \<and>
             (case status of None \<Rightarrow> bk_status b \<in> set CALENDAR_STATUSES | Some st \<Rightarrow> bk_status b = st) \<and>
             in_window from to s
          then Some (s, b) else None
      | _ \<Rightarrow> None) (slots d)"

definition calendar_of ::
  "env \<Rightarrow> string option \<Rightarrow> booking_status option \<Rightarrow> time \<Rightarrow> time \<Rightarrow> db \<Rightarrow> calendar_dto list"
where
  "calendar_of env venueId status from to d =
     js_sort compareCalendarSlots (map (toCalendarSlotDto env d) (calendar_rows venueId status from to d))"

definition getCalendar ::
  "env \<Rightarrow> string option \<Rightarrow> booking_status option \<Rightarrow> string option \<Rightarrow> string option \<Rightarrow>
   (event, calendar_dto list) tx"
where
  "getCalendar env venueId status qfrom qto =
     tx_bind (window_or_400 env 0 qfrom qto) (\<lambda>window.
     if (case window of (Some a, Some b) \<Rightarrow> a = b | _ \<Rightarrow> False) then tx_return []
     else tx_bind (window_dates env window) (\<lambda>(from, to).
          tx_read env 0 (calendar_of env venueId status from to)))"

end
