(* ===== verification/AdminBookings.thy ===== *)
theory AdminBookings
  imports AdminViews
begin

text \<open>
  The deciding half of \<open>AdminBookingsService\<close> (\<open>src/src/bookings/admin-bookings.service.ts\<close>):
  approve, reject, cancel, direct booking, and the two crons that write bookings,
  \<open>booking-expiry.cron.ts\<close> and \<open>booking-reminder.cron.ts\<close>. The advisory lock is a statement
  without effect on the tables; what it excludes is said by the hypotheses on \<open>interfere\<close>.
\<close>

subsection \<open>Shared steps\<close>

definition lockVenue :: "env \<Rightarrow> nat \<Rightarrow> string \<Rightarrow> (event, unit) tx" where
  "lockVenue env k venueId = tx_read env k (\<lambda>_. ())"

definition decision_failure :: "failure \<Rightarrow> failure" where
  "decision_failure e = (case e of
       Http m \<Rightarrow> Http m
     | Raw err \<Rightarrow>
         if isCodeCollision err then Raw err
         else if isOverlapViolation err then Http (Conflict SLOT_TAKEN)
         else if isTransactionRace err then Http (Conflict BOOKING_DECISION_RACE)
         else Raw err)"

definition runDecision :: "(event, 'a) tx \<Rightarrow> (event, 'a) tx" where
  "runDecision work = (\<lambda>w. case transaction work w of
       (Inl e, w') \<Rightarrow> (Inl (decision_failure e), w') | (Inr a, w') \<Rightarrow> (Inr a, w'))"

definition AUTO_REJECTED_REASON :: string where
  "AUTO_REJECTED_REASON =
     [CHR 0xE0, CHR 0xB8, CHR 0x8A, CHR 0xE0, CHR 0xB9, CHR 0x88, CHR 0xE0, CHR 0xB8, CHR 0xA7,
      CHR 0xE0, CHR 0xB8, CHR 0x87, CHR 0xE0, CHR 0xB9, CHR 0x80, CHR 0xE0, CHR 0xB8, CHR
      0xA7, CHR 0xE0, CHR 0xB8, CHR 0xA5, CHR 0xE0, CHR 0xB8, CHR 0xB2, CHR 0xE0, CHR 0xB8,
      CHR 0x97, CHR 0xE0, CHR 0xB8, CHR 0xB5, CHR 0xE0, CHR 0xB9, CHR 0x88, CHR 0xE0, CHR
      0xB8, CHR 0x82, CHR 0xE0, CHR 0xB8, CHR 0xAD, CHR 0xE0, CHR 0xB8, CHR 0x96, CHR 0xE0,
      CHR 0xB8, CHR 0xB9, CHR 0xE0, CHR 0xB8, CHR 0x81, CHR 0xE0, CHR 0xB8, CHR 0x88, CHR
      0xE0, CHR 0xB8, CHR 0xB1, CHR 0xE0, CHR 0xB8, CHR 0x94, CHR 0xE0, CHR 0xB8, CHR 0xAA,
      CHR 0xE0, CHR 0xB8, CHR 0xA3, CHR 0xE0, CHR 0xB8, CHR 0xA3, CHR 0xE0, CHR 0xB9, CHR
      0x83, CHR 0xE0, CHR 0xB8, CHR 0xAB, CHR 0xE0, CHR 0xB9, CHR 0x89, CHR 0xE0, CHR 0xB8,
      CHR 0x81, CHR 0xE0, CHR 0xB8, CHR 0xB2, CHR 0xE0, CHR 0xB8, CHR 0xA3, CHR 0xE0, CHR
      0xB8, CHR 0x88, CHR 0xE0, CHR 0xB8, CHR 0xAD, CHR 0xE0, CHR 0xB8, CHR 0x87, CHR 0xE0,
      CHR 0xB8, CHR 0xAD, CHR 0xE0, CHR 0xB8, CHR 0xB7, CHR 0xE0, CHR 0xB9, CHR 0x88, CHR
      0xE0, CHR 0xB8, CHR 0x99, CHR 0xE0, CHR 0xB9, CHR 0x81, CHR 0xE0, CHR 0xB8, CHR 0xA5,
      CHR 0xE0, CHR 0xB9, CHR 0x89, CHR 0xE0, CHR 0xB8, CHR 0xA7, CHR 0x20, CHR 0xE0, CHR
      0xB8, CHR 0x88, CHR 0xE0, CHR 0xB8, CHR 0xB6, CHR 0xE0, CHR 0xB8, CHR 0x87, CHR 0xE0,
      CHR 0xB9, CHR 0x84, CHR 0xE0, CHR 0xB8, CHR 0xA1, CHR 0xE0, CHR 0xB9, CHR 0x88, CHR
      0xE0, CHR 0xB8, CHR 0xAA, CHR 0xE0, CHR 0xB8, CHR 0xB2, CHR 0xE0, CHR 0xB8, CHR 0xA1,
      CHR 0xE0, CHR 0xB8, CHR 0xB2, CHR 0xE0, CHR 0xB8, CHR 0xA3, CHR 0xE0, CHR 0xB8, CHR
      0x96, CHR 0xE0, CHR 0xB8, CHR 0xAD, CHR 0xE0, CHR 0xB8, CHR 0x99, CHR 0xE0, CHR 0xB8,
      CHR 0xB8, CHR 0xE0, CHR 0xB8, CHR 0xA1, CHR 0xE0, CHR 0xB8, CHR 0xB1, CHR 0xE0, CHR
      0xB8, CHR 0x95, CHR 0xE0, CHR 0xB8, CHR 0xB4, CHR 0xE0, CHR 0xB8, CHR 0x84, CHR 0xE0,
      CHR 0xB8, CHR 0xB3, CHR 0xE0, CHR 0xB8, CHR 0x82, CHR 0xE0, CHR 0xB8, CHR 0xAD, CHR
      0xE0, CHR 0xB8, CHR 0x99, CHR 0xE0, CHR 0xB8, CHR 0xB5, CHR 0xE0, CHR 0xB9, CHR 0x89,
      CHR 0xE0, CHR 0xB9, CHR 0x84, CHR 0xE0, CHR 0xB8, CHR 0x94, CHR 0xE0, CHR 0xB9, CHR
      0x89]"

definition auto_rejected_of :: "loser \<Rightarrow> auto_rejected" where
  "auto_rejected_of l = \<lparr>ar_id = lo_id l, ar_code = lo_code l\<rparr>"

definition reject_row :: "string \<Rightarrow> booking \<Rightarrow> booking" where
  "reject_row reason b = b\<lparr>bk_status := REJECTED, bk_rejectReason := Some reason\<rparr>"

definition rejectLosers :: "env \<Rightarrow> nat \<Rightarrow> loser list \<Rightarrow> (event, auto_rejected list) tx" where
  "rejectLosers env k losers =
     (if losers = [] then tx_return []
      else tx_bind (tx_write env k (update_bookings (exclusion_error env)
             (\<lambda>b. bk_id b \<in> set (map lo_id losers) \<and> bk_status b = PENDING)
             (reject_row AUTO_REJECTED_REASON))) (\<lambda>_.
           tx_return (map auto_rejected_of losers)))"

record approve_answer =
  ap_booking :: admin_detail
  ap_autoRejected :: "auto_rejected list"

definition decision_notices :: "string \<Rightarrow> auto_rejected list \<Rightarrow> decision_notice list" where
  "decision_notices i losers = notice i DS_APPROVED # map (\<lambda>l. notice (ar_id l) DS_AUTO_REJECTED) losers"

subsection \<open>Approve\<close>

definition approve_row :: "string \<Rightarrow> time \<Rightarrow> booking \<Rightarrow> booking" where
  "approve_row actorId at b = b\<lparr>bk_status := APPROVED, bk_approvedById := Some actorId,
     bk_approvedAt := Some at\<rparr>"

definition approve_work :: "env \<Rightarrow> string \<Rightarrow> actor \<Rightarrow> (event, auto_rejected list) tx" where
  "approve_work env i act =
     tx_bind (tx_read env 0 (\<lambda>d. booking_of d i)) (\<lambda>found.
     tx_bind (tx_require found (NotFound BOOKING_NOT_FOUND)) (\<lambda>booking.
     tx_bind (lockVenue env 1 (bk_venueId booking)) (\<lambda>_.
     tx_bind (tx_read env 2 (\<lambda>d. map_option bk_status (booking_of d i))) (\<lambda>current.
     tx_bind (tx_assert (current = Some PENDING) (Conflict BOOKING_NOT_PENDING_FOR_DECISION)) (\<lambda>_.
     tx_bind (tx_read env 3 (\<lambda>d. live_slots_of d i)) (\<lambda>live.
     tx_bind (tx_assert (live \<noteq> []) (Conflict BOOKING_ALREADY_CANCELLED)) (\<lambda>_.
     let spans = map span_of live in
     tx_bind (assertNoApprovedClash env 4 (bk_venueId booking) spans (Some i)) (\<lambda>_.
     tx_bind (findPendingLosers env 5 (bk_venueId booking) spans (Some i)) (\<lambda>losers.
     tx_bind (tx_write env 6 (update_bookings (exclusion_error env)
       (\<lambda>b. bk_id b = i \<and> bk_status b = PENDING) (approve_row (ac_id act) (clock env 6)))) (\<lambda>flipped.
     tx_bind (tx_assert (length flipped = 1) (Conflict BOOKING_NOT_PENDING_FOR_DECISION)) (\<lambda>_.
     rejectLosers env 7 losers)))))))))))"

definition approve :: "env \<Rightarrow> string \<Rightarrow> actor \<Rightarrow> (event, approve_answer) tx" where
  "approve env i act =
     tx_bind (runDecision (approve_work env i act)) (\<lambda>autoRejected.
     tx_bind (readAdminDetail env 10 i) (\<lambda>detail.
     tx_bind (publishBookingRequests env 20 UPDATED (i # map ar_id autoRejected) (Some act)) (\<lambda>_.
     tx_bind (notifyDecisions env 22 (decision_notices i autoRejected)) (\<lambda>_.
     tx_bind (emit [AdminTrigger (BookingsAutoRejected i autoRejected act)]) (\<lambda>_.
     tx_return \<lparr>ap_booking = detail, ap_autoRejected = autoRejected\<rparr>)))))"

subsection \<open>Reject\<close>

definition reject_work :: "env \<Rightarrow> string \<Rightarrow> string \<Rightarrow> (event, unit) tx" where
  "reject_work env i reason =
     tx_bind (tx_read env 0 (\<lambda>d. booking_of d i)) (\<lambda>found.
     tx_bind (tx_require found (NotFound BOOKING_NOT_FOUND)) (\<lambda>booking.
     tx_bind (tx_assert (bk_status booking = PENDING) (Conflict BOOKING_NOT_PENDING_FOR_DECISION)) (\<lambda>_.
     tx_bind (tx_write env 1 (update_bookings (exclusion_error env)
       (\<lambda>b. bk_id b = i \<and> bk_status b = PENDING) (reject_row reason))) (\<lambda>flipped.
     tx_assert (length flipped = 1) (Conflict BOOKING_NOT_PENDING_FOR_DECISION)))))"

definition reject :: "env \<Rightarrow> string \<Rightarrow> string \<Rightarrow> actor \<Rightarrow> (event, admin_detail) tx" where
  "reject env i reason act =
     tx_bind (transaction (reject_work env i reason)) (\<lambda>_.
     tx_bind (readAdminDetail env 10 i) (\<lambda>detail.
     tx_bind (publishBookingRequests env 20 UPDATED [i] (Some act)) (\<lambda>_.
     tx_bind (notifyDecisions env 22 [(notice i DS_REJECTED)\<lparr>dn_reason := Some reason\<rparr>]) (\<lambda>_.
     tx_return detail))))"

subsection \<open>Cancel\<close>

record cancel_dto =
  cn_slotIds :: "string list option"
  cn_reason :: string

definition role_name :: "system_role \<Rightarrow> string" where
  "role_name r = (case r of SUPER_ADMIN \<Rightarrow> ''SUPER_ADMIN'' | ADMIN \<Rightarrow> ''ADMIN'' | VIEWER \<Rightarrow> ''VIEWER'')"

definition staffCancellation :: "time \<Rightarrow> actor \<Rightarrow> string \<Rightarrow> slot \<Rightarrow> slot" where
  "staffCancellation at act reason s = s\<lparr>sl_isCancelled := True, sl_cancelledAt := Some at,
     sl_cancelledById := Some (ac_id act), sl_cancelledByRole := Some (role_name (ac_role act)),
     sl_cancelReason := Some reason\<rparr>"

text \<open>The loop over the named ids: the first one that is not a live slot of the booking refuses.\<close>

fun check_slot_ids :: "slot list \<Rightarrow> string list \<Rightarrow> booking_message http_error option" where
  "check_slot_ids ss [] = None"
| "check_slot_ids ss (i # rest) =
     (case find_first (\<lambda>s. sl_id s = i) (rev ss) of
        None \<Rightarrow> Some (BadRequest SLOT_NOT_ON_THIS_BOOKING)
      | Some s \<Rightarrow> if sl_isCancelled s then Some (Conflict SLOT_ALREADY_CANCELLED)
                 else check_slot_ids ss rest)"

definition cancel_work :: "env \<Rightarrow> string \<Rightarrow> cancel_dto \<Rightarrow> actor \<Rightarrow> (event, string list) tx" where
  "cancel_work env i dto act =
     tx_bind (tx_read env 0 (\<lambda>d. booking_of d i)) (\<lambda>found.
     tx_bind (tx_require found (NotFound BOOKING_NOT_FOUND)) (\<lambda>booking.
     tx_bind (lockVenue env 1 (bk_venueId booking)) (\<lambda>_.
     tx_bind (tx_read env 2 (\<lambda>d. map_option bk_status (booking_of d i))) (\<lambda>current.
     tx_bind (tx_assert (current = Some APPROVED) (Conflict BOOKING_NOT_APPROVED_FOR_CANCEL)) (\<lambda>_.
     tx_bind (tx_read env 3 (\<lambda>d. slots_of d i)) (\<lambda>all.
     let live = filter (\<lambda>s. \<not> sl_isCancelled s) all in
     tx_bind (tx_assert (live \<noteq> []) (Conflict BOOKING_ALREADY_CANCELLED)) (\<lambda>_.
     tx_bind (case cn_slotIds dto of
                None \<Rightarrow> tx_return live
              | Some ids \<Rightarrow> (case check_slot_ids all ids of
                    Some e \<Rightarrow> tx_throw e
                  | None \<Rightarrow> tx_return (filter (\<lambda>s. sl_id s \<in> set ids) live))) (\<lambda>targets.
     let targetIds = map sl_id targets in
     tx_bind (tx_write env 4 (update_slots (exclusion_error env)
       (\<lambda>s. sl_id s \<in> set targetIds \<and> \<not> sl_isCancelled s)
       (staffCancellation (clock env 4) act (cn_reason dto)))) (\<lambda>cancelled.
     tx_bind (tx_assert (length cancelled = length targetIds) (Conflict SLOT_ALREADY_CANCELLED)) (\<lambda>_.
     let remaining = filter (\<lambda>s. sl_id s \<notin> set targetIds) live in
     tx_bind (tx_write env 5 (update_booking_row env i (settle_span remaining))) (\<lambda>_.
     tx_return targetIds)))))))))))"

definition cancel :: "env \<Rightarrow> string \<Rightarrow> cancel_dto \<Rightarrow> actor \<Rightarrow> (event, admin_detail) tx" where
  "cancel env i dto act =
     tx_bind (runDecision (cancel_work env i dto act)) (\<lambda>cancelledSlotIds.
     tx_bind (readAdminDetail env 10 i) (\<lambda>detail.
     tx_bind (publishBookingRequests env 20 UPDATED [i] (Some act)) (\<lambda>_.
     tx_bind (notifyDecisions env 22
       [(notice i DS_CANCELLED_BY_STAFF)\<lparr>dn_reason := Some (cn_reason dto),
          dn_slotIds := Some cancelledSlotIds\<rparr>]) (\<lambda>_.
     tx_return detail))))"

subsection \<open>Direct booking\<close>

record direct_dto =
  di_venueId :: string
  di_lineUserId :: "string option"
  di_requesterName :: "string option"
  di_contactPhone :: "string option"
  di_departmentId :: "int option"
  di_purpose :: string
  di_attendees :: int
  di_slots :: "(string \<times> string) list"

definition assertOriginShape :: "direct_dto \<Rightarrow> bool" where
  "assertOriginShape dto \<longleftrightarrow> \<not> (di_lineUserId dto \<noteq> None \<and>
     (di_requesterName dto \<noteq> None \<or> di_contactPhone dto \<noteq> None \<or> di_departmentId dto \<noteq> None))"

definition direct_request ::
  "env \<Rightarrow> nat \<Rightarrow> time \<Rightarrow> string \<Rightarrow> string \<Rightarrow> direct_dto \<Rightarrow> slot_span list \<Rightarrow> actor \<Rightarrow> booking"
where
  "direct_request env k now code venueId dto spans act =
     \<lparr>bk_id = new_booking_id env k, bk_code = code, bk_lineUserId = di_lineUserId dto,
      bk_createdById = Some (ac_id act), bk_requesterName = di_requesterName dto,
      bk_contactPhone = di_contactPhone dto, bk_departmentId = di_departmentId dto,
      bk_venueId = venueId, bk_purpose = di_purpose dto, bk_attendees = di_attendees dto,
      bk_status = APPROVED, bk_rejectReason = None,
      bk_firstStartAt = js_min (map sp_start spans), bk_lastEndAt = js_max (map sp_end spans),
      bk_approvedById = Some (ac_id act), bk_approvedAt = Some now,
      bk_createdAt = db_clock env k\<rparr>"

text \<open>\<open>if (dto.lineUserId)\<close>, \<open>if (dto.departmentId !== undefined)\<close>.\<close>

definition check_line_user :: "env \<Rightarrow> nat \<Rightarrow> string option \<Rightarrow> (event, unit) tx" where
  "check_line_user env k i = (case i of
       None \<Rightarrow> tx_return ()
     | Some u \<Rightarrow> if u = [] then tx_return () else
         tx_bind (tx_read env k (\<lambda>d. find_first (\<lambda>x. lu_id x = u \<and> lu_deletedAt x = None \<and>
           lu_access x = ACC_ALLOWED) (line_users d))) (\<lambda>x.
         tx_assert (x \<noteq> None) (BadRequest INVALID_LINE_USER)))"

definition check_department :: "env \<Rightarrow> nat \<Rightarrow> int option \<Rightarrow> (event, unit) tx" where
  "check_department env k i = (case i of
       None \<Rightarrow> tx_return ()
     | Some n \<Rightarrow> tx_bind (tx_read env k (\<lambda>d. find_first (\<lambda>x. dp_id x = n \<and> dp_deletedAt x = None)
           (departments d))) (\<lambda>x.
         tx_assert (x \<noteq> None) (BadRequest INVALID_DEPARTMENT)))"

definition createDirectOnce ::
  "env \<Rightarrow> nat \<Rightarrow> direct_dto \<Rightarrow> parsed_span list \<Rightarrow> actor \<Rightarrow> (event, string \<times> auto_rejected list) tx"
where
  "createDirectOnce env k dto parsed act =
     tx_bind (lockVenue env k (di_venueId dto)) (\<lambda>_.
     tx_bind (tx_read env (k + 1) (\<lambda>d.
       find_first (\<lambda>v. ve_id v = di_venueId dto \<and> ve_deletedAt v = None) (venues d))) (\<lambda>found.
     tx_bind (tx_require found (NotFound VENUE_NOT_FOUND)) (\<lambda>venue.
     tx_bind (check_line_user env (k + 2) (di_lineUserId dto)) (\<lambda>_.
     tx_bind (check_department env (k + 3) (di_departmentId dto)) (\<lambda>_.
     case valid_spans parsed of
       None \<Rightarrow> tx_throw_raw (validation_error env)
     | Some spans \<Rightarrow>
         tx_bind (assertNoApprovedClash env (k + 4) (ve_id venue) spans None) (\<lambda>_.
         tx_bind (findPendingLosers env (k + 5) (ve_id venue) spans None) (\<lambda>losers.
         tx_bind (nextBookingCode env (k + 6) (clock env (k + 6))) (\<lambda>code.
         tx_bind (create_request env (k + 7)
           (direct_request env (k + 7) (clock env (k + 6)) code (ve_id venue) dto spans act) spans) (\<lambda>created.
         tx_bind (rejectLosers env (k + 8) losers) (\<lambda>autoRejected.
         tx_return (bk_id (fst created), autoRejected)))))))))))"

definition createDirect_attempt ::
  "env \<Rightarrow> nat \<Rightarrow> direct_dto \<Rightarrow> parsed_span list \<Rightarrow> actor \<Rightarrow> (event, approve_answer) tx"
where
  "createDirect_attempt env k dto parsed act =
     tx_bind (runDecision (createDirectOnce env k dto parsed act)) (\<lambda>(i, autoRejected).
     tx_bind (readAdminDetail env (k + 10) i) (\<lambda>detail.
     tx_bind (publishBookingRequests env (k + 14) CREATED [i] (Some act)) (\<lambda>_.
     tx_bind (publishBookingRequests env (k + 16) UPDATED (map ar_id autoRejected) (Some act)) (\<lambda>_.
     tx_bind (notifyDecisions env (k + 18) (decision_notices i autoRejected)) (\<lambda>_.
     tx_bind (emit [AdminTrigger (DirectBookingCreated i act)]) (\<lambda>_.
     tx_bind (emit [AdminTrigger (BookingsAutoRejected i autoRejected act)]) (\<lambda>_.
     tx_return \<lparr>ap_booking = detail, ap_autoRejected = autoRejected\<rparr>)))))))"

definition createDirect :: "env \<Rightarrow> direct_dto \<Rightarrow> actor \<Rightarrow> (event, approve_answer) tx" where
  "createDirect env dto act =
     (if \<not> assertOriginShape dto then tx_throw (BadRequest ORIGIN_OVERRIDES_WITH_LINE_USER)
      else (case parseSlots (parse_date env) (clock env 0) (di_slots dto) of
              Inl m \<Rightarrow> tx_throw (BadRequest m)
            | Inr parsed \<Rightarrow> retry_on_code BOOKING_CODE_MAX_ATTEMPTS 1
                (\<lambda>attempt. createDirect_attempt env (20 * attempt) dto parsed act)))"

subsection \<open>The crons\<close>

definition AUTO_EXPIRED_REASON :: string where
  "AUTO_EXPIRED_REASON =
     [CHR 0xE0, CHR 0xB8, CHR 0x84, CHR 0xE0, CHR 0xB8, CHR 0xB3, CHR 0xE0, CHR 0xB8, CHR 0x82,
      CHR 0xE0, CHR 0xB8, CHR 0xAD, CHR 0xE0, CHR 0xB8, CHR 0xAB, CHR 0xE0, CHR 0xB8, CHR
      0xA1, CHR 0xE0, CHR 0xB8, CHR 0x94, CHR 0xE0, CHR 0xB8, CHR 0xAD, CHR 0xE0, CHR 0xB8,
      CHR 0xB2, CHR 0xE0, CHR 0xB8, CHR 0xA2, CHR 0xE0, CHR 0xB8, CHR 0xB8, CHR 0xE0, CHR
      0xB9, CHR 0x82, CHR 0xE0, CHR 0xB8, CHR 0x94, CHR 0xE0, CHR 0xB8, CHR 0xA2, CHR 0xE0,
      CHR 0xB8, CHR 0xAD, CHR 0xE0, CHR 0xB8, CHR 0xB1, CHR 0xE0, CHR 0xB8, CHR 0x95, CHR
      0xE0, CHR 0xB9, CHR 0x82, CHR 0xE0, CHR 0xB8, CHR 0x99, CHR 0xE0, CHR 0xB8, CHR 0xA1,
      CHR 0xE0, CHR 0xB8, CHR 0xB1, CHR 0xE0, CHR 0xB8, CHR 0x95, CHR 0xE0, CHR 0xB8, CHR
      0xB4, CHR 0x20, CHR 0xE0, CHR 0xB9, CHR 0x80, CHR 0xE0, CHR 0xB8, CHR 0x99, CHR 0xE0,
      CHR 0xB8, CHR 0xB7, CHR 0xE0, CHR 0xB9, CHR 0x88, CHR 0xE0, CHR 0xB8, CHR 0xAD, CHR
      0xE0, CHR 0xB8, CHR 0x87, CHR 0xE0, CHR 0xB8, CHR 0x88, CHR 0xE0, CHR 0xB8, CHR 0xB2,
      CHR 0xE0, CHR 0xB8, CHR 0x81, CHR 0xE0, CHR 0xB9, CHR 0x80, CHR 0xE0, CHR 0xB8, CHR
      0xA5, CHR 0xE0, CHR 0xB8, CHR 0xA2, CHR 0xE0, CHR 0xB8, CHR 0x81, CHR 0xE0, CHR 0xB8,
      CHR 0xB3, CHR 0xE0, CHR 0xB8, CHR 0xAB, CHR 0xE0, CHR 0xB8, CHR 0x99, CHR 0xE0, CHR
      0xB8, CHR 0x94, CHR 0xE0, CHR 0xB9, CHR 0x80, CHR 0xE0, CHR 0xB8, CHR 0xA7, CHR 0xE0,
      CHR 0xB8, CHR 0xA5, CHR 0xE0, CHR 0xB8, CHR 0xB2, CHR 0xE0, CHR 0xB9, CHR 0x80, CHR
      0xE0, CHR 0xB8, CHR 0xA3, CHR 0xE0, CHR 0xB8, CHR 0xB4, CHR 0xE0, CHR 0xB9, CHR 0x88,
      CHR 0xE0, CHR 0xB8, CHR 0xA1, CHR 0xE0, CHR 0xB8, CHR 0x95, CHR 0xE0, CHR 0xB9, CHR
      0x89, CHR 0xE0, CHR 0xB8, CHR 0x99, CHR 0xE0, CHR 0xB9, CHR 0x83, CHR 0xE0, CHR 0xB8,
      CHR 0x8A, CHR 0xE0, CHR 0xB9, CHR 0x89, CHR 0xE0, CHR 0xB8, CHR 0x87, CHR 0xE0, CHR
      0xB8, CHR 0xB2, CHR 0xE0, CHR 0xB8, CHR 0x99, CHR 0xE0, CHR 0xB9, CHR 0x82, CHR 0xE0,
      CHR 0xB8, CHR 0x94, CHR 0xE0, CHR 0xB8, CHR 0xA2, CHR 0xE0, CHR 0xB8, CHR 0xA2, CHR
      0xE0, CHR 0xB8, CHR 0xB1, CHR 0xE0, CHR 0xB8, CHR 0x87, CHR 0xE0, CHR 0xB9, CHR 0x84,
      CHR 0xE0, CHR 0xB8, CHR 0xA1, CHR 0xE0, CHR 0xB9, CHR 0x88, CHR 0xE0, CHR 0xB9, CHR
      0x84, CHR 0xE0, CHR 0xB8, CHR 0x94, CHR 0xE0, CHR 0xB9, CHR 0x89, CHR 0xE0, CHR 0xB8,
      CHR 0xA3, CHR 0xE0, CHR 0xB8, CHR 0xB1, CHR 0xE0, CHR 0xB8, CHR 0x9A, CHR 0xE0, CHR
      0xB8, CHR 0x81, CHR 0xE0, CHR 0xB8, CHR 0xB2, CHR 0xE0, CHR 0xB8, CHR 0xA3, CHR 0xE0,
      CHR 0xB8, CHR 0x9E, CHR 0xE0, CHR 0xB8, CHR 0xB4, CHR 0xE0, CHR 0xB8, CHR 0x88, CHR
      0xE0, CHR 0xB8, CHR 0xB2, CHR 0xE0, CHR 0xB8, CHR 0xA3, CHR 0xE0, CHR 0xB8, CHR 0x93,
      CHR 0xE0, CHR 0xB8, CHR 0xB2]"

definition BOOKING_EXPIRY_PUBLISH_CHUNK :: nat where
  "BOOKING_EXPIRY_PUBLISH_CHUNK = 500"

definition expire_row :: "booking \<Rightarrow> booking" where
  "expire_row b = b\<lparr>bk_status := EXPIRED, bk_rejectReason := Some AUTO_EXPIRED_REASON\<rparr>"

fun publish_chunks :: "env \<Rightarrow> nat \<Rightarrow> string list list \<Rightarrow> (event, unit) tx" where
  "publish_chunks env k [] = tx_return ()"
| "publish_chunks env k (c # cs) =
     tx_bind (publishBookingRequests env k UPDATED c None) (\<lambda>_.
     tx_bind (notifyDecisions env (k + 2) (map (\<lambda>i. notice i DS_EXPIRED) c)) (\<lambda>_.
     publish_chunks env (k + 3) cs))"

text \<open>\<open>try { write } catch { logger.error; return [] }\<close> around one autocommitted statement.\<close>

definition or_empty :: "(event, 'a list) tx \<Rightarrow> (event, 'a list) tx" where
  "or_empty m = (\<lambda>w. case transaction m w of (Inl _, w') \<Rightarrow> (Inr [], w') | (Inr xs, w') \<Rightarrow> (Inr xs, w'))"

definition expireOverdue :: "env \<Rightarrow> time \<Rightarrow> (event, string list) tx" where
  "expireOverdue env now =
     tx_bind (or_empty (tx_write env 0 (update_bookings (exclusion_error env)
       (\<lambda>b. bk_status b = PENDING \<and> bk_firstStartAt b < now) expire_row))) (\<lambda>expired.
     if expired = [] then tx_return []
     else (let ids = map bk_id expired in
       tx_bind (publish_chunks env 1 (chunks (BOOKING_EXPIRY_PUBLISH_CHUNK - 1) ids)) (\<lambda>_.
       tx_bind (emit [AdminTrigger (BookingsExpired ids)]) (\<lambda>_.
       tx_return ids))))"

definition reminder_due :: "db \<Rightarrow> time \<Rightarrow> slot \<Rightarrow> bool" where
  "reminder_due d now s \<longleftrightarrow>
     sl_reminderSentAt s = None \<and> \<not> sl_isCancelled s \<and>
     now < sl_startAt s \<and> sl_startAt s \<le> now + BOOKING_REMINDER_LEAD_MINUTES * 60000 \<and>
     (case booking_of d (sl_bookingRequestId s) of
        None \<Rightarrow> False | Some b \<Rightarrow> bk_status b = APPROVED \<and> bk_lineUserId b \<noteq> None)"

definition mark_reminded :: "time \<Rightarrow> slot \<Rightarrow> slot" where
  "mark_reminded now s = s\<lparr>sl_reminderSentAt := Some now\<rparr>"

definition remindUpcoming :: "env \<Rightarrow> time \<Rightarrow> (event, string list) tx" where
  "remindUpcoming env now =
     tx_bind (or_empty (tx_write env 0 (\<lambda>d.
       update_slots (exclusion_error env) (reminder_due d now) (mark_reminded now) d))) (\<lambda>claimed.
     if claimed = [] then tx_return []
     else (let ids = map sl_id claimed in
       tx_bind (notifyReminders env 1 ids now) (\<lambda>_. tx_return ids)))"

end
