(* ===== verification/OverlapFacts.thy ===== *)
theory OverlapFacts
  imports AdminBookings
begin

text \<open>
  Facts about \<open>Overlap\<close>: what \<open>parseSlots\<close> accepts, the half-open rule as shared instants, and
  the agreement of the application's clash query with the database's exclusion constraint.
\<close>

subsection \<open>Pairwise relations do not see the order of a list\<close>

lemma sorted_wrt_js_insert:
  assumes "\<And>x y. R x y = R y x"
  shows "sorted_wrt R (js_insert cmp x ys) = sorted_wrt R (x # ys)"
proof -
  have set_ins: "set (js_insert cmp x ys) = insert x (set ys)" for ys
    by (metis mset_js_insert set_mset_add_mset_insert set_mset_mset)
  show ?thesis
  proof (induction ys)
    case (Cons y ys)
    then show ?case using assms by (auto simp: set_ins)
  qed simp
qed

lemma sorted_wrt_js_sort:
  assumes "\<And>x y. R x y = R y x"
  shows "sorted_wrt R (js_sort cmp xs) = sorted_wrt R xs"
proof (induction xs)
  case (Cons x xs)
  then show ?case using sorted_wrt_js_insert [of R, OF assms] by simp
qed simp

lemma sorted_wrt_distinct_iff:
  assumes "\<And>x y. R x y = R y x" "distinct xs"
  shows "sorted_wrt R xs \<longleftrightarrow> (\<forall>x \<in> set xs. \<forall>y \<in> set xs. x \<noteq> y \<longrightarrow> R x y)"
  using assms(2) by (induction xs) (auto simp: assms(1))

lemma js_sort_map:
  assumes "\<And>x y. cmp' (f x) (f y) = cmp x y"
  shows "js_sort cmp' (map f xs) = map f (js_sort cmp xs)"
proof -
  have "js_insert cmp' (f x) (map f ys) = map f (js_insert cmp x ys)" for x ys
    by (induction ys) (auto simp: assms)
  then show ?thesis by (induction xs) auto
qed

subsection \<open>What parseSlots accepts\<close>

definition parsed_of :: "slot_span \<Rightarrow> parsed_span" where
  "parsed_of s = (Some (sp_start s), Some (sp_end s))"

definition spans_disjoint :: "slot_span \<Rightarrow> slot_span \<Rightarrow> bool" where
  "spans_disjoint s t \<longleftrightarrow> sp_end s \<le> sp_start t \<or> sp_end t \<le> sp_start s"

definition cmp_span :: "slot_span \<Rightarrow> slot_span \<Rightarrow> int" where
  "cmp_span a b = sp_start a - sp_start b"

interpretation by_span_start: comparator cmp_span
  by unfold_locales (auto simp: cmp_span_def)

lemma valid_spans_iff: "valid_spans ps = Some spans \<longleftrightarrow> ps = map parsed_of spans"
proof (induction ps arbitrary: spans rule: valid_spans.induct)
  case (2 a b rest)
  show ?case
    by (cases spans) (auto simp: 2 parsed_of_def)
qed (auto simp: parsed_of_def)

lemma check_spans_input:
  "check_spans parse now input = Inr ss \<Longrightarrow> ss = map (\<lambda>(a, b). (parse a, parse b)) input \<and>
   (\<forall>(a, b) \<in> set input. \<not> js_less_eq (parse b) (parse a) \<and> \<not> js_less_eq (parse a) (Some now))"
  by (induction input arbitrary: ss) (fastforce simp: Let_def split: if_splits sum.splits)+

lemma check_spans_Inr:
  "check_spans parse now input = Inr ss \<Longrightarrow>
   ss = map (\<lambda>(a, b). (parse a, parse b)) input \<and>
   (\<forall>(a, b) \<in> set ss. \<not> js_less_eq b a \<and> \<not> js_less_eq a (Some now))"
  using check_spans_input by fastforce

lemma check_spans_complete:
  "\<forall>(a, b) \<in> set input. \<not> js_less_eq (parse b) (parse a) \<and> \<not> js_less_eq (parse a) (Some now) \<Longrightarrow>
   check_spans parse now input = Inr (map (\<lambda>(a, b). (parse a, parse b)) input)"
  by (induction parse now input rule: check_spans.induct) (auto simp: Let_def)

lemma adjacent_overlap_iff:
  assumes "by_span_start.ordered xs" "\<forall>s \<in> set xs. sp_start s < sp_end s"
  shows "adjacent_overlap (map parsed_of xs) \<longleftrightarrow> \<not> sorted_wrt spans_disjoint xs"
  using assms
proof (induction xs rule: induct_list012)
  case (3 a b xs)
  have ab: "sp_start a \<le> sp_start b" and after: "\<forall>x \<in> set xs. sp_start b \<le> sp_start x"
    using "3.prems"(1) by (auto simp: cmp_span_def)
  have "(\<forall>x \<in> set (b # xs). spans_disjoint a x) \<longleftrightarrow> sp_end a \<le> sp_start b"
    using ab after "3.prems"(2) by (fastforce simp: spans_disjoint_def)
  then show ?case using 3 by (auto simp: parsed_of_def not_le)
qed auto

lemma parseSlots_overlap_iff:
  assumes "check_spans parse now input = Inr (map parsed_of spans)" "\<forall>s \<in> set spans. sp_start s < sp_end s"
  shows "parseSlots parse now input =
    (if sorted_wrt spans_disjoint spans then Inr (map parsed_of spans) else Inl SLOT_SELF_OVERLAP)"
proof -
  have sort: "js_sort cmp_parsed (map parsed_of spans) = map parsed_of (js_sort cmp_span spans)"
    by (rule js_sort_map) (simp add: cmp_parsed_def parsed_of_def js_cmp_date_def cmp_span_def)
  have sym: "spans_disjoint x y = spans_disjoint y x" for x y by (auto simp: spans_disjoint_def)
  show ?thesis
    using adjacent_overlap_iff [OF by_span_start.ordered_js_sort] assms
    by (simp add: parseSlots_def sort sorted_wrt_js_sort [of spans_disjoint, OF sym])
qed

lemma parseSlots_Inr:
  assumes "parseSlots parse now input = Inr ps" "valid_spans ps = Some spans"
  shows "\<forall>s \<in> set spans. now < sp_start s \<and> sp_start s < sp_end s"
    and "sorted_wrt spans_disjoint spans"
    and "map (\<lambda>(a, b). (parse a, parse b)) input = map parsed_of spans"
proof -
  have ps: "ps = map parsed_of spans" using assms(2) by (simp add: valid_spans_iff)
  have chk: "check_spans parse now input = Inr (map parsed_of spans)"
    using assms(1) by (auto simp: parseSlots_def ps split: sum.splits if_splits)
  note ok = check_spans_Inr [OF chk]
  from ok show map: "map (\<lambda>(a, b). (parse a, parse b)) input = map parsed_of spans" by simp
  from ok show proper: "\<forall>s \<in> set spans. now < sp_start s \<and> sp_start s < sp_end s"
    by (auto simp: parsed_of_def not_le)
  from assms(1) parseSlots_overlap_iff [OF chk] proper show "sorted_wrt spans_disjoint spans"
    by (auto split: if_splits)
qed

subsection \<open>Sharing an instant\<close>

definition occupies :: "slot \<Rightarrow> time \<Rightarrow> bool" where
  "occupies s t \<longleftrightarrow> sl_startAt s \<le> t \<and> t < sl_endAt s"

definition shares_instant :: "slot \<Rightarrow> slot \<Rightarrow> bool" where
  "shares_instant s u \<longleftrightarrow> (\<exists>t. occupies s t \<and> occupies u t)"

lemma shares_instant_iff:
  "shares_instant s u \<longleftrightarrow> ranges_overlap (sl_startAt s) (sl_endAt s) (sl_startAt u) (sl_endAt u)"
proof
  assume "ranges_overlap (sl_startAt s) (sl_endAt s) (sl_startAt u) (sl_endAt u)"
  then have "occupies s (max (sl_startAt s) (sl_startAt u)) \<and> occupies u (max (sl_startAt s) (sl_startAt u))"
    by (auto simp: ranges_overlap_def occupies_def)
  then show "shares_instant s u" by (auto simp: shares_instant_def)
qed (auto simp: shares_instant_def occupies_def ranges_overlap_def)

lemma overlapOr_shares:
  assumes "\<forall>s \<in> set ss. sl_startAt s < sl_endAt s" "sl_startAt x < sl_endAt x"
  shows "overlapOr (map span_of ss) x \<longleftrightarrow> (\<exists>s \<in> set ss. shares_instant s x)"
  using assms by (auto simp: overlapOr_def list_ex_iff span_of_def shares_instant_iff ranges_overlap_def)

subsection \<open>The clash query and the exclusion constraint\<close>

lemma slots_distinct: "ids_ok d \<Longrightarrow> distinct (slots d)"
  by (simp add: ids_ok_def distinct_map)

lemma no_overlap_iff:
  assumes "distinct ss"
  shows "booking_slots_no_overlap ss \<longleftrightarrow>
    (\<forall>s \<in> set ss. \<forall>t \<in> set ss. s \<noteq> t \<longrightarrow> sl_holdsSlot s \<longrightarrow> sl_holdsSlot t \<longrightarrow> \<not> slots_clash s t)"
proof -
  have "slots_clash x y = slots_clash y x" for x y
    by (auto simp: slots_clash_def ranges_overlap_def)
  then show ?thesis unfolding booking_slots_no_overlap_def
    by (subst sorted_wrt_distinct_iff [OF _ assms]) auto
qed

text \<open>
  \<open>hold\<close> says which slots of the table are to hold their hours; the triggers set the column
  and the constraint compares what holds.
\<close>

lemma no_overlap_map_iff:
  assumes "distinct (map sl_id ss)"
  shows "booking_slots_no_overlap (map (booking_slots_holds_slot bs) ss) \<longleftrightarrow>
    (\<forall>s \<in> set ss. \<forall>t \<in> set ss. s \<noteq> t \<longrightarrow>
      \<not> sl_isCancelled s \<and> has_booking bs (sl_bookingRequestId s) APPROVED \<longrightarrow>
      \<not> sl_isCancelled t \<and> has_booking bs (sl_bookingRequestId t) APPROVED \<longrightarrow> \<not> slots_clash s t)"
proof -
  let ?h = "booking_slots_holds_slot bs"
  have inj: "inj_on ?h (set ss)"
    using assms by (auto simp: inj_on_def distinct_map) (metis slot_trigger_simps(1))
  then have "distinct (map ?h ss)" using assms by (simp add: distinct_map)
  then show ?thesis using inj
    by (auto simp: no_overlap_iff slots_clash_def inj_on_def)
qed

end
