(* ===== verification/BookingHistory.thy ===== *)
theory BookingHistory
  imports OverlapFacts
begin

text \<open>
  How the booking tables may change over time: the status machine, rows that are never lost or
  moved, and a calculus that carries both the table invariant and this history through the
  statements of an operation while other transactions run between them (\<open>keeps_from\<close>).
\<close>

subsection \<open>The status machine\<close>

inductive status_step :: "booking_status \<Rightarrow> booking_status \<Rightarrow> bool" where
  approved: "status_step PENDING APPROVED"
| rejected: "status_step PENDING REJECTED"
| withdrawn: "status_step PENDING CANCELLED"
| expired: "status_step PENDING EXPIRED"
| cancelled: "status_step APPROVED CANCELLED"

inductive_simps status_step_from [simp]:
  "status_step PENDING st" "status_step APPROVED st" "status_step REJECTED st"
  "status_step CANCELLED st" "status_step EXPIRED st"

definition status_leads :: "booking_status \<Rightarrow> booking_status \<Rightarrow> bool" where
  "status_leads = status_step\<^sup>*\<^sup>*"

lemma status_leads_refl [simp]: "status_leads st st"
  by (simp add: status_leads_def)

lemma status_leads_trans: "status_leads a b \<Longrightarrow> status_leads b c \<Longrightarrow> status_leads a c"
  by (simp add: status_leads_def)

lemma status_leads_iff:
  "status_leads a b \<longleftrightarrow> a = b \<or> a = PENDING \<or> a = APPROVED \<and> b = CANCELLED"
proof
  assume "status_leads a b"
  then have "status_step\<^sup>*\<^sup>* a b" by (simp add: status_leads_def)
  then show "a = b \<or> a = PENDING \<or> a = APPROVED \<and> b = CANCELLED"
    by (induction rule: rtranclp_induct) (auto elim: status_step.cases)
next
  assume "a = b \<or> a = PENDING \<or> a = APPROVED \<and> b = CANCELLED"
  then show "status_leads a b"
    unfolding status_leads_def by (cases b) (auto intro: status_step.intros r_into_rtranclp)
qed

subsection \<open>What stays of a row\<close>

definition same_request :: "booking \<Rightarrow> booking \<Rightarrow> bool" where
  "same_request b c \<longleftrightarrow> bk_id c = bk_id b \<and> bk_code c = bk_code b \<and> bk_venueId c = bk_venueId b \<and>
     bk_lineUserId c = bk_lineUserId b \<and> bk_createdById c = bk_createdById b \<and>
     bk_purpose c = bk_purpose b \<and> bk_attendees c = bk_attendees b \<and> bk_createdAt c = bk_createdAt b"

definition same_slot :: "slot \<Rightarrow> slot \<Rightarrow> bool" where
  "same_slot s t \<longleftrightarrow> sl_id t = sl_id s \<and> sl_bookingRequestId t = sl_bookingRequestId s \<and>
     sl_venueId t = sl_venueId s \<and> sl_startAt t = sl_startAt s \<and> sl_endAt t = sl_endAt s \<and>
     (sl_isCancelled s \<longrightarrow> sl_isCancelled t)"

definition evolves :: "db \<Rightarrow> db \<Rightarrow> bool" where
  "evolves d d' \<longleftrightarrow>
     (\<forall>b \<in> set (bookings d). \<exists>c \<in> set (bookings d').
        same_request b c \<and> status_leads (bk_status b) (bk_status c)) \<and>
     (\<forall>s \<in> set (slots d). \<exists>t \<in> set (slots d'). same_slot s t)"

lemma same_slot_refl [simp]: "same_slot s s"
  by (simp add: same_slot_def)

lemma same_request_trans: "same_request a b \<Longrightarrow> same_request b c \<Longrightarrow> same_request a c"
  by (simp add: same_request_def)

lemma same_slot_trans: "same_slot a b \<Longrightarrow> same_slot b c \<Longrightarrow> same_slot a c"
  by (simp add: same_slot_def)

lemma evolves_refl [simp]: "evolves d d"
  unfolding evolves_def same_request_def same_slot_def by force

lemma evolves_trans: "evolves a b \<Longrightarrow> evolves b c \<Longrightarrow> evolves a c"
  unfolding evolves_def
  by (meson same_request_trans same_slot_trans status_leads_trans)

text \<open>What the system may assume of every other transaction, and what it promises itself.\<close>

definition env_ok :: "env \<Rightarrow> bool" where
  "env_ok env \<longleftrightarrow> (\<forall>k d. db_inv d \<longrightarrow> db_inv (interfere env k d) \<and> evolves d (interfere env k d))"

definition sys_ok :: "db \<Rightarrow> db \<Rightarrow> bool" where
  "sys_ok d0 d \<longleftrightarrow> db_inv d \<and> evolves d0 d"

lemma env_ok_keeps: "env_ok env \<Longrightarrow> env_keeps (sys_ok d0) env"
  unfolding env_ok_def env_keeps_def sys_ok_def by (meson evolves_trans)

subsection \<open>Legal writes\<close>

definition request_frame :: "(booking \<Rightarrow> booking) \<Rightarrow> bool" where
  "request_frame f \<longleftrightarrow> (\<forall>b. same_request b (f b))"

definition legal_change :: "booking \<Rightarrow> booking \<Rightarrow> bool" where
  "legal_change b c \<longleftrightarrow> status_leads (bk_status b) (bk_status c) \<and> (decision_ok b \<longrightarrow> decision_ok c)"

definition slot_change :: "(slot \<Rightarrow> slot) \<Rightarrow> bool" where
  "slot_change g \<longleftrightarrow> (\<forall>s. same_slot s (g s) \<and> (cancellation_ok s \<longrightarrow> cancellation_ok (g s)))"

lemma trigger_same_slot: "same_slot s (booking_slots_holds_slot bs s)"
  by (simp add: same_slot_def)

lemma update_bookings_slots:
  assumes inv: "db_inv d" and frame: "request_frame f"
    and upd: "update_bookings err p f d = Inr (d', hit)"
  shows "d' = d\<lparr>bookings := update_rows p f (bookings d),
                slots := map (booking_slots_holds_slot (update_rows p f (bookings d))) (slots d)\<rparr>"
    and "hit = map f (filter p (bookings d))"
proof -
  have "fold (\<lambda>b. booking_requests_holds_slot b (f b)) (filter p (bookings d)) (slots d) =
      map (booking_slots_holds_slot (update_rows p f (bookings d))) (slots d)"
    by (rule status_trigger_recomputes)
      (use db_invD [OF inv] frame in \<open>auto simp: request_frame_def same_request_def\<close>)
  with upd show "d' = d\<lparr>bookings := update_rows p f (bookings d),
      slots := map (booking_slots_holds_slot (update_rows p f (bookings d))) (slots d)\<rparr>"
    and "hit = map f (filter p (bookings d))"
    by (auto simp: update_bookings_def Let_def split: if_splits)
qed

lemma sys_update_bookings:
  assumes sys: "sys_ok d0 d" and upd: "update_bookings err p f d = Inr (d', hit)"
    and frame: "request_frame f" and legal: "\<And>b. b \<in> set (bookings d) \<Longrightarrow> p b \<Longrightarrow> legal_change b (f b)"
  shows "sys_ok d0 d'"
proof -
  have inv: "db_inv d" using sys by (simp add: sys_ok_def)
  have "db_inv d'"
  proof (rule update_bookings_inv [OF inv upd])
    show "booking_frame f b" for b
      using frame by (simp add: request_frame_def same_request_def booking_frame_def)
    show "decision_ok (f b)" if "b \<in> set (bookings d)" "p b" for b
      using legal [OF that] db_invD(7) [OF inv that(1)] by (simp add: legal_change_def)
  qed
  moreover have "evolves d d'"
    unfolding evolves_def
  proof (intro conjI ballI)
    fix b assume b: "b \<in> set (bookings d)"
    let ?c = "if p b then f b else b"
    have "?c \<in> set (bookings d')"
      using b by (auto simp: update_bookings_slots(1) [OF inv frame upd] set_update_rows)
    moreover have "same_request b ?c \<and> status_leads (bk_status b) (bk_status ?c)"
      using b frame legal by (auto simp: request_frame_def legal_change_def same_request_def)
    ultimately show "\<exists>c \<in> set (bookings d'). same_request b c \<and> status_leads (bk_status b) (bk_status c)"
      by blast
  next
    fix s assume "s \<in> set (slots d)"
    then show "\<exists>t \<in> set (slots d'). same_slot s t"
      by (auto simp: update_bookings_slots(1) [OF inv frame upd] intro!: trigger_same_slot)
  qed
  ultimately show ?thesis using sys by (auto simp: sys_ok_def intro: evolves_trans)
qed

lemma sys_update_slots:
  assumes sys: "sys_ok d0 d" and upd: "update_slots err p g d = Inr (d', hit)" and frame: "slot_change g"
  shows "sys_ok d0 d'"
proof -
  have inv: "db_inv d" using sys by (simp add: sys_ok_def)
  have "db_inv d'"
    by (rule update_slots_inv [OF inv upd])
      (use frame in \<open>auto simp: slot_change_def same_slot_def slot_frame_def\<close>)
  moreover have "evolves d d'"
  proof -
    let ?h = "\<lambda>s. if p s then booking_slots_holds_slot (bookings d) (g s) else s"
    have d': "d' = d\<lparr>slots := map ?h (slots d)\<rparr>"
      using upd by (auto simp: update_slots_def Let_def update_rows_def split: if_splits)
    have same: "same_slot s (?h s)" for s
      using frame by (auto simp: slot_change_def intro: same_slot_trans trigger_same_slot)
    have kept: "?h s \<in> set (slots d')" if "s \<in> set (slots d)" for s
      using that unfolding d' by (simp del: if_split)
    have "\<exists>t \<in> set (slots d'). same_slot s t" if "s \<in> set (slots d)" for s
      by (rule bexI [where x = "?h s"], rule same, rule kept [OF that])
    moreover have "\<exists>c \<in> set (bookings d'). same_request b c \<and> status_leads (bk_status b) (bk_status c)"
      if "b \<in> set (bookings d)" for b
      using that by (intro bexI [of _ b]) (simp_all add: d' same_request_def)
    ultimately show ?thesis by (simp add: evolves_def)
  qed
  ultimately show ?thesis using sys by (auto simp: sys_ok_def intro: evolves_trans)
qed

lemma sys_create_booking:
  assumes sys: "sys_ok d0 d" and cr: "create_booking env b new d = Inr (d', b')"
    and new: "new_slots_ok b new" and dec: "decision_ok b"
  shows "sys_ok d0 d'"
proof -
  have "db_inv d'" using create_booking_inv [OF _ cr new dec] sys by (simp add: sys_ok_def)
  moreover have "evolves d d'"
    using cr by (auto simp: create_booking_def Let_def evolves_def same_request_def same_slot_def
        split: if_splits)
  ultimately show ?thesis using sys by (auto simp: sys_ok_def intro: evolves_trans)
qed

subsection \<open>Keeping an invariant, from what is known\<close>

text \<open>
  \<open>keeps_from I F m\<close>: from a world whose view satisfies \<open>F\<close>, the program \<open>m\<close> ends in one
  where \<open>I\<close> holds of both views. \<open>stable\<close> facts survive what others commit.
\<close>

definition keeps_from :: "(db \<Rightarrow> bool) \<Rightarrow> (db \<Rightarrow> bool) \<Rightarrow> ('e, 'a) tx \<Rightarrow> bool" where
  "keeps_from I F m \<longleftrightarrow> (\<forall>w. I (committed w) \<and> I (view w) \<and> F (view w) \<longrightarrow>
     I (committed (snd (m w))) \<and> I (view (snd (m w))))"

definition stable :: "env \<Rightarrow> (db \<Rightarrow> bool) \<Rightarrow> (db \<Rightarrow> bool) \<Rightarrow> bool" where
  "stable env I F \<longleftrightarrow> (\<forall>k d. I d \<and> F d \<longrightarrow> F (interfere env k d))"

lemma keeps_fromI: "keeps I m \<Longrightarrow> keeps_from I F m"
  by (simp add: keeps_from_def keeps_def)

lemma keeps_from_weaken: "keeps_from I F m \<Longrightarrow> (\<And>d. G d \<Longrightarrow> F d) \<Longrightarrow> keeps_from I G m"
  by (auto simp: keeps_from_def)

lemma keeps_from_True: "keeps_from I (\<lambda>_. True) m \<Longrightarrow> keeps I m"
  by (simp add: keeps_from_def keeps_def)

lemma keeps_from_bind_read:
  assumes env: "env_keeps I env" and stable: "stable env I F"
    and rest: "\<And>a. keeps_from I (\<lambda>d. F d \<and> f d = a) (g a)"
  shows "keeps_from I F (tx_bind (tx_read env k f) g :: ('e, 'b) tx)"
  unfolding keeps_from_def
proof (intro allI impI)
  fix w :: "'e world" assume w: "I (committed w) \<and> I (view w) \<and> F (view w)"
  let ?w = "w\<lparr>committed := interfere env k (committed w), view := interfere env k (view w)\<rparr>"
  have w': "I (committed ?w) \<and> I (view ?w) \<and> F (view ?w)"
    using w env stable by (simp add: env_keeps_def stable_def)
  show "I (committed (snd (tx_bind (tx_read env k f) g w))) \<and> I (view (snd (tx_bind (tx_read env k f) g w)))"
  proof (cases "fault env k")
    case (Some e)
    then show ?thesis using w' by (simp add: tx_bind_def tx_read_def statement_def)
  next
    case None
    then have "tx_bind (tx_read env k f) g w = g (f (view ?w)) ?w"
      by (simp add: tx_bind_def tx_read_def statement_def)
    then show ?thesis using rest [of "f (view ?w)"] w' by (simp add: keeps_from_def)
  qed
qed

lemma keeps_from_bind_require:
  "(\<And>a. x = Some a \<Longrightarrow> keeps_from I F (g a)) \<Longrightarrow> keeps_from I F (tx_bind (tx_require x e) g)"
  by (cases x) (auto simp: keeps_from_def tx_bind_def tx_require_def tx_throw_def tx_return_def)

lemma keeps_from_bind_assert:
  "(b \<Longrightarrow> keeps_from I F (g ())) \<Longrightarrow> keeps_from I F (tx_bind (tx_assert b e) g)"
  by (auto simp: keeps_from_def tx_bind_def tx_assert_def tx_throw_def tx_return_def)

lemma keeps_from_bind_write:
  assumes env: "env_keeps I env" and stable: "stable env I F"
    and step: "\<And>d d' a. I d \<Longrightarrow> F d \<Longrightarrow> u d = Inr (d', a) \<Longrightarrow> I d' \<and> G d'"
    and rest: "\<And>a. keeps_from I G (g a)"
  shows "keeps_from I F (tx_bind (tx_write env k u) g :: ('e, 'b) tx)"
  unfolding keeps_from_def
proof (intro allI impI)
  fix w :: "'e world" assume w: "I (committed w) \<and> I (view w) \<and> F (view w)"
  let ?w = "w\<lparr>committed := interfere env k (committed w), view := interfere env k (view w)\<rparr>"
  have w': "I (committed ?w)" "I (view ?w)" "F (view ?w)"
    using w env stable by (simp_all add: env_keeps_def stable_def)
  show "I (committed (snd (tx_bind (tx_write env k u) g w))) \<and> I (view (snd (tx_bind (tx_write env k u) g w)))"
  proof (cases "fault env k")
    case (Some e)
    then show ?thesis using w' by (simp add: tx_bind_def tx_write_def statement_def)
  next
    case None
    show ?thesis
    proof (cases "u (view ?w)")
      case (Inl e)
      with None show ?thesis using w' by (simp add: tx_bind_def tx_write_def statement_def)
    next
      case (Inr r)
      obtain d' a where r: "r = (d', a)" by (cases r)
      have "tx_bind (tx_write env k u) g w = g a (?w\<lparr>view := d'\<rparr>)"
        using None Inr r by (simp add: tx_bind_def tx_write_def statement_def)
      then show ?thesis
        using rest [of a] step [OF w'(2,3), of d' a] Inr r w'(1) by (simp add: keeps_from_def)
    qed
  qed
qed

end
