(* ===== verification/BookingSystem.thy ===== *)
theory BookingSystem
  imports BookingHistory
begin

text \<open>
  Every operation of the two booking services and of the crons keeps the table invariant and the
  history, whatever other well-behaved transactions commit between its statements and whichever
  statements the driver fails; and so does any sequence of calls from the empty tables.
\<close>

subsection \<open>The writes of the operations\<close>

lemma keeps_update_bookings:
  assumes "env_ok env" "request_frame f" "\<And>b. p b \<Longrightarrow> legal_change b (f b)"
  shows "keeps (sys_ok d0) (tx_write env k (update_bookings err p f))"
  by (rule keeps_write [OF env_ok_keeps [OF assms(1)]])
    (use assms(2,3) in \<open>auto intro: sys_update_bookings\<close>)

lemma keeps_update_slots:
  assumes "env_ok env" "slot_change g"
  shows "keeps (sys_ok d0) (tx_write env k (\<lambda>d. update_slots err (p d) g d))"
  by (rule keeps_write [OF env_ok_keeps [OF assms(1)]]) (use assms(2) in \<open>auto intro: sys_update_slots\<close>)

lemma row_frames [simp]:
  "request_frame (set_status st)" "request_frame (approve_row i t)" "request_frame (reject_row r)"
  "request_frame expire_row" "request_frame (settle_span ss)"
  by (auto simp: request_frame_def same_request_def set_status_def approve_row_def reject_row_def
      expire_row_def settle_span_def)

lemma legal_rows [simp]:
  "bk_status b = PENDING \<Longrightarrow> legal_change b (set_status CANCELLED b)"
  "bk_status b = PENDING \<Longrightarrow> legal_change b (approve_row i t b)"
  "bk_status b = PENDING \<Longrightarrow> legal_change b (reject_row r b)"
  "bk_status b = PENDING \<Longrightarrow> legal_change b (expire_row b)"
  "status_leads APPROVED (bk_status b) \<Longrightarrow> legal_change b (settle_span ss b)"
  by (auto simp: legal_change_def decision_ok_def set_status_def approve_row_def reject_row_def
      expire_row_def settle_span_def status_leads_iff)

lemma slot_changes [simp]:
  "slot_change (cancellation t u)" "slot_change (staffCancellation t act r)" "slot_change (mark_reminded t)"
  by (auto simp: slot_change_def same_slot_def cancellation_ok_def cancellation_def
      staffCancellation_def mark_reminded_def)

lemma keeps_prod [keeps_intros]: "(\<And>a b. x = (a, b) \<Longrightarrow> keeps I (f a b)) \<Longrightarrow> keeps I (case x of (a, b) \<Rightarrow> f a b)"
  by (cases x) auto

lemma keeps_let [keeps_intros]: "(\<And>a. keeps I (f a)) \<Longrightarrow> keeps I (let a = x in f a)"
  by simp

lemma keeps_retry: "(\<And>i. keeps I (once i)) \<Longrightarrow> keeps I (retry_on_code n attempt once)"
proof (induction n arbitrary: attempt)
  case 0
  then show ?case by (simp add: keeps_throw)
next
  case (Suc n)
  show ?case
    unfolding keeps_def
  proof (intro allI impI)
    fix w :: "event world" assume "I (committed w) \<and> I (view w)"
    then have "I (committed (snd (once attempt w))) \<and> I (view (snd (once attempt w)))"
      using Suc.prems by (simp add: keeps_def)
    then show "I (committed (snd (retry_on_code (Suc n) attempt once w))) \<and>
        I (view (snd (retry_on_code (Suc n) attempt once w)))"
      using Suc.IH [OF Suc.prems] by (auto simp: keeps_def split: prod.splits sum.splits)
  qed
qed

lemma keeps_runDecision: "keeps I m \<Longrightarrow> keeps I (runDecision m)"
  using keeps_transaction [of I m] unfolding runDecision_def keeps_def
  by (fastforce split: prod.splits sum.splits)

lemma keeps_or_empty: "keeps I m \<Longrightarrow> keeps I (or_empty m)"
  using keeps_transaction [of I m] unfolding or_empty_def keeps_def
  by (fastforce split: prod.splits sum.splits)

lemma keeps_reads [keeps_intros]:
  assumes "env_keeps I env"
  shows "keeps I (resolveAllowedRequester env k sub)" "keeps I (nextBookingCode env k now)"
    "keeps I (findApprovedClash env k v spans x)" "keeps I (assertNoApprovedClash env k v spans x)"
    "keeps I (findPendingLosers env k v spans x)" "keeps I (lockVenue env k v)"
    "keeps I (window_dates env w)" "keeps I (window_or_400 env k qf qt)"
    "keeps I (count_clashes env k v spans x)" "keeps I (read_requesters env k ids)"
    "keeps I (check_line_user env k i)" "keeps I (check_department env k n)"
  unfolding resolveAllowedRequester_def nextBookingCode_def findApprovedClash_def
    assertNoApprovedClash_def findPendingLosers_def lockVenue_def window_dates_def window_or_400_def
    count_clashes_def read_requesters_def check_line_user_def check_department_def
  by (intro keeps_intros assms)+

subsection \<open>Creating requests\<close>

definition good_spans :: "slot_span list \<Rightarrow> bool" where
  "good_spans spans \<longleftrightarrow> (\<forall>s \<in> set spans. sp_start s < sp_end s) \<and> sorted_wrt spans_disjoint spans"

lemma good_spans_parsed:
  "parseSlots parse now input = Inr ps \<Longrightarrow> valid_spans ps = Some spans \<Longrightarrow> good_spans spans"
  using parseSlots_Inr by (auto simp: good_spans_def)

lemma set_new_slots:
  "x \<in> set (new_slots env k i bid v spans) \<Longrightarrow>
   sl_bookingRequestId x = bid \<and> sl_venueId x = v \<and> \<not> sl_isCancelled x \<and> cancellation_ok x \<and>
   (\<exists>s \<in> set spans. sl_startAt x = sp_start s \<and> sl_endAt x = sp_end s)"
  by (induction spans arbitrary: i) (auto simp: cancellation_ok_def)

lemma new_slots_disjoint:
  "sorted_wrt spans_disjoint spans \<Longrightarrow> siblings_disjoint (new_slots env k i bid v spans)"
proof (induction spans arbitrary: i)
  case Nil
  then show ?case by (simp add: siblings_disjoint_def)
next
  case (Cons s spans)
  have "\<not> ranges_overlap (sp_start s) (sp_end s) (sl_startAt x) (sl_endAt x)"
    if "x \<in> set (new_slots env k (Suc i) bid v spans)" for x
    using set_new_slots [OF that] Cons.prems by (auto simp: spans_disjoint_def ranges_overlap_def)
  then show ?case using Cons by (auto simp: siblings_disjoint_def)
qed

lemma new_slots_ok_new:
  "good_spans spans \<Longrightarrow> new_slots_ok b (new_slots env k i (bk_id b) (bk_venueId b) spans)"
  using set_new_slots new_slots_disjoint by (fastforce simp: new_slots_ok_def good_spans_def)

lemma keeps_create_request:
  assumes "env_ok env" "good_spans spans" "decision_ok b"
  shows "keeps (sys_ok d0) (create_request env k b spans)"
  unfolding create_request_def
  by (intro keeps_intros keeps_write env_ok_keeps assms)
    (use assms new_slots_ok_new in \<open>auto split: sum.splits intro: sys_create_booking\<close>)

lemma new_rows_decision [simp]:
  "decision_ok (line_request env k code v u dto spans)"
  "decision_ok (direct_request env k now code v ddto spans act)"
  by (simp_all add: decision_ok_def line_request_def direct_request_def)

lemma keeps_insertWithCode:
  assumes "env_ok env" "\<And>spans. valid_spans parsed = Some spans \<Longrightarrow> good_spans spans"
  shows "keeps (sys_ok d0) (insertWithCode env k v u dto parsed)"
  unfolding insertWithCode_def insertOnce_def
  by (intro keeps_retry keeps_intros keeps_create_request env_ok_keeps assms new_rows_decision)

lemma keeps_createFromLine: "env_ok env \<Longrightarrow> keeps (sys_ok d0) (createFromLine env sub dto)"
  unfolding createFromLine_def
  by (intro keeps_intros keeps_insertWithCode env_ok_keeps) (auto intro: good_spans_parsed)

subsection \<open>Reading\<close>

lemma keeps_readDetail [keeps_intros]: "env_keeps I env \<Longrightarrow> keeps I (readDetail env k p)"
  unfolding readDetail_def by (intro keeps_intros)

lemma keeps_conflictPicture [keeps_intros]:
  "env_keeps I env \<Longrightarrow> keeps I (conflictPicture env k v spans x)"
  unfolding conflictPicture_def by (intro keeps_intros)

lemma keeps_readAdminDetail [keeps_intros]: "env_keeps I env \<Longrightarrow> keeps I (readAdminDetail env k i)"
  unfolding readAdminDetail_def conflictsOf_def by (intro keeps_intros)

lemma keeps_line_reads:
  assumes "env_keeps I env"
  shows "keeps I (listVenueAvailability env sub v qf qt)" "keeps I (getMasterSchedule env sub qf qt)"
    "keeps I (listUserBookings env sub q)" "keeps I (getUserBookingDetail env sub i)"
  unfolding listVenueAvailability_def getMasterSchedule_def listUserBookings_def
    getUserBookingDetail_def by (intro keeps_intros assms)+

lemma keeps_admin_reads:
  assumes "env_keeps I env"
  shows "keeps I (list_queue env qq)" "keeps I (getDetail env i)" "keeps I (checkPreflight env v slotTexts)"
    "keeps I (getCalendar env vq st qf qt)"
  unfolding list_queue_def getDetail_def checkPreflight_def getCalendar_def
  by (intro keeps_intros assms)+

subsection \<open>Withdrawing and deciding\<close>

lemma keeps_cancelPendingBooking: "env_ok env \<Longrightarrow> keeps (sys_ok d0) (cancelPendingBooking env sub i)"
  unfolding cancelPendingBooking_def cancelPending_tx_def
  by (intro keeps_intros keeps_update_bookings keeps_update_slots env_ok_keeps) auto

text \<open>
  The row whose span or status is settled last was read as APPROVED earlier in the transaction;
  by then it can only be APPROVED still, or CANCELLED.
\<close>

definition was_approved :: "string \<Rightarrow> db \<Rightarrow> bool" where
  "was_approved i d \<longleftrightarrow> (\<exists>b \<in> set (bookings d). bk_id b = i \<and> status_leads APPROVED (bk_status b))"

lemma was_approved_evolves: "evolves d d' \<Longrightarrow> was_approved i d \<Longrightarrow> was_approved i d'"
  unfolding was_approved_def evolves_def same_request_def by (metis status_leads_trans)

lemma stable_was_approved: "env_ok env \<Longrightarrow> stable env (sys_ok d0) (was_approved i)"
  unfolding stable_def env_ok_def sys_ok_def using was_approved_evolves by blast

lemma was_approved_unique:
  "db_inv d \<Longrightarrow> was_approved i d \<Longrightarrow> b \<in> set (bookings d) \<Longrightarrow> bk_id b = i \<Longrightarrow> status_leads APPROVED (bk_status b)"
  unfolding was_approved_def by (metis db_invD(1) distinct_bk_idD ids_ok_def)

lemma sys_settle:
  assumes "sys_ok d0 d" "was_approved i d" "update_booking_row env i (settle_span ss) d = Inr (d', hit)"
  shows "sys_ok d0 d'"
proof -
  have "update_bookings (exclusion_error env) (\<lambda>b. bk_id b = i) (settle_span ss) d = Inr (d', hit)"
    using assms(3) by (simp add: update_booking_row_def split: if_splits)
  then show ?thesis
    by (rule sys_update_bookings [OF assms(1)])
      (use assms(1,2) was_approved_unique in \<open>auto simp: sys_ok_def\<close>)
qed

lemma keeps_from_settle:
  assumes "env_ok env"
  shows "keeps_from (sys_ok d0) (was_approved i)
    (tx_bind (tx_write env k (update_booking_row env i (settle_span ss))) (\<lambda>_. tx_return x))"
proof (rule keeps_from_bind_write [where G = "\<lambda>_. True"])
  show "env_keeps (sys_ok d0) env" using assms by (rule env_ok_keeps)
  show "stable env (sys_ok d0) (was_approved i)" using assms by (rule stable_was_approved)
qed (auto intro: sys_settle keeps_fromI keeps_return)

lemma keeps_from_bind_slots:
  assumes "env_ok env" "slot_change g"
    and rest: "\<And>a. keeps_from (sys_ok d0) (was_approved i) (m a)"
  shows "keeps_from (sys_ok d0) (was_approved i) (tx_bind (tx_write env k (update_slots err p g)) m)"
proof (rule keeps_from_bind_write [where G = "was_approved i"])
  show "env_keeps (sys_ok d0) env" using assms(1) by (rule env_ok_keeps)
  show "stable env (sys_ok d0) (was_approved i)" using assms(1) by (rule stable_was_approved)
  show "sys_ok d0 d' \<and> was_approved i d'"
    if "sys_ok d0 d" "was_approved i d" "update_slots err p g d = Inr (d', a)" for d d' a
    using that assms(2) by (auto intro: sys_update_slots)
      (auto simp: update_slots_def Let_def was_approved_def split: if_splits)
qed (rule rest)

lemma keeps_from_bind_read_approved:
  assumes "env_ok env" "\<And>a. keeps_from (sys_ok d0) (was_approved i) (m a)"
  shows "keeps_from (sys_ok d0) (was_approved i) (tx_bind (tx_read env k f) m)"
  by (rule keeps_from_bind_read [OF env_ok_keeps [OF assms(1)] stable_was_approved [OF assms(1)]])
    (rule keeps_from_weaken [OF assms(2)], simp)

definition quiet :: "('e, 'a) tx \<Rightarrow> bool" where
  "quiet m \<longleftrightarrow> (\<forall>w. snd (m w) = w)"

lemma keeps_from_bind_quiet:
  assumes "quiet m" "\<And>a. keeps_from I F (g a)"
  shows "keeps_from I F (tx_bind m g :: ('e, 'b) tx)"
  unfolding keeps_from_def
proof (intro allI impI)
  fix w :: "'e world" assume w: "I (committed w) \<and> I (view w) \<and> F (view w)"
  have "snd (m w) = w" using assms(1) by (simp add: quiet_def)
  then show "I (committed (snd (tx_bind m g w))) \<and> I (view (snd (tx_bind m g w)))"
    using assms(2) w by (cases "m w") (auto simp: tx_bind_def keeps_from_def split: sum.splits)
qed

lemma quiet_throw [simp]: "quiet (tx_throw e)" "quiet (tx_return a)"
  by (simp_all add: quiet_def tx_throw_def tx_return_def)

lemma keeps_from_let: "keeps_from I F (g x) \<Longrightarrow> keeps_from I F (let a = x in g a)"
  by simp

lemmas approved_steps =
  keeps_from_bind_read_approved keeps_from_bind_require keeps_from_bind_assert
  keeps_from_bind_slots keeps_from_settle keeps_from_let

lemma stable_True: "stable env I (\<lambda>_. True)"
  by (simp add: stable_def)

text \<open>Reading the row and finding it APPROVED, in the two shapes the code has.\<close>

lemma keeps_from_found_approved:
  assumes env: "env_ok env" and rest: "\<And>b. keeps_from (sys_ok d0) (was_approved (bk_id b)) (g b ())"
  shows "keeps_from (sys_ok d0) (\<lambda>_. True)
    (tx_bind (tx_read env k (\<lambda>d. find_first p (bookings d))) (\<lambda>found.
     tx_bind (tx_require found e1) (\<lambda>b. tx_bind (tx_assert (bk_status b = APPROVED) e2) (g b))))"
proof (rule keeps_from_bind_read [OF env_ok_keeps [OF env] stable_True],
    rule keeps_from_bind_require, rule keeps_from_bind_assert)
  fix found and b :: booking
  assume "found = Some b" "bk_status b = APPROVED"
  then show "keeps_from (sys_ok d0) (\<lambda>d. True \<and> find_first p (bookings d) = found) (g b ())"
    by (intro keeps_from_weaken [OF rest]) (auto simp: was_approved_def dest!: find_first_SomeD)
qed

lemma keeps_from_status_approved:
  assumes env: "env_ok env" and rest: "keeps_from (sys_ok d0) (was_approved i) (g ())"
  shows "keeps_from (sys_ok d0) (\<lambda>_. True)
    (tx_bind (tx_read env k (\<lambda>d. map_option bk_status (booking_of d i))) (\<lambda>current.
     tx_bind (tx_assert (current = Some APPROVED) e) g))"
proof (rule keeps_from_bind_read [OF env_ok_keeps [OF env] stable_True], rule keeps_from_bind_assert)
  fix current assume "current = Some APPROVED"
  then show "keeps_from (sys_ok d0) (\<lambda>d. True \<and> map_option bk_status (booking_of d i) = current) (g ())"
    by (intro keeps_from_weaken [OF rest]) (auto simp: was_approved_def booking_of_def dest!: find_first_SomeD)
qed

lemma keeps_cancelSlot_tx:
  assumes "env_ok env"
  shows "keeps (sys_ok d0) (cancelSlot_tx env p slotId now cutoff u)"
  unfolding cancelSlot_tx_def
  by (rule keeps_transaction, rule keeps_from_True, rule keeps_from_found_approved [OF assms],
      intro approved_steps assms slot_changes)

lemma quiet_targets:
  "quiet (case ids of None \<Rightarrow> tx_return live
     | Some is \<Rightarrow> (case f is of Some e \<Rightarrow> tx_throw e | None \<Rightarrow> tx_return (h is)))"
  by (auto split: option.splits)

lemma keeps_from_bind_read_True:
  assumes "env_ok env" "\<And>a. keeps_from (sys_ok d0) (\<lambda>_. True) (m a)"
  shows "keeps_from (sys_ok d0) (\<lambda>_. True) (tx_bind (tx_read env k f) m)"
  by (rule keeps_from_bind_read [OF env_ok_keeps [OF assms(1)] stable_True])
    (rule keeps_from_weaken [OF assms(2)], simp)

lemma keeps_cancel_work:
  assumes "env_ok env"
  shows "keeps (sys_ok d0) (cancel_work env i dto act)"
  unfolding cancel_work_def lockVenue_def
  by (rule keeps_from_True, rule keeps_from_bind_read_True [OF assms], rule keeps_from_bind_require,
      rule keeps_from_bind_read_True [OF assms], rule keeps_from_status_approved [OF assms],
      intro approved_steps keeps_from_bind_quiet quiet_targets assms slot_changes)

lemma keeps_cancelApprovedSlot: "env_ok env \<Longrightarrow> keeps (sys_ok d0) (cancelApprovedSlot env sub i slotId)"
  unfolding cancelApprovedSlot_def by (intro keeps_intros keeps_cancelSlot_tx env_ok_keeps)

lemma keeps_rejectLosers [keeps_intros]: "env_ok env \<Longrightarrow> keeps (sys_ok d0) (rejectLosers env k losers)"
  unfolding rejectLosers_def by (intro keeps_intros keeps_update_bookings) auto

lemma keeps_approve: "env_ok env \<Longrightarrow> keeps (sys_ok d0) (approve env i act)"
  unfolding approve_def approve_work_def
  by (intro keeps_intros keeps_runDecision keeps_update_bookings env_ok_keeps) auto

lemma keeps_reject: "env_ok env \<Longrightarrow> keeps (sys_ok d0) (reject env i reason act)"
  unfolding reject_def reject_work_def
  by (intro keeps_intros keeps_update_bookings env_ok_keeps) auto

lemma keeps_cancel: "env_ok env \<Longrightarrow> keeps (sys_ok d0) (cancel env i dto act)"
  unfolding cancel_def by (intro keeps_intros keeps_runDecision keeps_cancel_work env_ok_keeps)

lemma keeps_createDirectOnce:
  assumes "env_ok env" "\<And>spans. valid_spans parsed = Some spans \<Longrightarrow> good_spans spans"
  shows "keeps (sys_ok d0) (createDirectOnce env k dto parsed act)"
  unfolding createDirectOnce_def
  by (intro keeps_intros keeps_create_request env_ok_keeps assms new_rows_decision)

lemma keeps_createDirect: "env_ok env \<Longrightarrow> keeps (sys_ok d0) (createDirect env dto act)"
  unfolding createDirect_def createDirect_attempt_def
  by (intro keeps_intros keeps_retry keeps_runDecision keeps_createDirectOnce env_ok_keeps)
    (auto intro: good_spans_parsed)

lemma keeps_publish_chunks: "env_keeps I env \<Longrightarrow> keeps I (publish_chunks env k cs)"
  by (induction cs arbitrary: k) (auto intro!: keeps_intros)

lemma keeps_expireOverdue: "env_ok env \<Longrightarrow> keeps (sys_ok d0) (expireOverdue env now)"
  unfolding expireOverdue_def
  by (intro keeps_intros keeps_or_empty keeps_publish_chunks keeps_update_bookings env_ok_keeps) auto

lemma keeps_remindUpcoming: "env_ok env \<Longrightarrow> keeps (sys_ok d0) (remindUpcoming env now)"
  unfolding remindUpcoming_def
  by (intro keeps_intros keeps_or_empty keeps_update_slots env_ok_keeps) auto

subsection \<open>The system\<close>

text \<open>Every way into the booking tables.\<close>

datatype call =
    CreateFromLine string line_booking_dto
  | CancelPending string string
  | CancelSlot string string string
  | ListAvailability string string "string option" "string option"
  | MasterSchedule string "string option" "string option"
  | ListMine string list_query
  | DetailMine string string
  | Approve string actor
  | Reject string string actor
  | CancelByStaff string cancel_dto actor
  | CreateDirect direct_dto actor
  | ListQueue queue_query
  | Detail string
  | Preflight string "(string \<times> string) list"
  | Calendar "string option" "booking_status option" "string option" "string option"
  | ExpireTick time
  | RemindTick time

definition after :: "(event, 'a) tx \<Rightarrow> db \<Rightarrow> db" where
  "after m d = fst (snd (run_call m d))"

definition serve :: "db \<Rightarrow> env \<times> call \<Rightarrow> db" where
  "serve d x = (case x of (env, c) \<Rightarrow> (case c of
       CreateFromLine sub dto \<Rightarrow> after (createFromLine env sub dto) d
     | CancelPending sub i \<Rightarrow> after (cancelPendingBooking env sub i) d
     | CancelSlot sub i s \<Rightarrow> after (cancelApprovedSlot env sub i s) d
     | ListAvailability sub v qf qt \<Rightarrow> after (listVenueAvailability env sub v qf qt) d
     | MasterSchedule sub qf qt \<Rightarrow> after (getMasterSchedule env sub qf qt) d
     | ListMine sub q \<Rightarrow> after (listUserBookings env sub q) d
     | DetailMine sub i \<Rightarrow> after (getUserBookingDetail env sub i) d
     | Approve i act \<Rightarrow> after (approve env i act) d
     | Reject i reason act \<Rightarrow> after (reject env i reason act) d
     | CancelByStaff i dto act \<Rightarrow> after (cancel env i dto act) d
     | CreateDirect dto act \<Rightarrow> after (createDirect env dto act) d
     | ListQueue q \<Rightarrow> after (list_queue env q) d
     | Detail i \<Rightarrow> after (getDetail env i) d
     | Preflight v ss \<Rightarrow> after (checkPreflight env v ss) d
     | Calendar v st qf qt \<Rightarrow> after (getCalendar env v st qf qt) d
     | ExpireTick now \<Rightarrow> after (expireOverdue env now) d
     | RemindTick now \<Rightarrow> after (remindUpcoming env now) d))"

lemma after_inv: "keeps I m \<Longrightarrow> I d \<Longrightarrow> I (after m d)"
  by (cases "run_call m d") (auto simp: after_def dest: keeps_run_call)

lemma serve_sys_ok: "sys_ok d0 d \<Longrightarrow> env_ok env \<Longrightarrow> sys_ok d0 (serve d (env, c))"
  by (cases c) (simp_all add: serve_def after_inv keeps_createFromLine keeps_cancelPendingBooking
      keeps_cancelApprovedSlot keeps_line_reads keeps_admin_reads keeps_approve keeps_reject
      keeps_cancel keeps_createDirect keeps_expireOverdue keeps_remindUpcoming env_ok_keeps)

definition ok_call :: "env \<times> call \<Rightarrow> bool" where
  "ok_call x = env_ok (fst x)"

interpretation bookings_system: invariant_system serve "sys_ok d0" ok_call for d0
  by unfold_locales (auto simp: ok_call_def intro: serve_sys_ok)

text \<open>The empty booking tables, beside any venues, users and settings.\<close>

definition empty_tables :: "db \<Rightarrow> bool" where
  "empty_tables d \<longleftrightarrow> bookings d = [] \<and> slots d = []"

lemma empty_tables_inv: "empty_tables d \<Longrightarrow> db_inv d"
  by (simp add: empty_tables_def db_inv_def ids_ok_def refs_ok_def holds_ok_def spans_ok_def
      siblings_disjoint_def booking_slots_no_overlap_def)

inductive reachable :: "db \<Rightarrow> bool" where
  start: "empty_tables d \<Longrightarrow> reachable d"
| served: "reachable d \<Longrightarrow> env_ok env \<Longrightarrow> reachable (serve d (env, c))"
| others: "reachable d \<Longrightarrow> db_inv d' \<Longrightarrow> evolves d d' \<Longrightarrow> reachable d'"

inductive_cases reachableE: "reachable d"

lemma reachable_inv: "reachable d \<Longrightarrow> db_inv d"
proof (induction rule: reachable.induct)
  case (served d env c)
  then show ?case using serve_sys_ok [of d d env c] by (simp add: sys_ok_def)
qed (auto intro: empty_tables_inv)

lemma serve_evolves: "db_inv d \<Longrightarrow> env_ok env \<Longrightarrow> evolves d (serve d (env, c))"
  using serve_sys_ok [of d d env c] by (simp add: sys_ok_def)

end
