(* ===== verification/Calm.thy ===== *)
theory Calm
  imports BookingSystem
begin

text \<open>
  Running an operation alone: no statement fails and nobody commits in between. This is what the
  advisory lock and the serial crons are there for, and what the functional specifications of the
  operations are stated for. The rules below execute a program statement by statement.
\<close>

definition calm :: "env \<Rightarrow> bool" where
  "calm env \<longleftrightarrow> (\<forall>k d. interfere env k d = d) \<and> (\<forall>k. fault env k = None)"

lemma calm_env_ok: "calm env \<Longrightarrow> env_ok env"
  by (simp add: calm_def env_ok_def)

named_theorems calm_run \<open>execution of a program whose surroundings are calm\<close>

lemma calm_statement: "calm env \<Longrightarrow> statement env k q w = q w"
  by (simp add: calm_def statement_def)

lemma run_read [calm_run]: "calm env \<Longrightarrow> tx_read env k f w = (Inr (f (view w)), w)"
  by (simp add: tx_read_def calm_statement)

lemma run_write [calm_run]:
  "calm env \<Longrightarrow> tx_write env k g w = (case g (view w) of
     Inl e \<Rightarrow> (Inl (Raw e), w) | Inr (d, a) \<Rightarrow> (Inr a, w\<lparr>view := d\<rparr>))"
  by (simp add: tx_write_def calm_statement)

lemma run_bind [calm_run]:
  "tx_bind m f w = (case m w of (Inl e, w') \<Rightarrow> (Inl e, w') | (Inr a, w') \<Rightarrow> f a w')"
  by (simp add: tx_bind_def)

lemma run_return [calm_run]: "tx_return a w = (Inr a, w)"
  by (simp add: tx_return_def)

lemma run_throw [calm_run]: "tx_throw e w = (Inl (Http e), w)"
  by (simp add: tx_throw_def)

lemma run_throw_raw [calm_run]: "tx_throw_raw e w = (Inl (Raw e), w)"
  by (simp add: tx_throw_raw_def)

lemma run_assert [calm_run]: "tx_assert b e w = (if b then (Inr (), w) else (Inl (Http e), w))"
  by (simp add: tx_assert_def tx_return_def tx_throw_def)

lemma run_require [calm_run]:
  "tx_require x e w = (case x of None \<Rightarrow> (Inl (Http e), w) | Some a \<Rightarrow> (Inr a, w))"
  by (cases x) (simp_all add: tx_require_def tx_return_def tx_throw_def)

lemma run_emit [calm_run]: "emit es w = (Inr (), w\<lparr>log := log w @ es\<rparr>)"
  by (simp add: emit_def)

lemma run_read_and_emit [calm_run]:
  "calm env \<Longrightarrow> read_and_emit env k f w = (Inr (), w\<lparr>log := log w @ f (view w)\<rparr>)"
  by (simp add: read_and_emit_def fail_soft_def calm_run)

lemma run_publish [calm_run]:
  "calm env \<Longrightarrow> publishBookingRequests env k kind ids act w =
     (Inr (), w\<lparr>log := log w @ (if ids = [] then [] else
        admin_events env kind ids act (view w) @ client_events ids (view w))\<rparr>)"
  by (simp add: publishBookingRequests_def publishClientBookingUpdates_def calm_run)

lemma run_notify [calm_run]:
  "calm env \<Longrightarrow> notifyDecisions env k ns w =
     (Inr (), w\<lparr>log := log w @ (if ns = [] then [] else decision_events env ns (view w))\<rparr>)"
  by (simp add: notifyDecisions_def calm_run)

lemma run_transaction [calm_run]:
  "transaction m w = (case m w of
       (Inr a, w') \<Rightarrow> (Inr a, w'\<lparr>committed := view w'\<rparr>)
     | (Inl e, w') \<Rightarrow> (Inl e, w'\<lparr>view := committed w'\<rparr>))"
  by (simp add: transaction_def)

lemma run_assertNoApprovedClash [calm_run]:
  "calm env \<Longrightarrow> spans \<noteq> [] \<Longrightarrow> assertNoApprovedClash env k v spans x w =
     (if find_first (approvedClashWhere (bookings (view w)) v spans x) (slots (view w)) = None
      then (Inr (), w) else (Inl (Http (Conflict SLOT_TAKEN)), w))"
  by (simp add: assertNoApprovedClash_def findApprovedClash_def calm_run)

lemma run_findPendingLosers [calm_run]:
  "calm env \<Longrightarrow> spans \<noteq> [] \<Longrightarrow>
   findPendingLosers env k v spans x w = (Inr (pending_losers env v spans x (view w)), w)"
  by (simp add: findPendingLosers_def calm_run)

text \<open>Reading the detail of a booking writes and announces nothing; it succeeds on a booking that is there.\<close>

lemma run_conflictsOf: "calm env \<Longrightarrow> \<exists>cf. conflictsOf env k row ss w = (Inr cf, w)"
  by (auto simp: conflictsOf_def conflictPicture_def count_clashes_def read_requesters_def Let_def
      calm_run split: prod.splits)

lemma run_readAdminDetail:
  assumes "calm env" "booking_of (view w) i \<noteq> None"
  shows "\<exists>dto. readAdminDetail env k i w = (Inr dto, w)"
proof -
  obtain row where row: "booking_of (view w) i = Some row" using assms(2) by auto
  obtain cf where "conflictsOf env (k + 1) row (ordered_slots_of env (view w) (bk_id row)) w = (Inr cf, w)"
    using run_conflictsOf [OF assms(1)] by blast
  then show ?thesis using assms(1) row by (simp add: readAdminDetail_def calm_run)
qed

lemma run_readDetail:
  assumes "calm env" "find_first p (bookings (view w)) \<noteq> None"
  shows "\<exists>dto. readDetail env k p w = (Inr dto, w)"
  using assms by (auto simp: readDetail_def calm_run)

lemma run_call_run: "run_call m d = (r, d', es) \<longleftrightarrow>
   (\<exists>w. m (fresh_world d) = (r, w) \<and> d' = view w \<and> es = log w)"
  by (auto simp: run_call_def split: prod.splits)

lemma fresh_world_simps [simp]: "view (fresh_world d) = d" "committed (fresh_world d) = d" "log (fresh_world d) = []"
  by (simp_all add: fresh_world_def)

end
