(* ===== verification/Decisions.thy ===== *)
theory Decisions
  imports Calm
begin

text \<open>
  The approval transaction against its abstract specification: who is taken, who loses, and the
  single state the decision leaves. The specification speaks of shared instants of time and of
  whole tables; the code speaks of \<open>where\<close> clauses, conditional updates, triggers and a
  constraint.
\<close>

subsection \<open>Writing statuses\<close>

lemma update_bookings_eq:
  assumes "db_inv d" "request_frame f"
  shows "update_bookings err p f d =
    (let bs = update_rows p f (bookings d); ss = map (booking_slots_holds_slot bs) (slots d)
     in if booking_slots_no_overlap ss
        then Inr (d\<lparr>bookings := bs, slots := ss\<rparr>, map f (filter p (bookings d))) else Inl err)"
proof -
  have "fold (\<lambda>b. booking_requests_holds_slot b (f b)) (filter p (bookings d)) (slots d) =
      map (booking_slots_holds_slot (update_rows p f (bookings d))) (slots d)"
    by (rule status_trigger_recomputes)
      (use db_invD [OF assms(1)] assms(2) in \<open>auto simp: request_frame_def same_request_def\<close>)
  then show ?thesis by (simp add: update_bookings_def Let_def)
qed

lemma inv_distinct:
  assumes "db_inv d"
  shows "distinct (map sl_id (slots d))" "distinct (map bk_id (bookings d))"
  using db_invD(1) [OF assms] by (simp_all add: ids_ok_def)

lemma holding_iff:
  "db_inv d \<Longrightarrow> booking_slots_no_overlap (slots d) \<longleftrightarrow>
    (\<forall>s \<in> set (slots d). \<forall>t \<in> set (slots d). s \<noteq> t \<longrightarrow> approved_live d s \<longrightarrow> approved_live d t \<longrightarrow>
       \<not> slots_clash s t)"
  using no_overlap_iff [of "slots d"] slots_distinct [of d] db_invD(1,3) [of d]
  by (auto simp: approved_live_def holds_ok_def)

text \<open>A status write that approves nobody cannot trip the constraint.\<close>

lemma release_succeeds:
  assumes inv: "db_inv d" and frame: "request_frame f" and free: "\<And>b. p b \<Longrightarrow> bk_status (f b) \<noteq> APPROVED"
  shows "update_bookings err p f d =
    (let bs = update_rows p f (bookings d)
     in Inr (d\<lparr>bookings := bs, slots := map (booking_slots_holds_slot bs) (slots d)\<rparr>,
             map f (filter p (bookings d))))"
proof -
  let ?bs = "update_rows p f (bookings d)"
  have less: "has_booking (bookings d) i APPROVED" if "has_booking ?bs i APPROVED" for i
    using that free frame
    by (auto simp: has_booking_iff set_update_rows request_frame_def same_request_def split: if_splits)
  have "booking_slots_no_overlap (map (booking_slots_holds_slot ?bs) (slots d))"
    using no_overlap_map_iff [OF inv_distinct(1) [OF inv], of ?bs] less
      db_invD(8) [OF inv] holding_iff [OF inv]
    by (auto simp: approved_live_def)
  then show ?thesis by (simp add: update_bookings_eq [OF inv frame] Let_def)
qed

subsection \<open>The specification\<close>

definition competes :: "db \<Rightarrow> string \<Rightarrow> slot \<Rightarrow> bool" where
  "competes d i s \<longleftrightarrow> (\<exists>u \<in> set (live_slots_of d i). shares_instant u s)"

text \<open>The room is taken: an approved live slot of the venue shares an instant with the request.\<close>

definition taken :: "db \<Rightarrow> booking \<Rightarrow> bool" where
  "taken d b \<longleftrightarrow> (\<exists>s. approved_live d s \<and> sl_venueId s = bk_venueId b \<and> competes d (bk_id b) s)"

text \<open>A pending request of the same venue that wants an instant the decided one gets.\<close>

definition loses :: "db \<Rightarrow> booking \<Rightarrow> booking \<Rightarrow> bool" where
  "loses d b c \<longleftrightarrow> bk_status c = PENDING \<and> bk_id c \<noteq> bk_id b \<and> bk_venueId c = bk_venueId b \<and>
     (\<exists>s \<in> set (live_slots_of d (bk_id c)). competes d (bk_id b) s)"

definition decide_row :: "actor \<Rightarrow> time \<Rightarrow> db \<Rightarrow> booking \<Rightarrow> booking \<Rightarrow> booking" where
  "decide_row act at d b c =
     (if bk_id c = bk_id b then approve_row (ac_id act) at c
      else if loses d b c then reject_row AUTO_REJECTED_REASON c else c)"

definition retrigger :: "db \<Rightarrow> booking list \<Rightarrow> db" where
  "retrigger d bs = d\<lparr>bookings := bs, slots := map (booking_slots_holds_slot bs) (slots d)\<rparr>"

definition approve_spec :: "actor \<Rightarrow> time \<Rightarrow> string \<Rightarrow> db \<Rightarrow> booking_message http_error + booking \<times> db" where
  "approve_spec act at i d = (case booking_of d i of
       None \<Rightarrow> Inl (NotFound BOOKING_NOT_FOUND)
     | Some b \<Rightarrow>
         if bk_status b \<noteq> PENDING then Inl (Conflict BOOKING_NOT_PENDING_FOR_DECISION)
         else if live_slots_of d i = [] then Inl (Conflict BOOKING_ALREADY_CANCELLED)
         else if taken d b then Inl (Conflict SLOT_TAKEN)
         else Inr (b, retrigger d (map (decide_row act at d b) (bookings d))))"

definition losers_of :: "env \<Rightarrow> db \<Rightarrow> booking \<Rightarrow> loser list" where
  "losers_of env d b = map loser_of (js_sort (by_code env) (filter (loses d b) (bookings d)))"

subsection \<open>The queries compute the specification's predicates\<close>

lemma booking_of_iff:
  "db_inv d \<Longrightarrow> booking_of d i = Some b \<longleftrightarrow> b \<in> set (bookings d) \<and> bk_id b = i"
  by (simp add: booking_of_def find_first_Some_iff_distinct inv_distinct)

lemma live_slot_proper:
  "db_inv d \<Longrightarrow> s \<in> set (slots d) \<Longrightarrow> sl_startAt s < sl_endAt s"
  using db_invD(4) [of d] by (simp add: spans_ok_def)

lemma overlapOr_competes:
  assumes "db_inv d" "x \<in> set (slots d)"
  shows "overlapOr (map span_of (live_slots_of d i)) x \<longleftrightarrow> competes d i x"
  using overlapOr_shares [of "live_slots_of d i" x] live_slot_proper [OF assms(1)] assms(2)
  by (auto simp: competes_def live_slots_of_def)

lemma approved_not_pending:
  "db_inv d \<Longrightarrow> b \<in> set (bookings d) \<Longrightarrow> bk_status b = PENDING \<Longrightarrow> \<not> has_booking (bookings d) (bk_id b) APPROVED"
  by (simp add: has_booking_unique inv_distinct)

lemma clash_query:
  assumes inv: "db_inv d" and b: "b \<in> set (bookings d)" "bk_status b = PENDING"
  shows "find_first (approvedClashWhere (bookings d) (bk_venueId b) (map span_of (live_slots_of d (bk_id b)))
      (Some (bk_id b))) (slots d) = None \<longleftrightarrow> \<not> taken d b"
  using approved_not_pending [OF inv b] overlapOr_competes [OF inv]
  by (auto simp: find_first_None_iff approvedClashWhere_def taken_def approved_live_def)

lemma losers_query:
  assumes inv: "db_inv d" and b: "b \<in> set (bookings d)" "bk_id b \<noteq> []"
  shows "pending_losers env (bk_venueId b) (map span_of (live_slots_of d (bk_id b))) (Some (bk_id b)) d =
    losers_of env d b"
proof -
  have "pendingLoserWhere d (bk_venueId b) (map span_of (live_slots_of d (bk_id b))) (Some (bk_id b)) c =
      loses d b c" for c
    using overlapOr_competes [OF inv] b(2)
    by (auto simp: pendingLoserWhere_def loses_def list_ex_iff live_slots_of_def)
  then show ?thesis by (simp add: pending_losers_def losers_of_def cong: filter_cong)
qed

subsection \<open>The constraint answers the same question\<close>

lemma slot_venue:
  assumes "db_inv d" "b \<in> set (bookings d)" "s \<in> set (slots d)" "sl_bookingRequestId s = bk_id b"
  shows "sl_venueId s = bk_venueId b"
proof -
  obtain c where c: "c \<in> set (bookings d)" "bk_id c = sl_bookingRequestId s" "bk_venueId c = sl_venueId s"
    using db_invD(2) [OF assms(1)] assms(3) unfolding refs_ok_def by blast
  have "c = b"
    by (rule distinct_bk_idD [OF inv_distinct(2) [OF assms(1)] c(1) assms(2)]) (simp add: c(2) assms(4))
  then show ?thesis using c(3) by simp
qed

lemma siblings_apart:
  assumes "db_inv d" "s \<in> set (slots d)" "t \<in> set (slots d)" "s \<noteq> t"
    "sl_bookingRequestId s = sl_bookingRequestId t"
  shows "\<not> slots_clash s t"
proof -
  let ?R = "\<lambda>s t. sl_bookingRequestId s = sl_bookingRequestId t \<longrightarrow>
     \<not> ranges_overlap (sl_startAt s) (sl_endAt s) (sl_startAt t) (sl_endAt t)"
  have sym: "?R x y = ?R y x" for x y by (auto simp: ranges_overlap_def)
  have "sorted_wrt ?R (slots d)"
    using db_invD(4) [OF assms(1)] unfolding spans_ok_def siblings_disjoint_def by blast
  then have "?R s t"
    using sorted_wrt_distinct_iff [of ?R "slots d", OF sym slots_distinct [OF db_invD(1) [OF assms(1)]]]
      assms(2-4) by blast
  then show ?thesis using assms(5) by (simp add: slots_clash_def)
qed

text \<open>Approving \<open>b\<close> trips the constraint exactly when the room is taken.\<close>

lemma approve_trips_iff:
  assumes inv: "db_inv d" and b: "b \<in> set (bookings d)" "bk_status b = PENDING"
    and app: "\<And>i. has_booking bs i APPROVED \<longleftrightarrow> i = bk_id b \<or> has_booking (bookings d) i APPROVED"
  shows "booking_slots_no_overlap (map (booking_slots_holds_slot bs) (slots d)) \<longleftrightarrow> \<not> taken d b"
proof -
  let ?new = "\<lambda>s. \<not> sl_isCancelled s \<and> has_booking bs (sl_bookingRequestId s) APPROVED"
  let ?own = "\<lambda>s. s \<in> set (live_slots_of d (bk_id b))"
  have cases: "?new s \<longleftrightarrow> ?own s \<or> approved_live d s" if "s \<in> set (slots d)" for s
    using that by (auto simp: app live_slots_of_def approved_live_def)
  have clash: "slots_clash s t \<longleftrightarrow> sl_venueId t = bk_venueId b \<and> shares_instant s t"
    if "?own s" for s t
    using that slot_venue [OF inv b(1)] by (auto simp: slots_clash_def shares_instant_iff live_slots_of_def)
  have sym: "slots_clash s t = slots_clash t s" for s t
    by (auto simp: slots_clash_def ranges_overlap_def)
  have apart: "\<not> (?own s \<and> approved_live d s)" for s
    using approved_not_pending [OF inv b] by (auto simp: live_slots_of_def approved_live_def)
  have old: "\<not> slots_clash s t" if "approved_live d s" "approved_live d t" "s \<noteq> t" for s t
    using that holding_iff [OF inv] db_invD(8) [OF inv] by (auto simp: approved_live_def)
  have own: "\<not> slots_clash s t" if "?own s" "?own t" "s \<noteq> t" for s t
    using that siblings_apart [OF inv] by (auto simp: live_slots_of_def)
  have "(\<forall>s \<in> set (slots d). \<forall>t \<in> set (slots d). s \<noteq> t \<longrightarrow> ?new s \<longrightarrow> ?new t \<longrightarrow> \<not> slots_clash s t) \<longleftrightarrow>
      (\<forall>s t. ?own s \<longrightarrow> approved_live d t \<longrightarrow> \<not> slots_clash s t)"
    (is "?pairs \<longleftrightarrow> ?mixed")
  proof
    assume pairs: ?pairs
    show ?mixed
    proof (intro allI impI)
      fix s t assume st: "?own s" "approved_live d t"
      then have "s \<in> set (slots d)" "t \<in> set (slots d)" "s \<noteq> t" "?new s" "?new t"
        using apart app by (auto simp: live_slots_of_def approved_live_def)
      with pairs show "\<not> slots_clash s t" by blast
    qed
  next
    assume mixed: ?mixed
    show ?pairs
    proof (intro ballI impI)
      fix s t assume st: "s \<in> set (slots d)" "t \<in> set (slots d)" "s \<noteq> t" "?new s" "?new t"
      show "\<not> slots_clash s t"
        using st(3) cases [OF st(1)] cases [OF st(2)] st(4,5) mixed old [of s t] own [of s t] sym [of s t]
        by blast
    qed
  qed
  also have "?mixed \<longleftrightarrow> \<not> taken d b"
    using clash by (auto simp: taken_def competes_def)
  finally show ?thesis
    using no_overlap_map_iff [OF inv_distinct(1) [OF inv], of bs] by simp
qed

subsection \<open>The transaction computes the specification\<close>

lemma filter_key_unique:
  "distinct (map key xs) \<Longrightarrow> x \<in> set xs \<Longrightarrow> q x \<Longrightarrow> filter (\<lambda>y. key y = key x \<and> q y) xs = [x]"
  by (induction xs) (auto simp: filter_empty_conv image_iff)

lemma retrigger_again: "booking_slots_holds_slot bs (booking_slots_holds_slot bs' s) = booking_slots_holds_slot bs s"
  by (simp add: booking_slots_holds_slot_def)

lemma retrigger_retrigger: "retrigger (retrigger d bs) bs' = retrigger d bs'"
  by (simp add: retrigger_def comp_def retrigger_again)

definition flipped_rows :: "string \<Rightarrow> (booking \<Rightarrow> booking) \<Rightarrow> booking list \<Rightarrow> booking list" where
  "flipped_rows i f bs = update_rows (\<lambda>c. bk_id c = i \<and> bk_status c = PENDING) f bs"

lemma flipped_approved:
  assumes b: "b \<in> set (bookings d)" "bk_status b = PENDING"
  shows "has_booking (flipped_rows (bk_id b) (approve_row u t) (bookings d)) j APPROVED \<longleftrightarrow>
    j = bk_id b \<or> has_booking (bookings d) j APPROVED"
    (is "has_booking ?bs j APPROVED \<longleftrightarrow> ?rhs")
proof
  assume "has_booking ?bs j APPROVED"
  then obtain c where "c \<in> set (bookings d)"
    and c: "bk_id (if bk_id c = bk_id b \<and> bk_status c = PENDING then approve_row u t c else c) = j"
      "bk_status (if bk_id c = bk_id b \<and> bk_status c = PENDING then approve_row u t c else c) = APPROVED"
    unfolding flipped_rows_def has_booking_iff set_update_rows by blast
  then show ?rhs
    by (cases "bk_id c = bk_id b \<and> bk_status c = PENDING") (auto simp: has_booking_iff approve_row_def)
next
  assume ?rhs
  then obtain c where "c \<in> set (bookings d)" "bk_id c = j" "c = b \<or> bk_status c = APPROVED"
    using b unfolding has_booking_iff by blast
  then show "has_booking ?bs j APPROVED"
    using b unfolding flipped_rows_def has_booking_iff set_update_rows
    by (intro bexI [of _ "if c = b then approve_row u t c else c"])
      (auto simp: approve_row_def intro!: exI [of _ c])
qed

lemma run_flip:
  assumes inv: "db_inv d" and b: "b \<in> set (bookings d)" "bk_status b = PENDING" and free: "\<not> taken d b"
  shows "update_bookings err (\<lambda>c. bk_id c = bk_id b \<and> bk_status c = PENDING) (approve_row u t) d =
    Inr (retrigger d (flipped_rows (bk_id b) (approve_row u t) (bookings d)), [approve_row u t b])"
proof -
  have "booking_slots_no_overlap
      (map (booking_slots_holds_slot (flipped_rows (bk_id b) (approve_row u t) (bookings d))) (slots d))"
    using approve_trips_iff [OF inv b flipped_approved [OF b]] free by blast
  moreover have "filter (\<lambda>c. bk_id c = bk_id b \<and> bk_status c = PENDING) (bookings d) = [b]"
    using filter_key_unique [OF inv_distinct(2) [OF inv] b(1)] b(2) by simp
  ultimately show ?thesis
    by (simp add: update_bookings_eq [OF inv] retrigger_def Let_def flipped_rows_def)
qed

lemma loser_ids:
  assumes inv: "db_inv d" and c: "c \<in> set (bookings d)"
  shows "bk_id c \<in> set (map lo_id (losers_of env d b)) \<longleftrightarrow> loses d b c"
  using c distinct_bk_idD [OF inv_distinct(2) [OF inv] c]
  by (auto simp: losers_of_def loser_of_def)

lemma decide_rows:
  assumes inv: "db_inv d" and b: "b \<in> set (bookings d)" "bk_status b = PENDING"
  shows "update_rows (\<lambda>c. bk_id c \<in> set (map lo_id (losers_of env d b)) \<and> bk_status c = PENDING)
      (reject_row AUTO_REJECTED_REASON) (flipped_rows (bk_id b) (approve_row (ac_id act) t) (bookings d)) =
    map (decide_row act t d b) (bookings d)"
  unfolding update_rows_def flipped_rows_def map_map
proof (rule map_cong [OF refl])
  fix c assume c: "c \<in> set (bookings d)"
  have self: "bk_id c = bk_id b \<Longrightarrow> c = b"
    by (rule distinct_bk_idD [OF inv_distinct(2) [OF inv] c b(1)])
  show "((\<lambda>x. if bk_id x \<in> set (map lo_id (losers_of env d b)) \<and> bk_status x = PENDING
        then reject_row AUTO_REJECTED_REASON x else x) \<circ>
      (\<lambda>x. if bk_id x = bk_id b \<and> bk_status x = PENDING then approve_row (ac_id act) t x else x)) c =
      decide_row act t d b c"
  proof (cases "bk_id c = bk_id b")
    case True
    then show ?thesis using self b(2) by (simp add: decide_row_def approve_row_def)
  next
    case False
    then show ?thesis
      using loser_ids [OF inv c, of env b] by (auto simp: decide_row_def loses_def)
  qed
qed

lemma run_rejectLosers:
  assumes calm: "calm env" and inv: "db_inv (view w)"
  shows "rejectLosers env k losers w = (Inr (map auto_rejected_of losers),
    if losers = [] then w else w\<lparr>view := retrigger (view w)
      (update_rows (\<lambda>c. bk_id c \<in> set (map lo_id losers) \<and> bk_status c = PENDING)
        (reject_row AUTO_REJECTED_REASON) (bookings (view w)))\<rparr>)"
  using release_succeeds [OF inv, of "reject_row AUTO_REJECTED_REASON"
      "\<lambda>c. bk_id c \<in> set (map lo_id losers) \<and> bk_status c = PENDING" "exclusion_error env"]
  by (simp add: rejectLosers_def calm_run calm retrigger_def reject_row_def Let_def)

lemma flip_keeps_inv:
  assumes inv: "db_inv d" and b: "b \<in> set (bookings d)" "bk_status b = PENDING" and free: "\<not> taken d b"
  shows "db_inv (retrigger d (flipped_rows (bk_id b) (approve_row u t) (bookings d)))"
  using sys_update_bookings [OF _ run_flip [OF assms], of d] inv by (simp add: sys_ok_def)

lemma run_decide:
  assumes calm: "calm env" and inv: "db_inv (view w)"
    and b: "b \<in> set (bookings (view w))" "bk_status b = PENDING" and free: "\<not> taken (view w) b"
  shows "rejectLosers env k (losers_of env (view w) b)
      (w\<lparr>view := retrigger (view w) (flipped_rows (bk_id b) (approve_row (ac_id act) t) (bookings (view w)))\<rparr>) =
    (Inr (map auto_rejected_of (losers_of env (view w) b)),
     w\<lparr>view := retrigger (view w) (map (decide_row act t (view w) b) (bookings (view w)))\<rparr>)"
proof -
  let ?d = "view w"
  let ?bs = "flipped_rows (bk_id b) (approve_row (ac_id act) t) (bookings ?d)"
  have rows: "bookings (retrigger ?d ?bs) = ?bs" by (simp add: retrigger_def)
  have none: "update_rows (\<lambda>c. bk_id c \<in> set (map lo_id []) \<and> q c) f xs = xs" for q f and xs :: "booking list"
    by (simp add: update_rows_def)
  show ?thesis
    using run_rejectLosers [OF calm, of "w\<lparr>view := retrigger ?d ?bs\<rparr>"] flip_keeps_inv [OF inv b free]
      decide_rows [OF inv b, of env act t] none
    by (cases "losers_of env ?d b = []") (simp_all add: rows retrigger_retrigger)
qed

lemma run_approve_work:
  assumes calm: "calm env" and inv: "db_inv (view w)" and i: "i \<noteq> []"
  shows "approve_work env i act w = (case approve_spec act (clock env 6) i (view w) of
      Inl e \<Rightarrow> (Inl (Http e), w)
    | Inr (b, d') \<Rightarrow> (Inr (map auto_rejected_of (losers_of env (view w) b)), w\<lparr>view := d'\<rparr>))"
proof (cases "booking_of (view w) i")
  case None
  then show ?thesis by (simp add: approve_work_def approve_spec_def calm_run calm)
next
  case (Some b)
  then have b: "b \<in> set (bookings (view w))" "bk_id b = i" by (simp_all add: booking_of_iff inv)
  show ?thesis
  proof (cases "bk_status b = PENDING \<and> live_slots_of (view w) i \<noteq> []")
    case False
    then show ?thesis
      using Some by (auto simp: approve_work_def lockVenue_def approve_spec_def calm_run calm)
  next
    case True
    then have pending: "bk_status b = PENDING" and live: "map span_of (live_slots_of (view w) i) \<noteq> []"
      by simp_all
    note clash = clash_query [OF inv b(1) pending, unfolded b(2)]
    note losers = losers_query [OF inv b(1), unfolded b(2), OF i, of env]
    show ?thesis
    proof (cases "taken (view w) b")
      case True
      with Some pending live clash show ?thesis
        by (auto simp: approve_work_def lockVenue_def approve_spec_def calm_run calm Let_def)
    next
      case False
      with Some pending live clash losers b i show ?thesis
        using run_flip [OF inv b(1) pending False, unfolded b(2)]
          run_decide [OF calm inv b(1) pending False, unfolded b(2)]
        by (simp add: approve_work_def lockVenue_def approve_spec_def calm_run calm Let_def)
    qed
  qed
qed

subsection \<open>The whole call\<close>

lemma run_runDecision_Http:
  "decision_failure (Http m) = Http m"
  by (simp add: decision_failure_def)

text \<open>What an approval answers and announces, given the specification's verdict.\<close>

definition approve_events :: "env \<Rightarrow> actor \<Rightarrow> string \<Rightarrow> auto_rejected list \<Rightarrow> db \<Rightarrow> event list" where
  "approve_events env act i losers d =
     admin_events env UPDATED (i # map ar_id losers) (Some act) d @
     client_events (i # map ar_id losers) d @
     decision_events env (decision_notices i losers) d @
     [AdminTrigger (BookingsAutoRejected i losers act)]"

lemma run_approve:
  assumes calm: "calm env" and inv: "db_inv d" and i: "i \<noteq> []"
    and run: "run_call (approve env i act) d = (r, d', es)"
  shows "case approve_spec act (clock env 6) i d of
      Inl e \<Rightarrow> r = Inl (Http e) \<and> d' = d \<and> es = []
    | Inr (b, d2) \<Rightarrow> (let losers = map auto_rejected_of (losers_of env d b) in
        (\<exists>dto. r = Inr \<lparr>ap_booking = dto, ap_autoRejected = losers\<rparr>) \<and>
        d' = d2 \<and> es = approve_events env act i losers d2)"
proof (cases "approve_spec act (clock env 6) i d")
  case (Inl e)
  then have "approve_work env i act (fresh_world d) = (Inl (Http e), fresh_world d)"
    using run_approve_work [OF calm, of "fresh_world d" i act] inv i by simp
  then show ?thesis
    using run Inl by (auto simp: run_call_run approve_def runDecision_def calm_run run_runDecision_Http)
next
  case (Inr x)
  obtain b d2 where x: "x = (b, d2)" by (cases x)
  let ?losers = "map auto_rejected_of (losers_of env d b)"
  have work: "approve_work env i act (fresh_world d) = (Inr ?losers, (fresh_world d)\<lparr>view := d2\<rparr>)"
    using run_approve_work [OF calm, of "fresh_world d" i act] inv i Inr x by simp
  obtain c where c: "booking_of d i = Some c" and d2: "d2 = retrigger d (map (decide_row act (clock env 6) d b) (bookings d))"
    using Inr x by (auto simp: approve_spec_def split: option.splits if_splits)
  have "booking_of d2 i \<noteq> None"
  proof -
    have "c \<in> set (bookings d)" "bk_id c = i" using c by (simp_all add: booking_of_iff inv)
    moreover have "bk_id (decide_row act (clock env 6) d b c) = bk_id c"
      by (simp add: decide_row_def approve_row_def reject_row_def)
    ultimately show ?thesis by (auto simp: booking_of_def find_first_None_iff d2 retrigger_def)
  qed
  then obtain dto where "readAdminDetail env 10 i ((fresh_world d)\<lparr>view := d2, committed := d2\<rparr>) =
      (Inr dto, (fresh_world d)\<lparr>view := d2, committed := d2\<rparr>)"
    using run_readAdminDetail [OF calm, of "(fresh_world d)\<lparr>view := d2, committed := d2\<rparr>" i 10] by auto
  then show ?thesis
    using run work Inr x
    by (auto simp: run_call_run approve_def runDecision_def calm_run calm approve_events_def
        decision_notices_def Let_def)
qed

end
