(* ===== verification/Withdrawals.thy ===== *)
theory Withdrawals
  imports Decisions
begin

text \<open>
  Cancelling slots: the effect the requester's and the staff's cancellation share, the
  transactions as functions of the table when they run alone, and the invariant of the
  denormalised span (\<open>firstStartAt\<close>, \<open>lastEndAt\<close>).
\<close>

subsection \<open>The shared effect\<close>

text \<open>Cancel the slots \<open>p\<close> of request \<open>i\<close>; the last live one takes the request with it.\<close>

definition free_effect :: "(slot \<Rightarrow> bool) \<Rightarrow> (slot \<Rightarrow> slot) \<Rightarrow> string \<Rightarrow> db \<Rightarrow> db" where
  "free_effect p g i d =
     (let ss = update_rows p g (slots d);
          remaining = filter (\<lambda>s. sl_bookingRequestId s = i \<and> \<not> sl_isCancelled s) ss
      in retrigger (d\<lparr>slots := ss\<rparr>) (update_rows (\<lambda>b. bk_id b = i) (settle_span remaining) (bookings d)))"

definition cancels :: "(slot \<Rightarrow> slot) \<Rightarrow> bool" where
  "cancels g \<longleftrightarrow> slot_change g \<and> (\<forall>s. sl_isCancelled (g s)) \<and>
     (\<forall>s h. g (s\<lparr>sl_holdsSlot := h\<rparr>) = (g s)\<lparr>sl_holdsSlot := h\<rparr>)"

lemma cancels_cancellation [simp]: "cancels (cancellation t u)" "cancels (staffCancellation t act r)"
  by (simp_all add: cancels_def) (simp_all add: cancellation_def staffCancellation_def)

text \<open>A write that gives nobody hours they did not hold cannot trip the constraint.\<close>

lemma no_new_holders:
  assumes inv: "db_inv d" and less: "\<And>i. has_booking bs i APPROVED \<Longrightarrow> has_booking (bookings d) i APPROVED"
  shows "booking_slots_no_overlap (map (booking_slots_holds_slot bs) (slots d))"
  using no_overlap_map_iff [OF inv_distinct(1) [OF inv], of bs] less db_invD(8) [OF inv] holding_iff [OF inv]
  by (auto simp: approved_live_def)

lemma settle_succeeds:
  assumes inv: "db_inv d" and i: "booking_of d i \<noteq> None"
  shows "\<exists>hit. update_booking_row env i (settle_span ss) d =
    Inr (retrigger d (update_rows (\<lambda>b. bk_id b = i) (settle_span ss) (bookings d)), hit)"
proof -
  have "has_booking (bookings d) j APPROVED"
    if "has_booking (update_rows (\<lambda>b. bk_id b = i) (settle_span ss) (bookings d)) j APPROVED" for j
    using that by (auto simp: has_booking_iff set_update_rows settle_span_def split: if_splits)
  then show ?thesis
    using no_new_holders [OF inv] i
    by (simp add: update_booking_row_def update_bookings_eq [OF inv] Let_def retrigger_def)
qed

lemma free_succeeds:
  assumes inv: "db_inv d" and g: "cancels g"
  shows "update_slots err p g d = Inr (d\<lparr>slots := update_rows p (\<lambda>s. booking_slots_holds_slot (bookings d) (g s)) (slots d)\<rparr>,
    map (\<lambda>s. booking_slots_holds_slot (bookings d) (g s)) (filter p (slots d)))"
proof -
  let ?h = "\<lambda>s. if p s then booking_slots_holds_slot (bookings d) (g s) else s"
  have h: "sl_id (?h s) = sl_id s \<and> slots_clash (?h s) (?h t) = slots_clash s t \<and> (sl_holdsSlot (?h s) \<longrightarrow> sl_holdsSlot s)"
    for s t
    using g by (simp add: cancels_def slot_change_def same_slot_def slots_clash_def)
  have "booking_slots_no_overlap (map ?h (slots d))"
    unfolding booking_slots_no_overlap_def sorted_wrt_map
    by (rule sorted_wrt_mono_rel [OF _ db_invD(8) [OF inv, unfolded booking_slots_no_overlap_def]])
      (use h in blast)
  then show ?thesis by (simp add: update_slots_def update_rows_def Let_def)
qed

lemma free_then_settle:
  assumes g: "cancels g"
  shows "retrigger (d\<lparr>slots := update_rows p (\<lambda>s. booking_slots_holds_slot (bookings d) (g s)) (slots d)\<rparr>) bs =
    retrigger (d\<lparr>slots := update_rows p g (slots d)\<rparr>) bs"
  by (simp add: retrigger_def update_rows_def comp_def retrigger_again if_distrib [of "booking_slots_holds_slot bs"]
      cong: if_cong)

lemma live_after_free:
  assumes "cancels g"
  shows "filter (\<lambda>s. sl_bookingRequestId s = i \<and> \<not> sl_isCancelled s)
      (update_rows p (\<lambda>s. booking_slots_holds_slot bs (g s)) ss) =
    filter (\<lambda>s. sl_bookingRequestId s = i \<and> \<not> sl_isCancelled s) (update_rows p g ss)"
    "filter (\<lambda>s. sl_bookingRequestId s = i \<and> \<not> sl_isCancelled s) (update_rows p g ss) =
    filter (\<lambda>s. sl_bookingRequestId s = i \<and> \<not> sl_isCancelled s \<and> \<not> p s) ss"
  using assms by (induction ss) (auto simp: update_rows_def cancels_def slot_change_def same_slot_def)

lemma free_inv:
  assumes inv: "db_inv d" and g: "cancels g"
  shows "db_inv (d\<lparr>slots := update_rows p (\<lambda>s. booking_slots_holds_slot (bookings d) (g s)) (slots d)\<rparr>)"
  using sys_update_slots [OF _ free_succeeds [OF inv g], of d] inv g by (simp add: sys_ok_def cancels_def)

text \<open>The two writes of a cancellation, one after the other.\<close>

lemma run_free:
  assumes inv: "db_inv d" and g: "cancels g" and i: "booking_of d i \<noteq> None"
    and d1: "d1 = d\<lparr>slots := update_rows p (\<lambda>s. booking_slots_holds_slot (bookings d) (g s)) (slots d)\<rparr>"
    and rem: "remaining = filter (\<lambda>s. sl_bookingRequestId s = i \<and> \<not> sl_isCancelled s \<and> \<not> p s) (slots d)"
  shows "\<exists>hit. update_booking_row env i (settle_span remaining) d1 = Inr (free_effect p g i d, hit)"
proof -
  have "booking_of d1 i \<noteq> None" using i by (simp add: d1 booking_of_def)
  then obtain hit where "update_booking_row env i (settle_span remaining) d1 =
      Inr (retrigger d1 (update_rows (\<lambda>b. bk_id b = i) (settle_span remaining) (bookings d1)), hit)"
    using settle_succeeds [OF free_inv [OF inv g, of p], of i env remaining] by (auto simp: d1)
  then show ?thesis
    using free_then_settle [OF g, where d = d and p = p] live_after_free(2) [OF g, of i p "slots d"]
    by (simp add: d1 rem free_effect_def Let_def)
qed

subsection \<open>The transactions, run alone\<close>

definition cancel_slot_spec ::
  "(booking \<Rightarrow> bool) \<Rightarrow> string \<Rightarrow> time \<Rightarrow> time \<Rightarrow> string \<Rightarrow> db \<Rightarrow> booking_message http_error + string \<times> db"
where
  "cancel_slot_spec p slotId now cutoff u d = (case find_first p (bookings d) of
       None \<Rightarrow> Inl (NotFound BOOKING_NOT_FOUND)
     | Some b \<Rightarrow>
         if bk_status b \<noteq> APPROVED then Inl (Unprocessable BOOKING_NOT_APPROVED)
         else (case find_first (\<lambda>s. sl_id s = slotId \<and> sl_bookingRequestId s = bk_id b) (slots d) of
             None \<Rightarrow> Inl (NotFound SLOT_NOT_FOUND)
           | Some s \<Rightarrow>
               if sl_isCancelled s then Inl (Unprocessable SLOT_ALREADY_CANCELLED)
               else if sl_startAt s \<le> cutoff then Inl (Unprocessable SLOT_CANCEL_TOO_LATE)
               else Inr (bk_id b, free_effect (\<lambda>x. sl_id x = slotId \<and> \<not> sl_isCancelled x)
                      (cancellation now u) (bk_id b) d)))"

lemma found_booking: "db_inv d \<Longrightarrow> find_first p (bookings d) = Some b \<Longrightarrow> booking_of d (bk_id b) = Some b"
  by (simp add: booking_of_iff find_first_SomeD)

lemma filter_id_unique:
  "distinct (map sl_id ss) \<Longrightarrow> s \<in> set ss \<Longrightarrow> \<not> sl_isCancelled s \<Longrightarrow>
   filter (\<lambda>x. sl_id x = sl_id s \<and> \<not> sl_isCancelled x) ss = [s]"
  by (rule filter_key_unique)

lemma run_cancelSlot_tx:
  assumes calm: "calm env" and inv: "db_inv (view w)"
  shows "cancelSlot_tx env p slotId now cutoff u w =
    (case cancel_slot_spec p slotId now cutoff u (view w) of
       Inl e \<Rightarrow> (Inl (Http e), w\<lparr>view := committed w\<rparr>)
     | Inr (i, d') \<Rightarrow> (Inr i, w\<lparr>view := d', committed := d'\<rparr>))"
proof -
  let ?d = "view w"
  show ?thesis
  proof (cases "find_first p (bookings ?d)")
    case None
    then show ?thesis by (simp add: cancelSlot_tx_def cancel_slot_spec_def calm_run calm)
  next
    case (Some b)
    let ?q = "\<lambda>s. sl_id s = slotId \<and> sl_bookingRequestId s = bk_id b"
    show ?thesis
    proof (cases "bk_status b = APPROVED \<and> (\<exists>s. find_first ?q (slots ?d) = Some s \<and>
        \<not> sl_isCancelled s \<and> \<not> sl_startAt s \<le> cutoff)")
      case False
      then show ?thesis using Some
        by (auto simp: cancelSlot_tx_def cancel_slot_spec_def calm_run calm split: option.splits)
    next
      case True
      then obtain s where s: "find_first ?q (slots ?d) = Some s" "\<not> sl_isCancelled s" "\<not> sl_startAt s \<le> cutoff"
        by blast
      note sq = find_first_SomeD [OF s(1)]
      let ?p = "\<lambda>x. sl_id x = slotId \<and> \<not> sl_isCancelled x"
      let ?g = "cancellation now u"
      define d1 where "d1 = ?d\<lparr>slots := update_rows ?p (\<lambda>s. booking_slots_holds_slot (bookings ?d) (?g s)) (slots ?d)\<rparr>"
      have hit: "filter ?p (slots ?d) = [s]"
        using filter_id_unique [OF inv_distinct(1) [OF inv], of s] sq s(2) by simp
      have rem: "live_slots_of d1 (bk_id b) =
          filter (\<lambda>s. sl_bookingRequestId s = bk_id b \<and> \<not> sl_isCancelled s \<and> \<not> ?p s) (slots ?d)"
        using live_after_free [of ?g "bk_id b" ?p] by (simp add: d1_def live_slots_of_def)
      obtain hit2 where settle: "update_booking_row env (bk_id b) (settle_span (live_slots_of d1 (bk_id b))) d1 =
          Inr (free_effect ?p ?g (bk_id b) ?d, hit2)"
        using run_free [OF inv, of ?g "bk_id b" d1 ?p _ env] found_booking [OF inv Some] rem d1_def by auto
      have freed: "update_slots err ?p ?g ?d = Inr (d1, [booking_slots_holds_slot (bookings ?d) (?g s)])" for err
        using free_succeeds [OF inv, of ?g err ?p] hit by (simp add: d1_def)
      show ?thesis
        using True Some s sq freed settle
        by (simp add: cancelSlot_tx_def cancel_slot_spec_def calm_run calm)
    qed
  qed
qed

definition cancel_pending_spec ::
  "(booking \<Rightarrow> bool) \<Rightarrow> time \<Rightarrow> string \<Rightarrow> db \<Rightarrow> booking_message http_error + string \<times> db"
where
  "cancel_pending_spec p now u d = (case find_first p (bookings d) of
       None \<Rightarrow> Inl (NotFound BOOKING_NOT_FOUND)
     | Some b \<Rightarrow>
         if bk_status b \<noteq> PENDING then Inl (Unprocessable BOOKING_NOT_PENDING)
         else Inr (bk_id b, free_effect (\<lambda>s. sl_bookingRequestId s = bk_id b \<and> \<not> sl_isCancelled s)
                (cancellation now u) (bk_id b) d))"

lemma pending_rows:
  assumes inv: "db_inv d" and b: "b \<in> set (bookings d)" "bk_status b = PENDING"
  shows "update_rows (\<lambda>c. bk_id c = bk_id b \<and> bk_status c = PENDING) (set_status CANCELLED) (bookings d) =
    update_rows (\<lambda>c. bk_id c = bk_id b) (settle_span []) (bookings d)"
  unfolding update_rows_def
proof (rule map_cong [OF refl])
  fix c assume "c \<in> set (bookings d)"
  then have "bk_id c = bk_id b \<Longrightarrow> c = b"
    by (rule distinct_bk_idD [OF inv_distinct(2) [OF inv] _ b(1)])
  then show "(if bk_id c = bk_id b \<and> bk_status c = PENDING then set_status CANCELLED c else c) =
      (if bk_id c = bk_id b then settle_span [] c else c)"
    using b(2) by (auto simp: set_status_def settle_span_def)
qed

text \<open>Releasing the request first and its slots second comes to the same as the other order.\<close>

lemma settle_then_free:
  assumes g: "cancels g" and p: "\<And>s h. p (s\<lparr>sl_holdsSlot := h\<rparr>) = p s"
  shows "(retrigger d bs)\<lparr>slots := update_rows p (\<lambda>s. booking_slots_holds_slot bs (g s)) (slots (retrigger d bs))\<rparr> =
    retrigger (d\<lparr>slots := update_rows p g (slots d)\<rparr>) bs"
proof -
  have "booking_slots_holds_slot bs (g (booking_slots_holds_slot bs s)) = booking_slots_holds_slot bs (g s)"
    "p (booking_slots_holds_slot bs s) = p s" for s
    using g p by (simp_all add: cancels_def booking_slots_holds_slot_def)
  then show ?thesis by (simp add: retrigger_def update_rows_def comp_def if_distrib cong: if_cong)
qed

lemma run_cancelPending_tx:
  assumes calm: "calm env" and inv: "db_inv (view w)"
  shows "cancelPending_tx env p now u w =
    (case cancel_pending_spec p now u (view w) of
       Inl e \<Rightarrow> (Inl (Http e), w\<lparr>view := committed w\<rparr>)
     | Inr (i, d') \<Rightarrow> (Inr i, w\<lparr>view := d', committed := d'\<rparr>))"
proof (cases "find_first p (bookings (view w))")
  case None
  then show ?thesis by (simp add: cancelPending_tx_def cancel_pending_spec_def calm_run calm)
next
  case (Some b)
  show ?thesis
  proof (cases "bk_status b = PENDING")
    case False
    then show ?thesis using Some by (simp add: cancelPending_tx_def cancel_pending_spec_def calm_run calm)
  next
    case True
    let ?d = "view w"
    let ?bs = "update_rows (\<lambda>c. bk_id c = bk_id b) (settle_span []) (bookings ?d)"
    let ?p = "\<lambda>s. sl_bookingRequestId s = bk_id b \<and> \<not> sl_isCancelled s"
    note b = found_booking [OF inv Some, unfolded booking_of_iff [OF inv], THEN conjunct1]
    have flip: "update_bookings err (\<lambda>c. bk_id c = bk_id b \<and> bk_status c = PENDING) (set_status CANCELLED) ?d =
        Inr (retrigger ?d ?bs, [set_status CANCELLED b])" for err
      using release_succeeds [OF inv, of "set_status CANCELLED" "\<lambda>c. bk_id c = bk_id b \<and> bk_status c = PENDING" err]
        filter_key_unique [of bk_id "bookings ?d" b "\<lambda>c. bk_status c = PENDING"]
        pending_rows [OF inv b True] inv_distinct(2) [OF inv] b True
      by (simp add: set_status_def retrigger_def Let_def)
    have inv1: "db_inv (retrigger ?d ?bs)"
      using sys_update_bookings [OF _ flip, of ?d] inv
      by (simp add: sys_ok_def)
    have "update_slots err ?p (cancellation now u) (retrigger ?d ?bs) =
        Inr (retrigger (?d\<lparr>slots := update_rows ?p (cancellation now u) (slots ?d)\<rparr>) ?bs,
          map (\<lambda>s. booking_slots_holds_slot ?bs (cancellation now u s)) (filter ?p (slots (retrigger ?d ?bs))))" for err
      using free_succeeds [OF inv1, of "cancellation now u" err ?p]
        settle_then_free [where g = "cancellation now u" and p = ?p and d = ?d and bs = ?bs] by (simp add: retrigger_def)
    moreover have "free_effect ?p (cancellation now u) (bk_id b) ?d =
        retrigger (?d\<lparr>slots := update_rows ?p (cancellation now u) (slots ?d)\<rparr>) ?bs"
      using live_after_free(2) [of "cancellation now u" "bk_id b" ?p "slots ?d"]
      by (simp add: free_effect_def Let_def filter_empty_conv)
    ultimately show ?thesis
      using Some True flip by (simp add: cancelPending_tx_def cancel_pending_spec_def calm_run calm)
  qed
qed

definition cancel_targets :: "slot list \<Rightarrow> cancel_dto \<Rightarrow> booking_message http_error + slot list" where
  "cancel_targets all dto =
     (let live = filter (\<lambda>s. \<not> sl_isCancelled s) all
      in case cn_slotIds dto of
           None \<Rightarrow> Inr live
         | Some ids \<Rightarrow> (case check_slot_ids all ids of
               Some e \<Rightarrow> Inl e | None \<Rightarrow> Inr (filter (\<lambda>s. sl_id s \<in> set ids) live)))"

definition cancel_spec ::
  "string \<Rightarrow> cancel_dto \<Rightarrow> actor \<Rightarrow> time \<Rightarrow> db \<Rightarrow> booking_message http_error + string list \<times> db"
where
  "cancel_spec i dto act at d = (case booking_of d i of
       None \<Rightarrow> Inl (NotFound BOOKING_NOT_FOUND)
     | Some b \<Rightarrow>
         if bk_status b \<noteq> APPROVED then Inl (Conflict BOOKING_NOT_APPROVED_FOR_CANCEL)
         else if live_slots_of d i = [] then Inl (Conflict BOOKING_ALREADY_CANCELLED)
         else (case cancel_targets (slots_of d i) dto of
             Inl e \<Rightarrow> Inl e
           | Inr targets \<Rightarrow> Inr (map sl_id targets,
               free_effect (\<lambda>s. sl_id s \<in> set (map sl_id targets) \<and> \<not> sl_isCancelled s)
                 (staffCancellation at act (cn_reason dto)) i d)))"

lemma live_of_slots: "filter (\<lambda>s. \<not> sl_isCancelled s) (slots_of d i) = live_slots_of d i"
  by (auto simp: slots_of_def live_slots_of_def intro: filter_cong)

lemma filter_ids:
  assumes "distinct (map sl_id xs)"
  shows "filter (\<lambda>s. sl_id s \<in> set (map sl_id (filter q xs)) \<and> r s) xs = filter (\<lambda>s. q s \<and> r s) xs"
proof (rule filter_cong [OF refl])
  fix s assume "s \<in> set xs"
  then show "(sl_id s \<in> set (map sl_id (filter q xs)) \<and> r s) = (q s \<and> r s)"
    using assms by (auto simp: distinct_map inj_on_def)
qed

lemma targets_shape:
  assumes "cancel_targets (slots_of d i) dto = Inr ts"
  obtains q where "ts = filter (\<lambda>s. q s \<and> sl_bookingRequestId s = i \<and> \<not> sl_isCancelled s) (slots d)"
proof (cases "cn_slotIds dto")
  case None
  then have "ts = filter (\<lambda>s. True \<and> sl_bookingRequestId s = i \<and> \<not> sl_isCancelled s) (slots d)"
    using assms by (simp add: cancel_targets_def live_of_slots live_slots_of_def)
  then show ?thesis using that [of "\<lambda>_. True"] by simp
next
  case (Some ids)
  then have "ts = filter (\<lambda>s. sl_id s \<in> set ids \<and> sl_bookingRequestId s = i \<and> \<not> sl_isCancelled s) (slots d)"
    using assms by (auto simp: cancel_targets_def live_of_slots live_slots_of_def Let_def
        split: option.splits intro!: filter_cong)
  then show ?thesis using that [of "\<lambda>s. sl_id s \<in> set ids"] by simp
qed

lemma targets_tx:
  "(case cn_slotIds dto of None \<Rightarrow> tx_return (filter (\<lambda>s. \<not> sl_isCancelled s) all)
     | Some ids \<Rightarrow> (case check_slot_ids all ids of Some e \<Rightarrow> tx_throw e
         | None \<Rightarrow> tx_return (filter (\<lambda>s. sl_id s \<in> set ids) (filter (\<lambda>s. \<not> sl_isCancelled s) all)))) =
   (case cancel_targets all dto of Inl e \<Rightarrow> tx_throw e | Inr ts \<Rightarrow> tx_return ts)"
  by (auto simp: cancel_targets_def Let_def split: option.splits)

lemma run_cancel_work:
  assumes calm: "calm env" and inv: "db_inv (view w)"
  shows "cancel_work env i dto act w =
    (case cancel_spec i dto act (clock env 4) (view w) of
       Inl e \<Rightarrow> (Inl (Http e), w)
     | Inr (ids, d') \<Rightarrow> (Inr ids, w\<lparr>view := d'\<rparr>))"
proof (cases "booking_of (view w) i")
  case None
  then show ?thesis by (simp add: cancel_work_def cancel_spec_def calm_run calm)
next
  case (Some b)
  let ?d = "view w"
  show ?thesis
  proof (cases "bk_status b = APPROVED \<and> live_slots_of ?d i \<noteq> []")
    case False
    then show ?thesis using Some
      by (auto simp: cancel_work_def lockVenue_def cancel_spec_def calm_run calm live_of_slots Let_def)
  next
    case True
    show ?thesis
    proof (cases "cancel_targets (slots_of ?d i) dto")
      case (Inl e)
      then show ?thesis using Some True
        by (auto simp: cancel_work_def lockVenue_def cancel_spec_def calm_run calm live_of_slots Let_def
            cancel_targets_def split: option.splits)
    next
      case (Inr ts)
      let ?ids = "map sl_id ts"
      let ?p = "\<lambda>s. sl_id s \<in> set ?ids \<and> \<not> sl_isCancelled s"
      let ?g = "staffCancellation (clock env 4) act (cn_reason dto)"
      obtain q where ts: "ts = filter (\<lambda>s. q s \<and> sl_bookingRequestId s = i \<and> \<not> sl_isCancelled s) (slots ?d)"
        using targets_shape [OF Inr] by blast
      have hits: "filter ?p (slots ?d) = ts"
        using filter_ids [OF inv_distinct(1) [OF inv], of "\<lambda>s. q s \<and> sl_bookingRequestId s = i \<and> \<not> sl_isCancelled s"
            "\<lambda>s. \<not> sl_isCancelled s"] ts by (auto intro: filter_cong)
      define d1 where "d1 = ?d\<lparr>slots := update_rows ?p (\<lambda>s. booking_slots_holds_slot (bookings ?d) (?g s)) (slots ?d)\<rparr>"
      have freed: "update_slots err ?p ?g ?d = Inr (d1, map (\<lambda>s. booking_slots_holds_slot (bookings ?d) (?g s)) ts)" for err
        using free_succeeds [OF inv, of ?g err ?p] hits by (simp add: d1_def)
      have rem: "filter (\<lambda>s. \<not> sl_isCancelled s \<and> sl_id s \<notin> sl_id ` set ts) (slots_of ?d i) =
          filter (\<lambda>s. sl_bookingRequestId s = i \<and> \<not> sl_isCancelled s \<and> \<not> ?p s) (slots ?d)"
        by (auto simp: slots_of_def intro: filter_cong)
      obtain hit2 where settle: "update_booking_row env i (settle_span
          (filter (\<lambda>s. \<not> sl_isCancelled s \<and> sl_id s \<notin> sl_id ` set ts) (slots_of ?d i))) d1 =
          Inr (free_effect ?p ?g i ?d, hit2)"
        using run_free [OF inv, of ?g i d1 ?p _ env] Some rem d1_def by auto
      show ?thesis
        unfolding cancel_work_def Let_def targets_tx
        using Some True Inr freed settle
        by (simp add: lockVenue_def cancel_spec_def calm_run calm live_of_slots)
    qed
  qed
qed

end
