(* ===== verification/SpanInvariant.thy ===== *)
theory SpanInvariant
  imports Withdrawals
begin

text \<open>
  The writer's contract of the denormalised span: a request that occupies a calendar has a live
  slot, and its \<open>firstStartAt\<close> and \<open>lastEndAt\<close> are the bounds of its live slots. The
  operations keep it when each runs alone; run together without a lock they do not.
\<close>

definition live_times :: "db \<Rightarrow> string \<Rightarrow> (time \<times> time) list" where
  "live_times d i = map (\<lambda>s. (sl_startAt s, sl_endAt s)) (live_slots_of d i)"

definition row_settled :: "(time \<times> time) list \<Rightarrow> booking \<Rightarrow> bool" where
  "row_settled ts b \<longleftrightarrow> bk_status b \<in> set OCCUPYING_STATUSES \<longrightarrow>
     ts \<noteq> [] \<and> bk_firstStartAt b = js_min (map fst ts) \<and> bk_lastEndAt b = js_max (map snd ts)"

definition settled :: "db \<Rightarrow> bool" where
  "settled d \<longleftrightarrow> list_all (\<lambda>b. row_settled (live_times d (bk_id b)) b) (bookings d)"

definition span_inv :: "db \<Rightarrow> bool" where
  "span_inv d \<longleftrightarrow> db_inv d \<and> settled d"

lemma settledI: "(\<And>b. b \<in> set (bookings d) \<Longrightarrow> row_settled (live_times d (bk_id b)) b) \<Longrightarrow> settled d"
  by (simp add: settled_def list_all_iff)

lemma settledD: "settled d \<Longrightarrow> b \<in> set (bookings d) \<Longrightarrow> row_settled (live_times d (bk_id b)) b"
  by (simp add: settled_def list_all_iff)

subsection \<open>Live times under the writes\<close>

lemma live_times_map:
  assumes "\<And>s. s \<in> set (slots d) \<Longrightarrow> sl_bookingRequestId s = i \<Longrightarrow> sl_startAt (h s) = sl_startAt s \<and> sl_endAt (h s) = sl_endAt s \<and>
      sl_isCancelled (h s) = sl_isCancelled s"
    and "\<And>s. sl_bookingRequestId (h s) = sl_bookingRequestId s"
  shows "live_times (d\<lparr>slots := map h (slots d)\<rparr>) i = live_times d i"
proof -
  have "map (\<lambda>s. (sl_startAt s, sl_endAt s)) (filter (\<lambda>s. sl_bookingRequestId s = i \<and> \<not> sl_isCancelled s) (map h ss)) =
      map (\<lambda>s. (sl_startAt s, sl_endAt s)) (filter (\<lambda>s. sl_bookingRequestId s = i \<and> \<not> sl_isCancelled s) ss)"
    if "set ss \<subseteq> set (slots d)" for ss
    using that by (induction ss) (auto simp: assms)
  then show ?thesis by (simp add: live_times_def live_slots_of_def)
qed

lemma live_times_bookings [simp]: "live_times (d\<lparr>bookings := bs\<rparr>) i = live_times d i"
  by (simp add: live_times_def live_slots_of_def)

lemma live_times_retrigger [simp]: "live_times (retrigger d bs) i = live_times d i"
  using live_times_map [of "d\<lparr>bookings := bs\<rparr>" i "booking_slots_holds_slot bs"]
  by (simp add: retrigger_def live_times_bookings)

definition span_frame :: "(booking \<Rightarrow> booking) \<Rightarrow> booking \<Rightarrow> bool" where
  "span_frame f b \<longleftrightarrow> bk_firstStartAt (f b) = bk_firstStartAt b \<and> bk_lastEndAt (f b) = bk_lastEndAt b \<and>
     (bk_status (f b) \<in> set OCCUPYING_STATUSES \<longrightarrow> bk_status b \<in> set OCCUPYING_STATUSES)"

lemma span_update_bookings:
  assumes inv: "span_inv d" and upd: "update_bookings err p f d = Inr (d', hit)"
    and frame: "request_frame f" and legal: "\<And>b. p b \<Longrightarrow> legal_change b (f b) \<and> span_frame f b"
  shows "span_inv d'"
proof -
  have d: "db_inv d" using inv by (simp add: span_inv_def)
  have "db_inv d'"
    using sys_update_bookings [of d d err p f d' hit] d upd frame legal by (simp add: sys_ok_def)
  moreover have d': "d' = retrigger d (update_rows p f (bookings d))"
    using update_bookings_slots(1) [OF d frame upd] by (simp add: retrigger_def)
  have "settled d'"
  proof (rule settledI)
    fix c assume "c \<in> set (bookings d')"
    then obtain b where b: "b \<in> set (bookings d)" and c: "c = (if p b then f b else b)"
      by (auto simp: d' retrigger_def set_update_rows)
    have "bk_id c = bk_id b" using frame by (simp add: c request_frame_def same_request_def)
    then show "row_settled (live_times d' (bk_id c)) c"
      using settledD [OF _ b] inv legal [of b]
      by (auto simp: d' c row_settled_def span_frame_def span_inv_def)
  qed
  ultimately show ?thesis by (simp add: span_inv_def)
qed

lemma span_free_effect:
  assumes inv: "span_inv d" and new: "db_inv (free_effect p g i d)" and g: "cancels g"
    and own: "\<And>s. s \<in> set (slots d) \<Longrightarrow> p s \<Longrightarrow> sl_bookingRequestId s = i"
  shows "span_inv (free_effect p g i d)"
proof -
  let ?ss = "update_rows p g (slots d)"
  let ?rem = "filter (\<lambda>s. sl_bookingRequestId s = i \<and> \<not> sl_isCancelled s) ?ss"
  have eff: "free_effect p g i d = retrigger (d\<lparr>slots := ?ss\<rparr>) (update_rows (\<lambda>b. bk_id b = i) (settle_span ?rem) (bookings d))"
    by (simp add: free_effect_def Let_def)
  have same: "live_times (d\<lparr>slots := ?ss\<rparr>) j = live_times d j" if "j \<noteq> i" for j
    unfolding update_rows_def
    by (rule live_times_map) (use own that g in \<open>auto simp: cancels_def slot_change_def same_slot_def\<close>)
  have mine: "live_times (d\<lparr>slots := ?ss\<rparr>) i = map (\<lambda>s. (sl_startAt s, sl_endAt s)) ?rem"
    by (simp add: live_times_def live_slots_of_def)
  have "settled (free_effect p g i d)"
  proof (rule settledI)
    fix c assume "c \<in> set (bookings (free_effect p g i d))"
    then obtain b where b: "b \<in> set (bookings d)" and c: "c = (if bk_id b = i then settle_span ?rem b else b)"
      by (auto simp: eff retrigger_def set_update_rows)
    show "row_settled (live_times (free_effect p g i d) (bk_id c)) c"
    proof (cases "bk_id b = i")
      case True
      then have id: "bk_id c = i" by (simp add: c settle_span_def)
      show ?thesis
        unfolding eff live_times_retrigger id mine
        by (simp add: c True row_settled_def settle_span_def comp_def OCCUPYING_STATUSES_def)
    next
      case False
      then show ?thesis
        using settledD [OF _ b] inv same [of "bk_id b"] by (simp add: eff c span_inv_def)
    qed
  qed
  then show ?thesis using new by (simp add: span_inv_def)
qed

lemma free_effect_inv:
  assumes inv: "db_inv d" and g: "cancels g" and b: "booking_of d i = Some b"
    and live: "bk_status b \<in> set OCCUPYING_STATUSES"
  shows "db_inv (free_effect p g i d)"
proof -
  let ?d1 = "d\<lparr>slots := update_rows p (\<lambda>s. booking_slots_holds_slot (bookings d) (g s)) (slots d)\<rparr>"
  let ?rem = "filter (\<lambda>s. sl_bookingRequestId s = i \<and> \<not> sl_isCancelled s \<and> \<not> p s) (slots d)"
  obtain hit where upd: "update_booking_row (undefined :: env) i (settle_span ?rem) ?d1 = Inr (free_effect p g i d, hit)"
    using run_free [OF inv g _ refl refl, where i = i and p = p and env = "undefined :: env"] b by auto
  have inv1: "db_inv ?d1" by (rule free_inv [OF inv g])
  have "sys_ok ?d1 (free_effect p g i d)"
  proof (rule sys_update_bookings [where p = "\<lambda>b. bk_id b = i" and f = "settle_span ?rem"])
    show "sys_ok ?d1 ?d1" using inv1 by (simp add: sys_ok_def)
    show "update_bookings (exclusion_error (undefined :: env)) (\<lambda>b. bk_id b = i) (settle_span ?rem) ?d1 =
        Inr (free_effect p g i d, hit)"
      using upd by (simp add: update_booking_row_def split: if_splits)
    show "legal_change c (settle_span ?rem c)" if "c \<in> set (bookings ?d1)" "bk_id c = i" for c
    proof -
      have "c = b" using that b distinct_bk_idD [OF inv_distinct(2) [OF inv], of c b]
        by (simp add: booking_of_iff inv)
      then show ?thesis using live
        by (auto simp: legal_change_def settle_span_def decision_ok_def status_leads_iff OCCUPYING_STATUSES_def)
    qed
  qed simp
  then show ?thesis by (simp add: sys_ok_def)
qed

lemma new_slots_times:
  "map (\<lambda>s. (sl_startAt s, sl_endAt s)) (new_slots env k i bid v spans) = map (\<lambda>s. (sp_start s, sp_end s)) spans"
  by (induction spans arbitrary: i) auto

lemma span_create:
  assumes inv: "span_inv d" and cr: "create_booking env b (new_slots env k 0 (bk_id b) (bk_venueId b) spans) d = Inr (d', b')"
    and spans: "good_spans spans" "spans \<noteq> []" and dec: "decision_ok b"
    and span: "bk_firstStartAt b = js_min (map sp_start spans)" "bk_lastEndAt b = js_max (map sp_end spans)"
  shows "span_inv d'"
proof -
  let ?new = "new_slots env k 0 (bk_id b) (bk_venueId b) spans"
  let ?bs = "bookings d @ [b]"
  have d: "db_inv d" using inv by (simp add: span_inv_def)
  have "db_inv d'" by (rule create_booking_inv [OF d cr new_slots_ok_new [OF spans(1)] dec])
  moreover have d': "d' = d\<lparr>bookings := ?bs, slots := slots d @ map (booking_slots_holds_slot ?bs) ?new\<rparr>"
    and fresh: "bk_id b \<notin> bk_id ` set (bookings d)"
    using cr by (auto simp: create_booking_def Let_def split: if_splits)
  have old: "sl_bookingRequestId s \<noteq> bk_id b" if "s \<in> set (slots d)" for s
    using that db_invD(2) [OF d] fresh by (metis refs_ok_def image_eqI)
  have own: "sl_bookingRequestId s = bk_id b \<and> \<not> sl_isCancelled s" if "s \<in> set ?new" for s
    using set_new_slots [OF that] by simp
  have times: "live_times d' j = (if j = bk_id b then map (\<lambda>s. (sp_start s, sp_end s)) spans else live_times d j)" for j
  proof (cases "j = bk_id b")
    case True
    have "filter (\<lambda>s. sl_bookingRequestId s = j \<and> \<not> sl_isCancelled s) (slots d) = []"
      using old True by (auto simp: filter_empty_conv)
    moreover have "filter (\<lambda>s. sl_bookingRequestId s = j \<and> \<not> sl_isCancelled s) (map (booking_slots_holds_slot ?bs) ?new) =
        map (booking_slots_holds_slot ?bs) ?new"
      using own True by (auto intro: filter_True)
    ultimately show ?thesis
      using True new_slots_times [of env k 0 "bk_id b" "bk_venueId b" spans]
      by (simp add: live_times_def live_slots_of_def d' comp_def)
  next
    case False
    have "filter (\<lambda>s. sl_bookingRequestId s = j \<and> \<not> sl_isCancelled s) (map (booking_slots_holds_slot ?bs) ?new) = []"
      using own False by (auto simp: filter_empty_conv)
    then show ?thesis using False by (simp add: live_times_def live_slots_of_def d')
  qed
  have "settled d'"
  proof (rule settledI)
    fix c assume "c \<in> set (bookings d')"
    then consider "c = b" | "c \<in> set (bookings d)" "bk_id c \<noteq> bk_id b"
      using fresh image_eqI [of "bk_id b" bk_id c] by (fastforce simp: d')
    then show "row_settled (live_times d' (bk_id c)) c"
      using spans span settledD inv by cases (auto simp: times row_settled_def span_inv_def comp_def)
  qed
  ultimately show ?thesis by (simp add: span_inv_def)
qed

subsection \<open>Every operation, run alone\<close>

lemma calm_span_env: "calm env \<Longrightarrow> env_keeps span_inv env"
  by (simp add: calm_def env_keeps_def)

lemma span_frames [simp]:
  "bk_status b = PENDING \<Longrightarrow> span_frame (approve_row u t) b"
  "span_frame (reject_row r) b" "span_frame expire_row b" "span_frame (set_status CANCELLED) b"
  by (auto simp: span_frame_def approve_row_def reject_row_def expire_row_def set_status_def OCCUPYING_STATUSES_def)

lemma span_keeps_update_bookings:
  assumes "calm env" "request_frame f" "\<And>b. p b \<Longrightarrow> legal_change b (f b) \<and> span_frame f b"
  shows "keeps span_inv (tx_write env k (update_bookings err p f))"
  by (rule keeps_write [OF calm_span_env [OF assms(1)]]) (use assms(2,3) span_update_bookings in blast)

lemma span_keeps_create_request:
  assumes "calm env" "good_spans spans" "decision_ok b"
    "bk_firstStartAt b = js_min (map sp_start spans)" "bk_lastEndAt b = js_max (map sp_end spans)"
  shows "keeps span_inv (create_request env k b spans)"
proof (cases "spans = []")
  case True
  then show ?thesis by (simp add: create_request_def keeps_throw_raw)
next
  case False
  then show ?thesis
    unfolding create_request_def
    using span_create [OF _ _ assms(2) False assms(3-5)]
    by (auto intro!: keeps_write calm_span_env assms(1) split: sum.splits)
qed

lemma span_keeps_reminder:
  assumes "calm env"
  shows "keeps span_inv (tx_write env k (\<lambda>d. update_slots err (p d) (mark_reminded now) d))"
proof (rule keeps_write [OF calm_span_env [OF assms]])
  fix d d' a assume inv: "span_inv d" and upd: "update_slots err (p d) (mark_reminded now) d = Inr (d', a)"
  let ?h = "\<lambda>s. if p d s then booking_slots_holds_slot (bookings d) (mark_reminded now s) else s"
  have d': "d' = d\<lparr>slots := map ?h (slots d)\<rparr>"
    using upd by (auto simp: update_slots_def Let_def update_rows_def split: if_splits)
  have "live_times d' i = live_times d i" for i
    unfolding d' by (rule live_times_map) (auto simp: mark_reminded_def)
  moreover have "db_inv d'"
    using sys_update_slots [of d d err "p d" "mark_reminded now" d' a] inv upd by (simp add: sys_ok_def span_inv_def)
  ultimately show "span_inv d'" using inv by (simp add: span_inv_def settled_def d')
qed

lemma span_keeps_run:
  assumes run: "\<And>w. db_inv (view w) \<Longrightarrow> m w = (case f (view w) of
      Inl e \<Rightarrow> (Inl (Http e), w\<lparr>view := committed w\<rparr>)
    | Inr (i, d') \<Rightarrow> (Inr i, w\<lparr>view := d', committed := d'\<rparr>))"
    and eff: "\<And>d i d'. span_inv d \<Longrightarrow> f d = Inr (i, d') \<Longrightarrow> span_inv d'"
  shows "keeps span_inv (m :: (event, 'a) tx)"
  unfolding keeps_def
proof (intro allI impI)
  fix w :: "event world" assume w: "span_inv (committed w) \<and> span_inv (view w)"
  then have "db_inv (view w)" by (simp add: span_inv_def)
  then show "span_inv (committed (snd (m w))) \<and> span_inv (view (snd (m w)))"
    using run [of w] w eff [of "view w"] by (auto split: sum.splits)
qed

lemma slot_spec_span:
  assumes inv: "span_inv d" and spec: "cancel_slot_spec p slotId now cutoff u d = Inr (i, d')"
  shows "span_inv d'"
proof -
  have d: "db_inv d" using inv by (simp add: span_inv_def)
  obtain b s where b: "booking_of d i = Some b" "bk_status b = APPROVED"
    and s: "find_first (\<lambda>s. sl_id s = slotId \<and> sl_bookingRequestId s = i) (slots d) = Some s"
    and d': "d' = free_effect (\<lambda>x. sl_id x = slotId \<and> \<not> sl_isCancelled x) (cancellation now u) i d"
    using spec found_booking [OF d] by (auto simp: cancel_slot_spec_def split: option.splits if_splits)
  have "sl_bookingRequestId x = i" if "x \<in> set (slots d)" "sl_id x = slotId" for x
    using that find_first_SomeD [OF s] inv_distinct(1) [OF d] by (metis distinct_map inj_onD)
  then show ?thesis
    unfolding d'
    by (intro span_free_effect inv free_effect_inv [OF d _ b(1)]) (auto simp: b(2) OCCUPYING_STATUSES_def)
qed

lemma pending_spec_span:
  assumes inv: "span_inv d" and spec: "cancel_pending_spec p now u d = Inr (i, d')"
  shows "span_inv d'"
proof -
  have d: "db_inv d" using inv by (simp add: span_inv_def)
  obtain b where b: "booking_of d i = Some b" "bk_status b = PENDING"
    and d': "d' = free_effect (\<lambda>s. sl_bookingRequestId s = i \<and> \<not> sl_isCancelled s) (cancellation now u) i d"
    using spec found_booking [OF d] by (auto simp: cancel_pending_spec_def split: option.splits if_splits)
  show ?thesis
    unfolding d'
    by (intro span_free_effect inv free_effect_inv [OF d _ b(1)]) (auto simp: b(2) OCCUPYING_STATUSES_def)
qed

lemma cancel_spec_span:
  assumes inv: "span_inv d" and spec: "cancel_spec i dto act t d = Inr (ids, d')"
  shows "span_inv d'"
proof -
  have d: "db_inv d" using inv by (simp add: span_inv_def)
  obtain b ts where b: "booking_of d i = Some b" "bk_status b = APPROVED"
    and ts: "cancel_targets (slots_of d i) dto = Inr ts"
    and d': "d' = free_effect (\<lambda>s. sl_id s \<in> set (map sl_id ts) \<and> \<not> sl_isCancelled s)
      (staffCancellation t act (cn_reason dto)) i d"
    using spec by (auto simp: cancel_spec_def split: option.splits if_splits sum.splits)
  obtain q where q: "ts = filter (\<lambda>s. q s \<and> sl_bookingRequestId s = i \<and> \<not> sl_isCancelled s) (slots d)"
    using targets_shape [OF ts] by blast
  have "sl_bookingRequestId x = i" if x: "x \<in> set (slots d)" "sl_id x \<in> set (map sl_id ts)" for x
  proof -
    obtain y where "y \<in> set (slots d)" "sl_bookingRequestId y = i" "sl_id x = sl_id y" using x(2) q by auto
    then show ?thesis using x(1) inv_distinct(1) [OF d] by (metis distinct_map inj_onD)
  qed
  then show ?thesis
    unfolding d'
    by (intro span_free_effect inv free_effect_inv [OF d _ b(1)]) (auto simp: b(2) OCCUPYING_STATUSES_def)
qed

lemma span_keeps_cancels:
  assumes "calm env"
  shows "keeps span_inv (cancelSlot_tx env p slotId now cutoff u)"
    "keeps span_inv (cancelPending_tx env p now u)"
    "keeps span_inv (cancel_work env i dto act)"
proof -
  show "keeps span_inv (cancelSlot_tx env p slotId now cutoff u)"
    by (rule span_keeps_run [OF run_cancelSlot_tx [OF assms]]) (assumption, rule slot_spec_span)
  show "keeps span_inv (cancelPending_tx env p now u)"
    by (rule span_keeps_run [OF run_cancelPending_tx [OF assms]]) (assumption, rule pending_spec_span)
  show "keeps span_inv (cancel_work env i dto act)"
    unfolding keeps_def
  proof (intro allI impI)
    fix w :: "event world" assume w: "span_inv (committed w) \<and> span_inv (view w)"
    then have "db_inv (view w)" by (simp add: span_inv_def)
    then show "span_inv (committed (snd (cancel_work env i dto act w))) \<and>
        span_inv (view (snd (cancel_work env i dto act w)))"
      using run_cancel_work [OF assms, of w i dto act] w cancel_spec_span [of "view w" i dto act]
      by (auto split: sum.splits)
  qed
qed

lemma span_keeps_rejectLosers: "calm env \<Longrightarrow> keeps span_inv (rejectLosers env k losers)"
  unfolding rejectLosers_def by (intro keeps_intros span_keeps_update_bookings) auto

lemma span_keeps_ops:
  assumes "calm env"
  shows "keeps span_inv (createFromLine env sub ldto)" "keeps span_inv (cancelPendingBooking env sub i)"
    "keeps span_inv (cancelApprovedSlot env sub i slotId)" "keeps span_inv (approve env i act)"
    "keeps span_inv (reject env i reason act)" "keeps span_inv (cancel env i cdto act)"
    "keeps span_inv (createDirect env ddto act)" "keeps span_inv (expireOverdue env now)"
    "keeps span_inv (remindUpcoming env now)"
proof -
  note env = calm_span_env [OF assms]
  show "keeps span_inv (createFromLine env sub ldto)"
    unfolding createFromLine_def insertWithCode_def insertOnce_def
    by (intro keeps_intros keeps_retry span_keeps_create_request env assms new_rows_decision)
      (auto simp: line_request_def intro: good_spans_parsed)
  show "keeps span_inv (cancelPendingBooking env sub i)"
    unfolding cancelPendingBooking_def by (intro keeps_intros span_keeps_cancels env assms)
  show "keeps span_inv (cancelApprovedSlot env sub i slotId)"
    unfolding cancelApprovedSlot_def by (intro keeps_intros span_keeps_cancels env assms)
  show "keeps span_inv (approve env i act)"
    unfolding approve_def approve_work_def
    by (intro keeps_intros keeps_runDecision span_keeps_update_bookings span_keeps_rejectLosers env assms) auto
  show "keeps span_inv (reject env i reason act)"
    unfolding reject_def reject_work_def
    by (intro keeps_intros span_keeps_update_bookings env assms) auto
  show "keeps span_inv (cancel env i cdto act)"
    unfolding cancel_def by (intro keeps_intros keeps_runDecision span_keeps_cancels env assms)
  show "keeps span_inv (createDirect env ddto act)"
    unfolding createDirect_def createDirect_attempt_def createDirectOnce_def
    by (intro keeps_intros keeps_retry keeps_runDecision span_keeps_create_request
        span_keeps_rejectLosers env assms new_rows_decision)
      (auto simp: direct_request_def intro: good_spans_parsed)
  show "keeps span_inv (expireOverdue env now)"
    unfolding expireOverdue_def
    by (intro keeps_intros keeps_or_empty keeps_publish_chunks span_keeps_update_bookings env assms) auto
  show "keeps span_inv (remindUpcoming env now)"
    unfolding remindUpcoming_def
    by (intro keeps_intros keeps_or_empty span_keeps_reminder env assms)
qed

lemma serve_span_inv: "span_inv d \<Longrightarrow> calm env \<Longrightarrow> span_inv (serve d (env, c))"
  by (cases c) (simp_all add: serve_def after_inv span_keeps_ops keeps_line_reads keeps_admin_reads
      calm_span_env)

definition calm_call :: "env \<times> call \<Rightarrow> bool" where
  "calm_call x = calm (fst x)"

interpretation serial_bookings: invariant_system serve span_inv calm_call
  by unfold_locales (auto simp: calm_call_def intro: serve_span_inv)

lemma empty_tables_span: "empty_tables d \<Longrightarrow> span_inv d"
  using empty_tables_inv by (simp add: span_inv_def settled_def empty_tables_def)

subsection \<open>What a call leaves, run alone\<close>

text \<open>Everything after the transaction of a call only reads and announces.\<close>

definition reads_only :: "(event, 'a) tx \<Rightarrow> bool" where
  "reads_only m \<longleftrightarrow> (\<forall>w. view (snd (m w)) = view w)"

named_theorems reads_intros \<open>programs that leave the tables alone\<close>

lemma reads_basic [reads_intros]:
  "reads_only (tx_return a)" "reads_only (tx_throw e)" "reads_only (emit es)" "reads_only (tx_require x e)"
  "reads_only (tx_assert b e)"
  by (auto simp: reads_only_def calm_run split: option.splits)

lemma reads_bind [reads_intros]:
  assumes "reads_only m" "\<And>a. reads_only (g a)"
  shows "reads_only (tx_bind m g)"
  unfolding reads_only_def
proof
  fix w
  obtain r w' where m: "m w = (r, w')" by (cases "m w")
  have "view w' = view w" using assms(1) m by (auto simp: reads_only_def) (metis snd_conv)
  then show "view (snd (tx_bind m g w)) = view w"
    using m assms(2) by (cases r) (simp_all add: tx_bind_def reads_only_def)
qed

lemma reads_read [reads_intros]: "calm env \<Longrightarrow> reads_only (tx_read env k f)"
  by (simp add: reads_only_def calm_run)

lemma reads_events [reads_intros]:
  "calm env \<Longrightarrow> reads_only (publishBookingRequests env k kind ids act)"
  "calm env \<Longrightarrow> reads_only (notifyDecisions env k ns)"
  by (simp_all add: reads_only_def calm_run)

lemma reads_readDetail [reads_intros]: "calm env \<Longrightarrow> reads_only (readDetail env k p)"
  unfolding readDetail_def by (intro reads_intros)

lemma reads_readAdminDetail [reads_intros]:
  assumes "calm env"
  shows "reads_only (readAdminDetail env k i)"
proof -
  have "reads_only (conflictsOf env (k + 1) row ss)" for row ss
  proof -
    have "\<exists>cf. conflictsOf env (k + 1) row ss w = (Inr cf, w)" for w
      by (rule run_conflictsOf [OF assms])
    then show ?thesis unfolding reads_only_def by (metis snd_conv)
  qed
  then show ?thesis
    unfolding readAdminDetail_def by (auto intro!: reads_intros assms split: prod.splits)
qed

lemma reads_resolve [reads_intros]: "calm env \<Longrightarrow> reads_only (resolveAllowedRequester env k sub)"
  unfolding resolveAllowedRequester_def by (auto intro!: reads_intros split: option.splits)

lemma after_bind: "(\<And>a. reads_only (g a)) \<Longrightarrow> after (tx_bind m g) d = after m d"
  by (cases "m (fresh_world d)")
    (auto simp: after_def run_call_def tx_bind_def reads_only_def split: sum.splits prod.splits; metis snd_conv)

lemma after_cancel:
  assumes "calm env" "db_inv d"
  shows "after (cancel env i dto act) d =
    (case cancel_spec i dto act (clock env 4) d of Inl _ \<Rightarrow> d | Inr (ids, d') \<Rightarrow> d')"
proof -
  have "after (cancel env i dto act) d = after (runDecision (cancel_work env i dto act)) d"
    unfolding cancel_def by (rule after_bind) (intro reads_intros assms(1))
  then show ?thesis
    using run_cancel_work [OF assms(1), of "fresh_world d" i dto act] assms(2)
    by (auto simp: after_def run_call_def runDecision_def transaction_def split: sum.splits)
qed

lemma after_approve:
  assumes "calm env" "db_inv d" "i \<noteq> []"
  shows "after (approve env i act) d =
    (case approve_spec act (clock env 6) i d of Inl _ \<Rightarrow> d | Inr (b, d') \<Rightarrow> d')"
proof -
  have "after (approve env i act) d = after (runDecision (approve_work env i act)) d"
    unfolding approve_def by (rule after_bind) (intro reads_intros assms(1))
  then show ?thesis
    using run_approve_work [OF assms(1), of "fresh_world d" i act] assms(2,3)
    by (auto simp: after_def run_call_def runDecision_def transaction_def split: sum.splits)
qed

end
