(* ===== verification/Samples.thy ===== *)
theory Samples
  imports SpanInvariant
begin

text \<open>
  A small concrete school: a hall, a LINE user, three pending requests of which the first two
  want a common hour, an approved one, and a calm environment. The witnesses of the properties
  are applied here.
\<close>

definition other_error :: js_error where
  "other_error = JsError False None None (Some ''connection lost'') NoTarget None None None None"

definition exclusion_violation :: js_error where
  "exclusion_violation = JsError False None None
     (Some ''conflicting key value violates exclusion constraint'') NoTarget
     (Some (JsError False (Some ''23P01'') (Some ''23P01'') None NoTarget None None None None)) None None None"

definition code_taken :: js_error where
  "code_taken = JsError True (Some ''P2002'') None None (TargetList [''code'']) None None None None"

definition plain_collate :: "string \<Rightarrow> string \<Rightarrow> int" where
  "plain_collate a b = (if a = b then 0 else if a < b then -1 else 1)"

definition sample_env :: env where
  "sample_env = \<lparr>interfere = (\<lambda>k d. d), fault = (\<lambda>k. None), clock = (\<lambda>k. 1788370200000),
     db_clock = (\<lambda>k. 1788370200000), new_booking_id = (\<lambda>k. ''new'' @ show_nat k),
     new_slot_id = (\<lambda>k i. ''new'' @ show_nat k @ ''-'' @ show_nat i), collate = plain_collate,
     ilike = (\<lambda>term s. js_includes s term), parse_date = js_parse_int, liff_url = None,
     unique_code_error = code_taken, unique_id_error = other_error,
     exclusion_error = exclusion_violation, validation_error = other_error,
     missing_row_error = other_error\<rparr>"

definition sample_request :: "string \<Rightarrow> booking_status \<Rightarrow> time \<Rightarrow> time \<Rightarrow> booking" where
  "sample_request i st a b = \<lparr>bk_id = i, bk_code = ''BR-'' @ i, bk_lineUserId = Some ''u'',
     bk_createdById = None, bk_requesterName = None, bk_contactPhone = None, bk_departmentId = None,
     bk_venueId = ''hall'', bk_purpose = ''rehearsal'', bk_attendees = 20, bk_status = st,
     bk_rejectReason = None, bk_firstStartAt = a, bk_lastEndAt = b,
     bk_approvedById = (if st = APPROVED then Some ''staff'' else None),
     bk_approvedAt = (if st = APPROVED then Some 1 else None), bk_createdAt = 1\<rparr>"

definition sample_slot :: "string \<Rightarrow> string \<Rightarrow> time \<Rightarrow> time \<Rightarrow> bool \<Rightarrow> slot" where
  "sample_slot i bid a b held = \<lparr>sl_id = i, sl_bookingRequestId = bid, sl_venueId = ''hall'',
     sl_startAt = a, sl_endAt = b, sl_isCancelled = False, sl_cancelledAt = None,
     sl_cancelledById = None, sl_cancelledByRole = None, sl_cancelReason = None,
     sl_reminderSentAt = None, sl_holdsSlot = held\<rparr>"

definition hall :: venue where
  "hall = \<lparr>ve_id = ''hall'', ve_name = ''Hall'', ve_location = None, ve_capacity = 80,
     ve_isOpen = True, ve_deletedAt = None, ve_venueTypeId = 1, ve_photos = [], ve_amenities = []\<rparr>"

definition sample_user :: line_user where
  "sample_user = \<lparr>lu_id = ''u'', lu_lineUserId = ''U1'', lu_access = ACC_ALLOWED, lu_deletedAt = None,
     lu_registration = None, lu_notifications = None\<rparr>"

definition sample_db :: db where
  "sample_db = \<lparr>bookings = [sample_request ''a'' PENDING 10 20, sample_request ''b'' PENDING 15 25,
       sample_request ''c'' PENDING 20 30, sample_request ''d'' APPROVED 40 60],
     slots = [sample_slot ''a1'' ''a'' 10 20 False, sample_slot ''b1'' ''b'' 15 25 False,
       sample_slot ''c1'' ''c'' 20 30 False, sample_slot ''d1'' ''d'' 40 50 True,
       sample_slot ''d2'' ''d'' 50 60 True],
     venues = [hall], venue_types = [], line_users = [sample_user], amenities = [],
     departments = [], staff_names = [], app_settings = []\<rparr>"

definition sample_actor :: actor where
  "sample_actor = \<lparr>ac_id = ''staff'', ac_name = ''Staff'', ac_role = ADMIN\<rparr>"

lemma sample_calm: "calm sample_env"
  by (simp add: calm_def sample_env_def)

lemma sample_env_ok: "env_ok sample_env"
  by (rule calm_env_ok [OF sample_calm])

lemma sample_inv: "db_inv sample_db"
  by code_simp

lemma sample_span_inv: "span_inv sample_db"
  using sample_inv by (simp add: span_inv_def) code_simp

definition sample_empty :: db where
  "sample_empty = sample_db\<lparr>bookings := [], slots := []\<rparr>"

lemma sample_empty_tables: "empty_tables sample_empty"
  by (simp add: empty_tables_def sample_empty_def)

text \<open>Another transaction approves the competing request just before the caller's conditional update.\<close>

definition race_env :: env where
  "race_env = sample_env\<lparr>interfere := (\<lambda>k d. if k = 6 then
     (case update_bookings exclusion_violation (\<lambda>b. bk_id b = ''b'' \<and> bk_status b = PENDING)
        (approve_row ''other'' 5) d of Inl _ \<Rightarrow> d | Inr (d', _) \<Rightarrow> d') else d)\<rparr>"

text \<open>
  Two cancellations of different slots of one request, side by side: just before the second one
  settles the row, the first one commits its own two writes, which saw the second slot alive.
\<close>

definition first_cancellation :: "db \<Rightarrow> db" where
  "first_cancellation d =
     (case update_slots exclusion_violation (\<lambda>s. sl_id s = ''d1'' \<and> \<not> sl_isCancelled s)
        (cancellation 5 ''u'') d of
        Inl _ \<Rightarrow> d
      | Inr (d1, _) \<Rightarrow>
          (case update_booking_row sample_env ''d'' (settle_span [sample_slot ''d2'' ''d'' 50 60 True]) d1 of
             Inl _ \<Rightarrow> d | Inr (d2, _) \<Rightarrow> d2))"

definition skew_env :: env where
  "skew_env = sample_env\<lparr>interfere := (\<lambda>k d. if k = 6 then first_cancellation d else d)\<rparr>"

lemma skew_env_ok: "env_ok skew_env"
proof -
  have "db_inv (first_cancellation d) \<and> evolves d (first_cancellation d)" if inv: "db_inv d" for d
  proof (cases "update_slots exclusion_violation (\<lambda>s. sl_id s = ''d1'' \<and> \<not> sl_isCancelled s)
        (cancellation 5 ''u'') d")
    case (Inl e)
    then show ?thesis using inv by (simp add: first_cancellation_def)
  next
    case (Inr x)
    obtain d1 hit where x: "x = (d1, hit)" by (cases x)
    have d1: "sys_ok d d1"
      by (rule sys_update_slots [OF _ Inr [unfolded x]]) (simp_all add: sys_ok_def inv)
    show ?thesis
    proof (cases "update_booking_row sample_env ''d'' (settle_span [sample_slot ''d2'' ''d'' 50 60 True]) d1")
      case (Inl e)
      then show ?thesis using inv Inr x by (simp add: first_cancellation_def)
    next
      case Inr2: (Inr y)
      obtain d2 hit2 where y: "y = (d2, hit2)" by (cases y)
      have "update_bookings (exclusion_error sample_env) (\<lambda>b. bk_id b = ''d'')
          (settle_span [sample_slot ''d2'' ''d'' 50 60 True]) d1 = Inr (d2, hit2)"
        using Inr2 y by (simp add: update_booking_row_def split: if_splits)
      then have "sys_ok d d2"
        by (rule sys_update_bookings [OF d1]) (auto simp: legal_change_def settle_span_def decision_ok_def)
      then show ?thesis using Inr Inr2 x y by (simp add: first_cancellation_def sys_ok_def)
    qed
  qed
  then show ?thesis by (simp add: env_ok_def skew_env_def sample_env_def)
qed

end
