(* ===== verification/BookingProperties.thy ===== *)
theory BookingProperties
  imports Samples
begin

text \<open>
  The properties of the booking tables that rest on the whole system: no double booking, the
  history of a request, the approval against its specification, the agreement of the application
  with the constraint, the denormalised span, and what goes wrong without a lock.
\<close>

subsection \<open>No double booking\<close>

lemma sample_reachable: "reachable sample_db"
proof (rule reachable.others)
  show "reachable sample_empty" by (rule reachable.start [OF sample_empty_tables])
  show "db_inv sample_db" by (rule sample_inv)
  show "evolves sample_empty sample_db" by (simp add: evolves_def sample_empty_def)
qed

text \<open>
  C1: In every state the two booking services and the crons can reach from empty booking tables,
  with other well-behaved transactions committing between any two of their statements and any
  statement failing, two different live slots of APPROVED requests at one venue never share an
  instant of time.
\<close>

theorem no_double_booking:
  assumes "reachable d" "approved_live d s" "approved_live d t" "s \<noteq> t" "sl_venueId s = sl_venueId t"
  shows "\<not> shares_instant s t"
  using db_inv_no_double_booking [OF reachable_inv [OF assms(1)] assms(2-5)]
  by (auto simp: shares_instant_iff ranges_overlap_def)

theorem no_double_booking_witness:
  "\<not> shares_instant (sample_slot ''d1'' ''d'' 40 50 True) (sample_slot ''d2'' ''d'' 50 60 True)"
proof (rule no_double_booking [OF sample_reachable])
  show "approved_live sample_db (sample_slot ''d1'' ''d'' 40 50 True)"
    "approved_live sample_db (sample_slot ''d2'' ''d'' 50 60 True)"
    by (simp_all add: approved_live_def sample_db_def sample_slot_def sample_request_def has_booking_def)
qed (simp_all add: sample_slot_def)

subsection \<open>The history of a request\<close>

text \<open>
  C4: Along any run of service calls and cron ticks, under the same interference and faults, a
  request is never lost: it keeps its id, number, venue, owners, purpose and attendees, and its
  status only moves from PENDING to APPROVED, REJECTED, CANCELLED or EXPIRED, and from APPROVED to
  CANCELLED; the three closed statuses never change again.
\<close>

theorem request_history:
  assumes "db_inv d" "list_all ok_call calls" "b \<in> set (bookings d)"
  shows "\<exists>c \<in> set (bookings (run_ops serve d calls)). same_request b c \<and>
    (bk_status c = bk_status b \<or> bk_status b = PENDING \<or> bk_status b = APPROVED \<and> bk_status c = CANCELLED)"
proof -
  have "sys_ok d (run_ops serve d calls)"
    using assms(1,2) by (intro bookings_system.run_inv) (simp_all add: sys_ok_def)
  then have "evolves d (run_ops serve d calls)" by (simp add: sys_ok_def)
  then obtain c where "c \<in> set (bookings (run_ops serve d calls))" "same_request b c"
    "status_leads (bk_status b) (bk_status c)"
    using assms(3) by (auto simp: evolves_def)
  then show ?thesis by (auto simp: status_leads_iff)
qed

theorem request_history_witness:
  "\<exists>c \<in> set (bookings (run_ops serve sample_db
      [(sample_env, Approve ''a'' sample_actor), (sample_env, ExpireTick 100)])).
    same_request (sample_request ''a'' PENDING 10 20) c \<and>
    (bk_status c = bk_status (sample_request ''a'' PENDING 10 20) \<or>
     bk_status (sample_request ''a'' PENDING 10 20) = PENDING \<or>
     bk_status (sample_request ''a'' PENDING 10 20) = APPROVED \<and> bk_status c = CANCELLED)"
  by (rule request_history [OF sample_inv]) (simp_all add: ok_call_def sample_env_ok sample_db_def)

subsection \<open>The approval\<close>

text \<open>
  C2: Run alone, \<open>approve\<close> is exactly its specification: unknown, settled, emptied or taken
  requests are refused with the right error, nothing written and nothing announced; otherwise the
  request becomes APPROVED by the caller, precisely the PENDING requests of the venue that want an
  instant it gets become REJECTED with the fixed reason, every other row keeps its values, and the
  answer and the events name exactly those losers.
\<close>

theorem approve_refines_spec:
  assumes "calm env" "db_inv d" "i \<noteq> []" "run_call (approve env i act) d = (r, d', es)"
  shows "case approve_spec act (clock env 6) i d of
      Inl e \<Rightarrow> r = Inl (Http e) \<and> d' = d \<and> es = []
    | Inr (b, d2) \<Rightarrow> (let losers = map auto_rejected_of (losers_of env d b) in
        (\<exists>dto. r = Inr \<lparr>ap_booking = dto, ap_autoRejected = losers\<rparr>) \<and>
        d' = d2 \<and> es = approve_events env act i losers d2)"
  using assms by (rule run_approve)

theorem approve_refines_spec_witness:
  "case approve_spec sample_actor (clock sample_env 6) ''a'' sample_db of
      Inl e \<Rightarrow> fst (run_call (approve sample_env ''a'' sample_actor) sample_db) = Inl (Http e) \<and>
        fst (snd (run_call (approve sample_env ''a'' sample_actor) sample_db)) = sample_db \<and>
        snd (snd (run_call (approve sample_env ''a'' sample_actor) sample_db)) = []
    | Inr (b, d2) \<Rightarrow> (let losers = map auto_rejected_of (losers_of sample_env sample_db b) in
        (\<exists>dto. fst (run_call (approve sample_env ''a'' sample_actor) sample_db) =
           Inr \<lparr>ap_booking = dto, ap_autoRejected = losers\<rparr>) \<and>
        fst (snd (run_call (approve sample_env ''a'' sample_actor) sample_db)) = d2 \<and>
        snd (snd (run_call (approve sample_env ''a'' sample_actor) sample_db)) =
          approve_events sample_env sample_actor ''a'' losers d2)"
  by (rule approve_refines_spec [OF sample_calm sample_inv]) simp_all

text \<open>
  C3: The application's clash query and the database's exclusion constraint answer the same
  question: for a PENDING request of a consistent table, the query over its live slots finds
  nothing if and only if writing the status APPROVED passes the constraint. So the courtesy check
  refuses neither too much nor too little.
\<close>

theorem clash_query_iff_constraint:
  assumes "db_inv d" "b \<in> set (bookings d)" "bk_status b = PENDING"
  shows "find_first (approvedClashWhere (bookings d) (bk_venueId b) (map span_of (live_slots_of d (bk_id b)))
      (Some (bk_id b))) (slots d) = None \<longleftrightarrow>
    update_bookings err (\<lambda>c. bk_id c = bk_id b \<and> bk_status c = PENDING) (approve_row u t) d \<noteq> Inl err"
proof (cases "taken d b")
  case True
  then have "\<not> booking_slots_no_overlap
      (map (booking_slots_holds_slot (flipped_rows (bk_id b) (approve_row u t) (bookings d))) (slots d))"
    using approve_trips_iff [OF assms flipped_approved [OF assms(2,3)]] by blast
  then show ?thesis
    using True clash_query [OF assms] by (simp add: update_bookings_eq [OF assms(1)] flipped_rows_def Let_def)
next
  case False
  then show ?thesis using clash_query [OF assms] run_flip [OF assms False, of err u t] by simp
qed

theorem clash_query_iff_constraint_witness:
  "find_first (approvedClashWhere (bookings sample_db) (bk_venueId (sample_request ''b'' PENDING 15 25))
      (map span_of (live_slots_of sample_db (bk_id (sample_request ''b'' PENDING 15 25))))
      (Some (bk_id (sample_request ''b'' PENDING 15 25)))) (slots sample_db) = None \<longleftrightarrow>
    update_bookings exclusion_violation
      (\<lambda>c. bk_id c = bk_id (sample_request ''b'' PENDING 15 25) \<and> bk_status c = PENDING)
      (approve_row ''staff'' 7) sample_db \<noteq> Inl exclusion_violation"
  by (rule clash_query_iff_constraint [OF sample_inv]) (simp_all add: sample_db_def sample_request_def)

subsection \<open>Errors\<close>

text \<open>Which failures a program can end with, while every statement reaches the database.\<close>

definition fails_only :: "(failure \<Rightarrow> bool) \<Rightarrow> ('e, 'a) tx \<Rightarrow> bool" where
  "fails_only P m \<longleftrightarrow> (\<forall>w f. fst (m w) = Inl f \<longrightarrow> P f)"

named_theorems fails_intros \<open>failures of a program\<close>

lemma fails_return [fails_intros]: "fails_only P (tx_return a)" "fails_only P (emit es)"
  by (simp_all add: fails_only_def tx_return_def emit_def)

lemma fails_assert [fails_intros]: "P (Http e) \<Longrightarrow> fails_only P (tx_assert b e)"
  by (simp add: fails_only_def tx_assert_def tx_return_def tx_throw_def)

lemma fails_require [fails_intros]: "P (Http e) \<Longrightarrow> fails_only P (tx_require x e)"
  by (cases x) (simp_all add: fails_only_def tx_require_def tx_return_def tx_throw_def)

lemma fails_bind [fails_intros]:
  assumes "fails_only P m" "\<And>a. fails_only P (g a)"
  shows "fails_only P (tx_bind m g :: ('e, 'b) tx)"
  unfolding fails_only_def
proof (intro allI impI)
  fix w :: "'e world" and f assume "fst (tx_bind m g w) = Inl f"
  then show "P f"
    using assms by (cases "m w") (auto simp: tx_bind_def fails_only_def split: sum.splits; metis fst_conv)
qed

lemma fails_read [fails_intros]: "\<forall>k. fault env k = None \<Longrightarrow> fails_only P (tx_read env k f)"
  by (simp add: fails_only_def tx_read_def statement_def)

lemma fails_write:
  assumes "\<forall>k. fault env k = None" "\<And>d e. u d = Inl e \<Longrightarrow> P (Raw e)"
  shows "fails_only P (tx_write env k u)"
  using assms by (auto simp: fails_only_def tx_write_def statement_def Let_def split: sum.splits prod.splits)

lemma fails_update_bookings [fails_intros]:
  "\<forall>k. fault env k = None \<Longrightarrow> P (Raw err) \<Longrightarrow> fails_only P (tx_write env k (update_bookings err p f))"
  by (rule fails_write) (auto simp: update_bookings_def Let_def split: if_splits)

lemma fails_let [fails_intros]: "fails_only P (g x) \<Longrightarrow> fails_only P (let a = x in g a)"
  by simp

lemma fails_if [fails_intros]:
  "fails_only P m \<Longrightarrow> fails_only P n \<Longrightarrow> fails_only P (if b then m else n)"
  by simp

lemma fails_prod [fails_intros]: "(\<And>a b. fails_only P (g a b)) \<Longrightarrow> fails_only P (case x of (a, b) \<Rightarrow> g a b)"
  by (cases x) auto

lemma fails_never [fails_intros]:
  "fails_only P (publishBookingRequests env k kind ids act)" "fails_only P (notifyDecisions env k ns)"
  using never_fails_publish never_fails_notifyDecisions by (auto simp: fails_only_def never_fails_def)

lemma fails_runDecision:
  assumes "fails_only Q m" "\<And>f. Q f \<Longrightarrow> P (decision_failure f)"
  shows "fails_only P (runDecision m)"
  unfolding fails_only_def
proof (intro allI impI)
  fix w :: "event world" and f assume "fst (runDecision m w) = Inl f"
  then show "P f"
    using assms by (cases "m w")
      (auto simp: runDecision_def transaction_def fails_only_def split: sum.splits; metis fst_conv)
qed

definition is_http :: "failure \<Rightarrow> bool" where
  "is_http f = (case f of Http _ \<Rightarrow> True | Raw _ \<Rightarrow> False)"

lemma fails_readAdminDetail:
  "\<forall>k. fault env k = None \<Longrightarrow> fails_only is_http (readAdminDetail env k i)"
  unfolding readAdminDetail_def conflictsOf_def conflictPicture_def count_clashes_def
    findPendingLosers_def read_requesters_def
  by (intro fails_intros) (auto simp: is_http_def)

text \<open>
  C5: As long as the database answers, an approval never ends as a 500: whatever other
  transactions commit between its statements, a refusal by the exclusion constraint is translated,
  so every failure of the call is one of the service's own HTTP errors.
\<close>

theorem approve_never_500:
  assumes "\<forall>k. fault env k = None" "isOverlapViolation (exclusion_error env)"
    "\<not> isCodeCollision (exclusion_error env)" "run_call (approve env i act) d = (Inl f, d', es)"
  shows "\<exists>m. f = Http m"
proof -
  let ?Q = "\<lambda>f. is_http f \<or> f = Raw (exclusion_error env)"
  have "fails_only ?Q (approve_work env i act)"
    unfolding approve_work_def lockVenue_def assertNoApprovedClash_def findApprovedClash_def
      findPendingLosers_def rejectLosers_def
    by (intro fails_intros assms(1)) (auto simp: is_http_def)
  then have "fails_only is_http (runDecision (approve_work env i act))"
    by (rule fails_runDecision)
      (use assms(2,3) in \<open>auto simp: is_http_def decision_failure_def split: failure.splits\<close>)
  then have "fails_only is_http (approve env i act)"
    unfolding approve_def by (intro fails_intros fails_readAdminDetail assms(1))
  then have "is_http f"
    using assms(4) by (auto simp: run_call_run fails_only_def) (metis fst_conv)
  then show ?thesis by (cases f) (auto simp: is_http_def)
qed

theorem approve_never_500_witness:
  "\<exists>m. fst (run_call (approve race_env ''a'' sample_actor) sample_db) = Inl (Http m)"
proof -
  have "fst (run_call (approve race_env ''a'' sample_actor) sample_db) = Inl (Http (Conflict SLOT_TAKEN))"
    by code_simp
  then obtain d' es where run: "run_call (approve race_env ''a'' sample_actor) sample_db =
      (Inl (Http (Conflict SLOT_TAKEN)), d', es)"
    by (cases "run_call (approve race_env ''a'' sample_actor) sample_db") auto
  have "\<exists>m. Http (Conflict SLOT_TAKEN) = Http m"
    by (rule approve_never_500 [OF _ _ _ run]) (simp add: race_env_def sample_env_def, code_simp+)
  with run show ?thesis by simp
qed

text \<open>The worlds the attempts of the retry loop start from.\<close>

fun attempt_world :: "(nat \<Rightarrow> (event, 'a) tx) \<Rightarrow> event world \<Rightarrow> nat \<Rightarrow> nat \<Rightarrow> event world" where
  "attempt_world once w first 0 = w"
| "attempt_world once w first (Suc n) = snd (once (first + n) (attempt_world once w first n))"

definition collided :: "(failure + 'a) \<Rightarrow> bool" where
  "collided r = (case r of Inl e \<Rightarrow> code_collision e | Inr _ \<Rightarrow> False)"

lemma attempt_world_Suc:
  "attempt_world once (snd (once first w)) (Suc first) n = attempt_world once w first (Suc n)"
  by (induction n) auto

lemma retry_is_attempt:
  "first + n = Suc BOOKING_CODE_MAX_ATTEMPTS \<Longrightarrow> n > 0 \<Longrightarrow>
   \<exists>j < n. retry_on_code n first once w = once (first + j) (attempt_world once w first j) \<and>
     (\<forall>i < j. collided (fst (once (first + i) (attempt_world once w first i)))) \<and>
     (collided (fst (once (first + j) (attempt_world once w first j))) \<longrightarrow> Suc j = n)"
proof (induction n arbitrary: first w)
  case 0
  then show ?case by simp
next
  case (Suc n)
  obtain r w' where once: "once first w = (r, w')" by (cases "once first w")
  show ?case
  proof (cases "collided r \<and> n > 0")
    case False
    then have "retry_on_code (Suc n) first once w = once first w"
      using once Suc.prems by (cases r) (auto simp: collided_def)
    then show ?thesis using False once by (intro exI [of _ 0]) auto
  next
    case True
    then have retry: "retry_on_code (Suc n) first once w = retry_on_code n (Suc first) once w'"
      using once Suc.prems by (cases r) (auto simp: collided_def)
    obtain j where j: "j < n" "retry_on_code n (Suc first) once w' = once (Suc first + j) (attempt_world once w' (Suc first) j)"
      "\<forall>i < j. collided (fst (once (Suc first + i) (attempt_world once w' (Suc first) i)))"
      "collided (fst (once (Suc first + j) (attempt_world once w' (Suc first) j))) \<longrightarrow> Suc j = n"
      using Suc.IH [of "Suc first" w'] Suc.prems True by auto
    have world: "attempt_world once w' (Suc first) i = attempt_world once w first (Suc i)" for i
      using attempt_world_Suc [of once first w i] once by simp
    have "collided (fst (once (first + i) (attempt_world once w first i)))" if "i < Suc j" for i
      using j(3) that True once unfolding world by (cases i) auto
    then show ?thesis
      using j retry unfolding world by (intro exI [of _ "Suc j"]) auto
  qed
qed

text \<open>
  C11: Minting a booking number retries only on a collision of the number, and at most five times:
  the result of the loop is the result of one of the attempts 1 to 5, every attempt before it
  collided, and a collision is only ever returned by the fifth. The loop's unreachable 500 is
  unreachable.
\<close>

theorem code_retry_bounded:
  "\<exists>j < BOOKING_CODE_MAX_ATTEMPTS.
     insertWithCode env k v u dto parsed w =
       insertOnce env (k + 10 * (1 + j)) v u dto parsed
         (attempt_world (\<lambda>a. insertOnce env (k + 10 * a) v u dto parsed) w 1 j) \<and>
     (\<forall>i < j. collided (fst (insertOnce env (k + 10 * (1 + i)) v u dto parsed
         (attempt_world (\<lambda>a. insertOnce env (k + 10 * a) v u dto parsed) w 1 i)))) \<and>
     (collided (fst (insertWithCode env k v u dto parsed w)) \<longrightarrow> Suc j = BOOKING_CODE_MAX_ATTEMPTS)"
  using retry_is_attempt [of 1 BOOKING_CODE_MAX_ATTEMPTS "\<lambda>a. insertOnce env (k + 10 * a) v u dto parsed" w]
  by (auto simp: insertWithCode_def BOOKING_CODE_MAX_ATTEMPTS_def)

theorem code_retry_bounded_witness:
  "\<exists>j < BOOKING_CODE_MAX_ATTEMPTS.
     insertWithCode sample_env 10 ''hall'' ''u'' \<lparr>lb_venueId = ''hall'', lb_purpose = ''p'',
         lb_attendees = 1, lb_slots = []\<rparr> [] (fresh_world sample_db) =
       insertOnce sample_env (10 + 10 * (1 + j)) ''hall'' ''u'' \<lparr>lb_venueId = ''hall'', lb_purpose = ''p'',
         lb_attendees = 1, lb_slots = []\<rparr> []
         (attempt_world (\<lambda>a. insertOnce sample_env (10 + 10 * a) ''hall'' ''u'' \<lparr>lb_venueId = ''hall'',
            lb_purpose = ''p'', lb_attendees = 1, lb_slots = []\<rparr> []) (fresh_world sample_db) 1 j)"
  using code_retry_bounded [of sample_env 10 "''hall''" "''u''" "\<lparr>lb_venueId = ''hall'', lb_purpose = ''p'',
     lb_attendees = 1, lb_slots = []\<rparr>" "[]" "fresh_world sample_db"] by blast

end
