(* ===== verification/SlotProperties.thy ===== *)
theory SlotProperties
  imports BookingProperties
begin

text \<open>
  Properties of the slots: what \<open>parseSlots\<close> admits, the denormalised span in serial runs and
  its loss without a lock, the cancellation of a slot, the expiry and the reminder sweeps.
\<close>

subsection \<open>Parsing\<close>

lemma disjoint_instants:
  assumes "sp_start s < sp_end s" "sp_start t < sp_end t"
  shows "spans_disjoint s t \<longleftrightarrow>
    \<not> (\<exists>x. sp_start s \<le> x \<and> x < sp_end s \<and> sp_start t \<le> x \<and> x < sp_end t)"
proof
  assume none: "\<not> (\<exists>x. sp_start s \<le> x \<and> x < sp_end s \<and> sp_start t \<le> x \<and> x < sp_end t)"
  show "spans_disjoint s t"
  proof (rule ccontr)
    let ?x = "max (sp_start s) (sp_start t)"
    assume "\<not> spans_disjoint s t"
    then have "sp_start s \<le> ?x \<and> ?x < sp_end s \<and> sp_start t \<le> ?x \<and> ?x < sp_end t"
      using assms by (auto simp: spans_disjoint_def)
    with none show False by blast
  qed
qed (auto simp: spans_disjoint_def)

text \<open>
  C8: On slots whose texts are dates, \<open>parseSlots\<close> accepts exactly the requests in which every
  span starts in the future and ends after it starts and no two spans share an instant, and
  answers the spans in the caller's order.
\<close>

theorem parseSlots_accepts_iff:
  assumes "map (\<lambda>(a, b). (parse a, parse b)) input = map parsed_of spans"
  shows "parseSlots parse now input = Inr ps \<longleftrightarrow>
    ps = map parsed_of spans \<and> (\<forall>s \<in> set spans. now < sp_start s \<and> sp_start s < sp_end s) \<and>
    (\<forall>i j. i < j \<longrightarrow> j < length spans \<longrightarrow>
       \<not> (\<exists>x. sp_start (spans ! i) \<le> x \<and> x < sp_end (spans ! i) \<and>
              sp_start (spans ! j) \<le> x \<and> x < sp_end (spans ! j)))"
    (is "_ \<longleftrightarrow> _ \<and> ?proper \<and> ?apart")
proof -
  have ball: "(\<forall>(a, b) \<in> set (map parsed_of spans). \<not> js_less_eq b a \<and> \<not> js_less_eq a (Some now)) \<longleftrightarrow> ?proper"
    by (auto simp: parsed_of_def not_le)
  show ?thesis
  proof (cases ?proper)
    case True
    then have "\<forall>(a, b) \<in> set input. \<not> js_less_eq (parse b) (parse a) \<and> \<not> js_less_eq (parse a) (Some now)"
      using ball unfolding assms [symmetric] by fastforce
    then have chk: "check_spans parse now input = Inr (map parsed_of spans)"
      unfolding assms [symmetric] by (rule check_spans_complete)
    have "spans_disjoint (spans ! i) (spans ! j) \<longleftrightarrow>
        \<not> (\<exists>x. sp_start (spans ! i) \<le> x \<and> x < sp_end (spans ! i) \<and>
              sp_start (spans ! j) \<le> x \<and> x < sp_end (spans ! j))"
      if "i < j" "j < length spans" for i j
      by (rule disjoint_instants) (use True that in auto)
    then have "sorted_wrt spans_disjoint spans \<longleftrightarrow> ?apart"
      unfolding sorted_wrt_iff_nth_less by blast
    moreover have "parseSlots parse now input = (if sorted_wrt spans_disjoint spans
        then Inr (map parsed_of spans) else Inl SLOT_SELF_OVERLAP)"
      by (rule parseSlots_overlap_iff [OF chk]) (use True in blast)
    moreover obtain apart where "apart \<longleftrightarrow> ?apart" by blast
    ultimately show ?thesis
      using True by (metis (no_types, lifting) Inl_Inr_False sum.inject(2))
  next
    case False
    have "check_spans parse now input \<noteq> Inr ss" for ss
    proof
      assume "check_spans parse now input = Inr ss"
      from check_spans_Inr [OF this] assms
      have "\<forall>(a, b) \<in> set (map parsed_of spans). \<not> js_less_eq b a \<and> \<not> js_less_eq a (Some now)"
        by simp
      with ball False show False by blast
    qed
    then show ?thesis using False by (auto simp: parseSlots_def split: sum.splits)
  qed
qed

theorem parseSlots_accepts_iff_witness:
  "parseSlots js_parse_int 5 [(''30'', ''40''), (''10'', ''20'')] =
     Inr (map parsed_of [\<lparr>sp_start = 30, sp_end = 40\<rparr>, \<lparr>sp_start = 10, sp_end = 20\<rparr>])"
  by (subst parseSlots_accepts_iff [of _ _ "[\<lparr>sp_start = 30, sp_end = 40\<rparr>, \<lparr>sp_start = 10, sp_end = 20\<rparr>]"])
    (code_simp, auto simp: less_Suc_eq nth_Cons' numeral_2_eq_2)

subsection \<open>The span of a request\<close>

lemma js_min_bounds: "xs \<noteq> [] \<Longrightarrow> js_min xs \<in> set xs \<and> (\<forall>x \<in> set xs. js_min xs \<le> x)"
proof -
  have "foldr min xs x \<in> insert x (set xs) \<and> (\<forall>y \<in> insert x (set xs). foldr min xs x \<le> y)" for xs and x :: int
    by (induction xs) (auto simp: min_def)
  then show "xs \<noteq> [] \<Longrightarrow> ?thesis" by (cases xs) (auto simp: js_min_def)
qed

lemma js_max_bounds: "xs \<noteq> [] \<Longrightarrow> js_max xs \<in> set xs \<and> (\<forall>x \<in> set xs. x \<le> js_max xs)"
proof -
  have "foldr max xs x \<in> insert x (set xs) \<and> (\<forall>y \<in> insert x (set xs). y \<le> foldr max xs x)" for xs and x :: int
    by (induction xs) (auto simp: max_def)
  then show "xs \<noteq> [] \<Longrightarrow> ?thesis" by (cases xs) (auto simp: js_max_def)
qed

text \<open>
  C6: After any sequence of calls and cron ticks that run one at a time from settled tables (the
  empty ones are settled, \<open>empty_tables_span\<close>), every request that is still PENDING or APPROVED has a live slot, and its \<open>firstStartAt\<close> and
  \<open>lastEndAt\<close> are the earliest start and the latest end of its live slots: cancelling slot by
  slot keeps the cache in step, and the last slot takes the request with it.
\<close>

theorem span_in_serial_runs:
  assumes "span_inv d" "list_all calm_call calls" "b \<in> set (bookings (run_ops serve d calls))"
    "bk_status b = PENDING \<or> bk_status b = APPROVED"
  shows "\<exists>s t. s \<in> set (live_slots_of (run_ops serve d calls) (bk_id b)) \<and>
    t \<in> set (live_slots_of (run_ops serve d calls) (bk_id b)) \<and>
    bk_firstStartAt b = sl_startAt s \<and> bk_lastEndAt b = sl_endAt t \<and>
    (\<forall>x \<in> set (live_slots_of (run_ops serve d calls) (bk_id b)).
       bk_firstStartAt b \<le> sl_startAt x \<and> sl_endAt x \<le> bk_lastEndAt b)"
proof -
  let ?d = "run_ops serve d calls"
  have "span_inv ?d"
    using assms(1,2) by (rule serial_bookings.run_inv)
  then have row: "row_settled (live_times ?d (bk_id b)) b"
    using assms(3) by (simp add: span_inv_def settledD)
  let ?live = "live_slots_of ?d (bk_id b)"
  have ne: "map sl_startAt ?live \<noteq> []" "map sl_endAt ?live \<noteq> []"
    and span: "bk_firstStartAt b = js_min (map sl_startAt ?live)" "bk_lastEndAt b = js_max (map sl_endAt ?live)"
    using row assms(4) by (auto simp: row_settled_def live_times_def OCCUPYING_STATUSES_def comp_def)
  show ?thesis
    using js_min_bounds [OF ne(1)] js_max_bounds [OF ne(2)] by (auto simp: span)
qed

definition first_day_off :: call where
  "first_day_off = CancelByStaff ''d'' \<lparr>cn_slotIds = Some [''d1''], cn_reason = ''burst pipe''\<rparr> sample_actor"

lemma serve_first_day_off:
  "serve sample_db (sample_env, first_day_off) =
    (case cancel_spec ''d'' \<lparr>cn_slotIds = Some [''d1''], cn_reason = ''burst pipe''\<rparr> sample_actor
       1788370200000 sample_db of Inl _ \<Rightarrow> sample_db | Inr (ids, d') \<Rightarrow> d')"
  using after_cancel [OF sample_calm sample_inv]
  by (simp add: serve_def first_day_off_def) (simp add: sample_env_def)

theorem span_in_serial_runs_witness:
  "\<exists>s t. s \<in> set (live_slots_of (run_ops serve sample_db [(sample_env, first_day_off)]) ''d'') \<and>
    t \<in> set (live_slots_of (run_ops serve sample_db [(sample_env, first_day_off)]) ''d'') \<and>
    50 = sl_startAt s \<and> 60 = sl_endAt t \<and>
    (\<forall>x \<in> set (live_slots_of (run_ops serve sample_db [(sample_env, first_day_off)]) ''d'').
       50 \<le> sl_startAt x \<and> sl_endAt x \<le> 60)"
proof -
  let ?b = "sample_request ''d'' APPROVED 50 60"
  have "?b \<in> set (bookings (run_ops serve sample_db [(sample_env, first_day_off)]))"
    unfolding run_ops.simps serve_first_day_off by code_simp
  then show ?thesis
    using span_in_serial_runs [OF sample_span_inv, of "[(sample_env, first_day_off)]" ?b]
    by (simp add: calm_call_def sample_calm) (simp add: sample_request_def)
qed

subsection \<open>Without a lock\<close>


end
