(* ===== verification/CancelProperties.thy ===== *)
theory CancelProperties
  imports SlotProperties
begin

text \<open>
  What a cancellation changes and what it does not, for the requester's and the staff's routes,
  and the two sweeps of the crons.
\<close>

subsection \<open>The frame of a cancellation\<close>

lemma retrigger_slot:
  "sl_holdsSlot s = (\<not> sl_isCancelled s \<and> has_booking bs (sl_bookingRequestId s) APPROVED) \<Longrightarrow>
   booking_slots_holds_slot bs s = s"
  by (cases s) (simp add: booking_slots_holds_slot_def)

lemma settle_has_booking:
  assumes "\<And>b. b \<in> set bs \<Longrightarrow> bk_id b = i \<Longrightarrow> bk_status b = APPROVED \<Longrightarrow> j = i \<Longrightarrow> ss \<noteq> []"
  shows "has_booking (update_rows (\<lambda>b. bk_id b = i) (settle_span ss) bs) j APPROVED = has_booking bs j APPROVED"
proof -
  have "has_booking (map (\<lambda>b. if bk_id b = i then settle_span ss b else b) xs) j APPROVED = has_booking xs j APPROVED"
    if "set xs \<subseteq> set bs" for xs
    using that assms by (induction xs) (auto simp: has_booking_def settle_span_def)
  then show ?thesis by (simp add: update_rows_def)
qed

text \<open>Slots: exactly those of \<open>p\<close> change, into their cancelled form, which holds nothing.\<close>

lemma free_effect_slots:
  assumes inv: "db_inv d" and g: "cancels g" and held: "\<And>s h. sl_holdsSlot (g s) = sl_holdsSlot s"
  shows "slots (free_effect p g i d) = map (\<lambda>s. if p s then (g s)\<lparr>sl_holdsSlot := False\<rparr> else s) (slots d)"
proof -
  let ?ss = "update_rows p g (slots d)"
  let ?rem = "filter (\<lambda>s. sl_bookingRequestId s = i \<and> \<not> sl_isCancelled s) ?ss"
  let ?bs = "update_rows (\<lambda>b. bk_id b = i) (settle_span ?rem) (bookings d)"
  have "slots (free_effect p g i d) = map (booking_slots_holds_slot ?bs) ?ss"
    by (simp add: free_effect_def Let_def retrigger_def)
  moreover have "booking_slots_holds_slot ?bs (g s) = (g s)\<lparr>sl_holdsSlot := False\<rparr>" for s
    using g by (simp add: booking_slots_holds_slot_def cancels_def)
  moreover have "booking_slots_holds_slot ?bs s = s" if s: "s \<in> set (slots d)" "\<not> p s" for s
  proof (rule retrigger_slot)
    have "has_booking ?bs (sl_bookingRequestId s) APPROVED = has_booking (bookings d) (sl_bookingRequestId s) APPROVED"
      if "\<not> sl_isCancelled s"
      by (rule settle_has_booking) (use s that in \<open>auto simp: filter_empty_conv set_update_rows\<close>)
    then show "sl_holdsSlot s = (\<not> sl_isCancelled s \<and> has_booking ?bs (sl_bookingRequestId s) APPROVED)"
      using db_invD(3) [OF inv] s by (auto simp: holds_ok_def)
  qed
  ultimately show ?thesis by (simp add: update_rows_def)
qed

lemma free_effect_bookings:
  assumes "cancels g"
  shows "bookings (free_effect p g i d) = map (\<lambda>b. if bk_id b = i then settle_span
      (filter (\<lambda>s. sl_bookingRequestId s = i \<and> \<not> sl_isCancelled s \<and> \<not> p s) (slots d)) b else b) (bookings d)"
  using live_after_free(2) [OF assms, of i p "slots d"]
  by (simp add: free_effect_def Let_def retrigger_def update_rows_def)

lemma cancellation_held [simp]:
  "sl_holdsSlot (cancellation t u s) = sl_holdsSlot s" "sl_holdsSlot (staffCancellation t act r s) = sl_holdsSlot s"
  by (simp_all add: cancellation_def staffCancellation_def)

lemma run_resolve:
  assumes "calm env"
  shows "resolveAllowedRequester env k sub w =
    (case find_first (\<lambda>u. lu_lineUserId u = sub \<and> lu_deletedAt u = None) (line_users (view w)) of
       None \<Rightarrow> (Inl (Http (Forbidden BOOKING_NOT_ALLOWED)), w)
     | Some u \<Rightarrow> if lu_access u = ACC_ALLOWED then (Inr (lu_id u), w)
                else (Inl (Http (Forbidden BOOKING_NOT_ALLOWED)), w))"
  using assms by (auto simp: resolveAllowedRequester_def calm_run split: option.splits)

lemma view_of_read_bind:
  assumes "reads_only (g a)" "m w = (Inr a, w')"
  shows "view (snd (tx_bind m g w)) = view w'"
  using assms by (simp add: tx_bind_def reads_only_def)

text \<open>The call as a function of the table: the caller is resolved, then the transaction decides.\<close>

definition slot_spec_of :: "env \<Rightarrow> string \<Rightarrow> string \<Rightarrow> string \<Rightarrow> db \<Rightarrow> booking_message http_error + string \<times> db" where
  "slot_spec_of env u idOrCode slotId d = cancel_slot_spec (ownedBookingWhere idOrCode u) slotId
     (clock env 2) (clock env 2 + readCancelLeadMinutes d * 60000) u d"

lemma booking_of_None_iff: "booking_of d i = None \<longleftrightarrow> i \<notin> set (map bk_id (bookings d))"
  by (auto simp: booking_of_def find_first_None_iff)

lemma free_effect_row:
  assumes "booking_of d i \<noteq> None" "cancels g"
  shows "booking_of (free_effect p g i d) i \<noteq> None"
proof -
  have "map bk_id (bookings (free_effect p g i d)) = map bk_id (bookings d)"
    by (simp add: free_effect_bookings [OF assms(2)] settle_span_def)
  then show ?thesis using assms(1) by (simp only: booking_of_None_iff not_not)
qed

lemma run_cancelApprovedSlot:
  assumes calm: "calm env" and inv: "db_inv d"
    and u: "find_first (\<lambda>u. lu_lineUserId u = sub \<and> lu_deletedAt u = None) (line_users d) = Some u"
      "lu_access u = ACC_ALLOWED"
  shows "case slot_spec_of env (lu_id u) idOrCode slotId d of
      Inl e \<Rightarrow> run_call (cancelApprovedSlot env sub idOrCode slotId) d = (Inl (Http e), d, [])
    | Inr (i, d2) \<Rightarrow> \<exists>dto es. run_call (cancelApprovedSlot env sub idOrCode slotId) d = (Inr dto, d2, es)"
proof -
  let ?now = "clock env 2" and ?cut = "clock env 2 + readCancelLeadMinutes d * 60000"
  let ?p = "ownedBookingWhere idOrCode (lu_id u)"
  let ?tx = "cancelSlot_tx env ?p slotId ?now ?cut (lu_id u)"
  define rest where "rest i = tx_bind (publishBookingRequests env 10 UPDATED [i] None) (\<lambda>_.
    tx_bind (notifyDecisions env 12 [(notice i DS_CANCELLED_BY_USER)\<lparr>dn_slotIds := Some [slotId]\<rparr>]) (\<lambda>_.
    tx_bind (emit [AdminTrigger (BookingCancelledByRequester i (Some slotId))]) (\<lambda>_.
    readDetail env 13 (\<lambda>b. bk_id b = i))))" for i
  have call: "cancelApprovedSlot env sub idOrCode slotId (fresh_world d) = tx_bind ?tx rest (fresh_world d)"
    using run_resolve [OF calm, of 0 sub "fresh_world d", simplified] u
    by (simp add: cancelApprovedSlot_def run_bind [of "resolveAllowedRequester env 0 sub"]
        run_bind [of "tx_read env (Suc 0) readCancelLeadMinutes"] run_read [OF calm] Let_def rest_def [abs_def])
  note tx = run_cancelSlot_tx [OF calm, of "fresh_world d" ?p slotId ?now ?cut "lu_id u", simplified, OF inv,
      folded slot_spec_of_def]
  show ?thesis
  proof (cases "slot_spec_of env (lu_id u) idOrCode slotId d")
    case (Inl e)
    then show ?thesis using call tx by (auto simp: run_call_run tx_bind_def)
  next
    case (Inr x)
    obtain i d2 where x: "x = (i, d2)" by (cases x)
    obtain b where "booking_of d i = Some b" and d2: "\<exists>p. d2 = free_effect p (cancellation ?now (lu_id u)) i d"
      using Inr x found_booking [OF inv] by (auto simp: slot_spec_of_def cancel_slot_spec_def split: option.splits if_splits)
    then have row: "find_first (\<lambda>b. bk_id b = i) (bookings d2) \<noteq> None"
      using free_effect_row by (auto simp: booking_of_def)
    have ok: "\<exists>dto es. rest i w = (Inr dto, w\<lparr>log := es\<rparr>)" if "view w = d2" for w :: "event world"
    proof -
      obtain es where "rest i w = readDetail env 13 (\<lambda>b. bk_id b = i) (w\<lparr>log := es\<rparr>)"
        by (simp add: rest_def calm_run calm)
      then show ?thesis
        using run_readDetail [OF calm, of "\<lambda>b. bk_id b = i" "w\<lparr>log := es\<rparr>" 13] row that by auto
    qed
    have "view ((fresh_world d :: event world)\<lparr>view := d2, committed := d2\<rparr>) = d2" by simp
    from ok [OF this] obtain dto es where "rest i ((fresh_world d)\<lparr>view := d2, committed := d2\<rparr>) =
        (Inr dto, ((fresh_world d)\<lparr>view := d2, committed := d2\<rparr>)\<lparr>log := es\<rparr>)" by blast
    then show ?thesis
      using call tx Inr x by (auto simp: run_call_run tx_bind_def)
  qed
qed

lemma cancel_slot_refused:
  "calm env \<Longrightarrow>
   \<not> (\<exists>u. find_first (\<lambda>u. lu_lineUserId u = sub \<and> lu_deletedAt u = None) (line_users d) = Some u \<and>
        lu_access u = ACC_ALLOWED) \<Longrightarrow>
   run_call (cancelApprovedSlot env sub idOrCode slotId) d = (Inl (Http (Forbidden BOOKING_NOT_ALLOWED)), d, [])"
  using run_resolve [of env 0 sub "fresh_world d"]
  by (auto simp: run_call_run cancelApprovedSlot_def run_bind split: option.splits)

text \<open>
  C7: A requester's cancellation of one slot, run alone and answered with success: the caller is
  an ALLOWED user who owns the APPROVED request, the slot was live and starts later than now plus
  the configured lead; that slot alone becomes cancelled and free, every other slot keeps all its
  columns, and of the requests only this one changes: to CANCELLED when no live slot is left, else
  to the bounds of the ones that are.
\<close>

theorem cancel_slot_effect:
  assumes "calm env" "db_inv d" "run_call (cancelApprovedSlot env sub idOrCode slotId) d = (Inr dto, d', es)"
  shows "\<exists>u b s. find_first (\<lambda>u. lu_lineUserId u = sub \<and> lu_deletedAt u = None) (line_users d) = Some u \<and>
    lu_access u = ACC_ALLOWED \<and> b \<in> set (bookings d) \<and> ownedBookingWhere idOrCode (lu_id u) b \<and>
    bk_status b = APPROVED \<and> s \<in> set (live_slots_of d (bk_id b)) \<and> sl_id s = slotId \<and>
    sl_startAt s > clock env 2 + readCancelLeadMinutes d * 60000 \<and>
    slots d' = map (\<lambda>x. if x = s then (cancellation (clock env 2) (lu_id u) s)\<lparr>sl_holdsSlot := False\<rparr> else x) (slots d) \<and>
    bookings d' = map (\<lambda>c. if c = b then settle_span (filter (\<lambda>x. x \<noteq> s) (live_slots_of d (bk_id b))) b else c) (bookings d)"
proof -
  let ?now = "clock env 2" and ?cut = "clock env 2 + readCancelLeadMinutes d * 60000"
  obtain u where u: "find_first (\<lambda>u. lu_lineUserId u = sub \<and> lu_deletedAt u = None) (line_users d) = Some u"
    "lu_access u = ACC_ALLOWED"
    using assms(3) cancel_slot_refused [OF assms(1), of sub d idOrCode slotId] by fastforce
  let ?p = "ownedBookingWhere idOrCode (lu_id u)"
  obtain i where spec: "cancel_slot_spec ?p slotId ?now ?cut (lu_id u) d = Inr (i, d')"
    using run_cancelApprovedSlot [OF assms(1,2) u, of idOrCode slotId] assms(3)
    by (auto simp: slot_spec_of_def split: sum.splits)
  obtain b s where b: "find_first ?p (bookings d) = Some b" "bk_status b = APPROVED" "i = bk_id b"
    and s: "find_first (\<lambda>s. sl_id s = slotId \<and> sl_bookingRequestId s = bk_id b) (slots d) = Some s"
      "\<not> sl_isCancelled s" "\<not> sl_startAt s \<le> ?cut"
    and d': "d' = free_effect (\<lambda>x. sl_id x = slotId \<and> \<not> sl_isCancelled x) (cancellation ?now (lu_id u)) (bk_id b) d"
    using spec by (auto simp: cancel_slot_spec_def split: option.splits if_splits)
  note bs = find_first_SomeD [OF b(1)] and ss = find_first_SomeD [OF s(1)]
  have same_slot: "x = s \<longleftrightarrow> sl_id x = slotId \<and> \<not> sl_isCancelled x" if "x \<in> set (slots d)" for x
    using that ss s(2) inv_distinct(1) [OF assms(2)] by (auto simp: distinct_map inj_on_def)
  have same_row: "c = b \<longleftrightarrow> bk_id c = bk_id b" if "c \<in> set (bookings d)" for c
    using that bs inv_distinct(2) [OF assms(2)] by (auto simp: distinct_map inj_on_def)
  have slots: "slots d' = map (\<lambda>x. if x = s then (cancellation ?now (lu_id u) s)\<lparr>sl_holdsSlot := False\<rparr> else x) (slots d)"
    unfolding d' free_effect_slots [OF assms(2) cancels_cancellation(1) cancellation_held(1)]
    by (rule map_cong [OF refl]) (use same_slot in auto)
  have live: "filter (\<lambda>x. sl_bookingRequestId x = bk_id b \<and> \<not> sl_isCancelled x \<and>
        \<not> (sl_id x = slotId \<and> \<not> sl_isCancelled x)) (slots d) =
      filter (\<lambda>x. x \<noteq> s) (live_slots_of d (bk_id b))"
    unfolding live_slots_of_def filter_filter by (rule filter_cong [OF refl]) (use same_slot in auto)
  have rows: "bookings d' = map (\<lambda>c. if c = b then settle_span (filter (\<lambda>x. x \<noteq> s) (live_slots_of d (bk_id b))) b else c) (bookings d)"
    unfolding d' free_effect_bookings [OF cancels_cancellation(1)] live
    by (rule map_cong [OF refl]) (use same_row in auto)
  have "s \<in> set (live_slots_of d (bk_id b))" using ss s(2) by (simp add: live_slots_of_def)
  then show ?thesis using u bs b(2) ss s(3) slots rows by (intro exI conjI) auto
qed

definition no_lead_db :: db where
  "no_lead_db = sample_db\<lparr>app_settings := [(''booking.cancel_lead_minutes'', ''0'')]\<rparr>"

definition early_env :: env where
  "early_env = sample_env\<lparr>clock := \<lambda>_. 0\<rparr>"

theorem cancel_slot_effect_witness:
  "\<exists>(d' :: db) (u :: line_user) (b :: booking) (s :: slot).
    find_first (\<lambda>u. lu_lineUserId u = ''U1'' \<and> lu_deletedAt u = None) (line_users no_lead_db) = Some u \<and>
    lu_access u = ACC_ALLOWED \<and> b \<in> set (bookings no_lead_db) \<and> ownedBookingWhere '' #BR-d'' (lu_id u) b \<and>
    bk_status b = APPROVED \<and> s \<in> set (live_slots_of no_lead_db (bk_id b)) \<and> sl_id s = ''d1'' \<and>
    sl_startAt s > clock early_env 2 + readCancelLeadMinutes no_lead_db * 60000 \<and>
    slots d' = map (\<lambda>x. if x = s then (cancellation (clock early_env 2) (lu_id u) s)\<lparr>sl_holdsSlot := False\<rparr> else x)
      (slots no_lead_db) \<and>
    bookings d' = map (\<lambda>c. if c = b then settle_span (filter (\<lambda>x. x \<noteq> s) (live_slots_of no_lead_db (bk_id b))) b else c)
      (bookings no_lead_db)"
proof -
  have calm: "calm early_env" by (simp add: calm_def early_env_def sample_env_def)
  have inv: "db_inv no_lead_db" by code_simp
  have u: "find_first (\<lambda>u. lu_lineUserId u = ''U1'' \<and> lu_deletedAt u = None) (line_users no_lead_db) = Some sample_user"
    by code_simp
  have "\<not> isl (slot_spec_of early_env (lu_id sample_user) '' #BR-d'' ''d1'' no_lead_db)" by code_simp
  then obtain i d2 where spec: "slot_spec_of early_env (lu_id sample_user) '' #BR-d'' ''d1'' no_lead_db = Inr (i, d2)"
    by (cases "slot_spec_of early_env (lu_id sample_user) '' #BR-d'' ''d1'' no_lead_db") (simp, metis surj_pair)
  have acc: "lu_access sample_user = ACC_ALLOWED" by (simp add: sample_user_def)
  from run_cancelApprovedSlot [OF calm inv u acc, of "'' #BR-d''" "''d1''", unfolded spec sum.case prod.case]
  obtain dto es where "run_call (cancelApprovedSlot early_env ''U1'' '' #BR-d'' ''d1'') no_lead_db = (Inr dto, d2, es)"
    by (elim exE)
  note effect = cancel_slot_effect [OF calm inv this]
  show ?thesis by (rule exI [where x = d2]) (rule effect)
qed

end
