(* ===== verification/SweepProperties.thy ===== *)
theory SweepProperties
  imports CancelProperties
begin

text \<open>
  The two sweeps, run alone: the expiry cron closes exactly the overdue PENDING requests and is
  idempotent; the reminder cron claims a slot at most once.
\<close>

lemma run_publish_chunks: "calm env \<Longrightarrow> \<exists>es. publish_chunks env k cs w = (Inr (), w\<lparr>log := es\<rparr>)"
proof (induction cs arbitrary: k w)
  case Nil
  then show ?case by (auto simp: calm_run intro: exI [of _ "log w"])
next
  case (Cons c cs)
  have rest: "\<exists>es. publish_chunks env k' cs (w\<lparr>log := l\<rparr>) = (Inr (), w\<lparr>log := es\<rparr>)" for k' l
    using Cons.IH [OF Cons.prems, of k' "w\<lparr>log := l\<rparr>"] by simp
  have same: "\<exists>es. publish_chunks env k' cs w = (Inr (), w\<lparr>log := es\<rparr>)" for k'
    by (rule Cons.IH [OF Cons.prems])
  show ?case by (simp add: calm_run Cons.prems rest same)
qed

definition overdue :: "time \<Rightarrow> booking \<Rightarrow> bool" where
  "overdue now b \<longleftrightarrow> bk_status b = PENDING \<and> bk_firstStartAt b < now"

lemma overdue_unapproved:
  assumes "db_inv d"
  shows "has_booking (update_rows (overdue now) expire_row (bookings d)) i APPROVED = has_booking (bookings d) i APPROVED"
proof -
  have "has_booking (map (\<lambda>b. if overdue now b then expire_row b else b) xs) i APPROVED = has_booking xs i APPROVED" for xs
    by (induction xs) (auto simp: has_booking_def overdue_def expire_row_def)
  then show ?thesis by (simp add: update_rows_def)
qed

lemma retrigger_same:
  assumes "db_inv d" "\<And>i. has_booking bs i APPROVED = has_booking (bookings d) i APPROVED"
  shows "map (booking_slots_holds_slot bs) (slots d) = slots d"
  using db_invD(3) [OF assms(1)] assms(2) by (intro map_idI retrigger_slot) (auto simp: holds_ok_def)

lemma run_expire:
  assumes calm: "calm env" and inv: "db_inv d"
  shows "\<exists>es. run_call (expireOverdue env now) d = (Inr (map bk_id (filter (overdue now) (bookings d))),
    d\<lparr>bookings := map (\<lambda>b. if overdue now b then expire_row b else b) (bookings d)\<rparr>, es)"
proof -
  let ?bs = "update_rows (overdue now) expire_row (bookings d)"
  let ?hits = "filter (overdue now) (bookings d)"
  have p: "(\<lambda>b. bk_status b = PENDING \<and> bk_firstStartAt b < now) = overdue now"
    by (simp add: overdue_def [abs_def])
  have "update_bookings err (overdue now) expire_row d = Inr (d\<lparr>bookings := ?bs, slots := slots d\<rparr>, map expire_row ?hits)" for err
    using release_succeeds [OF inv, of expire_row "overdue now" err] retrigger_same [OF inv, of ?bs]
      overdue_unapproved [OF inv] by (simp add: Let_def expire_row_def)
  then have sweep: "or_empty (tx_write env 0 (update_bookings (exclusion_error env) (overdue now) expire_row)) (fresh_world d) =
      (Inr (map expire_row ?hits), (fresh_world d)\<lparr>view := d\<lparr>bookings := ?bs\<rparr>, committed := d\<lparr>bookings := ?bs\<rparr>\<rparr>)"
    by (simp add: or_empty_def calm_run calm)
  have ids: "map bk_id (map expire_row ?hits) = map bk_id ?hits" by (simp add: expire_row_def)
  have same: "map (\<lambda>b. if overdue now b then expire_row b else b) (bookings d) = ?bs"
    by (simp add: update_rows_def)
  show ?thesis
  proof (cases "?hits = []")
    case True
    then show ?thesis
      using sweep unfolding expireOverdue_def p run_call_run same run_bind [of "or_empty _"]
      by (simp add: calm_run)
  next
    case False
    define w where "w = (fresh_world d :: event world)\<lparr>view := d\<lparr>bookings := ?bs\<rparr>, committed := d\<lparr>bookings := ?bs\<rparr>\<rparr>"
    obtain es where pub: "publish_chunks env 1 (chunks (BOOKING_EXPIRY_PUBLISH_CHUNK - 1) (map bk_id ?hits)) w = (Inr (), w\<lparr>log := es\<rparr>)"
      using run_publish_chunks [OF calm] by blast
    have "expireOverdue env now (fresh_world d) =
        (Inr (map bk_id ?hits), w\<lparr>log := es @ [AdminTrigger (BookingsExpired (map bk_id ?hits))]\<rparr>)"
      using sweep [folded w_def] False ids pub unfolding expireOverdue_def p
      by (simp add: calm_run Let_def del: map_map One_nat_def)
    then show ?thesis unfolding run_call_run same by (simp add: w_def)
  qed
qed

text \<open>
  C9: The expiry sweep, run alone at \<open>now\<close>: it returns the ids of exactly the requests that are
  still PENDING although their first slot has started, turns those and no others into EXPIRED with
  the fixed reason, touches no slot, and a second sweep at the same instant finds nothing.
\<close>

theorem expiry_sweep_exact:
  assumes "calm env" "db_inv d" "run_call (expireOverdue env now) d = (r, d', es)"
  shows "r = Inr (map bk_id (filter (overdue now) (bookings d))) \<and>
    d' = d\<lparr>bookings := map (\<lambda>b. if overdue now b then expire_row b else b) (bookings d)\<rparr> \<and>
    fst (run_call (expireOverdue env now) d') = Inr []"
proof -
  have first: "r = Inr (map bk_id (filter (overdue now) (bookings d)))"
    and d': "d' = d\<lparr>bookings := map (\<lambda>b. if overdue now b then expire_row b else b) (bookings d)\<rparr>"
    using run_expire [OF assms(1,2), of now] assms(3) by auto
  have "sys_ok d (after (expireOverdue env now) d)"
    by (rule after_inv [OF keeps_expireOverdue [OF calm_env_ok [OF assms(1)]]]) (simp add: sys_ok_def assms(2))
  then have "db_inv d'" using assms(3) by (simp add: after_def sys_ok_def)
  moreover have "filter (overdue now) (bookings d') = []"
    by (auto simp: d' filter_empty_conv overdue_def expire_row_def)
  ultimately show ?thesis using run_expire [OF assms(1), of d' now] first d' by auto
qed

lemma expiry_run_sample: "\<exists>r d' es. run_call (expireOverdue sample_env 12) sample_db = (r, d', es)"
  by (metis prod_cases3)

theorem expiry_sweep_exact_witness:
  "fst (run_call (expireOverdue sample_env 12) sample_db) = Inr [''a''] \<and>
   fst (run_call (expireOverdue sample_env 12) (fst (snd (run_call (expireOverdue sample_env 12) sample_db)))) = Inr []"
proof -
  obtain r d' es where run: "run_call (expireOverdue sample_env 12) sample_db = (r, d', es)"
    using expiry_run_sample by (elim exE)
  have ids: "map bk_id (filter (overdue 12) (bookings sample_db)) = [''a'']" by code_simp
  note facts = expiry_sweep_exact [OF sample_calm sample_inv run, unfolded ids]
  show ?thesis unfolding run fst_conv snd_conv using facts by (elim conjE) (intro conjI)
qed

subsection \<open>Reminders\<close>




end
