(* ===== verification/Tx.thy ===== *)
theory Tx
  imports DriverErrors
begin

text \<open>
  Service calls over a database of any shape \<open>'s\<close>: the counterpart, for the back-office services,
  of the transactions of \<open>BookingDb\<close>. A call runs statement by statement; before its statement
  \<open>k\<close> other transactions may commit anything (\<open>others drv k\<close>) and the driver may fail it
  (\<open>breaks drv k\<close>). The store keeps the committed state apart from the transaction's own view
  and a log of the effects that leave the database. A Serializable transaction that commits behaves
  as if it had run alone, so its statements see no commit of others after its snapshot; the conflict
  PostgreSQL answers instead is a fault of one of its statements or of its COMMIT.
\<close>

record 's driver =
  others :: "nat \<Rightarrow> 's \<Rightarrow> 's"
  breaks :: "nat \<Rightarrow> js_error option"

record ('s, 'e) store =
  base :: 's
  mine :: 's
  trace :: "'e list"

datatype 'm stop = Refused "'m http_error" | Thrown js_error

type_synonym ('s, 'e, 'm, 'a) act = "('s, 'e) store \<Rightarrow> ('m stop + 'a) \<times> ('s, 'e) store"

definition done_with :: "'a \<Rightarrow> ('s, 'e, 'm, 'a) act" where
  "done_with a = (\<lambda>w. (Inr a, w))"

definition stop_with :: "'m stop \<Rightarrow> ('s, 'e, 'm, 'a) act" where
  "stop_with e = (\<lambda>w. (Inl e, w))"

definition andThen :: "('s, 'e, 'm, 'a) act \<Rightarrow> ('a \<Rightarrow> ('s, 'e, 'm, 'b) act) \<Rightarrow> ('s, 'e, 'm, 'b) act" where
  "andThen m f = (\<lambda>w. case m w of (Inl e, w') \<Rightarrow> (Inl e, w') | (Inr a, w') \<Rightarrow> f a w')"

text \<open>\<open>if (!ok) throw e\<close>, and \<open>if (!row) throw e\<close> followed by the row.\<close>

definition check :: "bool \<Rightarrow> 'm http_error \<Rightarrow> ('s, 'e, 'm, unit) act" where
  "check ok e = (if ok then done_with () else stop_with (Refused e))"

definition need :: "'a option \<Rightarrow> 'm http_error \<Rightarrow> ('s, 'e, 'm, 'a) act" where
  "need x e = (case x of None \<Rightarrow> stop_with (Refused e) | Some a \<Rightarrow> done_with a)"

definition meanwhile :: "('s, 'x) driver_scheme \<Rightarrow> nat \<Rightarrow> ('s, 'e) store \<Rightarrow> ('s, 'e) store" where
  "meanwhile drv k w = w\<lparr>base := others drv k (base w), mine := others drv k (mine w)\<rparr>"

definition issue :: "('s, 'x) driver_scheme \<Rightarrow> nat \<Rightarrow> ('s, 'e, 'm, 'a) act \<Rightarrow> ('s, 'e, 'm, 'a) act" where
  "issue drv k q = (\<lambda>w. case breaks drv k of
       Some e \<Rightarrow> (Inl (Thrown e), meanwhile drv k w) | None \<Rightarrow> q (meanwhile drv k w))"

definition fetch :: "('s, 'x) driver_scheme \<Rightarrow> nat \<Rightarrow> ('s \<Rightarrow> 'a) \<Rightarrow> ('s, 'e, 'm, 'a) act" where
  "fetch drv k f = issue drv k (\<lambda>w. (Inr (f (mine w)), w))"

definition put :: "('s, 'x) driver_scheme \<Rightarrow> nat \<Rightarrow> ('s \<Rightarrow> js_error + ('s \<times> 'a)) \<Rightarrow> ('s, 'e, 'm, 'a) act" where
  "put drv k g = issue drv k (\<lambda>w. case g (mine w) of
       Inl e \<Rightarrow> (Inl (Thrown e), w) | Inr (s, a) \<Rightarrow> (Inr a, w\<lparr>mine := s\<rparr>))"

text \<open>\<open>$transaction(work)\<close>: commit, or fall back to what others committed.\<close>

definition atomically :: "('s, 'e, 'm, 'a) act \<Rightarrow> ('s, 'e, 'm, 'a) act" where
  "atomically m = (\<lambda>w. case m w of
       (Inr a, w') \<Rightarrow> (Inr a, w'\<lparr>base := mine w'\<rparr>)
     | (Inl e, w') \<Rightarrow> (Inl e, w'\<lparr>mine := base w'\<rparr>))"

definition alone :: "('s, 'x) driver_scheme \<Rightarrow> ('s, 'x) driver_scheme" where
  "alone drv = drv\<lparr>others := \<lambda>_ s. s\<rparr>"

definition serializable ::
  "('s, 'x) driver_scheme \<Rightarrow> nat \<Rightarrow> (('s, 'x) driver_scheme \<Rightarrow> ('s, 'e, 'm, 'a) act) \<Rightarrow> ('s, 'e, 'm, 'a) act"
where
  "serializable drv k work = (\<lambda>w.
     atomically (andThen (work (alone drv)) (\<lambda>a. andThen (fetch (alone drv) k (\<lambda>_. ())) (\<lambda>_. done_with a)))
       (meanwhile drv k w))"

text \<open>\<open>try { m } catch (error) { h }\<close>, and an effect outside the database.\<close>

definition catching :: "('s, 'e, 'm, 'a) act \<Rightarrow> ('m stop \<Rightarrow> ('s, 'e, 'm, 'a) act) \<Rightarrow> ('s, 'e, 'm, 'a) act" where
  "catching m h = (\<lambda>w. case m w of (Inl e, w') \<Rightarrow> h e w' | (Inr a, w') \<Rightarrow> (Inr a, w'))"

definition tell :: "'e list \<Rightarrow> ('s, 'e, 'm, unit) act" where
  "tell es = (\<lambda>w. (Inr (), w\<lparr>trace := trace w @ es\<rparr>))"

text \<open>A call starts from the committed state with nothing told.\<close>

definition answer :: "('s, 'e, 'm, 'a) act \<Rightarrow> 's \<Rightarrow> ('m stop + 'a) \<times> 's \<times> 'e list" where
  "answer m s = (case m \<lparr>base = s, mine = s, trace = []\<rparr> of (r, w) \<Rightarrow> (r, base w, trace w))"

definition leaves :: "('s, 'e, 'm, 'a) act \<Rightarrow> 's \<Rightarrow> 's" where
  "leaves m s = fst (snd (answer m s))"

text \<open>\<open>error instanceof PrismaClientKnownRequestError && error.code === 'P2002'\<close>.\<close>

definition isUniqueViolation :: "js_error \<Rightarrow> bool" where
  "isUniqueViolation e \<longleftrightarrow> err_known e \<and> err_code e = Some ''P2002''"

subsection \<open>Running a call\<close>

named_theorems act_run \<open>what a fragment does to the store\<close>

lemma run_basic [act_run]:
  "done_with a w = (Inr a, w)" "stop_with e w = (Inl e, w)" "tell es w = (Inr (), w\<lparr>trace := trace w @ es\<rparr>)"
  "check ok err w = (if ok then (Inr (), w) else (Inl (Refused err), w))"
  "need x err w = (case x of None \<Rightarrow> (Inl (Refused err), w) | Some b \<Rightarrow> (Inr b, w))"
  by (simp_all add: done_with_def stop_with_def tell_def check_def need_def split: option.splits)

lemma run_andThen [act_run]:
  "andThen m f w = (case m w of (Inl e, w') \<Rightarrow> (Inl e, w') | (Inr a, w') \<Rightarrow> f a w')"
  by (simp add: andThen_def)

lemma alone_simps [simp]:
  "others (alone drv) k s = s" "breaks (alone drv) = breaks drv" "meanwhile (alone drv) k w = w"
  by (simp_all add: alone_def meanwhile_def)

text \<open>An undisturbed driver: nothing commits in between and no statement fails.\<close>

definition undisturbed :: "('s, 'x) driver_scheme \<Rightarrow> bool" where
  "undisturbed drv \<longleftrightarrow> (\<forall>k. others drv k = (\<lambda>s. s)) \<and> (\<forall>k. breaks drv k = None)"

lemma undisturbed_simps:
  assumes "undisturbed drv"
  shows "others drv k s = s" "breaks drv k = None" "meanwhile drv k w = w" "undisturbed (alone drv)"
  using assms by (auto simp: undisturbed_def meanwhile_def alone_def)

lemma run_undisturbed [act_run]:
  assumes "undisturbed drv"
  shows "fetch drv k f w = (Inr (f (mine w)), w)"
    and "put drv k g w = (case g (mine w) of Inl e \<Rightarrow> (Inl (Thrown e), w) | Inr (s, a) \<Rightarrow> (Inr a, w\<lparr>mine := s\<rparr>))"
  using assms by (simp_all add: fetch_def put_def issue_def undisturbed_simps split: sum.splits)

lemma run_serializable_undisturbed [act_run]:
  assumes "undisturbed drv"
  shows "serializable drv k work w = atomically (work (alone drv)) w"
  using assms
  by (auto simp: serializable_def atomically_def act_run undisturbed_simps fetch_def issue_def
      split: prod.splits sum.splits)

lemma run_alone [act_run]:
  "fetch (alone drv) k f w = (case breaks drv k of Some e \<Rightarrow> (Inl (Thrown e), w) | None \<Rightarrow> (Inr (f (mine w)), w))"
  "put (alone drv) k g w = (case breaks drv k of Some e \<Rightarrow> (Inl (Thrown e), w)
     | None \<Rightarrow> (case g (mine w) of Inl e \<Rightarrow> (Inl (Thrown e), w) | Inr (s, a) \<Rightarrow> (Inr a, w\<lparr>mine := s\<rparr>)))"
  by (simp_all add: fetch_def put_def issue_def split: option.splits sum.splits)

lemma run_atomically [act_run]:
  "atomically m w = (case m w of (Inr a, w') \<Rightarrow> (Inr a, w'\<lparr>base := mine w'\<rparr>)
     | (Inl e, w') \<Rightarrow> (Inl e, w'\<lparr>mine := base w'\<rparr>))"
  by (simp add: atomically_def)

subsection \<open>Keeping an invariant under interference\<close>

definition safe :: "('s \<Rightarrow> bool) \<Rightarrow> ('s, 'e, 'm, 'a) act \<Rightarrow> bool" where
  "safe I m \<longleftrightarrow> (\<forall>w. I (base w) \<and> I (mine w) \<longrightarrow> I (base (snd (m w))) \<and> I (mine (snd (m w))))"

definition polite :: "('s \<Rightarrow> bool) \<Rightarrow> ('s, 'x) driver_scheme \<Rightarrow> bool" where
  "polite I drv \<longleftrightarrow> (\<forall>k s. I s \<longrightarrow> I (others drv k s))"

named_theorems safe_intros \<open>a fragment keeps an invariant\<close>

lemma safeI: "(\<And>w. I (base w) \<Longrightarrow> I (mine w) \<Longrightarrow> I (base (snd (m w))) \<and> I (mine (snd (m w)))) \<Longrightarrow> safe I m"
  by (simp add: safe_def)

lemma safe_basic [safe_intros]:
  "safe I (done_with a)" "safe I (stop_with e)" "safe I (tell es)" "safe I (check ok err)" "safe I (need x err)"
  by (auto simp: safe_def act_run split: option.splits)

lemma safe_andThen [safe_intros]: "safe I m \<Longrightarrow> (\<And>a. safe I (f a)) \<Longrightarrow> safe I (andThen m f)"
  unfolding safe_def andThen_def by (fastforce split: prod.splits sum.splits)

lemma safe_catching [safe_intros]: "safe I m \<Longrightarrow> (\<And>e. safe I (h e)) \<Longrightarrow> safe I (catching m h)"
  unfolding safe_def catching_def by (fastforce split: prod.splits sum.splits)

lemma safe_issue: "polite I drv \<Longrightarrow> safe I q \<Longrightarrow> safe I (issue drv k q)"
  unfolding safe_def issue_def polite_def meanwhile_def by (auto split: option.splits)

lemma safe_fetch [safe_intros]: "polite I drv \<Longrightarrow> safe I (fetch drv k f)"
  unfolding fetch_def by (rule safe_issue) (auto simp: safe_def)

lemma safe_put [safe_intros]:
  "polite I drv \<Longrightarrow> (\<And>s s' a. I s \<Longrightarrow> g s = Inr (s', a) \<Longrightarrow> I s') \<Longrightarrow> safe I (put drv k g)"
  unfolding put_def by (rule safe_issue) (auto simp: safe_def split: sum.splits)

lemma safe_atomically [safe_intros]: "safe I m \<Longrightarrow> safe I (atomically m)"
  unfolding safe_def atomically_def by (fastforce split: prod.splits sum.splits)

lemma safe_split [safe_intros]:
  "(p \<Longrightarrow> safe I m) \<Longrightarrow> (\<not> p \<Longrightarrow> safe I n) \<Longrightarrow> safe I (if p then m else n)"
  "(x = None \<Longrightarrow> safe I m) \<Longrightarrow> (\<And>a. x = Some a \<Longrightarrow> safe I (f a)) \<Longrightarrow> safe I (case x of None \<Rightarrow> m | Some a \<Rightarrow> f a)"
  by (auto split: option.splits)

text \<open>What a read answered held in some state that satisfies the invariant.\<close>

lemma safe_fetch_then [safe_intros]:
  assumes "polite I drv" "\<And>s. I s \<Longrightarrow> safe I (g (f s))"
  shows "safe I (andThen (fetch drv k f) g)"
proof (rule safeI)
  fix w :: "('a, 'c) store" assume inv: "I (base w)" "I (mine w)"
  let ?w = "meanwhile drv k w"
  have inv': "I (base ?w)" "I (mine ?w)" using assms(1) inv by (auto simp: meanwhile_def polite_def)
  then show "I (base (snd (andThen (fetch drv k f) g w))) \<and> I (mine (snd (andThen (fetch drv k f) g w)))"
    using assms(2) [OF inv'(2)] unfolding safe_def
    by (auto simp: andThen_def fetch_def issue_def split: option.splits)
qed

lemma safe_need_then [safe_intros]:
  "(\<And>a. x = Some a \<Longrightarrow> safe I (f a)) \<Longrightarrow> safe I (andThen (need x e) f)"
  by (cases x) (auto simp: safe_def andThen_def act_run)

lemma safe_check_then [safe_intros]:
  "(ok \<Longrightarrow> safe I (f ())) \<Longrightarrow> safe I (andThen (check ok e) f)"
  by (cases ok) (auto simp: safe_def andThen_def act_run)

lemma leaves_safe: "safe I m \<Longrightarrow> I s \<Longrightarrow> I (leaves m s)"
  unfolding safe_def leaves_def answer_def
  by (auto split: prod.splits) (metis snd_conv store.select_convs(1,2))

end
