(* ===== verification/StaffPolicy.thy ===== *)
theory StaffPolicy
  imports Prelude
begin

text \<open>
  \<open>src/src/system-users/system-users.policy.ts\<close>, the authorization matrix of the back office:
  pure decisions over the actor, the target and the invariant-bearing fields of a patch.
  \<open>staff_message\<close> lists the message constants of the back-office services. The lemmas say what a decision rules out, whatever the roles are.
\<close>

datatype staff_message =
    CANNOT_CHANGE_OWN_ROLE | CANNOT_CHANGE_OWN_ACTIVE_STATUS | CANNOT_DELETE_OWN_ACCOUNT
  | ONLY_SUPER_ADMIN_MAY_CHANGE_ROLE | ADMIN_MAY_ONLY_MODIFY_VIEWER | ONLY_SUPER_ADMIN_MAY_DELETE
  | INSUFFICIENT_ROLE | CANNOT_RESET_OWN_PASSWORD | CANNOT_MANAGE_OWN_CREATOR
  | CANNOT_REVOKE_OWN_SESSIONS
  | SYSTEM_USER_NOT_FOUND | LAST_SUPER_ADMIN | USER_NOT_DELETED | CONCURRENT_MODIFICATION
  | EMAIL_TAKEN | INVALID_DEPARTMENT_OPTION | INVALID_PERSONNEL_ROLE
  | DELETED_FILTER_IS_SUPER_ADMIN_ONLY
  | OPTION_NOT_FOUND | OPTION_NAME_TAKEN | TOMBSTONE_ROW_MISSING
  | VENUE_NOT_FOUND_HERE | VENUE_NAME_TAKEN | INVALID_VENUE_TYPE | INVALID_AMENITY
  | CLOSE_REASON_REQUIRED | VENUE_ALREADY_IN_STATE | INVALID_PHOTO_URL

record staff_actor =
  sa_id :: string
  sa_role :: system_role
  sa_createdById :: "string option"

record staff_target =
  ta_id :: string
  ta_role :: system_role

text \<open>\<open>{ allowed: true } | { allowed: false; reason }\<close>.\<close>

datatype policy_result = Allowed | Denied staff_message

definition mayNotManageOwnCreator :: "staff_actor \<Rightarrow> staff_target \<Rightarrow> bool" where
  "mayNotManageOwnCreator actor target \<longleftrightarrow> sa_createdById actor = Some (ta_id target)"

definition mayUseSystemReservedOptions :: "staff_actor \<Rightarrow> bool" where
  "mayUseSystemReservedOptions actor \<longleftrightarrow> sa_role actor = SUPER_ADMIN"

definition canPatch ::
  "staff_actor \<Rightarrow> staff_target \<Rightarrow> system_role option \<Rightarrow> bool option \<Rightarrow> policy_result"
where
  "canPatch actor target role isActive =
     (if mayNotManageOwnCreator actor target then Denied CANNOT_MANAGE_OWN_CREATOR
      else if sa_id actor = ta_id target \<and> role \<noteq> None then Denied CANNOT_CHANGE_OWN_ROLE
      else if sa_id actor = ta_id target \<and> isActive \<noteq> None then Denied CANNOT_CHANGE_OWN_ACTIVE_STATUS
      else if role \<noteq> None \<and> sa_role actor \<noteq> SUPER_ADMIN then Denied ONLY_SUPER_ADMIN_MAY_CHANGE_ROLE
      else (case sa_role actor of
              SUPER_ADMIN \<Rightarrow> Allowed
            | ADMIN \<Rightarrow> if ta_role target = VIEWER \<or> sa_id actor = ta_id target then Allowed
                       else Denied ADMIN_MAY_ONLY_MODIFY_VIEWER
            | VIEWER \<Rightarrow> Denied INSUFFICIENT_ROLE))"

definition canDelete :: "staff_actor \<Rightarrow> staff_target \<Rightarrow> policy_result" where
  "canDelete actor target =
     (if sa_id actor = ta_id target then Denied CANNOT_DELETE_OWN_ACCOUNT
      else if mayNotManageOwnCreator actor target then Denied CANNOT_MANAGE_OWN_CREATOR
      else if sa_role actor \<noteq> SUPER_ADMIN then Denied ONLY_SUPER_ADMIN_MAY_DELETE
      else Allowed)"

definition canResetPassword :: "staff_actor \<Rightarrow> staff_target \<Rightarrow> policy_result" where
  "canResetPassword actor target =
     (if sa_id actor = ta_id target then Denied CANNOT_RESET_OWN_PASSWORD
      else if mayNotManageOwnCreator actor target then Denied CANNOT_MANAGE_OWN_CREATOR
      else if sa_role actor \<noteq> SUPER_ADMIN then Denied INSUFFICIENT_ROLE
      else Allowed)"

definition canRevokeSessions :: "staff_actor \<Rightarrow> string \<Rightarrow> policy_result" where
  "canRevokeSessions actor targetId =
     (if sa_id actor = targetId then Denied CANNOT_REVOKE_OWN_SESSIONS
      else if sa_role actor \<noteq> SUPER_ADMIN then Denied INSUFFICIENT_ROLE
      else Allowed)"

definition mayReadSystemTelemetry :: "staff_actor \<Rightarrow> bool" where
  "mayReadSystemTelemetry actor \<longleftrightarrow> sa_role actor = SUPER_ADMIN"

text \<open>What an allowed patch implies.\<close>

lemma canPatch_allowed:
  assumes "canPatch actor target role isActive = Allowed"
  shows "sa_createdById actor \<noteq> Some (ta_id target)"
    and "sa_id actor = ta_id target \<Longrightarrow> role = None \<and> isActive = None"
    and "role \<noteq> None \<Longrightarrow> sa_role actor = SUPER_ADMIN"
    and "sa_role actor \<noteq> VIEWER"
    and "sa_role actor = ADMIN \<Longrightarrow> ta_role target = VIEWER \<or> sa_id actor = ta_id target"
  using assms
  by (auto simp: canPatch_def mayNotManageOwnCreator_def split: if_splits system_role.splits)

lemma canDelete_allowed:
  assumes "canDelete actor target = Allowed"
  shows "sa_id actor \<noteq> ta_id target" "sa_createdById actor \<noteq> Some (ta_id target)" "sa_role actor = SUPER_ADMIN"
  using assms by (auto simp: canDelete_def mayNotManageOwnCreator_def split: if_splits)

lemma canResetPassword_allowed:
  assumes "canResetPassword actor target = Allowed"
  shows "sa_id actor \<noteq> ta_id target" "sa_createdById actor \<noteq> Some (ta_id target)" "sa_role actor = SUPER_ADMIN"
  using assms by (auto simp: canResetPassword_def mayNotManageOwnCreator_def split: if_splits)

end
