(* ===== verification/OfficeDb.thy ===== *)
theory OfficeDb
  imports Tx StaffPolicy
begin

text \<open>
  The tables behind the back office's own records, with the Redis cache of their lists: staff
  accounts, the two registration options (departments and personnel roles), LINE registrations as
  holders of options, venue types, amenities, venues with their photos and amenity ticks. Rows
  follow \<open>src/prisma/schema.prisma\<close>. \<open>Department\<close>, \<open>PersonnelRole\<close> and \<open>VenueType\<close> have
  the same columns, so one record serves the three. Instants keep the DTOs' \<open>toISOString()\<close>
  texts apart exactly as the instants do.
\<close>

subsection \<open>Rows\<close>

record system_user =
  su_id :: string
  su_email :: string
  su_passwordHash :: string
  su_firstName :: string
  su_lastName :: string
  su_role :: system_role
  su_mustChangePassword :: bool
  su_departmentId :: int
  su_personnelRoleId :: int
  su_phoneNumber :: "string option"
  su_profilePictureUrl :: "string option"
  su_isActive :: bool
  su_lastLoginAt :: "time option"
  su_deletedAt :: "time option"
  su_createdById :: "string option"
  su_lineUserId :: "string option"
  su_createdAt :: time
  su_updatedAt :: time

record option_row =
  op_id :: int
  op_name :: string
  op_isSystemReserved :: bool
  op_createdAt :: time
  op_updatedAt :: time
  op_deletedAt :: "time option"

record holder_row =
  hr_id :: string
  hr_departmentId :: int
  hr_personnelRoleId :: int
  hr_deletedAt :: "time option"

record amenity_row =
  ay_id :: int
  ay_name :: string
  ay_createdAt :: time
  ay_updatedAt :: time
  ay_deletedAt :: "time option"

record venue_row =
  vn_id :: string
  vn_name :: string
  vn_venueTypeId :: int
  vn_capacity :: int
  vn_location :: "string option"
  vn_description :: "string option"
  vn_isOpen :: bool
  vn_closedReason :: "string option"
  vn_createdAt :: time
  vn_updatedAt :: time
  vn_deletedAt :: "time option"

record photo_row =
  vp_id :: string
  vp_venueId :: string
  vp_url :: string
  vp_position :: nat

text \<open>\<open>OptionResponse\<close>, \<open>VenueTypeResponseDto\<close> and \<open>AmenityResponseDto\<close>: one shape, of
  which the last two leave the split of the holder count out.\<close>

record option_dto =
  od_id :: int
  od_name :: string
  od_isSystemReserved :: bool
  od_createdAt :: time
  od_updatedAt :: time
  od_staffCount :: nat
  od_registrationCount :: nat
  od_holderCount :: nat
  od_isFallback :: bool

record office =
  staff :: "system_user list"
  department_rows :: "option_row list"
  personnel_roles :: "option_row list"
  holders :: "holder_row list"
  type_rows :: "option_row list"
  amenity_rows :: "amenity_row list"
  venue_rows :: "venue_row list"
  photo_rows :: "photo_row list"
  ticks :: "(string \<times> int) list"
  cache :: "string \<Rightarrow> option_dto list option"

subsection \<open>What the application gets from outside\<close>

text \<open>
  The driver, the clock, new keys, collation, the case-insensitive match, lower-casing, the
  password functions, the state of the Redis client, the bucket's public address and whether a
  copy in it succeeds, and the driver's error objects.
\<close>

record office_env = "office driver" +
  now :: "nat \<Rightarrow> time"
  fresh_id :: "nat \<Rightarrow> string"
  fresh_no :: "nat \<Rightarrow> int"
  fresh_photo_id :: "nat \<Rightarrow> nat \<Rightarrow> string"
  collation :: "string \<Rightarrow> string \<Rightarrow> int"
  contains_ci :: "string \<Rightarrow> string \<Rightarrow> bool"
  lower_case :: "string \<Rightarrow> string"
  temporary_password :: string
  password_hash :: "string \<Rightarrow> string"
  redis_ready :: "nat \<Rightarrow> bool"
  public_base_url :: "string option"
  copy_succeeds :: "string \<Rightarrow> string \<Rightarrow> bool"
  unique_error :: js_error
  missing_error :: js_error

datatype office_event =
    VenueClosed string string string "string \<times> string"
  | ObjectDeleted string
  | ObjectCopied string string

type_synonym 'a office_act = "(office, office_event, staff_message, 'a) act"

subsection \<open>Reading and writing rows\<close>

definition first_row :: "('a \<Rightarrow> bool) \<Rightarrow> 'a list \<Rightarrow> 'a option" where
  "first_row p xs = List.find p xs"

definition count_where :: "('a \<Rightarrow> bool) \<Rightarrow> 'a list \<Rightarrow> nat" where
  "count_where p xs = length (filter p xs)"

definition set_where :: "('a \<Rightarrow> bool) \<Rightarrow> ('a \<Rightarrow> 'a) \<Rightarrow> 'a list \<Rightarrow> 'a list" where
  "set_where p f xs = map (\<lambda>x. if p x then f x else x) xs"

lemma first_row_Some: "first_row p xs = Some x \<Longrightarrow> x \<in> set xs \<and> p x"
  by (auto simp: first_row_def find_Some_iff)

lemma first_row_None: "first_row p xs = None \<longleftrightarrow> (\<forall>x \<in> set xs. \<not> p x)"
  by (auto simp: first_row_def find_None_iff)

lemma length_set_where [simp]: "length (set_where p f xs) = length xs"
  by (simp add: set_where_def)

lemma set_set_where: "set (set_where p f xs) = {if p x then f x else x | x. x \<in> set xs}"
  by (auto simp: set_where_def)

lemma map_set_where: "(\<And>x. p x \<Longrightarrow> g (f x) = g x) \<Longrightarrow> map g (set_where p f xs) = map g xs"
  by (simp add: set_where_def)

text \<open>The partial unique index \<open>WHERE deletedAt IS NULL\<close> on the name of an option.\<close>

definition active_names :: "option_row list \<Rightarrow> string list" where
  "active_names rows = map op_name (filter (\<lambda>r. op_deletedAt r = None) rows)"

definition names_unique :: "option_row list \<Rightarrow> bool" where
  "names_unique rows \<longleftrightarrow> distinct (active_names rows)"

subsection \<open>The cache\<close>

text \<open>\<open>getJson\<close>, \<open>setJson\<close>, \<open>del\<close> of \<open>src/src/redis/redis.service.ts\<close>: none of them throws;
  an outage is a miss, a skipped fill, a skipped drop.\<close>

definition getJson :: "office_env \<Rightarrow> nat \<Rightarrow> string \<Rightarrow> option_dto list option office_act" where
  "getJson env k key = (\<lambda>w. let w' = meanwhile env k w
     in (Inr (if redis_ready env k then cache (mine w') key else None), w'))"

definition with_cache :: "((string \<Rightarrow> option_dto list option) \<Rightarrow> (string \<Rightarrow> option_dto list option)) \<Rightarrow> office \<Rightarrow> office" where
  "with_cache f s = s\<lparr>cache := f (cache s)\<rparr>"

lemma with_cache_tables [simp]:
  "staff (with_cache f s) = staff s" "department_rows (with_cache f s) = department_rows s"
  "personnel_roles (with_cache f s) = personnel_roles s" "holders (with_cache f s) = holders s"
  "type_rows (with_cache f s) = type_rows s" "amenity_rows (with_cache f s) = amenity_rows s"
  "venue_rows (with_cache f s) = venue_rows s" "photo_rows (with_cache f s) = photo_rows s"
  "ticks (with_cache f s) = ticks s"
  by (simp_all add: with_cache_def)

definition on_cache ::
  "office_env \<Rightarrow> nat \<Rightarrow> ((string \<Rightarrow> option_dto list option) \<Rightarrow> (string \<Rightarrow> option_dto list option)) \<Rightarrow> unit office_act"
where
  "on_cache env k f = (\<lambda>w. let w' = meanwhile env k w
     in (Inr (), if redis_ready env k then w'\<lparr>base := with_cache f (base w'), mine := with_cache f (mine w')\<rparr> else w'))"

definition setJson :: "office_env \<Rightarrow> nat \<Rightarrow> string \<Rightarrow> option_dto list \<Rightarrow> unit office_act" where
  "setJson env k key value = on_cache env k (\<lambda>c. c(key := Some value))"

definition redis_del :: "office_env \<Rightarrow> nat \<Rightarrow> string list \<Rightarrow> unit office_act" where
  "redis_del env k keys = on_cache env k (\<lambda>c key. if key \<in> set keys then None else c key)"

datatype option_model = Department | PersonnelRole

definition optionListKey :: "option_model \<Rightarrow> bool \<Rightarrow> string" where
  "optionListKey model includeReserved =
     ''opt:'' @ (case model of Department \<Rightarrow> ''dept'' | PersonnelRole \<Rightarrow> ''role'') @ '':'' @
     (if includeReserved then ''reserved'' else ''plain'')"

definition OPTION_LIST_KEYS :: "string list" where
  "OPTION_LIST_KEYS = [optionListKey Department False, optionListKey Department True,
     optionListKey PersonnelRole False, optionListKey PersonnelRole True]"

definition LIFF_OPTIONS_KEY :: string where
  "LIFF_OPTIONS_KEY = ''opt:liff''"

definition OPTION_CACHE_KEYS :: "string list" where
  "OPTION_CACHE_KEYS = OPTION_LIST_KEYS @ [LIFF_OPTIONS_KEY]"

definition venueTypeListKey :: "bool \<Rightarrow> string" where
  "venueTypeListKey includeReserved = ''opt:vtype:'' @ (if includeReserved then ''reserved'' else ''plain'')"

definition VENUE_TYPE_CACHE_KEYS :: "string list" where
  "VENUE_TYPE_CACHE_KEYS = [venueTypeListKey False, venueTypeListKey True]"

definition AMENITY_LIST_KEY :: string where
  "AMENITY_LIST_KEY = ''opt:amenity''"

definition VENUE_WRITE_CACHE_KEYS :: "string list" where
  "VENUE_WRITE_CACHE_KEYS = VENUE_TYPE_CACHE_KEYS @ [AMENITY_LIST_KEY]"

definition TOMBSTONE_DEPARTMENT_NAME :: string where
  "TOMBSTONE_DEPARTMENT_NAME = [CHR 0xE0, CHR 0xB9, CHR 0x84, CHR 0xE0, CHR 0xB8, CHR 0xA1, CHR 0xE0, CHR 0xB9, CHR 0x88,
      CHR 0xE0, CHR 0xB8, CHR 0x9E, CHR 0xE0, CHR 0xB8, CHR 0x9A, CHR 0xE0, CHR 0xB8, CHR
      0x81, CHR 0xE0, CHR 0xB8, CHR 0xA5, CHR 0xE0, CHR 0xB8, CHR 0xB8, CHR 0xE0, CHR 0xB9,
      CHR 0x88, CHR 0xE0, CHR 0xB8, CHR 0xA1, CHR 0x2F, CHR 0xE0, CHR 0xB8, CHR 0x9D, CHR
      0xE0, CHR 0xB9, CHR 0x88, CHR 0xE0, CHR 0xB8, CHR 0xB2, CHR 0xE0, CHR 0xB8, CHR 0xA2]"

definition TOMBSTONE_PERSONNEL_ROLE_NAME :: string where
  "TOMBSTONE_PERSONNEL_ROLE_NAME = [CHR 0xE0, CHR 0xB9, CHR 0x84, CHR 0xE0, CHR 0xB8, CHR 0xA1, CHR 0xE0, CHR 0xB9, CHR 0x88,
      CHR 0xE0, CHR 0xB8, CHR 0x9E, CHR 0xE0, CHR 0xB8, CHR 0x9A, CHR 0xE0, CHR 0xB8, CHR
      0x95, CHR 0xE0, CHR 0xB8, CHR 0xB3, CHR 0xE0, CHR 0xB9, CHR 0x81, CHR 0xE0, CHR 0xB8,
      CHR 0xAB, CHR 0xE0, CHR 0xB8, CHR 0x99, CHR 0xE0, CHR 0xB9, CHR 0x88, CHR 0xE0, CHR
      0xB8, CHR 0x87]"

definition TOMBSTONE_VENUE_TYPE :: string where
  "TOMBSTONE_VENUE_TYPE = [CHR 0xE0, CHR 0xB9, CHR 0x84, CHR 0xE0, CHR 0xB8, CHR 0xA1, CHR 0xE0, CHR 0xB9, CHR 0x88,
      CHR 0xE0, CHR 0xB8, CHR 0x9E, CHR 0xE0, CHR 0xB8, CHR 0x9A, CHR 0xE0, CHR 0xB8, CHR
      0x9B, CHR 0xE0, CHR 0xB8, CHR 0xA3, CHR 0xE0, CHR 0xB8, CHR 0xB0, CHR 0xE0, CHR 0xB9,
      CHR 0x80, CHR 0xE0, CHR 0xB8, CHR 0xA0, CHR 0xE0, CHR 0xB8, CHR 0x97, CHR 0xE0, CHR
      0xB8, CHR 0xAA, CHR 0xE0, CHR 0xB8, CHR 0x96, CHR 0xE0, CHR 0xB8, CHR 0xB2, CHR 0xE0,
      CHR 0xB8, CHR 0x99, CHR 0xE0, CHR 0xB8, CHR 0x97, CHR 0xE0, CHR 0xB8, CHR 0xB5, CHR
      0xE0, CHR 0xB9, CHR 0x88]"

end
