(* ===== verification/Staff.thy ===== *)
theory Staff
  imports OfficeDb
begin

text \<open>
  \<open>SystemUsersService\<close> of \<open>src/src/system-users/system-users.service.ts\<close>: creating,
  listing, patching, soft-deleting and restoring staff accounts, and issuing temporary passwords.
  A statement of an operation has its own number, as everywhere; the two writes that can reduce
  the number of active super admins run at Serializable.
\<close>

subsection \<open>The public view of an account\<close>

record system_user_dto =
  ud_id :: string
  ud_email :: string
  ud_firstName :: string
  ud_lastName :: string
  ud_role :: system_role
  ud_department :: "(int \<times> string) option"
  ud_personnelRole :: "(int \<times> string) option"
  ud_mustChangePassword :: bool
  ud_phoneNumber :: "string option"
  ud_profilePictureUrl :: "string option"
  ud_isActive :: bool
  ud_lineUserId :: "string option"
  ud_lastLoginAt :: "time option"
  ud_createdAt :: time
  ud_createdBy :: "(string \<times> string \<times> string) option"
  ud_updatedAt :: time

definition option_ref :: "option_row list \<Rightarrow> int \<Rightarrow> (int \<times> string) option" where
  "option_ref rows i = map_option (\<lambda>r. (op_id r, op_name r)) (first_row (\<lambda>r. op_id r = i) rows)"

definition creator_ref :: "system_user list \<Rightarrow> string option \<Rightarrow> (string \<times> string \<times> string) option" where
  "creator_ref users i = (case i of None \<Rightarrow> None | Some u \<Rightarrow>
     map_option (\<lambda>x. (su_id x, su_firstName x, su_lastName x)) (first_row (\<lambda>x. su_id x = u) users))"

definition toSystemUserDto :: "office \<Rightarrow> system_user \<Rightarrow> system_user_dto" where
  "toSystemUserDto s row =
     \<lparr>ud_id = su_id row, ud_email = su_email row, ud_firstName = su_firstName row,
      ud_lastName = su_lastName row, ud_role = su_role row,
      ud_department = option_ref (department_rows s) (su_departmentId row),
      ud_personnelRole = option_ref (personnel_roles s) (su_personnelRoleId row),
      ud_mustChangePassword = su_mustChangePassword row, ud_phoneNumber = su_phoneNumber row,
      ud_profilePictureUrl = su_profilePictureUrl row, ud_isActive = su_isActive row,
      ud_lineUserId = su_lineUserId row, ud_lastLoginAt = su_lastLoginAt row,
      ud_createdAt = su_createdAt row, ud_createdBy = creator_ref (staff s) (su_createdById row),
      ud_updatedAt = su_updatedAt row\<rparr>"

subsection \<open>Shared steps\<close>

definition assignable :: "bool \<Rightarrow> int \<Rightarrow> option_row \<Rightarrow> bool" where
  "assignable allowReserved i r \<longleftrightarrow> op_id r = i \<and> op_deletedAt r = None \<and> (allowReserved \<or> \<not> op_isSystemReserved r)"

definition assert_option ::
  "office_env \<Rightarrow> nat \<Rightarrow> (office \<Rightarrow> option_row list) \<Rightarrow> int option \<Rightarrow> bool \<Rightarrow> staff_message \<Rightarrow> unit office_act"
where
  "assert_option env k rows i allowReserved e = (case i of
       None \<Rightarrow> done_with ()
     | Some n \<Rightarrow> andThen (fetch env k (\<lambda>s. first_row (assignable allowReserved n) (rows s)))
         (\<lambda>ok. check (ok \<noteq> None) (BadRequest e)))"

definition assertOptionsAssignable ::
  "office_env \<Rightarrow> nat \<Rightarrow> int option \<Rightarrow> int option \<Rightarrow> bool \<Rightarrow> unit office_act"
where
  "assertOptionsAssignable env k departmentId personnelRoleId allowReserved =
     andThen (assert_option env k department_rows departmentId allowReserved INVALID_DEPARTMENT_OPTION) (\<lambda>_.
     assert_option env (k + 1) personnel_roles personnelRoleId allowReserved INVALID_PERSONNEL_ROLE)"

definition ACTIVE_SUPER_ADMIN :: "system_user \<Rightarrow> bool" where
  "ACTIVE_SUPER_ADMIN u \<longleftrightarrow> su_role u = SUPER_ADMIN \<and> su_isActive u \<and> su_deletedAt u = None"

definition assertActiveSuperAdminRemains :: "office_env \<Rightarrow> nat \<Rightarrow> unit office_act" where
  "assertActiveSuperAdminRemains env k =
     andThen (fetch env k (\<lambda>s. count_where ACTIVE_SUPER_ADMIN (staff s)))
       (\<lambda>remaining. check (remaining \<noteq> 0) (Conflict LAST_SUPER_ADMIN))"

definition live_user :: "string \<Rightarrow> office \<Rightarrow> system_user option" where
  "live_user i s = first_row (\<lambda>u. su_id u = i \<and> su_deletedAt u = None) (staff s)"

definition target_of :: "system_user \<Rightarrow> staff_target" where
  "target_of u = \<lparr>ta_id = su_id u, ta_role = su_role u\<rparr>"

definition permit :: "policy_result \<Rightarrow> unit office_act" where
  "permit verdict = (case verdict of Allowed \<Rightarrow> done_with () | Denied r \<Rightarrow> stop_with (Refused (Forbidden r)))"

text \<open>\<open>update({ where: { id } })\<close> refuses a missing row; it answers with the row as written.\<close>

definition update_user ::
  "office_env \<Rightarrow> string \<Rightarrow> (system_user \<Rightarrow> system_user) \<Rightarrow> office \<Rightarrow> js_error + (office \<times> system_user_dto)"
where
  "update_user env i f s = (case first_row (\<lambda>u. su_id u = i) (staff s) of
       None \<Rightarrow> Inl (missing_error env)
     | Some u \<Rightarrow> (let s' = s\<lparr>staff := set_where (\<lambda>x. su_id x = i) f (staff s)\<rparr>
                  in Inr (s', toSystemUserDto s' (f u))))"

text \<open>\<open>mapTransactionError\<close> of \<open>src/src/common/prisma-tx.util.ts\<close>.\<close>

definition mapTransactionError :: "staff_message stop \<Rightarrow> staff_message stop" where
  "mapTransactionError e = (case e of
       Refused m \<Rightarrow> Refused m
     | Thrown err \<Rightarrow> if isWriteConflict err then Refused (Conflict CONCURRENT_MODIFICATION) else Thrown err)"

definition dropOptionCounts :: "office_env \<Rightarrow> nat \<Rightarrow> unit office_act" where
  "dropOptionCounts env k = redis_del env k OPTION_LIST_KEYS"

subsection \<open>Creating, issuing passwords\<close>

record create_user_dto =
  cu_email :: string
  cu_firstName :: string
  cu_lastName :: string
  cu_role :: "system_role option"
  cu_departmentId :: int
  cu_personnelRoleId :: int
  cu_phoneNumber :: "string option"
  cu_profilePictureUrl :: "string option"

definition normaliseEmail :: "office_env \<Rightarrow> string \<Rightarrow> string" where
  "normaliseEmail env value = lower_case env (js_trim value)"

definition new_user :: "office_env \<Rightarrow> nat \<Rightarrow> staff_actor \<Rightarrow> create_user_dto \<Rightarrow> string \<Rightarrow> system_user" where
  "new_user env k actor dto digest =
     \<lparr>su_id = fresh_id env k, su_email = normaliseEmail env (cu_email dto), su_passwordHash = digest,
      su_firstName = cu_firstName dto, su_lastName = cu_lastName dto,
      su_role = (case cu_role dto of None \<Rightarrow> VIEWER | Some r \<Rightarrow> r), su_mustChangePassword = True,
      su_departmentId = cu_departmentId dto, su_personnelRoleId = cu_personnelRoleId dto,
      su_phoneNumber = cu_phoneNumber dto, su_profilePictureUrl = cu_profilePictureUrl dto,
      su_isActive = True, su_lastLoginAt = None, su_deletedAt = None, su_createdById = Some (sa_id actor),
      su_lineUserId = None, su_createdAt = now env k, su_updatedAt = now env k\<rparr>"

definition insert_user :: "office_env \<Rightarrow> system_user \<Rightarrow> office \<Rightarrow> js_error + (office \<times> system_user_dto)" where
  "insert_user env u s =
     (if su_id u \<in> su_id ` set (staff s) \<or> su_email u \<in> su_email ` set (staff s) then Inl (unique_error env)
      else (let s' = s\<lparr>staff := staff s @ [u]\<rparr> in Inr (s', toSystemUserDto s' u)))"

definition email_taken :: "staff_message stop \<Rightarrow> staff_message stop" where
  "email_taken e = (case e of
       Thrown err \<Rightarrow> if isUniqueViolation err then Refused (Conflict EMAIL_TAKEN) else Thrown err
     | Refused m \<Rightarrow> Refused m)"

definition create_user :: "office_env \<Rightarrow> staff_actor \<Rightarrow> create_user_dto \<Rightarrow> (system_user_dto \<times> string) office_act" where
  "create_user env actor dto =
     (let digest = password_hash env (temporary_password env) in
      catching
        (andThen (atomically (
           andThen (assertOptionsAssignable env 0 (Some (cu_departmentId dto)) (Some (cu_personnelRoleId dto))
             (mayUseSystemReservedOptions actor)) (\<lambda>_.
           put env 2 (insert_user env (new_user env 2 actor dto digest))))) (\<lambda>created.
         andThen (dropOptionCounts env 3) (\<lambda>_. done_with (created, temporary_password env))))
        (\<lambda>e. stop_with (email_taken e)))"

definition resetPassword :: "office_env \<Rightarrow> staff_actor \<Rightarrow> string \<Rightarrow> (system_user_dto \<times> string) office_act" where
  "resetPassword env actor i =
     (let digest = password_hash env (temporary_password env) in
      andThen (atomically (
        andThen (fetch env 0 (live_user i)) (\<lambda>found.
        andThen (need found (NotFound SYSTEM_USER_NOT_FOUND)) (\<lambda>target.
        andThen (permit (canResetPassword actor (target_of target))) (\<lambda>_.
        put env 1 (update_user env (su_id target) (\<lambda>u. u\<lparr>su_passwordHash := digest,
          su_mustChangePassword := True, su_updatedAt := now env 1\<rparr>)))))))
        (\<lambda>dto. done_with (dto, temporary_password env)))"

subsection \<open>Reading\<close>

datatype staff_status = SS_ACTIVE | SS_PENDING | SS_SUSPENDED | SS_DELETED

definition statusFilter :: "staff_status option \<Rightarrow> system_user \<Rightarrow> bool" where
  "statusFilter status u = (case status of
       Some SS_DELETED \<Rightarrow> su_deletedAt u \<noteq> None
     | Some SS_SUSPENDED \<Rightarrow> su_deletedAt u = None \<and> \<not> su_isActive u
     | Some SS_PENDING \<Rightarrow> su_deletedAt u = None \<and> su_isActive u \<and> su_mustChangePassword u
     | Some SS_ACTIVE \<Rightarrow> su_deletedAt u = None \<and> su_isActive u \<and> \<not> su_mustChangePassword u
     | None \<Rightarrow> su_deletedAt u = None)"

record staff_query =
  sq_page :: nat
  sq_limit :: nat
  sq_search :: "string option"
  sq_role :: "system_role option"
  sq_status :: "staff_status option"

definition staff_term :: "staff_query \<Rightarrow> string" where
  "staff_term q = (case sq_search q of None \<Rightarrow> [] | Some t \<Rightarrow> js_trim t)"

definition staff_where :: "office_env \<Rightarrow> staff_query \<Rightarrow> system_user \<Rightarrow> bool" where
  "staff_where env q u \<longleftrightarrow> statusFilter (sq_status q) u \<and>
     (case sq_role q of None \<Rightarrow> True | Some r \<Rightarrow> su_role u = r) \<and>
     (let t = staff_term q in t = [] \<or> contains_ci env t (su_firstName u) \<or>
        contains_ci env t (su_lastName u) \<or> contains_ci env t (su_email u) \<or>
        (case su_phoneNumber u of None \<Rightarrow> False | Some n \<Rightarrow> contains_ci env t n))"

text \<open>\<open>orderBy: [{ createdAt: 'desc' }, { id: 'desc' }]\<close>.\<close>

definition newest_first :: "office_env \<Rightarrow> system_user \<Rightarrow> system_user \<Rightarrow> int" where
  "newest_first env a b = (if su_createdAt a \<noteq> su_createdAt b then su_createdAt b - su_createdAt a
     else collation env (su_id b) (su_id a))"

record staff_page =
  sp_data :: "system_user_dto list"
  sp_total :: nat
  sp_totalPages :: nat

text \<open>One \<open>RepeatableRead\<close> snapshot serves the rows and the count; \<open>Math.ceil(total / limit)\<close>.\<close>

definition staff_page_of :: "office_env \<Rightarrow> staff_query \<Rightarrow> office \<Rightarrow> staff_page" where
  "staff_page_of env q s =
     (let rows = js_sort (newest_first env) (filter (staff_where env q) (staff s));
          n = count_where (staff_where env q) (staff s)
      in \<lparr>sp_data = map (toSystemUserDto s) (take (sq_limit q) (drop ((sq_page q - 1) * sq_limit q) rows)),
          sp_total = n, sp_totalPages = (n + sq_limit q - 1) div sq_limit q\<rparr>)"

definition findManyPaginated :: "office_env \<Rightarrow> staff_query \<Rightarrow> system_role \<Rightarrow> staff_page office_act" where
  "findManyPaginated env q actorRole =
     andThen (check (\<not> (sq_status q = Some SS_DELETED \<and> actorRole \<noteq> SUPER_ADMIN))
       (Forbidden DELETED_FILTER_IS_SUPER_ADMIN_ONLY)) (\<lambda>_.
     fetch env 0 (staff_page_of env q))"

definition findOne :: "office_env \<Rightarrow> string \<Rightarrow> system_user_dto office_act" where
  "findOne env i =
     andThen (fetch env 0 (\<lambda>s. map_option (toSystemUserDto s) (live_user i s))) (\<lambda>row.
     need row (NotFound SYSTEM_USER_NOT_FOUND))"

subsection \<open>Patching, deleting, restoring\<close>

text \<open>\<open>undefined\<close> leaves a column alone; a nullable column distinguishes it from \<open>null\<close>.\<close>

record staff_patch =
  pa_firstName :: "string option"
  pa_lastName :: "string option"
  pa_departmentId :: "int option"
  pa_personnelRoleId :: "int option"
  pa_phoneNumber :: "string option option"
  pa_profilePictureUrl :: "string option option"
  pa_role :: "system_role option"
  pa_isActive :: "bool option"

definition given :: "'a option \<Rightarrow> 'a \<Rightarrow> 'a" where
  "given x old = (case x of None \<Rightarrow> old | Some a \<Rightarrow> a)"

definition patch_row :: "staff_patch \<Rightarrow> time \<Rightarrow> system_user \<Rightarrow> system_user" where
  "patch_row p at u = u\<lparr>su_firstName := given (pa_firstName p) (su_firstName u),
     su_lastName := given (pa_lastName p) (su_lastName u),
     su_departmentId := given (pa_departmentId p) (su_departmentId u),
     su_personnelRoleId := given (pa_personnelRoleId p) (su_personnelRoleId u),
     su_phoneNumber := given (pa_phoneNumber p) (su_phoneNumber u),
     su_profilePictureUrl := given (pa_profilePictureUrl p) (su_profilePictureUrl u),
     su_role := given (pa_role p) (su_role u), su_isActive := given (pa_isActive p) (su_isActive u),
     su_updatedAt := at\<rparr>"

definition touchesInvariant :: "staff_patch \<Rightarrow> bool" where
  "touchesInvariant p \<longleftrightarrow> pa_role p \<noteq> None \<or> pa_isActive p \<noteq> None"

definition update_work :: "staff_actor \<Rightarrow> string \<Rightarrow> staff_patch \<Rightarrow> office_env \<Rightarrow> system_user_dto office_act" where
  "update_work actor i p env =
     andThen (fetch env 0 (live_user i)) (\<lambda>found.
     andThen (need found (NotFound SYSTEM_USER_NOT_FOUND)) (\<lambda>target.
     andThen (permit (canPatch actor (target_of target) (pa_role p) (pa_isActive p))) (\<lambda>_.
     andThen (assertOptionsAssignable env 1 (pa_departmentId p) (pa_personnelRoleId p)
       (mayUseSystemReservedOptions actor)) (\<lambda>_.
     andThen (put env 3 (update_user env (su_id target) (patch_row p (now env 3)))) (\<lambda>updated.
     andThen (if touchesInvariant p then assertActiveSuperAdminRemains env 4 else done_with ()) (\<lambda>_.
     done_with updated))))))"

definition update_staff :: "office_env \<Rightarrow> staff_actor \<Rightarrow> string \<Rightarrow> staff_patch \<Rightarrow> system_user_dto office_act" where
  "update_staff env actor i p =
     catching
       (andThen (if touchesInvariant p then serializable env 5 (update_work actor i p)
                 else atomically (update_work actor i p env)) (\<lambda>updated.
        andThen (dropOptionCounts env 6) (\<lambda>_. done_with updated)))
       (\<lambda>e. stop_with (mapTransactionError e))"

definition delete_row :: "time \<Rightarrow> system_user \<Rightarrow> system_user" where
  "delete_row at u = u\<lparr>su_deletedAt := Some at, su_updatedAt := at\<rparr>"

definition softDelete_work :: "staff_actor \<Rightarrow> string \<Rightarrow> office_env \<Rightarrow> unit office_act" where
  "softDelete_work actor i env =
     andThen (fetch env 0 (live_user i)) (\<lambda>found.
     andThen (need found (NotFound SYSTEM_USER_NOT_FOUND)) (\<lambda>target.
     andThen (permit (canDelete actor (target_of target))) (\<lambda>_.
     andThen (put env 1 (update_user env (su_id target) (delete_row (now env 1)))) (\<lambda>_.
     assertActiveSuperAdminRemains env 2))))"

definition softDelete :: "office_env \<Rightarrow> staff_actor \<Rightarrow> string \<Rightarrow> unit office_act" where
  "softDelete env actor i =
     catching
       (andThen (serializable env 3 (softDelete_work actor i)) (\<lambda>_. dropOptionCounts env 4))
       (\<lambda>e. stop_with (mapTransactionError e))"

definition restore_row :: "time \<Rightarrow> system_user \<Rightarrow> system_user" where
  "restore_row at u = u\<lparr>su_deletedAt := None, su_updatedAt := at\<rparr>"

definition restore_staff :: "office_env \<Rightarrow> string \<Rightarrow> system_user_dto office_act" where
  "restore_staff env i =
     andThen (atomically (
       andThen (fetch env 0 (\<lambda>s. first_row (\<lambda>u. su_id u = i) (staff s))) (\<lambda>found.
       andThen (need found (NotFound SYSTEM_USER_NOT_FOUND)) (\<lambda>target.
       andThen (check (su_deletedAt target \<noteq> None) (Conflict USER_NOT_DELETED)) (\<lambda>_.
       put env 1 (update_user env (su_id target) (restore_row (now env 1)))))))) (\<lambda>dto.
     andThen (dropOptionCounts env 2) (\<lambda>_. done_with dto))"

text \<open>The caller's own profile picture: one statement, no transaction of its own.\<close>

definition set_picture :: "string option option \<Rightarrow> time \<Rightarrow> system_user \<Rightarrow> system_user" where
  "set_picture url at u = u\<lparr>su_profilePictureUrl := given url (su_profilePictureUrl u), su_updatedAt := at\<rparr>"

definition updateOwnProfile :: "office_env \<Rightarrow> string \<Rightarrow> string option option \<Rightarrow> system_user_dto office_act" where
  "updateOwnProfile env i url = atomically (put env 0 (update_user env i (set_picture url (now env 0))))"

definition setOwnAvatar :: "office_env \<Rightarrow> string \<Rightarrow> string \<Rightarrow> system_user_dto office_act" where
  "setOwnAvatar env i url = atomically (put env 0 (update_user env i (set_picture (Some (Some url)) (now env 0))))"

end
