(* ===== verification/Options.thy ===== *)
theory Options
  imports OfficeDb
begin

text \<open>
  \<open>OptionsService\<close> of \<open>src/src/options/options.service.ts\<close>: one service over the two tables
  \<open>Department\<close> and \<open>PersonnelRole\<close>, with the cached lists of \<open>src/src/redis/cache-keys.ts\<close>.
  Deleting an option moves its holders, in both populations and deleted ones included, to the
  reserved fallback row.
\<close>

definition option_rows :: "option_model \<Rightarrow> office \<Rightarrow> option_row list" where
  "option_rows model s = (case model of Department \<Rightarrow> department_rows s | PersonnelRole \<Rightarrow> personnel_roles s)"

definition with_option_rows :: "option_model \<Rightarrow> option_row list \<Rightarrow> office \<Rightarrow> office" where
  "with_option_rows model rows s = (case model of
       Department \<Rightarrow> s\<lparr>department_rows := rows\<rparr> | PersonnelRole \<Rightarrow> s\<lparr>personnel_roles := rows\<rparr>)"

definition user_option :: "option_model \<Rightarrow> system_user \<Rightarrow> int" where
  "user_option model u = (case model of Department \<Rightarrow> su_departmentId u | PersonnelRole \<Rightarrow> su_personnelRoleId u)"

definition holder_option :: "option_model \<Rightarrow> holder_row \<Rightarrow> int" where
  "holder_option model h = (case model of Department \<Rightarrow> hr_departmentId h | PersonnelRole \<Rightarrow> hr_personnelRoleId h)"

definition tombstoneName :: "option_model \<Rightarrow> string" where
  "tombstoneName model = (case model of Department \<Rightarrow> TOMBSTONE_DEPARTMENT_NAME
     | PersonnelRole \<Rightarrow> TOMBSTONE_PERSONNEL_ROLE_NAME)"

definition toOptionDto :: "option_model \<Rightarrow> office \<Rightarrow> option_row \<Rightarrow> option_dto" where
  "toOptionDto model s row =
     (let staffCount = count_where (\<lambda>u. user_option model u = op_id row \<and> su_deletedAt u = None) (staff s);
          registrationCount = count_where (\<lambda>h. holder_option model h = op_id row \<and> hr_deletedAt h = None) (holders s)
      in \<lparr>od_id = op_id row, od_name = op_name row, od_isSystemReserved = op_isSystemReserved row,
          od_createdAt = op_createdAt row, od_updatedAt = op_updatedAt row, od_staffCount = staffCount,
          od_registrationCount = registrationCount, od_holderCount = staffCount + registrationCount,
          od_isFallback = (op_isSystemReserved row \<and> op_name row = tombstoneName model)\<rparr>)"

text \<open>\<open>orderBy: { name: 'asc' }\<close> over the rows a view may show.\<close>

definition visible :: "bool \<Rightarrow> option_row \<Rightarrow> bool" where
  "visible includeReserved r \<longleftrightarrow> op_deletedAt r = None \<and> (includeReserved \<or> \<not> op_isSystemReserved r)"

definition by_name :: "office_env \<Rightarrow> option_row \<Rightarrow> option_row \<Rightarrow> int" where
  "by_name env a b = collation env (op_name a) (op_name b)"

definition option_view :: "office_env \<Rightarrow> option_model \<Rightarrow> bool \<Rightarrow> office \<Rightarrow> option_dto list" where
  "option_view env model includeReserved s =
     map (toOptionDto model s) (js_sort (by_name env) (filter (visible includeReserved) (option_rows model s)))"

text \<open>Cache-aside: a hit is answered, a miss is read and filled in.\<close>

definition cache_aside ::
  "office_env \<Rightarrow> string \<Rightarrow> (office \<Rightarrow> option_dto list) \<Rightarrow> option_dto list office_act"
where
  "cache_aside env key query =
     andThen (getJson env 0 key) (\<lambda>cached. case cached of
       Some v \<Rightarrow> done_with v
     | None \<Rightarrow> andThen (fetch env 1 query) (\<lambda>dto. andThen (setJson env 2 key dto) (\<lambda>_. done_with dto)))"

definition list_options :: "office_env \<Rightarrow> option_model \<Rightarrow> bool \<Rightarrow> option_dto list office_act" where
  "list_options env model includeReserved =
     cache_aside env (optionListKey model includeReserved) (option_view env model includeReserved)"

subsection \<open>Writing\<close>

definition new_option :: "office_env \<Rightarrow> nat \<Rightarrow> string \<Rightarrow> bool \<Rightarrow> option_row" where
  "new_option env k name reserved = \<lparr>op_id = fresh_no env k, op_name = name, op_isSystemReserved = reserved,
     op_createdAt = now env k, op_updatedAt = now env k, op_deletedAt = None\<rparr>"

text \<open>An insert or a rename the partial unique index refuses is a \<open>P2002\<close>.\<close>

definition insert_row :: "office_env \<Rightarrow> option_row \<Rightarrow> option_row list \<Rightarrow> js_error + option_row list" where
  "insert_row env r rows =
     (if op_id r \<in> op_id ` set rows \<or> \<not> names_unique (rows @ [r]) then Inl (unique_error env) else Inr (rows @ [r]))"

definition update_row :: "office_env \<Rightarrow> int \<Rightarrow> (option_row \<Rightarrow> option_row) \<Rightarrow> option_row list \<Rightarrow> js_error + (option_row list \<times> option_row)" where
  "update_row env i f rows = (case first_row (\<lambda>r. op_id r = i) rows of
       None \<Rightarrow> Inl (missing_error env)
     | Some r \<Rightarrow> (let rows' = set_where (\<lambda>x. op_id x = i) f rows
                  in if names_unique rows' then Inr (rows', f r) else Inl (unique_error env)))"

definition mapWriteError :: "staff_message \<Rightarrow> staff_message stop \<Rightarrow> staff_message stop" where
  "mapWriteError taken e = (case e of
       Thrown err \<Rightarrow> if isUniqueViolation err then Refused (Conflict taken) else Thrown err
     | Refused m \<Rightarrow> Refused m)"

definition create_option :: "office_env \<Rightarrow> option_model \<Rightarrow> string \<Rightarrow> option_dto office_act" where
  "create_option env model name =
     catching
       (andThen (atomically (put env 0 (\<lambda>s.
          case insert_row env (new_option env 0 name False) (option_rows model s) of
            Inl e \<Rightarrow> Inl e
          | Inr rows \<Rightarrow> (let s' = with_option_rows model rows s
                         in Inr (s', toOptionDto model s' (new_option env 0 name False)))))) (\<lambda>created.
        andThen (redis_del env 1 OPTION_CACHE_KEYS) (\<lambda>_. done_with created)))
       (\<lambda>e. stop_with (mapWriteError OPTION_NAME_TAKEN e))"

text \<open>A reserved row is not found, whoever asks.\<close>

definition ordinary_row :: "int \<Rightarrow> option_row list \<Rightarrow> option_row option" where
  "ordinary_row i rows = first_row (\<lambda>r. op_id r = i \<and> op_deletedAt r = None \<and> \<not> op_isSystemReserved r) rows"

definition rename_row :: "string \<Rightarrow> time \<Rightarrow> option_row \<Rightarrow> option_row" where
  "rename_row name at r = r\<lparr>op_name := name, op_updatedAt := at\<rparr>"

definition retire_row :: "time \<Rightarrow> option_row \<Rightarrow> option_row" where
  "retire_row at r = r\<lparr>op_deletedAt := Some at, op_updatedAt := at\<rparr>"

definition write_option ::
  "office_env \<Rightarrow> option_model \<Rightarrow> int \<Rightarrow> (option_row \<Rightarrow> option_row) \<Rightarrow> office \<Rightarrow> js_error + (office \<times> option_dto)"
where
  "write_option env model i f s = (case update_row env i f (option_rows model s) of
       Inl e \<Rightarrow> Inl e
     | Inr (rows, r) \<Rightarrow> (let s' = with_option_rows model rows s in Inr (s', toOptionDto model s' r)))"

definition update_option :: "office_env \<Rightarrow> option_model \<Rightarrow> int \<Rightarrow> string \<Rightarrow> option_dto office_act" where
  "update_option env model i name =
     andThen (fetch env 0 (\<lambda>s. ordinary_row i (option_rows model s))) (\<lambda>found.
     andThen (need found (NotFound OPTION_NOT_FOUND)) (\<lambda>existing.
     catching
       (andThen (atomically (put env 1 (write_option env model (op_id existing) (rename_row name (now env 1))))) (\<lambda>updated.
        andThen (redis_del env 2 OPTION_CACHE_KEYS) (\<lambda>_. done_with updated)))
       (\<lambda>e. stop_with (mapWriteError OPTION_NAME_TAKEN e))))"

definition tombstone_row :: "string \<Rightarrow> option_row list \<Rightarrow> option_row option" where
  "tombstone_row name rows = first_row (\<lambda>r. op_name r = name \<and> op_deletedAt r = None \<and> op_isSystemReserved r) rows"

definition resolveTombstoneId :: "office_env \<Rightarrow> nat \<Rightarrow> option_model \<Rightarrow> int office_act" where
  "resolveTombstoneId env k model =
     andThen (fetch env k (\<lambda>s. tombstone_row (tombstoneName model) (option_rows model s))) (\<lambda>row.
     andThen (need row (InternalServerError (Some TOMBSTONE_ROW_MISSING))) (\<lambda>r. done_with (op_id r)))"

definition move_users :: "option_model \<Rightarrow> int \<Rightarrow> int \<Rightarrow> time \<Rightarrow> office \<Rightarrow> office" where
  "move_users model i j at s = s\<lparr>staff := set_where (\<lambda>u. user_option model u = i)
     (\<lambda>u. (case model of Department \<Rightarrow> u\<lparr>su_departmentId := j\<rparr> | PersonnelRole \<Rightarrow> u\<lparr>su_personnelRoleId := j\<rparr>)
            \<lparr>su_updatedAt := at\<rparr>) (staff s)\<rparr>"

definition move_holders :: "option_model \<Rightarrow> int \<Rightarrow> int \<Rightarrow> office \<Rightarrow> office" where
  "move_holders model i j s = s\<lparr>holders := set_where (\<lambda>h. holder_option model h = i)
     (\<lambda>h. case model of Department \<Rightarrow> h\<lparr>hr_departmentId := j\<rparr> | PersonnelRole \<Rightarrow> h\<lparr>hr_personnelRoleId := j\<rparr>) (holders s)\<rparr>"

definition softDelete_option :: "office_env \<Rightarrow> option_model \<Rightarrow> int \<Rightarrow> unit office_act" where
  "softDelete_option env model i =
     andThen (fetch env 0 (\<lambda>s. ordinary_row i (option_rows model s))) (\<lambda>found.
     andThen (need found (NotFound OPTION_NOT_FOUND)) (\<lambda>existing.
     andThen (resolveTombstoneId env 1 model) (\<lambda>fallbackId.
     andThen (atomically (
       andThen (put env 2 (\<lambda>s. Inr (move_users model (op_id existing) fallbackId (now env 2) s, ()))) (\<lambda>_.
       andThen (put env 3 (\<lambda>s. Inr (move_holders model (op_id existing) fallbackId s, ()))) (\<lambda>_.
       andThen (put env 4 (write_option env model (op_id existing) (retire_row (now env 4)))) (\<lambda>_.
       done_with ()))))) (\<lambda>_.
     redis_del env 5 OPTION_CACHE_KEYS))))"

end
