(* ===== verification/Catalogue.thy ===== *)
theory Catalogue
  imports Options
begin

text \<open>
  \<open>VenueTypesService\<close> (\<open>src/src/venue-types/venue-types.service.ts\<close>) and
  \<open>AmenitiesService\<close> (\<open>src/src/amenities/amenities.service.ts\<close>): the two curated tables the
  venues refer to. A deleted category's venues move to the fallback row, which the delete creates
  when it is missing; a deleted amenity's ticks are removed.
\<close>

subsection \<open>Venue types\<close>

definition venueCountOf :: "office \<Rightarrow> int \<Rightarrow> nat" where
  "venueCountOf s i = count_where (\<lambda>v. vn_venueTypeId v = i \<and> vn_deletedAt v = None) (venue_rows s)"

definition toTypeDto :: "office \<Rightarrow> option_row \<Rightarrow> option_dto" where
  "toTypeDto s row =
     \<lparr>od_id = op_id row, od_name = op_name row, od_isSystemReserved = op_isSystemReserved row,
      od_createdAt = op_createdAt row, od_updatedAt = op_updatedAt row, od_staffCount = 0,
      od_registrationCount = 0, od_holderCount = venueCountOf s (op_id row),
      od_isFallback = (op_isSystemReserved row \<and> op_name row = TOMBSTONE_VENUE_TYPE)\<rparr>"

definition type_view :: "office_env \<Rightarrow> bool \<Rightarrow> office \<Rightarrow> option_dto list" where
  "type_view env includeReserved s =
     map (toTypeDto s) (js_sort (by_name env) (filter (visible includeReserved) (type_rows s)))"

definition list_types :: "office_env \<Rightarrow> bool \<Rightarrow> option_dto list office_act" where
  "list_types env includeReserved = cache_aside env (venueTypeListKey includeReserved) (type_view env includeReserved)"

definition insert_type :: "office_env \<Rightarrow> option_row \<Rightarrow> office \<Rightarrow> js_error + (office \<times> option_dto)" where
  "insert_type env r s = (case insert_row env r (type_rows s) of
       Inl e \<Rightarrow> Inl e
     | Inr rows \<Rightarrow> (let s' = s\<lparr>type_rows := rows\<rparr> in Inr (s', toTypeDto s' r)))"

definition write_type ::
  "office_env \<Rightarrow> int \<Rightarrow> (option_row \<Rightarrow> option_row) \<Rightarrow> office \<Rightarrow> js_error + (office \<times> option_dto)"
where
  "write_type env i f s = (case update_row env i f (type_rows s) of
       Inl e \<Rightarrow> Inl e
     | Inr (rows, r) \<Rightarrow> (let s' = s\<lparr>type_rows := rows\<rparr> in Inr (s', toTypeDto s' r)))"

definition create_type :: "office_env \<Rightarrow> string \<Rightarrow> option_dto office_act" where
  "create_type env name =
     catching
       (andThen (atomically (put env 0 (insert_type env (new_option env 0 name False)))) (\<lambda>created.
        andThen (redis_del env 1 VENUE_TYPE_CACHE_KEYS) (\<lambda>_. done_with created)))
       (\<lambda>e. stop_with (mapWriteError OPTION_NAME_TAKEN e))"

definition update_type :: "office_env \<Rightarrow> int \<Rightarrow> string \<Rightarrow> option_dto office_act" where
  "update_type env i name =
     andThen (fetch env 0 (\<lambda>s. ordinary_row i (type_rows s))) (\<lambda>found.
     andThen (need found (NotFound OPTION_NOT_FOUND)) (\<lambda>existing.
     catching
       (andThen (atomically (put env 1 (write_type env (op_id existing) (rename_row name (now env 1))))) (\<lambda>updated.
        andThen (redis_del env 2 VENUE_TYPE_CACHE_KEYS) (\<lambda>_. done_with updated)))
       (\<lambda>e. stop_with (mapWriteError OPTION_NAME_TAKEN e))))"

definition findTombstoneId :: "office_env \<Rightarrow> nat \<Rightarrow> int option office_act" where
  "findTombstoneId env k = fetch env k (\<lambda>s. map_option op_id (tombstone_row TOMBSTONE_VENUE_TYPE (type_rows s)))"

text \<open>Found, or created; a lost race for the name is answered by looking again.\<close>

definition resolve_type_tombstone :: "office_env \<Rightarrow> nat \<Rightarrow> int office_act" where
  "resolve_type_tombstone env k =
     andThen (findTombstoneId env k) (\<lambda>existingId. case existingId of
       Some i \<Rightarrow> done_with i
     | None \<Rightarrow> catching
         (andThen (atomically (put env (k + 1) (insert_type env (new_option env (k + 1) TOMBSTONE_VENUE_TYPE True))))
           (\<lambda>created. done_with (od_id created)))
         (\<lambda>e. case e of
            Thrown err \<Rightarrow> if isUniqueViolation err
              then andThen (findTombstoneId env (k + 2)) (\<lambda>winnerId. case winnerId of
                     None \<Rightarrow> stop_with (Thrown err) | Some i \<Rightarrow> done_with i)
              else stop_with (Thrown err)
          | Refused m \<Rightarrow> stop_with (Refused m)))"

definition move_venues :: "int \<Rightarrow> int \<Rightarrow> time \<Rightarrow> office \<Rightarrow> office" where
  "move_venues i j at s = s\<lparr>venue_rows := set_where (\<lambda>v. vn_venueTypeId v = i)
     (\<lambda>v. v\<lparr>vn_venueTypeId := j, vn_updatedAt := at\<rparr>) (venue_rows s)\<rparr>"

definition softDelete_type :: "office_env \<Rightarrow> int \<Rightarrow> unit office_act" where
  "softDelete_type env i =
     andThen (fetch env 0 (\<lambda>s. ordinary_row i (type_rows s))) (\<lambda>found.
     andThen (need found (NotFound OPTION_NOT_FOUND)) (\<lambda>existing.
     andThen (resolve_type_tombstone env 1) (\<lambda>fallbackId.
     andThen (atomically (
       andThen (put env 4 (\<lambda>s. Inr (move_venues (op_id existing) fallbackId (now env 4) s, ()))) (\<lambda>_.
       andThen (put env 5 (write_type env (op_id existing) (retire_row (now env 5)))) (\<lambda>_.
       done_with ())))) (\<lambda>_.
     redis_del env 6 VENUE_TYPE_CACHE_KEYS))))"

subsection \<open>Amenities\<close>

definition live_venue :: "office \<Rightarrow> string \<Rightarrow> bool" where
  "live_venue s i = list_ex (\<lambda>v. vn_id v = i \<and> vn_deletedAt v = None) (venue_rows s)"

definition tick_count :: "office \<Rightarrow> int \<Rightarrow> nat" where
  "tick_count s i = count_where (\<lambda>t. snd t = i \<and> live_venue s (fst t)) (ticks s)"

definition toAmenityDto :: "office \<Rightarrow> amenity_row \<Rightarrow> option_dto" where
  "toAmenityDto s row =
     \<lparr>od_id = ay_id row, od_name = ay_name row, od_isSystemReserved = False,
      od_createdAt = ay_createdAt row, od_updatedAt = ay_updatedAt row, od_staffCount = 0,
      od_registrationCount = 0, od_holderCount = tick_count s (ay_id row), od_isFallback = False\<rparr>"

definition amenity_view :: "office_env \<Rightarrow> office \<Rightarrow> option_dto list" where
  "amenity_view env s = map (toAmenityDto s) (js_sort (\<lambda>a b. collation env (ay_name a) (ay_name b))
     (filter (\<lambda>a. ay_deletedAt a = None) (amenity_rows s)))"

definition list_amenities :: "office_env \<Rightarrow> option_dto list office_act" where
  "list_amenities env = cache_aside env AMENITY_LIST_KEY (amenity_view env)"

definition amenity_names_unique :: "amenity_row list \<Rightarrow> bool" where
  "amenity_names_unique rows \<longleftrightarrow> distinct (map ay_name (filter (\<lambda>a. ay_deletedAt a = None) rows))"

definition insert_amenity :: "office_env \<Rightarrow> amenity_row \<Rightarrow> office \<Rightarrow> js_error + (office \<times> option_dto)" where
  "insert_amenity env r s =
     (let rows = amenity_rows s @ [r]; s' = s\<lparr>amenity_rows := rows\<rparr>
      in if ay_id r \<in> ay_id ` set (amenity_rows s) \<or> \<not> amenity_names_unique rows then Inl (unique_error env)
         else Inr (s', toAmenityDto s' r))"

definition write_amenity ::
  "office_env \<Rightarrow> int \<Rightarrow> (amenity_row \<Rightarrow> amenity_row) \<Rightarrow> office \<Rightarrow> js_error + (office \<times> option_dto)"
where
  "write_amenity env i f s = (case first_row (\<lambda>a. ay_id a = i) (amenity_rows s) of
       None \<Rightarrow> Inl (missing_error env)
     | Some a \<Rightarrow> (let rows = set_where (\<lambda>x. ay_id x = i) f (amenity_rows s); s' = s\<lparr>amenity_rows := rows\<rparr>
                  in if amenity_names_unique rows then Inr (s', toAmenityDto s' (f a)) else Inl (unique_error env)))"

definition new_amenity :: "office_env \<Rightarrow> nat \<Rightarrow> string \<Rightarrow> amenity_row" where
  "new_amenity env k name = \<lparr>ay_id = fresh_no env k, ay_name = name, ay_createdAt = now env k,
     ay_updatedAt = now env k, ay_deletedAt = None\<rparr>"

definition create_amenity :: "office_env \<Rightarrow> string \<Rightarrow> option_dto office_act" where
  "create_amenity env name =
     catching
       (andThen (atomically (put env 0 (insert_amenity env (new_amenity env 0 name)))) (\<lambda>created.
        andThen (redis_del env 1 [AMENITY_LIST_KEY]) (\<lambda>_. done_with created)))
       (\<lambda>e. stop_with (mapWriteError OPTION_NAME_TAKEN e))"

definition active_amenity :: "int \<Rightarrow> office \<Rightarrow> amenity_row option" where
  "active_amenity i s = first_row (\<lambda>a. ay_id a = i \<and> ay_deletedAt a = None) (amenity_rows s)"

definition update_amenity :: "office_env \<Rightarrow> int \<Rightarrow> string \<Rightarrow> option_dto office_act" where
  "update_amenity env i name =
     andThen (fetch env 0 (active_amenity i)) (\<lambda>found.
     andThen (need found (NotFound OPTION_NOT_FOUND)) (\<lambda>existing.
     catching
       (andThen (atomically (put env 1 (write_amenity env (ay_id existing)
          (\<lambda>a. a\<lparr>ay_name := name, ay_updatedAt := now env 1\<rparr>)))) (\<lambda>updated.
        andThen (redis_del env 2 [AMENITY_LIST_KEY]) (\<lambda>_. done_with updated)))
       (\<lambda>e. stop_with (mapWriteError OPTION_NAME_TAKEN e))))"

definition softDelete_amenity :: "office_env \<Rightarrow> int \<Rightarrow> nat office_act" where
  "softDelete_amenity env i =
     andThen (fetch env 0 (active_amenity i)) (\<lambda>found.
     andThen (need found (NotFound OPTION_NOT_FOUND)) (\<lambda>existing.
     andThen (atomically (
       andThen (fetch env 1 (\<lambda>s. tick_count s (ay_id existing))) (\<lambda>released.
       andThen (put env 2 (\<lambda>s. Inr (s\<lparr>ticks := filter (\<lambda>t. snd t \<noteq> ay_id existing) (ticks s)\<rparr>, ()))) (\<lambda>_.
       andThen (put env 3 (write_amenity env (ay_id existing)
         (\<lambda>a. a\<lparr>ay_deletedAt := Some (now env 3), ay_updatedAt := now env 3\<rparr>))) (\<lambda>_.
       done_with released))))) (\<lambda>releasedVenueCount.
     andThen (redis_del env 4 [AMENITY_LIST_KEY]) (\<lambda>_. done_with releasedVenueCount))))"

end
