(* ===== verification/Venues.thy ===== *)
theory Venues
  imports Catalogue
begin

text \<open>
  \<open>VenuesService\<close> of \<open>src/src/venues/venues.service.ts\<close>: the venues with their photos and
  amenity ticks. After a commit the photos still in the bucket's staging folder are moved into the
  venue's own; a copy that fails leaves a photo where it was. The bucket's operations appear as
  effects in the trace.
\<close>

subsection \<open>The public view\<close>

record venue_dto =
  vx_id :: string
  vx_name :: string
  vx_venueType :: "(int \<times> string \<times> bool) option"
  vx_capacity :: int
  vx_location :: "string option"
  vx_description :: "string option"
  vx_isOpen :: bool
  vx_closedReason :: "string option"
  vx_photos :: "(string \<times> string \<times> nat) list"
  vx_amenities :: "(int \<times> string) list"
  vx_createdAt :: time
  vx_updatedAt :: time

definition photo_order :: "office_env \<Rightarrow> photo_row \<Rightarrow> photo_row \<Rightarrow> int" where
  "photo_order env a b = (if vp_position a \<noteq> vp_position b then int (vp_position a) - int (vp_position b)
     else collation env (vp_id a) (vp_id b))"

definition venue_photos :: "office_env \<Rightarrow> office \<Rightarrow> string \<Rightarrow> photo_row list" where
  "venue_photos env s i = js_sort (photo_order env) (filter (\<lambda>p. vp_venueId p = i) (photo_rows s))"

definition venue_amenities :: "office_env \<Rightarrow> office \<Rightarrow> string \<Rightarrow> amenity_row list" where
  "venue_amenities env s i = js_sort (\<lambda>a b. collation env (ay_name a) (ay_name b))
     (filter (\<lambda>a. (i, ay_id a) \<in> set (ticks s) \<and> ay_deletedAt a = None) (amenity_rows s))"

definition toVenueDto :: "office_env \<Rightarrow> office \<Rightarrow> venue_row \<Rightarrow> venue_dto" where
  "toVenueDto env s row =
     \<lparr>vx_id = vn_id row, vx_name = vn_name row,
      vx_venueType = map_option (\<lambda>t. (op_id t, op_name t, op_isSystemReserved t \<and> op_name t = TOMBSTONE_VENUE_TYPE))
        (first_row (\<lambda>t. op_id t = vn_venueTypeId row) (type_rows s)),
      vx_capacity = vn_capacity row, vx_location = vn_location row, vx_description = vn_description row,
      vx_isOpen = vn_isOpen row, vx_closedReason = vn_closedReason row,
      vx_photos = map (\<lambda>p. (vp_id p, vp_url p, vp_position p)) (venue_photos env s (vn_id row)),
      vx_amenities = map (\<lambda>a. (ay_id a, ay_name a)) (venue_amenities env s (vn_id row)),
      vx_createdAt = vn_createdAt row, vx_updatedAt = vn_updatedAt row\<rparr>"

datatype venue_status = VS_OPEN | VS_CLOSED

record venue_query =
  vq_q :: "string option"
  vq_venueTypeId :: "int option"
  vq_status :: "venue_status option"

definition venueListWhere :: "office_env \<Rightarrow> venue_query \<Rightarrow> venue_row \<Rightarrow> bool" where
  "venueListWhere env query v \<longleftrightarrow> vn_deletedAt v = None \<and>
     (case vq_venueTypeId query of None \<Rightarrow> True | Some t \<Rightarrow> t = 0 \<or> vn_venueTypeId v = t) \<and>
     (case vq_status query of None \<Rightarrow> True | Some st \<Rightarrow> vn_isOpen v = (st = VS_OPEN)) \<and>
     (let q = (case vq_q query of None \<Rightarrow> [] | Some t \<Rightarrow> js_trim t) in q = [] \<or> contains_ci env q (vn_name v) \<or>
        (case vn_location v of None \<Rightarrow> False | Some l \<Rightarrow> contains_ci env q l))"

definition list_venues :: "office_env \<Rightarrow> venue_query \<Rightarrow> venue_dto list office_act" where
  "list_venues env query = fetch env 0 (\<lambda>s. map (toVenueDto env s)
     (js_sort (\<lambda>a b. collation env (vn_name a) (vn_name b)) (filter (venueListWhere env query) (venue_rows s))))"

text \<open>\<open>[{ isOpen: 'desc' }, { name: 'asc' }, { id: 'asc' }]\<close>.\<close>

definition catalogue_order :: "office_env \<Rightarrow> venue_row \<Rightarrow> venue_row \<Rightarrow> int" where
  "catalogue_order env a b =
     (if vn_isOpen a \<noteq> vn_isOpen b then (if vn_isOpen a then -1 else 1)
      else if collation env (vn_name a) (vn_name b) \<noteq> 0 then collation env (vn_name a) (vn_name b)
      else collation env (vn_id a) (vn_id b))"

record catalogue_page =
  cp_data :: "venue_dto list"
  cp_total :: nat
  cp_totalPages :: nat
  cp_facets :: "(int \<times> string) list"

definition catalogue_facets :: "office_env \<Rightarrow> string option \<Rightarrow> office \<Rightarrow> (int \<times> string) list" where
  "catalogue_facets env q s = map (\<lambda>t. (op_id t, op_name t))
     (js_sort (\<lambda>a b. if by_name env a b \<noteq> 0 then by_name env a b else op_id a - op_id b)
       (filter (\<lambda>t. list_ex (\<lambda>v. vn_venueTypeId v = op_id t \<and>
          venueListWhere env \<lparr>vq_q = q, vq_venueTypeId = None, vq_status = None\<rparr> v) (venue_rows s)) (type_rows s)))"

definition catalogue_of :: "office_env \<Rightarrow> venue_query \<Rightarrow> nat \<Rightarrow> nat \<Rightarrow> office \<Rightarrow> catalogue_page" where
  "catalogue_of env query page limit s =
     (let rows = js_sort (catalogue_order env) (filter (venueListWhere env query) (venue_rows s));
          n = count_where (venueListWhere env query) (venue_rows s)
      in \<lparr>cp_data = map (toVenueDto env s) (take limit (drop ((page - 1) * limit) rows)), cp_total = n,
          cp_totalPages = (n + limit - 1) div limit, cp_facets = catalogue_facets env (vq_q query) s\<rparr>)"

definition listForLine :: "office_env \<Rightarrow> venue_query \<Rightarrow> nat \<Rightarrow> nat \<Rightarrow> catalogue_page office_act" where
  "listForLine env query page limit = fetch env 0 (catalogue_of env query page limit)"

definition existing_venue :: "string \<Rightarrow> office \<Rightarrow> venue_row option" where
  "existing_venue i s = first_row (\<lambda>v. vn_id v = i \<and> vn_deletedAt v = None) (venue_rows s)"

definition findById :: "office_env \<Rightarrow> string \<Rightarrow> venue_dto office_act" where
  "findById env i =
     andThen (fetch env 0 (\<lambda>s. map_option (toVenueDto env s) (existing_venue i s))) (\<lambda>row.
     need row (NotFound VENUE_NOT_FOUND_HERE))"

subsection \<open>Checks\<close>

definition assertAssignableVenueType :: "office_env \<Rightarrow> nat \<Rightarrow> int \<Rightarrow> unit office_act" where
  "assertAssignableVenueType env k venueTypeId =
     andThen (fetch env k (\<lambda>s. ordinary_row venueTypeId (type_rows s))) (\<lambda>row.
     check (row \<noteq> None) (BadRequest INVALID_VENUE_TYPE))"

definition assertActiveAmenities :: "office_env \<Rightarrow> nat \<Rightarrow> int list \<Rightarrow> unit office_act" where
  "assertActiveAmenities env k amenityIds =
     (if amenityIds = [] then done_with ()
      else andThen (fetch env k (\<lambda>s. count_where (\<lambda>a. ay_id a \<in> set amenityIds \<and> ay_deletedAt a = None) (amenity_rows s)))
        (\<lambda>found. check (found = length amenityIds) (BadRequest INVALID_AMENITY)))"

definition assertOwnPhotoUrls :: "office_env \<Rightarrow> string list \<Rightarrow> unit office_act" where
  "assertOwnPhotoUrls env urls = (case public_base_url env of
       None \<Rightarrow> done_with ()
     | Some b \<Rightarrow> check (b = [] \<or> list_all (js_prefix (b @ ''/venues/'')) urls) (BadRequest INVALID_PHOTO_URL))"

subsection \<open>Photos in the bucket\<close>

definition VENUE_PHOTO_STAGING_PREFIX :: string where
  "VENUE_PHOTO_STAGING_PREFIX = ''venues/_new/''"

definition isStagedVenuePhotoKey :: "string \<Rightarrow> bool" where
  "isStagedVenuePhotoKey key = js_prefix VENUE_PHOTO_STAGING_PREFIX key"

definition venuePhotoKeyFor :: "string \<Rightarrow> string \<Rightarrow> string" where
  "venuePhotoKeyFor venueId stagingKey =
     ''venues/'' @ venueId @ ''/'' @ drop (length VENUE_PHOTO_STAGING_PREFIX) stagingKey"

text \<open>The moves that succeed, as the photo ids with their new addresses, and what the bucket did.\<close>

fun rehome_moves ::
  "office_env \<Rightarrow> string \<Rightarrow> string \<Rightarrow> (string \<times> string \<times> nat) list \<Rightarrow> (string \<times> string) list \<times> office_event list"
where
  "rehome_moves env b venueId [] = ([], [])"
| "rehome_moves env b venueId ((i, url, pos) # rest) =
     (let (moves, events) = rehome_moves env b venueId rest;
          key = drop (length b + 1) url; target = venuePhotoKeyFor venueId key
      in if js_prefix (b @ ''/'') url \<and> isStagedVenuePhotoKey key \<and> copy_succeeds env key target
         then ((i, b @ ''/'' @ target) # moves, ObjectCopied key target # ObjectDeleted key # events)
         else (moves, events))"

fun move_photos :: "office_env \<Rightarrow> (string \<times> string) list \<Rightarrow> office \<Rightarrow> js_error + (office \<times> unit)" where
  "move_photos env [] s = Inr (s, ())"
| "move_photos env ((i, url) # rest) s =
     (if first_row (\<lambda>p. vp_id p = i) (photo_rows s) = None then Inl (missing_error env)
      else move_photos env rest
        (s\<lparr>photo_rows := set_where (\<lambda>p. vp_id p = i) (\<lambda>p. p\<lparr>vp_url := url\<rparr>) (photo_rows s)\<rparr>))"

definition rehomePhotos :: "office_env \<Rightarrow> nat \<Rightarrow> venue_dto \<Rightarrow> venue_dto office_act" where
  "rehomePhotos env k row = (case public_base_url env of
       None \<Rightarrow> done_with row
     | Some b \<Rightarrow> if b = [] then done_with row else
         (let (moves, events) = rehome_moves env b (vx_id row) (vx_photos row) in
          andThen (tell events) (\<lambda>_.
          if moves = [] then done_with row
          else andThen (catching (andThen (atomically (put env k (move_photos env moves))) (\<lambda>_. done_with True))
                 (\<lambda>_. done_with False)) (\<lambda>stored.
               if \<not> stored then done_with row
               else andThen (fetch env (k + 1) (\<lambda>s. map_option (toVenueDto env s)
                      (first_row (\<lambda>v. vn_id v = vx_id row) (venue_rows s)))) (\<lambda>fresh.
                    done_with (case fresh of None \<Rightarrow> row | Some r \<Rightarrow> r))))))"

definition deleteObjectsFor :: "office_env \<Rightarrow> string list \<Rightarrow> unit office_act" where
  "deleteObjectsFor env urls = (case public_base_url env of
       None \<Rightarrow> done_with ()
     | Some b \<Rightarrow> if b = [] then done_with ()
         else tell (map (\<lambda>url. ObjectDeleted (drop (length b + 1) url)) (filter (js_prefix (b @ ''/venues/'')) urls)))"

subsection \<open>Writing venues\<close>

record create_venue_dto =
  cv_name :: string
  cv_venueTypeId :: int
  cv_capacity :: int
  cv_location :: "string option"
  cv_description :: "string option"
  cv_amenityIds :: "int list option"
  cv_photoUrls :: "string list option"

definition or_nil :: "'a list option \<Rightarrow> 'a list" where
  "or_nil x = (case x of None \<Rightarrow> [] | Some xs \<Rightarrow> xs)"

fun new_photos :: "office_env \<Rightarrow> nat \<Rightarrow> string \<Rightarrow> nat \<Rightarrow> string list \<Rightarrow> photo_row list" where
  "new_photos env k venueId pos [] = []"
| "new_photos env k venueId pos (url # urls) =
     \<lparr>vp_id = fresh_photo_id env k pos, vp_venueId = venueId, vp_url = url, vp_position = pos\<rparr>
     # new_photos env k venueId (Suc pos) urls"

definition venue_names_unique :: "venue_row list \<Rightarrow> bool" where
  "venue_names_unique rows \<longleftrightarrow> distinct (map vn_name (filter (\<lambda>v. vn_deletedAt v = None) rows))"

definition new_venue :: "office_env \<Rightarrow> nat \<Rightarrow> create_venue_dto \<Rightarrow> venue_row" where
  "new_venue env k dto = \<lparr>vn_id = fresh_id env k, vn_name = cv_name dto, vn_venueTypeId = cv_venueTypeId dto,
     vn_capacity = cv_capacity dto, vn_location = cv_location dto, vn_description = cv_description dto,
     vn_isOpen = True, vn_closedReason = None, vn_createdAt = now env k, vn_updatedAt = now env k,
     vn_deletedAt = None\<rparr>"

text \<open>Every key the nested create writes is unique, or the statement fails.\<close>

definition insert_venue ::
  "office_env \<Rightarrow> venue_row \<Rightarrow> photo_row list \<Rightarrow> int list \<Rightarrow> office \<Rightarrow> js_error + (office \<times> venue_dto)"
where
  "insert_venue env v photos amenityIds s =
     (let rows = venue_rows s @ [v];
          s' = s\<lparr>venue_rows := rows, photo_rows := photo_rows s @ photos,
                 ticks := ticks s @ map (\<lambda>a. (vn_id v, a)) amenityIds\<rparr>
      in if vn_id v \<in> vn_id ` set (venue_rows s) \<or> \<not> venue_names_unique rows \<or>
            \<not> distinct (map vp_id (photo_rows s')) \<or> \<not> distinct amenityIds
         then Inl (unique_error env) else Inr (s', toVenueDto env s' v))"

definition create_venue :: "office_env \<Rightarrow> create_venue_dto \<Rightarrow> venue_dto office_act" where
  "create_venue env dto =
     andThen (assertOwnPhotoUrls env (or_nil (cv_photoUrls dto))) (\<lambda>_.
     catching
       (andThen (atomically (
          andThen (assertAssignableVenueType env 0 (cv_venueTypeId dto)) (\<lambda>_.
          andThen (assertActiveAmenities env 1 (or_nil (cv_amenityIds dto))) (\<lambda>_.
          put env 2 (insert_venue env (new_venue env 2 dto)
            (new_photos env 2 (fresh_id env 2) 0 (or_nil (cv_photoUrls dto))) (or_nil (cv_amenityIds dto))))))) (\<lambda>created.
        andThen (redis_del env 3 VENUE_WRITE_CACHE_KEYS) (\<lambda>_. rehomePhotos env 4 created)))
       (\<lambda>e. stop_with (mapWriteError VENUE_NAME_TAKEN e)))"

record update_venue_dto =
  uv_name :: "string option"
  uv_venueTypeId :: "int option"
  uv_capacity :: "int option"
  uv_location :: "string option option"
  uv_description :: "string option option"
  uv_amenityIds :: "int list option"
  uv_photoUrls :: "string list option"

definition chosen :: "'a option \<Rightarrow> 'a \<Rightarrow> 'a" where
  "chosen x old = (case x of None \<Rightarrow> old | Some a \<Rightarrow> a)"

definition edit_venue :: "update_venue_dto \<Rightarrow> time \<Rightarrow> venue_row \<Rightarrow> venue_row" where
  "edit_venue dto at v = v\<lparr>vn_name := chosen (uv_name dto) (vn_name v),
     vn_venueTypeId := chosen (uv_venueTypeId dto) (vn_venueTypeId v),
     vn_capacity := chosen (uv_capacity dto) (vn_capacity v),
     vn_location := chosen (uv_location dto) (vn_location v),
     vn_description := chosen (uv_description dto) (vn_description v), vn_updatedAt := at\<rparr>"

definition write_venue ::
  "office_env \<Rightarrow> string \<Rightarrow> (venue_row \<Rightarrow> venue_row) \<Rightarrow> office \<Rightarrow> js_error + (office \<times> venue_dto)"
where
  "write_venue env i f s = (case first_row (\<lambda>v. vn_id v = i) (venue_rows s) of
       None \<Rightarrow> Inl (missing_error env)
     | Some v \<Rightarrow> (let rows = set_where (\<lambda>x. vn_id x = i) f (venue_rows s); s' = s\<lparr>venue_rows := rows\<rparr>
                  in if venue_names_unique rows then Inr (s', toVenueDto env s' (f v)) else Inl (unique_error env)))"

definition replace_ticks :: "office_env \<Rightarrow> nat \<Rightarrow> string \<Rightarrow> int list \<Rightarrow> unit office_act" where
  "replace_ticks env k venueId amenityIds =
     andThen (put env k (\<lambda>s. Inr (s\<lparr>ticks := filter (\<lambda>t. fst t \<noteq> venueId) (ticks s)\<rparr>, ()))) (\<lambda>_.
     put env (k + 1) (\<lambda>s. let new = map (\<lambda>a. (venueId, a)) amenityIds in
       if \<not> distinct amenityIds \<or> set new \<inter> set (ticks s) \<noteq> {} then Inl (unique_error env)
       else Inr (s\<lparr>ticks := ticks s @ new\<rparr>, ())))"

definition replace_photos :: "office_env \<Rightarrow> nat \<Rightarrow> string \<Rightarrow> string list \<Rightarrow> unit office_act" where
  "replace_photos env k venueId urls =
     andThen (put env k (\<lambda>s. Inr (s\<lparr>photo_rows := filter (\<lambda>p. vp_venueId p \<noteq> venueId) (photo_rows s)\<rparr>, ()))) (\<lambda>_.
     put env (k + 1) (\<lambda>s. let rows = photo_rows s @ new_photos env (k + 1) venueId 0 urls in
       if \<not> distinct (map vp_id rows) then Inl (unique_error env) else Inr (s\<lparr>photo_rows := rows\<rparr>, ())))"

definition update_venue_work :: "office_env \<Rightarrow> string \<Rightarrow> update_venue_dto \<Rightarrow> venue_dto office_act" where
  "update_venue_work env i dto =
     andThen (case uv_venueTypeId dto of None \<Rightarrow> done_with () | Some t \<Rightarrow> assertAssignableVenueType env 2 t) (\<lambda>_.
     andThen (case uv_amenityIds dto of None \<Rightarrow> done_with ()
       | Some ids \<Rightarrow> andThen (assertActiveAmenities env 3 ids) (\<lambda>_. replace_ticks env 4 i ids)) (\<lambda>_.
     andThen (case uv_photoUrls dto of None \<Rightarrow> done_with () | Some urls \<Rightarrow> replace_photos env 6 i urls) (\<lambda>_.
     put env 8 (write_venue env i (edit_venue dto (now env 8))))))"

definition update_venue :: "office_env \<Rightarrow> string \<Rightarrow> update_venue_dto \<Rightarrow> venue_dto office_act" where
  "update_venue env i dto =
     andThen (case uv_photoUrls dto of None \<Rightarrow> done_with () | Some urls \<Rightarrow> assertOwnPhotoUrls env urls) (\<lambda>_.
     andThen (fetch env 0 (existing_venue i)) (\<lambda>found.
     andThen (need found (NotFound VENUE_NOT_FOUND_HERE)) (\<lambda>existing.
     andThen (case uv_photoUrls dto of None \<Rightarrow> done_with []
       | Some _ \<Rightarrow> fetch env 1 (\<lambda>s. map vp_url (filter (\<lambda>p. vp_venueId p = vn_id existing) (photo_rows s)))) (\<lambda>before.
     catching
       (andThen (atomically (update_venue_work env (vn_id existing) dto)) (\<lambda>updated.
        andThen (redis_del env 9 VENUE_WRITE_CACHE_KEYS) (\<lambda>_.
        andThen (case uv_photoUrls dto of None \<Rightarrow> done_with ()
          | Some urls \<Rightarrow> deleteObjectsFor env (filter (\<lambda>url. url \<notin> set urls) before)) (\<lambda>_.
        rehomePhotos env 10 updated))))
       (\<lambda>e. stop_with (mapWriteError VENUE_NAME_TAKEN e))))))"

definition close_venue :: "office_env \<Rightarrow> string \<Rightarrow> string \<Rightarrow> string \<times> string \<Rightarrow> venue_dto office_act" where
  "close_venue env i reason actor =
     (let trimmed = js_trim reason in
      andThen (check (trimmed \<noteq> []) (BadRequest CLOSE_REASON_REQUIRED)) (\<lambda>_.
      andThen (fetch env 0 (existing_venue i)) (\<lambda>found.
      andThen (need found (NotFound VENUE_NOT_FOUND_HERE)) (\<lambda>existing.
      andThen (check (vn_isOpen existing) (Conflict VENUE_ALREADY_IN_STATE)) (\<lambda>_.
      andThen (atomically (put env 1 (write_venue env (vn_id existing)
        (\<lambda>v. v\<lparr>vn_isOpen := False, vn_closedReason := Some trimmed, vn_updatedAt := now env 1\<rparr>)))) (\<lambda>updated.
      andThen (redis_del env 2 VENUE_WRITE_CACHE_KEYS) (\<lambda>_.
      andThen (tell [VenueClosed i (vx_name updated) trimmed actor]) (\<lambda>_. done_with updated))))))))"

definition reopen_venue :: "office_env \<Rightarrow> string \<Rightarrow> venue_dto office_act" where
  "reopen_venue env i =
     andThen (fetch env 0 (existing_venue i)) (\<lambda>found.
     andThen (need found (NotFound VENUE_NOT_FOUND_HERE)) (\<lambda>existing.
     andThen (check (\<not> vn_isOpen existing) (Conflict VENUE_ALREADY_IN_STATE)) (\<lambda>_.
     andThen (atomically (put env 1 (write_venue env (vn_id existing)
       (\<lambda>v. v\<lparr>vn_isOpen := True, vn_closedReason := None, vn_updatedAt := now env 1\<rparr>)))) (\<lambda>updated.
     andThen (redis_del env 2 VENUE_WRITE_CACHE_KEYS) (\<lambda>_. done_with updated)))))"

definition softDelete_venue :: "office_env \<Rightarrow> string \<Rightarrow> unit office_act" where
  "softDelete_venue env i =
     andThen (fetch env 0 (existing_venue i)) (\<lambda>found.
     andThen (need found (NotFound VENUE_NOT_FOUND_HERE)) (\<lambda>existing.
     andThen (atomically (put env 1 (write_venue env (vn_id existing)
       (\<lambda>v. v\<lparr>vn_deletedAt := Some (now env 1), vn_updatedAt := now env 1\<rparr>)))) (\<lambda>_.
     redis_del env 2 VENUE_WRITE_CACHE_KEYS)))"

end
