(* ===== verification/TxLogic.thy ===== *)
theory TxLogic
  imports Tx
begin

text \<open>
  Strongest postconditions for calls that run undisturbed. \<open>triple I P m Q\<close>: from a settled
  store whose state satisfies \<open>P\<close>, \<open>m\<close> ends in a settled store, with an answer \<open>a\<close> and a state
  in \<open>Q a\<close>, or refused with a state in \<open>I\<close>. \<open>inner P m Q\<close> is the same inside a transaction,
  where nothing is committed and a refusal is rolled back.
\<close>

definition triple :: "('s \<Rightarrow> bool) \<Rightarrow> ('s \<Rightarrow> bool) \<Rightarrow> ('s, 'e, 'm, 'a) act \<Rightarrow> ('a \<Rightarrow> 's \<Rightarrow> bool) \<Rightarrow> bool" where
  "triple I P m Q \<longleftrightarrow> (\<forall>w. base w = mine w \<and> P (mine w) \<longrightarrow> base (snd (m w)) = mine (snd (m w)) \<and>
     (case fst (m w) of Inl _ \<Rightarrow> I (mine (snd (m w))) | Inr a \<Rightarrow> Q a (mine (snd (m w)))))"

definition inner :: "('s \<Rightarrow> bool) \<Rightarrow> ('s, 'e, 'm, 'a) act \<Rightarrow> ('a \<Rightarrow> 's \<Rightarrow> bool) \<Rightarrow> bool" where
  "inner P m Q \<longleftrightarrow> (\<forall>w. P (mine w) \<longrightarrow> base (snd (m w)) = base w \<and>
     (case fst (m w) of Inl _ \<Rightarrow> True | Inr a \<Rightarrow> Q a (mine (snd (m w)))))"

named_theorems sp \<open>strongest postconditions\<close>

lemma triple_conseq:
  "triple I P m Q \<Longrightarrow> (\<And>a s. Q a s \<Longrightarrow> R a s) \<Longrightarrow> triple I P m R"
  unfolding triple_def by (fastforce split: sum.splits)

lemma triple_pre: "triple I P' m Q \<Longrightarrow> (\<And>s. P s \<Longrightarrow> P' s) \<Longrightarrow> triple I P m Q"
  by (simp add: triple_def)

lemma inner_pre: "inner P' m Q \<Longrightarrow> (\<And>s. P s \<Longrightarrow> P' s) \<Longrightarrow> inner P m Q"
  by (simp add: inner_def)

lemma triple_settled: "triple I P m Q \<Longrightarrow> base w = mine w \<Longrightarrow> P (mine w) \<Longrightarrow> m w = (r, w') \<Longrightarrow> base w' = mine w'"
  unfolding triple_def by (metis snd_conv)

lemma triple_ok: "triple I P m Q \<Longrightarrow> base w = mine w \<Longrightarrow> P (mine w) \<Longrightarrow> m w = (Inr a, w') \<Longrightarrow> Q a (mine w')"
  unfolding triple_def by (metis fst_conv snd_conv sum.case(2))

lemma triple_refused: "triple I P m Q \<Longrightarrow> base w = mine w \<Longrightarrow> P (mine w) \<Longrightarrow> m w = (Inl e, w') \<Longrightarrow> I (mine w')"
  unfolding triple_def by (metis fst_conv snd_conv sum.case(1))

lemma inner_conseq: "inner P m Q \<Longrightarrow> (\<And>a s. Q a s \<Longrightarrow> R a s) \<Longrightarrow> inner P m R"
  unfolding inner_def by (fastforce split: sum.splits)

lemma inner_private: "inner P m Q \<Longrightarrow> P (mine w) \<Longrightarrow> m w = (r, w') \<Longrightarrow> base w' = base w"
  unfolding inner_def by (metis snd_conv)

lemma inner_ok: "inner P m Q \<Longrightarrow> P (mine w) \<Longrightarrow> m w = (Inr a, w') \<Longrightarrow> Q a (mine w')"
  unfolding inner_def by (metis fst_conv snd_conv sum.case(2))

lemma triple_andThen [sp]:
  assumes "triple I P m Q" "\<And>a. triple I (Q a) (f a) R"
  shows "triple I P (andThen m f) R"
  unfolding triple_def
proof (intro allI impI)
  fix w :: "('a, 'b) store" assume w: "base w = mine w \<and> P (mine w)"
  obtain r w' where run: "m w = (r, w')" by fastforce
  show "base (snd (andThen m f w)) = mine (snd (andThen m f w)) \<and>
      (case fst (andThen m f w) of Inl _ \<Rightarrow> I (mine (snd (andThen m f w)))
       | Inr a \<Rightarrow> R a (mine (snd (andThen m f w))))"
  proof (cases r)
    case (Inl e)
    then show ?thesis using run w triple_settled [OF assms(1) _ _ run] triple_refused [OF assms(1), of w e w'] by (simp add: andThen_def)
  next
    case (Inr a)
    then show ?thesis using run w triple_settled [OF assms(1) _ _ run] triple_ok [OF assms(1), of w a w'] assms(2) [of a]
      by (auto simp: andThen_def triple_def split: sum.splits)
  qed
qed

lemma inner_andThen [sp]:
  assumes "inner P m Q" "\<And>a. inner (Q a) (f a) R"
  shows "inner P (andThen m f) R"
  unfolding inner_def
proof (intro allI impI)
  fix w :: "('a, 'b) store" assume w: "P (mine w)"
  obtain r w' where run: "m w = (r, w')" by fastforce
  show "base (snd (andThen m f w)) = base w \<and>
      (case fst (andThen m f w) of Inl _ \<Rightarrow> True | Inr a \<Rightarrow> R a (mine (snd (andThen m f w))))"
  proof (cases r)
    case (Inl e)
    then show ?thesis using run inner_private [OF assms(1) w run] by (simp add: andThen_def)
  next
    case (Inr a)
    then show ?thesis using run inner_private [OF assms(1) w run] inner_ok [OF assms(1) w, of a w'] assms(2) [of a]
      by (auto simp: andThen_def inner_def split: sum.splits)
  qed
qed

lemma triple_done [sp]: "triple I P (done_with b) (\<lambda>a s. P s \<and> a = b)"
  by (simp add: triple_def act_run)

lemma triple_stop [sp]: "(\<And>s. P s \<Longrightarrow> I s) \<Longrightarrow> triple I P (stop_with e) (\<lambda>a s. False)"
  by (simp add: triple_def act_run)

lemma triple_tell [sp]: "triple I P (tell es) (\<lambda>a s. P s)"
  by (simp add: triple_def act_run)

lemma triple_check [sp]: "(\<And>s. P s \<Longrightarrow> \<not> ok \<Longrightarrow> I s) \<Longrightarrow> triple I P (check ok e) (\<lambda>a s. P s \<and> ok)"
  by (simp add: triple_def act_run)

lemma triple_need [sp]: "(\<And>s. P s \<Longrightarrow> x = None \<Longrightarrow> I s) \<Longrightarrow> triple I P (need x e) (\<lambda>a s. P s \<and> x = Some a)"
  by (auto simp: triple_def act_run split: option.splits)

lemma triple_fetch [sp]: "undisturbed drv \<Longrightarrow> triple I P (fetch drv k f) (\<lambda>a s. P s \<and> a = f s)"
  by (simp add: triple_def act_run)

lemma triple_if [sp]:
  assumes "triple I (\<lambda>s. P s \<and> c) m Q" "triple I (\<lambda>s. P s \<and> \<not> c) n R"
  shows "triple I P (if c then m else n) (\<lambda>a s. (c \<and> Q a s) \<or> (\<not> c \<and> R a s))"
  using assms unfolding triple_def by (cases c) (auto split: sum.splits)

lemma triple_option [sp]:
  assumes "triple I (\<lambda>s. P s \<and> x = None) m Q" "\<And>b. triple I (\<lambda>s. P s \<and> x = Some b) (f b) (R b)"
  shows "triple I P (case x of None \<Rightarrow> m | Some b \<Rightarrow> f b)
    (\<lambda>a s. (x = None \<and> Q a s) \<or> (\<exists>b. x = Some b \<and> R b a s))"
proof (cases x)
  case None
  then show ?thesis using assms(1) unfolding triple_def by (auto split: sum.splits)
next
  case (Some b)
  then show ?thesis using assms(2) [of b] unfolding triple_def by (auto split: sum.splits)
qed

lemma triple_catching [sp]:
  assumes "triple J P m Q" "\<And>e. triple I J (h e) R"
  shows "triple I P (catching m h) (\<lambda>a s. Q a s \<or> R a s)"
  unfolding triple_def
proof (intro allI impI)
  fix w :: "('a, 'b) store" assume w: "base w = mine w \<and> P (mine w)"
  obtain r w' where run: "m w = (r, w')" by fastforce
  show "base (snd (catching m h w)) = mine (snd (catching m h w)) \<and>
      (case fst (catching m h w) of Inl _ \<Rightarrow> I (mine (snd (catching m h w)))
       | Inr a \<Rightarrow> Q a (mine (snd (catching m h w))) \<or> R a (mine (snd (catching m h w))))"
  proof (cases r)
    case (Inl e)
    have "base w' = mine w'" "J (mine w')" using triple_settled [OF assms(1) _ _ run] triple_refused [OF assms(1), of w e w'] run w Inl by auto
    then show ?thesis using run Inl assms(2) [of e] unfolding triple_def
      by (auto simp: catching_def split: sum.splits)
  next
    case (Inr a)
    then show ?thesis using run w triple_settled [OF assms(1) _ _ run] triple_ok [OF assms(1), of w a w'] by (simp add: catching_def)
  qed
qed

lemma inner_basic [sp]:
  "inner P (done_with b) (\<lambda>a s. P s \<and> a = b)"
  "inner P (stop_with e) (\<lambda>a s. False)"
  "inner P (check ok err) (\<lambda>a s. P s \<and> ok)"
  "inner P (need x err) (\<lambda>a s. P s \<and> x = Some a)"
  by (auto simp: inner_def act_run split: option.splits)

lemma inner_fetch [sp]: "undisturbed drv \<Longrightarrow> inner P (fetch drv k f) (\<lambda>a s. P s \<and> a = f s)"
  by (simp add: inner_def act_run)

lemma inner_put [sp]:
  "undisturbed drv \<Longrightarrow> inner P (put drv k g) (\<lambda>a s'. \<exists>s. P s \<and> g s = Inr (s', a))"
  by (auto simp: inner_def act_run split: sum.splits)

text \<open>Without commits in between, a fault only refuses: these rules need no calm driver.\<close>

lemma inner_alone [sp]:
  "inner P (fetch (alone drv) k f) (\<lambda>a s. P s \<and> a = f s)"
  "inner P (put (alone drv) k g) (\<lambda>a s'. \<exists>s. P s \<and> g s = Inr (s', a))"
  by (auto simp: inner_def act_run split: option.splits sum.splits)

lemma inner_if [sp]:
  assumes "inner (\<lambda>s. P s \<and> c) m Q" "inner (\<lambda>s. P s \<and> \<not> c) n R"
  shows "inner P (if c then m else n) (\<lambda>a s. (c \<and> Q a s) \<or> (\<not> c \<and> R a s))"
  using assms unfolding inner_def by (cases c) (auto split: sum.splits)

lemma inner_option [sp]:
  assumes "inner (\<lambda>s. P s \<and> x = None) m Q" "\<And>b. inner (\<lambda>s. P s \<and> x = Some b) (f b) (R b)"
  shows "inner P (case x of None \<Rightarrow> m | Some b \<Rightarrow> f b)
    (\<lambda>a s. (x = None \<and> Q a s) \<or> (\<exists>b. x = Some b \<and> R b a s))"
proof (cases x)
  case None
  then show ?thesis using assms(1) unfolding inner_def by (auto split: sum.splits)
next
  case (Some b)
  then show ?thesis using assms(2) [of b] unfolding inner_def by (auto split: sum.splits)
qed

lemma triple_atomically [sp]:
  assumes "inner P m Q" "\<And>s. P s \<Longrightarrow> I s"
  shows "triple I P (atomically m) Q"
  unfolding triple_def
proof (intro allI impI)
  fix w :: "('a, 'b) store" assume w: "base w = mine w \<and> P (mine w)"
  obtain r w' where run: "m w = (r, w')" by fastforce
  show "base (snd (atomically m w)) = mine (snd (atomically m w)) \<and>
      (case fst (atomically m w) of Inl _ \<Rightarrow> I (mine (snd (atomically m w)))
       | Inr a \<Rightarrow> Q a (mine (snd (atomically m w))))"
    using inner_private [OF assms(1) conjunct2 [OF w] run] inner_ok [OF assms(1) conjunct2 [OF w], of _ w'] run w assms(2)
    by (cases r) (auto simp: act_run)
qed

lemma triple_serializable [sp]:
  assumes "undisturbed drv" "inner P (work (alone drv)) Q" "\<And>s. P s \<Longrightarrow> I s"
  shows "triple I P (serializable drv k work) Q"
proof -
  have "serializable drv k work = atomically (work (alone drv))"
    by (rule ext) (rule run_serializable_undisturbed [OF assms(1)])
  then show ?thesis using triple_atomically [OF assms(2,3)] by simp
qed

lemma undisturbed_alone [simp]: "undisturbed drv \<Longrightarrow> undisturbed (alone drv)"
  by (simp add: undisturbed_simps)

text \<open>
  Under interference, a Serializable transaction may break the invariant in its own view on the
  way; what counts is the view it commits.
\<close>

lemma safe_serializable [safe_intros]:
  assumes "polite I drv" "inner I (work (alone drv)) (\<lambda>_. I)"
  shows "safe I (serializable drv k work)"
proof (rule safeI)
  fix w :: "('a, 'c) store" assume inv: "I (base w)" "I (mine w)"
  let ?w = "meanwhile drv k w"
  have inv': "I (base ?w)" "I (mine ?w)" using assms(1) inv by (auto simp: meanwhile_def polite_def)
  obtain r w' where run: "work (alone drv) ?w = (r, w')" by fastforce
  show "I (base (snd (serializable drv k work w))) \<and> I (mine (snd (serializable drv k work w)))"
    using run inner_private [OF assms(2) inv'(2) run] inner_ok [OF assms(2) inv'(2), of _ w'] inv'
    by (auto simp: serializable_def atomically_def act_run split: sum.splits option.splits)
qed

lemma triple_answer_ok:
  assumes "triple I P m Q" "P s" "answer m s = (Inr a, s', es)"
  shows "Q a s'"
proof -
  obtain w where run: "m \<lparr>base = s, mine = s, trace = []\<rparr> = (Inr a, w)" "s' = base w"
    using assms(3) by (auto simp: answer_def split: prod.splits)
  then show ?thesis
    using triple_settled [OF assms(1) _ _ run(1)] triple_ok [OF assms(1) _ _ run(1)] assms(2) by simp
qed

lemma triple_answer_refused:
  assumes "triple I P m Q" "P s" "answer m s = (Inl e, s', es)"
  shows "I s'"
proof -
  obtain w where run: "m \<lparr>base = s, mine = s, trace = []\<rparr> = (Inl e, w)" "s' = base w"
    using assms(3) by (auto simp: answer_def split: prod.splits)
  then show ?thesis
    using triple_settled [OF assms(1) _ _ run(1)] triple_refused [OF assms(1) _ _ run(1)] assms(2) by simp
qed

lemma triple_leaves:
  assumes "triple I P m (\<lambda>_. I)" "P s"
  shows "I (leaves m s)"
proof -
  obtain r s' es where run: "answer m s = (r, s', es)" by (metis prod_cases3)
  have "I s'"
    using triple_answer_ok [OF assms] triple_answer_refused [OF assms] run by (cases r) auto
  then show ?thesis by (simp add: leaves_def run)
qed

end
