(* ===== verification/OfficeGuard.thy ===== *)
theory OfficeGuard
  imports Staff Venues TxLogic
begin

text \<open>
  What every call of the back-office services keeps, whatever other transactions commit between its
  statements and whichever of them the driver fails: unique keys, at least one active super admin,
  a closed venue with its reason, and the reserved rows of the option tables exactly as they were
  in a reference state \<open>s0\<close>.
\<close>

subsection \<open>The invariant\<close>

definition staff_ok :: "system_user list \<Rightarrow> bool" where
  "staff_ok us \<longleftrightarrow> distinct (map su_id us) \<and> distinct (map su_email us) \<and> list_ex ACTIVE_SUPER_ADMIN us"

definition options_ok :: "option_row list \<Rightarrow> option_row list \<Rightarrow> bool" where
  "options_ok old rows \<longleftrightarrow> distinct (map op_id rows) \<and> names_unique rows \<and>
     (\<forall>r \<in> set old. op_isSystemReserved r \<longrightarrow> r \<in> set rows)"

definition closed_has_reason :: "venue_row \<Rightarrow> bool" where
  "closed_has_reason v \<longleftrightarrow> (vn_isOpen v \<longleftrightarrow> vn_closedReason v = None) \<and> vn_closedReason v \<noteq> Some []"

definition venues_ok :: "venue_row list \<Rightarrow> bool" where
  "venues_ok vs \<longleftrightarrow> distinct (map vn_id vs) \<and> venue_names_unique vs \<and> (\<forall>v \<in> set vs. closed_has_reason v)"

definition office_ok :: "office \<Rightarrow> office \<Rightarrow> bool" where
  "office_ok s0 s \<longleftrightarrow> staff_ok (staff s) \<and> options_ok (department_rows s0) (department_rows s) \<and>
     options_ok (personnel_roles s0) (personnel_roles s) \<and> options_ok (type_rows s0) (type_rows s) \<and>
     venues_ok (venue_rows s)"

lemma office_ok_refl: "office_ok s0 s \<Longrightarrow> office_ok s s"
  by (auto simp: office_ok_def options_ok_def)

subsection \<open>Staff rows\<close>

lemma staff_ok_set_where:
  assumes "staff_ok us" "\<And>u. su_id (f u) = su_id u \<and> su_email (f u) = su_email u"
    "\<And>u. ACTIVE_SUPER_ADMIN u \<Longrightarrow> ACTIVE_SUPER_ADMIN (f u)"
  shows "staff_ok (set_where p f us)"
proof -
  have "map su_id (set_where p f us) = map su_id us" "map su_email (set_where p f us) = map su_email us"
    using assms(2) by (auto intro: map_set_where)
  moreover have "list_ex ACTIVE_SUPER_ADMIN (set_where p f us)"
    using assms(1,3) by (auto simp: staff_ok_def list_ex_iff set_where_def)
  ultimately show ?thesis using assms(1) by (simp add: staff_ok_def)
qed

lemma office_ok_update_user:
  assumes "office_ok s0 s" "update_user env i f s = Inr (s', a)"
    "\<And>u. su_id (f u) = su_id u \<and> su_email (f u) = su_email u"
    "\<And>u. ACTIVE_SUPER_ADMIN u \<Longrightarrow> ACTIVE_SUPER_ADMIN (f u)"
  shows "office_ok s0 s'"
  using assms staff_ok_set_where [OF _ assms(3,4)]
  by (auto simp: office_ok_def update_user_def Let_def split: option.splits)

text \<open>A write that may take the last super admin away is followed by the count.\<close>

lemma office_ok_counted:
  assumes "office_ok s0 s" "update_user env i f s = Inr (s', a)"
    "\<And>u. su_id (f u) = su_id u \<and> su_email (f u) = su_email u"
    "count_where ACTIVE_SUPER_ADMIN (staff s') \<noteq> 0"
  shows "office_ok s0 s'"
proof -
  have keys: "map su_id (set_where p f us) = map su_id us" "map su_email (set_where p f us) = map su_email us" for p us
    using assms(3) by (auto intro: map_set_where)
  have "list_ex ACTIVE_SUPER_ADMIN (staff s')"
    using assms(4) by (auto simp: count_where_def list_ex_iff filter_empty_conv)
  then show ?thesis using assms(1,2) keys
    by (auto simp: office_ok_def staff_ok_def update_user_def Let_def split: option.splits)
qed

lemma office_ok_insert_user:
  "office_ok s0 s \<Longrightarrow> insert_user env u s = Inr (s', a) \<Longrightarrow> office_ok s0 s'"
  by (auto simp: office_ok_def staff_ok_def insert_user_def Let_def split: if_splits)

lemma patch_row_keys: "su_id (patch_row p at u) = su_id u \<and> su_email (patch_row p at u) = su_email u"
  by (simp add: patch_row_def)

lemma patch_row_active:
  "\<not> touchesInvariant p \<Longrightarrow> ACTIVE_SUPER_ADMIN u \<Longrightarrow> ACTIVE_SUPER_ADMIN (patch_row p at u)"
  by (simp add: touchesInvariant_def patch_row_def ACTIVE_SUPER_ADMIN_def given_def)

subsection \<open>Option rows\<close>

lemma options_ok_insert: "options_ok old rows \<Longrightarrow> insert_row env r rows = Inr rows' \<Longrightarrow> options_ok old rows'"
  by (auto simp: options_ok_def insert_row_def split: if_splits)

text \<open>The row written was ordinary when it was read, so it is none of the reserved ones.\<close>

lemma options_ok_update:
  assumes "options_ok old rows" "update_row env i f rows = Inr (rows', r)" "\<And>x. op_id (f x) = op_id x"
    "\<And>x. x \<in> set old \<Longrightarrow> op_isSystemReserved x \<Longrightarrow> op_id x \<noteq> i"
  shows "options_ok old rows'"
proof -
  have rows': "rows' = set_where (\<lambda>x. op_id x = i) f rows" "names_unique rows'"
    using assms(2) by (auto simp: update_row_def Let_def split: option.splits if_splits)
  have "map op_id rows' = map op_id rows" using assms(3) by (auto simp: rows' intro: map_set_where)
  moreover have "x \<in> set rows'" if "x \<in> set old" "op_isSystemReserved x" for x
    using assms(1,4) that by (force simp: rows' set_set_where options_ok_def)
  ultimately show ?thesis using assms(1) rows' by (simp add: options_ok_def)
qed

lemma ordinary_row_apart:
  assumes "options_ok old rows" "ordinary_row i rows = Some r" "x \<in> set old" "op_isSystemReserved x"
  shows "op_id x \<noteq> op_id r"
proof
  assume eq: "op_id x = op_id r"
  have "x \<in> set rows" "distinct (map op_id rows)" using assms by (auto simp: options_ok_def)
  moreover have "r \<in> set rows" "\<not> op_isSystemReserved r"
    using assms(2) by (auto simp: ordinary_row_def dest: first_row_Some)
  ultimately show False using eq assms(4) by (auto simp: distinct_map dest: inj_onD)
qed

definition reserved_apart :: "office \<Rightarrow> option_model \<Rightarrow> int \<Rightarrow> bool" where
  "reserved_apart s0 model i \<longleftrightarrow> (\<forall>x \<in> set (option_rows model s0). op_isSystemReserved x \<longrightarrow> op_id x \<noteq> i)"

definition type_apart :: "office \<Rightarrow> int \<Rightarrow> bool" where
  "type_apart s0 i \<longleftrightarrow> (\<forall>x \<in> set (type_rows s0). op_isSystemReserved x \<longrightarrow> op_id x \<noteq> i)"

lemma office_ok_write_option:
  assumes "office_ok s0 s" "write_option env model i f s = Inr (s', a)" "\<And>x. op_id (f x) = op_id x"
    "reserved_apart s0 model i"
  shows "office_ok s0 s'"
  using assms options_ok_update [of _ "option_rows model s" env i f]
  by (cases model; force simp: office_ok_def write_option_def with_option_rows_def option_rows_def reserved_apart_def
      Let_def split: sum.splits prod.splits)

lemma office_ok_write_type:
  assumes "office_ok s0 s" "write_type env i f s = Inr (s', a)" "\<And>x. op_id (f x) = op_id x" "type_apart s0 i"
  shows "office_ok s0 s'"
  using assms options_ok_update [of _ "type_rows s" env i f]
  by (force simp: office_ok_def write_type_def type_apart_def Let_def split: sum.splits prod.splits)

lemma office_ok_insert_type: "office_ok s0 s \<Longrightarrow> insert_type env r s = Inr (s', a) \<Longrightarrow> office_ok s0 s'"
  by (auto simp: office_ok_def insert_type_def Let_def options_ok_insert split: sum.splits)

lemma ordinary_option_apart:
  "office_ok s0 s \<Longrightarrow> ordinary_row i (option_rows model s) = Some r \<Longrightarrow> reserved_apart s0 model (op_id r)"
  using ordinary_row_apart [of _ "option_rows model s" i r]
  by (cases model) (auto simp: office_ok_def reserved_apart_def option_rows_def)

lemma ordinary_type_apart:
  "office_ok s0 s \<Longrightarrow> ordinary_row i (type_rows s) = Some r \<Longrightarrow> type_apart s0 (op_id r)"
  using ordinary_row_apart [of _ "type_rows s" i r] by (auto simp: office_ok_def type_apart_def)

subsection \<open>Shared steps, run undisturbed\<close>

lemma permit_run [act_run]:
  "permit v w = (case v of Allowed \<Rightarrow> (Inr (), w) | Denied r \<Rightarrow> (Inl (Refused (Forbidden r)), w))"
  by (simp add: permit_def act_run split: policy_result.splits)

definition dropping :: "bool \<Rightarrow> string list \<Rightarrow> (string \<Rightarrow> option_dto list option) \<Rightarrow> string \<Rightarrow> option_dto list option" where
  "dropping ready keys c key = (if ready \<and> key \<in> set keys then None else c key)"

lemma redis_del_run [act_run]:
  assumes "undisturbed env"
  shows "redis_del env k keys w = (Inr (), w\<lparr>base := with_cache (dropping (redis_ready env k) keys) (base w),
     mine := with_cache (dropping (redis_ready env k) keys) (mine w)\<rparr>)"
proof -
  have "with_cache (dropping False keys) s = s" for s by (simp add: with_cache_def dropping_def [abs_def])
  moreover have "dropping True keys = (\<lambda>c key. if key \<in> set keys then None else c key)"
    by (intro ext) (simp add: dropping_def)
  ultimately show ?thesis
    by (cases "redis_ready env k") (simp_all add: redis_del_def on_cache_def Let_def undisturbed_simps assms)
qed

lemma undisturbed_aloneI: "undisturbed env \<Longrightarrow> undisturbed (alone env)"
  by (rule undisturbed_alone)

definition may_assign :: "option_row list \<Rightarrow> bool \<Rightarrow> int option \<Rightarrow> bool" where
  "may_assign rows reserved x \<longleftrightarrow> (case x of None \<Rightarrow> True | Some d \<Rightarrow> \<exists>r \<in> set rows. assignable reserved d r)"

lemma assert_option_run [act_run]:
  "undisturbed env \<Longrightarrow> assert_option env k rows x reserved e w =
     (if may_assign (rows (mine w)) reserved x then (Inr (), w) else (Inl (Refused (BadRequest e)), w))"
  using first_row_None [of "assignable reserved (the x)" "rows (mine w)"]
  by (auto simp: assert_option_def may_assign_def act_run split: option.splits)

end
