(* ===== verification/OfficeSystem.thy ===== *)
theory OfficeSystem
  imports OfficeGuard
begin

text \<open>
  Every operation of the back-office services keeps \<open>office_ok\<close> under interference and faults,
  and so does any sequence of calls: the system of the back office as an instance of the contract
  \<open>invariant_system\<close>.
\<close>

subsection \<open>The remaining row writes\<close>

lemma office_ok_move_users: "office_ok s0 s \<Longrightarrow> office_ok s0 (move_users model i j at s)"
  using staff_ok_set_where [of "staff s"]
  by (cases model) (auto simp: office_ok_def move_users_def ACTIVE_SUPER_ADMIN_def)

lemma office_ok_frames:
  "office_ok s0 (move_holders model i j s) = office_ok s0 s"
  "office_ok s0 (s\<lparr>ticks := ts\<rparr>) = office_ok s0 s"
  "office_ok s0 (s\<lparr>photo_rows := ps\<rparr>) = office_ok s0 s"
  "office_ok s0 (s\<lparr>amenity_rows := as\<rparr>) = office_ok s0 s"
  "office_ok s0 (with_cache f s) = office_ok s0 s"
  by (auto simp: office_ok_def move_holders_def with_cache_def)

lemma venues_ok_set_where:
  assumes "venues_ok vs" "venue_names_unique (set_where p f vs)" "\<And>v. vn_id (f v) = vn_id v"
    "\<And>v. closed_has_reason v \<Longrightarrow> closed_has_reason (f v)"
  shows "venues_ok (set_where p f vs)"
proof -
  have "map vn_id (set_where p f vs) = map vn_id vs" using assms(3) by (auto intro: map_set_where)
  then show ?thesis using assms by (auto simp: venues_ok_def set_set_where)
qed

lemma office_ok_write_venue:
  assumes "office_ok s0 s" "write_venue env i f s = Inr (s', a)" "\<And>v. vn_id (f v) = vn_id v"
    "\<And>v. closed_has_reason v \<Longrightarrow> closed_has_reason (f v)"
  shows "office_ok s0 s'"
  using assms venues_ok_set_where [of "venue_rows s" _ f]
  by (auto simp: office_ok_def write_venue_def Let_def split: option.splits if_splits)

lemma office_ok_insert_venue:
  assumes "office_ok s0 s" "insert_venue env v ps as s = Inr (s', a)" "closed_has_reason v"
  shows "office_ok s0 s'"
  using assms by (auto simp: office_ok_def venues_ok_def insert_venue_def Let_def split: if_splits)

lemma office_ok_insert_option:
  assumes "office_ok s0 s" "insert_row env r (option_rows model s) = Inr rows"
  shows "office_ok s0 (with_option_rows model rows s)"
  using assms by (cases model) (auto simp: office_ok_def with_option_rows_def option_rows_def options_ok_insert)

lemma office_ok_move_venues: "office_ok s0 s \<Longrightarrow> office_ok s0 (move_venues i j at s)"
proof -
  assume ok: "office_ok s0 s"
  let ?f = "\<lambda>v. v\<lparr>vn_venueTypeId := j, vn_updatedAt := at\<rparr>" and ?p = "\<lambda>v. vn_venueTypeId v = i"
  have names: "map vn_name (filter (\<lambda>v. vn_deletedAt v = None) (set_where ?p ?f vs))
      = map vn_name (filter (\<lambda>v. vn_deletedAt v = None) vs)" for vs
    by (induction vs) (auto simp: set_where_def)
  have "venues_ok (set_where ?p ?f (venue_rows s))"
    using ok by (intro venues_ok_set_where)
      (auto simp: names office_ok_def venues_ok_def venue_names_unique_def closed_has_reason_def)
  then show ?thesis using ok by (simp add: office_ok_def move_venues_def)
qed

lemma office_ok_move_photos: "office_ok s0 s \<Longrightarrow> move_photos env ms s = Inr (s', a) \<Longrightarrow> office_ok s0 s'"
  by (induction env ms s arbitrary: s' a rule: move_photos.induct)
    (auto simp: office_ok_frames split: if_splits)

lemma office_ok_write_amenity: "office_ok s0 s \<Longrightarrow> write_amenity env i f s = Inr (s', a) \<Longrightarrow> office_ok s0 s'"
  by (auto simp: write_amenity_def Let_def office_ok_frames split: option.splits if_splits)

lemma office_ok_insert_amenity: "office_ok s0 s \<Longrightarrow> insert_amenity env r s = Inr (s', a) \<Longrightarrow> office_ok s0 s'"
  by (auto simp: insert_amenity_def Let_def office_ok_frames split: if_splits)

subsection \<open>Shared steps\<close>

lemma safe_cache [safe_intros]:
  assumes "polite (office_ok s0) env"
  shows "safe (office_ok s0) (getJson env k key)" "safe (office_ok s0) (setJson env k key v)"
    "safe (office_ok s0) (redis_del env k keys)"
  using assms
  by (auto simp: safe_def getJson_def setJson_def redis_del_def on_cache_def Let_def polite_def
      meanwhile_def office_ok_frames)

lemma safe_fill [safe_intros]: "polite (office_ok s0) env \<Longrightarrow> safe (office_ok s0) (cache_aside env key q)"
  unfolding cache_aside_def by (intro safe_intros)

lemma safe_permit [safe_intros]: "safe I (permit v)"
  by (cases v) (auto simp: permit_def intro: safe_intros)

lemma safe_assertOptions [safe_intros]:
  "polite I env \<Longrightarrow> safe I (assertOptionsAssignable env k a b r)"
  unfolding assertOptionsAssignable_def assert_option_def by (intro safe_intros)

lemma inner_keep_andThen: "inner P m (\<lambda>_. P) \<Longrightarrow> (\<And>a. inner P (f a) Q) \<Longrightarrow> inner P (andThen m f) Q"
  by (rule inner_andThen)

lemma inner_reads:
  "inner P (permit v) (\<lambda>_. P)"
  "inner P (assert_option (alone env) k rows i r e) (\<lambda>_. P)"
  by (auto simp: inner_def permit_def assert_option_def act_run split: policy_result.splits option.splits)

lemma inner_assertOptions: "inner P (assertOptionsAssignable (alone env) k a b r) (\<lambda>_. P)"
  unfolding assertOptionsAssignable_def by (intro inner_keep_andThen inner_reads)

text \<open>A write followed by the count of the super admins that remain.\<close>

lemma inner_counted:
  assumes "\<And>u. su_id (f u) = su_id u \<and> su_email (f u) = su_email u"
  shows "inner (office_ok s0)
    (andThen (put (alone env) k (update_user (alone env) i f)) (\<lambda>dto.
     andThen (assertActiveSuperAdminRemains (alone env) j) (\<lambda>u. done_with (g dto u)))) (\<lambda>_. office_ok s0)"
proof (rule inner_conseq)
  show "inner (office_ok s0)
    (andThen (put (alone env) k (update_user (alone env) i f)) (\<lambda>dto.
     andThen (assertActiveSuperAdminRemains (alone env) j) (\<lambda>u. done_with (g dto u))))
    (\<lambda>_ s'. \<exists>s a. office_ok s0 s \<and> update_user (alone env) i f s = Inr (s', a) \<and>
       count_where ACTIVE_SUPER_ADMIN (staff s') \<noteq> 0)"
    by (auto simp: inner_def assertActiveSuperAdminRemains_def act_run split: option.splits sum.splits)
qed (use office_ok_counted [OF _ _ assms] in blast)

lemma andThen_done: "andThen m done_with = m"
  by (rule ext) (auto simp: andThen_def done_with_def split: prod.splits sum.splits)

subsection \<open>Staff\<close>

lemma inner_update_work:
  "touchesInvariant p \<Longrightarrow> inner (office_ok s0) (update_work actor i p (alone env)) (\<lambda>_. office_ok s0)"
  unfolding update_work_def
  by (auto intro!: inner_keep_andThen inner_reads inner_assertOptions inner_counted [OF patch_row_keys]
      inner_conseq [OF inner_alone(1)] inner_conseq [OF inner_basic(4)])

lemma inner_softDelete_work:
  "inner (office_ok s0) (softDelete_work actor i (alone env)) (\<lambda>_. office_ok s0)"
proof -
  have counted: "inner (office_ok s0)
    (andThen (put (alone env) 1 (update_user (alone env) (su_id t) (delete_row (now (alone env) 1)))) (\<lambda>_.
     assertActiveSuperAdminRemains (alone env) 2)) (\<lambda>_. office_ok s0)" for t
    using inner_counted [of "delete_row (now (alone env) 1)" s0 env 1 "su_id t" 2 "\<lambda>_ u. u"]
    by (simp add: delete_row_def andThen_done)
  have reads: "inner P (fetch (alone env) k f) (\<lambda>_. P)" "inner P (need x e) (\<lambda>_. P)" for P k f x e
    by (auto simp: inner_def act_run split: option.splits)
  show ?thesis unfolding softDelete_work_def
    by (rule inner_keep_andThen, rule reads, rule inner_keep_andThen, rule reads,
        rule inner_keep_andThen, rule inner_reads, rule counted)
qed

subsection \<open>Safety of each operation\<close>

text \<open>A row read, found present and then written.\<close>

lemma safe_found:
  assumes "polite I env" "\<And>s a. I s \<Longrightarrow> f s = Some a \<Longrightarrow> safe I (g a)"
  shows "safe I (andThen (fetch env k f) (\<lambda>x. andThen (need x e) g))"
  using assms by (auto intro!: safe_fetch_then safe_need_then)

lemma safe_create_user: "polite (office_ok s0) env \<Longrightarrow> safe (office_ok s0) (create_user env actor dto)"
  unfolding create_user_def Let_def dropOptionCounts_def
  by (intro safe_intros) (auto intro: office_ok_insert_user)

lemma safe_update_user:
  assumes "polite (office_ok s0) env" "\<And>u. su_id (f u) = su_id u \<and> su_email (f u) = su_email u"
    "\<And>u. ACTIVE_SUPER_ADMIN u \<Longrightarrow> ACTIVE_SUPER_ADMIN (f u)"
  shows "safe (office_ok s0) (put env k (update_user env' i f))"
  by (rule safe_put [OF assms(1)]) (use assms(2,3) office_ok_update_user in blast)

lemma safe_resetPassword: "polite (office_ok s0) env \<Longrightarrow> safe (office_ok s0) (resetPassword env actor i)"
  unfolding resetPassword_def Let_def
  by (intro safe_intros safe_update_user) (auto simp: ACTIVE_SUPER_ADMIN_def)

lemma safe_staff_reads:
  assumes "polite (office_ok s0) env"
  shows "safe (office_ok s0) (findManyPaginated env q r)" "safe (office_ok s0) (findOne env i)"
  unfolding findManyPaginated_def findOne_def by (intro safe_intros assms)+

lemma safe_update_staff: "polite (office_ok s0) env \<Longrightarrow> safe (office_ok s0) (update_staff env actor i p)"
  unfolding update_staff_def dropOptionCounts_def
  by (intro safe_intros safe_serializable inner_update_work)
    (auto simp: update_work_def intro!: safe_intros
      intro: office_ok_update_user [OF _ _ patch_row_keys patch_row_active])

lemma safe_softDelete: "polite (office_ok s0) env \<Longrightarrow> safe (office_ok s0) (softDelete env actor i)"
  unfolding softDelete_def dropOptionCounts_def
  by (intro safe_intros safe_serializable inner_softDelete_work)

lemma safe_restore_staff: "polite (office_ok s0) env \<Longrightarrow> safe (office_ok s0) (restore_staff env i)"
  unfolding restore_staff_def dropOptionCounts_def
  by (intro safe_intros safe_update_user) (auto simp: ACTIVE_SUPER_ADMIN_def restore_row_def)

lemma safe_pictures:
  assumes "polite (office_ok s0) env"
  shows "safe (office_ok s0) (updateOwnProfile env i url)" "safe (office_ok s0) (setOwnAvatar env i u)"
  using assms unfolding updateOwnProfile_def setOwnAvatar_def
  by (intro safe_intros safe_update_user; simp add: ACTIVE_SUPER_ADMIN_def set_picture_def)+

subsection \<open>Options\<close>

lemma retired_ids [simp]: "op_id (rename_row n at r) = op_id r" "op_id (retire_row at r) = op_id r"
  by (simp_all add: rename_row_def retire_row_def)

lemma safe_write_option:
  assumes "polite (office_ok s0) env" "reserved_apart s0 model i" "\<And>x. op_id (f x) = op_id x"
  shows "safe (office_ok s0) (put env k (write_option env' model i f))"
  by (rule safe_put [OF assms(1)]) (use assms(2,3) office_ok_write_option in blast)

lemma safe_list_options: "polite (office_ok s0) env \<Longrightarrow> safe (office_ok s0) (list_options env model r)"
  unfolding list_options_def by (intro safe_intros)

lemma safe_create_option: "polite (office_ok s0) env \<Longrightarrow> safe (office_ok s0) (create_option env model name)"
  unfolding create_option_def
  by (intro safe_intros) (auto simp: Let_def office_ok_insert_option split: sum.splits)

lemma safe_update_option: "polite (office_ok s0) env \<Longrightarrow> safe (office_ok s0) (update_option env model i name)"
  unfolding update_option_def
  by (rule safe_found, assumption) (intro safe_intros safe_write_option; simp add: ordinary_option_apart)

lemma safe_resolveTombstoneId [safe_intros]: "polite I env \<Longrightarrow> safe I (resolveTombstoneId env k model)"
  unfolding resolveTombstoneId_def by (intro safe_intros)

lemma safe_softDelete_option: "polite (office_ok s0) env \<Longrightarrow> safe (office_ok s0) (softDelete_option env model i)"
  unfolding softDelete_option_def
  by (rule safe_found, assumption)
    (intro safe_intros; auto simp: office_ok_frames office_ok_move_users
      intro: office_ok_write_option [OF _ _ retired_ids(2) ordinary_option_apart])

subsection \<open>Venue types and amenities\<close>

lemma safe_insert_type: "polite (office_ok s0) env \<Longrightarrow> safe (office_ok s0) (put env k (insert_type env' r))"
  by (rule safe_put, assumption) (rule office_ok_insert_type)

lemma safe_write_type:
  assumes "polite (office_ok s0) env" "type_apart s0 i" "\<And>x. op_id (f x) = op_id x"
  shows "safe (office_ok s0) (put env k (write_type env' i f))"
  by (rule safe_put [OF assms(1)]) (use assms(2,3) office_ok_write_type in blast)

lemma safe_type_calls:
  assumes "polite (office_ok s0) env"
  shows "safe (office_ok s0) (list_types env r)" "safe (office_ok s0) (create_type env name)"
  unfolding list_types_def create_type_def by (intro safe_intros safe_insert_type assms)+

lemma safe_update_type: "polite (office_ok s0) env \<Longrightarrow> safe (office_ok s0) (update_type env i name)"
  unfolding update_type_def
  by (rule safe_found, assumption) (intro safe_intros safe_write_type; simp add: ordinary_type_apart)

lemma safe_stop_case: "(\<And>m. safe I (f m)) \<Longrightarrow> (\<And>e. safe I (g e)) \<Longrightarrow> safe I (case x of Refused m \<Rightarrow> f m | Thrown e \<Rightarrow> g e)"
  by (cases x) auto

lemma safe_resolve_type_tombstone [safe_intros]:
  "polite (office_ok s0) env \<Longrightarrow> safe (office_ok s0) (resolve_type_tombstone env k)"
  unfolding resolve_type_tombstone_def findTombstoneId_def
  by (intro safe_intros safe_insert_type safe_stop_case)

lemma safe_softDelete_type: "polite (office_ok s0) env \<Longrightarrow> safe (office_ok s0) (softDelete_type env i)"
  unfolding softDelete_type_def
  by (rule safe_found, assumption)
    (intro safe_intros; auto simp: office_ok_move_venues
      intro: office_ok_write_type [OF _ _ retired_ids(2) ordinary_type_apart])

lemma safe_write_amenity: "polite (office_ok s0) env \<Longrightarrow> safe (office_ok s0) (put env k (write_amenity env' i f))"
  by (rule safe_put, assumption) (rule office_ok_write_amenity)

lemma safe_amenity_calls:
  assumes "polite (office_ok s0) env"
  shows "safe (office_ok s0) (list_amenities env)" "safe (office_ok s0) (create_amenity env name)"
    "safe (office_ok s0) (update_amenity env n name)" "safe (office_ok s0) (softDelete_amenity env n)"
  unfolding list_amenities_def create_amenity_def update_amenity_def softDelete_amenity_def
  by (intro safe_intros safe_write_amenity assms; auto simp: office_ok_frames intro: office_ok_insert_amenity)+

subsection \<open>Venues\<close>

lemma safe_write_venue:
  assumes "polite (office_ok s0) env" "\<And>v. vn_id (f v) = vn_id v" "\<And>v. closed_has_reason v \<Longrightarrow> closed_has_reason (f v)"
  shows "safe (office_ok s0) (put env k (write_venue env' i f))"
  by (rule safe_put [OF assms(1)]) (use assms(2,3) office_ok_write_venue in blast)

lemma safe_venue_reads:
  assumes "polite (office_ok s0) env"
  shows "safe (office_ok s0) (list_venues env q)" "safe (office_ok s0) (listForLine env q p l)"
    "safe (office_ok s0) (findById env i)"
  unfolding list_venues_def listForLine_def findById_def by (intro safe_intros assms)+

lemma safe_venue_checks [safe_intros]:
  assumes "polite (office_ok s0) env"
  shows "safe (office_ok s0) (assertAssignableVenueType env k t)" "safe (office_ok s0) (assertActiveAmenities env k ids)"
    "safe (office_ok s0) (assertOwnPhotoUrls env urls)" "safe (office_ok s0) (deleteObjectsFor env urls)"
  unfolding assertAssignableVenueType_def assertActiveAmenities_def assertOwnPhotoUrls_def deleteObjectsFor_def
  by (intro safe_intros assms)+

lemma safe_pair: "(\<And>a b. x = (a, b) \<Longrightarrow> safe I (f a b)) \<Longrightarrow> safe I (case x of (a, b) \<Rightarrow> f a b)"
  by (cases x) auto

lemma safe_rehomePhotos [safe_intros]:
  "polite (office_ok s0) env \<Longrightarrow> safe (office_ok s0) (rehomePhotos env k row)"
  unfolding rehomePhotos_def Let_def
  by (intro safe_intros safe_pair) (auto intro: office_ok_move_photos)

lemma safe_replacements [safe_intros]:
  assumes "polite (office_ok s0) env"
  shows "safe (office_ok s0) (replace_ticks env k v ids)" "safe (office_ok s0) (replace_photos env k v urls)"
  unfolding replace_ticks_def replace_photos_def Let_def
  by (intro safe_intros assms; auto simp: office_ok_frames split: if_splits)+

lemma venue_edits [simp]:
  "vn_id (edit_venue dto at v) = vn_id v"
  "closed_has_reason v \<Longrightarrow> closed_has_reason (edit_venue dto at v)"
  "closed_has_reason (new_venue env k cdto)"
  by (simp_all add: edit_venue_def closed_has_reason_def new_venue_def)

lemma safe_create_venue: "polite (office_ok s0) env \<Longrightarrow> safe (office_ok s0) (create_venue env dto)"
  unfolding create_venue_def by (intro safe_intros; auto intro: office_ok_insert_venue)

lemma safe_update_venue: "polite (office_ok s0) env \<Longrightarrow> safe (office_ok s0) (update_venue env i dto)"
  unfolding update_venue_def update_venue_work_def by (intro safe_intros safe_write_venue; simp)

lemma safe_close_venue: "polite (office_ok s0) env \<Longrightarrow> safe (office_ok s0) (close_venue env i reason who)"
  unfolding close_venue_def Let_def
  by (rule safe_check_then) (intro safe_intros safe_write_venue; simp add: closed_has_reason_def)

lemma safe_reopen_venue:
  "polite (office_ok s0) env \<Longrightarrow> safe (office_ok s0) (reopen_venue env i)"
  "polite (office_ok s0) env \<Longrightarrow> safe (office_ok s0) (softDelete_venue env i)"
  unfolding reopen_venue_def softDelete_venue_def
  by (intro safe_intros safe_write_venue; simp add: closed_has_reason_def)+

subsection \<open>The system\<close>

text \<open>Every call the controllers make into the five services.\<close>

datatype office_call =
    CreateUser staff_actor create_user_dto
  | ResetPassword staff_actor string
  | ListUsers staff_query system_role
  | FindUser string
  | UpdateUser staff_actor string staff_patch
  | DeleteUser staff_actor string
  | RestoreUser string
  | OwnProfile string "string option option"
  | OwnAvatar string string
  | ListOptions option_model bool
  | CreateOption option_model string
  | RenameOption option_model int string
  | DeleteOption option_model int
  | ListTypes bool
  | CreateType string
  | RenameType int string
  | DeleteType int
  | ListAmenities
  | CreateAmenity string
  | RenameAmenity int string
  | DeleteAmenity int
  | ListVenues venue_query
  | CatalogueVenues venue_query nat nat
  | FindVenue string
  | CreateVenue create_venue_dto
  | UpdateVenue string update_venue_dto
  | CloseVenue string string "string \<times> string"
  | ReopenVenue string
  | DeleteVenue string

definition serve_office :: "office \<Rightarrow> office_env \<times> office_call \<Rightarrow> office" where
  "serve_office s x = (case x of (env, c) \<Rightarrow> (case c of
       CreateUser actor dto \<Rightarrow> leaves (create_user env actor dto) s
     | ResetPassword actor i \<Rightarrow> leaves (resetPassword env actor i) s
     | ListUsers q r \<Rightarrow> leaves (findManyPaginated env q r) s
     | FindUser i \<Rightarrow> leaves (findOne env i) s
     | UpdateUser actor i p \<Rightarrow> leaves (update_staff env actor i p) s
     | DeleteUser actor i \<Rightarrow> leaves (softDelete env actor i) s
     | RestoreUser i \<Rightarrow> leaves (restore_staff env i) s
     | OwnProfile i url \<Rightarrow> leaves (updateOwnProfile env i url) s
     | OwnAvatar i url \<Rightarrow> leaves (setOwnAvatar env i url) s
     | ListOptions model r \<Rightarrow> leaves (list_options env model r) s
     | CreateOption model name \<Rightarrow> leaves (create_option env model name) s
     | RenameOption model i name \<Rightarrow> leaves (update_option env model i name) s
     | DeleteOption model i \<Rightarrow> leaves (softDelete_option env model i) s
     | ListTypes r \<Rightarrow> leaves (list_types env r) s
     | CreateType name \<Rightarrow> leaves (create_type env name) s
     | RenameType i name \<Rightarrow> leaves (update_type env i name) s
     | DeleteType i \<Rightarrow> leaves (softDelete_type env i) s
     | ListAmenities \<Rightarrow> leaves (list_amenities env) s
     | CreateAmenity name \<Rightarrow> leaves (create_amenity env name) s
     | RenameAmenity i name \<Rightarrow> leaves (update_amenity env i name) s
     | DeleteAmenity i \<Rightarrow> leaves (softDelete_amenity env i) s
     | ListVenues q \<Rightarrow> leaves (list_venues env q) s
     | CatalogueVenues q p l \<Rightarrow> leaves (listForLine env q p l) s
     | FindVenue i \<Rightarrow> leaves (findById env i) s
     | CreateVenue dto \<Rightarrow> leaves (create_venue env dto) s
     | UpdateVenue i dto \<Rightarrow> leaves (update_venue env i dto) s
     | CloseVenue i reason who \<Rightarrow> leaves (close_venue env i reason who) s
     | ReopenVenue i \<Rightarrow> leaves (reopen_venue env i) s
     | DeleteVenue i \<Rightarrow> leaves (softDelete_venue env i) s))"

lemmas safe_calls =
  safe_create_user safe_resetPassword safe_staff_reads safe_update_staff safe_softDelete
  safe_restore_staff safe_pictures safe_list_options safe_create_option safe_update_option
  safe_softDelete_option safe_type_calls safe_update_type safe_softDelete_type safe_amenity_calls
  safe_venue_reads safe_create_venue safe_update_venue safe_close_venue safe_reopen_venue

lemma serve_office_ok:
  "office_ok s0 s \<Longrightarrow> polite (office_ok s0) env \<Longrightarrow> office_ok s0 (serve_office s (env, c))"
  by (cases c) (simp_all add: serve_office_def leaves_safe safe_calls)

definition polite_call :: "office \<Rightarrow> office_env \<times> office_call \<Rightarrow> bool" where
  "polite_call s0 x \<longleftrightarrow> polite (office_ok s0) (fst x)"

interpretation back_office: invariant_system serve_office "office_ok s0" "polite_call s0" for s0
  by unfold_locales (auto simp: polite_call_def intro: serve_office_ok)

end
