(* ===== verification/OfficeSerial.thy ===== *)
theory OfficeSerial
  imports OfficeSystem
begin

text \<open>
  The back office when its calls run one at a time and Redis is up: every reference points to a
  live row, and a cached list is the list a fresh query would give. \<open>serial env0 K\<close> is that
  state of affairs with the keys in \<open>K\<close> excused, as they are between a write and its
  invalidation. Only the sort order of \<open>env0\<close> matters; it is the database's, so all calls share it.
\<close>

subsection \<open>References\<close>

definition live_option :: "option_row list \<Rightarrow> int \<Rightarrow> bool" where
  "live_option rows i \<longleftrightarrow> (\<exists>r \<in> set rows. op_id r = i \<and> op_deletedAt r = None)"

definition live_amenity :: "amenity_row list \<Rightarrow> int \<Rightarrow> bool" where
  "live_amenity rows i \<longleftrightarrow> (\<exists>a \<in> set rows. ay_id a = i \<and> ay_deletedAt a = None)"

definition refs_ok :: "office \<Rightarrow> bool" where
  "refs_ok s \<longleftrightarrow>
     (\<forall>u \<in> set (staff s). \<forall>model. live_option (option_rows model s) (user_option model u)) \<and>
     (\<forall>h \<in> set (holders s). \<forall>model. live_option (option_rows model s) (holder_option model h)) \<and>
     (\<forall>v \<in> set (venue_rows s). live_option (type_rows s) (vn_venueTypeId v)) \<and>
     (\<forall>t \<in> set (ticks s). live_amenity (amenity_rows s) (snd t)) \<and> distinct (map ay_id (amenity_rows s))"

subsection \<open>Cached lists\<close>

definition views :: "office_env \<Rightarrow> (string \<times> (office \<Rightarrow> option_dto list)) list" where
  "views env = [(optionListKey Department False, option_view env Department False),
     (optionListKey Department True, option_view env Department True),
     (optionListKey PersonnelRole False, option_view env PersonnelRole False),
     (optionListKey PersonnelRole True, option_view env PersonnelRole True),
     (venueTypeListKey False, type_view env False), (venueTypeListKey True, type_view env True),
     (AMENITY_LIST_KEY, amenity_view env)]"

definition fresh_except :: "office_env \<Rightarrow> string set \<Rightarrow> office \<Rightarrow> bool" where
  "fresh_except env K s \<longleftrightarrow> (\<forall>(k, v) \<in> set (views env). k \<notin> K \<longrightarrow> cache s k = None \<or> cache s k = Some (v s))"

lemma keys_distinct: "distinct (map fst (views env))"
  by (simp add: views_def optionListKey_def venueTypeListKey_def AMENITY_LIST_KEY_def)

lemma views_by_collation: "collation env = collation env0 \<Longrightarrow> views env = views env0"
  by (simp add: views_def option_view_def [abs_def] type_view_def [abs_def] amenity_view_def [abs_def]
      by_name_def [abs_def])

definition option_views :: "office_env \<Rightarrow> (office \<Rightarrow> option_dto list) set" where
  "option_views env = {option_view env m r | m r. True}"

definition type_views :: "office_env \<Rightarrow> (office \<Rightarrow> option_dto list) set" where
  "type_views env = {type_view env r | r. True}"

lemma view_kinds:
  assumes "(k, v) \<in> set (views env)"
  shows "v \<in> option_views env \<and> k \<in> set OPTION_LIST_KEYS \<or> v \<in> type_views env \<and> k \<in> set VENUE_TYPE_CACHE_KEYS \<or>
    v = amenity_view env \<and> k = AMENITY_LIST_KEY"
  using assms
  by (auto simp: views_def option_views_def type_views_def OPTION_LIST_KEYS_def VENUE_TYPE_CACHE_KEYS_def)

lemma view_cases:
  assumes "(k, v) \<in> set (views env)"
  obtains m r where "v = option_view env m r" "k \<in> set OPTION_LIST_KEYS"
  | r where "v = type_view env r" "k \<in> set VENUE_TYPE_CACHE_KEYS"
  | "v = amenity_view env" "k = AMENITY_LIST_KEY"
  using view_kinds [OF assms] by (auto simp: option_views_def type_views_def)

lemma option_view_cong:
  "option_rows m s' = option_rows m s \<Longrightarrow> staff s' = staff s \<Longrightarrow> holders s' = holders s \<Longrightarrow>
   option_view env m r s' = option_view env m r s"
  by (simp add: option_view_def toOptionDto_def [abs_def])

lemma type_view_cong:
  "type_rows s' = type_rows s \<Longrightarrow> venue_rows s' = venue_rows s \<Longrightarrow> type_view env r s' = type_view env r s"
  by (simp add: type_view_def toTypeDto_def [abs_def] venueCountOf_def [abs_def])

lemma amenity_view_cong:
  "amenity_rows s' = amenity_rows s \<Longrightarrow> venue_rows s' = venue_rows s \<Longrightarrow> ticks s' = ticks s \<Longrightarrow>
   amenity_view env s' = amenity_view env s"
  by (simp add: amenity_view_def toAmenityDto_def [abs_def] tick_count_def [abs_def] live_venue_def [abs_def])

subsection \<open>The serial invariant\<close>

definition serial :: "office_env \<Rightarrow> string list \<Rightarrow> office \<Rightarrow> bool" where
  "serial env0 K s \<longleftrightarrow> refs_ok s \<and> fresh_except env0 (set K) s"

lemma serial_weaken: "serial env0 K s \<Longrightarrow> set K \<subseteq> set L \<Longrightarrow> serial env0 L s"
  by (auto simp: serial_def fresh_except_def)

lemma fresh_exceptD:
  "fresh_except env K s \<Longrightarrow> (k, v) \<in> set (views env) \<Longrightarrow> k \<notin> K \<Longrightarrow> cache s k = None \<or> cache s k = Some (v s)"
  by (auto simp: fresh_except_def)

lemma fresh_exceptI:
  "(\<And>k v. (k, v) \<in> set (views env) \<Longrightarrow> k \<notin> K \<Longrightarrow> cache s k = None \<or> cache s k = Some (v s)) \<Longrightarrow> fresh_except env K s"
  by (auto simp: fresh_except_def)

text \<open>A write may change the views whose keys it excuses, and no other.\<close>

lemma serial_write:
  assumes "serial env0 K s" "refs_ok s'" "cache s' = cache s"
    and "\<And>k v. (k, v) \<in> set (views env0) \<Longrightarrow> k \<notin> set K \<Longrightarrow> v s' = v s"
  shows "serial env0 K s'"
proof -
  have "fresh_except env0 (set K) s'"
  proof (rule fresh_exceptI)
    fix k v assume kv: "(k, v) \<in> set (views env0)" "k \<notin> set K"
    then show "cache s' k = None \<or> cache s' k = Some (v s')"
      using fresh_exceptD [OF _ kv] assms(1,3) assms(4) [OF kv] by (simp add: serial_def)
  qed
  then show ?thesis using assms(2) by (simp add: serial_def)
qed

lemma refs_with_cache [simp]: "refs_ok (with_cache f s) = refs_ok s"
  by (simp add: refs_ok_def option_rows_def cong: option_model.case_cong)

lemma view_with_cache: "(k, v) \<in> set (views env) \<Longrightarrow> v (with_cache f s) = v s"
  by (erule view_cases)
    (auto simp: option_rows_def cong: option_model.case_cong intro!: option_view_cong type_view_cong amenity_view_cong)

lemma cache_with_cache [simp]: "cache (with_cache f s) = f (cache s)"
  by (simp add: with_cache_def)

lemma serial_drop:
  assumes "serial env0 K s" "set K \<subseteq> set keys"
  shows "serial env0 [] (with_cache (dropping True keys) s)"
proof -
  have "fresh_except env0 {} (with_cache (dropping True keys) s)"
  proof (rule fresh_exceptI)
    fix k v assume kv: "(k, v) \<in> set (views env0)"
    show "cache (with_cache (dropping True keys) s) k = None \<or>
        cache (with_cache (dropping True keys) s) k = Some (v (with_cache (dropping True keys) s))"
      using fresh_exceptD [OF _ kv, of "set K" s] assms
      by (auto simp: serial_def view_with_cache [OF kv] dropping_def)
  qed
  then show ?thesis using assms(1) by (simp add: serial_def)
qed

lemma serial_fill:
  assumes "serial env0 [] s" "(k, v) \<in> set (views env0)"
  shows "serial env0 [] (with_cache (\<lambda>c. c(k := Some (v s))) s)"
proof -
  have "fresh_except env0 {} (with_cache (\<lambda>c. c(k := Some (v s))) s)"
  proof (rule fresh_exceptI)
    fix k' v' assume kv: "(k', v') \<in> set (views env0)"
    have "v' = v" if "k' = k"
      using eq_key_imp_eq_value [OF keys_distinct assms(2)] kv that by auto
    then show "cache (with_cache (\<lambda>c. c(k := Some (v s))) s) k' = None \<or>
        cache (with_cache (\<lambda>c. c(k := Some (v s))) s) k' = Some (v' (with_cache (\<lambda>c. c(k := Some (v s))) s))"
      using fresh_exceptD [OF _ kv, of "{}" s] assms(1)
      by (auto simp: serial_def view_with_cache [OF kv])
  qed
  then show ?thesis using assms(1) by (simp add: serial_def)
qed

text \<open>One write: the views it changes are excused.\<close>

lemma serial_step:
  assumes "serial env0 K s" "refs_ok s'" "cache s' = cache s"
    and "set OPTION_LIST_KEYS \<subseteq> set K \<or> (\<forall>m r. option_view env0 m r s' = option_view env0 m r s)"
    and "set VENUE_TYPE_CACHE_KEYS \<subseteq> set K \<or> (\<forall>r. type_view env0 r s' = type_view env0 r s)"
    and "AMENITY_LIST_KEY \<in> set K \<or> amenity_view env0 s' = amenity_view env0 s"
  shows "serial env0 K s'"
proof (rule serial_write [OF assms(1-3)])
  fix k v assume "(k, v) \<in> set (views env0)" "k \<notin> set K"
  then show "v s' = v s" using assms(4-6) by (auto elim!: view_cases)
qed

subsection \<open>Calls that run one at a time\<close>

definition serial_env :: "office_env \<Rightarrow> office_env \<Rightarrow> bool" where
  "serial_env env0 env \<longleftrightarrow> undisturbed env \<and> (\<forall>k. redis_ready env k) \<and> collation env = collation env0"

lemma serial_envD: "serial_env env0 env \<Longrightarrow> undisturbed env" "serial_env env0 env \<Longrightarrow> undisturbed (alone env)"
  by (auto simp: serial_env_def undisturbed_aloneI)

lemma triple_drop:
  "serial_env env0 env \<Longrightarrow> set K \<subseteq> set keys \<Longrightarrow>
   triple (serial env0 []) (serial env0 K) (redis_del env k keys) (\<lambda>_. serial env0 [])"
  using serial_drop by (auto simp: triple_def act_run serial_env_def)

lemma triple_commit:
  assumes "serial_env env0 env" "\<And>s. P s \<Longrightarrow> serial env0 [] s" "inner P work (\<lambda>_. serial env0 K)" "set K \<subseteq> set keys"
    and "\<And>a. triple (serial env0 []) (serial env0 []) (g a) (\<lambda>_. serial env0 [])"
  shows "triple (serial env0 []) P (andThen (atomically work) (\<lambda>a. andThen (redis_del env k keys) (\<lambda>_. g a))) (\<lambda>_. serial env0 [])"
  by (rule triple_andThen, rule triple_atomically, rule assms(3), erule assms(2), rule triple_andThen,
      rule triple_drop [OF assms(1,4)], rule assms(5))

lemma triple_returns: "triple I I (done_with a) (\<lambda>_. I)" "triple I I (stop_with e) (\<lambda>_. I)" "triple I I (tell es) (\<lambda>_. I)"
  by (auto simp: triple_def act_run)

lemma triple_commit0:
  "inner I work (\<lambda>_. I) \<Longrightarrow> (\<And>a. triple I I (g a) (\<lambda>_. I)) \<Longrightarrow> triple I I (andThen (atomically work) g) (\<lambda>_. I)"
  by (rule triple_andThen, rule triple_atomically)

lemma triple_commit1:
  assumes "serial_env env0 env" "\<And>s. P s \<Longrightarrow> serial env0 [] s" "inner P work (\<lambda>_. serial env0 K)" "set K \<subseteq> set keys"
  shows "triple (serial env0 []) P (andThen (atomically work) (\<lambda>a. redis_del env k keys)) (\<lambda>_. serial env0 [])"
  by (rule triple_andThen, rule triple_atomically, rule assms(3), erule assms(2), rule triple_drop [OF assms(1,4)])

lemma triple_try:
  "triple I P m (\<lambda>_. I) \<Longrightarrow> triple I P (catching m (\<lambda>e. stop_with (f e))) (\<lambda>_. I)"
  using triple_catching [of I P m "\<lambda>_. I" I "\<lambda>e. stop_with (f e)" "\<lambda>_. I"] triple_returns(2) by force

lemma found_run:
  "undisturbed env \<Longrightarrow> andThen (fetch env k f) (\<lambda>x. andThen (need x e) g) w =
     (case f (mine w) of None \<Rightarrow> (Inl (Refused e), w) | Some a \<Rightarrow> g a w)"
  by (simp add: act_run split: option.splits)

lemma triple_found:
  assumes "undisturbed env" "\<And>s. P s \<Longrightarrow> I s" "\<And>a. triple I (\<lambda>s. P s \<and> f s = Some a) (g a) Q"
  shows "triple I P (andThen (fetch env k f) (\<lambda>x. andThen (need x e) g)) Q"
  using assms(2,3) unfolding triple_def found_run [OF assms(1)] by (auto split: option.splits)

lemma inner_found:
  assumes "undisturbed env" "\<And>a. inner (\<lambda>s. P s \<and> f s = Some a) (g a) Q"
  shows "inner P (andThen (fetch env k f) (\<lambda>x. andThen (need x e) g)) Q"
  using assms(2) unfolding inner_def found_run [OF assms(1)] by (auto split: option.splits)

lemma inner_put_to:
  "undisturbed env \<Longrightarrow> (\<And>s s' a. P s \<Longrightarrow> g s = Inr (s', a) \<Longrightarrow> Q s') \<Longrightarrow> inner P (put env k g) (\<lambda>_. Q)"
  by (auto simp: inner_def act_run split: sum.splits)

lemma inner_assigns:
  "undisturbed env \<Longrightarrow> inner P (assertOptionsAssignable env k d r b)
     (\<lambda>_ s. P s \<and> may_assign (department_rows s) b d \<and> may_assign (personnel_roles s) b r)"
  by (auto simp: inner_def assertOptionsAssignable_def act_run)

lemma inner_remains: "undisturbed env \<Longrightarrow> inner P (assertActiveSuperAdminRemains env k) (\<lambda>_. P)"
  by (auto simp: inner_def assertActiveSuperAdminRemains_def act_run)

lemma inner_permit: "inner P (permit v) (\<lambda>_. P)"
  by (rule inner_reads)

subsection \<open>Staff\<close>

lemma may_assign_live: "may_assign rows b (Some d) \<Longrightarrow> live_option rows d"
  by (auto simp: may_assign_def assignable_def live_option_def)

lemma serial_staff:
  assumes "serial env0 K s" "set OPTION_LIST_KEYS \<subseteq> set K"
    and "\<forall>u \<in> set us. live_option (department_rows s) (su_departmentId u) \<and> live_option (personnel_roles s) (su_personnelRoleId u)"
  shows "serial env0 K (s\<lparr>staff := us\<rparr>)"
proof (rule serial_step [OF assms(1)])
  show "refs_ok (s\<lparr>staff := us\<rparr>)"
    using assms(1,3) by (auto simp: serial_def refs_ok_def option_rows_def user_option_def split: option_model.splits)
qed (use assms(2) in \<open>auto intro: type_view_cong amenity_view_cong\<close>)

lemma refs_staff:
  "serial env0 K s \<Longrightarrow> u \<in> set (staff s) \<Longrightarrow>
   live_option (department_rows s) (su_departmentId u) \<and> live_option (personnel_roles s) (su_personnelRoleId u)"
  unfolding serial_def refs_ok_def
  by (metis option_model.simps(3,4) option_rows_def user_option_def)

lemma ball_set_where: "(\<forall>x \<in> set (set_where p f xs). Q x) \<longleftrightarrow> (\<forall>x \<in> set xs. Q (if p x then f x else x))"
  by (auto simp: set_where_def)

lemma serial_insert_user:
  assumes "serial env0 K s" "set OPTION_LIST_KEYS \<subseteq> set K" "insert_user env u s = Inr (s', a)"
    and "live_option (department_rows s) (su_departmentId u)" "live_option (personnel_roles s) (su_personnelRoleId u)"
  shows "serial env0 K s'"
  using serial_staff [OF assms(1,2), of "staff s @ [u]"] refs_staff [OF assms(1)] assms(3-5)
  by (auto simp: insert_user_def Let_def split: if_splits)

lemma serial_update_user:
  assumes "serial env0 K s" "set OPTION_LIST_KEYS \<subseteq> set K" "update_user env i f s = Inr (s', a)"
    and "\<And>u. u \<in> set (staff s) \<Longrightarrow> live_option (department_rows s) (su_departmentId (f u)) \<and>
      live_option (personnel_roles s) (su_personnelRoleId (f u))"
  shows "serial env0 K s'"
proof -
  have "s' = s\<lparr>staff := set_where (\<lambda>x. su_id x = i) f (staff s)\<rparr>"
    using assms(3) by (auto simp: update_user_def Let_def split: option.splits)
  then show ?thesis
    using serial_staff [OF assms(1,2), of "set_where (\<lambda>x. su_id x = i) f (staff s)"] refs_staff [OF assms(1)] assms(4)
    by (simp add: ball_set_where)
qed

text \<open>A write of the columns no list counts changes no list.\<close>

lemma count_set_where: "(\<And>x. q (f x) = q x) \<Longrightarrow> count_where q (set_where p f xs) = count_where q xs"
  by (induction xs) (auto simp: count_where_def set_where_def)

lemma serial_touch_user:
  assumes "serial env0 K s" "update_user env i f s = Inr (s', a)"
    and "\<And>u. su_departmentId (f u) = su_departmentId u \<and> su_personnelRoleId (f u) = su_personnelRoleId u \<and> su_deletedAt (f u) = su_deletedAt u"
  shows "serial env0 K s'"
proof -
  let ?us = "set_where (\<lambda>x. su_id x = i) f (staff s)"
  have s': "s' = s\<lparr>staff := ?us\<rparr>" using assms(2) by (auto simp: update_user_def Let_def split: option.splits)
  have "user_option m (f u) = user_option m u" for m u using assms(3) by (simp add: user_option_def split: option_model.splits)
  then have count: "count_where (\<lambda>u. user_option m u = n \<and> su_deletedAt u = None) ?us =
      count_where (\<lambda>u. user_option m u = n \<and> su_deletedAt u = None) (staff s)" for m n
    using assms(3) by (intro count_set_where) simp
  show ?thesis unfolding s'
  proof (rule serial_step [OF assms(1)])
    show "refs_ok (s\<lparr>staff := ?us\<rparr>)"
      using assms(1,3) by (auto simp: serial_def refs_ok_def option_rows_def user_option_def set_set_where split: option_model.splits)
    have "option_view env0 m r (s\<lparr>staff := ?us\<rparr>) = option_view env0 m r s" for m r
      by (simp add: option_view_def toOptionDto_def [abs_def] option_rows_def count cong: option_model.case_cong)
    then show "set OPTION_LIST_KEYS \<subseteq> set K \<or> (\<forall>m r. option_view env0 m r (s\<lparr>staff := ?us\<rparr>) = option_view env0 m r s)"
      by simp
  qed (auto intro: type_view_cong amenity_view_cong)
qed

lemma serial_create_user:
  assumes "serial_env env0 env"
  shows "triple (serial env0 []) (serial env0 []) (create_user env actor dto) (\<lambda>_. serial env0 [])"
proof -
  let ?u = "new_user env 2 actor dto (password_hash env (temporary_password env))"
  have "inner (serial env0 []) (andThen (assertOptionsAssignable env 0 (Some (cu_departmentId dto)) (Some (cu_personnelRoleId dto))
      (mayUseSystemReservedOptions actor)) (\<lambda>_. put env 2 (insert_user env ?u))) (\<lambda>_. serial env0 OPTION_LIST_KEYS)"
    by (rule inner_andThen, rule inner_assigns, rule serial_envD(1) [OF assms],
        rule inner_put_to, rule serial_envD(1) [OF assms], erule conjE,
        rule serial_insert_user, erule serial_weaken, auto simp: new_user_def dest!: may_assign_live)
  then show ?thesis unfolding create_user_def Let_def dropOptionCounts_def
    by (intro triple_try triple_commit [OF assms, where K = OPTION_LIST_KEYS] triple_returns subset_refl)
qed

lemma serial_resetPassword:
  assumes "serial_env env0 env"
  shows "triple (serial env0 []) (serial env0 []) (resetPassword env actor i) (\<lambda>_. serial env0 [])"
proof -
  note calm = serial_envD(1) [OF assms]
  have "inner (serial env0 []) (andThen (fetch env 0 (live_user i)) (\<lambda>found.
      andThen (need found (NotFound SYSTEM_USER_NOT_FOUND)) (\<lambda>target.
      andThen (permit (canResetPassword actor (target_of target))) (\<lambda>_.
      put env 1 (update_user env (su_id target) (\<lambda>u. u\<lparr>su_passwordHash := d, su_mustChangePassword := True, su_updatedAt := now env 1\<rparr>))))))
      (\<lambda>_. serial env0 [])" for d
    by (rule inner_found [OF calm], rule inner_andThen, rule inner_permit, rule inner_put_to [OF calm], erule conjE,
        erule serial_touch_user, assumption, simp)
  then show ?thesis unfolding resetPassword_def Let_def
    by (intro triple_commit0 triple_returns)
qed

lemma patched_live:
  assumes "serial env0 K s" "u \<in> set (staff s)"
    and "may_assign (department_rows s) b (pa_departmentId p)" "may_assign (personnel_roles s) b (pa_personnelRoleId p)"
  shows "live_option (department_rows s) (su_departmentId (patch_row p at u)) \<and>
    live_option (personnel_roles s) (su_personnelRoleId (patch_row p at u))"
  using refs_staff [OF assms(1,2)] assms(3,4) may_assign_live [of "department_rows s" b] may_assign_live [of "personnel_roles s" b]
  by (auto simp: patch_row_def given_def split: option.splits)

lemma inner_update_refs:
  assumes "undisturbed env"
  shows "inner (serial env0 []) (update_work actor i p env) (\<lambda>_. serial env0 OPTION_LIST_KEYS)"
proof -
  have stored: "inner (\<lambda>s. (serial env0 [] s \<and> live_user i s = Some t) \<and> may_assign (department_rows s) b (pa_departmentId p) \<and>
      may_assign (personnel_roles s) b (pa_personnelRoleId p)) (put env 3 (update_user env (su_id t) (patch_row p (now env 3))))
      (\<lambda>_. serial env0 OPTION_LIST_KEYS)" for t b
    by (rule inner_put_to [OF assms], elim conjE, rule serial_update_user, erule serial_weaken, simp, simp, assumption)
      (erule (3) patched_live)
  have rest: "inner P (andThen (if touchesInvariant p then assertActiveSuperAdminRemains env 4 else done_with ()) (\<lambda>_. done_with dto)) (\<lambda>_. P)" for P and dto :: system_user_dto
    by (auto simp: inner_def act_run assms assertActiveSuperAdminRemains_def)
  show ?thesis unfolding update_work_def
    by (rule inner_found [OF assms], rule inner_andThen, rule inner_permit, rule inner_andThen,
        rule inner_assigns [OF assms], rule inner_andThen, rule stored, rule rest)
qed

lemma serial_update_staff:
  assumes "serial_env env0 env"
  shows "triple (serial env0 []) (serial env0 []) (update_staff env actor i p) (\<lambda>_. serial env0 [])"
proof -
  let ?env = "if touchesInvariant p then alone env else env"
  have "(if touchesInvariant p then serializable env 5 (update_work actor i p) else atomically (update_work actor i p env))
      = atomically (update_work actor i p ?env)"
    using serial_envD(1) [OF assms] by (auto simp: run_serializable_undisturbed fun_eq_iff)
  moreover have "undisturbed ?env" using serial_envD [OF assms] by simp
  ultimately show ?thesis unfolding update_staff_def dropOptionCounts_def
    by (simp only:) (intro triple_try triple_commit [OF assms, where K = OPTION_LIST_KEYS] triple_returns subset_refl
      inner_update_refs; assumption)
qed

lemma serial_softDelete:
  assumes "serial_env env0 env"
  shows "triple (serial env0 []) (serial env0 []) (softDelete env actor i) (\<lambda>_. serial env0 [])"
proof -
  note calm = serial_envD(2) [OF assms]
  have "serializable env 3 (softDelete_work actor i) = atomically (softDelete_work actor i (alone env))"
    using serial_envD(1) [OF assms] by (simp add: run_serializable_undisturbed fun_eq_iff)
  moreover have "inner (serial env0 []) (softDelete_work actor i (alone env)) (\<lambda>_. serial env0 OPTION_LIST_KEYS)"
    unfolding softDelete_work_def
    by (rule inner_found [OF calm], rule inner_andThen, rule inner_permit,
        rule inner_andThen [where Q = "\<lambda>_. serial env0 OPTION_LIST_KEYS"], rule inner_put_to [OF calm],
        erule conjE, rule serial_update_user, erule serial_weaken, simp, simp, assumption,
        simp add: delete_row_def refs_staff, rule inner_remains [OF calm])
  ultimately show ?thesis unfolding softDelete_def dropOptionCounts_def
    by (simp only:) (intro triple_try triple_commit1 [OF assms, where K = OPTION_LIST_KEYS] subset_refl; assumption)
qed

lemma serial_restore_staff:
  assumes "serial_env env0 env"
  shows "triple (serial env0 []) (serial env0 []) (restore_staff env i) (\<lambda>_. serial env0 [])"
proof -
  note calm = serial_envD(1) [OF assms]
  have "inner (serial env0 []) (andThen (fetch env 0 (\<lambda>s. first_row (\<lambda>u. su_id u = i) (staff s))) (\<lambda>found.
      andThen (need found (NotFound SYSTEM_USER_NOT_FOUND)) (\<lambda>target.
      andThen (check (su_deletedAt target \<noteq> None) (Conflict USER_NOT_DELETED)) (\<lambda>_.
      put env 1 (update_user env (su_id target) (restore_row (now env 1))))))) (\<lambda>_. serial env0 OPTION_LIST_KEYS)"
    by (rule inner_found [OF calm], rule inner_andThen, rule inner_basic(3), rule inner_put_to [OF calm], elim conjE,
        rule serial_update_user, erule serial_weaken, simp, simp, assumption, simp add: restore_row_def refs_staff)
  then show ?thesis unfolding restore_staff_def dropOptionCounts_def
    by (intro triple_commit [OF assms, where K = OPTION_LIST_KEYS] triple_returns subset_refl)
qed

lemma serial_pictures:
  assumes "serial_env env0 env"
  shows "triple (serial env0 []) (serial env0 []) (updateOwnProfile env i url) (\<lambda>_. serial env0 [])"
    and "triple (serial env0 []) (serial env0 []) (setOwnAvatar env i u) (\<lambda>_. serial env0 [])"
  unfolding updateOwnProfile_def setOwnAvatar_def
  by (rule triple_atomically, rule inner_put_to [OF serial_envD(1) [OF assms]], erule serial_touch_user, assumption,
      simp add: set_picture_def, assumption)+

subsection \<open>Reads\<close>

named_theorems serial_keeps \<open>steps that leave the serial invariant alone\<close>

lemma triple_keep_steps [serial_keeps]:
  "triple I I (done_with a) (\<lambda>_. I)" "triple I I (tell es) (\<lambda>_. I)" "triple I I (check ok e) (\<lambda>_. I)" "triple I I (need x e) (\<lambda>_. I)"
  by (auto simp: triple_def act_run split: option.splits)

lemma triple_keep_fetch [serial_keeps]: "undisturbed env \<Longrightarrow> triple I I (fetch env k f) (\<lambda>_. I)"
  by (auto simp: triple_def act_run)

lemma triple_keep_andThen [serial_keeps]:
  "triple I I m (\<lambda>_. I) \<Longrightarrow> (\<And>a. triple I I (f a) (\<lambda>_. I)) \<Longrightarrow> triple I I (andThen m f) (\<lambda>_. I)"
  by (rule triple_andThen)

text \<open>A list is the answer of a fresh query, whether it came from the cache or filled it.\<close>

lemma triple_cache_aside:
  assumes "serial_env env0 env" "(key, v) \<in> set (views env0)"
  shows "triple (serial env0 []) (serial env0 []) (cache_aside env key v) (\<lambda>a s. serial env0 [] s \<and> a = v s)"
  unfolding triple_def
proof (intro allI impI)
  fix w :: "(office, office_event) store" assume w: "base w = mine w \<and> serial env0 [] (mine w)"
  have ready: "undisturbed env" "\<forall>k. redis_ready env k" using assms(1) by (auto simp: serial_env_def)
  have cached: "cache (mine w) key = None \<or> cache (mine w) key = Some (v (mine w))"
    using w fresh_exceptD [OF _ assms(2)] by (auto simp: serial_def)
  have "serial env0 [] (with_cache (\<lambda>c. c(key := Some (v (mine w)))) (mine w))"
    using serial_fill [OF _ assms(2)] w by simp
  then show "base (snd (cache_aside env key v w)) = mine (snd (cache_aside env key v w)) \<and>
      (case fst (cache_aside env key v w) of Inl x \<Rightarrow> serial env0 [] (mine (snd (cache_aside env key v w)))
       | Inr a \<Rightarrow> serial env0 [] (mine (snd (cache_aside env key v w))) \<and> a = v (mine (snd (cache_aside env key v w))))"
    using w ready cached
    by (auto simp: cache_aside_def act_run getJson_def setJson_def on_cache_def Let_def undisturbed_simps
        view_with_cache [OF assms(2)] fun_upd_def)
qed

end
