(* ===== verification/OfficeSerialCalls.thy ===== *)
theory OfficeSerialCalls
  imports OfficeSerial
begin

text \<open>The serial invariant through the option, venue-type, amenity and venue calls.\<close>

subsection \<open>Options\<close>

lemma option_rows_with [simp]:
  "option_rows m (with_option_rows model rows s) = (if m = model then rows else option_rows m s)"
  "staff (with_option_rows model rows s) = staff s" "holders (with_option_rows model rows s) = holders s"
  "type_rows (with_option_rows model rows s) = type_rows s" "amenity_rows (with_option_rows model rows s) = amenity_rows s"
  "venue_rows (with_option_rows model rows s) = venue_rows s" "ticks (with_option_rows model rows s) = ticks s"
  "cache (with_option_rows model rows s) = cache s"
  by (auto simp: option_rows_def with_option_rows_def split: option_model.splits)

definition option_used :: "option_model \<Rightarrow> office \<Rightarrow> int \<Rightarrow> bool" where
  "option_used model s n \<longleftrightarrow> (\<exists>u \<in> set (staff s). user_option model u = n) \<or> (\<exists>h \<in> set (holders s). holder_option model h = n)"

lemma refs_used: "refs_ok s \<Longrightarrow> option_used m s n \<Longrightarrow> live_option (option_rows m s) n"
  by (auto simp: refs_ok_def option_used_def)

lemma serial_option_rows:
  assumes "serial env0 K s" "set OPTION_LIST_KEYS \<subseteq> set K" "\<And>n. option_used model s n \<Longrightarrow> live_option rows n"
  shows "serial env0 K (with_option_rows model rows s)"
proof (rule serial_step [OF assms(1)])
  show "refs_ok (with_option_rows model rows s)"
    using assms(1,3) by (auto simp: serial_def refs_ok_def option_used_def)
qed (use assms(2) in \<open>auto intro: type_view_cong amenity_view_cong\<close>)

lemma update_row_Inr:
  "update_row env i f rows = Inr (rows', r) \<Longrightarrow> rows' = set_where (\<lambda>x. op_id x = i) f rows"
  by (auto simp: update_row_def Let_def split: option.splits if_splits)

lemma insert_row_Inr: "insert_row env r rows = Inr rows' \<Longrightarrow> rows' = rows @ [r]"
  by (auto simp: insert_row_def split: if_splits)

lemma live_option_simps [simp]:
  "live_option (rows @ [r]) n \<longleftrightarrow> live_option rows n \<or> op_id r = n \<and> op_deletedAt r = None"
  "live_option (set_where (\<lambda>x. op_id x = i) (rename_row nm at) rows) n \<longleftrightarrow> live_option rows n"
  "live_option (set_where (\<lambda>x. op_id x = i) (retire_row at) rows) n \<longleftrightarrow> live_option rows n \<and> n \<noteq> i"
  by (induction rows) (auto simp: live_option_def set_where_def rename_row_def retire_row_def)

lemma write_option_Inr:
  "write_option env model i f s = Inr (s', a) \<Longrightarrow> s' = with_option_rows model (set_where (\<lambda>x. op_id x = i) f (option_rows model s)) s"
  by (auto simp: write_option_def Let_def dest: update_row_Inr split: sum.splits prod.splits)

lemma serial_write_option:
  assumes "serial env0 K s" "set OPTION_LIST_KEYS \<subseteq> set K" "write_option env model i f s = Inr (s', a)"
    and "\<And>n. option_used model s n \<Longrightarrow> live_option (set_where (\<lambda>x. op_id x = i) f (option_rows model s)) n"
  shows "serial env0 K s'"
  unfolding write_option_Inr [OF assms(3)] by (rule serial_option_rows [OF assms(1,2)]) (rule assms(4))

lemma serial_used: "serial env0 K s \<Longrightarrow> option_used m s n \<Longrightarrow> live_option (option_rows m s) n"
  by (simp add: serial_def refs_used)

lemma option_keys: "set OPTION_LIST_KEYS \<subseteq> set OPTION_CACHE_KEYS"
  by (auto simp: OPTION_CACHE_KEYS_def)

lemma serial_create_option:
  assumes "serial_env env0 env"
  shows "triple (serial env0 []) (serial env0 []) (create_option env model name) (\<lambda>_. serial env0 [])"
proof -
  have "inner (serial env0 []) (put env 0 (\<lambda>s. case insert_row env (new_option env 0 name False) (option_rows model s) of
      Inl e \<Rightarrow> Inl e | Inr rows \<Rightarrow> (let s' = with_option_rows model rows s in Inr (s', toOptionDto model s' (new_option env 0 name False)))))
      (\<lambda>_. serial env0 OPTION_CACHE_KEYS)"
  proof (rule inner_put_to [OF serial_envD(1) [OF assms]])
    fix s s' a assume s: "serial env0 [] s"
      and "(case insert_row env (new_option env 0 name False) (option_rows model s) of
        Inl e \<Rightarrow> Inl e | Inr rows \<Rightarrow> (let s' = with_option_rows model rows s in Inr (s', toOptionDto model s' (new_option env 0 name False)))) = Inr (s', a)"
    then have "s' = with_option_rows model (option_rows model s @ [new_option env 0 name False]) s"
      by (auto simp: Let_def dest: insert_row_Inr split: sum.splits)
    then show "serial env0 OPTION_CACHE_KEYS s'"
      using serial_option_rows [OF serial_weaken [OF s] option_keys] refs_used s by (auto simp: serial_def)
  qed
  then show ?thesis unfolding create_option_def
    by (intro triple_try triple_commit [OF assms, where K = OPTION_CACHE_KEYS] triple_returns subset_refl)
qed

lemma serial_update_option:
  assumes "serial_env env0 env"
  shows "triple (serial env0 []) (serial env0 []) (update_option env model i name) (\<lambda>_. serial env0 [])"
proof -
  note calm = serial_envD(1) [OF assms]
  have stored: "inner (\<lambda>s. serial env0 [] s \<and> ordinary_row i (option_rows model s) = Some e)
      (put env 1 (write_option env model (op_id e) (rename_row name (now env 1)))) (\<lambda>_. serial env0 OPTION_CACHE_KEYS)" for e
  proof (rule inner_put_to [OF calm], elim conjE)
    fix s s' a assume s: "serial env0 [] s" "write_option env model (op_id e) (rename_row name (now env 1)) s = Inr (s', a)"
    show "serial env0 OPTION_CACHE_KEYS s'"
      by (rule serial_write_option [OF serial_weaken [OF s(1)] option_keys s(2)]) (use serial_used [OF s(1)] in simp_all)
  qed
  show ?thesis unfolding update_option_def
    by (rule triple_found [OF calm], assumption)
      (intro triple_try triple_commit [OF assms _ stored] triple_returns subset_refl, simp)
qed

text \<open>The fallback row is another row than an ordinary one, and live.\<close>

lemma tombstone_apart:
  assumes "distinct (map op_id rows)" "ordinary_row i rows = Some e" "tombstone_row name rows = Some t"
  shows "live_option rows (op_id t)" "op_id t \<noteq> op_id e"
proof -
  have t: "t \<in> set rows" "op_deletedAt t = None" "op_isSystemReserved t"
    using assms(3) by (auto simp: tombstone_row_def dest: first_row_Some)
  have "e \<in> set rows" "\<not> op_isSystemReserved e" using assms(2) by (auto simp: ordinary_row_def dest: first_row_Some)
  then show "op_id t \<noteq> op_id e" using t assms(1) by (auto simp: distinct_map dest: inj_onD)
  show "live_option rows (op_id t)" using t by (auto simp: live_option_def)
qed

lemma move_users_facts:
  "option_rows m (move_users model i j at s) = option_rows m s" "type_rows (move_users model i j at s) = type_rows s"
  "amenity_rows (move_users model i j at s) = amenity_rows s" "venue_rows (move_users model i j at s) = venue_rows s"
  "ticks (move_users model i j at s) = ticks s" "cache (move_users model i j at s) = cache s" "holders (move_users model i j at s) = holders s"
  by (cases m; simp add: move_users_def option_rows_def)+

lemma move_holders_facts:
  "option_rows m (move_holders model i j s) = option_rows m s" "type_rows (move_holders model i j s) = type_rows s"
  "amenity_rows (move_holders model i j s) = amenity_rows s" "venue_rows (move_holders model i j s) = venue_rows s"
  "ticks (move_holders model i j s) = ticks s" "cache (move_holders model i j s) = cache s" "staff (move_holders model i j s) = staff s"
  by (cases m; simp add: move_holders_def option_rows_def)+

lemma moved_user: "u' \<in> set (staff (move_users model i j at s)) \<Longrightarrow> \<exists>u \<in> set (staff s). \<forall>m.
    user_option m u' = (if m = model \<and> user_option model u = i then j else user_option m u)"
  by (auto simp: move_users_def set_set_where user_option_def split: option_model.splits intro!: bexI)

lemma moved_holder: "h' \<in> set (holders (move_holders model i j s)) \<Longrightarrow> \<exists>h \<in> set (holders s). \<forall>m.
    holder_option m h' = (if m = model \<and> holder_option model h = i then j else holder_option m h)"
  by (auto simp: move_holders_def set_set_where holder_option_def split: option_model.splits intro!: bexI)

lemma serial_move_users:
  assumes "serial env0 K s" "set OPTION_LIST_KEYS \<subseteq> set K" "live_option (option_rows model s) j"
  shows "serial env0 K (move_users model i j at s)"
proof (rule serial_step [OF assms(1)])
  have "live_option (option_rows m s) (user_option m u')" if "u' \<in> set (staff (move_users model i j at s))" for u' m
    using moved_user [OF that] assms(1,3) by (auto simp: serial_def refs_ok_def split: if_splits)
  then show "refs_ok (move_users model i j at s)"
    using assms(1) by (auto simp: serial_def refs_ok_def move_users_facts)
qed (use assms(2) in \<open>auto simp: move_users_facts intro: type_view_cong amenity_view_cong\<close>)

lemma serial_move_holders:
  assumes "serial env0 K s" "set OPTION_LIST_KEYS \<subseteq> set K" "live_option (option_rows model s) j"
  shows "serial env0 K (move_holders model i j s)"
proof (rule serial_step [OF assms(1)])
  have "live_option (option_rows m s) (holder_option m u')" if "u' \<in> set (holders (move_holders model i j s))" for u' m
    using moved_holder [OF that] assms(1,3) by (auto simp: serial_def refs_ok_def split: if_splits)
  then show "refs_ok (move_holders model i j s)"
    using assms(1) by (auto simp: serial_def refs_ok_def move_holders_facts)
qed (use assms(2) in \<open>auto simp: move_holders_facts intro: type_view_cong amenity_view_cong\<close>)

lemma user_after_move: "j \<noteq> i \<Longrightarrow> u \<in> set (staff (move_users model i j at s)) \<Longrightarrow> user_option model u \<noteq> i"
proof -
  assume "j \<noteq> i" and u: "u \<in> set (staff (move_users model i j at s))"
  moreover obtain v where "user_option model u = (if user_option model v = i then j else user_option model v)"
    using moved_user [OF u] by auto
  ultimately show ?thesis by simp
qed

lemma holder_after_move: "j \<noteq> i \<Longrightarrow> h \<in> set (holders (move_holders model i j s)) \<Longrightarrow> holder_option model h \<noteq> i"
proof -
  assume "j \<noteq> i" and h: "h \<in> set (holders (move_holders model i j s))"
  moreover obtain v where "holder_option model h = (if holder_option model v = i then j else holder_option model v)"
    using moved_holder [OF h] by auto
  ultimately show ?thesis by simp
qed

lemma inner_retire_option:
  assumes calm: "undisturbed env" and apart: "fid \<noteq> e"
  shows "inner (\<lambda>s. serial env0 OPTION_CACHE_KEYS s \<and> live_option (option_rows model s) fid)
    (andThen (put env 2 (\<lambda>s. Inr (move_users model e fid (now env 2) s, ()))) (\<lambda>_.
     andThen (put env 3 (\<lambda>s. Inr (move_holders model e fid s, ()))) (\<lambda>_.
     andThen (put env 4 (write_option env model e (retire_row (now env 4)))) (\<lambda>_. done_with ()))))
    (\<lambda>_. serial env0 OPTION_CACHE_KEYS)"
proof -
  let ?K = "OPTION_CACHE_KEYS"
  have one: "inner (\<lambda>s. serial env0 ?K s \<and> live_option (option_rows model s) fid)
      (put env 2 (\<lambda>s. Inr (move_users model e fid (now env 2) s, ()))) (\<lambda>_ s. serial env0 ?K s \<and> live_option (option_rows model s) fid \<and>
       (\<forall>u \<in> set (staff s). user_option model u \<noteq> e))"
    by (rule inner_put_to [OF calm]) (use user_after_move [OF apart] in \<open>auto simp: move_users_facts intro: serial_move_users [OF _ option_keys]\<close>)
  have two: "inner (\<lambda>s. serial env0 ?K s \<and> live_option (option_rows model s) fid \<and> (\<forall>u \<in> set (staff s). user_option model u \<noteq> e))
      (put env 3 (\<lambda>s. Inr (move_holders model e fid s, ()))) (\<lambda>_ s. serial env0 ?K s \<and> \<not> option_used model s e)"
    by (rule inner_put_to [OF calm]) (use holder_after_move [OF apart] in
      \<open>auto simp: move_holders_facts option_used_def intro: serial_move_holders [OF _ option_keys]\<close>)
  have three: "inner (\<lambda>s. serial env0 ?K s \<and> \<not> option_used model s e)
      (put env 4 (write_option env model e (retire_row (now env 4)))) (\<lambda>_. serial env0 ?K)"
  proof (rule inner_put_to [OF calm], elim conjE)
    fix s s' a assume s: "serial env0 ?K s" "\<not> option_used model s e" "write_option env model e (retire_row (now env 4)) s = Inr (s', a)"
    then have "n \<noteq> e \<and> live_option (option_rows model s) n" if "option_used model s n" for n
      using that serial_used by blast
    then show "serial env0 ?K s'" by (intro serial_write_option [OF s(1) option_keys s(3)]) simp
  qed
  show ?thesis
    by (rule inner_andThen [OF one], rule inner_andThen [OF two], rule inner_andThen [OF three]) (simp add: inner_def act_run)
qed

lemma serial_softDelete_option:
  assumes "serial_env env0 env"
  shows "triple (serial env0 []) (\<lambda>s. office_ok s0 s \<and> serial env0 [] s) (softDelete_option env model i) (\<lambda>_. serial env0 [])"
proof -
  note calm = serial_envD(1) [OF assms]
  have fallback: "triple (serial env0 []) (\<lambda>s. (office_ok s0 s \<and> serial env0 [] s) \<and> ordinary_row i (option_rows model s) = Some e)
      (resolveTombstoneId env 1 model)
      (\<lambda>fid s. serial env0 [] s \<and> live_option (option_rows model s) fid \<and> fid \<noteq> op_id e)" for e
    unfolding resolveTombstoneId_def
  proof (rule triple_found [OF calm], simp)
    fix t
    have "distinct (map op_id (option_rows model s))" if "office_ok s0 s" for s
      using that by (cases model) (auto simp: office_ok_def options_ok_def option_rows_def)
    then have "live_option (option_rows model s) (op_id t) \<and> op_id t \<noteq> op_id e"
      if "office_ok s0 s" "ordinary_row i (option_rows model s) = Some e" "tombstone_row (tombstoneName model) (option_rows model s) = Some t" for s
      using tombstone_apart [OF _ that(2,3)] that(1) by blast
    then show "triple (serial env0 []) (\<lambda>s. ((office_ok s0 s \<and> serial env0 [] s) \<and> ordinary_row i (option_rows model s) = Some e) \<and>
        tombstone_row (tombstoneName model) (option_rows model s) = Some t) (done_with (op_id t))
        (\<lambda>fid s. serial env0 [] s \<and> live_option (option_rows model s) fid \<and> fid \<noteq> op_id e)"
      by (auto simp: triple_def act_run)
  qed
  have work: "triple (serial env0 []) (\<lambda>s. serial env0 [] s \<and> live_option (option_rows model s) fid \<and> fid \<noteq> e)
    (andThen (atomically (andThen (put env 2 (\<lambda>s. Inr (move_users model e fid (now env 2) s, ()))) (\<lambda>_.
     andThen (put env 3 (\<lambda>s. Inr (move_holders model e fid s, ()))) (\<lambda>_.
     andThen (put env 4 (write_option env model e (retire_row (now env 4)))) (\<lambda>_. done_with ()))))) (\<lambda>_.
     redis_del env 5 OPTION_CACHE_KEYS)) (\<lambda>_. serial env0 [])" for fid e
  proof (cases "fid = e")
    case True
    then show ?thesis by (simp add: triple_def)
  next
    case False
    show ?thesis
    proof (rule triple_commit1 [OF assms], simp, rule inner_pre [OF inner_retire_option [OF calm False]])
    qed (auto intro: serial_weaken)
  qed
  show ?thesis unfolding softDelete_option_def
    by (rule triple_found [OF calm], simp, rule triple_andThen [OF fallback], rule work)
qed

subsection \<open>Venue types\<close>

definition type_used :: "office \<Rightarrow> int \<Rightarrow> bool" where
  "type_used s n \<longleftrightarrow> (\<exists>v \<in> set (venue_rows s). vn_venueTypeId v = n)"

lemma type_usedI: "v \<in> set (venue_rows s) \<Longrightarrow> type_used s (vn_venueTypeId v)"
  by (auto simp: type_used_def)

lemma serial_type_used: "serial env0 K s \<Longrightarrow> type_used s n \<Longrightarrow> live_option (type_rows s) n"
  by (auto simp: serial_def refs_ok_def type_used_def)

lemma serial_type_rows:
  assumes "serial env0 K s" "set VENUE_TYPE_CACHE_KEYS \<subseteq> set K" "\<And>n. type_used s n \<Longrightarrow> live_option rows n"
  shows "serial env0 K (s\<lparr>type_rows := rows\<rparr>)"
proof (rule serial_step [OF assms(1)])
  show "refs_ok (s\<lparr>type_rows := rows\<rparr>)"
    using assms(1) assms(3) [OF type_usedI] by (auto simp: serial_def refs_ok_def option_rows_def split: option_model.splits)
  have "option_rows m (s\<lparr>type_rows := rows\<rparr>) = option_rows m s" for m by (cases m) (simp_all add: option_rows_def)
  then show "set OPTION_LIST_KEYS \<subseteq> set K \<or> (\<forall>m r. option_view env0 m r (s\<lparr>type_rows := rows\<rparr>) = option_view env0 m r s)"
    by (intro disjI2 allI option_view_cong) simp_all
qed (use assms(2) in \<open>auto intro: amenity_view_cong\<close>)

lemma write_type_Inr:
  "write_type env i f s = Inr (s', a) \<Longrightarrow> s' = s\<lparr>type_rows := set_where (\<lambda>x. op_id x = i) f (type_rows s)\<rparr>"
  by (auto simp: write_type_def Let_def dest: update_row_Inr split: sum.splits prod.splits)

lemma insert_type_Inr:
  "insert_type env r s = Inr (s', a) \<Longrightarrow> s' = s\<lparr>type_rows := type_rows s @ [r]\<rparr> \<and> od_id a = op_id r \<and> op_id r \<notin> op_id ` set (type_rows s) \<and>
   names_unique (type_rows s')"
  by (auto simp: insert_type_def insert_row_def toTypeDto_def Let_def split: sum.splits if_splits)

lemma serial_insert_type:
  "serial env0 K s \<Longrightarrow> set VENUE_TYPE_CACHE_KEYS \<subseteq> set K \<Longrightarrow> insert_type env r s = Inr (s', a) \<Longrightarrow> serial env0 K s'"
  using insert_type_Inr [of env r s s' a] serial_type_rows [of env0 K s] serial_type_used [of env0 K s] by auto

lemma serial_write_type:
  assumes "serial env0 K s" "set VENUE_TYPE_CACHE_KEYS \<subseteq> set K" "write_type env i f s = Inr (s', a)"
    and "\<And>n. type_used s n \<Longrightarrow> live_option (set_where (\<lambda>x. op_id x = i) f (type_rows s)) n"
  shows "serial env0 K s'"
  unfolding write_type_Inr [OF assms(3)] by (rule serial_type_rows [OF assms(1,2)]) (rule assms(4))

lemma serial_create_type:
  assumes "serial_env env0 env"
  shows "triple (serial env0 []) (serial env0 []) (create_type env name) (\<lambda>_. serial env0 [])"
proof -
  have "inner (serial env0 []) (put env 0 (insert_type env (new_option env 0 name False))) (\<lambda>_. serial env0 VENUE_TYPE_CACHE_KEYS)"
    by (rule inner_put_to [OF serial_envD(1) [OF assms]], rule serial_insert_type, erule serial_weaken) simp_all
  then show ?thesis unfolding create_type_def
    by (intro triple_try triple_commit [OF assms, where K = VENUE_TYPE_CACHE_KEYS] triple_returns subset_refl)
qed

lemma serial_update_type:
  assumes "serial_env env0 env"
  shows "triple (serial env0 []) (serial env0 []) (update_type env i name) (\<lambda>_. serial env0 [])"
proof -
  note calm = serial_envD(1) [OF assms]
  have stored: "inner (\<lambda>s. serial env0 [] s \<and> ordinary_row i (type_rows s) = Some e)
      (put env 1 (write_type env (op_id e) (rename_row name (now env 1)))) (\<lambda>_. serial env0 VENUE_TYPE_CACHE_KEYS)" for e
  proof (rule inner_put_to [OF calm], elim conjE)
    fix s s' a assume s: "serial env0 [] s" "write_type env (op_id e) (rename_row name (now env 1)) s = Inr (s', a)"
    show "serial env0 VENUE_TYPE_CACHE_KEYS s'"
      by (rule serial_write_type [OF serial_weaken [OF s(1)] _ s(2)]) (use serial_type_used [OF s(1)] in simp_all)
  qed
  show ?thesis unfolding update_type_def
    by (rule triple_found [OF calm], assumption)
      (intro triple_try triple_commit [OF assms _ stored] triple_returns subset_refl, simp)
qed

lemma list_ex_set_where: "(\<And>x. q (f x) = q x) \<Longrightarrow> list_ex q (set_where p f xs) = list_ex q xs"
  by (induction xs) (auto simp: set_where_def)

lemma amenity_view_venues:
  assumes "amenity_rows s' = amenity_rows s" "ticks s' = ticks s" "\<And>i. live_venue s' i = live_venue s i"
  shows "amenity_view env s' = amenity_view env s"
  by (simp add: assms amenity_view_def toAmenityDto_def [abs_def] tick_count_def [abs_def])

lemma serial_move_venues:
  assumes "serial env0 K s" "set VENUE_TYPE_CACHE_KEYS \<subseteq> set K" "live_option (type_rows s) j"
  shows "serial env0 K (move_venues i j at s)"
proof (rule serial_step [OF assms(1)])
  have rows: "option_rows m (move_venues i j at s) = option_rows m s" for m by (cases m) (simp_all add: option_rows_def move_venues_def)
  show "refs_ok (move_venues i j at s)"
    using assms(1,3) by (auto simp: serial_def refs_ok_def rows) (auto simp: move_venues_def set_set_where)
  show "set OPTION_LIST_KEYS \<subseteq> set K \<or> (\<forall>m r. option_view env0 m r (move_venues i j at s) = option_view env0 m r s)"
    by (intro disjI2 allI option_view_cong) (simp_all add: rows, simp_all add: move_venues_def)
  have "live_venue (move_venues i j at s) n = live_venue s n" for n
    by (simp add: live_venue_def move_venues_def list_ex_set_where)
  then show "AMENITY_LIST_KEY \<in> set K \<or> amenity_view env0 (move_venues i j at s) = amenity_view env0 s"
    by (intro disjI2 amenity_view_venues) (simp_all add: move_venues_def)
qed (use assms(2) in \<open>simp_all add: move_venues_def\<close>)

text \<open>
  The fallback category is found or created. Created, it is missing from the cached lists until
  they are dropped, so what follows must not fail: retiring the row cannot collide with a name.
\<close>

definition resolved :: "office_env \<Rightarrow> int \<Rightarrow> int \<Rightarrow> office \<Rightarrow> bool" where
  "resolved env0 e fid s \<longleftrightarrow> serial env0 VENUE_TYPE_CACHE_KEYS s \<and> live_option (type_rows s) fid \<and> fid \<noteq> e \<and>
     (\<exists>r \<in> set (type_rows s). op_id r = e) \<and> names_unique (type_rows s)"

lemma tombstone_of_types:
  assumes "office_ok s0 s" "ordinary_row i (type_rows s) = Some e"
  shows "tombstone_row n (type_rows s) = Some t \<Longrightarrow> live_option (type_rows s) (op_id t) \<and> op_id t \<noteq> op_id e"
    and "e \<in> set (type_rows s)" "names_unique (type_rows s)"
proof -
  have d: "distinct (map op_id (type_rows s))" using assms(1) by (simp add: office_ok_def options_ok_def)
  then show "tombstone_row n (type_rows s) = Some t \<Longrightarrow> live_option (type_rows s) (op_id t) \<and> op_id t \<noteq> op_id e"
    using tombstone_apart [OF d assms(2)] by blast
  show "e \<in> set (type_rows s)" using assms(2) by (auto simp: ordinary_row_def dest: first_row_Some)
  show "names_unique (type_rows s)" using assms(1) by (simp add: office_ok_def options_ok_def)
qed

lemma triple_resolve:
  assumes "serial_env env0 env"
  shows "triple (serial env0 []) (\<lambda>s. (office_ok s0 s \<and> serial env0 [] s) \<and> ordinary_row i (type_rows s) = Some e)
    (resolve_type_tombstone env k) (resolved env0 (op_id e))"
  unfolding triple_def
proof (intro allI impI)
  fix w :: "(office, office_event) store"
  let ?s = "mine w"
  assume w: "base w = ?s \<and> (office_ok s0 ?s \<and> serial env0 [] ?s) \<and> ordinary_row i (type_rows ?s) = Some e"
  note calm = serial_envD(1) [OF assms]
  note facts = tombstone_of_types [of s0 ?s i e]
  show "base (snd (resolve_type_tombstone env k w)) = mine (snd (resolve_type_tombstone env k w)) \<and>
      (case fst (resolve_type_tombstone env k w) of Inl _ \<Rightarrow> serial env0 [] (mine (snd (resolve_type_tombstone env k w)))
       | Inr fid \<Rightarrow> resolved env0 (op_id e) fid (mine (snd (resolve_type_tombstone env k w))))"
  proof (cases "tombstone_row TOMBSTONE_VENUE_TYPE (type_rows ?s)")
    case (Some t)
    then have "resolve_type_tombstone env k w = (Inr (op_id t), w)"
      by (simp add: resolve_type_tombstone_def findTombstoneId_def act_run calm)
    moreover have "resolved env0 (op_id e) (op_id t) ?s"
      using facts(1) [OF _ _ Some] facts(2,3) w serial_weaken [of env0 "[]" ?s] by (auto simp: resolved_def)
    ultimately show ?thesis using w by simp
  next
    case None
    let ?new = "new_option env (k + 1) TOMBSTONE_VENUE_TYPE True"
    show ?thesis
    proof (cases "insert_type env ?new ?s")
      case (Inl err)
      then have "snd (resolve_type_tombstone env k w) = w \<and> isl (fst (resolve_type_tombstone env k w))"
        using w None by (auto simp: resolve_type_tombstone_def findTombstoneId_def catching_def act_run calm)
      then show ?thesis using w by (auto split: sum.splits)
    next
      case (Inr x)
      then obtain s' a where ins: "insert_type env ?new ?s = Inr (s', a)" by (cases x) auto
      then have run: "resolve_type_tombstone env k w = (Inr (od_id a), w\<lparr>mine := s', base := s'\<rparr>)"
        using None by (simp add: resolve_type_tombstone_def findTombstoneId_def catching_def act_run calm)
      have "serial env0 VENUE_TYPE_CACHE_KEYS ?s" using w serial_weaken [of env0 "[]" ?s] by simp
      then have "serial env0 VENUE_TYPE_CACHE_KEYS s'" by (rule serial_insert_type [OF _ subset_refl ins])
      moreover have "live_option (type_rows s') (od_id a)" "od_id a \<noteq> op_id e" "e \<in> set (type_rows s')" "names_unique (type_rows s')"
        using insert_type_Inr [OF ins] facts(2) w by (auto simp: new_option_def live_option_def)
      ultimately show ?thesis using run by (auto simp: resolved_def)
    qed
  qed
qed

lemma retired_names: "active_names (set_where p (retire_row at) rows) = map op_name (filter (\<lambda>r. op_deletedAt r = None \<and> \<not> p r) rows)"
  by (induction rows) (auto simp: active_names_def set_where_def retire_row_def)

lemma names_unique_retire: "names_unique rows \<Longrightarrow> names_unique (set_where p (retire_row at) rows)"
  unfolding names_unique_def retired_names
  by (induction rows) (auto simp: active_names_def split: if_splits)

lemma live_move_venues [simp]: "type_rows (move_venues i j at s) = type_rows s"
  by (simp add: move_venues_def)

lemma type_used_after_move: "j \<noteq> i \<Longrightarrow> \<not> type_used (move_venues i j at s) i"
  by (auto simp: type_used_def move_venues_def set_where_def)

lemma triple_retire_type:
  assumes "serial_env env0 env"
  shows "triple (serial env0 []) (resolved env0 e fid)
    (andThen (atomically (andThen (put env 4 (\<lambda>s. Inr (move_venues e fid (now env 4) s, ()))) (\<lambda>_.
     andThen (put env 5 (write_type env e (retire_row (now env 5)))) (\<lambda>_. done_with ())))) (\<lambda>_.
     redis_del env 6 VENUE_TYPE_CACHE_KEYS)) (\<lambda>_. serial env0 [])"
    (is "triple _ _ ?call _")
  unfolding triple_def
proof (intro allI impI)
  fix w :: "(office, office_event) store"
  let ?s = "mine w"
  assume w: "base w = ?s \<and> resolved env0 e fid ?s"
  note calm = serial_envD(1) [OF assms]
  let ?m = "move_venues e fid (now env 4) ?s"
  have moved: "serial env0 VENUE_TYPE_CACHE_KEYS ?m"
    using w by (auto simp: resolved_def intro: serial_move_venues)
  obtain r where "first_row (\<lambda>r. op_id r = e) (type_rows ?m) = Some r"
    using w first_row_None [of "\<lambda>r. op_id r = e" "type_rows ?s"] by (fastforce simp: resolved_def)
  then obtain s' a where stored: "write_type env e (retire_row (now env 5)) ?m = Inr (s', a)"
    using w names_unique_retire by (auto simp: write_type_def update_row_def Let_def resolved_def)
  have "n \<noteq> e \<and> live_option (type_rows ?m) n" if "type_used ?m n" for n
    using that serial_type_used [OF moved] type_used_after_move [of fid e] w by (auto simp: resolved_def)
  then have "serial env0 VENUE_TYPE_CACHE_KEYS s'"
    by (intro serial_write_type [OF moved _ stored]) simp_all
  then have dropped: "serial env0 [] (with_cache (dropping True VENUE_TYPE_CACHE_KEYS) s')" by (rule serial_drop) simp
  have "redis_ready env 6" using assms by (simp add: serial_env_def)
  moreover have "write_type env e (retire_row (now env 5)) (move_venues e fid (now env 4) (mine w)) = Inr (s', a)" by (rule stored)
  ultimately have "?call w = (Inr (), w\<lparr>base := with_cache (dropping True VENUE_TYPE_CACHE_KEYS) s',
      mine := with_cache (dropping True VENUE_TYPE_CACHE_KEYS) s'\<rparr>)"
    using calm by (simp add: act_run)
  then show "base (snd (?call w)) = mine (snd (?call w)) \<and>
      (case fst (?call w) of Inl _ \<Rightarrow> serial env0 [] (mine (snd (?call w))) | Inr _ \<Rightarrow> serial env0 [] (mine (snd (?call w))))"
    using dropped by simp
qed

lemma serial_softDelete_type:
  assumes "serial_env env0 env"
  shows "triple (serial env0 []) (\<lambda>s. office_ok s0 s \<and> serial env0 [] s) (softDelete_type env i) (\<lambda>_. serial env0 [])"
  unfolding softDelete_type_def
  by (rule triple_found [OF serial_envD(1) [OF assms]], simp, rule triple_andThen, rule triple_resolve [OF assms],
      rule triple_retire_type [OF assms])

subsection \<open>Amenities\<close>

lemma serial_amenities:
  assumes "serial env0 K s" "AMENITY_LIST_KEY \<in> set K"
    and "\<And>t. t \<in> set ts \<Longrightarrow> live_amenity rows (snd t)" "distinct (map ay_id rows)"
  shows "serial env0 K (s\<lparr>amenity_rows := rows, ticks := ts\<rparr>)"
proof (rule serial_step [OF assms(1)])
  have rows: "option_rows m (s\<lparr>amenity_rows := rows, ticks := ts\<rparr>) = option_rows m s" for m by (cases m) (simp_all add: option_rows_def)
  show "refs_ok (s\<lparr>amenity_rows := rows, ticks := ts\<rparr>)"
    using assms(1,3,4) by (simp add: serial_def refs_ok_def rows)
  show "set OPTION_LIST_KEYS \<subseteq> set K \<or> (\<forall>m r. option_view env0 m r (s\<lparr>amenity_rows := rows, ticks := ts\<rparr>) = option_view env0 m r s)"
    by (intro disjI2 allI option_view_cong) (simp_all add: rows)
qed (use assms(2) in \<open>auto intro: type_view_cong\<close>)

lemma serial_ticked: "serial env0 K s \<Longrightarrow> t \<in> set (ticks s) \<Longrightarrow> live_amenity (amenity_rows s) (snd t)"
  "serial env0 K s \<Longrightarrow> distinct (map ay_id (amenity_rows s))"
  by (auto simp: serial_def refs_ok_def)

lemma write_amenity_Inr:
  "write_amenity env i f s = Inr (s', a) \<Longrightarrow> s' = s\<lparr>amenity_rows := set_where (\<lambda>x. ay_id x = i) f (amenity_rows s), ticks := ticks s\<rparr>"
  by (auto simp: write_amenity_def Let_def split: option.splits if_splits)

lemma insert_amenity_Inr:
  "insert_amenity env r s = Inr (s', a) \<Longrightarrow> s' = s\<lparr>amenity_rows := amenity_rows s @ [r], ticks := ticks s\<rparr> \<and> ay_id r \<notin> ay_id ` set (amenity_rows s)"
  by (auto simp: insert_amenity_def Let_def split: if_splits)

lemma live_amenity_append: "live_amenity rows n \<Longrightarrow> live_amenity (rows @ [r]) n"
  by (auto simp: live_amenity_def)

lemma live_amenity_set_where:
  assumes "live_amenity rows n" "\<And>a. ay_id (f a) = ay_id a" "\<And>a. p a \<Longrightarrow> ay_id a = n \<Longrightarrow> ay_deletedAt (f a) = ay_deletedAt a"
  shows "live_amenity (set_where p f rows) n"
  using assms by (auto simp: live_amenity_def set_set_where) (metis (full_types))

lemma distinct_set_where: "distinct (map g xs) \<Longrightarrow> (\<And>x. g (f x) = g x) \<Longrightarrow> distinct (map g (set_where p f xs))"
  by (simp add: map_set_where)

lemma serial_amenity_names:
  assumes "serial_env env0 env"
  shows "triple (serial env0 []) (serial env0 []) (create_amenity env name) (\<lambda>_. serial env0 [])"
    and "triple (serial env0 []) (serial env0 []) (update_amenity env i name) (\<lambda>_. serial env0 [])"
proof -
  note calm = serial_envD(1) [OF assms]
  let ?K = "[AMENITY_LIST_KEY]"
  have start: "serial env0 ?K s" if "serial env0 [] s" for s using that by (rule serial_weaken) simp
  have "inner (serial env0 []) (put env 0 (insert_amenity env (new_amenity env 0 name))) (\<lambda>_. serial env0 ?K)"
  proof (rule inner_put_to [OF calm])
    fix s s' a assume s: "serial env0 [] s" "insert_amenity env (new_amenity env 0 name) s = Inr (s', a)"
    have "serial env0 ?K (s\<lparr>amenity_rows := amenity_rows s @ [new_amenity env 0 name], ticks := ticks s\<rparr>)"
      using serial_ticked [OF s(1)] insert_amenity_Inr [OF s(2)]
      by (intro serial_amenities [OF start [OF s(1)]]) (auto intro: live_amenity_append)
    then show "serial env0 ?K s'" using insert_amenity_Inr [OF s(2)] by simp
  qed
  then show "triple (serial env0 []) (serial env0 []) (create_amenity env name) (\<lambda>_. serial env0 [])"
    unfolding create_amenity_def by (intro triple_try triple_commit [OF assms, where K = ?K] triple_returns subset_refl)
  have stored: "inner (\<lambda>s. serial env0 [] s \<and> active_amenity i s = Some e)
      (put env 1 (write_amenity env (ay_id e) (\<lambda>a. a\<lparr>ay_name := name, ay_updatedAt := now env 1\<rparr>))) (\<lambda>_. serial env0 ?K)" for e
  proof (rule inner_put_to [OF calm], elim conjE)
    fix s s' a assume s: "serial env0 [] s" "write_amenity env (ay_id e) (\<lambda>a. a\<lparr>ay_name := name, ay_updatedAt := now env 1\<rparr>) s = Inr (s', a)"
    show "serial env0 ?K s'" unfolding write_amenity_Inr [OF s(2)]
      by (intro serial_amenities [OF start [OF s(1)]] live_amenity_set_where distinct_set_where serial_ticked [OF s(1)]) simp_all
  qed
  show "triple (serial env0 []) (serial env0 []) (update_amenity env i name) (\<lambda>_. serial env0 [])"
    unfolding update_amenity_def
    by (rule triple_found [OF calm], assumption)
      (intro triple_try triple_commit [OF assms _ stored] triple_returns subset_refl, simp)
qed

lemma serial_softDelete_amenity:
  assumes "serial_env env0 env"
  shows "triple (serial env0 []) (serial env0 []) (softDelete_amenity env i) (\<lambda>_. serial env0 [])"
proof -
  note calm = serial_envD(1) [OF assms]
  let ?K = "[AMENITY_LIST_KEY]"
  have start: "serial env0 ?K s" if "serial env0 [] s" for s using that by (rule serial_weaken) simp
  have freed: "inner (\<lambda>s. serial env0 [] s \<and> True) (put env 2 (\<lambda>s. Inr (s\<lparr>ticks := filter (\<lambda>t. snd t \<noteq> n) (ticks s)\<rparr>, ())))
      (\<lambda>_ s. serial env0 ?K s \<and> (\<forall>t \<in> set (ticks s). snd t \<noteq> n))" for n
  proof (rule inner_put_to [OF calm], elim conjE)
    fix s s' and a :: unit assume s: "serial env0 [] s" "Inr (s\<lparr>ticks := filter (\<lambda>t. snd t \<noteq> n) (ticks s)\<rparr>, ()) = Inr (s', a)"
    have "serial env0 ?K (s\<lparr>amenity_rows := amenity_rows s, ticks := filter (\<lambda>t. snd t \<noteq> n) (ticks s)\<rparr>)"
      by (intro serial_amenities [OF start [OF s(1)]]) (auto intro: serial_ticked [OF s(1)])
    then show "serial env0 ?K s' \<and> (\<forall>t \<in> set (ticks s'). snd t \<noteq> n)" using s(2) by auto
  qed
  have retired: "inner (\<lambda>s. serial env0 ?K s \<and> (\<forall>t \<in> set (ticks s). snd t \<noteq> n))
      (put env 3 (write_amenity env n (\<lambda>a. a\<lparr>ay_deletedAt := Some (now env 3), ay_updatedAt := now env 3\<rparr>))) (\<lambda>_. serial env0 ?K)" for n
  proof (rule inner_put_to [OF calm], elim conjE)
    fix s s' a assume s: "serial env0 ?K s" "\<forall>t \<in> set (ticks s). snd t \<noteq> n"
      and w: "write_amenity env n (\<lambda>a. a\<lparr>ay_deletedAt := Some (now env 3), ay_updatedAt := now env 3\<rparr>) s = Inr (s', a)"
    show "serial env0 ?K s'" unfolding write_amenity_Inr [OF w]
      by (intro serial_amenities [OF s(1)] live_amenity_set_where distinct_set_where serial_ticked [OF s(1)]) (use s(2) in auto)
  qed
  have work: "inner (\<lambda>s. serial env0 [] s \<and> active_amenity i s = Some e)
    (andThen (fetch env 1 (\<lambda>s. tick_count s (ay_id e))) (\<lambda>released.
     andThen (put env 2 (\<lambda>s. Inr (s\<lparr>ticks := filter (\<lambda>t. snd t \<noteq> ay_id e) (ticks s)\<rparr>, ()))) (\<lambda>_.
     andThen (put env 3 (write_amenity env (ay_id e) (\<lambda>a. a\<lparr>ay_deletedAt := Some (now env 3), ay_updatedAt := now env 3\<rparr>))) (\<lambda>_.
     done_with released)))) (\<lambda>_. serial env0 ?K)" for e
    by (rule inner_andThen [OF inner_fetch [OF calm]], rule inner_andThen, rule inner_pre [OF freed], simp,
        rule inner_andThen [OF retired]) (simp add: inner_def act_run)
  show "triple (serial env0 []) (serial env0 []) (softDelete_amenity env i) (\<lambda>_. serial env0 [])"
    unfolding softDelete_amenity_def
    by (rule triple_found [OF calm], assumption) (intro triple_commit [OF assms _ work] triple_returns subset_refl, simp)
qed

subsection \<open>Venues\<close>

lemma venue_keys: "set VENUE_TYPE_CACHE_KEYS \<subseteq> set VENUE_WRITE_CACHE_KEYS" "AMENITY_LIST_KEY \<in> set VENUE_WRITE_CACHE_KEYS"
  by (auto simp: VENUE_WRITE_CACHE_KEYS_def)

lemma serial_venues:
  assumes "serial env0 VENUE_WRITE_CACHE_KEYS s"
    and "\<And>v. v \<in> set vs \<Longrightarrow> live_option (type_rows s) (vn_venueTypeId v)" "\<And>t. t \<in> set ts \<Longrightarrow> live_amenity (amenity_rows s) (snd t)"
  shows "serial env0 VENUE_WRITE_CACHE_KEYS (s\<lparr>venue_rows := vs, photo_rows := ps, ticks := ts\<rparr>)"
proof (rule serial_step [OF assms(1)])
  have rows: "option_rows m (s\<lparr>venue_rows := vs, photo_rows := ps, ticks := ts\<rparr>) = option_rows m s" for m by (cases m) (simp_all add: option_rows_def)
  show "refs_ok (s\<lparr>venue_rows := vs, photo_rows := ps, ticks := ts\<rparr>)"
    using assms by (simp add: serial_def refs_ok_def rows)
  show "set OPTION_LIST_KEYS \<subseteq> set VENUE_WRITE_CACHE_KEYS \<or>
      (\<forall>m r. option_view env0 m r (s\<lparr>venue_rows := vs, photo_rows := ps, ticks := ts\<rparr>) = option_view env0 m r s)"
    by (intro disjI2 allI option_view_cong) (simp_all add: rows)
qed (use venue_keys in simp_all)

lemma serial_photos:
  assumes "serial env0 K s"
  shows "serial env0 K (s\<lparr>photo_rows := ps\<rparr>)"
proof (rule serial_step [OF assms])
  have rows: "option_rows m (s\<lparr>photo_rows := ps\<rparr>) = option_rows m s" for m by (cases m) (simp_all add: option_rows_def)
  show "refs_ok (s\<lparr>photo_rows := ps\<rparr>)" using assms by (simp add: serial_def refs_ok_def rows)
  show "set OPTION_LIST_KEYS \<subseteq> set K \<or> (\<forall>m r. option_view env0 m r (s\<lparr>photo_rows := ps\<rparr>) = option_view env0 m r s)"
    by (intro disjI2 allI option_view_cong) (simp_all add: rows)
qed (auto intro: type_view_cong amenity_view_cong)

end
