(* ===== verification/OfficeSerialVenues.thy ===== *)
theory OfficeSerialVenues
  imports OfficeSerialCalls
begin

text \<open>The serial invariant through the venue calls, and through every sequence of calls.\<close>

subsection \<open>Checks\<close>

lemma inner_type_checked:
  "undisturbed env \<Longrightarrow> inner P (assertAssignableVenueType env k t) (\<lambda>_ s. P s \<and> live_option (type_rows s) t)"
  by (auto simp: inner_def assertAssignableVenueType_def act_run ordinary_row_def live_option_def
      dest!: first_row_Some split: option.splits if_splits)

lemma counted_live:
  assumes "distinct (map ay_id rows)" "count_where (\<lambda>a. ay_id a \<in> set ids \<and> ay_deletedAt a = None) rows = length ids" "n \<in> set ids"
  shows "live_amenity rows n"
proof -
  let ?found = "filter (\<lambda>a. ay_id a \<in> set ids \<and> ay_deletedAt a = None) rows"
  have "distinct (map ay_id ?found)" using assms(1) by (simp add: distinct_map_filter)
  then have "card (set (map ay_id ?found)) = length ids"
    using assms(2) distinct_card by (fastforce simp: count_where_def)
  moreover have sub: "set (map ay_id ?found) \<subseteq> set ids" by auto
  ultimately have "set (map ay_id ?found) = set ids"
    using card_length [of ids] card_mono [OF _ sub] by (intro card_subset_eq) simp_all
  then have "n \<in> ay_id ` set ?found" using assms(3) by simp
  then show ?thesis by (auto simp: live_amenity_def)
qed

lemma inner_amenities_checked:
  assumes "undisturbed env" "\<And>s. P s \<Longrightarrow> distinct (map ay_id (amenity_rows s))"
  shows "inner P (assertActiveAmenities env k ids) (\<lambda>_ s. P s \<and> (\<forall>n \<in> set ids. live_amenity (amenity_rows s) n))"
  using assms(2) counted_live
  by (auto simp: inner_def assertActiveAmenities_def act_run assms(1))

subsection \<open>Creating and closing\<close>

lemma start_venues: "serial env0 [] s \<Longrightarrow> serial env0 VENUE_WRITE_CACHE_KEYS s"
  using serial_weaken [of env0 "[]" s VENUE_WRITE_CACHE_KEYS] by simp

lemma serial_venue_rows: "serial env0 K s \<Longrightarrow> v \<in> set (venue_rows s) \<Longrightarrow> live_option (type_rows s) (vn_venueTypeId v)"
  by (auto simp: serial_def refs_ok_def)

lemma serial_write_venue:
  assumes "serial env0 VENUE_WRITE_CACHE_KEYS s" "write_venue env i f s = Inr (s', a)"
    and "\<And>v. v \<in> set (venue_rows s) \<Longrightarrow> live_option (type_rows s) (vn_venueTypeId (f v))"
  shows "serial env0 VENUE_WRITE_CACHE_KEYS s'"
proof -
  let ?vs = "set_where (\<lambda>x. vn_id x = i) f (venue_rows s)"
  have "s' = s\<lparr>venue_rows := ?vs, photo_rows := photo_rows s, ticks := ticks s\<rparr>"
    using assms(2) by (auto simp: write_venue_def Let_def split: option.splits if_splits)
  moreover have "\<forall>v \<in> set ?vs. live_option (type_rows s) (vn_venueTypeId v)"
    using assms(3) serial_venue_rows [OF assms(1)] by (simp add: ball_set_where)
  ultimately show ?thesis by (simp only:) (rule serial_venues [OF assms(1)], blast, rule serial_ticked(1) [OF assms(1)])
qed

lemma serial_insert_venue:
  assumes "serial env0 VENUE_WRITE_CACHE_KEYS s" "insert_venue env v ps ids s = Inr (s', a)"
    and "live_option (type_rows s) (vn_venueTypeId v)" "\<forall>n \<in> set ids. live_amenity (amenity_rows s) n"
  shows "serial env0 VENUE_WRITE_CACHE_KEYS s'"
proof -
  have "s' = s\<lparr>venue_rows := venue_rows s @ [v], photo_rows := photo_rows s @ ps, ticks := ticks s @ map (\<lambda>a. (vn_id v, a)) ids\<rparr>"
    using assms(2) by (auto simp: insert_venue_def Let_def split: if_splits)
  moreover have "live_option (type_rows s) (vn_venueTypeId x)" if "x \<in> set (venue_rows s @ [v])" for x
    using that serial_venue_rows [OF assms(1)] assms(3) by auto
  moreover have "live_amenity (amenity_rows s) (snd t)" if "t \<in> set (ticks s @ map (\<lambda>a. (vn_id v, a)) ids)" for t
    using that serial_ticked(1) [OF assms(1), of t] assms(4) by auto
  ultimately show ?thesis by (simp only:) (rule serial_venues [OF assms(1)])
qed

lemma move_photos_only: "move_photos env ms s = Inr (s', a) \<Longrightarrow> \<exists>ps. s' = s\<lparr>photo_rows := ps\<rparr>"
  by (induction env ms s arbitrary: s' a rule: move_photos.induct) (auto split: if_splits, metis office.surjective office.update_convs(8))

lemma triple_rehome:
  assumes "serial_env env0 env"
  shows "triple (serial env0 []) (serial env0 []) (rehomePhotos env k row) (\<lambda>_. serial env0 [])"
proof -
  note calm = serial_envD(1) [OF assms]
  have moved: "triple (serial env0 []) (serial env0 []) (atomically (put env k (move_photos env ms))) (\<lambda>_. serial env0 [])" for ms
    by (intro triple_atomically inner_put_to [OF calm]) (auto dest!: move_photos_only intro: serial_photos)
  have tried: "triple (serial env0 []) (serial env0 [])
      (catching (andThen (atomically (put env k (move_photos env ms))) (\<lambda>_. done_with True)) (\<lambda>_. done_with False)) (\<lambda>_. serial env0 [])" for ms
    using triple_catching [OF triple_keep_andThen [OF moved triple_keep_steps(1)] triple_keep_steps(1)]
    by (simp add: triple_def)
  show ?thesis unfolding rehomePhotos_def Let_def
    by (auto split: option.splits prod.splits intro!: serial_keeps tried calm)
qed

lemma serial_create_venue:
  assumes "serial_env env0 env"
  shows "triple (serial env0 []) (serial env0 []) (create_venue env dto) (\<lambda>_. serial env0 [])"
proof -
  note calm = serial_envD(1) [OF assms]
  have work: "inner (serial env0 []) (andThen (assertAssignableVenueType env 0 (cv_venueTypeId dto)) (\<lambda>_.
      andThen (assertActiveAmenities env 1 (or_nil (cv_amenityIds dto))) (\<lambda>_.
      put env 2 (insert_venue env (new_venue env 2 dto)
        (new_photos env 2 (fresh_id env 2) 0 (or_nil (cv_photoUrls dto))) (or_nil (cv_amenityIds dto))))))
      (\<lambda>_. serial env0 VENUE_WRITE_CACHE_KEYS)"
    by (rule inner_andThen, rule inner_type_checked [OF calm], rule inner_andThen, rule inner_amenities_checked [OF calm],
        erule conjE, erule serial_ticked(2), rule inner_put_to [OF calm], elim conjE, rule serial_insert_venue, erule start_venues,
        assumption, simp add: new_venue_def, assumption)
  have urls: "triple I I (assertOwnPhotoUrls env us) (\<lambda>_. I)" for I us
    by (auto simp: triple_def assertOwnPhotoUrls_def act_run split: option.splits)
  show ?thesis unfolding create_venue_def
    by (rule triple_keep_andThen [OF urls], intro triple_try triple_commit [OF assms _ work] triple_rehome [OF assms] subset_refl)
qed

lemma serial_flip_venue:
  assumes "serial_env env0 env" "\<And>v. vn_venueTypeId (f v) = vn_venueTypeId v"
  shows "inner (serial env0 []) (put env k (write_venue env i f)) (\<lambda>_. serial env0 VENUE_WRITE_CACHE_KEYS)"
  by (rule inner_put_to [OF serial_envD(1) [OF assms(1)]], rule serial_write_venue, erule start_venues,
      assumption, simp add: assms(2), erule (1) serial_venue_rows)

lemma triple_flip:
  assumes "serial_env env0 env" "\<And>v. vn_venueTypeId (f v) = vn_venueTypeId v" "\<And>a. triple (serial env0 []) (serial env0 []) (g a) (\<lambda>_. serial env0 [])"
  shows "triple (serial env0 []) (serial env0 []) (andThen (atomically (put env 1 (write_venue env i f)))
    (\<lambda>a. andThen (redis_del env 2 VENUE_WRITE_CACHE_KEYS) (\<lambda>_. g a))) (\<lambda>_. serial env0 [])"
  by (rule triple_commit [OF assms(1) _ serial_flip_venue [OF assms(1,2)] subset_refl assms(3)])

lemma serial_closing:
  assumes "serial_env env0 env"
  shows "triple (serial env0 []) (serial env0 []) (close_venue env i reason who) (\<lambda>_. serial env0 [])"
    and "triple (serial env0 []) (serial env0 []) (reopen_venue env i) (\<lambda>_. serial env0 [])"
    and "triple (serial env0 []) (serial env0 []) (softDelete_venue env i) (\<lambda>_. serial env0 [])"
proof -
  show "triple (serial env0 []) (serial env0 []) (close_venue env i reason who) (\<lambda>_. serial env0 [])"
    unfolding close_venue_def Let_def
    by (rule triple_keep_andThen, rule triple_keep_steps, rule triple_keep_andThen, rule triple_keep_fetch [OF serial_envD(1) [OF assms]],
        rule triple_keep_andThen, rule triple_keep_steps, rule triple_keep_andThen, rule triple_keep_steps,
        rule triple_flip [OF assms]) (auto intro!: serial_keeps)
  show "triple (serial env0 []) (serial env0 []) (reopen_venue env i) (\<lambda>_. serial env0 [])"
    unfolding reopen_venue_def
    by (rule triple_keep_andThen, rule triple_keep_fetch [OF serial_envD(1) [OF assms]], rule triple_keep_andThen, rule triple_keep_steps,
        rule triple_keep_andThen, rule triple_keep_steps, rule triple_flip [OF assms]) (auto intro!: serial_keeps)
  show "triple (serial env0 []) (serial env0 []) (softDelete_venue env i) (\<lambda>_. serial env0 [])"
    unfolding softDelete_venue_def
    by (rule triple_keep_andThen, rule triple_keep_fetch [OF serial_envD(1) [OF assms]], rule triple_keep_andThen, rule triple_keep_steps,
        rule triple_commit1 [OF assms _ serial_flip_venue [OF assms] subset_refl]) simp_all
qed

subsection \<open>Updating\<close>

definition choice_live :: "int option \<Rightarrow> office \<Rightarrow> bool" where
  "choice_live t s \<longleftrightarrow> (case t of None \<Rightarrow> True | Some n \<Rightarrow> live_option (type_rows s) n)"

lemma choice_live_frame [simp]: "choice_live t (s\<lparr>ticks := ts\<rparr>) = choice_live t s" "choice_live t (s\<lparr>photo_rows := ps\<rparr>) = choice_live t s"
  by (simp_all add: choice_live_def cong: option.case_cong)

definition editing :: "office_env \<Rightarrow> update_venue_dto \<Rightarrow> office \<Rightarrow> bool" where
  "editing env0 dto s \<longleftrightarrow> serial env0 VENUE_WRITE_CACHE_KEYS s \<and> choice_live (uv_venueTypeId dto) s"

lemma serial_tick: "serial env0 K s \<Longrightarrow> (a, b) \<in> set (ticks s) \<Longrightarrow> live_amenity (amenity_rows s) b"
  using serial_ticked(1) by force

lemma inner_replace_ticks:
  assumes "undisturbed env"
  shows "inner (\<lambda>s. editing env0 dto s \<and> (\<forall>n \<in> set ids. live_amenity (amenity_rows s) n)) (replace_ticks env k v ids) (\<lambda>_. editing env0 dto)"
proof -
  have parts: "serial env0 VENUE_WRITE_CACHE_KEYS (s\<lparr>ticks := ts\<rparr>)"
    if "serial env0 VENUE_WRITE_CACHE_KEYS s" "\<And>t. t \<in> set ts \<Longrightarrow> live_amenity (amenity_rows s) (snd t)" for s ts
    using serial_venues [OF that(1), of "venue_rows s" ts "photo_rows s"] that(2) serial_venue_rows [OF that(1)] by simp
  show ?thesis unfolding replace_ticks_def
  proof (rule inner_andThen [where Q = "\<lambda>_ s. editing env0 dto s \<and> (\<forall>n \<in> set ids. live_amenity (amenity_rows s) n)"])
    show "inner (\<lambda>s. editing env0 dto s \<and> (\<forall>n \<in> set ids. live_amenity (amenity_rows s) n))
        (put env k (\<lambda>s. Inr (s\<lparr>ticks := filter (\<lambda>t. fst t \<noteq> v) (ticks s)\<rparr>, ())))
        (\<lambda>_ s. editing env0 dto s \<and> (\<forall>n \<in> set ids. live_amenity (amenity_rows s) n))"
      by (rule inner_put_to [OF assms]) (auto simp: editing_def intro!: parts dest: serial_ticked(1))
  next
    fix u :: unit
    show "inner (\<lambda>s. editing env0 dto s \<and> (\<forall>n \<in> set ids. live_amenity (amenity_rows s) n))
        (put env (k + 1) (\<lambda>s. let new = map (\<lambda>a. (v, a)) ids in
           if \<not> distinct ids \<or> set new \<inter> set (ticks s) \<noteq> {} then Inl (unique_error env)
           else Inr (s\<lparr>ticks := ticks s @ new\<rparr>, ()))) (\<lambda>_. editing env0 dto)"
      by (rule inner_put_to [OF assms])
        (auto simp: editing_def Let_def intro!: parts dest: serial_tick split: if_splits)
  qed
qed

lemma inner_replace_photos:
  assumes "undisturbed env"
  shows "inner (editing env0 dto) (replace_photos env k v urls) (\<lambda>_. editing env0 dto)"
proof -
  have photos: "editing env0 dto (s\<lparr>photo_rows := ps\<rparr>)" if "editing env0 dto s" for s ps
    using that by (simp add: editing_def serial_photos)
  show ?thesis unfolding replace_photos_def
    by (rule inner_andThen [where Q = "\<lambda>_. editing env0 dto"]; rule inner_put_to [OF assms])
      (auto simp: Let_def photos split: if_splits)
qed

lemma inner_case_option:
  "(x = None \<Longrightarrow> inner P m Q) \<Longrightarrow> (\<And>a. x = Some a \<Longrightarrow> inner P (f a) Q) \<Longrightarrow> inner P (case x of None \<Rightarrow> m | Some a \<Rightarrow> f a) Q"
  by (cases x) auto

lemma inner_update_venue:
  assumes "serial_env env0 env"
  shows "inner (serial env0 []) (update_venue_work env i dto) (\<lambda>_. serial env0 VENUE_WRITE_CACHE_KEYS)"
proof -
  note calm = serial_envD(1) [OF assms]
  have typed: "inner (serial env0 []) (case uv_venueTypeId dto of None \<Rightarrow> done_with () | Some t \<Rightarrow> assertAssignableVenueType env 2 t)
      (\<lambda>_. editing env0 dto)"
    by (rule inner_case_option)
      (auto intro!: inner_conseq [OF inner_basic(1)] inner_conseq [OF inner_type_checked [OF calm]]
        simp: editing_def choice_live_def start_venues)
  have ticked: "inner (editing env0 dto) (case uv_amenityIds dto of None \<Rightarrow> done_with ()
      | Some ids \<Rightarrow> andThen (assertActiveAmenities env 3 ids) (\<lambda>_. replace_ticks env 4 i ids)) (\<lambda>_. editing env0 dto)"
    by (rule inner_case_option, (auto intro!: inner_conseq [OF inner_basic(1)])[1], rule inner_andThen,
        rule inner_amenities_checked [OF calm], simp add: editing_def, erule conjE, erule serial_ticked(2), rule inner_replace_ticks [OF calm])
  have pictured: "inner (editing env0 dto) (case uv_photoUrls dto of None \<Rightarrow> done_with () | Some urls \<Rightarrow> replace_photos env 6 i urls)
      (\<lambda>_. editing env0 dto)"
    by (rule inner_case_option) (auto intro!: inner_conseq [OF inner_basic(1)] inner_replace_photos [OF calm])
  have stored: "inner (editing env0 dto) (put env 8 (write_venue env i (edit_venue dto (now env 8)))) (\<lambda>_. serial env0 VENUE_WRITE_CACHE_KEYS)"
    by (rule inner_put_to [OF calm], erule serial_write_venue [rotated])
      (auto simp: editing_def choice_live_def edit_venue_def chosen_def serial_venue_rows split: option.splits)
  show ?thesis unfolding update_venue_work_def
    by (rule inner_andThen [OF typed], rule inner_andThen [OF ticked], rule inner_andThen [OF pictured], rule stored)
qed

lemma serial_update_venue:
  assumes "serial_env env0 env"
  shows "triple (serial env0 []) (serial env0 []) (update_venue env i dto) (\<lambda>_. serial env0 [])"
proof -
  let ?I = "serial env0 []"
  have urls: "triple ?I ?I (case uv_photoUrls dto of None \<Rightarrow> done_with () | Some us \<Rightarrow> assertOwnPhotoUrls env us) (\<lambda>_. ?I)"
    by (auto simp: triple_def assertOwnPhotoUrls_def act_run split: option.splits)
  have before: "triple ?I ?I (case uv_photoUrls dto of None \<Rightarrow> done_with [] | Some _ \<Rightarrow> fetch env 1 f) (\<lambda>_. ?I)" for f :: "office \<Rightarrow> string list"
    using triple_keep_fetch [OF serial_envD(1) [OF assms]] by (auto intro: triple_keep_steps split: option.splits)
  have deleted: "triple ?I ?I (case uv_photoUrls dto of None \<Rightarrow> done_with () | Some us \<Rightarrow> deleteObjectsFor env (gone us)) (\<lambda>_. ?I)" for gone
    by (auto simp: triple_def deleteObjectsFor_def act_run split: option.splits)
  show ?thesis unfolding update_venue_def
    by (rule triple_keep_andThen [OF urls], rule triple_keep_andThen, rule triple_keep_fetch [OF serial_envD(1) [OF assms]], rule triple_keep_andThen,
        rule triple_keep_steps, rule triple_keep_andThen [OF before], rule triple_try,
        rule triple_commit [OF assms _ inner_update_venue [OF assms] subset_refl], assumption,
        rule triple_keep_andThen [OF deleted], rule triple_rehome [OF assms])
qed

subsection \<open>Every call\<close>

definition serial_ok :: "office_env \<Rightarrow> office \<Rightarrow> office \<Rightarrow> bool" where
  "serial_ok env0 s0 s \<longleftrightarrow> office_ok s0 s \<and> serial env0 [] s"

lemma serial_reads:
  assumes "serial_env env0 env"
  defines "I \<equiv> serial env0 []"
  shows "triple I I (findManyPaginated env q r) (\<lambda>_. I)" "triple I I (findOne env i) (\<lambda>_. I)"
    "triple I I (list_venues env vq) (\<lambda>_. I)" "triple I I (listForLine env vq p l) (\<lambda>_. I)" "triple I I (findById env n) (\<lambda>_. I)"
  unfolding findManyPaginated_def findOne_def list_venues_def listForLine_def findById_def
  by (intro serial_keeps serial_envD(1) [OF assms(1)])+

lemma in_views:
  assumes "serial_env env0 env"
  shows "(optionListKey model r, option_view env model r) \<in> set (views env0)"
    "(venueTypeListKey r, type_view env r) \<in> set (views env0)" "(AMENITY_LIST_KEY, amenity_view env) \<in> set (views env0)"
proof -
  have v: "views env0 = views env" using assms views_by_collation [of env env0] by (simp add: serial_env_def)
  show "(optionListKey model r, option_view env model r) \<in> set (views env0)" unfolding v by (cases model; cases r) (simp_all add: views_def)
  show "(venueTypeListKey r, type_view env r) \<in> set (views env0)" unfolding v by (cases r) (simp_all add: views_def)
  show "(AMENITY_LIST_KEY, amenity_view env) \<in> set (views env0)" unfolding v by (simp add: views_def)
qed

lemma triple_lists:
  assumes "serial_env env0 env"
  shows "triple (serial env0 []) (serial env0 []) (list_options env model r) (\<lambda>a s. serial env0 [] s \<and> a = option_view env model r s)"
    and "triple (serial env0 []) (serial env0 []) (list_types env r) (\<lambda>a s. serial env0 [] s \<and> a = type_view env r s)"
    and "triple (serial env0 []) (serial env0 []) (list_amenities env) (\<lambda>a s. serial env0 [] s \<and> a = amenity_view env s)"
  unfolding list_options_def list_types_def list_amenities_def
  by (rule triple_cache_aside [OF assms in_views(1) [OF assms]], rule triple_cache_aside [OF assms in_views(2) [OF assms]],
      rule triple_cache_aside [OF assms in_views(3) [OF assms]])

lemma triple_lists_keep:
  assumes "serial_env env0 env"
  shows "triple (serial env0 []) (serial env0 []) (list_options env model r) (\<lambda>_. serial env0 [])"
    and "triple (serial env0 []) (serial env0 []) (list_types env r) (\<lambda>_. serial env0 [])"
    and "triple (serial env0 []) (serial env0 []) (list_amenities env) (\<lambda>_. serial env0 [])"
  by (rule triple_conseq [OF triple_lists(1) [OF assms]], simp, rule triple_conseq [OF triple_lists(2) [OF assms]], simp,
      rule triple_conseq [OF triple_lists(3) [OF assms]], simp)

lemmas serial_calls =
  serial_create_user serial_resetPassword serial_reads serial_update_staff serial_softDelete serial_restore_staff
  serial_pictures triple_lists_keep(1) serial_create_option serial_update_option
  triple_lists_keep(2) serial_create_type serial_update_type triple_lists_keep(3)
  serial_amenity_names serial_softDelete_amenity serial_create_venue serial_update_venue serial_closing

lemma leaves_serial: "triple (serial env0 []) (serial env0 []) m (\<lambda>_. serial env0 []) \<Longrightarrow> serial env0 [] s \<Longrightarrow> serial env0 [] (leaves m s)"
  by (rule triple_leaves)

lemma serve_serial: "serial_ok env0 s0 s \<Longrightarrow> serial_env env0 env \<Longrightarrow> serial_ok env0 s0 (serve_office s (env, c))"
proof -
  assume ok: "serial_ok env0 s0 s" and env: "serial_env env0 env"
  have "polite (office_ok s0) env" using serial_envD(1) [OF env] by (simp add: polite_def undisturbed_def)
  then have "office_ok s0 (serve_office s (env, c))" using ok serve_office_ok by (simp add: serial_ok_def)
  moreover have "serial env0 [] (serve_office s (env, c))"
    using ok triple_leaves [OF serial_softDelete_option [OF env, of s0], of s] triple_leaves [OF serial_softDelete_type [OF env, of s0], of s]
    by (cases c) (simp_all add: serve_office_def serial_ok_def leaves_serial serial_calls env)
  ultimately show ?thesis by (simp add: serial_ok_def)
qed

interpretation office_in_turn: invariant_system serve_office "serial_ok env0 s0" "\<lambda>x. serial_env env0 (fst x)" for env0 s0
  by unfold_locales (auto intro: serve_serial)

end
