(* ===== verification/OfficeSamples.thy ===== *)
theory OfficeSamples
  imports OfficeSystem
begin

text \<open>A small back office and an environment, on which the theorems are exercised.\<close>

definition calm_office_env :: office_env where
  "calm_office_env = \<lparr>others = \<lambda>_ s. s, breaks = \<lambda>_. None, now = \<lambda>k. 1000 + int k, fresh_id = \<lambda>_. ''new'',
     fresh_no = \<lambda>_. 90, fresh_photo_id = \<lambda>k pos. ''p'' @ show_nat pos, collation = \<lambda>a b. int (length a) - int (length b),
     contains_ci = js_includes, lower_case = \<lambda>t. t, temporary_password = ''tmp'', password_hash = \<lambda>t. ''h'' @ t,
     redis_ready = \<lambda>_. True, public_base_url = Some ''https://b'', copy_succeeds = \<lambda>_ _. True,
     unique_error = JsError True (Some ''P2002'') None None NoTarget None None None None,
     missing_error = JsError True (Some ''P2025'') None None NoTarget None None None None\<rparr>"

definition account :: "string \<Rightarrow> system_role \<Rightarrow> int \<Rightarrow> system_user" where
  "account i role dept = \<lparr>su_id = i, su_email = i, su_passwordHash = ''h'', su_firstName = ''F'', su_lastName = ''L'',
     su_role = role, su_mustChangePassword = False, su_departmentId = dept, su_personnelRoleId = 20,
     su_phoneNumber = None, su_profilePictureUrl = None, su_isActive = True, su_lastLoginAt = None,
     su_deletedAt = None, su_createdById = None, su_lineUserId = None, su_createdAt = 1, su_updatedAt = 1\<rparr>"

definition option_at :: "int \<Rightarrow> string \<Rightarrow> bool \<Rightarrow> option_row" where
  "option_at i name reserved = \<lparr>op_id = i, op_name = name, op_isSystemReserved = reserved, op_createdAt = 1,
     op_updatedAt = 1, op_deletedAt = None\<rparr>"

definition room_at :: "string \<Rightarrow> venue_row" where
  "room_at i = \<lparr>vn_id = i, vn_name = i, vn_venueTypeId = 30, vn_capacity = 100, vn_location = None,
     vn_description = None, vn_isOpen = True, vn_closedReason = None, vn_createdAt = 1, vn_updatedAt = 1,
     vn_deletedAt = None\<rparr>"

definition sample_office :: office where
  "sample_office = \<lparr>staff = [account ''root'' SUPER_ADMIN 10, account ''boss'' SUPER_ADMIN 11, account ''adm'' ADMIN 11],
     department_rows = [option_at 10 TOMBSTONE_DEPARTMENT_NAME True, option_at 11 ''IT'' False],
     personnel_roles = [option_at 19 TOMBSTONE_PERSONNEL_ROLE_NAME True, option_at 20 ''Teacher'' False],
     holders = [], type_rows = [option_at 29 TOMBSTONE_VENUE_TYPE True, option_at 30 ''Room'' False],
     amenity_rows = [], venue_rows = [room_at ''A'', room_at ''B''], photo_rows = [], ticks = [], cache = \<lambda>_. None\<rparr>"

definition acting :: "string \<Rightarrow> system_role \<Rightarrow> staff_actor" where
  "acting i role = \<lparr>sa_id = i, sa_role = role, sa_createdById = None\<rparr>"

lemma sample_office_ok: "office_ok sample_office sample_office"
  by (simp add: office_ok_def sample_office_def staff_ok_def options_ok_def venues_ok_def names_unique_def
      active_names_def venue_names_unique_def closed_has_reason_def account_def option_at_def room_at_def
      ACTIVE_SUPER_ADMIN_def TOMBSTONE_DEPARTMENT_NAME_def TOMBSTONE_PERSONNEL_ROLE_NAME_def TOMBSTONE_VENUE_TYPE_def)

lemma calm_undisturbed: "undisturbed calm_office_env"
  by (simp add: undisturbed_def calm_office_env_def)

text \<open>A second environment: before every statement somebody unticks every amenity.\<close>

definition busy_office_env :: office_env where
  "busy_office_env = calm_office_env\<lparr>others := \<lambda>_ s. s\<lparr>ticks := []\<rparr>\<rparr>"

lemma busy_polite: "polite (office_ok s0) busy_office_env"
  by (simp add: polite_def busy_office_env_def calm_office_env_def office_ok_frames)

end
