(* ===== verification/OfficeProperties.thy ===== *)
theory OfficeProperties
  imports OfficeSamples
begin

text \<open>
  What the back-office services guarantee, as properties of whole calls and of sequences of calls.
\<close>

subsection \<open>Invariants of any run\<close>

text \<open>
  C13: whatever the back office does, with any other well-behaved transactions in between and any
  statement failing, an active super admin remains and no two accounts share an e-mail address.
\<close>

theorem super_admin_remains:
  assumes "office_ok s s" "list_all (polite_call s) calls"
  shows "(\<exists>u \<in> set (staff (run_ops serve_office s calls)).
            su_role u = SUPER_ADMIN \<and> su_isActive u \<and> su_deletedAt u = None) \<and>
         distinct (map su_email (staff (run_ops serve_office s calls)))"
  using back_office.run_inv [OF assms]
  by (auto simp: office_ok_def staff_ok_def list_ex_iff ACTIVE_SUPER_ADMIN_def)

definition rivals :: "(office_env \<times> office_call) list" where
  "rivals = [(busy_office_env, DeleteUser (acting ''root'' SUPER_ADMIN) ''boss''),
     (calm_office_env, DeleteUser (acting ''boss'' SUPER_ADMIN) ''root'')]"

lemma rivals_polite: "list_all (polite_call s0) rivals"
  by (simp add: rivals_def polite_call_def busy_polite) (simp add: polite_def calm_office_env_def)

lemma super_admin_remains_witness:
  "\<exists>u \<in> set (staff (run_ops serve_office sample_office rivals)).
     su_role u = SUPER_ADMIN \<and> su_isActive u \<and> su_deletedAt u = None"
  using super_admin_remains [OF sample_office_ok rivals_polite] by blast

text \<open>
  C17: no call ever renames, deletes or otherwise changes a reserved option, and a stored venue has
  a closing reason, never an empty one, exactly while it is closed.
\<close>

theorem reserved_rows_stay:
  assumes "office_ok s s" "list_all (polite_call s) calls" "op_isSystemReserved r"
  shows "(r \<in> set (department_rows s) \<longrightarrow> r \<in> set (department_rows (run_ops serve_office s calls))) \<and>
    (r \<in> set (personnel_roles s) \<longrightarrow> r \<in> set (personnel_roles (run_ops serve_office s calls))) \<and>
    (r \<in> set (type_rows s) \<longrightarrow> r \<in> set (type_rows (run_ops serve_office s calls))) \<and>
    (\<forall>v \<in> set (venue_rows (run_ops serve_office s calls)).
       (vn_isOpen v \<longleftrightarrow> vn_closedReason v = None) \<and> vn_closedReason v \<noteq> Some [])"
  using back_office.run_inv [OF assms(1,2)] assms(3)
  by (auto simp: office_ok_def options_ok_def venues_ok_def closed_has_reason_def)

definition meddling :: "(office_env \<times> office_call) list" where
  "meddling = [(busy_office_env, DeleteOption Department 10), (calm_office_env, DeleteOption Department 11),
     (busy_office_env, CloseVenue ''A'' ''painting'' (''root'', ''Root''))]"

lemma meddling_polite: "list_all (polite_call s0) meddling"
  by (simp add: meddling_def polite_call_def busy_polite) (simp add: polite_def calm_office_env_def)

lemma reserved_rows_stay_witness:
  "option_at 10 TOMBSTONE_DEPARTMENT_NAME True \<in> set (department_rows (run_ops serve_office sample_office meddling))"
  using reserved_rows_stay [OF sample_office_ok meddling_polite, of "option_at 10 TOMBSTONE_DEPARTMENT_NAME True"]
  by (simp add: sample_office_def option_at_def)

subsection \<open>Refusals\<close>





subsection \<open>Changing accounts\<close>

lemma live_user_Some: "live_user i s = Some u \<Longrightarrow> u \<in> set (staff s) \<and> su_id u = i \<and> su_deletedAt u = None"
  by (auto simp: live_user_def dest: first_row_Some)

lemma first_user: "u \<in> set us \<Longrightarrow> su_id u = i \<Longrightarrow> \<exists>v. first_row (\<lambda>x. su_id x = i) us = Some v"
  by (cases "first_row (\<lambda>x. su_id x = i) us") (auto simp: first_row_None)

text \<open>What an update of an account that succeeds has checked and written, run undisturbed.\<close>

lemma update_work_Inr:
  assumes "undisturbed env" "update_work actor i p env w = (Inr dto, w')"
  shows "\<exists>t. live_user i (mine w) = Some t \<and> canPatch actor (target_of t) (pa_role p) (pa_isActive p) = Allowed \<and>
     update_user env (su_id t) (patch_row p (now env 3)) (mine w) = Inr (mine w', dto)"
    and "base w' = base w" "trace w' = trace w"
    and "may_assign (department_rows (mine w)) (mayUseSystemReservedOptions actor) (pa_departmentId p)"
    and "may_assign (personnel_roles (mine w)) (mayUseSystemReservedOptions actor) (pa_personnelRoleId p)"
    and "touchesInvariant p \<Longrightarrow> count_where ACTIVE_SUPER_ADMIN (staff (mine w')) \<noteq> 0"
  using assms(2)
  by (auto simp: update_work_def act_run assms(1) assertOptionsAssignable_def assertActiveSuperAdminRemains_def
      split: option.splits policy_result.splits sum.splits if_splits)

lemma alone_office [simp]: "now (alone env) = now env" "missing_error (alone env) = missing_error (env :: office_env)"
  by (simp_all add: alone_def)

lemma update_user_alone [simp]: "update_user (alone env) = update_user env"
  by (intro ext) (simp add: update_user_def split: option.splits)

lemma atomically_Inr: "atomically m w = (Inr a, w') \<Longrightarrow> \<exists>w1. m w = (Inr a, w1) \<and> w' = w1\<lparr>base := mine w1\<rparr>"
  by (auto simp: act_run split: prod.splits sum.splits)

lemma update_staff_Inr:
  assumes "undisturbed env" "answer (update_staff env actor i p) s = (Inr dto, s', es)"
  shows "\<exists>w w' env'. update_work actor i p env' w = (Inr dto, w') \<and> undisturbed env' \<and> now env' = now env \<and>
     mine w = s \<and> es = [] \<and> staff s' = staff (mine w') \<and> update_user env' = update_user env"
proof -
  let ?w = "\<lparr>base = s, mine = s, trace = []\<rparr>"
  let ?env = "if touchesInvariant p then alone env else env"
  have env': "undisturbed ?env" "now ?env = now env" "update_user ?env = update_user env"
    using assms(1) by (auto simp: undisturbed_aloneI)
  have work: "(if touchesInvariant p then serializable env 5 (update_work actor i p)
     else atomically (update_work actor i p env)) = atomically (update_work actor i p ?env)"
    using assms(1) by (auto simp: run_serializable_undisturbed fun_eq_iff)
  obtain w1 where run: "update_work actor i p ?env ?w = (Inr dto, w1)" and
      s': "staff s' = staff (mine w1)" "es = trace w1"
    using assms(2) unfolding answer_def update_staff_def work
    by (auto simp: catching_def dropOptionCounts_def act_run assms(1) split: prod.splits sum.splits if_splits)
  have "es = []" using update_work_Inr(3) [OF env'(1) run] s'(2) by simp
  then show ?thesis using run env' s' by (intro exI [of _ ?w] exI [of _ w1] exI [of _ ?env]) auto
qed

text \<open>
  C16: an update of an account that succeeds, run alone, was allowed by the policy for the live
  account named, changes exactly that account and exactly by the patch, refers only to options the
  actor may use, and leaves an active super admin when it touched a role or the active flag. In
  particular nobody but a SUPER_ADMIN changes a role, nobody changes his own role or active flag,
  and an ADMIN reaches beyond himself only to a VIEWER.
\<close>

theorem update_staff_effect:
  assumes "undisturbed env" "answer (update_staff env actor i p) s = (Inr dto, s', es)"
  shows "\<exists>t. live_user i s = Some t \<and> canPatch actor (target_of t) (pa_role p) (pa_isActive p) = Allowed \<and>
      staff s' = set_where (\<lambda>u. su_id u = i) (patch_row p (now env 3)) (staff s) \<and>
      may_assign (department_rows s) (sa_role actor = SUPER_ADMIN) (pa_departmentId p) \<and>
      may_assign (personnel_roles s) (sa_role actor = SUPER_ADMIN) (pa_personnelRoleId p) \<and>
      (pa_role p \<noteq> None \<or> pa_isActive p \<noteq> None \<longrightarrow> list_ex ACTIVE_SUPER_ADMIN (staff s')) \<and>
      (pa_role p \<noteq> None \<longrightarrow> sa_role actor = SUPER_ADMIN \<and> sa_id actor \<noteq> i) \<and>
      (sa_role actor = ADMIN \<longrightarrow> su_role t = VIEWER \<or> sa_id actor = i) \<and> sa_role actor \<noteq> VIEWER"
proof -
  obtain w w' env' where run: "update_work actor i p env' w = (Inr dto, w')" "undisturbed env'"
      and env': "now env' = now env" "update_user env' = update_user env" and w: "mine w = s" "staff s' = staff (mine w')"
    using update_staff_Inr [OF assms] by blast
  note facts = update_work_Inr [OF run(2,1)]
  obtain t where t: "live_user i s = Some t" "canPatch actor (target_of t) (pa_role p) (pa_isActive p) = Allowed"
      "update_user env (su_id t) (patch_row p (now env 3)) s = Inr (mine w', dto)"
    using facts(1) env' w(1) by auto
  have i: "su_id t = i" using live_user_Some [OF t(1)] by simp
  have "mine w' = s\<lparr>staff := set_where (\<lambda>u. su_id u = i) (patch_row p (now env 3)) (staff s)\<rparr>"
    using t(3) by (auto simp: update_user_def i Let_def split: option.splits)
  then have rows: "staff s' = set_where (\<lambda>u. su_id u = i) (patch_row p (now env 3)) (staff s)"
    using w(2) by simp
  have super: "mayUseSystemReservedOptions actor = (sa_role actor = SUPER_ADMIN)"
    by (simp add: mayUseSystemReservedOptions_def)
  have remain: "pa_role p \<noteq> None \<or> pa_isActive p \<noteq> None \<longrightarrow> list_ex ACTIVE_SUPER_ADMIN (staff s')"
    using facts(6) w(2) by (auto simp: touchesInvariant_def count_where_def list_ex_iff filter_empty_conv)
  show ?thesis
    using t(1,2) rows remain facts(4,5) w(1) canPatch_allowed [OF t(2)] i
    by (intro exI [of _ t]) (auto simp: super target_of_def)
qed

definition demotion :: staff_patch where
  "demotion = \<lparr>pa_firstName = None, pa_lastName = None, pa_departmentId = Some 11, pa_personnelRoleId = None,
     pa_phoneNumber = Some None, pa_profilePictureUrl = None, pa_role = Some ADMIN, pa_isActive = None\<rparr>"

lemma update_staff_effect_witness:
  "\<exists>dto s' es. answer (update_staff calm_office_env (acting ''root'' SUPER_ADMIN) ''boss'' demotion) sample_office =
      (Inr dto, s', es) \<and> list_ex ACTIVE_SUPER_ADMIN (staff s')"
proof -
  let ?call = "update_staff calm_office_env (acting ''root'' SUPER_ADMIN) ''boss'' demotion"
  obtain r s' es where run: "answer ?call sample_office = (r, s', es)" by (metis prod_cases3)
  have "\<not> isl (fst (answer ?call sample_office))" by code_simp
  then obtain dto where r: "r = Inr dto" using run by (cases r) auto
  show ?thesis
    using update_staff_effect [OF calm_undisturbed run [unfolded r]] run r by (auto simp: demotion_def)
qed

lemma softDelete_Inr:
  assumes "undisturbed env" "answer (softDelete env actor i) s = (Inr (), s', es)"
  shows "\<exists>t. live_user i s = Some t \<and> canDelete actor (target_of t) = Allowed \<and>
     (\<exists>f. s' = with_cache f (s\<lparr>staff := set_where (\<lambda>u. su_id u = i) (delete_row (now env 1)) (staff s)\<rparr>))"
proof -
  obtain t where t: "live_user i s = Some t" "canDelete actor (target_of t) = Allowed"
    using assms(2)
    by (auto simp: answer_def softDelete_def catching_def act_run assms(1) softDelete_work_def
        undisturbed_aloneI split: option.splits policy_result.splits prod.splits sum.splits)
  obtain v where v: "first_row (\<lambda>u. su_id u = i) (staff s) = Some v" "su_id t = i"
    using first_user live_user_Some [OF t(1)] by blast
  let ?rows = "set_where (\<lambda>u. su_id u = i) (delete_row (now env 1)) (staff s)"
  have "answer (softDelete env actor i) s =
      (if count_where ACTIVE_SUPER_ADMIN ?rows = 0 then (Inl (Refused (Conflict LAST_SUPER_ADMIN)), s, [])
       else (Inr (), with_cache (dropping (redis_ready env 4) OPTION_LIST_KEYS) (s\<lparr>staff := ?rows\<rparr>), []))"
    using t v
    by (simp add: answer_def softDelete_def catching_def act_run assms(1) softDelete_work_def undisturbed_aloneI
        undisturbed_simps(2) [OF assms(1)] update_user_def Let_def assertActiveSuperAdminRemains_def dropOptionCounts_def
        mapTransactionError_def)
  then have "s' = with_cache (dropping (redis_ready env 4) OPTION_LIST_KEYS) (s\<lparr>staff := ?rows\<rparr>)"
    using assms(2) by (simp split: if_splits)
  then show ?thesis using t by blast
qed

lemma set_where_twice:
  "(\<And>x. p (f x) = p x) \<Longrightarrow> set_where p g (set_where p f xs) = set_where p (\<lambda>x. g (f x)) xs"
  by (auto simp: set_where_def)

lemma in_set_where: "x \<in> set (set_where p f xs) \<Longrightarrow> (\<exists>y \<in> set xs. p y \<and> x = f y) \<or> (x \<in> set xs \<and> \<not> p x)"
  by (auto simp: set_where_def)

lemma deleted_rows:
  assumes "u \<in> set (set_where (\<lambda>u. su_id u = i) (delete_row t) us)" "su_id u = i"
  shows "su_deletedAt u = Some t"
  using in_set_where [OF assms(1)] assms(2) by (elim disjE bexE conjE) (simp_all add: delete_row_def)

lemma set_where_cong: "(\<And>x. x \<in> set xs \<Longrightarrow> p x \<Longrightarrow> f x = g x) \<Longrightarrow> set_where p f xs = set_where p g xs"
  by (auto simp: set_where_def)

text \<open>
  C19: deleting an account and restoring it, both run alone, gives every table back as it was, the
  time of the last change of that one account apart.
\<close>

theorem delete_then_restore:
  assumes "undisturbed env" "undisturbed env'" "distinct (map su_id (staff s))"
    and deleted: "answer (softDelete env actor i) s = (Inr (), s1, es)"
  shows "\<exists>dto f. answer (restore_staff env' i) s1 =
    (Inr dto, with_cache f (s\<lparr>staff := set_where (\<lambda>u. su_id u = i) (\<lambda>u. u\<lparr>su_updatedAt := now env' 1\<rparr>) (staff s)\<rparr>), [])"
proof -
  obtain t f where t: "live_user i s = Some t"
      and s1: "s1 = with_cache f (s\<lparr>staff := set_where (\<lambda>u. su_id u = i) (delete_row (now env 1)) (staff s)\<rparr>)"
    using softDelete_Inr [OF assms(1) deleted] by blast
  let ?undone = "set_where (\<lambda>u. su_id u = i) (restore_row (now env' 1)) (staff s1)"
  have live: "su_deletedAt u = None" if "u \<in> set (staff s)" "su_id u = i" for u
    using live_user_Some [OF t] that assms(3) by (auto simp: distinct_map dest: inj_onD)
  have rows: "?undone = set_where (\<lambda>u. su_id u = i) (\<lambda>u. u\<lparr>su_updatedAt := now env' 1\<rparr>) (staff s)"
    using live by (auto simp: s1 set_where_twice delete_row_def restore_row_def intro!: set_where_cong)
  obtain v where v: "first_row (\<lambda>u. su_id u = i) (staff s1) = Some v" "su_id v = i" "su_deletedAt v \<noteq> None"
  proof -
    have "map su_id (staff s1) = map su_id (staff s)"
      unfolding s1 by (simp add: delete_row_def map_set_where)
    moreover have "i \<in> set (map su_id (staff s))" using live_user_Some [OF t] by auto
    ultimately have "\<exists>u \<in> set (staff s1). su_id u = i" by (metis (mono_tags) imageE list.set_map)
    then obtain v where v: "first_row (\<lambda>u. su_id u = i) (staff s1) = Some v" using first_user by blast
    have "su_deletedAt v \<noteq> None"
      using deleted_rows [of v i "now env 1" "staff s"] first_row_Some [OF v] by (simp add: s1)
    then show ?thesis using that [OF v] first_row_Some [OF v] by blast
  qed
  let ?drop = "dropping (redis_ready env' 2) OPTION_LIST_KEYS"
  let ?rows = "set_where (\<lambda>u. su_id u = i) (\<lambda>u. u\<lparr>su_updatedAt := now env' 1\<rparr>) (staff s)"
  have "answer (restore_staff env' i) s1 =
      (Inr (toSystemUserDto (s1\<lparr>staff := ?rows\<rparr>) (restore_row (now env' 1) v)), with_cache ?drop (s1\<lparr>staff := ?rows\<rparr>), [])"
    using v by (simp add: answer_def restore_staff_def act_run assms(2) update_user_def Let_def rows [simplified] dropOptionCounts_def
        with_cache_def)
  moreover have "with_cache ?drop (s1\<lparr>staff := ?rows\<rparr>) = with_cache (\<lambda>c. ?drop (f c)) (s\<lparr>staff := ?rows\<rparr>)"
    by (simp add: s1 with_cache_def)
  ultimately show ?thesis by metis
qed

lemma delete_then_restore_witness:
  "\<exists>dto s1 f. answer (restore_staff calm_office_env ''boss'') s1 = (Inr dto,
     with_cache f (sample_office\<lparr>staff := set_where (\<lambda>u. su_id u = ''boss'') (\<lambda>u. u\<lparr>su_updatedAt := 1001\<rparr>) (staff sample_office)\<rparr>), [])"
proof -
  let ?call = "softDelete calm_office_env (acting ''root'' SUPER_ADMIN) ''boss''"
  obtain r s1 es where run: "answer ?call sample_office = (r, s1, es)" by (metis prod_cases3)
  have "\<not> isl (fst (answer ?call sample_office))" by code_simp
  then have r: "r = Inr ()" using run by (cases r) auto
  have "distinct (map su_id (staff sample_office))" by code_simp
  moreover have "now calm_office_env 1 = 1001" by code_simp
  ultimately show ?thesis
    using delete_then_restore [OF calm_undisturbed calm_undisturbed _ run [unfolded r]] by metis
qed

subsection \<open>The assignability check and a concurrent deletion\<close>

text \<open>Between the check and the insert another administrator deletes department 11.\<close>

definition retiring_env :: office_env where
  "retiring_env = calm_office_env\<lparr>others := \<lambda>k s. if k = 2 then leaves (softDelete_option calm_office_env Department 11) s else s\<rparr>"

definition clerk_dto :: create_user_dto where
  "clerk_dto = \<lparr>cu_email = ''c@x'', cu_firstName = ''C'', cu_lastName = ''D'', cu_role = None, cu_departmentId = 11,
     cu_personnelRoleId = 20, cu_phoneNumber = None, cu_profilePictureUrl = None\<rparr>"

text \<open>
  The check that an option may be assigned does not hold until the write: with a deletion of
  the option committing in between, the new account is stored on a deleted option, which no live
  account references otherwise.
\<close>

theorem assignability_race:
  "case answer (create_user retiring_env (acting ''root'' SUPER_ADMIN) clerk_dto) sample_office of
     (r, s, es) \<Rightarrow> \<not> isl r \<and>
       map (\<lambda>u. (su_id u, su_departmentId u)) (staff s) = [(''root'', 10), (''boss'', 10), (''adm'', 10), (''new'', 11)] \<and>
       map (\<lambda>d. (op_id d, op_deletedAt d = None)) (department_rows s) = [(10, True), (11, False)]"
  by code_simp

subsection \<open>Listing accounts\<close>

lemma pages_tile:
  assumes "0 < l"
  shows "concat (map (\<lambda>n. take l (drop ((n - 1) * l) xs)) [1..<Suc ((length xs + l - 1) div l)]) = xs"
proof -
  have upto: "concat (map (\<lambda>n. take l (drop ((n - 1) * l) xs)) [1..<Suc n]) = take (n * l) xs" for n
  proof (induction n)
    case (Suc n)
    then show ?case by (simp add: add.commute [of l] take_add)
  qed simp
  have "length xs \<le> (length xs + l - 1) div l * l"
    using assms div_mult_mod_eq [of "length xs + l - 1" l] mod_less_divisor [of l "length xs + l - 1"] by linarith
  then show ?thesis using upto by simp
qed

lemma status_sum: "count_where (staff_where env (q\<lparr>sq_status := None\<rparr>)) us =
    count_where (staff_where env (q\<lparr>sq_status := Some SS_ACTIVE\<rparr>)) us +
    count_where (staff_where env (q\<lparr>sq_status := Some SS_PENDING\<rparr>)) us +
    count_where (staff_where env (q\<lparr>sq_status := Some SS_SUSPENDED\<rparr>)) us"
  by (induction us) (auto simp: count_where_def staff_where_def statusFilter_def Let_def staff_term_def)

lemma status_badge: "statusFilter (Some st) u \<longleftrightarrow> st =
    (if su_deletedAt u \<noteq> None then SS_DELETED else if \<not> su_isActive u then SS_SUSPENDED
     else if su_mustChangePassword u then SS_PENDING else SS_ACTIVE)"
  by (cases st) (auto simp: statusFilter_def)

text \<open>
  The four status filters partition the accounts, the default list is the three live ones
  together, and the pages of a list, one after the other, are the whole list in order.
\<close>

theorem staff_lists_partition:
  assumes "0 < sq_limit q"
  shows "(\<exists>!st. statusFilter (Some st) u) \<and>
    sp_total (staff_page_of env (q\<lparr>sq_status := None\<rparr>) s) =
      sp_total (staff_page_of env (q\<lparr>sq_status := Some SS_ACTIVE\<rparr>) s) +
      sp_total (staff_page_of env (q\<lparr>sq_status := Some SS_PENDING\<rparr>) s) +
      sp_total (staff_page_of env (q\<lparr>sq_status := Some SS_SUSPENDED\<rparr>) s) \<and>
    concat (map (\<lambda>n. sp_data (staff_page_of env (q\<lparr>sq_page := n\<rparr>) s))
      [1..<Suc (sp_totalPages (staff_page_of env q s))]) =
      map (toSystemUserDto s) (js_sort (newest_first env) (filter (staff_where env q) (staff s)))"
proof (intro conjI)
  show "\<exists>!st. statusFilter (Some st) u" by (simp add: status_badge)
  show "sp_total (staff_page_of env (q\<lparr>sq_status := None\<rparr>) s) =
      sp_total (staff_page_of env (q\<lparr>sq_status := Some SS_ACTIVE\<rparr>) s) +
      sp_total (staff_page_of env (q\<lparr>sq_status := Some SS_PENDING\<rparr>) s) +
      sp_total (staff_page_of env (q\<lparr>sq_status := Some SS_SUSPENDED\<rparr>) s)"
    by (simp add: staff_page_of_def Let_def status_sum)
  let ?xs = "js_sort (newest_first env) (filter (staff_where env q) (staff s))"
  have same: "staff_where env (q\<lparr>sq_page := n\<rparr>) = staff_where env q" for n
    by (simp add: staff_where_def [abs_def] staff_term_def)
  have len: "length ?xs = count_where (staff_where env q) (staff s)"
    by (metis count_where_def mset_js_sort size_mset)
  let ?page = "\<lambda>n. take (sq_limit q) (drop ((n - 1) * sq_limit q) ?xs)"
  let ?L = "[1..<Suc (sp_totalPages (staff_page_of env q s))]"
  have "concat (map ?page ?L) = ?xs"
    using pages_tile [OF assms, of ?xs] len by (simp add: staff_page_of_def Let_def del: upt_Suc)
  moreover have "sp_data (staff_page_of env (q\<lparr>sq_page := n\<rparr>) s) = map (toSystemUserDto s) (?page n)" for n
    by (simp add: staff_page_of_def Let_def same)
  ultimately show "concat (map (\<lambda>n. sp_data (staff_page_of env (q\<lparr>sq_page := n\<rparr>) s)) ?L) = map (toSystemUserDto s) ?xs"
    using map_concat [of "toSystemUserDto s" "map ?page ?L"] by (simp add: comp_def del: upt_Suc)
qed

lemma staff_lists_partition_witness:
  "concat (map (\<lambda>n. sp_data (staff_page_of calm_office_env \<lparr>sq_page = n, sq_limit = 2, sq_search = None, sq_role = None, sq_status = None\<rparr> sample_office))
     [1..<Suc (sp_totalPages (staff_page_of calm_office_env \<lparr>sq_page = 1, sq_limit = 2, sq_search = None, sq_role = None, sq_status = None\<rparr> sample_office))]) =
   map (toSystemUserDto sample_office) (js_sort (newest_first calm_office_env)
     (filter (staff_where calm_office_env \<lparr>sq_page = 1, sq_limit = 2, sq_search = None, sq_role = None, sq_status = None\<rparr>) (staff sample_office)))"
  using staff_lists_partition [of "\<lparr>sq_page = 1, sq_limit = 2, sq_search = None, sq_role = None, sq_status = None\<rparr>"
    "account ''root'' SUPER_ADMIN 10" calm_office_env sample_office] by simp

end
