(* ===== verification/SerialProperties.thy ===== *)
theory SerialProperties
  imports OfficeSerialVenues OfficeProperties
begin

text \<open>What holds of the back office when its calls run one at a time and Redis is up.\<close>

lemma list_answer:
  assumes "serial_env env0 env" "serial env0 [] t" "(key, v) \<in> set (views env0)"
  shows "fst (answer (cache_aside env key v) t) = Inr (v t)"
proof -
  have ready: "undisturbed env" "redis_ready env 0" using assms(1) by (auto simp: serial_env_def)
  have "cache t key = None \<or> cache t key = Some (v t)"
    using assms(2) fresh_exceptD [OF _ assms(3)] by (auto simp: serial_def)
  then show ?thesis using ready
    by (auto simp: answer_def cache_aside_def act_run getJson_def setJson_def on_cache_def Let_def undisturbed_simps)
qed

text \<open>
  C14: after any calls that run one at a time, from a state whose cached lists are right, a list of
  options, of venue types or of amenities, served from the cache or not, is the list a fresh query
  of the tables gives, holder counts included.
\<close>

theorem lists_never_stale:
  assumes "serial_ok env0 s s" "list_all (\<lambda>x. serial_env env0 (fst x)) calls" "serial_env env0 env"
  shows "fst (answer (list_options env model r) (run_ops serve_office s calls)) =
      Inr (option_view env model r (run_ops serve_office s calls)) \<and>
    fst (answer (list_types env r) (run_ops serve_office s calls)) = Inr (type_view env r (run_ops serve_office s calls)) \<and>
    fst (answer (list_amenities env) (run_ops serve_office s calls)) = Inr (amenity_view env (run_ops serve_office s calls))"
proof -
  have "serial env0 [] (run_ops serve_office s calls)"
    using office_in_turn.run_inv [OF assms(1,2)] by (simp add: serial_ok_def)
  then show ?thesis unfolding list_options_def list_types_def list_amenities_def
    using list_answer [OF assms(3) _ in_views(1) [OF assms(3)]] list_answer [OF assms(3) _ in_views(2) [OF assms(3)]]
      list_answer [OF assms(3) _ in_views(3) [OF assms(3)]] by blast
qed

lemma sample_serial: "serial_ok calm_office_env sample_office sample_office"
proof -
  have "live_option (option_rows m sample_office) (user_option m u)" if "u \<in> set (staff sample_office)" for m u
    using that by (cases m) (auto simp: sample_office_def account_def live_option_def option_rows_def user_option_def option_at_def)
  then have "refs_ok sample_office"
    by (auto simp: refs_ok_def) (auto simp: sample_office_def room_at_def live_option_def option_at_def)
  moreover have "fresh_except calm_office_env {} sample_office" by (simp add: fresh_except_def sample_office_def)
  ultimately show ?thesis by (simp add: serial_ok_def serial_def sample_office_ok)
qed

lemma calm_serial: "serial_env calm_office_env calm_office_env"
  using calm_undisturbed by (simp add: serial_env_def) (simp add: calm_office_env_def)

definition busy_day :: "(office_env \<times> office_call) list" where
  "busy_day = [(calm_office_env, ListOptions Department False), (calm_office_env, CreateUser (acting ''root'' SUPER_ADMIN) clerk_dto),
     (calm_office_env, ListOptions Department True), (calm_office_env, DeleteOption Department 11),
     (calm_office_env, ListTypes True), (calm_office_env, DeleteType 30)]"

lemma busy_day_serial: "list_all (\<lambda>x. serial_env calm_office_env (fst x)) busy_day"
  by (simp add: busy_day_def calm_serial)

lemma lists_never_stale_witness:
  "fst (answer (list_options calm_office_env Department True) (run_ops serve_office sample_office busy_day)) =
     Inr (option_view calm_office_env Department True (run_ops serve_office sample_office busy_day))"
  using lists_never_stale [OF sample_serial busy_day_serial calm_serial] by blast

text \<open>
  C15: when the calls run one at a time, no stored reference dangles: the department and the
  personnel role of every account, deleted ones included, the category of every venue and every
  ticked amenity are live rows. The foreign keys alone do not give this, because options are only
  soft-deleted.
\<close>

theorem references_stay_live:
  assumes "serial_ok env0 s s" "list_all (\<lambda>x. serial_env env0 (fst x)) calls"
  defines "t \<equiv> run_ops serve_office s calls"
  shows "(\<forall>u \<in> set (staff t). (\<exists>r \<in> set (department_rows t). op_id r = su_departmentId u \<and> op_deletedAt r = None) \<and>
      (\<exists>r \<in> set (personnel_roles t). op_id r = su_personnelRoleId u \<and> op_deletedAt r = None)) \<and>
    (\<forall>v \<in> set (venue_rows t). \<exists>r \<in> set (type_rows t). op_id r = vn_venueTypeId v \<and> op_deletedAt r = None) \<and>
    (\<forall>(v, n) \<in> set (ticks t). \<exists>a \<in> set (amenity_rows t). ay_id a = n \<and> ay_deletedAt a = None)"
proof -
  have ok: "serial env0 [] t" using office_in_turn.run_inv [OF assms(1,2)] by (simp add: serial_ok_def t_def)
  show ?thesis
    using refs_staff [OF ok] serial_venue_rows [OF ok] serial_tick [OF ok]
    by (simp add: live_option_def live_amenity_def case_prod_beta) (metis prod.collapse)
qed

lemma references_stay_live_witness:
  "list_all (\<lambda>v. live_option (type_rows (run_ops serve_office sample_office busy_day)) (vn_venueTypeId v))
     (venue_rows (run_ops serve_office sample_office busy_day))"
  using references_stay_live [OF sample_serial busy_day_serial] by (simp add: list_all_iff live_option_def)

end
