(* ===== verification/LineCalls.thy ===== *)
theory LineCalls
  imports Tx BangkokTime "HOL-Library.Word"
begin

text \<open>
  Calls to the LINE Messaging API: the classification of failures
  (\<open>src/src/line/line-call-error.ts\<close>), the retry key of a request
  (\<open>src/src/line/line-retry-key.ts\<close>) and \<open>multicast\<close> and \<open>getBotInfo\<close> of
  \<open>src/src/line/line.service.ts\<close>. What LINE answers, the clock and SHA-1 are parameters.
\<close>

unbundle bit_operations_syntax

subsection \<open>Failures\<close>

datatype line_error_kind = NOT_CONFIGURED | RATE_LIMITED | ALREADY_ACCEPTED | TRANSIENT | LINE_REJECTED

record line_call_error =
  lc_kind :: line_error_kind
  lc_status :: "int option"

text \<open>What a call of the SDK can reject with: an error classified already, an answer of LINE with
  its status, or anything else (a network error, a body that does not parse).\<close>

datatype line_failure = LineCallError line_call_error | HTTPFetchError int | OtherRejection

definition classifyLineError :: "line_failure \<Rightarrow> line_call_error" where
  "classifyLineError err = (case err of
       LineCallError e \<Rightarrow> e
     | HTTPFetchError status \<Rightarrow>
         if status = 401 \<or> status = 403 then \<lparr>lc_kind = NOT_CONFIGURED, lc_status = Some status\<rparr>
         else if status = 429 then \<lparr>lc_kind = RATE_LIMITED, lc_status = Some status\<rparr>
         else if status = 409 then \<lparr>lc_kind = ALREADY_ACCEPTED, lc_status = Some status\<rparr>
         else if status \<ge> 500 then \<lparr>lc_kind = TRANSIENT, lc_status = Some status\<rparr>
         else \<lparr>lc_kind = LINE_REJECTED, lc_status = Some status\<rparr>
     | OtherRejection \<Rightarrow> \<lparr>lc_kind = TRANSIENT, lc_status = None\<rparr>)"

text \<open>A promise is when it settles, in milliseconds from its start, and how.\<close>

type_synonym 'a promise = "int \<times> (line_failure + 'a)"

definition withTimeout :: "'a promise \<Rightarrow> int \<Rightarrow> line_failure + 'a" where
  "withTimeout p ms = (if fst p < ms then snd p
     else Inl (LineCallError \<lparr>lc_kind = TRANSIENT, lc_status = None\<rparr>))"

subsection \<open>Retry keys\<close>

type_synonym byte = "8 word"

definition hex_digit :: "nat \<Rightarrow> char" where
  "hex_digit n = ''0123456789abcdef'' ! n"

definition hex_byte :: "byte \<Rightarrow> string" where
  "hex_byte b = [hex_digit (unat (drop_bit 4 b)), hex_digit (unat (b AND 15))]"

definition hex_value :: "char \<Rightarrow> byte" where
  "hex_value c = (let n = of_char c :: nat in of_nat (if n < 58 then n - 48 else n - 87))"

fun bytes_of_hex :: "string \<Rightarrow> byte list" where
  "bytes_of_hex (a # b # s) = (push_bit 4 (hex_value a) OR hex_value b) # bytes_of_hex s"
| "bytes_of_hex s = []"

definition LINE_RETRY_KEY_NAMESPACE :: string where
  "LINE_RETRY_KEY_NAMESPACE = ''3f6c2a4e-8b1d-4c7a-9e05-6d2b7f1a9c34''"

definition version_5 :: "byte list \<Rightarrow> byte list" where
  "version_5 b = b[6 := (b ! 6 AND 0x0f) OR 0x50]"

definition rfc_variant :: "byte list \<Rightarrow> byte list" where
  "rfc_variant b = b[8 := (b ! 8 AND 0x3f) OR 0x80]"

definition js_slice :: "nat \<Rightarrow> nat \<Rightarrow> 'a list \<Rightarrow> 'a list" where
  "js_slice i j s = take (j - i) (drop i s)"

definition uuidV5 :: "(byte list \<Rightarrow> byte list) \<Rightarrow> string \<Rightarrow> string \<Rightarrow> string" where
  "uuidV5 sha1 namespace name =
     (let b = js_slice 0 16 (sha1 (bytes_of_hex (filter (\<lambda>c. c \<noteq> CHR ''-'') namespace) @ map of_char name));
          h = concat (map hex_byte (rfc_variant (version_5 b)))
      in js_slice 0 8 h @ ''-'' @ js_slice 8 12 h @ ''-'' @ js_slice 12 16 h @ ''-'' @
         js_slice 16 20 h @ ''-'' @ drop 20 h)"

text \<open>The ids are ASCII, so sorting the bytes is sorting the UTF-16 units.\<close>

definition retry_name :: "string \<Rightarrow> string list \<Rightarrow> string" where
  "retry_name seed chunk = seed @ ''|'' @ js_join '','' (sort chunk)"

definition lineRetryKey :: "(byte list \<Rightarrow> byte list) \<Rightarrow> string \<Rightarrow> string list \<Rightarrow> string" where
  "lineRetryKey sha1 seed chunk = uuidV5 sha1 LINE_RETRY_KEY_NAMESPACE (retry_name seed chunk)"

text \<open>\<open>LINE_USER_ID_PATTERN\<close>.\<close>

definition lower_hex :: "char \<Rightarrow> bool" where
  "lower_hex c \<longleftrightarrow> c \<in> set ''0123456789abcdef''"

definition LINE_USER_ID_PATTERN :: "string \<Rightarrow> bool" where
  "LINE_USER_ID_PATTERN s = (case s of [] \<Rightarrow> False
     | c # cs \<Rightarrow> c = CHR ''U'' \<and> length cs = 32 \<and> list_all lower_hex cs)"

subsection \<open>The Messaging client\<close>

datatype chat_mode = ChatModeChat | ChatModeBot
datatype read_mode = ReadAuto | ReadManual

record bot_info =
  bi_basicId :: string
  bi_displayName :: string
  bi_pictureUrl :: "string option"
  bi_chatMode :: chat_mode
  bi_markAsReadMode :: read_mode

text \<open>
  The client: whether there is one, the readings of \<open>Date.now()\<close> during a multicast (chunk \<open>i\<close>,
  reading \<open>0\<close> before the chunk, \<open>a\<close> before its attempt \<open>a\<close>, \<open>3\<close> after it), the answer to the
  attempt \<open>a\<close> on chunk \<open>i\<close>, and SHA-1.
\<close>

record line_env =
  has_client :: bool
  line_clock :: "nat \<Rightarrow> nat \<Rightarrow> time"
  line_answer :: "nat \<Rightarrow> nat \<Rightarrow> unit promise"
  sha_1 :: "byte list \<Rightarrow> byte list"
  bot_answer :: "bot_info promise"

datatype reported = NotReported | ReportedError line_failure | DeadlineExceeded

text \<open>What leaves the process: the requests to LINE, the reports to the incident recorder and the
  notification trigger for a failed delivery.\<close>

datatype line_event =
    MulticastRequest "string list" "json list" string
  | IncidentReport reported nat int
  | LineDeliveryFailed line_error_kind "int option"

record multicast_failure =
  mf_chunkIndex :: nat
  mf_kind :: line_error_kind
  mf_status :: "int option"

record multicast_outcome =
  mo_targetedCount :: nat
  mo_acceptedCount :: nat
  mo_requestCount :: nat
  mo_failure :: "multicast_failure option"

definition LINE_MULTICAST_MAX_RECIPIENTS :: nat where
  "LINE_MULTICAST_MAX_RECIPIENTS = 500"

definition LINE_MULTICAST_MAX_MESSAGES :: nat where
  "LINE_MULTICAST_MAX_MESSAGES = 5"

definition LINE_CALL_TIMEOUT_MS :: int where
  "LINE_CALL_TIMEOUT_MS = 15000"

definition LINE_BOT_INFO_TIMEOUT_MS :: int where
  "LINE_BOT_INFO_TIMEOUT_MS = 5000"

subsection \<open>Multicast\<close>

text \<open>The attempts on one chunk: how it ended, the requests made, the last attempt and its error.\<close>

record chunk_run =
  cr_failure :: "multicast_failure option"
  cr_requests :: nat
  cr_lastAttempt :: nat
  cr_lastError :: "line_failure option"

definition past_deadline :: "line_env \<Rightarrow> time option \<Rightarrow> nat \<Rightarrow> nat \<Rightarrow> bool" where
  "past_deadline env deadlineAt i attempt =
     (case deadlineAt of None \<Rightarrow> False | Some t \<Rightarrow> line_clock env i attempt \<ge> t)"

function run_attempts ::
  "line_env \<Rightarrow> time option \<Rightarrow> nat \<Rightarrow> nat \<Rightarrow> nat \<Rightarrow> line_failure option \<Rightarrow> chunk_run"
where
  "run_attempts env deadlineAt i attempt lastAttempt lastError =
     (if past_deadline env deadlineAt i attempt then
        \<lparr>cr_failure = Some \<lparr>mf_chunkIndex = i, mf_kind = TRANSIENT, mf_status = None\<rparr>,
         cr_requests = 0, cr_lastAttempt = lastAttempt, cr_lastError = lastError\<rparr>
      else (case withTimeout (line_answer env i attempt) LINE_CALL_TIMEOUT_MS of
          Inr _ \<Rightarrow> \<lparr>cr_failure = None, cr_requests = 1, cr_lastAttempt = attempt, cr_lastError = lastError\<rparr>
        | Inl err \<Rightarrow>
            (let e = classifyLineError err in
             if lc_kind e = ALREADY_ACCEPTED then
               \<lparr>cr_failure = None, cr_requests = 1, cr_lastAttempt = attempt, cr_lastError = Some err\<rparr>
             else if lc_kind e = TRANSIENT \<and> attempt < 2 then
               (let r = run_attempts env deadlineAt i (attempt + 1) attempt (Some err)
                in r\<lparr>cr_requests := cr_requests r + 1\<rparr>)
             else \<lparr>cr_failure = Some \<lparr>mf_chunkIndex = i, mf_kind = lc_kind e, mf_status = lc_status e\<rparr>,
                   cr_requests = 1, cr_lastAttempt = attempt, cr_lastError = Some err\<rparr>)))"
  by pat_completeness auto
termination by (relation "measure (\<lambda>(_, _, _, attempt, _, _). 2 - attempt)") auto

declare run_attempts.simps [simp del]

definition chunk_report :: "line_env \<Rightarrow> nat \<Rightarrow> chunk_run \<Rightarrow> line_event" where
  "chunk_report env i r =
     IncidentReport
       (case cr_failure r of None \<Rightarrow> NotReported
        | Some _ \<Rightarrow> (case cr_lastError r of None \<Rightarrow> DeadlineExceeded | Some e \<Rightarrow> ReportedError e))
       (cr_lastAttempt r) (line_clock env i 3 - line_clock env i 0)"

fun send_chunks ::
  "line_env \<Rightarrow> json list \<Rightarrow> string \<Rightarrow> time option \<Rightarrow> nat \<Rightarrow> string list list \<Rightarrow>
   multicast_outcome \<Rightarrow> multicast_outcome \<times> line_event list"
where
  "send_chunks env messages seed deadlineAt i [] outcome = (outcome, [])"
| "send_chunks env messages seed deadlineAt i (chunk # rest) outcome =
     (let key = lineRetryKey (sha_1 env) seed chunk;
          r = run_attempts env deadlineAt i 1 0 None;
          events = replicate (cr_requests r) (MulticastRequest chunk messages key) @ [chunk_report env i r];
          counted = outcome\<lparr>mo_requestCount := mo_requestCount outcome + cr_requests r\<rparr>
      in case cr_failure r of
          Some f \<Rightarrow> (counted\<lparr>mo_failure := Some f\<rparr>, events)
        | None \<Rightarrow>
            (let (final, later) = send_chunks env messages seed deadlineAt (i + 1) rest
               (counted\<lparr>mo_acceptedCount := mo_acceptedCount counted + length chunk\<rparr>)
             in (final, events @ later)))"

definition delivery_trigger :: "multicast_outcome \<Rightarrow> line_event list" where
  "delivery_trigger outcome = (case mo_failure outcome of None \<Rightarrow> []
     | Some f \<Rightarrow> [LineDeliveryFailed (mf_kind f) (mf_status f)])"

definition multicast_run ::
  "line_env \<Rightarrow> string list \<Rightarrow> json list \<Rightarrow> string \<Rightarrow> time option \<Rightarrow> multicast_outcome \<times> line_event list"
where
  "multicast_run env to messages seed deadlineAt =
     (let ids = js_set to;
          outcome = \<lparr>mo_targetedCount = length ids, mo_acceptedCount = 0, mo_requestCount = 0, mo_failure = None\<rparr>
      in if ids = [] then (outcome, [])
         else if \<not> has_client env then
           (let failed = outcome\<lparr>mo_failure := Some \<lparr>mf_chunkIndex = 0, mf_kind = NOT_CONFIGURED, mf_status = None\<rparr>\<rparr>
            in (failed, delivery_trigger failed))
         else
           (let (final, events) = send_chunks env messages seed deadlineAt 0
              (chunks (LINE_MULTICAST_MAX_RECIPIENTS - 1) ids) outcome
            in (final, events @ delivery_trigger final)))"

definition plain_error :: "string \<Rightarrow> js_error" where
  "plain_error text = JsError False None None (Some text) NoTarget None None None None"

definition multicast ::
  "line_env \<Rightarrow> string list \<Rightarrow> json list \<Rightarrow> string \<Rightarrow> time option \<Rightarrow> ('s, line_event, 'm, multicast_outcome) act"
where
  "multicast env to messages seed deadlineAt =
     (if length messages < 1 \<or> length messages > LINE_MULTICAST_MAX_MESSAGES then
        stop_with (Thrown (plain_error (''multicast takes 1-5 messages, got '' @ show_nat (length messages) @ ''.'')))
      else (case multicast_run env to messages seed deadlineAt of
          (outcome, events) \<Rightarrow> andThen (tell events) (\<lambda>_. done_with outcome)))"

text \<open>\<open>getBotInfo\<close>: \<open>requireClient\<close> rejects when there is none.\<close>

definition getBotInfo :: "line_env \<Rightarrow> line_call_error + bot_info" where
  "getBotInfo env =
     (if \<not> has_client env then Inl (classifyLineError (LineCallError \<lparr>lc_kind = NOT_CONFIGURED, lc_status = None\<rparr>))
      else (case withTimeout (bot_answer env) LINE_BOT_INFO_TIMEOUT_MS of
          Inl err \<Rightarrow> Inl (classifyLineError err) | Inr info \<Rightarrow> Inr info))"

end
