(* ===== verification/AnnouncementCards.thy ===== *)
theory AnnouncementCards
  imports JsText
begin

text \<open>
  The two messages an announcement is sent as (\<open>src/src/line/announcement-card.ts\<close>) with
  \<open>toAltText\<close> and the palette of \<open>src/src/line/notification-cards.ts\<close>. A message is a JSON value.
  Strings are UTF-8; JavaScript's \<open>length\<close> and \<open>slice\<close> count UTF-16 units, of which a character
  of four bytes has two. The last part proves that \<open>toAltText\<close> gives one line of at most 400 UTF-16
  units: no white space but single spaces, none at the ends, no bullets; and that it leaves such a
  text alone.
\<close>

subsection \<open>Characters\<close>

definition utf8_width :: "char \<Rightarrow> nat" where
  "utf8_width c = (let n = of_char c :: nat in if n < 0xC0 then 1 else if n < 0xE0 then 2 else if n < 0xF0 then 3 else 4)"

function utf8_chars :: "string \<Rightarrow> string list" where
  "utf8_chars [] = []"
| "utf8_chars (c # cs) = (c # take (utf8_width c - 1) cs) # utf8_chars (drop (utf8_width c - 1) cs)"
  by pat_completeness auto
termination by (relation "measure length") auto

definition utf16_units :: "string \<Rightarrow> nat" where
  "utf16_units ch = (if length ch = 4 then 2 else 1)"

definition units_of :: "string list \<Rightarrow> nat" where
  "units_of cs = sum_list (map utf16_units cs)"

text \<open>\<open>s.length\<close>.\<close>

definition js_length :: "string \<Rightarrow> nat" where
  "js_length s = units_of (utf8_chars s)"

subsection \<open>toAltText\<close>

definition BULLET :: string where
  "BULLET = [CHR 0xE2, CHR 0x80, CHR 0xA2]"

definition ELLIPSIS :: string where
  "ELLIPSIS = [CHR 0xE2, CHR 0x80, CHR 0xA6]"

definition ALT_TEXT_MAX_CHARS :: nat where
  "ALT_TEXT_MAX_CHARS = 400"

definition is_space :: "string \<Rightarrow> bool" where
  "is_space ch \<longleftrightarrow> ch \<in> set js_space"

definition is_blank :: "string \<Rightarrow> bool" where
  "is_blank ch \<longleftrightarrow> ch = BULLET \<or> is_space ch"

text \<open>Each run of bullets and white space becomes one space; the flag says the last one was in a run.\<close>

fun flatten_blanks :: "bool \<Rightarrow> string list \<Rightarrow> string list" where
  "flatten_blanks in_run [] = []"
| "flatten_blanks in_run (ch # cs) =
     (if is_blank ch then (if in_run then [] else ['' '']) @ flatten_blanks True cs
      else ch # flatten_blanks False cs)"

definition trim_end_chars :: "string list \<Rightarrow> string list" where
  "trim_end_chars cs = rev (dropWhile is_space (rev cs))"

definition trim_chars :: "string list \<Rightarrow> string list" where
  "trim_chars cs = trim_end_chars (dropWhile is_space cs)"

text \<open>\<open>slice(0, n)\<close> without the half of a surrogate pair it may end in.\<close>

fun take_units :: "nat \<Rightarrow> string list \<Rightarrow> string list" where
  "take_units n [] = []"
| "take_units n (ch # cs) =
     (if utf16_units ch \<le> n then ch # take_units (n - utf16_units ch) cs else [])"

definition flat_chars :: "string \<Rightarrow> string list" where
  "flat_chars raw = trim_chars (flatten_blanks False (utf8_chars raw))"

definition toAltText :: "string \<Rightarrow> string" where
  "toAltText raw =
     (let flat = flat_chars raw in
      if units_of flat \<le> ALT_TEXT_MAX_CHARS then concat flat
      else concat (trim_end_chars (take_units (ALT_TEXT_MAX_CHARS - js_length ELLIPSIS) flat)) @ ELLIPSIS)"

subsection \<open>The messages\<close>

definition INK :: string where "INK = ''#0f172a''"
definition INK_SOFT :: string where "INK_SOFT = ''#475569''"
definition LINE_SOFT :: string where "LINE_SOFT = ''#e2e8f0''"

text \<open>\<open>TONE.SUCCESS\<close>.\<close>

definition SUCCESS_FILL :: string where "SUCCESS_FILL = ''#047857''"
definition SUCCESS_INK :: string where "SUCCESS_INK = ''#ffffff''"

definition ANNOUNCEMENT_CARD_HEADER :: string where
  "ANNOUNCEMENT_CARD_HEADER = [CHR 0xE0, CHR 0xB8, CHR 0x9B, CHR 0xE0, CHR 0xB8, CHR 0xA3, CHR 0xE0, CHR 0xB8, CHR 0xB0,
      CHR 0xE0, CHR 0xB8, CHR 0x81, CHR 0xE0, CHR 0xB8, CHR 0xB2, CHR 0xE0, CHR 0xB8, CHR
      0xA8, CHR 0xE0, CHR 0xB8, CHR 0x88, CHR 0xE0, CHR 0xB8, CHR 0xB2, CHR 0xE0, CHR 0xB8,
      CHR 0x81, CHR 0x20, CHR 0x45, CHR 0x61, CHR 0x73, CHR 0x79, CHR 0x42, CHR 0x6F, CHR
      0x6F, CHR 0x6B]"

definition ANNOUNCEMENT_ALT_PREFIX :: string where
  "ANNOUNCEMENT_ALT_PREFIX = [CHR 0xE0, CHR 0xB8, CHR 0x9B, CHR 0xE0, CHR 0xB8, CHR 0xA3, CHR 0xE0, CHR 0xB8, CHR 0xB0,
      CHR 0xE0, CHR 0xB8, CHR 0x81, CHR 0xE0, CHR 0xB8, CHR 0xB2, CHR 0xE0, CHR 0xB8, CHR
      0xA8, CHR 0x3A, CHR 0x20]"

definition buildAnnouncementText :: "string \<Rightarrow> string \<Rightarrow> json" where
  "buildAnnouncementText title body =
     JObject [(''type'', JString ''text''), (''text'', JString (title @ [CHR 0x0A, CHR 0x0A] @ body))]"

definition buildAnnouncementCard :: "string \<Rightarrow> string \<Rightarrow> string \<Rightarrow> json" where
  "buildAnnouncementCard title body sentAtText =
     JObject
       [(''type'', JString ''flex''),
        (''altText'', JString (toAltText (ANNOUNCEMENT_ALT_PREFIX @ title))),
        (''contents'', JObject
          [(''type'', JString ''bubble''),
           (''header'', JObject
             [(''type'', JString ''box''), (''layout'', JString ''vertical''),
              (''backgroundColor'', JString SUCCESS_FILL), (''paddingAll'', JString ''12px''),
              (''contents'', JArray
                [JObject
                  [(''type'', JString ''text''), (''text'', JString ANNOUNCEMENT_CARD_HEADER),
                   (''size'', JString ''sm''), (''weight'', JString ''bold''),
                   (''color'', JString SUCCESS_INK), (''wrap'', JBool True)]])]),
           (''body'', JObject
             [(''type'', JString ''box''), (''layout'', JString ''vertical''),
              (''paddingAll'', JString ''16px''), (''spacing'', JString ''md''),
              (''contents'', JArray
                [JObject
                  [(''type'', JString ''text''), (''text'', JString title), (''size'', JString ''lg''),
                   (''weight'', JString ''bold''), (''color'', JString INK), (''wrap'', JBool True)],
                 JObject
                  [(''type'', JString ''text''), (''text'', JString body), (''size'', JString ''sm''),
                   (''color'', JString INK), (''wrap'', JBool True), (''lineSpacing'', JString ''6px'')]])]),
           (''footer'', JObject
             [(''type'', JString ''box''), (''layout'', JString ''horizontal''),
              (''paddingAll'', JString ''12px''),
              (''contents'', JArray
                [JObject
                  [(''type'', JString ''text''), (''text'', JString sentAtText), (''size'', JString ''xs''),
                   (''color'', JString INK_SOFT), (''flex'', JNumber 1), (''wrap'', JBool True)],
                 JObject
                  [(''type'', JString ''text''), (''text'', JString ''EasyBook''), (''size'', JString ''xs''),
                   (''weight'', JString ''bold''), (''color'', JString SUCCESS_FILL),
                   (''align'', JString ''end''), (''flex'', JNumber 0)]])]),
           (''styles'', JObject
             [(''footer'', JObject
               [(''separator'', JBool True), (''separatorColor'', JString LINE_SOFT)])])])]"

subsection \<open>Lengths\<close>

definition continuation :: "char \<Rightarrow> bool" where
  "continuation c \<longleftrightarrow> (let n = of_char c :: nat in 0x80 \<le> n \<and> n < 0xC0)"

definition whole_char :: "string \<Rightarrow> bool" where
  "whole_char ch \<longleftrightarrow> (case ch of [] \<Rightarrow> False
     | c # cs \<Rightarrow> length ch = utf8_width c \<and> \<not> continuation c \<and> list_all continuation cs)"

text \<open>Every character of the text is a lead byte with its continuation bytes.\<close>

definition valid_utf8 :: "string \<Rightarrow> bool" where
  "valid_utf8 s \<longleftrightarrow> list_all whole_char (utf8_chars s)"

lemma concat_utf8_chars [simp]: "concat (utf8_chars s) = s"
  by (induction s rule: utf8_chars.induct) auto

lemma utf8_chars_append: "whole_char ch \<Longrightarrow> utf8_chars (ch @ s) = ch # utf8_chars s"
  by (cases ch) (auto simp: whole_char_def utf8_width_def Let_def)

lemma utf8_chars_concat: "list_all whole_char cs \<Longrightarrow> utf8_chars (concat cs) = cs"
  by (induction cs) (auto simp: utf8_chars_append)

lemma units_of_simps [simp]:
  "units_of [] = 0" "units_of (c # cs) = utf16_units c + units_of cs" "units_of (cs @ ds) = units_of cs + units_of ds"
  by (simp_all add: units_of_def)

lemma js_length_concat: "list_all whole_char cs \<Longrightarrow> js_length (concat cs) = units_of cs"
  by (simp add: js_length_def utf8_chars_concat)

lemma units_take_units: "units_of (take_units n cs) \<le> n"
  by (induction n cs rule: take_units.induct) auto

lemma set_take_units: "set (take_units n cs) \<subseteq> set cs"
  by (induction n cs rule: take_units.induct) auto

lemma trim_end_chars_split: "\<exists>ws. cs = trim_end_chars cs @ ws \<and> list_all is_space ws"
proof -
  have "rev cs = takeWhile is_space (rev cs) @ dropWhile is_space (rev cs)" by simp
  then have "cs = rev (dropWhile is_space (rev cs)) @ rev (takeWhile is_space (rev cs))"
    by (metis rev_append rev_rev_ident)
  moreover have "list_all is_space (rev (takeWhile is_space (rev cs)))" by (auto simp: list_all_iff dest: set_takeWhileD)
  ultimately show ?thesis unfolding trim_end_chars_def by blast
qed

lemma units_trim_end_chars: "units_of (trim_end_chars cs) \<le> units_of cs"
  using trim_end_chars_split [of cs] by (metis le_add1 units_of_simps(3))

lemma set_trim_end_chars: "set (trim_end_chars cs) \<subseteq> set cs"
  by (auto simp: trim_end_chars_def dest: set_dropWhileD)


text \<open>The only blanks are single spaces; the flag says one stands right before.\<close>

fun spaced :: "bool \<Rightarrow> string list \<Rightarrow> bool" where
  "spaced r [] = True"
| "spaced r (ch # cs) = (if is_blank ch then ch = '' '' \<and> \<not> r \<and> spaced True cs else spaced False cs)"

definition trimmed :: "string list \<Rightarrow> bool" where
  "trimmed cs \<longleftrightarrow> cs = [] \<or> \<not> is_space (hd cs) \<and> \<not> is_space (last cs)"

lemma blank_space [simp]: "is_blank '' ''" "is_space '' ''"
  by (simp_all add: is_blank_def is_space_def js_space_def)

lemma ellipsis_facts [simp]: "\<not> is_blank ELLIPSIS" "\<not> is_space ELLIPSIS" "whole_char ELLIPSIS" "js_length ELLIPSIS = 1"
  "utf16_units ELLIPSIS = 1"
  by (code_simp)+

lemma spaced_flatten: "spaced r (flatten_blanks r cs)"
  by (induction r cs rule: flatten_blanks.induct) auto

lemma flatten_spaced: "spaced r cs \<Longrightarrow> flatten_blanks r cs = cs"
  by (induction r cs rule: spaced.induct) (auto split: if_splits)

lemma spaced_prefix: "spaced r (us @ vs) \<Longrightarrow> spaced r us"
  by (induction r us rule: spaced.induct) (auto split: if_splits)

lemma spaced_append: "spaced r us \<Longrightarrow> \<not> is_blank e \<Longrightarrow> spaced r (us @ [e])"
  by (induction r us rule: spaced.induct) (auto split: if_splits)

lemma spaced_weaken: "spaced r cs \<Longrightarrow> spaced False cs"
  by (cases cs) (auto split: if_splits)

lemma spaced_dropWhile: "spaced r cs \<Longrightarrow> spaced False (dropWhile is_space cs)"
proof (induction r cs rule: spaced.induct)
  case (2 r ch cs)
  then show ?case using spaced_weaken [of r "ch # cs"] by (auto simp: is_blank_def split: if_splits)
qed simp

lemma trim_end_prefix: "\<exists>ws. cs = trim_end_chars cs @ ws"
  using trim_end_chars_split by blast

lemma take_units_prefix: "\<exists>ws. cs = take_units n cs @ ws"
  by (induction n cs rule: take_units.induct) auto

lemma trim_end_last: "trim_end_chars cs \<noteq> [] \<Longrightarrow> \<not> is_space (last (trim_end_chars cs))"
  by (simp add: trim_end_chars_def last_rev hd_dropWhile)

lemma prefix_hd: "cs = us @ ws \<Longrightarrow> us \<noteq> [] \<Longrightarrow> hd us = hd cs"
  by simp

lemma trimmed_trim: "trimmed (trim_chars cs)"
proof -
  let ?d = "dropWhile is_space cs"
  have "\<not> is_space (hd (trim_end_chars ?d))" if ne: "trim_end_chars ?d \<noteq> []"
  proof -
    obtain ws where ws: "?d = trim_end_chars ?d @ ws" using trim_end_prefix by blast
    then have "?d \<noteq> []" using ne by (metis Nil_is_append_conv)
    then show ?thesis using prefix_hd [OF ws ne] hd_dropWhile [of is_space cs] by metis
  qed
  then show ?thesis using trim_end_last [of ?d] by (auto simp: trimmed_def trim_chars_def)
qed

lemma dropWhile_id: "xs = [] \<or> \<not> P (hd xs) \<Longrightarrow> dropWhile P xs = xs"
  by (cases xs) auto

lemma trim_trimmed: "trimmed cs \<Longrightarrow> trim_chars cs = cs"
  using dropWhile_id [of cs is_space] dropWhile_id [of "rev cs" is_space]
  by (auto simp: trimmed_def trim_chars_def trim_end_chars_def hd_rev)

subsection \<open>The flattened text\<close>

lemma spaced_flat: "spaced False (flat_chars raw)"
proof -
  let ?f = "flatten_blanks False (utf8_chars raw)"
  have "spaced False (dropWhile is_space ?f)" by (rule spaced_dropWhile [OF spaced_flatten])
  then show ?thesis
    using trim_end_prefix [of "dropWhile is_space ?f"] spaced_prefix unfolding flat_chars_def trim_chars_def by metis
qed

lemma trimmed_flat: "trimmed (flat_chars raw)"
  by (simp add: flat_chars_def trimmed_trim)

lemma whole_flatten: "list_all whole_char cs \<Longrightarrow> list_all whole_char (flatten_blanks r cs)"
  by (induction r cs rule: flatten_blanks.induct) (auto simp: whole_char_def utf8_width_def continuation_def)

lemma whole_sub: "list_all whole_char cs \<Longrightarrow> set ds \<subseteq> set cs \<Longrightarrow> list_all whole_char ds"
  by (auto simp: list_all_iff)

lemma whole_flat: "valid_utf8 raw \<Longrightarrow> list_all whole_char (flat_chars raw)"
  unfolding valid_utf8_def flat_chars_def trim_chars_def
  by (erule whole_flatten [THEN whole_sub]) (auto dest!: set_trim_end_chars [THEN subsetD] dest: set_dropWhileD)

text \<open>The characters of the answer.\<close>

definition alt_chars :: "string \<Rightarrow> string list" where
  "alt_chars raw = (if units_of (flat_chars raw) \<le> ALT_TEXT_MAX_CHARS then flat_chars raw
     else trim_end_chars (take_units (ALT_TEXT_MAX_CHARS - 1) (flat_chars raw)) @ [ELLIPSIS])"

lemma whole_alt: "valid_utf8 raw \<Longrightarrow> list_all whole_char (alt_chars raw)"
  using whole_flat [of raw] set_trim_end_chars [of "take_units (ALT_TEXT_MAX_CHARS - 1) (flat_chars raw)"]
    set_take_units [of "ALT_TEXT_MAX_CHARS - 1" "flat_chars raw"]
  by (auto simp: alt_chars_def list_all_iff)

lemma toAltText_concat: "toAltText raw = concat (alt_chars raw)"
  by (simp add: toAltText_def alt_chars_def Let_def)

lemma chars_toAltText: "valid_utf8 raw \<Longrightarrow> utf8_chars (toAltText raw) = alt_chars raw"
  unfolding toAltText_concat by (rule utf8_chars_concat [OF whole_alt])

lemma units_alt: "units_of (alt_chars raw) \<le> ALT_TEXT_MAX_CHARS"
proof -
  have "units_of (trim_end_chars (take_units 399 (flat_chars raw))) \<le> 399"
    using units_trim_end_chars units_take_units by (rule order_trans)
  then show ?thesis by (auto simp: alt_chars_def ALT_TEXT_MAX_CHARS_def)
qed

lemma spaced_alt: "spaced False (alt_chars raw)"
proof -
  have "spaced False (trim_end_chars (take_units n (flat_chars raw)))" for n
    using spaced_flat [of raw] take_units_prefix [of "flat_chars raw" n] trim_end_prefix [of "take_units n (flat_chars raw)"]
    by (metis spaced_prefix)
  then show ?thesis by (simp add: alt_chars_def spaced_flat spaced_append)
qed

lemma trimmed_alt: "trimmed (alt_chars raw)"
proof -
  have "\<not> is_space (hd (trim_end_chars (take_units n (flat_chars raw))))"
    if ne: "trim_end_chars (take_units n (flat_chars raw)) \<noteq> []" for n
  proof -
    obtain us vs where *: "flat_chars raw = take_units n (flat_chars raw) @ us"
      "take_units n (flat_chars raw) = trim_end_chars (take_units n (flat_chars raw)) @ vs"
      using take_units_prefix trim_end_prefix by metis
    then have "flat_chars raw = trim_end_chars (take_units n (flat_chars raw)) @ (vs @ us)" by (metis append_assoc)
    from prefix_hd [OF this ne] this ne trimmed_flat [of raw] show ?thesis by (auto simp: trimmed_def)
  qed
  then show ?thesis using trimmed_flat [of raw] by (auto simp: alt_chars_def trimmed_def hd_append)
qed

lemma spaced_blanks: "spaced r cs \<Longrightarrow> list_all (\<lambda>ch. is_blank ch \<longrightarrow> ch = '' '') cs"
  by (induction r cs rule: spaced.induct) (auto split: if_splits)

text \<open>The alternative text of a card fits LINE's limit, is one line without bullets, and a
  text that is so already stays as it is.\<close>

theorem alt_text_fits:
  assumes "valid_utf8 raw"
  shows "js_length (toAltText raw) \<le> 400 \<and>
    list_all (\<lambda>ch. is_blank ch \<longrightarrow> ch = '' '') (utf8_chars (toAltText raw)) \<and>
    toAltText (toAltText raw) = toAltText raw"
proof (intro conjI)
  have chars: "utf8_chars (toAltText raw) = alt_chars raw" by (rule chars_toAltText [OF assms])
  then show "js_length (toAltText raw) \<le> 400"
    using units_alt [of raw] by (simp add: js_length_def ALT_TEXT_MAX_CHARS_def)
  show "list_all (\<lambda>ch. is_blank ch \<longrightarrow> ch = '' '') (utf8_chars (toAltText raw))"
    unfolding chars by (rule spaced_blanks [OF spaced_alt])
  have "flat_chars (toAltText raw) = alt_chars raw"
    unfolding flat_chars_def chars by (simp add: flatten_spaced [OF spaced_alt] trim_trimmed [OF trimmed_alt])
  then show "toAltText (toAltText raw) = toAltText raw"
    using units_alt [of raw] chars concat_utf8_chars [of "toAltText raw"] by (simp add: toAltText_def [of "toAltText raw"])
qed

lemma alt_text_fits_witness:
  "js_length (toAltText (ANNOUNCEMENT_ALT_PREFIX @ ''a'' @ [CHR 0x0A] @ BULLET @ ''b'')) \<le> 400 \<and>
   toAltText (ANNOUNCEMENT_ALT_PREFIX @ ''a'' @ [CHR 0x0A] @ BULLET @ ''b'') = ANNOUNCEMENT_ALT_PREFIX @ ''a b''"
proof
  have "valid_utf8 (ANNOUNCEMENT_ALT_PREFIX @ ''a'' @ [CHR 0x0A] @ BULLET @ ''b'')" by code_simp
  then show "js_length (toAltText (ANNOUNCEMENT_ALT_PREFIX @ ''a'' @ [CHR 0x0A] @ BULLET @ ''b'')) \<le> 400"
    using alt_text_fits by blast
  show "toAltText (ANNOUNCEMENT_ALT_PREFIX @ ''a'' @ [CHR 0x0A] @ BULLET @ ''b'') = ANNOUNCEMENT_ALT_PREFIX @ ''a b''"
    by code_simp
qed

end
