(* ===== verification/Announcements.thy ===== *)
theory Announcements
  imports Staff LineCalls AnnouncementCards BookingDb "HOL-Library.Sublist"
begin

text \<open>
  \<open>AnnouncementsService\<close> of \<open>src/src/announcements/announcements.service.ts\<close>: drafts, their
  edits, their soft deletion and the one send. The tables are the announcements, and the
  departments, staff and LINE users they refer to. A statement has its own number, as everywhere;
  a row lock is a read, and what it excludes is an assumption on \<open>others\<close>.
\<close>

subsection \<open>Rows and answers\<close>

datatype announcement_format = TEXT | FLEX
datatype announcement_status = DRAFT | SENT
datatype announcement_audience = AUDIENCE_ALL | AUDIENCE_DEPARTMENT

record announcement_row =
  an_id :: string
  an_title :: string
  an_body :: string
  an_format :: announcement_format
  an_status :: announcement_status
  an_audience :: announcement_audience
  an_departmentId :: "int option"
  an_sentAt :: "time option"
  an_sentCount :: nat
  an_deletedAt :: "time option"
  an_createdById :: "string option"
  an_createdAt :: time
  an_updatedAt :: time

record board =
  announcements :: "announcement_row list"
  bd_departments :: "option_row list"
  bd_staff :: "system_user list"
  bd_users :: "line_user list"

datatype announcement_message =
    ANNOUNCEMENT_NOT_FOUND | ANNOUNCEMENT_SENT_IMMUTABLE | ANNOUNCEMENT_DEPARTMENT_REQUIRED
  | ANNOUNCEMENT_DEPARTMENT_NOT_ALLOWED | ANNOUNCEMENT_DEPARTMENT_INVALID | ANNOUNCEMENT_UPDATE_EMPTY
  | ANNOUNCEMENT_BODY_REQUIRED | ANNOUNCEMENT_SEND_IN_PROGRESS | ANNOUNCEMENT_ALREADY_SENT
  | ANNOUNCEMENT_PARTIALLY_SENT | ANNOUNCEMENT_LINE_SEND_FAILED | ANNOUNCEMENT_LINE_NOT_CONFIGURED
  | ANNOUNCEMENT_LINE_RATE_LIMITED | ANNOUNCEMENT_LINE_BOT_INFO_UNAVAILABLE

datatype announcement_error_code =
    CODE_NOT_FOUND | CODE_ALREADY_SENT | CODE_SEND_IN_PROGRESS | CODE_BODY_REQUIRED
  | CODE_DEPARTMENT_INVALID | CODE_PARTIALLY_SENT | CODE_LINE_SEND_FAILED | CODE_LINE_NOT_CONFIGURED
  | CODE_LINE_RATE_LIMITED | CODE_LINE_BOT_INFO_UNAVAILABLE

text \<open>An error body: a message, with a code and the two counts of a partial send, or the shared
  conflict of \<open>mapTransactionError\<close>.\<close>

datatype announcement_problem =
    Told announcement_message
  | Coded announcement_error_code announcement_message "(nat \<times> nat) option"
  | ConcurrentModification

record announcement_dto =
  ad_id :: string
  ad_title :: string
  ad_body :: string
  ad_format :: announcement_format
  ad_status :: announcement_status
  ad_audience :: announcement_audience
  ad_department :: "(int \<times> string) option"
  ad_sentAt :: "string option"
  ad_sentCount :: nat
  ad_createdBy :: "(string \<times> string \<times> string) option"
  ad_createdAt :: string
  ad_updatedAt :: string

definition toAnnouncementDto :: "board \<Rightarrow> announcement_row \<Rightarrow> announcement_dto" where
  "toAnnouncementDto s row =
     \<lparr>ad_id = an_id row, ad_title = an_title row, ad_body = an_body row, ad_format = an_format row,
      ad_status = an_status row, ad_audience = an_audience row,
      ad_department = (case an_departmentId row of None \<Rightarrow> None | Some d \<Rightarrow> option_ref (bd_departments s) d),
      ad_sentAt = map_option toISOString (an_sentAt row), ad_sentCount = an_sentCount row,
      ad_createdBy = creator_ref (bd_staff s) (an_createdById row),
      ad_createdAt = toISOString (an_createdAt row), ad_updatedAt = toISOString (an_updatedAt row)\<rparr>"

text \<open>
  The driver, the clock, a new key, collation, \<open>lower\<close> of the database, the error of
  \<open>findUniqueOrThrow\<close> and \<open>update\<close> on a missing row and of a repeated key, and the LINE client.
\<close>

record announce_env = "board driver" +
  an_now :: "nat \<Rightarrow> time"
  an_new_id :: string
  an_collate :: "string \<Rightarrow> string \<Rightarrow> int"
  an_lower :: "string \<Rightarrow> string"
  an_missing :: js_error
  an_duplicate :: js_error
  an_line :: line_env

type_synonym 'a board_act = "(board, line_event, announcement_problem, 'a) act"

record announcement_actor =
  aa_id :: string
  aa_includeReserved :: bool

definition refuse :: "announcement_problem http_error \<Rightarrow> 'a board_act" where
  "refuse e = stop_with (Refused e)"

text \<open>\<open>mapTransactionError\<close> of \<open>src/src/common/prisma-tx.util.ts\<close>, on these answers.\<close>

definition map_send_error :: "announcement_problem stop \<Rightarrow> announcement_problem stop" where
  "map_send_error e = (case e of
       Refused m \<Rightarrow> Refused m
     | Thrown err \<Rightarrow> if isWriteConflict err then Refused (Conflict ConcurrentModification) else Thrown err)"

subsection \<open>Searching\<close>

definition BACKSLASH :: char where "BACKSLASH = CHR 0x5C"

definition escapeLike :: "string \<Rightarrow> string" where
  "escapeLike term = concat (map (\<lambda>c. if c \<in> {BACKSLASH, CHR ''%'', CHR ''_''} then [BACKSLASH, c] else [c]) term)"

text \<open>\<open>LIKE\<close> of PostgreSQL with its default escape character, on characters. A pattern that ends in
  the escape character is an error there and matches nothing here.\<close>

function sql_like :: "string list \<Rightarrow> string list \<Rightarrow> bool" where
  "sql_like [] t = (t = [])"
| "sql_like (p # ps) t =
     (if p = ''%'' then sql_like ps t \<or> (case t of [] \<Rightarrow> False | _ # t' \<Rightarrow> sql_like (p # ps) t')
      else if p = ''_'' then (case t of [] \<Rightarrow> False | _ # t' \<Rightarrow> sql_like ps t')
      else if p = [BACKSLASH] then
        (case ps of [] \<Rightarrow> False | q # ps' \<Rightarrow> (case t of [] \<Rightarrow> False | c # t' \<Rightarrow> c = q \<and> sql_like ps' t'))
      else (case t of [] \<Rightarrow> False | c # t' \<Rightarrow> c = p \<and> sql_like ps t'))"
  by pat_completeness auto
termination by (relation "measure (\<lambda>(p, t). length p + length t)") auto

declare sql_like.simps [simp del]

text \<open>\<open>contains\<close> with \<open>mode: 'insensitive'\<close>: the term goes between two \<open>%\<close> unescaped.\<close>

definition contains_insensitive :: "announce_env \<Rightarrow> string \<Rightarrow> string \<Rightarrow> bool" where
  "contains_insensitive env term text =
     sql_like (utf8_chars (an_lower env (''%'' @ term @ ''%''))) (utf8_chars (an_lower env text))"

datatype announcement_status_filter = FILTER_ALL | FILTER_DRAFT | FILTER_SENT

definition STATUS_FILTER :: "announcement_status_filter \<Rightarrow> announcement_status option" where
  "STATUS_FILTER f = (case f of FILTER_ALL \<Rightarrow> None | FILTER_DRAFT \<Rightarrow> Some DRAFT | FILTER_SENT \<Rightarrow> Some SENT)"

record announcement_query =
  aq_page :: nat
  aq_limit :: nat
  aq_status :: "announcement_status_filter option"
  aq_q :: "string option"

definition announcementListWhere :: "announce_env \<Rightarrow> announcement_query \<Rightarrow> announcement_row \<Rightarrow> bool" where
  "announcementListWhere env q row =
     (let status = STATUS_FILTER (case aq_status q of None \<Rightarrow> FILTER_ALL | Some f \<Rightarrow> f);
          term = (case aq_q q of None \<Rightarrow> [] | Some t \<Rightarrow> js_trim t)
      in an_deletedAt row = None \<and>
         (case status of None \<Rightarrow> True | Some st \<Rightarrow> an_status row = st) \<and>
         (term = [] \<or> contains_insensitive env (escapeLike term) (an_title row)))"

definition newest_announcement :: "announce_env \<Rightarrow> announcement_row \<Rightarrow> announcement_row \<Rightarrow> int" where
  "newest_announcement env a b = (if an_createdAt a \<noteq> an_createdAt b then an_createdAt b - an_createdAt a
     else an_collate env (an_id b) (an_id a))"

record announcement_page =
  ap_data :: "announcement_dto list"
  ap_page :: nat
  ap_limit :: nat
  ap_total :: nat
  ap_totalPages :: nat

definition announcement_page_of :: "announce_env \<Rightarrow> announcement_query \<Rightarrow> board \<Rightarrow> announcement_page" where
  "announcement_page_of env q s =
     (let rows = js_sort (newest_announcement env) (filter (announcementListWhere env q) (announcements s));
          n = count_where (announcementListWhere env q) (announcements s)
      in \<lparr>ap_data = map (toAnnouncementDto s) (take (aq_limit q) (drop ((aq_page q - 1) * aq_limit q) rows)),
          ap_page = aq_page q, ap_limit = aq_limit q, ap_total = n,
          ap_totalPages = (n + aq_limit q - 1) div aq_limit q\<rparr>)"

text \<open>One \<open>RepeatableRead\<close> snapshot serves the rows and the count.\<close>

definition list_announcements :: "announce_env \<Rightarrow> announcement_query \<Rightarrow> announcement_page board_act" where
  "list_announcements env q = fetch env 0 (announcement_page_of env q)"

definition live_announcement :: "string \<Rightarrow> board \<Rightarrow> announcement_row option" where
  "live_announcement i s = first_row (\<lambda>a. an_id a = i \<and> an_deletedAt a = None) (announcements s)"

definition get_announcement :: "announce_env \<Rightarrow> nat \<Rightarrow> string \<Rightarrow> announcement_dto board_act" where
  "get_announcement env k i =
     andThen (fetch env k (\<lambda>s. map_option (toAnnouncementDto s) (live_announcement i s))) (\<lambda>row.
     need row (NotFound (Told ANNOUNCEMENT_NOT_FOUND)))"

subsection \<open>Drafting and editing\<close>

text \<open>A sent department id: \<open>None\<close> is omitted, \<open>Some None\<close> is \<open>null\<close>.\<close>

definition resolveDepartmentId ::
  "announce_env \<Rightarrow> nat \<Rightarrow> announcement_audience \<Rightarrow> int option option \<Rightarrow> int option \<Rightarrow> bool \<Rightarrow> int option board_act"
where
  "resolveDepartmentId env k audience sent stored includeReserved = (case audience of
       AUDIENCE_ALL \<Rightarrow> (case sent of
           Some (Some _) \<Rightarrow> refuse (BadRequest (Told ANNOUNCEMENT_DEPARTMENT_NOT_ALLOWED))
         | _ \<Rightarrow> done_with None)
     | AUDIENCE_DEPARTMENT \<Rightarrow> (case (case sent of Some x \<Rightarrow> x | None \<Rightarrow> stored) of
           None \<Rightarrow> refuse (BadRequest (Told ANNOUNCEMENT_DEPARTMENT_REQUIRED))
         | Some i \<Rightarrow> andThen (fetch env k (\<lambda>s. first_row (assignable includeReserved i) (bd_departments s))) (\<lambda>d.
             case d of None \<Rightarrow> refuse (BadRequest (Told ANNOUNCEMENT_DEPARTMENT_INVALID))
             | Some r \<Rightarrow> done_with (Some (op_id r)))))"

record create_announcement_dto =
  ca_title :: string
  ca_body :: "string option"
  ca_format :: "announcement_format option"
  ca_audience :: "announcement_audience option"
  ca_departmentId :: "int option option"

definition new_announcement ::
  "announce_env \<Rightarrow> create_announcement_dto \<Rightarrow> announcement_audience \<Rightarrow> int option \<Rightarrow> string \<Rightarrow> announcement_row"
where
  "new_announcement env dto audience departmentId actor =
     \<lparr>an_id = an_new_id env, an_title = ca_title dto,
      an_body = (case ca_body dto of None \<Rightarrow> [] | Some b \<Rightarrow> b),
      an_format = (case ca_format dto of None \<Rightarrow> TEXT | Some f \<Rightarrow> f), an_status = DRAFT,
      an_audience = audience, an_departmentId = departmentId, an_sentAt = None, an_sentCount = 0,
      an_deletedAt = None, an_createdById = Some actor, an_createdAt = an_now env 1, an_updatedAt = an_now env 1\<rparr>"

definition insert_announcement :: "js_error \<Rightarrow> announcement_row \<Rightarrow> board \<Rightarrow> js_error + (board \<times> announcement_dto)" where
  "insert_announcement taken row s =
     (if an_id row \<in> an_id ` set (announcements s) then Inl taken
      else (let s' = s\<lparr>announcements := announcements s @ [row]\<rparr> in Inr (s', toAnnouncementDto s' row)))"

definition create_announcement ::
  "announce_env \<Rightarrow> create_announcement_dto \<Rightarrow> announcement_actor \<Rightarrow> announcement_dto board_act"
where
  "create_announcement env dto actor =
     (let audience = (case ca_audience dto of None \<Rightarrow> AUDIENCE_ALL | Some a \<Rightarrow> a) in
      andThen (resolveDepartmentId env 0 audience (ca_departmentId dto) None (aa_includeReserved actor)) (\<lambda>departmentId.
      atomically (put env 1 (insert_announcement (an_duplicate env) (new_announcement env dto audience departmentId (aa_id actor))))))"

record announcement_patch =
  pa_title :: "string option"
  pa_body :: "string option"
  pa_format :: "announcement_format option"
  pa_audience :: "announcement_audience option"
  pa_departmentId :: "int option option"

definition or_else :: "'a option \<Rightarrow> 'a \<Rightarrow> 'a" where
  "or_else x d = (case x of None \<Rightarrow> d | Some a \<Rightarrow> a)"

definition edit_announcement ::
  "announcement_patch \<Rightarrow> announcement_audience \<Rightarrow> int option \<Rightarrow> time \<Rightarrow> announcement_row \<Rightarrow> announcement_row"
where
  "edit_announcement p audience departmentId at row =
     row\<lparr>an_title := or_else (pa_title p) (an_title row), an_body := or_else (pa_body p) (an_body row),
         an_format := or_else (pa_format p) (an_format row), an_audience := audience,
         an_departmentId := departmentId, an_updatedAt := at\<rparr>"

text \<open>\<open>updateMany\<close>: the matching rows change and are counted.\<close>

definition update_announcements ::
  "(announcement_row \<Rightarrow> bool) \<Rightarrow> (announcement_row \<Rightarrow> announcement_row) \<Rightarrow> board \<Rightarrow> js_error + (board \<times> nat)"
where
  "update_announcements p f s =
     Inr (s\<lparr>announcements := set_where p f (announcements s)\<rparr>, count_where p (announcements s))"

definition draft_row :: "string \<Rightarrow> announcement_row \<Rightarrow> bool" where
  "draft_row i a \<longleftrightarrow> an_id a = i \<and> an_status a = DRAFT \<and> an_deletedAt a = None"

definition update_announcement ::
  "announce_env \<Rightarrow> string \<Rightarrow> announcement_patch \<Rightarrow> announcement_actor \<Rightarrow> announcement_dto board_act"
where
  "update_announcement env i p actor =
     andThen (check (\<not> (pa_title p = None \<and> pa_body p = None \<and> pa_format p = None \<and> pa_audience p = None \<and>
       pa_departmentId p = None)) (BadRequest (Told ANNOUNCEMENT_UPDATE_EMPTY))) (\<lambda>_.
     andThen (fetch env 0 (live_announcement i)) (\<lambda>found.
     andThen (need found (NotFound (Told ANNOUNCEMENT_NOT_FOUND))) (\<lambda>current.
     andThen (check (an_status current \<noteq> SENT) (Conflict (Told ANNOUNCEMENT_SENT_IMMUTABLE))) (\<lambda>_.
     (let audience = or_else (pa_audience p) (an_audience current) in
      andThen (resolveDepartmentId env 1 audience (pa_departmentId p) (an_departmentId current)
        (aa_includeReserved actor)) (\<lambda>departmentId.
      andThen (atomically (put env 2 (update_announcements (draft_row i)
        (edit_announcement p audience departmentId (an_now env 2))))) (\<lambda>count.
      if count = 0 then
        andThen (fetch env 3 (\<lambda>s. first_row (\<lambda>a. an_id a = i) (announcements s))) (\<lambda>after.
          case after of
            None \<Rightarrow> refuse (NotFound (Told ANNOUNCEMENT_NOT_FOUND))
          | Some a \<Rightarrow> if an_deletedAt a \<noteq> None then refuse (NotFound (Told ANNOUNCEMENT_NOT_FOUND))
                      else refuse (Conflict (Told ANNOUNCEMENT_SENT_IMMUTABLE)))
      else get_announcement env 4 i)))))))"

subsection \<open>Deleting\<close>

definition coded :: "announcement_error_code \<Rightarrow> announcement_message \<Rightarrow> announcement_problem" where
  "coded code message = Coded code message None"

text \<open>\<open>SELECT ... FOR UPDATE NOWAIT\<close>: the status of the live row, or the conflict when it is held.\<close>

definition lock_announcement :: "announce_env \<Rightarrow> nat \<Rightarrow> string \<Rightarrow> announcement_status option board_act" where
  "lock_announcement env k i =
     catching (fetch env k (\<lambda>s. map_option an_status (live_announcement i s))) (\<lambda>e. case e of
         Thrown err \<Rightarrow> if isLockNotAvailable err
           then refuse (Conflict (coded CODE_SEND_IN_PROGRESS ANNOUNCEMENT_SEND_IN_PROGRESS)) else stop_with e
       | Refused _ \<Rightarrow> stop_with e)"

definition not_found_coded :: "announcement_problem http_error" where
  "not_found_coded = NotFound (coded CODE_NOT_FOUND ANNOUNCEMENT_NOT_FOUND)"

definition remove_announcement :: "announce_env \<Rightarrow> string \<Rightarrow> unit board_act" where
  "remove_announcement env i =
     andThen (catching (atomically (
       andThen (lock_announcement env 0 i) (\<lambda>found.
       andThen (need found not_found_coded) (\<lambda>status.
       andThen (put env 1 (update_announcements (\<lambda>a. an_id a = i \<and> an_deletedAt a = None)
         (\<lambda>a. a\<lparr>an_deletedAt := Some (an_now env 2), an_updatedAt := an_now env 1\<rparr>))) (\<lambda>count.
       andThen (check (count \<noteq> 0) not_found_coded) (\<lambda>_. done_with status))))))
       (\<lambda>e. stop_with (map_send_error e))) (\<lambda>_. done_with ())"

subsection \<open>Sending\<close>

definition lineSendError :: "line_error_kind \<Rightarrow> announcement_problem http_error" where
  "lineSendError kind = (case kind of
       NOT_CONFIGURED \<Rightarrow> ServiceUnavailable (coded CODE_LINE_NOT_CONFIGURED ANNOUNCEMENT_LINE_NOT_CONFIGURED)
     | RATE_LIMITED \<Rightarrow> ServiceUnavailable (coded CODE_LINE_RATE_LIMITED ANNOUNCEMENT_LINE_RATE_LIMITED)
     | _ \<Rightarrow> BadGateway (coded CODE_LINE_SEND_FAILED ANNOUNCEMENT_LINE_SEND_FAILED))"

definition eligible :: "int option \<Rightarrow> line_user \<Rightarrow> bool" where
  "eligible departmentId u \<longleftrightarrow> lu_access u = ACC_ALLOWED \<and> lu_deletedAt u = None \<and> lu_lineUserId u \<noteq> [] \<and>
     (case departmentId of None \<Rightarrow> True
      | Some d \<Rightarrow> (case lu_registration u of None \<Rightarrow> False
          | Some r \<Rightarrow> reg_deletedAt r = None \<and> reg_departmentId r = d))"

definition opted_in :: "line_user \<Rightarrow> bool" where
  "opted_in u \<longleftrightarrow> np_announcements (toNotificationPreferences (lu_notifications u))"

definition recipients_of :: "announce_env \<Rightarrow> int option \<Rightarrow> board \<Rightarrow> string list" where
  "recipients_of env departmentId s =
     (let users = js_sort (\<lambda>a b. an_collate env (lu_id a) (lu_id b)) (filter (eligible departmentId) (bd_users s))
      in map lu_lineUserId (filter (\<lambda>u. LINE_USER_ID_PATTERN (lu_lineUserId u)) (filter opted_in users)))"

definition resolveRecipients :: "announce_env \<Rightarrow> nat \<Rightarrow> int option \<Rightarrow> string list board_act" where
  "resolveRecipients env k departmentId = fetch env k (recipients_of env departmentId)"

definition ANNOUNCEMENT_SEND_DEADLINE_MS :: int where
  "ANNOUNCEMENT_SEND_DEADLINE_MS = 90000"

definition announcement_message_of :: "announcement_row \<Rightarrow> time \<Rightarrow> json" where
  "announcement_message_of row sent_at = (case an_format row of
       FLEX \<Rightarrow> buildAnnouncementCard (an_title row) (an_body row)
         (thaiShortDate sent_at @ '' '' @ bangkokClock sent_at @ [CHR 0x20, CHR 0xE0, CHR 0xB8, CHR 0x99, CHR 0x2E])
     | TEXT \<Rightarrow> buildAnnouncementText (an_title row) (an_body row))"

definition retry_seed :: "announcement_row \<Rightarrow> string" where
  "retry_seed row = an_id row @ ''|'' @ toISOString (an_updatedAt row)"

text \<open>\<open>update({ where: { id } })\<close> to SENT, answering with the row as written.\<close>

definition mark_sent :: "announce_env \<Rightarrow> string \<Rightarrow> time \<Rightarrow> nat \<Rightarrow> board \<Rightarrow> js_error + (board \<times> announcement_dto)" where
  "mark_sent env i at accepted s = (case first_row (\<lambda>a. an_id a = i) (announcements s) of
       None \<Rightarrow> Inl (an_missing env)
     | Some a \<Rightarrow>
         (let f = (\<lambda>a. a\<lparr>an_status := SENT, an_sentAt := Some at, an_sentCount := accepted, an_updatedAt := an_now env 4\<rparr>);
              s' = s\<lparr>announcements := set_where (\<lambda>a. an_id a = i) f (announcements s)\<rparr>
          in Inr (s', toAnnouncementDto s' (f a))))"

definition find_or_throw :: "announce_env \<Rightarrow> nat \<Rightarrow> string \<Rightarrow> announcement_row board_act" where
  "find_or_throw env k i =
     andThen (fetch env k (\<lambda>s. first_row (\<lambda>a. an_id a = i) (announcements s))) (\<lambda>row.
       case row of None \<Rightarrow> stop_with (Thrown (an_missing env)) | Some r \<Rightarrow> done_with r)"

definition audience_department :: "announce_env \<Rightarrow> nat \<Rightarrow> announcement_row \<Rightarrow> int option board_act" where
  "audience_department env k row =
     (if an_audience row = AUDIENCE_DEPARTMENT then
        andThen (case an_departmentId row of None \<Rightarrow> done_with None
          | Some d \<Rightarrow> fetch env k (\<lambda>s. first_row (\<lambda>r. op_id r = d \<and> op_deletedAt r = None) (bd_departments s)))
          (\<lambda>department. case department of
              None \<Rightarrow> refuse (BadRequest (coded CODE_DEPARTMENT_INVALID ANNOUNCEMENT_DEPARTMENT_INVALID))
            | Some r \<Rightarrow> done_with (Some (op_id r)))
      else done_with None)"

definition send_work :: "announce_env \<Rightarrow> string \<Rightarrow> (announcement_dto \<times> multicast_outcome option) board_act" where
  "send_work env i =
     (let start = an_now env 0 in
      andThen (lock_announcement env 0 i) (\<lambda>found.
      andThen (need found not_found_coded) (\<lambda>status.
      andThen (check (status \<noteq> SENT) (Conflict (coded CODE_ALREADY_SENT ANNOUNCEMENT_ALREADY_SENT))) (\<lambda>_.
      andThen (find_or_throw env 1 i) (\<lambda>row.
      andThen (check (js_trim (an_body row) \<noteq> []) (BadRequest (coded CODE_BODY_REQUIRED ANNOUNCEMENT_BODY_REQUIRED))) (\<lambda>_.
      andThen (audience_department env 2 row) (\<lambda>departmentId.
      andThen (resolveRecipients env 3 departmentId) (\<lambda>to.
      if to = [] then
        andThen (put env 4 (mark_sent env i (an_now env 5) 0)) (\<lambda>written. done_with (written, None))
      else
        (let sent_at = an_now env 5 in
         andThen (multicast (an_line env) to [announcement_message_of row sent_at] (retry_seed row)
           (Some (start + ANNOUNCEMENT_SEND_DEADLINE_MS))) (\<lambda>result.
         if mo_acceptedCount result = 0 then
           refuse (lineSendError (case mo_failure result of None \<Rightarrow> TRANSIENT | Some f \<Rightarrow> mf_kind f))
         else
           andThen (put env 4 (mark_sent env i sent_at (mo_acceptedCount result))) (\<lambda>written.
             done_with (written, Some result))))))))))))"

definition send_announcement :: "announce_env \<Rightarrow> string \<Rightarrow> announcement_dto board_act" where
  "send_announcement env i =
     andThen (catching (atomically (send_work env i)) (\<lambda>e. stop_with (map_send_error e))) (\<lambda>(saved, outcome).
       case outcome of
         None \<Rightarrow> done_with saved
       | Some r \<Rightarrow> (case mo_failure r of
             None \<Rightarrow> done_with saved
           | Some _ \<Rightarrow> refuse (BadGateway (Coded CODE_PARTIALLY_SENT ANNOUNCEMENT_PARTIALLY_SENT
               (Some (mo_acceptedCount r, mo_targetedCount r))))))"

subsection \<open>The official account\<close>

record line_bot_info_dto =
  lb_basicId :: string
  lb_displayName :: string
  lb_pictureUrl :: "string option"
  lb_chatMode :: chat_mode

definition getLineBotInfo :: "announce_env \<Rightarrow> line_bot_info_dto board_act" where
  "getLineBotInfo env = (case getBotInfo (an_line env) of
       Inr info \<Rightarrow> done_with \<lparr>lb_basicId = bi_basicId info, lb_displayName = bi_displayName info,
         lb_pictureUrl = bi_pictureUrl info, lb_chatMode = bi_chatMode info\<rparr>
     | Inl err \<Rightarrow>
         (if lc_kind (classifyLineError (LineCallError err)) = NOT_CONFIGURED
          then refuse (ServiceUnavailable (coded CODE_LINE_NOT_CONFIGURED ANNOUNCEMENT_LINE_NOT_CONFIGURED))
          else refuse (ServiceUnavailable (coded CODE_LINE_BOT_INFO_UNAVAILABLE ANNOUNCEMENT_LINE_BOT_INFO_UNAVAILABLE))))"

end
