(* ===== verification/AnnouncementGuard.thy ===== *)
theory AnnouncementGuard
  imports Announcements TxLogic
begin

text \<open>
  The life of an announcement under interference. \<open>outline I P m Q\<close> is an assertion about a call
  whose statements others interleave: the invariant \<open>I\<close> is kept throughout, and where \<open>P\<close> holds at
  the start and no commit of others breaks it, \<open>Q\<close> holds of the answer at the end. The row lock of
  a send is what makes its assertions stable.
\<close>

definition outline :: "('s \<Rightarrow> bool) \<Rightarrow> ('s \<Rightarrow> bool) \<Rightarrow> ('s, 'e, 'm, 'a) act \<Rightarrow> ('a \<Rightarrow> 's \<Rightarrow> bool) \<Rightarrow> bool" where
  "outline I P m Q \<longleftrightarrow> (\<forall>w. I (base w) \<and> I (mine w) \<and> P (mine w) \<longrightarrow>
     I (base (snd (m w))) \<and> I (mine (snd (m w))) \<and>
     (case fst (m w) of Inl _ \<Rightarrow> True | Inr a \<Rightarrow> Q a (mine (snd (m w)))))"

named_theorems outline_intros \<open>assertions about the fragments of a call\<close>

lemma outline_andThen [outline_intros]:
  assumes "outline I P m Q" "\<And>a. outline I (Q a) (f a) R"
  shows "outline I P (andThen m f) R"
  unfolding outline_def
proof (intro allI impI)
  fix w :: "('a, 'b) store" assume w: "I (base w) \<and> I (mine w) \<and> P (mine w)"
  obtain r w' where run: "m w = (r, w')" by fastforce
  have w': "I (base w')" "I (mine w')" "\<And>a. r = Inr a \<Longrightarrow> Q a (mine w')"
    using assms(1) w run unfolding outline_def by (metis fst_conv snd_conv sum.case(2))+
  show "I (base (snd (andThen m f w))) \<and> I (mine (snd (andThen m f w))) \<and>
      (case fst (andThen m f w) of Inl _ \<Rightarrow> True | Inr a \<Rightarrow> R a (mine (snd (andThen m f w))))"
  proof (cases r)
    case (Inl e)
    then show ?thesis using w' run by (simp add: andThen_def)
  next
    case (Inr a)
    then have eq: "andThen m f w = f a w'" using run by (simp add: andThen_def)
    show ?thesis unfolding eq using w' Inr assms(2) [of a] unfolding outline_def by blast
  qed
qed

lemma outline_basic [outline_intros]:
  "outline I P (done_with b) (\<lambda>a s. P s \<and> a = b)" "outline I P (stop_with e) (\<lambda>a s. False)"
  "outline I P (tell es) (\<lambda>a s. P s)" "outline I P (check ok err) (\<lambda>a s. P s \<and> ok)"
  "outline I P (need x err) (\<lambda>a s. P s \<and> x = Some a)"
  by (auto simp: outline_def act_run split: option.splits)

lemma outline_fetch:
  "polite I drv \<Longrightarrow> (\<And>s. I s \<Longrightarrow> P s \<Longrightarrow> P (others drv k s)) \<Longrightarrow> outline I P (fetch drv k f) (\<lambda>a s. P s \<and> a = f s)"
  by (auto simp: outline_def polite_def fetch_def issue_def meanwhile_def split: option.splits)

lemma outline_put:
  "polite I drv \<Longrightarrow> (\<And>s. I s \<Longrightarrow> P s \<Longrightarrow> P (others drv k s)) \<Longrightarrow>
    (\<And>s s' a. I s \<Longrightarrow> P s \<Longrightarrow> g s = Inr (s', a) \<Longrightarrow> I s') \<Longrightarrow> outline I P (put drv k g) (\<lambda>a s. True)"
  unfolding outline_def polite_def put_def issue_def meanwhile_def
  by (auto split: option.splits sum.splits) metis

lemma outline_if [outline_intros]:
  "(c \<Longrightarrow> outline I P m Q) \<Longrightarrow> (\<not> c \<Longrightarrow> outline I P n Q) \<Longrightarrow> outline I P (if c then m else n) Q"
  by auto

lemma outline_pre: "outline I P' m Q \<Longrightarrow> (\<And>s. I s \<Longrightarrow> P s \<Longrightarrow> P' s) \<Longrightarrow> outline I P m Q"
  unfolding outline_def by blast

lemma outline_post: "outline I P m Q \<Longrightarrow> (\<And>a s. Q a s \<Longrightarrow> R a s) \<Longrightarrow> outline I P m R"
  unfolding outline_def by (fastforce split: sum.splits)

lemma outline_catching:
  assumes "outline I P m Q" "\<And>e. outline I (\<lambda>_. True) (h e) (\<lambda>_ _. False)"
  shows "outline I P (catching m h) Q"
  unfolding outline_def
proof (intro allI impI)
  fix w :: "('a, 'b) store" assume w: "I (base w) \<and> I (mine w) \<and> P (mine w)"
  obtain r w' where run: "m w = (r, w')" by fastforce
  have w': "I (base w')" "I (mine w')" "\<And>a. r = Inr a \<Longrightarrow> Q a (mine w')"
    using assms(1) w run unfolding outline_def by (metis fst_conv snd_conv sum.case(2))+
  show "I (base (snd (catching m h w))) \<and> I (mine (snd (catching m h w))) \<and>
      (case fst (catching m h w) of Inl _ \<Rightarrow> True | Inr a \<Rightarrow> Q a (mine (snd (catching m h w))))"
  proof (cases r)
    case (Inl e)
    then have eq: "catching m h w = h e w'" using run by (simp add: catching_def)
    show ?thesis unfolding eq using w' assms(2) [of e] unfolding outline_def by (auto split: sum.splits)
  next
    case (Inr a)
    then show ?thesis using w' run by (simp add: catching_def)
  qed
qed

lemma safe_outline: "outline I (\<lambda>_. True) m Q \<Longrightarrow> safe I m"
  by (auto simp: outline_def safe_def)

lemma outline_true: "outline I P m Q \<Longrightarrow> outline I P m (\<lambda>_ _. True)"
  by (erule outline_post) simp

subsection \<open>What may become of a row\<close>

definition row_moves :: "announcement_row \<Rightarrow> announcement_row \<Rightarrow> bool" where
  "row_moves a b \<longleftrightarrow>
     an_id b = an_id a \<and> an_createdById b = an_createdById a \<and> an_createdAt b = an_createdAt a \<and>
     (an_status a = SENT \<longrightarrow> an_status b = SENT \<and> an_title b = an_title a \<and> an_body b = an_body a \<and>
        an_format b = an_format a \<and> an_audience b = an_audience a \<and> an_departmentId b = an_departmentId a \<and>
        an_sentAt b = an_sentAt a \<and> an_sentCount b = an_sentCount a) \<and>
     (an_deletedAt a \<noteq> None \<longrightarrow> b = a)"

definition row_at :: "string \<Rightarrow> board \<Rightarrow> announcement_row option" where
  "row_at i s = first_row (\<lambda>a. an_id a = i) (announcements s)"

definition board_moves :: "board \<Rightarrow> board \<Rightarrow> bool" where
  "board_moves s t \<longleftrightarrow> (\<forall>i a. row_at i s = Some a \<longrightarrow> (\<exists>b. row_at i t = Some b \<and> row_moves a b))"

text \<open>A row names a department exactly when its audience is one, and has a send time exactly when
  it was sent.\<close>

definition row_ok :: "announcement_row \<Rightarrow> bool" where
  "row_ok a \<longleftrightarrow> (an_audience a = AUDIENCE_DEPARTMENT \<longleftrightarrow> an_departmentId a \<noteq> None) \<and>
     (an_status a = SENT \<longleftrightarrow> an_sentAt a \<noteq> None) \<and> (an_status a = DRAFT \<longrightarrow> an_sentCount a = 0)"

definition board_ok :: "board \<Rightarrow> bool" where
  "board_ok s \<longleftrightarrow> distinct (map an_id (announcements s)) \<and> list_all row_ok (announcements s)"

definition board_inv :: "board \<Rightarrow> board \<Rightarrow> bool" where
  "board_inv s0 s \<longleftrightarrow> board_ok s \<and> board_moves s0 s"

lemma row_moves_refl [simp]: "row_moves a a"
  by (simp add: row_moves_def)

lemma row_moves_trans: "row_moves a b \<Longrightarrow> row_moves b c \<Longrightarrow> row_moves a c"
  unfolding row_moves_def by (cases "an_deletedAt a = None"; cases "an_status a") auto

lemma board_moves_refl [simp]: "board_moves s s"
  by (simp add: board_moves_def)

lemma board_moves_trans: "board_moves s t \<Longrightarrow> board_moves t u \<Longrightarrow> board_moves s u"
  unfolding board_moves_def by (metis row_moves_trans)

lemma first_row_set_where:
  "(\<And>x. an_id (f x) = an_id x) \<Longrightarrow> first_row (\<lambda>a. an_id a = i) (set_where p f xs) =
     map_option (\<lambda>x. if p x then f x else x) (first_row (\<lambda>a. an_id a = i) xs)"
  by (induction xs) (auto simp: first_row_def set_where_def)

lemma board_moves_update:
  assumes "\<And>a. p a \<Longrightarrow> a \<in> set (announcements s) \<Longrightarrow> row_moves a (f a)" "\<And>a. an_id (f a) = an_id a"
  shows "board_moves s (s\<lparr>announcements := set_where p f (announcements s)\<rparr>)"
proof -
  have "row_at i (s\<lparr>announcements := set_where p f (announcements s)\<rparr>) =
      map_option (\<lambda>x. if p x then f x else x) (row_at i s)" for i
    using first_row_set_where [of f i p] assms(2) by (simp add: row_at_def)
  then show ?thesis using assms(1) first_row_Some unfolding board_moves_def by (auto simp: row_at_def dest!: first_row_Some)
qed

lemma board_ok_update:
  assumes "board_ok s" "\<And>a. p a \<Longrightarrow> a \<in> set (announcements s) \<Longrightarrow> row_ok (f a)" "\<And>a. an_id (f a) = an_id a"
  shows "board_ok (s\<lparr>announcements := set_where p f (announcements s)\<rparr>)"
  using assms by (auto simp: board_ok_def map_set_where list_all_iff set_set_where)

lemma board_inv_update:
  assumes "board_inv s0 s" "\<And>a. an_id (f a) = an_id a"
    and "\<And>a. p a \<Longrightarrow> a \<in> set (announcements s) \<Longrightarrow> row_ok a \<Longrightarrow> row_moves a (f a) \<and> row_ok (f a)"
  shows "board_inv s0 (s\<lparr>announcements := set_where p f (announcements s)\<rparr>)"
proof -
  have ok: "row_ok a" if "a \<in> set (announcements s)" for a
    using assms(1) that by (auto simp: board_inv_def board_ok_def list_all_iff)
  then show ?thesis
    using assms board_moves_update [of p s f] board_ok_update [of s p f] board_moves_trans
    unfolding board_inv_def by blast
qed

text \<open>With one row per id, the live row is the row.\<close>

lemma live_is_row:
  assumes "board_ok s" "live_announcement i s = Some a"
  shows "row_at i s = Some a \<and> an_deletedAt a = None"
proof -
  have a: "a \<in> set (announcements s)" "an_id a = i" "an_deletedAt a = None"
    using assms(2) first_row_Some unfolding live_announcement_def by fastforce+
  then obtain b where b: "row_at i s = Some b"
    using first_row_None [of "\<lambda>x. an_id x = i"] unfolding row_at_def by (cases "first_row (\<lambda>x. an_id x = i) (announcements s)") auto
  then have "b \<in> set (announcements s)" "an_id b = i" using first_row_Some unfolding row_at_def by fastforce+
  then have "b = a" using a assms(1) unfolding board_ok_def by (metis distinct_map inj_onD)
  then show ?thesis using a b by simp
qed

end
