(* ===== verification/AnnouncementSystem.thy ===== *)
theory AnnouncementSystem
  imports AnnouncementGuard
begin

text \<open>
  Every operation keeps the announcements well formed and moves a row only along its life,
  whatever lawful commits others make in between; a send needs its row lock for that.
\<close>

subsection \<open>What others may do\<close>

definition lawful :: "announce_env \<Rightarrow> bool" where
  "lawful env \<longleftrightarrow> (\<forall>k s. board_ok s \<longrightarrow> board_ok (others env k s) \<and> board_moves s (others env k s))"

text \<open>While the lock taken by the first statement is held, nobody else writes the row.\<close>

definition lock_held :: "announce_env \<Rightarrow> string \<Rightarrow> bool" where
  "lock_held env i \<longleftrightarrow> (\<forall>k \<in> {1..4}. \<forall>s. row_at i (others env k s) = row_at i s)"

lemma lawful_polite: "lawful env \<Longrightarrow> polite (board_inv s0) env"
  unfolding lawful_def polite_def board_inv_def by (metis board_moves_trans)

subsection \<open>One operation at a time\<close>

lemma safe_get: "lawful env \<Longrightarrow> safe (board_inv s0) (get_announcement env k i)"
  unfolding get_announcement_def by (intro safe_intros lawful_polite)

lemma outline_resolve:
  assumes "lawful env"
  shows "outline (board_inv s0) (\<lambda>_. True) (resolveDepartmentId env k audience sent stored reserved)
    (\<lambda>d s. audience = AUDIENCE_DEPARTMENT \<longleftrightarrow> d \<noteq> None)"
proof (cases audience)
  case AUDIENCE_ALL
  then show ?thesis unfolding resolveDepartmentId_def refuse_def
    by (auto simp: outline_def act_run split: option.splits)
next
  case AUDIENCE_DEPARTMENT
  have found: "outline (board_inv s0) (\<lambda>s. True \<and> d = g s)
      (case d of None \<Rightarrow> stop_with e | Some r \<Rightarrow> done_with (Some (op_id r))) (\<lambda>d s. d \<noteq> None)" for d g e
    by (cases d) (auto simp: outline_def act_run)
  have look: "outline (board_inv s0) (\<lambda>_. True)
      (andThen (fetch env k g) (\<lambda>d. case d of None \<Rightarrow> stop_with e | Some r \<Rightarrow> done_with (Some (op_id r)))) (\<lambda>d s. d \<noteq> None)" for g e
    by (rule outline_andThen [OF outline_fetch found]) (auto intro: lawful_polite assms)
  show ?thesis using AUDIENCE_DEPARTMENT look outline_basic(2)
    unfolding resolveDepartmentId_def refuse_def by (auto split: option.splits simp: outline_def act_run)
qed

lemma first_row_append: "first_row p xs = Some a \<Longrightarrow> first_row p (xs @ ys) = Some a"
  by (induction xs) (auto simp: first_row_def split: if_splits)

lemma insert_keeps:
  assumes "board_inv s0 s" "insert_announcement e row s = Inr (s', d)" "row_ok row"
  shows "board_inv s0 s'"
proof -
  have new: "an_id row \<notin> an_id ` set (announcements s)" and s': "s' = s\<lparr>announcements := announcements s @ [row]\<rparr>"
    using assms(2) by (auto simp: insert_announcement_def Let_def split: if_splits)
  have "row_at i s' = Some a" if "row_at i s = Some a" for i a
    using that first_row_append unfolding row_at_def s' by fastforce
  then have "board_moves s s'" unfolding board_moves_def by (metis row_moves_refl)
  moreover have "board_ok s'" using assms(1,3) new unfolding s' board_inv_def board_ok_def by auto
  ultimately show ?thesis using assms(1) board_moves_trans unfolding board_inv_def by blast
qed

lemma safe_create:
  assumes "lawful env"
  shows "safe (board_inv s0) (create_announcement env dto actor)"
proof -
  let ?audience = "case ca_audience dto of None \<Rightarrow> AUDIENCE_ALL | Some a \<Rightarrow> a"
  have "safe (board_inv s0) (atomically (put env 1 (insert_announcement (an_duplicate env)
      (new_announcement env dto ?audience d (aa_id actor)))))"
    if "?audience = AUDIENCE_DEPARTMENT \<longleftrightarrow> d \<noteq> None" for d
    by (intro safe_intros lawful_polite assms, erule insert_keeps, assumption)
      (use that in \<open>auto simp: row_ok_def new_announcement_def\<close>)
  then have "outline (board_inv s0) (\<lambda>s. ?audience = AUDIENCE_DEPARTMENT \<longleftrightarrow> d \<noteq> None)
      (atomically (put env 1 (insert_announcement (an_duplicate env)
      (new_announcement env dto ?audience d (aa_id actor))))) (\<lambda>_ _. True)" for d
    unfolding outline_def safe_def by (auto split: sum.splits)
  from outline_andThen [OF outline_resolve [OF assms] this] show ?thesis
    unfolding create_announcement_def Let_def by (rule safe_outline)
qed

lemma edit_keeps:
  assumes "board_inv s0 s" "update_announcements (draft_row i) (edit_announcement p audience d at) s = Inr (s', n)"
    "audience = AUDIENCE_DEPARTMENT \<longleftrightarrow> d \<noteq> None"
  shows "board_inv s0 s'"
proof -
  have "s' = s\<lparr>announcements := set_where (draft_row i) (edit_announcement p audience d at) (announcements s)\<rparr>"
    using assms(2) by (simp add: update_announcements_def)
  moreover have "board_inv s0 (s\<lparr>announcements := set_where (draft_row i) (edit_announcement p audience d at) (announcements s)\<rparr>)"
    by (rule board_inv_update [OF assms(1)])
      (use assms(3) in \<open>auto simp: edit_announcement_def draft_row_def row_moves_def row_ok_def\<close>)
  ultimately show ?thesis by simp
qed

lemma safe_update:
  assumes "lawful env"
  shows "safe (board_inv s0) (update_announcement env i p actor)"
proof -
  have refused: "safe (board_inv s0) (refuse e :: 'a board_act)" for e by (simp add: refuse_def safe_intros)
  have tail: "outline (board_inv s0) (\<lambda>s. audience = AUDIENCE_DEPARTMENT \<longleftrightarrow> d \<noteq> None)
     (andThen (atomically (put env 2 (update_announcements (draft_row i) (edit_announcement p audience d (an_now env 2))))) (\<lambda>count.
      if count = 0 then andThen (fetch env 3 (\<lambda>s. first_row (\<lambda>a. an_id a = i) (announcements s))) (\<lambda>after.
          case after of None \<Rightarrow> refuse (NotFound (Told ANNOUNCEMENT_NOT_FOUND))
          | Some a \<Rightarrow> if an_deletedAt a \<noteq> None then refuse (NotFound (Told ANNOUNCEMENT_NOT_FOUND))
                      else refuse (Conflict (Told ANNOUNCEMENT_SENT_IMMUTABLE)))
      else get_announcement env 4 i)) (\<lambda>_ _. True)" (is "outline _ _ ?m _") for audience d
  proof -
    have "safe (board_inv s0) ?m" if "audience = AUDIENCE_DEPARTMENT \<longleftrightarrow> d \<noteq> None"
      by (intro safe_intros lawful_polite assms safe_get refused, erule edit_keeps, assumption) (use that in simp)
    then show ?thesis unfolding outline_def safe_def by (auto split: sum.splits)
  qed
  have core: "safe (board_inv s0) (andThen (resolveDepartmentId env 1 audience sent stored reserved) (\<lambda>d.
     andThen (atomically (put env 2 (update_announcements (draft_row i) (edit_announcement p audience d (an_now env 2))))) (\<lambda>count.
      if count = 0 then andThen (fetch env 3 (\<lambda>s. first_row (\<lambda>a. an_id a = i) (announcements s))) (\<lambda>after.
          case after of None \<Rightarrow> refuse (NotFound (Told ANNOUNCEMENT_NOT_FOUND))
          | Some a \<Rightarrow> if an_deletedAt a \<noteq> None then refuse (NotFound (Told ANNOUNCEMENT_NOT_FOUND))
                      else refuse (Conflict (Told ANNOUNCEMENT_SENT_IMMUTABLE)))
      else get_announcement env 4 i)))" for audience sent stored reserved
    by (rule safe_outline) (rule outline_andThen [OF outline_resolve [OF assms] tail])
  show ?thesis unfolding update_announcement_def Let_def
    by (rule safe_check_then, rule safe_andThen [OF safe_fetch [OF lawful_polite [OF assms]]],
        rule safe_need_then, rule safe_check_then, rule core)
qed

lemma safe_lock: "lawful env \<Longrightarrow> safe (board_inv s0) (lock_announcement env k i)"
  unfolding lock_announcement_def refuse_def
  by (intro safe_intros lawful_polite) (auto simp: safe_def act_run split: stop.splits)

lemma safe_remove:
  assumes "lawful env"
  shows "safe (board_inv s0) (remove_announcement env i)"
  unfolding remove_announcement_def not_found_coded_def
proof (intro safe_intros safe_lock lawful_polite assms, clarsimp simp: update_announcements_def)
  fix s assume inv: "board_inv s0 s"
  show "board_inv s0 (s\<lparr>announcements := set_where (\<lambda>a. an_id a = i \<and> an_deletedAt a = None)
      (\<lambda>a. a\<lparr>an_deletedAt := Some (an_now env 2), an_updatedAt := an_now env (Suc 0)\<rparr>) (announcements s)\<rparr>)"
    by (rule board_inv_update [OF inv]) (auto simp: row_moves_def row_ok_def)
qed

subsection \<open>A send under its lock\<close>

definition live_draft :: "string \<Rightarrow> board \<Rightarrow> bool" where
  "live_draft i s \<longleftrightarrow> (\<exists>a. row_at i s = Some a \<and> an_deletedAt a = None \<and> an_status a = DRAFT)"

lemma lock_stable: "lock_held env i \<Longrightarrow> 1 \<le> k \<Longrightarrow> k \<le> 4 \<Longrightarrow> live_draft i s \<Longrightarrow> live_draft i (others env k s)"
  by (simp add: lock_held_def live_draft_def)

lemma outline_locked_fetch:
  assumes "lawful env" "lock_held env i" "1 \<le> k" "k \<le> 4"
  shows "outline (board_inv s0) (live_draft i) (fetch env k f) (\<lambda>_. live_draft i)"
  by (rule outline_post, rule outline_fetch) (use assms lawful_polite lock_stable in auto)

lemma outline_lock:
  assumes "lawful env"
  shows "outline (board_inv s0) (\<lambda>_. True) (lock_announcement env 0 i) (\<lambda>f s. f = map_option an_status (live_announcement i s))"
  unfolding lock_announcement_def
proof (rule outline_catching)
  show "outline (board_inv s0) (\<lambda>_. True) (fetch env 0 (\<lambda>s. map_option an_status (live_announcement i s)))
      (\<lambda>f s. f = map_option an_status (live_announcement i s))"
    by (rule outline_post, rule outline_fetch [where P = "\<lambda>_. True"]) (auto intro: lawful_polite assms)
qed (auto simp: outline_def act_run refuse_def split: stop.splits)

lemma mark_sent_keeps:
  assumes "board_inv s0 s" "live_draft i s" "mark_sent env i at n s = Inr (s', d)"
  shows "board_inv s0 s'"
proof -
  let ?f = "\<lambda>a. a\<lparr>an_status := SENT, an_sentAt := Some at, an_sentCount := n, an_updatedAt := an_now env 4\<rparr>"
  obtain a where a: "row_at i s = Some a" "an_deletedAt a = None" "an_status a = DRAFT"
    using assms(2) by (auto simp: live_draft_def)
  have s': "s' = s\<lparr>announcements := set_where (\<lambda>a. an_id a = i) ?f (announcements s)\<rparr>"
    using assms(3) a(1) by (auto simp: mark_sent_def row_at_def Let_def)
  have same: "x = a" if "x \<in> set (announcements s)" "an_id x = i" for x
  proof -
    have "a \<in> set (announcements s)" "an_id a = i" using a(1) first_row_Some unfolding row_at_def by fastforce+
    then show ?thesis using that assms(1) unfolding board_inv_def board_ok_def by (metis distinct_map inj_onD)
  qed
  show ?thesis unfolding s'
    by (rule board_inv_update [OF assms(1)]) (use same a in \<open>auto simp: row_moves_def row_ok_def\<close>)
qed

lemma outline_mark_sent:
  assumes "lawful env" "lock_held env i"
  shows "outline (board_inv s0) (live_draft i) (put env 4 (mark_sent env i at n)) (\<lambda>_ _. True)"
  by (rule outline_put) (use assms lawful_polite lock_stable [of env i 4] mark_sent_keeps in \<open>fastforce+\<close>)

lemma outline_multicast: "outline I P (multicast line to ms seed dl) (\<lambda>_. P)"
  unfolding multicast_def by (auto simp: outline_def act_run split: prod.splits)

lemma outline_audience:
  assumes "lawful env" "lock_held env i"
  shows "outline (board_inv s0) (live_draft i) (audience_department env 2 row) (\<lambda>_. live_draft i)"
proof -
  have pick: "outline (board_inv s0) (live_draft i) (case d of None \<Rightarrow> stop_with e | Some r \<Rightarrow> done_with (f r)) (\<lambda>_. live_draft i)"
    for d :: "'a option" and e and f :: "'a \<Rightarrow> 'b"
    by (cases d) (auto simp: outline_def act_run)
  have none: "outline (board_inv s0) (live_draft i) (done_with x) (\<lambda>_. live_draft i)" for x :: 'c
    by (simp add: outline_def act_run)
  have start: "outline (board_inv s0) (live_draft i) (case an_departmentId row of None \<Rightarrow> done_with None
      | Some d \<Rightarrow> fetch env 2 (\<lambda>s. first_row (\<lambda>r. op_id r = d \<and> op_deletedAt r = None) (bd_departments s))) (\<lambda>_. live_draft i)"
    using outline_locked_fetch [OF assms, of 2] by (cases "an_departmentId row") (auto simp: outline_def act_run)
  show ?thesis unfolding audience_department_def refuse_def
    by (rule outline_if, rule outline_andThen [OF start]) (auto simp: outline_def act_run split: option.splits)
qed

lemma outline_find:
  assumes "lawful env" "lock_held env i"
  shows "outline (board_inv s0) (live_draft i) (find_or_throw env 1 i) (\<lambda>_. live_draft i)"
  unfolding find_or_throw_def
  by (rule outline_andThen [OF outline_locked_fetch [OF assms]]) (auto simp: outline_def act_run split: option.splits)

lemma outline_then_done: "outline I P m Q \<Longrightarrow> outline I P (andThen m (\<lambda>x. done_with (g x))) (\<lambda>_ _. True)"
  by (rule outline_andThen) (auto simp: outline_def act_run)

lemma outline_check: "outline I P (check ok e) (\<lambda>_. P)"
  by (auto simp: outline_def act_run)

lemma send_under_lock:
  assumes "lawful env" "lock_held env i"
  shows "outline (board_inv s0) (live_draft i)
    (andThen (find_or_throw env 1 i) (\<lambda>row.
      andThen (check (js_trim (an_body row) \<noteq> []) err) (\<lambda>_.
      andThen (audience_department env 2 row) (\<lambda>departmentId.
      andThen (resolveRecipients env 3 departmentId) (\<lambda>to.
      if to = [] then
        andThen (put env 4 (mark_sent env i (an_now env 5) 0)) (\<lambda>written. done_with (written, None))
      else
        (let sent_at = an_now env 5 in
         andThen (multicast (an_line env) to [announcement_message_of row sent_at] (retry_seed row) dl) (\<lambda>result.
         if mo_acceptedCount result = 0 then
           refuse (lineSendError (case mo_failure result of None \<Rightarrow> TRANSIENT | Some f \<Rightarrow> mf_kind f))
         else
           andThen (put env 4 (mark_sent env i sent_at (mo_acceptedCount result))) (\<lambda>written.
             done_with (written, Some result)))))))))
    (\<lambda>_ _. True)"
  unfolding resolveRecipients_def Let_def refuse_def
  apply (rule outline_andThen [OF outline_find [OF assms]])
  apply (rule outline_andThen [OF outline_check])
  apply (rule outline_andThen [OF outline_audience [OF assms]])
  apply (rule outline_andThen [OF outline_locked_fetch [OF assms]], simp, simp)
  apply (rule outline_if)
   apply (rule outline_then_done [OF outline_mark_sent [OF assms]])
  apply (rule outline_andThen [OF outline_multicast])
  apply (rule outline_if)
   apply (simp add: outline_def act_run)
  apply (rule outline_then_done [OF outline_mark_sent [OF assms]])
  done

lemma locked_live_draft:
  assumes "board_inv s0 s" "Some st = map_option an_status (live_announcement i s)" "st \<noteq> SENT"
  shows "live_draft i s"
proof -
  obtain a where a: "live_announcement i s = Some a" "an_status a = st" using assms(2)
    by (cases "live_announcement i s") auto
  then have "row_at i s = Some a \<and> an_deletedAt a = None"
    using live_is_row assms(1) unfolding board_inv_def by blast
  then show ?thesis using a(2) assms(3) by (cases st) (auto simp: live_draft_def)
qed

lemma safe_send:
  assumes "lawful env" "lock_held env i"
  shows "safe (board_inv s0) (send_announcement env i)"
proof -
  have "outline (board_inv s0) (\<lambda>_. True) (send_work env i) (\<lambda>_ _. True)"
    unfolding send_work_def
    apply (subst Let_def)
    apply (rule outline_andThen [OF outline_lock [OF assms(1)]])
    apply (rule outline_andThen [OF outline_basic(5)])
    apply (rule outline_andThen [OF outline_basic(4)])
    apply (rule outline_pre [OF send_under_lock [OF assms]])
    apply (erule locked_live_draft; simp)
    done
  then have work: "safe (board_inv s0) (send_work env i)" by (rule safe_outline)
  show ?thesis unfolding send_announcement_def refuse_def
    by (intro safe_intros work) (auto simp: safe_def act_run split: prod.splits option.splits)
qed

subsection \<open>The service as a machine\<close>

datatype announcement_call =
    ListAnnouncements announcement_query
  | GetAnnouncement string
  | CreateAnnouncement create_announcement_dto announcement_actor
  | UpdateAnnouncement string announcement_patch announcement_actor
  | RemoveAnnouncement string
  | SendAnnouncement string
  | LineBotInfo

definition serve_board :: "board \<Rightarrow> announce_env \<times> announcement_call \<Rightarrow> board" where
  "serve_board s x = (let env = fst x in case snd x of
       ListAnnouncements q \<Rightarrow> leaves (list_announcements env q) s
     | GetAnnouncement i \<Rightarrow> leaves (get_announcement env 0 i) s
     | CreateAnnouncement dto actor \<Rightarrow> leaves (create_announcement env dto actor) s
     | UpdateAnnouncement i p actor \<Rightarrow> leaves (update_announcement env i p actor) s
     | RemoveAnnouncement i \<Rightarrow> leaves (remove_announcement env i) s
     | SendAnnouncement i \<Rightarrow> leaves (send_announcement env i) s
     | LineBotInfo \<Rightarrow> leaves (getLineBotInfo env) s)"

definition lawful_call :: "announce_env \<times> announcement_call \<Rightarrow> bool" where
  "lawful_call x \<longleftrightarrow> lawful (fst x) \<and> (case snd x of SendAnnouncement i \<Rightarrow> lock_held (fst x) i | _ \<Rightarrow> True)"

lemma serve_board_keeps: "board_inv s0 s \<Longrightarrow> lawful_call x \<Longrightarrow> board_inv s0 (serve_board s x)"
proof -
  assume inv: "board_inv s0 s" and ok: "lawful_call x"
  obtain env c where x: "x = (env, c)" by (cases x)
  have law: "lawful env" using ok x by (simp add: lawful_call_def)
  have list: "safe (board_inv s0) (list_announcements env q)" for q
    unfolding list_announcements_def by (intro safe_intros lawful_polite law)
  have bot: "safe (board_inv s0) (getLineBotInfo env)"
    unfolding getLineBotInfo_def refuse_def by (auto simp: safe_def act_run split: sum.splits)
  have kept: "board_inv s0 (leaves m s)" if "safe (board_inv s0) m" for m :: "'m board_act"
    using leaves_safe [of "board_inv s0" m s] that inv by simp
  show ?thesis
    using ok x unfolding lawful_call_def serve_board_def Let_def
    by (cases c) (simp_all add: kept [OF list] kept [OF bot] kept [OF safe_get [OF law]] kept [OF safe_create [OF law]]
        kept [OF safe_update [OF law]] kept [OF safe_remove [OF law]] kept [OF safe_send [OF law]])
qed

interpretation announcement_board: invariant_system serve_board "board_inv s0" lawful_call for s0
  by unfold_locales (rule serve_board_keeps)

end
