(* ===== verification/LineFacts.thy ===== *)
theory LineFacts
  imports LineCalls
begin

text \<open>
  What a multicast does: at most two requests per chunk, each chunk with the one key of its
  members, and counts that add up, whatever LINE and the clock answer. Then the shape of a retry key,
  and that the text it hashes names the seed's chunk: the same members in any order give the same
  text, other members another one.
\<close>

subsection \<open>The attempts on one chunk\<close>

lemma attempts_requests: "1 \<le> a \<Longrightarrow> a \<le> 2 \<Longrightarrow> cr_requests (run_attempts env dl i a l e) \<le> 3 - a"
proof -
  have last: "cr_requests (run_attempts env dl i 2 l e) \<le> 1" for l e
    by (subst run_attempts.simps) (simp add: Let_def split: sum.split)
  assume "1 \<le> a" "a \<le> 2"
  then have "a = 1 \<or> a = 2" by auto
  moreover have "cr_requests (run_attempts env dl i 1 l e) \<le> 2" for l e
    using last by (subst run_attempts.simps) (simp add: Let_def numeral_2_eq_2 split: sum.split)
  ultimately show ?thesis using last by auto
qed

lemma attempts_failure:
  "cr_failure (run_attempts env dl i a l e) = Some f \<Longrightarrow> mf_chunkIndex f = i \<and> mf_kind f \<noteq> ALREADY_ACCEPTED"
proof (induction env dl i a l e rule: run_attempts.induct)
  case (1 env dl i a l e)
  show ?case using "1.prems" "1.IH"
    by (subst (asm) run_attempts.simps) (auto simp: Let_def split: if_splits sum.splits)
qed

text \<open>The answer to a request that counts as accepted.\<close>

definition accepted :: "line_env \<Rightarrow> nat \<Rightarrow> nat \<Rightarrow> bool" where
  "accepted env i a = (case withTimeout (line_answer env i a) LINE_CALL_TIMEOUT_MS of
       Inr _ \<Rightarrow> True | Inl err \<Rightarrow> lc_kind (classifyLineError err) = ALREADY_ACCEPTED)"

lemma attempts_accepted:
  "cr_failure (run_attempts env dl i a l e) = None \<Longrightarrow>
     cr_requests (run_attempts env dl i a l e) > 0 \<and> (\<exists>b \<ge> a. accepted env i b)"
proof (induction env dl i a l e rule: run_attempts.induct)
  case (1 env dl i a l e)
  let ?r = "withTimeout (line_answer env i a) LINE_CALL_TIMEOUT_MS"
  have open_: "\<not> past_deadline env dl i a"
    using "1.prems" by (subst (asm) run_attempts.simps) (auto split: if_splits)
  show ?case
  proof (cases "accepted env i a")
    case True
    then show ?thesis using open_
      by (subst run_attempts.simps) (auto simp: accepted_def Let_def split: sum.splits)
  next
    case False
    then obtain err where err: "?r = Inl err" "lc_kind (classifyLineError err) \<noteq> ALREADY_ACCEPTED"
      by (auto simp: accepted_def split: sum.splits)
    have again: "lc_kind (classifyLineError err) = TRANSIENT \<and> a < 2"
      using "1.prems" open_ err by (subst (asm) run_attempts.simps) (auto simp: Let_def split: if_splits)
    have step: "run_attempts env dl i a l e = (let r = run_attempts env dl i (a + 1) a (Some err) in r\<lparr>cr_requests := cr_requests r + 1\<rparr>)"
      using open_ err again by (subst run_attempts.simps) simp
    have "cr_failure (run_attempts env dl i (a + 1) a (Some err)) = None" using "1.prems" step by (simp add: Let_def)
    from "1.IH" [OF open_ err(1) refl err(2) again this] obtain b where "a + 1 \<le> b" "accepted env i b" by blast
    then show ?thesis using step by (auto simp: Let_def intro!: exI [of _ b])
  qed
qed

subsection \<open>All chunks\<close>

definition request_of :: "line_event \<Rightarrow> (string list \<times> string) option" where
  "request_of ev = (case ev of MulticastRequest to messages key \<Rightarrow> Some (to, key) | _ \<Rightarrow> None)"

text \<open>The recipients and the key of every request made.\<close>

definition requests_of :: "line_event list \<Rightarrow> (string list \<times> string) list" where
  "requests_of es = List.map_filter request_of es"

lemma requests_of_simps [simp]:
  "requests_of [] = []" "requests_of (es @ fs) = requests_of es @ requests_of fs"
  "requests_of (MulticastRequest to ms key # es) = (to, key) # requests_of es"
  "requests_of (IncidentReport x y z # es) = requests_of es"
  "requests_of (LineDeliveryFailed k st # es) = requests_of es"
  by (simp_all add: requests_of_def request_of_def List.map_filter_def)

lemma requests_of_replicate [simp]: "requests_of (replicate n (MulticastRequest to ms key)) = replicate n (to, key)"
  by (induction n) auto

lemma requests_of_report [simp]:
  "requests_of (chunk_report env i r # es) = requests_of es" "requests_of (delivery_trigger out) = []"
  by (simp_all add: chunk_report_def delivery_trigger_def split: option.splits)

lemma send_chunks_requests:
  "send_chunks env ms seed dl i cs out = (final, es) \<Longrightarrow>
     set (requests_of es) \<subseteq> (\<lambda>c. (c, lineRetryKey (sha_1 env) seed c)) ` set cs \<and>
     length (requests_of es) \<le> 2 * length cs \<and>
     mo_requestCount final = mo_requestCount out + length (requests_of es)"
proof (induction cs arbitrary: i out final es)
  case Nil
  then show ?case by simp
next
  case (Cons c cs)
  let ?r = "run_attempts env dl i 1 0 None"
  have two: "cr_requests ?r \<le> 2" using attempts_requests [of 1 env dl i 0 None] by simp
  show ?case
  proof (cases "cr_failure ?r")
    case (Some f)
    then show ?thesis using Cons.prems two by (auto simp: Let_def)
  next
    case None
    let ?out = "out\<lparr>mo_requestCount := mo_requestCount out + cr_requests ?r, mo_acceptedCount := mo_acceptedCount out + length c\<rparr>"
    obtain later where run: "send_chunks env ms seed dl (i + 1) cs ?out = (final, later)"
      and es: "es = replicate (cr_requests ?r) (MulticastRequest c ms (lineRetryKey (sha_1 env) seed c)) @ [chunk_report env i ?r] @ later"
      using Cons.prems None by (auto simp: Let_def split: prod.splits)
    show ?thesis using Cons.IH [OF run] two unfolding es by auto
  qed
qed

lemma send_chunks_counts:
  assumes "send_chunks env ms seed dl i cs out = (final, es)" "mo_failure out = None"
  shows "mo_targetedCount final = mo_targetedCount out \<and> (\<exists>n \<le> length cs.
     mo_acceptedCount final = mo_acceptedCount out + length (concat (take n cs)) \<and>
     (\<forall>j < n. \<exists>b. accepted env (i + j) b) \<and>
     (case mo_failure final of None \<Rightarrow> n = length cs
      | Some f \<Rightarrow> n < length cs \<and> mf_chunkIndex f = i + n \<and> mf_kind f \<noteq> ALREADY_ACCEPTED))"
  using assms
proof (induction cs arbitrary: i out final es)
  case Nil
  then show ?case by auto
next
  case (Cons c cs)
  let ?r = "run_attempts env dl i 1 0 None"
  show ?case
  proof (cases "cr_failure ?r")
    case (Some f)
    then show ?thesis using Cons.prems attempts_failure [OF Some] by (auto simp: Let_def)
  next
    case None
    let ?out = "out\<lparr>mo_requestCount := mo_requestCount out + cr_requests ?r, mo_acceptedCount := mo_acceptedCount out + length c\<rparr>"
    obtain later where "send_chunks env ms seed dl (i + 1) cs ?out = (final, later)"
      using Cons.prems None by (auto simp: Let_def split: prod.splits)
    from Cons.IH [OF this] Cons.prems(2) obtain n where n: "mo_targetedCount final = mo_targetedCount out" "n \<le> length cs"
      "mo_acceptedCount final = mo_acceptedCount out + length c + length (concat (take n cs))"
      "\<forall>j < n. \<exists>b. accepted env (i + 1 + j) b"
      "case mo_failure final of None \<Rightarrow> n = length cs
       | Some f \<Rightarrow> n < length cs \<and> mf_chunkIndex f = i + 1 + n \<and> mf_kind f \<noteq> ALREADY_ACCEPTED"
      by auto
    have "\<forall>j < Suc n. \<exists>b. accepted env (i + j) b"
      using n(4) attempts_accepted [OF None] by (metis add.commute add_0 add_Suc_right less_Suc_eq_0_disj plus_1_eq_Suc)
    then show ?thesis using n by (intro conjI exI [of _ "Suc n"]) (auto split: option.splits)
  qed
qed

subsection \<open>The whole multicast\<close>

lemma js_set_facts [simp]: "set (js_set xs) = set xs" "distinct (js_set xs)" "length (js_set xs) = card (set xs)"
  by (simp_all add: js_set_def length_remdups_card_conv)

lemma js_set_Nil [simp]: "js_set xs = [] \<longleftrightarrow> xs = []"
  using js_set_facts(1) [of xs] by (cases "js_set xs"; cases xs) auto

abbreviation line_chunks :: "string list \<Rightarrow> string list list" where
  "line_chunks to \<equiv> chunks (LINE_MULTICAST_MAX_RECIPIENTS - 1) (js_set to)"

lemma multicast_requests:
  assumes "multicast_run env to ms seed dl = (out, es)"
  shows "set (requests_of es) \<subseteq> (\<lambda>c. (c, lineRetryKey (sha_1 env) seed c)) ` set (line_chunks to)"
    and "length (requests_of es) \<le> 2 * length (line_chunks to)"
    and "mo_requestCount out = length (requests_of es)"
proof -
  have "set (requests_of es) \<subseteq> (\<lambda>c. (c, lineRetryKey (sha_1 env) seed c)) ` set (line_chunks to) \<and>
     length (requests_of es) \<le> 2 * length (line_chunks to) \<and> mo_requestCount out = length (requests_of es)"
  proof (cases "js_set to = [] \<or> \<not> has_client env")
    case True
    then show ?thesis using assms by (auto simp: multicast_run_def Let_def split: if_splits)
  next
    case False
    then obtain es' where "send_chunks env ms seed dl 0 (line_chunks to)
        \<lparr>mo_targetedCount = length (js_set to), mo_acceptedCount = 0, mo_requestCount = 0, mo_failure = None\<rparr> = (out, es')"
      "es = es' @ delivery_trigger out"
      using assms by (auto simp: multicast_run_def Let_def split: prod.splits)
    then show ?thesis using send_chunks_requests by fastforce
  qed
  then show "set (requests_of es) \<subseteq> (\<lambda>c. (c, lineRetryKey (sha_1 env) seed c)) ` set (line_chunks to)"
    "length (requests_of es) \<le> 2 * length (line_chunks to)" "mo_requestCount out = length (requests_of es)" by auto
qed

lemma line_chunks_bounds:
  assumes "c \<in> set (line_chunks to)"
  shows "c \<noteq> []" "length c \<le> LINE_MULTICAST_MAX_RECIPIENTS" "distinct c" "set c \<subseteq> set to"
proof -
  show "c \<noteq> []" "length c \<le> LINE_MULTICAST_MAX_RECIPIENTS"
    using chunks_bounds [OF assms] by (auto simp: LINE_MULTICAST_MAX_RECIPIENTS_def)
  have "distinct (concat (line_chunks to))" by simp
  then show "distinct c" using assms by (auto simp: distinct_concat_iff simp del: concat_chunks)
  have "set c \<subseteq> set (concat (line_chunks to))" using assms by (auto simp del: concat_chunks)
  then show "set c \<subseteq> set to" by simp
qed

lemma distinct_line_chunks: "distinct (concat (line_chunks to))"
  by simp

lemma length_line_chunks: "length (line_chunks to) = (card (set to) + 499) div 500"
proof -
  have "length (chunks 499 xs) = (length xs + 499) div 500" for xs :: "string list"
  proof (induction "499 :: nat" xs rule: chunks.induct)
    case 1
    then show ?case by simp
  next
    case (2 x xs)
    have "Suc ((length xs - 499 + 499) div 500) = (500 + length xs) div 500"
      by (cases "499 \<le> length xs") (auto simp: div_add_self1)
    then show ?case using 2 by simp
  qed
  then show ?thesis by (simp add: LINE_MULTICAST_MAX_RECIPIENTS_def)
qed

lemma full_chunks:
  assumes "n < length (line_chunks to)"
  shows "length (concat (take n (line_chunks to))) = LINE_MULTICAST_MAX_RECIPIENTS * n"
  using assms
proof (induction n)
  case 0
  then show ?case by simp
next
  case (Suc n)
  let ?cs = "line_chunks to"
  have split: "?cs = take n ?cs @ ?cs ! n # drop (Suc n) ?cs" using Suc.prems by (simp add: id_take_nth_drop)
  have "length (?cs ! n) = LINE_MULTICAST_MAX_RECIPIENTS"
    using chunks_full [OF split] Suc.prems by (simp add: LINE_MULTICAST_MAX_RECIPIENTS_def)
  then show ?case using Suc by (simp add: take_Suc_conv_app_nth)
qed


subsection \<open>The hashed text\<close>

lemma js_join_no_sep:
  assumes "js_join [c] (x # xs) = js_join [c] (y # ys)" "c \<notin> set x" "c \<notin> set y"
  shows "x = y"
proof -
  have "takeWhile (\<lambda>d. d \<noteq> c) (js_join [c] (z # zs)) = z" if "c \<notin> set z" for z zs
    using that by (cases zs) (auto simp: takeWhile_append takeWhile_eq_all_conv)
  then show ?thesis using assms by metis
qed

lemma js_join_inj:
  assumes "js_join [c] xs = js_join [c] ys"
    and "\<forall>x \<in> set (xs @ ys). x \<noteq> [] \<and> c \<notin> set x"
  shows "xs = ys"
  using assms
proof (induction xs arbitrary: ys)
  case Nil
  then show ?case by (cases ys; cases "tl ys") auto
next
  case (Cons x xs)
  then obtain y ys' where ys: "ys = y # ys'" by (cases ys; cases xs) auto
  have xy: "x = y" using js_join_no_sep [of c x xs y ys'] Cons.prems ys by auto
  have "js_join [c] xs = js_join [c] ys'"
    using Cons.prems(1) unfolding ys xy by (cases xs; cases ys') auto
  then show ?case using Cons ys xy by auto
qed

lemma user_id_text: "LINE_USER_ID_PATTERN s \<Longrightarrow> s \<noteq> [] \<and> CHR '','' \<notin> set s"
proof -
  assume "LINE_USER_ID_PATTERN s"
  then obtain cs where s: "s = CHR ''U'' # cs" "list_all lower_hex cs"
    by (auto simp: LINE_USER_ID_PATTERN_def split: list.splits)
  moreover have "\<not> lower_hex (CHR '','')" by (simp add: lower_hex_def)
  ultimately show ?thesis by (auto simp: list_all_iff)
qed

lemma retry_name_members: "mset c = mset d \<Longrightarrow> retry_name seed c = retry_name seed d"
  using properties_for_sort [of "sort d" c] by (simp add: retry_name_def)

lemma retry_name_inj:
  assumes "retry_name seed c = retry_name seed d" "list_all LINE_USER_ID_PATTERN c" "list_all LINE_USER_ID_PATTERN d"
  shows "mset c = mset d"
proof -
  have "js_join '','' (sort c) = js_join '','' (sort d)" using assms(1) by (simp add: retry_name_def)
  then have "sort c = sort d"
    by (rule js_join_inj) (use assms(2,3) user_id_text in \<open>auto simp: list_all_iff\<close>)
  then show ?thesis by (metis mset_sort)
qed

subsection \<open>The shape of a UUID\<close>

lemma drop_version: "unat (drop_bit 4 ((b AND 15) OR 80 :: byte)) = 5"
  by (simp add: drop_bit_or drop_bit_and)

lemma nibble_two_bits: "unat (w AND 3 :: byte) \<in> {0, 1, 2, 3}"
proof -
  have "unat (w AND 3 :: byte) \<le> unat (3 :: byte)"
    by (rule word_and_le1 [THEN word_le_nat_alt [THEN iffD1]])
  then show ?thesis by auto
qed

lemma drop_variant: "unat (drop_bit 4 ((b AND 63) OR 128 :: byte)) \<in> {8, 9, 10, 11}"
proof -
  have split: "drop_bit 4 ((b AND 63) OR 128) = (drop_bit 4 b AND 3) OR (8 :: byte)"
    by (simp add: drop_bit_or drop_bit_and)
  have "drop_bit 4 b AND 3 \<in> {0, 1, 2, 3 :: byte}"
    using nibble_two_bits [of "drop_bit 4 b"] by (auto simp: word_unat_eq_iff)
  then show ?thesis unfolding split by auto
qed

lemma length_16:
  assumes "length b = 16"
  obtains b0 b1 b2 b3 b4 b5 b6 b7 b8 b9 b10 b11 b12 b13 b14 b15
  where "b = [b0, b1, b2, b3, b4, b5, b6, b7, b8, b9, b10, b11, b12, b13, b14, b15]"
  using assms by (auto simp: numeral_eq_Suc length_Suc_conv)

lemma hex_digit_variant: "n \<in> {8, 9, 10, 11} \<Longrightarrow> hex_digit n \<in> set ''89ab''"
  by (auto simp: hex_digit_def)

lemma uuid_shape:
  assumes "\<And>bs. length (sha bs) = 20"
  shows "length (uuidV5 sha ns name) = 36 \<and> uuidV5 sha ns name ! 14 = CHR ''5'' \<and> uuidV5 sha ns name ! 19 \<in> set ''89ab''"
proof -
  let ?b = "js_slice 0 16 (sha (bytes_of_hex (filter (\<lambda>c. c \<noteq> CHR ''-'') ns) @ map of_char name))"
  have "length ?b = 16" using assms by (simp add: js_slice_def)
  then obtain b0 b1 b2 b3 b4 b5 b6 b7 b8 b9 b10 b11 b12 b13 b14 b15
    where b: "?b = [b0, b1, b2, b3, b4, b5, b6, b7, b8, b9, b10, b11, b12, b13, b14, b15]" by (rule length_16)
  let ?u = "uuidV5 sha ns name"
  have u: "?u = (let h = concat (map hex_byte [b0, b1, b2, b3, b4, b5, (b6 AND 15) OR 80, b7, (b8 AND 63) OR 128, b9, b10, b11, b12, b13, b14, b15])
      in js_slice 0 8 h @ ''-'' @ js_slice 8 12 h @ ''-'' @ js_slice 12 16 h @ ''-'' @ js_slice 16 20 h @ ''-'' @ drop 20 h)"
    unfolding uuidV5_def b Let_def by (simp add: version_5_def rfc_variant_def)
  have "hex_digit (unat (drop_bit 4 ((b6 AND 15) OR 80))) = CHR ''5''" by (simp only: drop_version) (simp add: hex_digit_def)
  moreover have "hex_digit (unat (drop_bit 4 ((b8 AND 63) OR 128))) \<in> set ''89ab''" by (rule hex_digit_variant [OF drop_variant])
  ultimately show ?thesis unfolding u Let_def by (simp add: hex_byte_def js_slice_def)
qed

end
