(* ===== verification/AnnouncementSends.thy ===== *)
theory AnnouncementSends
  imports AnnouncementSystem LineFacts
begin

text \<open>
  A send whose row nobody else touches, statement failures included: it ends refused before LINE is
  called, with the row marked and nothing to deliver, or after one multicast.
\<close>

definition quiet :: "announce_env \<Rightarrow> bool" where
  "quiet env \<longleftrightarrow> (\<forall>k s. others env k s = s)"

lemma undisturbed_quiet: "undisturbed env \<Longrightarrow> quiet env"
  by (simp add: quiet_def undisturbed_def)

lemma run_quiet:
  assumes "quiet env"
  shows "fetch env k f w = (case breaks env k of Some e \<Rightarrow> (Inl (Thrown e), w) | None \<Rightarrow> (Inr (f (mine w)), w))"
    and "put env k g w = (case breaks env k of Some e \<Rightarrow> (Inl (Thrown e), w)
      | None \<Rightarrow> (case g (mine w) of Inl e \<Rightarrow> (Inl (Thrown e), w) | Inr (s, a) \<Rightarrow> (Inr a, w\<lparr>mine := s\<rparr>)))"
proof -
  have "meanwhile env k w = w" using assms by (simp add: quiet_def meanwhile_def)
  then show "fetch env k f w = (case breaks env k of Some e \<Rightarrow> (Inl (Thrown e), w) | None \<Rightarrow> (Inr (f (mine w)), w))"
    "put env k g w = (case breaks env k of Some e \<Rightarrow> (Inl (Thrown e), w)
      | None \<Rightarrow> (case g (mine w) of Inl e \<Rightarrow> (Inl (Thrown e), w) | Inr (s, a) \<Rightarrow> (Inr a, w\<lparr>mine := s\<rparr>)))"
    by (simp_all add: fetch_def put_def issue_def split: option.splits sum.splits)
qed

text \<open>Whom a draft would go to: \<open>None\<close> while its department is gone.\<close>

definition target_department :: "announcement_row \<Rightarrow> board \<Rightarrow> int option option" where
  "target_department a s = (if an_audience a = AUDIENCE_DEPARTMENT then
       (case an_departmentId a of None \<Rightarrow> None
        | Some d \<Rightarrow> if first_row (\<lambda>r. op_id r = d \<and> op_deletedAt r = None) (bd_departments s) = None then None else Some (Some d))
     else Some None)"

definition sendable :: "string \<Rightarrow> board \<Rightarrow> announcement_row \<Rightarrow> int option \<Rightarrow> bool" where
  "sendable i s a d \<longleftrightarrow> live_announcement i s = Some a \<and> row_at i s = Some a \<and> an_status a = DRAFT \<and> js_trim (an_body a) \<noteq> [] \<and>
     target_department a s = Some d"

definition send_multicast :: "announce_env \<Rightarrow> announcement_row \<Rightarrow> int option \<Rightarrow> board \<Rightarrow> multicast_outcome \<times> line_event list" where
  "send_multicast env a d s = multicast_run (an_line env) (recipients_of env d s) [announcement_message_of a (an_now env 5)]
     (retry_seed a) (Some (an_now env 0 + ANNOUNCEMENT_SEND_DEADLINE_MS))"

text \<open>The row as a send leaves it.\<close>

definition sent_board :: "announce_env \<Rightarrow> string \<Rightarrow> nat \<Rightarrow> board \<Rightarrow> board" where
  "sent_board env i n s = s\<lparr>announcements := set_where (\<lambda>a. an_id a = i)
     (\<lambda>a. a\<lparr>an_status := SENT, an_sentAt := Some (an_now env 5), an_sentCount := n, an_updatedAt := an_now env 4\<rparr>)
     (announcements s)\<rparr>"

lemma mark_sent_row:
  "row_at i s = Some a \<Longrightarrow> \<exists>d. mark_sent env i (an_now env 5) n s = Inr (sent_board env i n s, d) \<and> ad_sentCount d = n"
  by (simp add: mark_sent_def row_at_def sent_board_def Let_def toAnnouncementDto_def)

lemma run_multicast_single:
  "multicast line to [m] seed dl w = (case multicast_run line to [m] seed dl of (out, es) \<Rightarrow> (Inr out, w\<lparr>trace := trace w @ es\<rparr>))"
  by (simp add: multicast_def LINE_MULTICAST_MAX_MESSAGES_def act_run split: prod.splits)

lemma lock_run:
  assumes "quiet env" "lock_announcement env 0 i w = (r, w')"
  shows "w' = w \<and> ((\<exists>e. r = Inl e \<and> (undisturbed env \<longrightarrow> (\<exists>h. e = Refused h))) \<or>
    r = Inr (map_option an_status (live_announcement i (mine w))))"
  using assms by (auto simp: lock_announcement_def catching_def run_quiet act_run refuse_def undisturbed_simps split: option.splits if_splits)

lemma audience_run:
  assumes "quiet env" "audience_department env 2 a w = (r, w')"
  shows "w' = w \<and> ((\<exists>e. r = Inl e \<and> (undisturbed env \<longrightarrow> (\<exists>h. e = Refused h))) \<or> (\<exists>d. r = Inr d \<and> target_department a (mine w) = Some d))"
  using assms first_row_Some
  by (fastforce simp: audience_department_def target_department_def run_quiet act_run refuse_def undisturbed_simps split: option.splits if_splits)

lemma find_run:
  assumes "quiet env" "find_or_throw env 1 i w = (r, w')"
  shows "w' = w \<and> ((\<exists>e. r = Inl e \<and> \<not> (undisturbed env \<and> row_at i (mine w) \<noteq> None)) \<or> (\<exists>a. r = Inr a \<and> row_at i (mine w) = Some a))"
  using assms by (auto simp: find_or_throw_def run_quiet act_run row_at_def undisturbed_simps split: option.splits)

lemma andThen_ok: "m w = (Inr a, w1) \<Longrightarrow> andThen m f w = f a w1"
  by (simp add: andThen_def)

lemma andThenE:
  assumes "andThen m f w = (r, w')"
  obtains e where "m w = (Inl e, w')" "r = Inl e"
  | a w1 where "m w = (Inr a, w1)" "f a w1 = (r, w')"
  using assms by (auto simp: andThen_def split: prod.splits sum.splits)

text \<open>
  The three ways a send ends: turned away before LINE is called, marked with nobody to deliver to,
  or after one multicast, whose acceptance is what it commits.
\<close>

definition send_ends ::
  "announce_env \<Rightarrow> string \<Rightarrow> (board, line_event) store \<Rightarrow>
   (announcement_problem stop + (announcement_dto \<times> multicast_outcome option)) \<Rightarrow> (board, line_event) store \<Rightarrow> bool"
where
  "send_ends env i w r w' \<longleftrightarrow>
     (\<exists>e. r = Inl e \<and> w' = w \<and> (undisturbed env \<longrightarrow> (\<exists>h. e = Refused h))) \<or>
     (\<exists>a d dto. sendable i (mine w) a d \<and> recipients_of env d (mine w) = [] \<and> ad_sentCount dto = 0 \<and>
        r = Inr (dto, None) \<and> w' = w\<lparr>mine := sent_board env i 0 (mine w)\<rparr>) \<or>
     (\<exists>a d out es. sendable i (mine w) a d \<and> recipients_of env d (mine w) \<noteq> [] \<and>
        send_multicast env a d (mine w) = (out, es) \<and>
        ((\<exists>e. r = Inl e \<and> w' = w\<lparr>trace := trace w @ es\<rparr> \<and>
            (undisturbed env \<longrightarrow> mo_acceptedCount out = 0 \<and> (\<exists>h. e = Refused h))) \<or>
         (\<exists>dto. mo_acceptedCount out \<noteq> 0 \<and> ad_sentCount dto = mo_acceptedCount out \<and> r = Inr (dto, Some out) \<and>
            w' = w\<lparr>trace := trace w @ es, mine := sent_board env i (mo_acceptedCount out) (mine w)\<rparr>)))"

lemma send_ends_refused:
  "(undisturbed env \<Longrightarrow> \<exists>h. e = Refused h) \<Longrightarrow> send_ends env i w (Inl e) w"
  by (simp add: send_ends_def)

lemma send_ends_nobody:
  "sendable i (mine w) a d \<Longrightarrow> recipients_of env d (mine w) = [] \<Longrightarrow> ad_sentCount dto = 0 \<Longrightarrow>
     send_ends env i w (Inr (dto, None)) (w\<lparr>mine := sent_board env i 0 (mine w)\<rparr>)"
  unfolding send_ends_def by blast

lemma send_ends_failed:
  "sendable i (mine w) a d \<Longrightarrow> recipients_of env d (mine w) \<noteq> [] \<Longrightarrow> send_multicast env a d (mine w) = (out, es) \<Longrightarrow>
     (undisturbed env \<Longrightarrow> mo_acceptedCount out = 0 \<and> (\<exists>h. e = Refused h)) \<Longrightarrow>
     send_ends env i w (Inl e) (w\<lparr>trace := trace w @ es\<rparr>)"
  unfolding send_ends_def by blast

lemma send_ends_sent:
  "sendable i (mine w) a d \<Longrightarrow> recipients_of env d (mine w) \<noteq> [] \<Longrightarrow> send_multicast env a d (mine w) = (out, es) \<Longrightarrow>
     mo_acceptedCount out \<noteq> 0 \<Longrightarrow> ad_sentCount dto = mo_acceptedCount out \<Longrightarrow>
     send_ends env i w (Inr (dto, Some out)) (w\<lparr>trace := trace w @ es, mine := sent_board env i (mo_acceptedCount out) (mine w)\<rparr>)"
  unfolding send_ends_def by blast

lemma fault_disturbs: "breaks env k = Some e \<Longrightarrow> \<not> undisturbed env"
  by (auto simp: undisturbed_simps)

lemma mark_run:
  assumes "quiet env" "row_at i (mine w) = Some a"
  obtains (fault) e where "breaks env 4 = Some e"
      "(andThen (put env 4 (mark_sent env i (an_now env 5) n)) (\<lambda>x. done_with (g x)) :: 'b board_act) w = (Inl (Thrown e), w)"
  | (written) dto where "ad_sentCount dto = n" "(andThen (put env 4 (mark_sent env i (an_now env 5) n)) (\<lambda>x. done_with (g x)) :: 'b board_act) w =
      (Inr (g dto), w\<lparr>mine := sent_board env i n (mine w)\<rparr>)"
proof -
  obtain d where d: "mark_sent env i (an_now env 5) n (mine w) = Inr (sent_board env i n (mine w), d)" "ad_sentCount d = n"
    using mark_sent_row [OF assms(2), of env n] by blast
  show ?thesis
  proof (cases "breaks env 4")
    case None
    then show ?thesis using d by (intro written [of d]) (auto simp: run_quiet [OF assms(1)] act_run)
  next
    case (Some e)
    then show ?thesis by (intro fault [of e]) (auto simp: run_quiet [OF assms(1)] act_run)
  qed
qed

lemma send_delivery:
  assumes quiet: "quiet env" and ok: "sendable i (mine w) a d"
    and run: "(if recipients_of env d (mine w) = [] then
        andThen (put env 4 (mark_sent env i (an_now env 5) 0)) (\<lambda>written. done_with (written, None))
      else
        andThen (multicast (an_line env) (recipients_of env d (mine w)) [announcement_message_of a (an_now env 5)]
          (retry_seed a) (Some (an_now env 0 + ANNOUNCEMENT_SEND_DEADLINE_MS))) (\<lambda>result.
         if mo_acceptedCount result = 0 then
           refuse (lineSendError (case mo_failure result of None \<Rightarrow> TRANSIENT | Some f \<Rightarrow> mf_kind f))
         else
           andThen (put env 4 (mark_sent env i (an_now env 5) (mo_acceptedCount result))) (\<lambda>written.
             done_with (written, Some result)))) w = (r, w')"
  shows "send_ends env i w r w'"
proof (cases "recipients_of env d (mine w) = []")
  case True
  have row: "row_at i (mine w) = Some a" using ok by (simp add: sendable_def)
  show ?thesis
  proof (cases rule: mark_run [OF quiet row, of 0 "\<lambda>written. (written, None :: multicast_outcome option)", case_names fault written])
    case (fault e)
    then have "r = Inl (Thrown e)" "w' = w" using run True by simp_all
    then show ?thesis using send_ends_refused fault_disturbs [OF fault(1)] by blast
  next
    case (written dto)
    then have "r = Inr (dto, None)" "w' = w\<lparr>mine := sent_board env i 0 (mine w)\<rparr>" using run True by simp_all
    then show ?thesis using send_ends_nobody [OF ok True written(1)] by simp
  qed
next
  case False
  obtain out es where out: "send_multicast env a d (mine w) = (out, es)" by fastforce
  let ?w = "w\<lparr>trace := trace w @ es\<rparr>"
  have row: "row_at i (mine ?w) = Some a" using ok by (simp add: sendable_def)
  let ?m = "multicast (an_line env) (recipients_of env d (mine w)) [announcement_message_of a (an_now env 5)]
      (retry_seed a) (Some (an_now env 0 + ANNOUNCEMENT_SEND_DEADLINE_MS)) :: multicast_outcome board_act"
  have cast: "?m w = (Inr out, ?w)"
    using out by (simp add: run_multicast_single send_multicast_def)
  have rest: "(if mo_acceptedCount out = 0 then
           refuse (lineSendError (case mo_failure out of None \<Rightarrow> TRANSIENT | Some f \<Rightarrow> mf_kind f))
         else
           andThen (put env 4 (mark_sent env i (an_now env 5) (mo_acceptedCount out))) (\<lambda>written.
             done_with (written, Some out))) ?w = (r, w')"
    using run False by (simp only: andThen_def [of ?m] cast if_False prod.case sum.case)
  show ?thesis
  proof (cases "mo_acceptedCount out = 0")
    case True
    then have "r = Inl (Refused (lineSendError (case mo_failure out of None \<Rightarrow> TRANSIENT | Some f \<Rightarrow> mf_kind f)))" "w' = ?w"
      using rest by (simp_all add: refuse_def act_run)
    then show ?thesis using send_ends_failed [OF ok False out] True by blast
  next
    case nonzero: False
    show ?thesis
    proof (cases rule: mark_run [OF quiet row, of "mo_acceptedCount out" "\<lambda>written. (written, Some out)", case_names fault written])
      case (fault e)
      then have "r = Inl (Thrown e)" "w' = ?w" using rest nonzero by simp_all
      then show ?thesis using send_ends_failed [OF ok False out] fault_disturbs [OF fault(1)] by blast
    next
      case (written dto)
      then have "r = Inr (dto, Some out)" "w' = ?w\<lparr>mine := sent_board env i (mo_acceptedCount out) (mine w)\<rparr>"
        using rest nonzero by simp_all
      then show ?thesis using send_ends_sent [OF ok False out nonzero written(1)] by simp
    qed
  qed
qed

text \<open>A step that leaves the store alone: what follows it decides.\<close>

lemma send_step:
  assumes "andThen m f w = (r, w')"
    and "\<And>e w1. m w = (Inl e, w1) \<Longrightarrow> w1 = w \<and> (undisturbed env \<longrightarrow> (\<exists>h. e = Refused h))"
    and "\<And>a w1. m w = (Inr a, w1) \<Longrightarrow> f a w1 = (r, w') \<Longrightarrow> send_ends env i w r w'"
  shows "send_ends env i w r w'"
  using assms(1)
proof (cases rule: andThenE)
  case (1 e)
  then show ?thesis using assms(2) send_ends_refused by blast
next
  case (2 a w1)
  then show ?thesis by (rule assms(3))
qed

lemma send_recipients:
  assumes quiet: "quiet env" and ok: "sendable i (mine w) a d"
    and run: "andThen (resolveRecipients env 3 d) (\<lambda>to. if to = [] then
        andThen (put env 4 (mark_sent env i (an_now env 5) 0)) (\<lambda>written. done_with (written, None))
      else
        andThen (multicast (an_line env) to [announcement_message_of a (an_now env 5)]
          (retry_seed a) (Some (an_now env 0 + ANNOUNCEMENT_SEND_DEADLINE_MS))) (\<lambda>result.
         if mo_acceptedCount result = 0 then
           refuse (lineSendError (case mo_failure result of None \<Rightarrow> TRANSIENT | Some f \<Rightarrow> mf_kind f))
         else
           andThen (put env 4 (mark_sent env i (an_now env 5) (mo_acceptedCount result))) (\<lambda>written.
             done_with (written, Some result)))) w = (r, w')"
  shows "send_ends env i w r w'"
proof (rule send_step [OF run])
  fix e w1 assume "resolveRecipients env 3 d w = (Inl e, w1)"
  then show "w1 = w \<and> (undisturbed env \<longrightarrow> (\<exists>h. e = Refused h))"
    using fault_disturbs [of env 3] by (auto simp: resolveRecipients_def run_quiet [OF quiet] split: option.splits)
next
  fix to w1 assume "resolveRecipients env 3 d w = (Inr to, w1)"
  then have to: "to = recipients_of env d (mine w)" and w1: "w1 = w"
    by (auto simp: resolveRecipients_def run_quiet [OF quiet] split: option.splits)
  assume rest: "(if to = [] then andThen (put env 4 (mark_sent env i (an_now env 5) 0)) (\<lambda>written. done_with (written, None))
      else andThen (multicast (an_line env) to [announcement_message_of a (an_now env 5)]
          (retry_seed a) (Some (an_now env 0 + ANNOUNCEMENT_SEND_DEADLINE_MS))) (\<lambda>result.
         if mo_acceptedCount result = 0 then
           refuse (lineSendError (case mo_failure result of None \<Rightarrow> TRANSIENT | Some f \<Rightarrow> mf_kind f))
         else
           andThen (put env 4 (mark_sent env i (an_now env 5) (mo_acceptedCount result))) (\<lambda>written.
             done_with (written, Some result)))) w1 = (r, w')"
  show "send_ends env i w r w'" by (rule send_delivery [OF quiet ok rest [unfolded to w1]])
qed

text \<open>\<open>refuse\<close> and \<open>check\<close> leave the store alone.\<close>

lemma check_run: "check c (err :: announcement_problem http_error) w = (x, w1) \<Longrightarrow>
    w1 = w \<and> (c \<and> x = Inr () \<or> \<not> c \<and> x = Inl (Refused err))"
  by (auto simp: act_run split: if_splits)

lemma need_run: "need y (err :: announcement_problem http_error) w = (x, w1) \<Longrightarrow>
    w1 = w \<and> (case y of None \<Rightarrow> x = Inl (Refused err) | Some a \<Rightarrow> x = Inr a)"
  by (auto simp: act_run split: option.splits)

lemma not_sent: "st \<noteq> SENT \<Longrightarrow> st = DRAFT"
  by (cases st) auto

lemma send_work_ends:
  assumes quiet: "quiet env" and ok: "board_ok (mine w)" and run: "send_work env i w = (r, w')"
  shows "send_ends env i w r w'"
  using run unfolding send_work_def Let_def
  apply (rule send_step)
  using lock_run [OF quiet] apply blast
  apply (frule lock_run [OF quiet], clarsimp)
  apply (erule send_step)
  apply (drule need_run, force split: option.splits)
  apply (drule need_run, clarsimp split: option.splits)
  apply (frule live_is_row [OF ok])
  apply (erule send_step)
  apply (drule check_run, force)
  apply (drule check_run, clarsimp)
  apply (erule send_step)
  apply (drule find_run [OF quiet, unfolded One_nat_def], force)
  apply (drule find_run [OF quiet, unfolded One_nat_def], clarsimp)
  apply (erule send_step)
  apply (drule check_run, force)
  apply (drule check_run, clarsimp)
  apply (erule send_step)
  apply (drule audience_run [OF quiet], force)
  apply (drule audience_run [OF quiet], clarsimp)
  apply (erule send_recipients [OF quiet, rotated])
  apply (simp add: sendable_def not_sent)
  done

subsection \<open>The answer of a send\<close>

definition partial_error :: "multicast_outcome \<Rightarrow> announcement_problem http_error" where
  "partial_error out = BadGateway (Coded CODE_PARTIALLY_SENT ANNOUNCEMENT_PARTIALLY_SENT
     (Some (mo_acceptedCount out, mo_targetedCount out)))"

definition send_answers ::
  "announce_env \<Rightarrow> string \<Rightarrow> board \<Rightarrow> (announcement_problem stop + announcement_dto) \<Rightarrow> board \<Rightarrow> line_event list \<Rightarrow> bool"
where
  "send_answers env i s r s' es \<longleftrightarrow>
     (es = [] \<and> s' = s \<and> (\<exists>e. r = Inl e \<and> (undisturbed env \<longrightarrow> (\<exists>h. e = Refused h)))) \<or>
     (\<exists>a d dto. sendable i s a d \<and> recipients_of env d s = [] \<and> es = [] \<and> s' = sent_board env i 0 s \<and>
        r = Inr dto \<and> ad_sentCount dto = 0) \<or>
     (\<exists>a d out. sendable i s a d \<and> recipients_of env d s \<noteq> [] \<and> send_multicast env a d s = (out, es) \<and>
        (s' = s \<and> (\<exists>e. r = Inl e \<and> (undisturbed env \<longrightarrow> mo_acceptedCount out = 0 \<and> (\<exists>h. e = Refused h))) \<or>
         mo_acceptedCount out \<noteq> 0 \<and> s' = sent_board env i (mo_acceptedCount out) s \<and>
           (case mo_failure out of None \<Rightarrow> \<exists>dto. r = Inr dto \<and> ad_sentCount dto = mo_acceptedCount out
            | Some f \<Rightarrow> r = Inl (Refused (partial_error out)))))"

lemma map_send_error_refused [simp]: "map_send_error (Refused h) = Refused h"
  by (simp add: map_send_error_def)

lemma send_run:
  assumes "send_work env i w = (r, w1)"
  shows "send_announcement env i w = (case r of
      Inl e \<Rightarrow> (Inl (map_send_error e), w1\<lparr>mine := base w1\<rparr>)
    | Inr (dto, outcome) \<Rightarrow> ((case outcome of None \<Rightarrow> Inr dto
        | Some out \<Rightarrow> (case mo_failure out of None \<Rightarrow> Inr dto | Some f \<Rightarrow> Inl (Refused (partial_error out)))),
        w1\<lparr>base := mine w1\<rparr>))"
  using assms by (auto simp: send_announcement_def act_run catching_def refuse_def partial_error_def
      split: sum.splits option.splits)

lemma send_answers_all:
  assumes "quiet env" "board_ok s" "answer (send_announcement env i) s = (r, s', es)"
  shows "send_answers env i s r s' es"
proof -
  let ?w = "\<lparr>base = s, mine = s, trace = []\<rparr> :: (board, line_event) store"
  obtain r1 w1 where run: "send_work env i ?w = (r1, w1)" by fastforce
  have ends: "send_ends env i ?w r1 w1" using send_work_ends [OF assms(1) _ run] assms(2) by simp
  have got: "(r, s', es) = (case send_announcement env i ?w of (x, w) \<Rightarrow> (x, base w, trace w))"
    using assms(3) by (simp add: answer_def split: prod.splits)
  from ends consider
      (refused) e where "r1 = Inl e" "w1 = ?w" "undisturbed env \<longrightarrow> (\<exists>h. e = Refused h)"
    | (nobody) a d dto where "sendable i s a d" "recipients_of env d s = []" "ad_sentCount dto = 0"
        "r1 = Inr (dto, None)" "w1 = ?w\<lparr>mine := sent_board env i 0 s\<rparr>"
    | (failed) a d out fs e where "sendable i s a d" "recipients_of env d s \<noteq> []" "send_multicast env a d s = (out, fs)"
        "r1 = Inl e" "w1 = ?w\<lparr>trace := fs\<rparr>" "undisturbed env \<longrightarrow> mo_acceptedCount out = 0 \<and> (\<exists>h. e = Refused h)"
    | (sent) a d out fs dto where "sendable i s a d" "recipients_of env d s \<noteq> []" "send_multicast env a d s = (out, fs)"
        "mo_acceptedCount out \<noteq> 0" "ad_sentCount dto = mo_acceptedCount out" "r1 = Inr (dto, Some out)"
        "w1 = ?w\<lparr>trace := fs, mine := sent_board env i (mo_acceptedCount out) s\<rparr>"
    unfolding send_ends_def by auto
  then show ?thesis
  proof cases
    case refused
    then show ?thesis using got send_run [OF run] unfolding send_answers_def by auto
  next
    case nobody
    then show ?thesis using got send_run [OF run] unfolding send_answers_def by auto
  next
    case failed
    then have "es = fs" "s' = s"
      "\<exists>e. r = Inl e \<and> (undisturbed env \<longrightarrow> mo_acceptedCount out = 0 \<and> (\<exists>h. e = Refused h))"
      using got send_run [OF run] by auto
    then show ?thesis using failed(1-3) unfolding send_answers_def by blast
  next
    case sent
    then have "es = fs" "s' = sent_board env i (mo_acceptedCount out) s"
      "case mo_failure out of None \<Rightarrow> \<exists>dto. r = Inr dto \<and> ad_sentCount dto = mo_acceptedCount out
       | Some f \<Rightarrow> r = Inl (Refused (partial_error out))"
      using got send_run [OF run] by (auto split: option.splits)
    then show ?thesis using sent(1-4) unfolding send_answers_def by blast
  qed
qed

lemma multicast_accounts:
  assumes "multicast_run line to ms seed dl = (out, es)"
  shows "mo_targetedCount out = card (set to)"
    and "mo_acceptedCount out \<le> card (set to)"
    and "mo_failure out = None \<longleftrightarrow> mo_acceptedCount out = card (set to)"
    and "mo_failure out = Some f \<Longrightarrow> mo_acceptedCount out = LINE_MULTICAST_MAX_RECIPIENTS * mf_chunkIndex f \<and> mf_kind f \<noteq> ALREADY_ACCEPTED"
proof -
  have "mo_targetedCount out = card (set to) \<and> mo_acceptedCount out \<le> card (set to) \<and>
    (mo_failure out = None \<longleftrightarrow> mo_acceptedCount out = card (set to)) \<and>
    (\<forall>f. mo_failure out = Some f \<longrightarrow> mo_acceptedCount out = LINE_MULTICAST_MAX_RECIPIENTS * mf_chunkIndex f \<and> mf_kind f \<noteq> ALREADY_ACCEPTED)"
  proof (cases "js_set to = [] \<or> \<not> has_client line")
    case True
    then show ?thesis using assms
      by (auto simp: multicast_run_def Let_def split: if_splits)
  next
    case False
    let ?cs = "line_chunks to"
    obtain es' where "send_chunks line ms seed dl 0 ?cs
        \<lparr>mo_targetedCount = length (js_set to), mo_acceptedCount = 0, mo_requestCount = 0, mo_failure = None\<rparr> = (out, es')"
      using False assms by (auto simp: multicast_run_def Let_def split: prod.splits)
    from send_chunks_counts [OF this] obtain n where n: "mo_targetedCount out = card (set to)" "n \<le> length ?cs"
      "mo_acceptedCount out = length (concat (take n ?cs))"
      "case mo_failure out of None \<Rightarrow> n = length ?cs
       | Some f \<Rightarrow> n < length ?cs \<and> mf_chunkIndex f = 0 + n \<and> mf_kind f \<noteq> ALREADY_ACCEPTED" by auto
    have whole: "length (concat ?cs) = card (set to)" by simp
    show ?thesis
    proof (cases "mo_failure out")
      case None
      then show ?thesis using n whole by simp
    next
      case (Some f)
      have "concat ?cs = concat (take n ?cs) @ concat (drop n ?cs)" by (metis append_take_drop_id concat_append)
      moreover have "concat (drop n ?cs) \<noteq> []"
        using n(4) Some line_chunks_bounds(1) [of _ to] by (auto dest!: in_set_dropD simp: Cons_nth_drop_Suc [symmetric])
      ultimately have "length (concat (take n ?cs)) < card (set to)" using whole by (metis length_append length_greater_0_conv less_add_same_cancel1)
      then show ?thesis using n Some full_chunks [of n to] by simp
    qed
  qed
  then show "mo_targetedCount out = card (set to)" "mo_acceptedCount out \<le> card (set to)"
    "mo_failure out = None \<longleftrightarrow> mo_acceptedCount out = card (set to)"
    "mo_failure out = Some f \<Longrightarrow> mo_acceptedCount out = LINE_MULTICAST_MAX_RECIPIENTS * mf_chunkIndex f \<and> mf_kind f \<noteq> ALREADY_ACCEPTED"
    by auto
qed

end
