(* ===== verification/LikeSearch.thy ===== *)
theory LikeSearch
  imports Announcements
begin

text \<open>The search of the announcement list finds the term literally.\<close>

definition escaped_char :: "string \<Rightarrow> string list" where
  "escaped_char ch = (if ch \<in> {[BACKSLASH], ''%'', ''_''} then [[BACKSLASH], ch] else [ch])"

lemma special_bytes [simp]:
  "utf8_width BACKSLASH = 1" "utf8_width (CHR ''%'') = 1" "utf8_width (CHR ''_'') = 1"
  "\<not> continuation BACKSLASH" "\<not> continuation (CHR ''%'')" "\<not> continuation (CHR ''_'')"
  by (code_simp)+

lemma escapeLike_append: "escapeLike (s @ t) = escapeLike s @ escapeLike t"
  by (simp add: escapeLike_def)

lemma escapeLike_char:
  assumes "whole_char ch"
  shows "escapeLike ch = concat (escaped_char ch)"
proof -
  obtain c cs where ch: "ch = c # cs" "length ch = utf8_width c" "list_all continuation cs"
    using assms by (auto simp: whole_char_def split: list.splits)
  have plain: "escapeLike cs = cs" if "list_all continuation cs" for cs
    using that by (induction cs) (auto simp: escapeLike_def)
  show ?thesis
    using ch plain [OF ch(3)] by (auto simp: escapeLike_def escaped_char_def)
qed

lemma escapeLike_chars: "list_all whole_char cs \<Longrightarrow> escapeLike (concat cs) = concat (concat (map escaped_char cs))"
  by (induction cs) (auto simp: escapeLike_append escapeLike_char, simp add: escapeLike_def)

lemma whole_escaped: "list_all whole_char cs \<Longrightarrow> list_all whole_char (concat (map escaped_char cs))"
  by (induction cs) (auto simp: escaped_char_def whole_char_def)

lemma pattern_chars:
  assumes "valid_utf8 t"
  shows "utf8_chars (''%'' @ escapeLike t @ ''%'') = ''%'' # concat (map escaped_char (utf8_chars t)) @ [''%'']"
proof -
  let ?cs = "utf8_chars t"
  have whole: "list_all whole_char ?cs" using assms by (simp add: valid_utf8_def)
  have "escapeLike t = concat (concat (map escaped_char ?cs))" using escapeLike_chars [OF whole] by simp
  then have "''%'' @ escapeLike t @ ''%'' = concat (''%'' # concat (map escaped_char ?cs) @ [''%''])" by simp
  moreover have "list_all whole_char (''%'' # concat (map escaped_char ?cs) @ [''%''])"
    using whole_escaped [OF whole] by (simp add: whole_char_def)
  ultimately show ?thesis by (metis utf8_chars_concat)
qed

lemma like_percent: "sql_like (''%'' # ps) t \<longleftrightarrow> (\<exists>u v. t = u @ v \<and> sql_like ps v)"
proof (induction t)
  case Nil
  then show ?case by (simp add: sql_like.simps)
next
  case (Cons c t)
  have "sql_like (''%'' # ps) (c # t) \<longleftrightarrow> sql_like ps (c # t) \<or> sql_like (''%'' # ps) t" by (simp add: sql_like.simps)
  also have "\<dots> \<longleftrightarrow> (\<exists>u v. c # t = u @ v \<and> sql_like ps v)"
    unfolding Cons by (metis append_Cons append_Nil append_eq_Cons_conv)
  finally show ?case .
qed

lemma like_escaped_char: "sql_like (escaped_char ch @ ps) t \<longleftrightarrow> (\<exists>v. t = ch # v \<and> sql_like ps v)"
  by (auto simp: escaped_char_def sql_like.simps BACKSLASH_def split: list.splits)

lemma like_escaped: "sql_like (concat (map escaped_char cs) @ ps) t \<longleftrightarrow> (\<exists>v. t = cs @ v \<and> sql_like ps v)"
  by (induction cs arbitrary: t) (auto simp: like_escaped_char)

lemma like_literal: "sql_like (''%'' # concat (map escaped_char cs) @ [''%'']) t \<longleftrightarrow> sublist cs t"
proof -
  have "sql_like [''%''] v" for v using like_percent [of "[]" v] by (auto simp: sql_like.simps)
  then show ?thesis by (auto simp: like_percent like_escaped sublist_def)
qed

end
