(* ===== verification/AnnouncementSamples.thy ===== *)
theory AnnouncementSamples
  imports AnnouncementSends OfficeSamples LikeSearch
begin

text \<open>Concrete announcements, recipients and LINE clients for the witnesses.\<close>

text \<open>\<open>lower\<close> on ASCII.\<close>

definition ascii_lower :: "string \<Rightarrow> string" where
  "ascii_lower = map (\<lambda>c. let n = of_char c :: nat in if 65 \<le> n \<and> n \<le> 90 then char_of (n + 32) else c)"

definition sample_sha :: "byte list \<Rightarrow> byte list" where
  "sample_sha bs = take 20 (rev bs @ replicate 20 0)"

text \<open>A client that accepts everything, and one whose calls all fail on the network.\<close>

definition working_line :: line_env where
  "working_line = \<lparr>has_client = True, line_clock = \<lambda>_ _. 0, line_answer = \<lambda>_ _. (5, Inr ()), sha_1 = sample_sha,
     bot_answer = (5, Inl OtherRejection)\<rparr>"

definition broken_line :: line_env where
  "broken_line = working_line\<lparr>line_answer := \<lambda>_ _. (5, Inl OtherRejection)\<rparr>"

definition calm_board_env :: announce_env where
  "calm_board_env = \<lparr>others = \<lambda>_ s. s, breaks = \<lambda>_. None, an_now = \<lambda>k. 1000 + int k, an_new_id = ''a9'',
     an_collate = \<lambda>a b. if a = b then 0 else if a < b then -1 else 1, an_lower = ascii_lower,
     an_missing = JsError True (Some ''P2025'') None None NoTarget None None None None,
     an_duplicate = JsError True (Some ''P2002'') None None NoTarget None None None None, an_line = working_line\<rparr>"

definition draft_announcement :: announcement_row where
  "draft_announcement = \<lparr>an_id = ''a1'', an_title = ''T'', an_body = ''B'', an_format = TEXT, an_status = DRAFT,
     an_audience = AUDIENCE_ALL, an_departmentId = None, an_sentAt = None, an_sentCount = 0, an_deletedAt = None,
     an_createdById = Some ''s1'', an_createdAt = 7, an_updatedAt = 7\<rparr>"

definition line_id :: "char \<Rightarrow> string" where
  "line_id c = CHR ''U'' # replicate 32 c"

definition follower :: "string \<Rightarrow> char \<Rightarrow> line_user" where
  "follower i c = \<lparr>lu_id = i, lu_lineUserId = line_id c, lu_access = ACC_ALLOWED, lu_deletedAt = None,
     lu_registration = None, lu_notifications = None\<rparr>"

definition opted_out :: "line_user \<Rightarrow> line_user" where
  "opted_out u = u\<lparr>lu_notifications := Some (JObject [(''announcements'', JBool False)])\<rparr>"

definition sample_board :: board where
  "sample_board = \<lparr>announcements = [draft_announcement], bd_departments = [option_at 1 ''D'' False], bd_staff = [],
     bd_users = [follower ''u1'' (CHR ''a''), follower ''u2'' (CHR ''b'')]\<rparr>"

definition editor :: announcement_actor where
  "editor = \<lparr>aa_id = ''s1'', aa_includeReserved = False\<rparr>"

definition no_patch :: announcement_patch where
  "no_patch = \<lparr>pa_title = None, pa_body = None, pa_format = None, pa_audience = None, pa_departmentId = None\<rparr>"

definition title_patch :: announcement_patch where
  "title_patch = no_patch\<lparr>pa_title := Some ''T2''\<rparr>"

definition audience_patch :: announcement_patch where
  "audience_patch = no_patch\<lparr>pa_audience := Some AUDIENCE_DEPARTMENT, pa_departmentId := Some (Some 1)\<rparr>"

lemma calm_board_env_facts [simp]:
  "quiet calm_board_env" "undisturbed calm_board_env" "lawful calm_board_env" "lock_held calm_board_env i"
  by (simp_all add: calm_board_env_def quiet_def undisturbed_def lawful_def lock_held_def)

lemma sample_board_ok: "board_ok sample_board"
  by code_simp

text \<open>Another editor's audience change commits right before the write of a patch.\<close>

definition edit_before_write :: "nat \<Rightarrow> board \<Rightarrow> board" where
  "edit_before_write k s = (if k = 2 then leaves (update_announcement calm_board_env ''a1'' audience_patch editor) s else s)"

definition race_env :: announce_env where
  "race_env = calm_board_env\<lparr>others := edit_before_write\<rparr>"

lemma lawful_race: "lawful race_env"
proof -
  have "board_inv s (leaves (update_announcement calm_board_env ''a1'' audience_patch editor) s)" if "board_ok s" for s
    by (rule leaves_safe [OF safe_update]) (use that in \<open>simp_all add: board_inv_def\<close>)
  then show ?thesis by (simp add: lawful_def race_env_def edit_before_write_def board_inv_def)
qed

text \<open>The board with the other editor's change.\<close>

definition raced_board :: board where
  "raced_board = sample_board\<lparr>announcements := [draft_announcement\<lparr>an_audience := AUDIENCE_DEPARTMENT, an_departmentId := Some 1, an_updatedAt := 1002\<rparr>]\<rparr>"
lemma sample_board_rows: "announcements sample_board = [draft_announcement]" "bd_departments sample_board = [option_at 1 ''D'' False]"
  by (simp_all add: sample_board_def)

lemma edit_steps: "edit_before_write 2 sample_board = raced_board" "k \<noteq> 2 \<Longrightarrow> edit_before_write k s = s"
proof -
  show "edit_before_write 2 sample_board = raced_board"
    by (simp add: edit_before_write_def leaves_def answer_def update_announcement_def calm_board_env_def act_run undisturbed_def
       live_announcement_def first_row_def sample_board_rows draft_announcement_def audience_patch_def no_patch_def or_else_def
       resolveDepartmentId_def assignable_def option_at_def editor_def update_announcements_def set_where_def count_where_def
       draft_row_def edit_announcement_def get_announcement_def raced_board_def)
  show "k \<noteq> 2 \<Longrightarrow> edit_before_write k s = s" by (simp add: edit_before_write_def)
qed

text \<open>The network fails every call; and then the second follower turns announcements off.\<close>

definition broken_env :: announce_env where
  "broken_env = calm_board_env\<lparr>an_line := broken_line\<rparr>"

definition opted_out_board :: board where
  "opted_out_board = sample_board\<lparr>bd_users := [follower ''u1'' (CHR ''a''), opted_out (follower ''u2'' (CHR ''b''))]\<rparr>"

text \<open>A LINE that delivers the first request of every key, whatever it answered.\<close>

fun once_per_key :: "string list \<Rightarrow> (string list \<times> string) list \<Rightarrow> (string list \<times> string) list" where
  "once_per_key seen [] = []"
| "once_per_key seen (r # rs) = (if snd r \<in> set seen then once_per_key seen rs else r # once_per_key (snd r # seen) rs)"

lemma once_per_key_facts:
  "set (once_per_key seen rs) \<subseteq> set rs" "distinct (map snd (once_per_key seen rs))"
  "snd ` set (once_per_key seen rs) \<inter> set seen = {}"
proof -
  have "set (once_per_key seen rs) \<subseteq> set rs \<and> distinct (map snd (once_per_key seen rs)) \<and> snd ` set (once_per_key seen rs) \<inter> set seen = {}"
    by (induction seen rs rule: once_per_key.induct) auto
  then show "set (once_per_key seen rs) \<subseteq> set rs" "distinct (map snd (once_per_key seen rs))"
    "snd ` set (once_per_key seen rs) \<inter> set seen = {}" by auto
qed

definition sample_key :: "char list \<Rightarrow> string" where
  "sample_key cs = lineRetryKey sample_sha (retry_seed draft_announcement) (map line_id cs)"

lemma broken_requests:
  "requests_of (snd (snd (answer (send_announcement broken_env ''a1'') sample_board))) =
     replicate 2 (map line_id ''ab'', sample_key ''ab'')"
  by code_simp

lemma opted_out_requests:
  "requests_of (snd (snd (answer (send_announcement calm_board_env ''a1'') opted_out_board))) =
     [(map line_id ''a'', sample_key ''a'')]"
  by code_simp

lemma sample_keys_differ: "sample_key ''ab'' \<noteq> sample_key ''a''"
  by code_simp

end
