(* ===== verification/AnnouncementProperties.thy ===== *)
theory AnnouncementProperties
  imports AnnouncementSamples
begin

text \<open>The claims about announcements and multicasts, with their witnesses.\<close>

subsection \<open>Life cycle\<close>

text \<open>C24: Along any run of calls, whatever lawful commits others make in between and whichever
  statements fail, no announcement is lost, a sent one never changes but for its deletion, a deleted one
  never changes at all, and a row names a department exactly when its audience is one and has a send time
  exactly when it was sent. A send needs nobody to write the row it holds locked.\<close>

theorem announcement_lifecycle:
  assumes "board_ok s" "list_all lawful_call calls"
  shows "board_ok (run_ops serve_board s calls) \<and> board_moves s (run_ops serve_board s calls)"
  using announcement_board.run_inv [of s s calls] assms by (simp add: board_inv_def)

lemma announcement_lifecycle_witness:
  "board_ok (run_ops serve_board sample_board
     [(calm_board_env, SendAnnouncement ''a1''), (calm_board_env, UpdateAnnouncement ''a1'' title_patch editor),
      (race_env, RemoveAnnouncement ''a1'')])"
  using announcement_lifecycle [OF sample_board_ok, of "[(calm_board_env, SendAnnouncement ''a1''),
      (calm_board_env, UpdateAnnouncement ''a1'' title_patch editor), (race_env, RemoveAnnouncement ''a1'')]"] lawful_race
  by (simp add: lawful_call_def)

text \<open>A patch that only changes the title writes the audience it read back: when another editor's
  change of the audience to one department commits in between, the title patch succeeds and the draft is
  addressed to everybody again.\<close>

theorem title_patch_reverts_audience:
  "lawful race_env \<and>
   map an_audience (announcements (leaves (update_announcement calm_board_env ''a1'' audience_patch editor) sample_board))
     = [AUDIENCE_DEPARTMENT] \<and>
   (case answer (update_announcement race_env ''a1'' title_patch editor) sample_board of
      (Inr dto, s', es) \<Rightarrow> ad_title dto = ''T2'' \<and> map an_audience (announcements s') = [AUDIENCE_ALL]
    | _ \<Rightarrow> False)"
proof (intro conjI)
  show "lawful race_env" by (rule lawful_race)
  show "map an_audience (announcements (leaves (update_announcement calm_board_env ''a1'' audience_patch editor) sample_board))
     = [AUDIENCE_DEPARTMENT]"
    using edit_steps(1) by (simp add: edit_before_write_def raced_board_def)
  show "case answer (update_announcement race_env ''a1'' title_patch editor) sample_board of
      (Inr dto, s', es) \<Rightarrow> ad_title dto = ''T2'' \<and> map an_audience (announcements s') = [AUDIENCE_ALL]
    | _ \<Rightarrow> False"
    by (simp add: answer_def update_announcement_def race_env_def calm_board_env_def fetch_def put_def issue_def meanwhile_def atomically_def run_andThen run_basic edit_steps
       live_announcement_def first_row_def sample_board_rows draft_announcement_def title_patch_def no_patch_def or_else_def
       resolveDepartmentId_def assignable_def option_at_def editor_def update_announcements_def set_where_def count_where_def
       draft_row_def edit_announcement_def get_announcement_def raced_board_def toAnnouncementDto_def)
qed

subsection \<open>One send\<close>



subsection \<open>Repeated sends\<close>

text \<open>
  What LINE documents of the retry key: of the requests it receives it delivers some, and never
  two with the same key.
\<close>

definition retry_key_honoured :: "((string list \<times> string) list \<Rightarrow> (string list \<times> string) list) \<Rightarrow> bool" where
  "retry_key_honoured delivered \<longleftrightarrow> (\<forall>rs. set (delivered rs) \<subseteq> set rs \<and> distinct (map snd (delivered rs)))"









lemma once_per_key_honoured: "retry_key_honoured (once_per_key [])"
  using once_per_key_facts by (simp add: retry_key_honoured_def)


text \<open>The retry keys protect a resend only while the recipients are the same: after a send that LINE
  took but whose answers were lost, one follower turns announcements off and the announcement is sent
  again; the other follower, in a chunk with another key now, gets it twice.\<close>

theorem resend_after_opt_out_duplicates:
  "retry_key_honoured (once_per_key []) \<and>
   fst (answer (send_announcement broken_env ''a1'') sample_board) =
     Inl (Refused (BadGateway (coded CODE_LINE_SEND_FAILED ANNOUNCEMENT_LINE_SEND_FAILED))) \<and>
   announcements (fst (snd (answer (send_announcement broken_env ''a1'') sample_board))) = announcements opted_out_board \<and>
   \<not> isl (fst (answer (send_announcement calm_board_env ''a1'') opted_out_board)) \<and>
   count_list (concat (map fst (once_per_key [] (requests_of
     (snd (snd (answer (send_announcement broken_env ''a1'') sample_board)) @
      snd (snd (answer (send_announcement calm_board_env ''a1'') opted_out_board))))))) (line_id (CHR ''a'')) = 2"
proof (intro conjI)
  show "retry_key_honoured (once_per_key [])" by (rule once_per_key_honoured)
  show "count_list (concat (map fst (once_per_key [] (requests_of
     (snd (snd (answer (send_announcement broken_env ''a1'') sample_board)) @
      snd (snd (answer (send_announcement calm_board_env ''a1'') opted_out_board))))))) (line_id (CHR ''a'')) = 2"
    using sample_keys_differ by (simp add: broken_requests opted_out_requests numeral_2_eq_2 line_id_def)
qed (code_simp)+

subsection \<open>Searching\<close>

text \<open>The search for a title finds exactly the titles that contain the term literally, up to
  case: \<open>%\<close>, \<open>_\<close> and the backslash in the term stand for themselves. The hypothesis on the database's
  \<open>lower\<close> says it leaves these three alone.\<close>

theorem search_is_literal:
  assumes "an_lower env (''%'' @ escapeLike term @ ''%'') = ''%'' @ escapeLike (an_lower env term) @ ''%''"
    and "valid_utf8 (an_lower env term)"
  shows "contains_insensitive env (escapeLike term) title \<longleftrightarrow>
    sublist (utf8_chars (an_lower env term)) (utf8_chars (an_lower env title))"
  unfolding contains_insensitive_def assms(1) pattern_chars [OF assms(2)] by (rule like_literal)

lemma search_is_literal_witness:
  "contains_insensitive calm_board_env (escapeLike ''50%_Off'') ''Now 50%_OFF all'' \<and>
   \<not> contains_insensitive calm_board_env (escapeLike ''50%_Off'') ''Now 50% is off''"
proof
  have lower: "an_lower calm_board_env (''%'' @ escapeLike ''50%_Off'' @ ''%'') = ''%'' @ escapeLike (an_lower calm_board_env ''50%_Off'') @ ''%''"
    and valid: "valid_utf8 (an_lower calm_board_env ''50%_Off'')" by (code_simp)+
  note literal = search_is_literal [OF lower valid]
  show "contains_insensitive calm_board_env (escapeLike ''50%_Off'') ''Now 50%_OFF all''"
    unfolding literal by code_simp
  show "\<not> contains_insensitive calm_board_env (escapeLike ''50%_Off'') ''Now 50% is off''"
    unfolding literal by code_simp
qed

subsection \<open>The multicast\<close>

text \<open>C27: What a multicast reports adds up, whatever LINE and the clock answer: it targets the distinct
  recipients; it makes at most two requests per chunk of 500, each to one to 500 distinct recipients under the
  key of the chunk; it reports no failure exactly when all were accepted, and a failure at chunk n exactly
  after n full chunks; an answer that LINE has the request already is never a failure.\<close>

theorem multicast_accounting:
  assumes "multicast_run line to ms seed dl = (out, es)"
  shows "mo_targetedCount out = card (set to) \<and> mo_acceptedCount out \<le> card (set to) \<and>
    (mo_failure out = None \<longleftrightarrow> mo_acceptedCount out = card (set to)) \<and>
    mo_requestCount out = length (requests_of es) \<and> mo_requestCount out \<le> 2 * ((card (set to) + 499) div 500) \<and>
    list_all (\<lambda>(c, key). c \<noteq> [] \<and> length c \<le> 500 \<and> distinct c \<and> set c \<subseteq> set to \<and>
      key = lineRetryKey (sha_1 line) seed c) (requests_of es) \<and>
    (\<forall>f. mo_failure out = Some f \<longrightarrow> mo_acceptedCount out = 500 * mf_chunkIndex f \<and> mf_kind f \<noteq> ALREADY_ACCEPTED)"
  using multicast_accounts [OF assms] multicast_requests [OF assms] line_chunks_bounds [of _ to] length_line_chunks [of to]
  by (fastforce simp: LINE_MULTICAST_MAX_RECIPIENTS_def list_all_iff)

lemma multicast_accounting_witness:
  "mo_acceptedCount (fst (multicast_run working_line (map line_id ''aba'') [] ''s'' None)) \<le> 2"
proof -
  obtain out es where run: "multicast_run working_line (map line_id ''aba'') [] ''s'' None = (out, es)" by fastforce
  have "card (set (map line_id ''aba'')) = 2" by code_simp
  then show ?thesis using multicast_accounting [OF run] run by simp
qed

text \<open>A retry key is a version-5 UUID; it depends on the members of the chunk and not on their order, and
  two chunks of well-formed LINE ids have the same hashed text only if they have the same members.\<close>

lemma retry_key_shape:
  assumes "\<And>bs. length (sha bs) = 20" "list_all LINE_USER_ID_PATTERN c" "list_all LINE_USER_ID_PATTERN d"
  shows "length (lineRetryKey sha seed c) = 36 \<and> lineRetryKey sha seed c ! 14 = CHR ''5'' \<and>
    lineRetryKey sha seed c ! 19 \<in> set ''89ab'' \<and>
    (mset c = mset d \<longrightarrow> lineRetryKey sha seed c = lineRetryKey sha seed d) \<and>
    (retry_name seed c = retry_name seed d \<longleftrightarrow> mset c = mset d)"
proof -
  have shape: "length (lineRetryKey sha seed c) = 36 \<and> lineRetryKey sha seed c ! 14 = CHR ''5'' \<and>
      lineRetryKey sha seed c ! 19 \<in> set ''89ab''"
    unfolding lineRetryKey_def by (rule uuid_shape [OF assms(1)])
  have members: "mset c = mset d \<Longrightarrow> retry_name seed c = retry_name seed d" by (rule retry_name_members)
  have inj: "retry_name seed c = retry_name seed d \<Longrightarrow> mset c = mset d" using assms(2,3) by (rule retry_name_inj [rotated])
  show ?thesis using shape members inj unfolding lineRetryKey_def by metis
qed

subsection \<open>The messages\<close>

text \<open>What LINE requires of a message's text nodes and alternative text, and that nothing in it is a button.\<close>

fun node_ok :: "json \<Rightarrow> bool" and fields_ok :: "(string \<times> json) list \<Rightarrow> bool" and nodes_ok :: "json list \<Rightarrow> bool" where
  "node_ok (JObject fs) = fields_ok fs"
| "node_ok (JArray nodes) = nodes_ok nodes"
| "node_ok JNull = True"
| "node_ok (JBool b) = True"
| "node_ok (JNumber n) = True"
| "node_ok (JString s) = True"
| "fields_ok [] = True"
| "fields_ok ((key, value) # fs) = (key \<noteq> ''action'' \<and>
     (key = ''text'' \<longrightarrow> (case value of JString t \<Rightarrow> t \<noteq> [] | _ \<Rightarrow> False)) \<and>
     (key = ''altText'' \<longrightarrow> (case value of JString t \<Rightarrow> js_length t \<le> 400 | _ \<Rightarrow> False)) \<and>
     node_ok value \<and> fields_ok fs)"
| "nodes_ok [] = True"
| "nodes_ok (node # nodes) = (node_ok node \<and> nodes_ok nodes)"

lemma valid_utf8_append: "valid_utf8 s \<Longrightarrow> valid_utf8 t \<Longrightarrow> valid_utf8 (s @ t)"
proof -
  assume "valid_utf8 s" "valid_utf8 t"
  then have whole: "list_all whole_char (utf8_chars s @ utf8_chars t)" by (simp add: valid_utf8_def)
  then have "utf8_chars (concat (utf8_chars s @ utf8_chars t)) = utf8_chars s @ utf8_chars t" by (rule utf8_chars_concat)
  then show ?thesis using whole by (simp add: valid_utf8_def)
qed

lemma alt_text_length: "valid_utf8 raw \<Longrightarrow> js_length (toAltText raw) \<le> 400"
  using chars_toAltText [of raw] units_alt [of raw] by (simp add: js_length_def ALT_TEXT_MAX_CHARS_def)

text \<open>C28: Both forms of an announcement with a title and a body are messages LINE takes: no text node is
  empty, the alternative text is at most 400 units long, and there is no button.\<close>

theorem announcement_message_well_formed:
  assumes "an_title a \<noteq> []" "an_body a \<noteq> []" "valid_utf8 (an_title a)"
  shows "node_ok (announcement_message_of a t)"
proof -
  have "valid_utf8 ANNOUNCEMENT_ALT_PREFIX" by code_simp
  then have "js_length (toAltText (ANNOUNCEMENT_ALT_PREFIX @ an_title a)) \<le> 400"
    by (intro alt_text_length valid_utf8_append assms(3))
  then show ?thesis using assms(1,2)
    by (auto simp: announcement_message_of_def buildAnnouncementCard_def buildAnnouncementText_def
        ANNOUNCEMENT_CARD_HEADER_def split: announcement_format.split)
qed

lemma announcement_message_well_formed_witness: "node_ok (announcement_message_of (draft_announcement\<lparr>an_format := FLEX\<rparr>) 0)"
  by (rule announcement_message_well_formed) (code_simp)+

end
