(* ===== verification/AccessCards.thy ===== *)
theory AccessCards
  imports AnnouncementCards BookingDb
begin

text \<open>
  What a LINE user is told about their registration: the status cards of
  \<open>src/src/line/access-card.ts\<close>, the copy \<open>ACCESS_NOTIFICATION_MESSAGES\<close> and
  \<open>buildRejectionMessage\<close> of \<open>src/src/line/line-user.service.ts\<close>, and the replies to the rich
  menu's shortcuts of \<open>src/src/line/rich-menu.constants.ts\<close>. Strings are UTF-8.
\<close>

subsection \<open>The four states with a card\<close>

datatype card_access = CARD_PENDING | CARD_ALLOWED | CARD_REJECTED | CARD_BLOCKED

text \<open>\<open>access as CardAccess\<close>, a cast the callers reach only in a state that has a card.\<close>

definition as_card_access :: "app_access \<Rightarrow> card_access option" where
  "as_card_access a = (case a of ACC_UNREGISTERED \<Rightarrow> None | ACC_PENDING \<Rightarrow> Some CARD_PENDING
     | ACC_ALLOWED \<Rightarrow> Some CARD_ALLOWED | ACC_REJECTED \<Rightarrow> Some CARD_REJECTED | ACC_BLOCKED \<Rightarrow> Some CARD_BLOCKED)"

definition TONE_fill :: "card_access \<Rightarrow> string" where
  "TONE_fill a = (case a of CARD_PENDING \<Rightarrow> ''#f59e0b'' | CARD_ALLOWED \<Rightarrow> ''#047857''
     | CARD_REJECTED \<Rightarrow> ''#0369a1'' | CARD_BLOCKED \<Rightarrow> ''#be123c'')"

definition TONE_ink :: "card_access \<Rightarrow> string" where
  "TONE_ink a = (case a of CARD_PENDING \<Rightarrow> ''#0f172a'' | _ \<Rightarrow> ''#ffffff'')"

definition EYEBROW_ALPHA :: string where "EYEBROW_ALPHA = ''bf''"
definition SURFACE_SOFT :: string where "SURFACE_SOFT = ''#f1f5f9''"

definition HEADLINE :: "card_access \<Rightarrow> string" where
  "HEADLINE a = (case a of
       CARD_PENDING \<Rightarrow> [CHR 0xE0, CHR 0xB8, CHR 0xA3, CHR 0xE0, CHR 0xB8, CHR 0xAD, CHR 0xE0, CHR 0xB8, CHR 0xAD,
      CHR 0xE0, CHR 0xB8, CHR 0x99, CHR 0xE0, CHR 0xB8, CHR 0xB8, CHR 0xE0, CHR 0xB8, CHR
      0xA1, CHR 0xE0, CHR 0xB8, CHR 0xB1, CHR 0xE0, CHR 0xB8, CHR 0x95, CHR 0xE0, CHR 0xB8,
      CHR 0xB4]
     | CARD_ALLOWED \<Rightarrow> [CHR 0xE0, CHR 0xB8, CHR 0xAD, CHR 0xE0, CHR 0xB8, CHR 0x99, CHR 0xE0, CHR 0xB8, CHR 0xB8,
      CHR 0xE0, CHR 0xB8, CHR 0xA1, CHR 0xE0, CHR 0xB8, CHR 0xB1, CHR 0xE0, CHR 0xB8, CHR
      0x95, CHR 0xE0, CHR 0xB8, CHR 0xB4, CHR 0xE0, CHR 0xB9, CHR 0x81, CHR 0xE0, CHR 0xB8,
      CHR 0xA5, CHR 0xE0, CHR 0xB9, CHR 0x89, CHR 0xE0, CHR 0xB8, CHR 0xA7]
     | CARD_REJECTED \<Rightarrow> [CHR 0xE0, CHR 0xB8, CHR 0xAA, CHR 0xE0, CHR 0xB9, CHR 0x88, CHR 0xE0, CHR 0xB8, CHR 0x87,
      CHR 0xE0, CHR 0xB8, CHR 0x84, CHR 0xE0, CHR 0xB8, CHR 0xB7, CHR 0xE0, CHR 0xB8, CHR
      0x99, CHR 0xE0, CHR 0xB9, CHR 0x83, CHR 0xE0, CHR 0xB8, CHR 0xAB, CHR 0xE0, CHR 0xB9,
      CHR 0x89, CHR 0xE0, CHR 0xB9, CHR 0x81, CHR 0xE0, CHR 0xB8, CHR 0x81, CHR 0xE0, CHR
      0xB9, CHR 0x89, CHR 0xE0, CHR 0xB9, CHR 0x84, CHR 0xE0, CHR 0xB8, CHR 0x82]
     | CARD_BLOCKED \<Rightarrow> [CHR 0xE0, CHR 0xB8, CHR 0x96, CHR 0xE0, CHR 0xB8, CHR 0xB9, CHR 0xE0, CHR 0xB8, CHR 0x81,
      CHR 0xE0, CHR 0xB8, CHR 0xA3, CHR 0xE0, CHR 0xB8, CHR 0xB0, CHR 0xE0, CHR 0xB8, CHR
      0x87, CHR 0xE0, CHR 0xB8, CHR 0xB1, CHR 0xE0, CHR 0xB8, CHR 0x9A, CHR 0xE0, CHR 0xB8,
      CHR 0x81, CHR 0xE0, CHR 0xB8, CHR 0xB2, CHR 0xE0, CHR 0xB8, CHR 0xA3, CHR 0xE0, CHR
      0xB9, CHR 0x83, CHR 0xE0, CHR 0xB8, CHR 0x8A, CHR 0xE0, CHR 0xB9, CHR 0x89, CHR 0xE0,
      CHR 0xB8, CHR 0x87, CHR 0xE0, CHR 0xB8, CHR 0xB2, CHR 0xE0, CHR 0xB8, CHR 0x99])"

definition BODY :: "card_access \<Rightarrow> string" where
  "BODY a = (case a of
       CARD_PENDING \<Rightarrow> [CHR 0xE0, CHR 0xB8, CHR 0xA3, CHR 0xE0, CHR 0xB8, CHR 0xB0, CHR 0xE0, CHR 0xB8, CHR 0x9A,
      CHR 0xE0, CHR 0xB8, CHR 0x9A, CHR 0xE0, CHR 0xB9, CHR 0x84, CHR 0xE0, CHR 0xB8, CHR
      0x94, CHR 0xE0, CHR 0xB9, CHR 0x89, CHR 0xE0, CHR 0xB8, CHR 0xA3, CHR 0xE0, CHR 0xB8,
      CHR 0xB1, CHR 0xE0, CHR 0xB8, CHR 0x9A, CHR 0xE0, CHR 0xB8, CHR 0x82, CHR 0xE0, CHR
      0xB9, CHR 0x89, CHR 0xE0, CHR 0xB8, CHR 0xAD, CHR 0xE0, CHR 0xB8, CHR 0xA1, CHR 0xE0,
      CHR 0xB8, CHR 0xB9, CHR 0xE0, CHR 0xB8, CHR 0xA5, CHR 0xE0, CHR 0xB8, CHR 0x81, CHR
      0xE0, CHR 0xB8, CHR 0xB2, CHR 0xE0, CHR 0xB8, CHR 0xA3, CHR 0xE0, CHR 0xB8, CHR 0xA5,
      CHR 0xE0, CHR 0xB8, CHR 0x87, CHR 0xE0, CHR 0xB8, CHR 0x97, CHR 0xE0, CHR 0xB8, CHR
      0xB0, CHR 0xE0, CHR 0xB9, CHR 0x80, CHR 0xE0, CHR 0xB8, CHR 0x9A, CHR 0xE0, CHR 0xB8,
      CHR 0xB5, CHR 0xE0, CHR 0xB8, CHR 0xA2, CHR 0xE0, CHR 0xB8, CHR 0x99, CHR 0xE0, CHR
      0xB8, CHR 0x82, CHR 0xE0, CHR 0xB8, CHR 0xAD, CHR 0xE0, CHR 0xB8, CHR 0x87, CHR 0xE0,
      CHR 0xB8, CHR 0x84, CHR 0xE0, CHR 0xB8, CHR 0xB8, CHR 0xE0, CHR 0xB8, CHR 0x93, CHR
      0xE0, CHR 0xB9, CHR 0x81, CHR 0xE0, CHR 0xB8, CHR 0xA5, CHR 0xE0, CHR 0xB9, CHR 0x89,
      CHR 0xE0, CHR 0xB8, CHR 0xA7, CHR 0x20, CHR 0xE0, CHR 0xB9, CHR 0x80, CHR 0xE0, CHR
      0xB8, CHR 0x88, CHR 0xE0, CHR 0xB9, CHR 0x89, CHR 0xE0, CHR 0xB8, CHR 0xB2, CHR 0xE0,
      CHR 0xB8, CHR 0xAB, CHR 0xE0, CHR 0xB8, CHR 0x99, CHR 0xE0, CHR 0xB9, CHR 0x89, CHR
      0xE0, CHR 0xB8, CHR 0xB2, CHR 0xE0, CHR 0xB8, CHR 0x97, CHR 0xE0, CHR 0xB8, CHR 0xB5,
      CHR 0xE0, CHR 0xB9, CHR 0x88, CHR 0xE0, CHR 0xB8, CHR 0x81, CHR 0xE0, CHR 0xB8, CHR
      0xB3, CHR 0xE0, CHR 0xB8, CHR 0xA5, CHR 0xE0, CHR 0xB8, CHR 0xB1, CHR 0xE0, CHR 0xB8,
      CHR 0x87, CHR 0xE0, CHR 0xB8, CHR 0x95, CHR 0xE0, CHR 0xB8, CHR 0xA3, CHR 0xE0, CHR
      0xB8, CHR 0xA7, CHR 0xE0, CHR 0xB8, CHR 0x88, CHR 0xE0, CHR 0xB8, CHR 0xAA, CHR 0xE0,
      CHR 0xB8, CHR 0xAD, CHR 0xE0, CHR 0xB8, CHR 0x9A, CHR 0xE0, CHR 0xB8, CHR 0x82, CHR
      0xE0, CHR 0xB9, CHR 0x89, CHR 0xE0, CHR 0xB8, CHR 0xAD, CHR 0xE0, CHR 0xB8, CHR 0xA1,
      CHR 0xE0, CHR 0xB8, CHR 0xB9, CHR 0xE0, CHR 0xB8, CHR 0xA5, CHR 0x20, CHR 0xE0, CHR
      0xB8, CHR 0x81, CHR 0xE0, CHR 0xB8, CHR 0xA3, CHR 0xE0, CHR 0xB8, CHR 0xB8, CHR 0xE0,
      CHR 0xB8, CHR 0x93, CHR 0xE0, CHR 0xB8, CHR 0xB2, CHR 0xE0, CHR 0xB8, CHR 0xA3, CHR
      0xE0, CHR 0xB8, CHR 0xAD, CHR 0xE0, CHR 0xB8, CHR 0xAA, CHR 0xE0, CHR 0xB8, CHR 0xB1,
      CHR 0xE0, CHR 0xB8, CHR 0x81, CHR 0xE0, CHR 0xB8, CHR 0x84, CHR 0xE0, CHR 0xB8, CHR
      0xA3, CHR 0xE0, CHR 0xB8, CHR 0xB9, CHR 0xE0, CHR 0xB9, CHR 0x88]
     | CARD_ALLOWED \<Rightarrow> [CHR 0xE0, CHR 0xB8, CHR 0x9A, CHR 0xE0, CHR 0xB8, CHR 0xB1, CHR 0xE0, CHR 0xB8, CHR 0x8D,
      CHR 0xE0, CHR 0xB8, CHR 0x8A, CHR 0xE0, CHR 0xB8, CHR 0xB5, CHR 0xE0, CHR 0xB8, CHR
      0x82, CHR 0xE0, CHR 0xB8, CHR 0xAD, CHR 0xE0, CHR 0xB8, CHR 0x87, CHR 0xE0, CHR 0xB8,
      CHR 0x84, CHR 0xE0, CHR 0xB8, CHR 0xB8, CHR 0xE0, CHR 0xB8, CHR 0x93, CHR 0xE0, CHR
      0xB9, CHR 0x83, CHR 0xE0, CHR 0xB8, CHR 0x8A, CHR 0xE0, CHR 0xB9, CHR 0x89, CHR 0xE0,
      CHR 0xB8, CHR 0x87, CHR 0xE0, CHR 0xB8, CHR 0xB2, CHR 0xE0, CHR 0xB8, CHR 0x99, CHR
      0xE0, CHR 0xB8, CHR 0xA3, CHR 0xE0, CHR 0xB8, CHR 0xB0, CHR 0xE0, CHR 0xB8, CHR 0x9A,
      CHR 0xE0, CHR 0xB8, CHR 0x9A, CHR 0xE0, CHR 0xB8, CHR 0x88, CHR 0xE0, CHR 0xB8, CHR
      0xAD, CHR 0xE0, CHR 0xB8, CHR 0x87, CHR 0xE0, CHR 0xB8, CHR 0xAA, CHR 0xE0, CHR 0xB8,
      CHR 0x96, CHR 0xE0, CHR 0xB8, CHR 0xB2, CHR 0xE0, CHR 0xB8, CHR 0x99, CHR 0xE0, CHR
      0xB8, CHR 0x97, CHR 0xE0, CHR 0xB8, CHR 0xB5, CHR 0xE0, CHR 0xB9, CHR 0x88, CHR 0xE0,
      CHR 0xB9, CHR 0x84, CHR 0xE0, CHR 0xB8, CHR 0x94, CHR 0xE0, CHR 0xB9, CHR 0x89, CHR
      0xE0, CHR 0xB9, CHR 0x81, CHR 0xE0, CHR 0xB8, CHR 0xA5, CHR 0xE0, CHR 0xB9, CHR 0x89,
      CHR 0xE0, CHR 0xB8, CHR 0xA7, CHR 0x20, CHR 0xE0, CHR 0xB8, CHR 0x81, CHR 0xE0, CHR
      0xB8, CHR 0x94, CHR 0xE0, CHR 0xB9, CHR 0x80, CHR 0xE0, CHR 0xB8, CHR 0xA1, CHR 0xE0,
      CHR 0xB8, CHR 0x99, CHR 0xE0, CHR 0xB8, CHR 0xB9, CHR 0xE0, CHR 0xB8, CHR 0x94, CHR
      0xE0, CHR 0xB9, CHR 0x89, CHR 0xE0, CHR 0xB8, CHR 0xB2, CHR 0xE0, CHR 0xB8, CHR 0x99,
      CHR 0xE0, CHR 0xB8, CHR 0xA5, CHR 0xE0, CHR 0xB9, CHR 0x88, CHR 0xE0, CHR 0xB8, CHR
      0xB2, CHR 0xE0, CHR 0xB8, CHR 0x87, CHR 0xE0, CHR 0xB8, CHR 0x82, CHR 0xE0, CHR 0xB8,
      CHR 0xAD, CHR 0xE0, CHR 0xB8, CHR 0x87, CHR 0xE0, CHR 0xB8, CHR 0xAB, CHR 0xE0, CHR
      0xB8, CHR 0x99, CHR 0xE0, CHR 0xB9, CHR 0x89, CHR 0xE0, CHR 0xB8, CHR 0xB2, CHR 0xE0,
      CHR 0xB9, CHR 0x81, CHR 0xE0, CHR 0xB8, CHR 0x8A, CHR 0xE0, CHR 0xB8, CHR 0x97, CHR
      0xE0, CHR 0xB9, CHR 0x80, CHR 0xE0, CHR 0xB8, CHR 0x9E, CHR 0xE0, CHR 0xB8, CHR 0xB7,
      CHR 0xE0, CHR 0xB9, CHR 0x88, CHR 0xE0, CHR 0xB8, CHR 0xAD, CHR 0xE0, CHR 0xB9, CHR
      0x80, CHR 0xE0, CHR 0xB8, CHR 0xA3, CHR 0xE0, CHR 0xB8, CHR 0xB4, CHR 0xE0, CHR 0xB9,
      CHR 0x88, CHR 0xE0, CHR 0xB8, CHR 0xA1, CHR 0xE0, CHR 0xB9, CHR 0x83, CHR 0xE0, CHR
      0xB8, CHR 0x8A, CHR 0xE0, CHR 0xB9, CHR 0x89, CHR 0xE0, CHR 0xB8, CHR 0x87, CHR 0xE0,
      CHR 0xB8, CHR 0xB2, CHR 0xE0, CHR 0xB8, CHR 0x99, CHR 0xE0, CHR 0xB9, CHR 0x84, CHR
      0xE0, CHR 0xB8, CHR 0x94, CHR 0xE0, CHR 0xB9, CHR 0x89, CHR 0xE0, CHR 0xB8, CHR 0x97,
      CHR 0xE0, CHR 0xB8, CHR 0xB1, CHR 0xE0, CHR 0xB8, CHR 0x99, CHR 0xE0, CHR 0xB8, CHR
      0x97, CHR 0xE0, CHR 0xB8, CHR 0xB5]
     | CARD_REJECTED \<Rightarrow> [CHR 0xE0, CHR 0xB8, CHR 0x82, CHR 0xE0, CHR 0xB9, CHR 0x89, CHR 0xE0, CHR 0xB8, CHR 0xAD,
      CHR 0xE0, CHR 0xB8, CHR 0xA1, CHR 0xE0, CHR 0xB8, CHR 0xB9, CHR 0xE0, CHR 0xB8, CHR
      0xA5, CHR 0xE0, CHR 0xB8, CHR 0x81, CHR 0xE0, CHR 0xB8, CHR 0xB2, CHR 0xE0, CHR 0xB8,
      CHR 0xA3, CHR 0xE0, CHR 0xB8, CHR 0xA5, CHR 0xE0, CHR 0xB8, CHR 0x87, CHR 0xE0, CHR
      0xB8, CHR 0x97, CHR 0xE0, CHR 0xB8, CHR 0xB0, CHR 0xE0, CHR 0xB9, CHR 0x80, CHR 0xE0,
      CHR 0xB8, CHR 0x9A, CHR 0xE0, CHR 0xB8, CHR 0xB5, CHR 0xE0, CHR 0xB8, CHR 0xA2, CHR
      0xE0, CHR 0xB8, CHR 0x99, CHR 0xE0, CHR 0xB8, CHR 0x82, CHR 0xE0, CHR 0xB8, CHR 0xAD,
      CHR 0xE0, CHR 0xB8, CHR 0x87, CHR 0xE0, CHR 0xB8, CHR 0x84, CHR 0xE0, CHR 0xB8, CHR
      0xB8, CHR 0xE0, CHR 0xB8, CHR 0x93, CHR 0xE0, CHR 0xB8, CHR 0xA2, CHR 0xE0, CHR 0xB8,
      CHR 0xB1, CHR 0xE0, CHR 0xB8, CHR 0x87, CHR 0xE0, CHR 0xB9, CHR 0x84, CHR 0xE0, CHR
      0xB8, CHR 0xA1, CHR 0xE0, CHR 0xB9, CHR 0x88, CHR 0xE0, CHR 0xB8, CHR 0x9C, CHR 0xE0,
      CHR 0xB9, CHR 0x88, CHR 0xE0, CHR 0xB8, CHR 0xB2, CHR 0xE0, CHR 0xB8, CHR 0x99, CHR
      0xE0, CHR 0xB8, CHR 0x81, CHR 0xE0, CHR 0xB8, CHR 0xB2, CHR 0xE0, CHR 0xB8, CHR 0xA3,
      CHR 0xE0, CHR 0xB8, CHR 0x95, CHR 0xE0, CHR 0xB8, CHR 0xA3, CHR 0xE0, CHR 0xB8, CHR
      0xA7, CHR 0xE0, CHR 0xB8, CHR 0x88, CHR 0xE0, CHR 0xB8, CHR 0xAA, CHR 0xE0, CHR 0xB8,
      CHR 0xAD, CHR 0xE0, CHR 0xB8, CHR 0x9A, CHR 0x20, CHR 0xE0, CHR 0xB8, CHR 0x81, CHR
      0xE0, CHR 0xB8, CHR 0xA3, CHR 0xE0, CHR 0xB8, CHR 0xB8, CHR 0xE0, CHR 0xB8, CHR 0x93,
      CHR 0xE0, CHR 0xB8, CHR 0xB2, CHR 0xE0, CHR 0xB9, CHR 0x81, CHR 0xE0, CHR 0xB8, CHR
      0x81, CHR 0xE0, CHR 0xB9, CHR 0x89, CHR 0xE0, CHR 0xB9, CHR 0x84, CHR 0xE0, CHR 0xB8,
      CHR 0x82, CHR 0xE0, CHR 0xB8, CHR 0x95, CHR 0xE0, CHR 0xB8, CHR 0xB2, CHR 0xE0, CHR
      0xB8, CHR 0xA1, CHR 0xE0, CHR 0xB9, CHR 0x80, CHR 0xE0, CHR 0xB8, CHR 0xAB, CHR 0xE0,
      CHR 0xB8, CHR 0x95, CHR 0xE0, CHR 0xB8, CHR 0xB8, CHR 0xE0, CHR 0xB8, CHR 0x9C, CHR
      0xE0, CHR 0xB8, CHR 0xA5, CHR 0xE0, CHR 0xB8, CHR 0x94, CHR 0xE0, CHR 0xB9, CHR 0x89,
      CHR 0xE0, CHR 0xB8, CHR 0xB2, CHR 0xE0, CHR 0xB8, CHR 0x99, CHR 0xE0, CHR 0xB8, CHR
      0xA5, CHR 0xE0, CHR 0xB9, CHR 0x88, CHR 0xE0, CHR 0xB8, CHR 0xB2, CHR 0xE0, CHR 0xB8,
      CHR 0x87, CHR 0x20, CHR 0xE0, CHR 0xB9, CHR 0x81, CHR 0xE0, CHR 0xB8, CHR 0xA5, CHR
      0xE0, CHR 0xB9, CHR 0x89, CHR 0xE0, CHR 0xB8, CHR 0xA7, CHR 0xE0, CHR 0xB8, CHR 0xAA,
      CHR 0xE0, CHR 0xB9, CHR 0x88, CHR 0xE0, CHR 0xB8, CHR 0x87, CHR 0xE0, CHR 0xB8, CHR
      0x81, CHR 0xE0, CHR 0xB8, CHR 0xA5, CHR 0xE0, CHR 0xB8, CHR 0xB1, CHR 0xE0, CHR 0xB8,
      CHR 0x9A, CHR 0xE0, CHR 0xB8, CHR 0xA1, CHR 0xE0, CHR 0xB8, CHR 0xB2, CHR 0xE0, CHR
      0xB9, CHR 0x83, CHR 0xE0, CHR 0xB8, CHR 0xAB, CHR 0xE0, CHR 0xB9, CHR 0x89, CHR 0xE0,
      CHR 0xB8, CHR 0x9E, CHR 0xE0, CHR 0xB8, CHR 0xB4, CHR 0xE0, CHR 0xB8, CHR 0x88, CHR
      0xE0, CHR 0xB8, CHR 0xB2, CHR 0xE0, CHR 0xB8, CHR 0xA3, CHR 0xE0, CHR 0xB8, CHR 0x93,
      CHR 0xE0, CHR 0xB8, CHR 0xB2, CHR 0xE0, CHR 0xB8, CHR 0xAD, CHR 0xE0, CHR 0xB8, CHR
      0xB5, CHR 0xE0, CHR 0xB8, CHR 0x81, CHR 0xE0, CHR 0xB8, CHR 0x84, CHR 0xE0, CHR 0xB8,
      CHR 0xA3, CHR 0xE0, CHR 0xB8, CHR 0xB1, CHR 0xE0, CHR 0xB9, CHR 0x89, CHR 0xE0, CHR
      0xB8, CHR 0x87]
     | CARD_BLOCKED \<Rightarrow> [CHR 0xE0, CHR 0xB8, CHR 0x9A, CHR 0xE0, CHR 0xB8, CHR 0xB1, CHR 0xE0, CHR 0xB8, CHR 0x8D,
      CHR 0xE0, CHR 0xB8, CHR 0x8A, CHR 0xE0, CHR 0xB8, CHR 0xB5, CHR 0xE0, CHR 0xB8, CHR
      0x82, CHR 0xE0, CHR 0xB8, CHR 0xAD, CHR 0xE0, CHR 0xB8, CHR 0x87, CHR 0xE0, CHR 0xB8,
      CHR 0x84, CHR 0xE0, CHR 0xB8, CHR 0xB8, CHR 0xE0, CHR 0xB8, CHR 0x93, CHR 0xE0, CHR
      0xB8, CHR 0x96, CHR 0xE0, CHR 0xB8, CHR 0xB9, CHR 0xE0, CHR 0xB8, CHR 0x81, CHR 0xE0,
      CHR 0xB8, CHR 0xA3, CHR 0xE0, CHR 0xB8, CHR 0xB0, CHR 0xE0, CHR 0xB8, CHR 0x87, CHR
      0xE0, CHR 0xB8, CHR 0xB1, CHR 0xE0, CHR 0xB8, CHR 0x9A, CHR 0xE0, CHR 0xB8, CHR 0xAA,
      CHR 0xE0, CHR 0xB8, CHR 0xB4, CHR 0xE0, CHR 0xB8, CHR 0x97, CHR 0xE0, CHR 0xB8, CHR
      0x98, CHR 0xE0, CHR 0xB8, CHR 0xB4, CHR 0xE0, CHR 0xB9, CHR 0x8C, CHR 0xE0, CHR 0xB8,
      CHR 0x81, CHR 0xE0, CHR 0xB8, CHR 0xB2, CHR 0xE0, CHR 0xB8, CHR 0xA3, CHR 0xE0, CHR
      0xB9, CHR 0x83, CHR 0xE0, CHR 0xB8, CHR 0x8A, CHR 0xE0, CHR 0xB9, CHR 0x89, CHR 0xE0,
      CHR 0xB8, CHR 0x87, CHR 0xE0, CHR 0xB8, CHR 0xB2, CHR 0xE0, CHR 0xB8, CHR 0x99, CHR
      0xE0, CHR 0xB8, CHR 0x8A, CHR 0xE0, CHR 0xB8, CHR 0xB1, CHR 0xE0, CHR 0xB9, CHR 0x88,
      CHR 0xE0, CHR 0xB8, CHR 0xA7, CHR 0xE0, CHR 0xB8, CHR 0x84, CHR 0xE0, CHR 0xB8, CHR
      0xA3, CHR 0xE0, CHR 0xB8, CHR 0xB2, CHR 0xE0, CHR 0xB8, CHR 0xA7, CHR 0x20, CHR 0xE0,
      CHR 0xB8, CHR 0xAB, CHR 0xE0, CHR 0xB8, CHR 0xB2, CHR 0xE0, CHR 0xB8, CHR 0x81, CHR
      0xE0, CHR 0xB8, CHR 0xA1, CHR 0xE0, CHR 0xB8, CHR 0xB5, CHR 0xE0, CHR 0xB8, CHR 0x82,
      CHR 0xE0, CHR 0xB9, CHR 0x89, CHR 0xE0, CHR 0xB8, CHR 0xAD, CHR 0xE0, CHR 0xB8, CHR
      0xAA, CHR 0xE0, CHR 0xB8, CHR 0x87, CHR 0xE0, CHR 0xB8, CHR 0xAA, CHR 0xE0, CHR 0xB8,
      CHR 0xB1, CHR 0xE0, CHR 0xB8, CHR 0xA2, CHR 0xE0, CHR 0xB8, CHR 0x81, CHR 0xE0, CHR
      0xB8, CHR 0xA3, CHR 0xE0, CHR 0xB8, CHR 0xB8, CHR 0xE0, CHR 0xB8, CHR 0x93, CHR 0xE0,
      CHR 0xB8, CHR 0xB2, CHR 0xE0, CHR 0xB8, CHR 0x95, CHR 0xE0, CHR 0xB8, CHR 0xB4, CHR
      0xE0, CHR 0xB8, CHR 0x94, CHR 0xE0, CHR 0xB8, CHR 0x95, CHR 0xE0, CHR 0xB9, CHR 0x88,
      CHR 0xE0, CHR 0xB8, CHR 0xAD, CHR 0xE0, CHR 0xB9, CHR 0x80, CHR 0xE0, CHR 0xB8, CHR
      0x88, CHR 0xE0, CHR 0xB9, CHR 0x89, CHR 0xE0, CHR 0xB8, CHR 0xB2, CHR 0xE0, CHR 0xB8,
      CHR 0xAB, CHR 0xE0, CHR 0xB8, CHR 0x99, CHR 0xE0, CHR 0xB9, CHR 0x89, CHR 0xE0, CHR
      0xB8, CHR 0xB2, CHR 0xE0, CHR 0xB8, CHR 0x97, CHR 0xE0, CHR 0xB8, CHR 0xB5, CHR 0xE0,
      CHR 0xB9, CHR 0x88])"

definition CTA :: "card_access \<Rightarrow> string option" where
  "CTA a = (case a of
       CARD_ALLOWED \<Rightarrow> Some [CHR 0xE0, CHR 0xB9, CHR 0x80, CHR 0xE0, CHR 0xB8, CHR 0x9B, CHR 0xE0, CHR 0xB8, CHR 0xB4,
      CHR 0xE0, CHR 0xB8, CHR 0x94, CHR 0xE0, CHR 0xB9, CHR 0x81, CHR 0xE0, CHR 0xB8, CHR
      0xAD, CHR 0xE0, CHR 0xB8, CHR 0x9B, CHR 0xE0, CHR 0xB8, CHR 0x9E, CHR 0xE0, CHR 0xB8,
      CHR 0xA5, CHR 0xE0, CHR 0xB8, CHR 0xB4, CHR 0xE0, CHR 0xB9, CHR 0x80, CHR 0xE0, CHR
      0xB8, CHR 0x84, CHR 0xE0, CHR 0xB8, CHR 0x8A, CHR 0xE0, CHR 0xB8, CHR 0xB1, CHR 0xE0,
      CHR 0xB8, CHR 0x99]
     | CARD_REJECTED \<Rightarrow> Some [CHR 0xE0, CHR 0xB9, CHR 0x81, CHR 0xE0, CHR 0xB8, CHR 0x81, CHR 0xE0, CHR 0xB9, CHR 0x89,
      CHR 0xE0, CHR 0xB9, CHR 0x84, CHR 0xE0, CHR 0xB8, CHR 0x82, CHR 0xE0, CHR 0xB8, CHR
      0x82, CHR 0xE0, CHR 0xB9, CHR 0x89, CHR 0xE0, CHR 0xB8, CHR 0xAD, CHR 0xE0, CHR 0xB8,
      CHR 0xA1, CHR 0xE0, CHR 0xB8, CHR 0xB9, CHR 0xE0, CHR 0xB8, CHR 0xA5]
     | _ \<Rightarrow> None)"

definition card_text :: "string \<Rightarrow> (string \<times> json) list \<Rightarrow> json" where
  "card_text content extra =
     JObject ([(''type'', JString ''text''), (''text'', JString content), (''wrap'', JBool True)] @ extra)"

text \<open>An optional string is truthy when it is there and not empty.\<close>

definition truthy :: "string option \<Rightarrow> string option" where
  "truthy x = (case x of None \<Rightarrow> None | Some t \<Rightarrow> if t = [] then None else Some t)"

definition reason_box :: "string \<Rightarrow> json" where
  "reason_box reason =
     JObject
       [(''type'', JString ''box''), (''layout'', JString ''vertical''),
        (''backgroundColor'', JString SURFACE_SOFT), (''borderColor'', JString LINE_SOFT),
        (''borderWidth'', JString ''1px''), (''cornerRadius'', JString ''8px''),
        (''paddingAll'', JString ''12px''), (''margin'', JString ''lg''), (''spacing'', JString ''sm''),
        (''contents'', JArray
          [card_text [CHR 0xE0, CHR 0xB9, CHR 0x80, CHR 0xE0, CHR 0xB8, CHR 0xAB, CHR 0xE0, CHR 0xB8, CHR 0x95,
      CHR 0xE0, CHR 0xB8, CHR 0xB8, CHR 0xE0, CHR 0xB8, CHR 0x9C, CHR 0xE0, CHR 0xB8, CHR
      0xA5]
             [(''size'', JString ''xs''), (''color'', JString INK_SOFT), (''weight'', JString ''bold'')],
           card_text reason
             [(''size'', JString ''sm''), (''color'', JString INK), (''lineSpacing'', JString ''6px'')]])]"

definition card_footer :: "string \<Rightarrow> string \<Rightarrow> string \<Rightarrow> json" where
  "card_footer fill cta liffUrl =
     JObject
       [(''type'', JString ''box''), (''layout'', JString ''vertical''), (''paddingAll'', JString ''12px''),
        (''paddingTop'', JString ''none''),
        (''contents'', JArray
          [JObject
            [(''type'', JString ''button''), (''style'', JString ''primary''), (''height'', JString ''sm''),
             (''color'', JString fill),
             (''action'', JObject [(''type'', JString ''uri''), (''label'', JString cta), (''uri'', JString liffUrl)])]])]"

definition buildAccessCard :: "card_access \<Rightarrow> string \<Rightarrow> string option \<Rightarrow> string option \<Rightarrow> json" where
  "buildAccessCard access altText reason liffUrl =
     JObject
       [(''type'', JString ''flex''), (''altText'', JString altText),
        (''contents'', JObject
          ([(''type'', JString ''bubble''),
            (''header'', JObject
              [(''type'', JString ''box''), (''layout'', JString ''vertical''),
               (''backgroundColor'', JString (TONE_fill access)), (''paddingAll'', JString ''16px''),
               (''spacing'', JString ''xs''),
               (''contents'', JArray
                 [card_text [CHR 0xE0, CHR 0xB8, CHR 0xAA, CHR 0xE0, CHR 0xB8, CHR 0x96, CHR 0xE0, CHR 0xB8, CHR 0xB2,
      CHR 0xE0, CHR 0xB8, CHR 0x99, CHR 0xE0, CHR 0xB8, CHR 0xB0, CHR 0xE0, CHR 0xB8, CHR
      0x81, CHR 0xE0, CHR 0xB8, CHR 0xB2, CHR 0xE0, CHR 0xB8, CHR 0xA3, CHR 0xE0, CHR 0xB8,
      CHR 0xA5, CHR 0xE0, CHR 0xB8, CHR 0x87, CHR 0xE0, CHR 0xB8, CHR 0x97, CHR 0xE0, CHR
      0xB8, CHR 0xB0, CHR 0xE0, CHR 0xB9, CHR 0x80, CHR 0xE0, CHR 0xB8, CHR 0x9A, CHR 0xE0,
      CHR 0xB8, CHR 0xB5, CHR 0xE0, CHR 0xB8, CHR 0xA2, CHR 0xE0, CHR 0xB8, CHR 0x99]
                    [(''size'', JString ''xs''), (''color'', JString (TONE_ink access @ EYEBROW_ALPHA))],
                  card_text (HEADLINE access)
                    [(''size'', JString ''xl''), (''weight'', JString ''bold''), (''color'', JString (TONE_ink access))]])]),
            (''body'', JObject
              [(''type'', JString ''box''), (''layout'', JString ''vertical''), (''paddingAll'', JString ''16px''),
               (''contents'', JArray
                 ([card_text (BODY access)
                     [(''size'', JString ''sm''), (''color'', JString INK), (''lineSpacing'', JString ''6px'')]] @
                  (case (access, truthy reason) of (CARD_REJECTED, Some r) \<Rightarrow> [reason_box r] | _ \<Rightarrow> [])))])] @
           (case (CTA access, truthy liffUrl) of
              (Some cta, Some url) \<Rightarrow> [(''footer'', card_footer (TONE_fill access) cta url)] | _ \<Rightarrow> [])))]"

subsection \<open>The copy\<close>

definition ACCESS_NOTIFICATION_MESSAGES :: "app_access \<Rightarrow> string option" where
  "ACCESS_NOTIFICATION_MESSAGES a = (case a of
       ACC_UNREGISTERED \<Rightarrow> None
     | ACC_PENDING \<Rightarrow> Some [CHR 0xE0, CHR 0xB8, CHR 0xA3, CHR 0xE0, CHR 0xB8, CHR 0xB0, CHR 0xE0, CHR 0xB8, CHR 0x9A,
      CHR 0xE0, CHR 0xB8, CHR 0x9A, CHR 0xE0, CHR 0xB9, CHR 0x84, CHR 0xE0, CHR 0xB8, CHR
      0x94, CHR 0xE0, CHR 0xB9, CHR 0x89, CHR 0xE0, CHR 0xB8, CHR 0xA3, CHR 0xE0, CHR 0xB8,
      CHR 0xB1, CHR 0xE0, CHR 0xB8, CHR 0x9A, CHR 0xE0, CHR 0xB8, CHR 0x82, CHR 0xE0, CHR
      0xB9, CHR 0x89, CHR 0xE0, CHR 0xB8, CHR 0xAD, CHR 0xE0, CHR 0xB8, CHR 0xA1, CHR 0xE0,
      CHR 0xB8, CHR 0xB9, CHR 0xE0, CHR 0xB8, CHR 0xA5, CHR 0xE0, CHR 0xB8, CHR 0x81, CHR
      0xE0, CHR 0xB8, CHR 0xB2, CHR 0xE0, CHR 0xB8, CHR 0xA3, CHR 0xE0, CHR 0xB8, CHR 0xA5,
      CHR 0xE0, CHR 0xB8, CHR 0x87, CHR 0xE0, CHR 0xB8, CHR 0x97, CHR 0xE0, CHR 0xB8, CHR
      0xB0, CHR 0xE0, CHR 0xB9, CHR 0x80, CHR 0xE0, CHR 0xB8, CHR 0x9A, CHR 0xE0, CHR 0xB8,
      CHR 0xB5, CHR 0xE0, CHR 0xB8, CHR 0xA2, CHR 0xE0, CHR 0xB8, CHR 0x99, CHR 0xE0, CHR
      0xB8, CHR 0x82, CHR 0xE0, CHR 0xB8, CHR 0xAD, CHR 0xE0, CHR 0xB8, CHR 0x87, CHR 0xE0,
      CHR 0xB8, CHR 0x84, CHR 0xE0, CHR 0xB8, CHR 0xB8, CHR 0xE0, CHR 0xB8, CHR 0x93, CHR
      0xE0, CHR 0xB9, CHR 0x81, CHR 0xE0, CHR 0xB8, CHR 0xA5, CHR 0xE0, CHR 0xB9, CHR 0x89,
      CHR 0xE0, CHR 0xB8, CHR 0xA7, CHR 0x20, CHR 0xE0, CHR 0xB9, CHR 0x80, CHR 0xE0, CHR
      0xB8, CHR 0x88, CHR 0xE0, CHR 0xB9, CHR 0x89, CHR 0xE0, CHR 0xB8, CHR 0xB2, CHR 0xE0,
      CHR 0xB8, CHR 0xAB, CHR 0xE0, CHR 0xB8, CHR 0x99, CHR 0xE0, CHR 0xB9, CHR 0x89, CHR
      0xE0, CHR 0xB8, CHR 0xB2, CHR 0xE0, CHR 0xB8, CHR 0x97, CHR 0xE0, CHR 0xB8, CHR 0xB5,
      CHR 0xE0, CHR 0xB9, CHR 0x88, CHR 0xE0, CHR 0xB8, CHR 0x81, CHR 0xE0, CHR 0xB8, CHR
      0xB3, CHR 0xE0, CHR 0xB8, CHR 0xA5, CHR 0xE0, CHR 0xB8, CHR 0xB1, CHR 0xE0, CHR 0xB8,
      CHR 0x87, CHR 0xE0, CHR 0xB8, CHR 0x94, CHR 0xE0, CHR 0xB8, CHR 0xB3, CHR 0xE0, CHR
      0xB9, CHR 0x80, CHR 0xE0, CHR 0xB8, CHR 0x99, CHR 0xE0, CHR 0xB8, CHR 0xB4, CHR 0xE0,
      CHR 0xB8, CHR 0x99, CHR 0xE0, CHR 0xB8, CHR 0x81, CHR 0xE0, CHR 0xB8, CHR 0xB2, CHR
      0xE0, CHR 0xB8, CHR 0xA3, CHR 0xE0, CHR 0xB8, CHR 0x95, CHR 0xE0, CHR 0xB8, CHR 0xA3,
      CHR 0xE0, CHR 0xB8, CHR 0xA7, CHR 0xE0, CHR 0xB8, CHR 0x88, CHR 0xE0, CHR 0xB8, CHR
      0xAA, CHR 0xE0, CHR 0xB8, CHR 0xAD, CHR 0xE0, CHR 0xB8, CHR 0x9A, CHR 0xE0, CHR 0xB8,
      CHR 0x82, CHR 0xE0, CHR 0xB9, CHR 0x89, CHR 0xE0, CHR 0xB8, CHR 0xAD, CHR 0xE0, CHR
      0xB8, CHR 0xA1, CHR 0xE0, CHR 0xB8, CHR 0xB9, CHR 0xE0, CHR 0xB8, CHR 0xA5, CHR 0x20,
      CHR 0xE0, CHR 0xB8, CHR 0x81, CHR 0xE0, CHR 0xB8, CHR 0xA3, CHR 0xE0, CHR 0xB8, CHR
      0xB8, CHR 0xE0, CHR 0xB8, CHR 0x93, CHR 0xE0, CHR 0xB8, CHR 0xB2, CHR 0xE0, CHR 0xB8,
      CHR 0xA3, CHR 0xE0, CHR 0xB8, CHR 0xAD, CHR 0xE0, CHR 0xB8, CHR 0xAA, CHR 0xE0, CHR
      0xB8, CHR 0xB1, CHR 0xE0, CHR 0xB8, CHR 0x81, CHR 0xE0, CHR 0xB8, CHR 0x84, CHR 0xE0,
      CHR 0xB8, CHR 0xA3, CHR 0xE0, CHR 0xB8, CHR 0xB9, CHR 0xE0, CHR 0xB9, CHR 0x88, CHR
      0x20, CHR 0xE2, CHR 0x8F, CHR 0xB3]
     | ACC_ALLOWED \<Rightarrow> Some [CHR 0xE0, CHR 0xB8, CHR 0xA2, CHR 0xE0, CHR 0xB8, CHR 0xB4, CHR 0xE0, CHR 0xB8, CHR 0x99,
      CHR 0xE0, CHR 0xB8, CHR 0x94, CHR 0xE0, CHR 0xB8, CHR 0xB5, CHR 0xE0, CHR 0xB8, CHR
      0x94, CHR 0xE0, CHR 0xB9, CHR 0x89, CHR 0xE0, CHR 0xB8, CHR 0xA7, CHR 0xE0, CHR 0xB8,
      CHR 0xA2, CHR 0x21, CHR 0x20, CHR 0xE0, CHR 0xB8, CHR 0x9A, CHR 0xE0, CHR 0xB8, CHR
      0xB1, CHR 0xE0, CHR 0xB8, CHR 0x8D, CHR 0xE0, CHR 0xB8, CHR 0x8A, CHR 0xE0, CHR 0xB8,
      CHR 0xB5, CHR 0xE0, CHR 0xB8, CHR 0x82, CHR 0xE0, CHR 0xB8, CHR 0xAD, CHR 0xE0, CHR
      0xB8, CHR 0x87, CHR 0xE0, CHR 0xB8, CHR 0x84, CHR 0xE0, CHR 0xB8, CHR 0xB8, CHR 0xE0,
      CHR 0xB8, CHR 0x93, CHR 0xE0, CHR 0xB9, CHR 0x84, CHR 0xE0, CHR 0xB8, CHR 0x94, CHR
      0xE0, CHR 0xB9, CHR 0x89, CHR 0xE0, CHR 0xB8, CHR 0xA3, CHR 0xE0, CHR 0xB8, CHR 0xB1,
      CHR 0xE0, CHR 0xB8, CHR 0x9A, CHR 0xE0, CHR 0xB8, CHR 0x81, CHR 0xE0, CHR 0xB8, CHR
      0xB2, CHR 0xE0, CHR 0xB8, CHR 0xA3, CHR 0xE0, CHR 0xB8, CHR 0xAD, CHR 0xE0, CHR 0xB8,
      CHR 0x99, CHR 0xE0, CHR 0xB8, CHR 0xB8, CHR 0xE0, CHR 0xB8, CHR 0xA1, CHR 0xE0, CHR
      0xB8, CHR 0xB1, CHR 0xE0, CHR 0xB8, CHR 0x95, CHR 0xE0, CHR 0xB8, CHR 0xB4, CHR 0xE0,
      CHR 0xB8, CHR 0x81, CHR 0xE0, CHR 0xB8, CHR 0xB2, CHR 0xE0, CHR 0xB8, CHR 0xA3, CHR
      0xE0, CHR 0xB9, CHR 0x83, CHR 0xE0, CHR 0xB8, CHR 0x8A, CHR 0xE0, CHR 0xB9, CHR 0x89,
      CHR 0xE0, CHR 0xB8, CHR 0x87, CHR 0xE0, CHR 0xB8, CHR 0xB2, CHR 0xE0, CHR 0xB8, CHR
      0x99, CHR 0xE0, CHR 0xB9, CHR 0x80, CHR 0xE0, CHR 0xB8, CHR 0xA3, CHR 0xE0, CHR 0xB8,
      CHR 0xB5, CHR 0xE0, CHR 0xB8, CHR 0xA2, CHR 0xE0, CHR 0xB8, CHR 0x9A, CHR 0xE0, CHR
      0xB8, CHR 0xA3, CHR 0xE0, CHR 0xB9, CHR 0x89, CHR 0xE0, CHR 0xB8, CHR 0xAD, CHR 0xE0,
      CHR 0xB8, CHR 0xA2, CHR 0xE0, CHR 0xB9, CHR 0x81, CHR 0xE0, CHR 0xB8, CHR 0xA5, CHR
      0xE0, CHR 0xB9, CHR 0x89, CHR 0xE0, CHR 0xB8, CHR 0xA7, CHR 0x20, CHR 0xE0, CHR 0xB8,
      CHR 0x84, CHR 0xE0, CHR 0xB8, CHR 0xB8, CHR 0xE0, CHR 0xB8, CHR 0x93, CHR 0xE0, CHR
      0xB8, CHR 0xAA, CHR 0xE0, CHR 0xB8, CHR 0xB2, CHR 0xE0, CHR 0xB8, CHR 0xA1, CHR 0xE0,
      CHR 0xB8, CHR 0xB2, CHR 0xE0, CHR 0xB8, CHR 0xA3, CHR 0xE0, CHR 0xB8, CHR 0x96, CHR
      0xE0, CHR 0xB8, CHR 0x81, CHR 0xE0, CHR 0xB8, CHR 0x94, CHR 0xE0, CHR 0xB8, CHR 0x97,
      CHR 0xE0, CHR 0xB8, CHR 0xB5, CHR 0xE0, CHR 0xB9, CHR 0x88, CHR 0xE0, CHR 0xB9, CHR
      0x80, CHR 0xE0, CHR 0xB8, CHR 0xA1, CHR 0xE0, CHR 0xB8, CHR 0x99, CHR 0xE0, CHR 0xB8,
      CHR 0xB9, CHR 0xE0, CHR 0xB8, CHR 0x94, CHR 0xE0, CHR 0xB9, CHR 0x89, CHR 0xE0, CHR
      0xB8, CHR 0xB2, CHR 0xE0, CHR 0xB8, CHR 0x99, CHR 0xE0, CHR 0xB8, CHR 0xA5, CHR 0xE0,
      CHR 0xB9, CHR 0x88, CHR 0xE0, CHR 0xB8, CHR 0xB2, CHR 0xE0, CHR 0xB8, CHR 0x87, CHR
      0xE0, CHR 0xB9, CHR 0x80, CHR 0xE0, CHR 0xB8, CHR 0x9E, CHR 0xE0, CHR 0xB8, CHR 0xB7,
      CHR 0xE0, CHR 0xB9, CHR 0x88, CHR 0xE0, CHR 0xB8, CHR 0xAD, CHR 0xE0, CHR 0xB9, CHR
      0x83, CHR 0xE0, CHR 0xB8, CHR 0x8A, CHR 0xE0, CHR 0xB9, CHR 0x89, CHR 0xE0, CHR 0xB8,
      CHR 0x87, CHR 0xE0, CHR 0xB8, CHR 0xB2, CHR 0xE0, CHR 0xB8, CHR 0x99, CHR 0xE0, CHR
      0xB8, CHR 0xA3, CHR 0xE0, CHR 0xB8, CHR 0xB0, CHR 0xE0, CHR 0xB8, CHR 0x9A, CHR 0xE0,
      CHR 0xB8, CHR 0x9A, CHR 0xE0, CHR 0xB9, CHR 0x84, CHR 0xE0, CHR 0xB8, CHR 0x94, CHR
      0xE0, CHR 0xB9, CHR 0x89, CHR 0xE0, CHR 0xB8, CHR 0x97, CHR 0xE0, CHR 0xB8, CHR 0xB1,
      CHR 0xE0, CHR 0xB8, CHR 0x99, CHR 0xE0, CHR 0xB8, CHR 0x97, CHR 0xE0, CHR 0xB8, CHR
      0xB5, CHR 0x20, CHR 0xF0, CHR 0x9F, CHR 0x8E, CHR 0x89]
     | ACC_BLOCKED \<Rightarrow> Some [CHR 0xE0, CHR 0xB8, CHR 0x82, CHR 0xE0, CHR 0xB8, CHR 0xAD, CHR 0xE0, CHR 0xB8, CHR 0xAD,
      CHR 0xE0, CHR 0xB8, CHR 0xA0, CHR 0xE0, CHR 0xB8, CHR 0xB1, CHR 0xE0, CHR 0xB8, CHR
      0xA2, CHR 0x20, CHR 0xE0, CHR 0xB8, CHR 0x9A, CHR 0xE0, CHR 0xB8, CHR 0xB1, CHR 0xE0,
      CHR 0xB8, CHR 0x8D, CHR 0xE0, CHR 0xB8, CHR 0x8A, CHR 0xE0, CHR 0xB8, CHR 0xB5, CHR
      0xE0, CHR 0xB8, CHR 0x81, CHR 0xE0, CHR 0xB8, CHR 0xB2, CHR 0xE0, CHR 0xB8, CHR 0xA3,
      CHR 0xE0, CHR 0xB9, CHR 0x83, CHR 0xE0, CHR 0xB8, CHR 0x8A, CHR 0xE0, CHR 0xB9, CHR
      0x89, CHR 0xE0, CHR 0xB8, CHR 0x87, CHR 0xE0, CHR 0xB8, CHR 0xB2, CHR 0xE0, CHR 0xB8,
      CHR 0x99, CHR 0xE0, CHR 0xB8, CHR 0x82, CHR 0xE0, CHR 0xB8, CHR 0xAD, CHR 0xE0, CHR
      0xB8, CHR 0x87, CHR 0xE0, CHR 0xB8, CHR 0x84, CHR 0xE0, CHR 0xB8, CHR 0xB8, CHR 0xE0,
      CHR 0xB8, CHR 0x93, CHR 0xE0, CHR 0xB8, CHR 0x96, CHR 0xE0, CHR 0xB8, CHR 0xB9, CHR
      0xE0, CHR 0xB8, CHR 0x81, CHR 0xE0, CHR 0xB8, CHR 0xA3, CHR 0xE0, CHR 0xB8, CHR 0xB0,
      CHR 0xE0, CHR 0xB8, CHR 0x87, CHR 0xE0, CHR 0xB8, CHR 0xB1, CHR 0xE0, CHR 0xB8, CHR
      0x9A, CHR 0xE0, CHR 0xB8, CHR 0xAA, CHR 0xE0, CHR 0xB8, CHR 0xB4, CHR 0xE0, CHR 0xB8,
      CHR 0x97, CHR 0xE0, CHR 0xB8, CHR 0x98, CHR 0xE0, CHR 0xB8, CHR 0xB4, CHR 0xE0, CHR
      0xB9, CHR 0x8C, CHR 0xE0, CHR 0xB8, CHR 0x8A, CHR 0xE0, CHR 0xB8, CHR 0xB1, CHR 0xE0,
      CHR 0xB9, CHR 0x88, CHR 0xE0, CHR 0xB8, CHR 0xA7, CHR 0xE0, CHR 0xB8, CHR 0x84, CHR
      0xE0, CHR 0xB8, CHR 0xA3, CHR 0xE0, CHR 0xB8, CHR 0xB2, CHR 0xE0, CHR 0xB8, CHR 0xA7,
      CHR 0x20, CHR 0xE0, CHR 0xB8, CHR 0xAB, CHR 0xE0, CHR 0xB8, CHR 0xB2, CHR 0xE0, CHR
      0xB8, CHR 0x81, CHR 0xE0, CHR 0xB8, CHR 0xA1, CHR 0xE0, CHR 0xB8, CHR 0xB5, CHR 0xE0,
      CHR 0xB8, CHR 0x82, CHR 0xE0, CHR 0xB9, CHR 0x89, CHR 0xE0, CHR 0xB8, CHR 0xAD, CHR
      0xE0, CHR 0xB8, CHR 0xAA, CHR 0xE0, CHR 0xB8, CHR 0x87, CHR 0xE0, CHR 0xB8, CHR 0xAA,
      CHR 0xE0, CHR 0xB8, CHR 0xB1, CHR 0xE0, CHR 0xB8, CHR 0xA2, CHR 0xE0, CHR 0xB8, CHR
      0x81, CHR 0xE0, CHR 0xB8, CHR 0xA3, CHR 0xE0, CHR 0xB8, CHR 0xB8, CHR 0xE0, CHR 0xB8,
      CHR 0x93, CHR 0xE0, CHR 0xB8, CHR 0xB2, CHR 0xE0, CHR 0xB8, CHR 0x95, CHR 0xE0, CHR
      0xB8, CHR 0xB4, CHR 0xE0, CHR 0xB8, CHR 0x94, CHR 0xE0, CHR 0xB8, CHR 0x95, CHR 0xE0,
      CHR 0xB9, CHR 0x88, CHR 0xE0, CHR 0xB8, CHR 0xAD, CHR 0xE0, CHR 0xB9, CHR 0x80, CHR
      0xE0, CHR 0xB8, CHR 0x88, CHR 0xE0, CHR 0xB9, CHR 0x89, CHR 0xE0, CHR 0xB8, CHR 0xB2,
      CHR 0xE0, CHR 0xB8, CHR 0xAB, CHR 0xE0, CHR 0xB8, CHR 0x99, CHR 0xE0, CHR 0xB9, CHR
      0x89, CHR 0xE0, CHR 0xB8, CHR 0xB2, CHR 0xE0, CHR 0xB8, CHR 0x97, CHR 0xE0, CHR 0xB8,
      CHR 0xB5, CHR 0xE0, CHR 0xB9, CHR 0x88]
     | ACC_REJECTED \<Rightarrow> None)"

definition buildRejectionMessage :: "string \<Rightarrow> string" where
  "buildRejectionMessage reason =
     [CHR 0xE0, CHR 0xB8, CHR 0x82, CHR 0xE0, CHR 0xB8, CHR 0xAD, CHR 0xE0, CHR 0xB8, CHR 0xAD,
      CHR 0xE0, CHR 0xB8, CHR 0xA0, CHR 0xE0, CHR 0xB8, CHR 0xB1, CHR 0xE0, CHR 0xB8, CHR
      0xA2, CHR 0x20, CHR 0xE0, CHR 0xB8, CHR 0x81, CHR 0xE0, CHR 0xB8, CHR 0xB2, CHR 0xE0,
      CHR 0xB8, CHR 0xA3, CHR 0xE0, CHR 0xB8, CHR 0xA5, CHR 0xE0, CHR 0xB8, CHR 0x87, CHR
      0xE0, CHR 0xB8, CHR 0x97, CHR 0xE0, CHR 0xB8, CHR 0xB0, CHR 0xE0, CHR 0xB9, CHR 0x80,
      CHR 0xE0, CHR 0xB8, CHR 0x9A, CHR 0xE0, CHR 0xB8, CHR 0xB5, CHR 0xE0, CHR 0xB8, CHR
      0xA2, CHR 0xE0, CHR 0xB8, CHR 0x99, CHR 0xE0, CHR 0xB8, CHR 0x82, CHR 0xE0, CHR 0xB8,
      CHR 0xAD, CHR 0xE0, CHR 0xB8, CHR 0x87, CHR 0xE0, CHR 0xB8, CHR 0x84, CHR 0xE0, CHR
      0xB8, CHR 0xB8, CHR 0xE0, CHR 0xB8, CHR 0x93, CHR 0xE0, CHR 0xB9, CHR 0x84, CHR 0xE0,
      CHR 0xB8, CHR 0xA1, CHR 0xE0, CHR 0xB9, CHR 0x88, CHR 0xE0, CHR 0xB8, CHR 0x9C, CHR
      0xE0, CHR 0xB9, CHR 0x88, CHR 0xE0, CHR 0xB8, CHR 0xB2, CHR 0xE0, CHR 0xB8, CHR 0x99,
      CHR 0xE0, CHR 0xB8, CHR 0x81, CHR 0xE0, CHR 0xB8, CHR 0xB2, CHR 0xE0, CHR 0xB8, CHR
      0xA3, CHR 0xE0, CHR 0xB8, CHR 0xAD, CHR 0xE0, CHR 0xB8, CHR 0x99, CHR 0xE0, CHR 0xB8,
      CHR 0xB8, CHR 0xE0, CHR 0xB8, CHR 0xA1, CHR 0xE0, CHR 0xB8, CHR 0xB1, CHR 0xE0, CHR
      0xB8, CHR 0x95, CHR 0xE0, CHR 0xB8, CHR 0xB4, CHR 0x20, CHR 0xE0, CHR 0xB9, CHR 0x80,
      CHR 0xE0, CHR 0xB8, CHR 0x99, CHR 0xE0, CHR 0xB8, CHR 0xB7, CHR 0xE0, CHR 0xB9, CHR
      0x88, CHR 0xE0, CHR 0xB8, CHR 0xAD, CHR 0xE0, CHR 0xB8, CHR 0x87, CHR 0xE0, CHR 0xB8,
      CHR 0x88, CHR 0xE0, CHR 0xB8, CHR 0xB2, CHR 0xE0, CHR 0xB8, CHR 0x81, CHR 0x3A, CHR
      0x20] @ reason @
     [CHR 0x20, CHR 0xE0, CHR 0xB8, CHR 0x81, CHR 0xE0, CHR 0xB8, CHR 0xA3, CHR 0xE0, CHR 0xB8,
      CHR 0xB8, CHR 0xE0, CHR 0xB8, CHR 0x93, CHR 0xE0, CHR 0xB8, CHR 0xB2, CHR 0xE0, CHR
      0xB9, CHR 0x80, CHR 0xE0, CHR 0xB8, CHR 0x9B, CHR 0xE0, CHR 0xB8, CHR 0xB4, CHR 0xE0,
      CHR 0xB8, CHR 0x94, CHR 0xE0, CHR 0xB9, CHR 0x81, CHR 0xE0, CHR 0xB8, CHR 0xAD, CHR
      0xE0, CHR 0xB8, CHR 0x9B, CHR 0xE0, CHR 0xB8, CHR 0x9E, CHR 0xE0, CHR 0xB8, CHR 0xA5,
      CHR 0xE0, CHR 0xB8, CHR 0xB4, CHR 0xE0, CHR 0xB9, CHR 0x80, CHR 0xE0, CHR 0xB8, CHR
      0x84, CHR 0xE0, CHR 0xB8, CHR 0x8A, CHR 0xE0, CHR 0xB8, CHR 0xB1, CHR 0xE0, CHR 0xB8,
      CHR 0x99, CHR 0xE0, CHR 0xB9, CHR 0x80, CHR 0xE0, CHR 0xB8, CHR 0x9E, CHR 0xE0, CHR
      0xB8, CHR 0xB7, CHR 0xE0, CHR 0xB9, CHR 0x88, CHR 0xE0, CHR 0xB8, CHR 0xAD, CHR 0xE0,
      CHR 0xB9, CHR 0x81, CHR 0xE0, CHR 0xB8, CHR 0x81, CHR 0xE0, CHR 0xB9, CHR 0x89, CHR
      0xE0, CHR 0xB9, CHR 0x84, CHR 0xE0, CHR 0xB8, CHR 0x82, CHR 0xE0, CHR 0xB8, CHR 0x82,
      CHR 0xE0, CHR 0xB9, CHR 0x89, CHR 0xE0, CHR 0xB8, CHR 0xAD, CHR 0xE0, CHR 0xB8, CHR
      0xA1, CHR 0xE0, CHR 0xB8, CHR 0xB9, CHR 0xE0, CHR 0xB8, CHR 0xA5, CHR 0xE0, CHR 0xB9,
      CHR 0x83, CHR 0xE0, CHR 0xB8, CHR 0xAB, CHR 0xE0, CHR 0xB8, CHR 0xA1, CHR 0xE0, CHR
      0xB9, CHR 0x88, CHR 0xE0, CHR 0xB8, CHR 0xAD, CHR 0xE0, CHR 0xB8, CHR 0xB5, CHR 0xE0,
      CHR 0xB8, CHR 0x81, CHR 0xE0, CHR 0xB8, CHR 0x84, CHR 0xE0, CHR 0xB8, CHR 0xA3, CHR
      0xE0, CHR 0xB8, CHR 0xB1, CHR 0xE0, CHR 0xB9, CHR 0x89, CHR 0xE0, CHR 0xB8, CHR 0x87]"

subsection \<open>The rich menu's shortcuts\<close>

definition PENDING_MESSAGE_BY_POSTBACK_DATA :: "string \<rightharpoonup> string" where
  "PENDING_MESSAGE_BY_POSTBACK_DATA = map_of
     [(''action=my-bookings'', [CHR 0xE0, CHR 0xB8, CHR 0x9F, CHR 0xE0, CHR 0xB8, CHR 0xB5, CHR 0xE0, CHR 0xB9, CHR 0x80,
      CHR 0xE0, CHR 0xB8, CHR 0x88, CHR 0xE0, CHR 0xB8, CHR 0xAD, CHR 0xE0, CHR 0xB8, CHR
      0xA3, CHR 0xE0, CHR 0xB9, CHR 0x8C, CHR 0x20, CHR 0x22, CHR 0xE0, CHR 0xB8, CHR 0x81,
      CHR 0xE0, CHR 0xB8, CHR 0xB2, CHR 0xE0, CHR 0xB8, CHR 0xA3, CHR 0xE0, CHR 0xB8, CHR
      0x88, CHR 0xE0, CHR 0xB8, CHR 0xAD, CHR 0xE0, CHR 0xB8, CHR 0x87, CHR 0xE0, CHR 0xB8,
      CHR 0x82, CHR 0xE0, CHR 0xB8, CHR 0xAD, CHR 0xE0, CHR 0xB8, CHR 0x87, CHR 0xE0, CHR
      0xB8, CHR 0x89, CHR 0xE0, CHR 0xB8, CHR 0xB1, CHR 0xE0, CHR 0xB8, CHR 0x99, CHR 0x22,
      CHR 0x20, CHR 0xE0, CHR 0xB8, CHR 0x81, CHR 0xE0, CHR 0xB8, CHR 0xB3, CHR 0xE0, CHR
      0xB8, CHR 0xA5, CHR 0xE0, CHR 0xB8, CHR 0xB1, CHR 0xE0, CHR 0xB8, CHR 0x87, CHR 0xE0,
      CHR 0xB8, CHR 0x9E, CHR 0xE0, CHR 0xB8, CHR 0xB1, CHR 0xE0, CHR 0xB8, CHR 0x92, CHR
      0xE0, CHR 0xB8, CHR 0x99, CHR 0xE0, CHR 0xB8, CHR 0xB2, CHR 0xE0, CHR 0xB8, CHR 0xAD,
      CHR 0xE0, CHR 0xB8, CHR 0xA2, CHR 0xE0, CHR 0xB8, CHR 0xB9, CHR 0xE0, CHR 0xB9, CHR
      0x88, CHR 0x20, CHR 0xE0, CHR 0xB9, CHR 0x80, CHR 0xE0, CHR 0xB8, CHR 0xA3, CHR 0xE0,
      CHR 0xB9, CHR 0x87, CHR 0xE0, CHR 0xB8, CHR 0xA7, CHR 0x20, CHR 0xE0, CHR 0xB9, CHR
      0x86, CHR 0x20, CHR 0xE0, CHR 0xB8, CHR 0x99, CHR 0xE0, CHR 0xB8, CHR 0xB5, CHR 0xE0,
      CHR 0xB9, CHR 0x89, CHR 0xE0, CHR 0xB8, CHR 0x88, CHR 0xE0, CHR 0xB8, CHR 0xB0, CHR
      0xE0, CHR 0xB9, CHR 0x80, CHR 0xE0, CHR 0xB8, CHR 0x9B, CHR 0xE0, CHR 0xB8, CHR 0xB4,
      CHR 0xE0, CHR 0xB8, CHR 0x94, CHR 0xE0, CHR 0xB9, CHR 0x83, CHR 0xE0, CHR 0xB8, CHR
      0xAB, CHR 0xE0, CHR 0xB9, CHR 0x89, CHR 0xE0, CHR 0xB9, CHR 0x83, CHR 0xE0, CHR 0xB8,
      CHR 0x8A, CHR 0xE0, CHR 0xB9, CHR 0x89, CHR 0xE0, CHR 0xB8, CHR 0x87, CHR 0xE0, CHR
      0xB8, CHR 0xB2, CHR 0xE0, CHR 0xB8, CHR 0x99, CHR 0x20, CHR 0xF0, CHR 0x9F, CHR 0x99,
      CHR 0x8F]),
      (''action=report-issue'', [CHR 0xE0, CHR 0xB8, CHR 0x9F, CHR 0xE0, CHR 0xB8, CHR 0xB5, CHR 0xE0, CHR 0xB9, CHR 0x80,
      CHR 0xE0, CHR 0xB8, CHR 0x88, CHR 0xE0, CHR 0xB8, CHR 0xAD, CHR 0xE0, CHR 0xB8, CHR
      0xA3, CHR 0xE0, CHR 0xB9, CHR 0x8C, CHR 0x20, CHR 0x22, CHR 0xE0, CHR 0xB9, CHR 0x81,
      CHR 0xE0, CHR 0xB8, CHR 0x88, CHR 0xE0, CHR 0xB9, CHR 0x89, CHR 0xE0, CHR 0xB8, CHR
      0x87, CHR 0xE0, CHR 0xB8, CHR 0x9B, CHR 0xE0, CHR 0xB8, CHR 0xB1, CHR 0xE0, CHR 0xB8,
      CHR 0x8D, CHR 0xE0, CHR 0xB8, CHR 0xAB, CHR 0xE0, CHR 0xB8, CHR 0xB2, CHR 0x22, CHR
      0x20, CHR 0xE0, CHR 0xB8, CHR 0x81, CHR 0xE0, CHR 0xB8, CHR 0xB3, CHR 0xE0, CHR 0xB8,
      CHR 0xA5, CHR 0xE0, CHR 0xB8, CHR 0xB1, CHR 0xE0, CHR 0xB8, CHR 0x87, CHR 0xE0, CHR
      0xB8, CHR 0x9E, CHR 0xE0, CHR 0xB8, CHR 0xB1, CHR 0xE0, CHR 0xB8, CHR 0x92, CHR 0xE0,
      CHR 0xB8, CHR 0x99, CHR 0xE0, CHR 0xB8, CHR 0xB2, CHR 0xE0, CHR 0xB8, CHR 0xAD, CHR
      0xE0, CHR 0xB8, CHR 0xA2, CHR 0xE0, CHR 0xB8, CHR 0xB9, CHR 0xE0, CHR 0xB9, CHR 0x88,
      CHR 0x20, CHR 0xE0, CHR 0xB9, CHR 0x80, CHR 0xE0, CHR 0xB8, CHR 0xA3, CHR 0xE0, CHR
      0xB9, CHR 0x87, CHR 0xE0, CHR 0xB8, CHR 0xA7, CHR 0x20, CHR 0xE0, CHR 0xB9, CHR 0x86,
      CHR 0x20, CHR 0xE0, CHR 0xB8, CHR 0x99, CHR 0xE0, CHR 0xB8, CHR 0xB5, CHR 0xE0, CHR
      0xB9, CHR 0x89, CHR 0xE0, CHR 0xB8, CHR 0x88, CHR 0xE0, CHR 0xB8, CHR 0xB0, CHR 0xE0,
      CHR 0xB9, CHR 0x80, CHR 0xE0, CHR 0xB8, CHR 0x9B, CHR 0xE0, CHR 0xB8, CHR 0xB4, CHR
      0xE0, CHR 0xB8, CHR 0x94, CHR 0xE0, CHR 0xB9, CHR 0x83, CHR 0xE0, CHR 0xB8, CHR 0xAB,
      CHR 0xE0, CHR 0xB9, CHR 0x89, CHR 0xE0, CHR 0xB9, CHR 0x83, CHR 0xE0, CHR 0xB8, CHR
      0x8A, CHR 0xE0, CHR 0xB9, CHR 0x89, CHR 0xE0, CHR 0xB8, CHR 0x87, CHR 0xE0, CHR 0xB8,
      CHR 0xB2, CHR 0xE0, CHR 0xB8, CHR 0x99, CHR 0x20, CHR 0xF0, CHR 0x9F, CHR 0x99, CHR
      0x8F]),
      (''action=settings'', [CHR 0xE0, CHR 0xB8, CHR 0x9F, CHR 0xE0, CHR 0xB8, CHR 0xB5, CHR 0xE0, CHR 0xB9, CHR 0x80,
      CHR 0xE0, CHR 0xB8, CHR 0x88, CHR 0xE0, CHR 0xB8, CHR 0xAD, CHR 0xE0, CHR 0xB8, CHR
      0xA3, CHR 0xE0, CHR 0xB9, CHR 0x8C, CHR 0x20, CHR 0x22, CHR 0xE0, CHR 0xB8, CHR 0x95,
      CHR 0xE0, CHR 0xB8, CHR 0xB1, CHR 0xE0, CHR 0xB9, CHR 0x89, CHR 0xE0, CHR 0xB8, CHR
      0x87, CHR 0xE0, CHR 0xB8, CHR 0x84, CHR 0xE0, CHR 0xB9, CHR 0x88, CHR 0xE0, CHR 0xB8,
      CHR 0xB2, CHR 0x22, CHR 0x20, CHR 0xE0, CHR 0xB8, CHR 0x81, CHR 0xE0, CHR 0xB8, CHR
      0xB3, CHR 0xE0, CHR 0xB8, CHR 0xA5, CHR 0xE0, CHR 0xB8, CHR 0xB1, CHR 0xE0, CHR 0xB8,
      CHR 0x87, CHR 0xE0, CHR 0xB8, CHR 0x9E, CHR 0xE0, CHR 0xB8, CHR 0xB1, CHR 0xE0, CHR
      0xB8, CHR 0x92, CHR 0xE0, CHR 0xB8, CHR 0x99, CHR 0xE0, CHR 0xB8, CHR 0xB2, CHR 0xE0,
      CHR 0xB8, CHR 0xAD, CHR 0xE0, CHR 0xB8, CHR 0xA2, CHR 0xE0, CHR 0xB8, CHR 0xB9, CHR
      0xE0, CHR 0xB9, CHR 0x88, CHR 0x20, CHR 0xE0, CHR 0xB9, CHR 0x80, CHR 0xE0, CHR 0xB8,
      CHR 0xA3, CHR 0xE0, CHR 0xB9, CHR 0x87, CHR 0xE0, CHR 0xB8, CHR 0xA7, CHR 0x20, CHR
      0xE0, CHR 0xB9, CHR 0x86, CHR 0x20, CHR 0xE0, CHR 0xB8, CHR 0x99, CHR 0xE0, CHR 0xB8,
      CHR 0xB5, CHR 0xE0, CHR 0xB9, CHR 0x89, CHR 0xE0, CHR 0xB8, CHR 0x88, CHR 0xE0, CHR
      0xB8, CHR 0xB0, CHR 0xE0, CHR 0xB9, CHR 0x80, CHR 0xE0, CHR 0xB8, CHR 0x9B, CHR 0xE0,
      CHR 0xB8, CHR 0xB4, CHR 0xE0, CHR 0xB8, CHR 0x94, CHR 0xE0, CHR 0xB9, CHR 0x83, CHR
      0xE0, CHR 0xB8, CHR 0xAB, CHR 0xE0, CHR 0xB9, CHR 0x89, CHR 0xE0, CHR 0xB9, CHR 0x83,
      CHR 0xE0, CHR 0xB8, CHR 0x8A, CHR 0xE0, CHR 0xB9, CHR 0x89, CHR 0xE0, CHR 0xB8, CHR
      0x87, CHR 0xE0, CHR 0xB8, CHR 0xB2, CHR 0xE0, CHR 0xB8, CHR 0x99, CHR 0x20, CHR 0xF0,
      CHR 0x9F, CHR 0x99, CHR 0x8F])]"

definition UNKNOWN_COMMAND :: string where
  "UNKNOWN_COMMAND = [CHR 0xE0, CHR 0xB8, CHR 0x82, CHR 0xE0, CHR 0xB8, CHR 0xAD, CHR 0xE0, CHR 0xB8, CHR 0xAD,
      CHR 0xE0, CHR 0xB8, CHR 0xA0, CHR 0xE0, CHR 0xB8, CHR 0xB1, CHR 0xE0, CHR 0xB8, CHR
      0xA2, CHR 0x20, CHR 0xE0, CHR 0xB8, CHR 0xA3, CHR 0xE0, CHR 0xB8, CHR 0xB0, CHR 0xE0,
      CHR 0xB8, CHR 0x9A, CHR 0xE0, CHR 0xB8, CHR 0x9A, CHR 0xE0, CHR 0xB9, CHR 0x84, CHR
      0xE0, CHR 0xB8, CHR 0xA1, CHR 0xE0, CHR 0xB9, CHR 0x88, CHR 0xE0, CHR 0xB8, CHR 0xA3,
      CHR 0xE0, CHR 0xB8, CHR 0xB9, CHR 0xE0, CHR 0xB9, CHR 0x89, CHR 0xE0, CHR 0xB8, CHR
      0x88, CHR 0xE0, CHR 0xB8, CHR 0xB1, CHR 0xE0, CHR 0xB8, CHR 0x81, CHR 0xE0, CHR 0xB8,
      CHR 0x84, CHR 0xE0, CHR 0xB8, CHR 0xB3, CHR 0xE0, CHR 0xB8, CHR 0xAA, CHR 0xE0, CHR
      0xB8, CHR 0xB1, CHR 0xE0, CHR 0xB9, CHR 0x88, CHR 0xE0, CHR 0xB8, CHR 0x87, CHR 0xE0,
      CHR 0xB8, CHR 0x99, CHR 0xE0, CHR 0xB8, CHR 0xB5, CHR 0xE0, CHR 0xB9, CHR 0x89]"

subsection \<open>Searching by phone\<close>

definition ascii_digit :: "char \<Rightarrow> bool" where
  "ascii_digit c \<longleftrightarrow> c \<in> set ''0123456789''"

text \<open>An \<open>EXTENSION_MARKER\<close> starts here; the white space around it holds no digit.\<close>

definition extension_marker :: "string \<Rightarrow> bool" where
  "extension_marker s \<longleftrightarrow> js_prefix [CHR 0xE0, CHR 0xB8, CHR 0x95, CHR 0xE0, CHR 0xB9, CHR 0x88, CHR 0xE0, CHR 0xB8, CHR 0xAD] s \<or> js_prefix ''#'' s \<or>
     (case s of a # b # c # _ \<Rightarrow> a \<in> set ''eE'' \<and> b \<in> set ''xX'' \<and> c \<in> set ''tT'' | _ \<Rightarrow> False)"

fun before_marker :: "string \<Rightarrow> string" where
  "before_marker [] = []"
| "before_marker (c # cs) = (if extension_marker (c # cs) then [] else c # before_marker cs)"

definition toPhoneDigits :: "string \<Rightarrow> string" where
  "toPhoneDigits phone = filter ascii_digit (before_marker phone)"

definition digitsOnly :: "string \<Rightarrow> string" where
  "digitsOnly s = filter ascii_digit s"

end
