(* ===== verification/LineUsers.thy ===== *)
theory LineUsers
  imports Announcements AccessCards
begin

text \<open>
  \<open>LineUserService\<close> of \<open>src/src/line/line-user.service.ts\<close>: the followers of the LINE account,
  their registrations and settings, the approval of registrations, and the cached status and
  option lists the client app reads. Rows follow \<open>src/prisma/schema.prisma\<close>. Each operation is a
  call of \<open>Tx\<close>, its statements (Redis included) numbered in their order.
\<close>

subsection \<open>Rows\<close>

datatype rich_menu_type = TYPE_1 | TYPE_2

record follower =
  fo_id :: string
  fo_lineUserId :: string
  fo_displayName :: "string option"
  fo_pictureUrl :: "string option"
  fo_statusMessage :: "string option"
  fo_language :: "string option"
  fo_richMenuType :: rich_menu_type
  fo_access :: app_access
  fo_rejectionReason :: "string option"
  fo_blockReason :: "string option"
  fo_followedAt :: time
  fo_registeredAt :: "time option"
  fo_createdAt :: time
  fo_updatedAt :: time
  fo_deletedAt :: "time option"

record registration_row =
  rg_id :: string
  rg_lineUserId :: string
  rg_firstName :: string
  rg_lastName :: string
  rg_phone :: string
  rg_phoneDigits :: string
  rg_departmentId :: int
  rg_personnelRoleId :: int
  rg_createdAt :: time
  rg_updatedAt :: time
  rg_deletedAt :: "time option"

record settings_row =
  se_lineUserId :: string
  se_theme :: string
  se_notifications :: json
  se_updatedAt :: time

subsection \<open>Answers\<close>

record registration_view =
  rv_id :: string
  rv_firstName :: string
  rv_lastName :: string
  rv_phone :: string
  rv_departmentId :: int
  rv_department :: string
  rv_personnelRoleId :: int
  rv_personnelRole :: string
  rv_createdAt :: string
  rv_updatedAt :: string

record status_view =
  sv_access :: app_access
  sv_registration :: "registration_view option"
  sv_rejectionReason :: "string option"

record registration_summary =
  rs_firstName :: string
  rs_lastName :: string
  rs_phone :: string
  rs_departmentId :: int
  rs_department :: string
  rs_personnelRoleId :: int
  rs_personnelRole :: string

record follower_dto =
  fd_id :: string
  fd_lineUserId :: string
  fd_displayName :: "string option"
  fd_pictureUrl :: "string option"
  fd_statusMessage :: "string option"
  fd_richMenuType :: rich_menu_type
  fd_access :: app_access
  fd_rejectionReason :: "string option"
  fd_blockReason :: "string option"
  fd_followedAt :: string
  fd_registeredAt :: "string option"
  fd_registration :: "registration_summary option"

record options_view =
  ov_departments :: "(int \<times> string) list"
  ov_personnelRoles :: "(int \<times> string) list"

record settings_view =
  tv_theme :: string
  tv_notifications :: notification_preferences
  tv_updatedAt :: "time option"

datatype line_users_message =
    LINE_USER_NOT_FOUND | LINE_USER_REGISTRATION_NOT_FOUND | LINE_RICH_MENU_APPLY_FAILED
  | LINE_USER_ACCESS_TRANSITION_FORBIDDEN | ALREADY_REGISTERED | INVALID_DEPARTMENT
  | INVALID_PERSONNEL_ROLE | REGISTRATION_NOT_EDITABLE | REJECTION_REASON_REQUIRED
  | CANNOT_REJECT_UNREGISTERED

subsection \<open>The state\<close>

text \<open>What a key of the cache holds, by who writes it; the admin option lists are only dropped here.\<close>

datatype cached = CachedStatus status_view | CachedOptions options_view | CachedMark | CachedAdminList "option_dto list"

record accounts =
  followers :: "follower list"
  registrations :: "registration_row list"
  settings_rows :: "settings_row list"
  ac_departments :: "option_row list"
  ac_roles :: "option_row list"
  kept :: "string \<Rightarrow> cached option"

record line_profile =
  lp_displayName :: "string option"
  lp_pictureUrl :: "string option"
  lp_statusMessage :: "string option"
  lp_language :: "string option"

record rich_menu_spec =
  rm_name :: string
  rm_width :: nat
  rm_height :: nat

text \<open>
  The driver, the clock, new keys, collation, \<open>lower\<close> of the database, its errors for a repeated
  key and a missing row, whether Redis answers, what LINE answers to a push, a reply, the link of a
  menu, the list of menus and a profile request, and \<open>LINE_LIFF_URL\<close>.
\<close>

record accounts_env = "accounts driver" +
  le_now :: "nat \<Rightarrow> time"
  le_new_id :: "nat \<Rightarrow> string"
  le_collate :: "string \<Rightarrow> string \<Rightarrow> int"
  le_lower :: "string \<Rightarrow> string"
  le_unique :: js_error
  le_missing :: js_error
  le_redis :: "nat \<Rightarrow> bool"
  le_push :: "js_error + unit"
  le_reply :: "js_error + unit"
  le_link :: "js_error + unit"
  le_menus :: "js_error + (string \<times> rich_menu_spec) list"
  le_profile :: "js_error + line_profile"
  le_liff_url :: "string option"

text \<open>What leaves the process: realtime events, messages to LINE, notification triggers.\<close>

datatype account_event =
    LineUserCreated follower_dto "(string \<times> string) option"
  | LineUserUpdated follower_dto "(string \<times> string) option"
  | LineUserDeleted string "(string \<times> string) option"
  | Pushed string "json list"
  | Replied string "json list"
  | MenuLinked string string
  | RegistrationSubmitted string registration_view
  | RegistrationResubmitted string registration_view
  | UnfollowedWithPending string

type_synonym 'a account_act = "(accounts, account_event, line_users_message, 'a) act"

record admin_actor =
  aa_actor_id :: string
  aa_actor_name :: string
  aa_actor_role :: system_role

subsection \<open>The cache\<close>

definition lineStatusKey :: "string \<Rightarrow> string" where
  "lineStatusKey lineSub = ''line:status:'' @ lineSub"

definition lineProfileSyncKey :: "string \<Rightarrow> string" where
  "lineProfileSyncKey lineSub = ''line:profile-sync:'' @ lineSub"

text \<open>\<open>getJson\<close>, \<open>setJson\<close> and \<open>del\<close> of \<open>RedisService\<close>, on this cache: none throws.\<close>

definition cached_at :: "accounts_env \<Rightarrow> nat \<Rightarrow> string \<Rightarrow> cached option account_act" where
  "cached_at env k key = (\<lambda>w. let w' = meanwhile env k w
     in (Inr (if le_redis env k then kept (mine w') key else None), w'))"

definition change_kept ::
  "accounts_env \<Rightarrow> nat \<Rightarrow> ((string \<Rightarrow> cached option) \<Rightarrow> (string \<Rightarrow> cached option)) \<Rightarrow> unit account_act"
where
  "change_kept env k f = (\<lambda>w. let w' = meanwhile env k w
     in (Inr (), if le_redis env k
                 then w'\<lparr>base := (base w')\<lparr>kept := f (kept (base w'))\<rparr>, mine := (mine w')\<lparr>kept := f (kept (mine w'))\<rparr>\<rparr>
                 else w'))"

definition keep_at :: "accounts_env \<Rightarrow> nat \<Rightarrow> string \<Rightarrow> cached \<Rightarrow> unit account_act" where
  "keep_at env k key v = change_kept env k (\<lambda>c. c(key := Some v))"

definition drop_keys :: "accounts_env \<Rightarrow> nat \<Rightarrow> string list \<Rightarrow> unit account_act" where
  "drop_keys env k keys = change_kept env k (\<lambda>c key. if key \<in> set keys then None else c key)"

subsection \<open>Answers from rows\<close>

text \<open>A required relation: the foreign key makes its row exist.\<close>

definition name_in :: "option_row list \<Rightarrow> int \<Rightarrow> string" where
  "name_in rows i = (case option_ref rows i of None \<Rightarrow> [] | Some (_, name) \<Rightarrow> name)"

definition toRegistrationResponseDto :: "accounts \<Rightarrow> registration_row \<Rightarrow> registration_view" where
  "toRegistrationResponseDto s r =
     \<lparr>rv_id = rg_id r, rv_firstName = rg_firstName r, rv_lastName = rg_lastName r, rv_phone = rg_phone r,
      rv_departmentId = rg_departmentId r, rv_department = name_in (ac_departments s) (rg_departmentId r),
      rv_personnelRoleId = rg_personnelRoleId r, rv_personnelRole = name_in (ac_roles s) (rg_personnelRoleId r),
      rv_createdAt = toISOString (rg_createdAt r), rv_updatedAt = toISOString (rg_updatedAt r)\<rparr>"

definition toStatusDto :: "app_access \<Rightarrow> registration_view option \<Rightarrow> string option \<Rightarrow> status_view" where
  "toStatusDto access registration rejectionReason =
     \<lparr>sv_access = access, sv_registration = registration, sv_rejectionReason = rejectionReason\<rparr>"

definition registration_of :: "accounts \<Rightarrow> string \<Rightarrow> registration_row option" where
  "registration_of s i = first_row (\<lambda>r. rg_lineUserId r = i) (registrations s)"

definition registration_summary_of :: "accounts \<Rightarrow> registration_row \<Rightarrow> registration_summary" where
  "registration_summary_of s r =
     \<lparr>rs_firstName = rg_firstName r, rs_lastName = rg_lastName r, rs_phone = rg_phone r,
      rs_departmentId = rg_departmentId r, rs_department = name_in (ac_departments s) (rg_departmentId r),
      rs_personnelRoleId = rg_personnelRoleId r, rs_personnelRole = name_in (ac_roles s) (rg_personnelRoleId r)\<rparr>"

text \<open>\<open>toDto\<close> of the row read with \<open>LINE_USER_PUBLIC_FIELDS\<close>.\<close>

definition toFollowerDto :: "accounts \<Rightarrow> follower \<Rightarrow> follower_dto" where
  "toFollowerDto s u =
     \<lparr>fd_id = fo_id u, fd_lineUserId = fo_lineUserId u, fd_displayName = fo_displayName u,
      fd_pictureUrl = fo_pictureUrl u, fd_statusMessage = fo_statusMessage u,
      fd_richMenuType = fo_richMenuType u, fd_access = fo_access u,
      fd_rejectionReason = fo_rejectionReason u, fd_blockReason = fo_blockReason u,
      fd_followedAt = toISOString (fo_followedAt u), fd_registeredAt = map_option toISOString (fo_registeredAt u),
      fd_registration = map_option (registration_summary_of s) (registration_of s (fo_id u))\<rparr>"

subsection \<open>Statements\<close>

definition live_follower :: "string \<Rightarrow> accounts \<Rightarrow> follower option" where
  "live_follower sub s = first_row (\<lambda>u. fo_lineUserId u = sub \<and> fo_deletedAt u = None) (followers s)"

definition follower_at :: "string \<Rightarrow> accounts \<Rightarrow> follower option" where
  "follower_at i s = first_row (\<lambda>u. fo_id u = i) (followers s)"

definition bare_follower :: "accounts_env \<Rightarrow> nat \<Rightarrow> string \<Rightarrow> follower" where
  "bare_follower env k sub =
     \<lparr>fo_id = le_new_id env k, fo_lineUserId = sub, fo_displayName = None, fo_pictureUrl = None,
      fo_statusMessage = None, fo_language = None, fo_richMenuType = TYPE_1, fo_access = ACC_UNREGISTERED,
      fo_rejectionReason = None, fo_blockReason = None, fo_followedAt = le_now env k, fo_registeredAt = None,
      fo_createdAt = le_now env k, fo_updatedAt = le_now env k, fo_deletedAt = None\<rparr>"

text \<open>\<open>lineUser.create\<close>: both the key and \<open>lineUserId\<close> are unique, over deleted rows as well.\<close>

definition insert_follower :: "accounts_env \<Rightarrow> follower \<Rightarrow> accounts \<Rightarrow> js_error + (accounts \<times> follower)" where
  "insert_follower env u s =
     (if fo_id u \<in> fo_id ` set (followers s) \<or> fo_lineUserId u \<in> fo_lineUserId ` set (followers s)
      then Inl (le_unique env) else Inr (s\<lparr>followers := followers s @ [u]\<rparr>, u))"

text \<open>\<open>lineUser.update({ where: { id } })\<close>, with \<open>@updatedAt\<close>.\<close>

definition touch :: "accounts_env \<Rightarrow> nat \<Rightarrow> (follower \<Rightarrow> follower) \<Rightarrow> follower \<Rightarrow> follower" where
  "touch env k f u = f (u\<lparr>fo_updatedAt := le_now env k\<rparr>)"

definition update_follower ::
  "accounts_env \<Rightarrow> nat \<Rightarrow> string \<Rightarrow> (follower \<Rightarrow> follower) \<Rightarrow> accounts \<Rightarrow> js_error + (accounts \<times> follower)"
where
  "update_follower env k i f s = (case follower_at i s of
       None \<Rightarrow> Inl (le_missing env)
     | Some u \<Rightarrow> Inr (s\<lparr>followers := set_where (\<lambda>x. fo_id x = i) (touch env k f) (followers s)\<rparr>, touch env k f u))"

end
