(* ===== verification/LineUserCalls.thy ===== *)
theory LineUserCalls
  imports LineUsers
begin

text \<open>
  The operations of \<open>LineUserService\<close>, of the webhook that drives some of them
  (\<open>src/src/line/line-webhook.service.ts\<close>) and the transition matrix of
  \<open>src/src/line/line-access.policy.ts\<close>.
\<close>

subsection \<open>Realtime\<close>

datatype follower_event = FOLLOWER_CREATED | FOLLOWER_UPDATED

text \<open>The whole body is one \<open>try\<close>: a failed read tells nobody, and the write stands.\<close>

definition publish_follower ::
  "accounts_env \<Rightarrow> nat \<Rightarrow> follower_event \<Rightarrow> string \<Rightarrow> admin_actor option \<Rightarrow> unit account_act"
where
  "publish_follower env k kind i actor =
     catching
       (andThen (fetch env k (\<lambda>s. map_option (toFollowerDto s)
          (first_row (\<lambda>u. fo_id u = i \<and> fo_deletedAt u = None) (followers s)))) (\<lambda>row.
        case row of
          None \<Rightarrow> done_with ()
        | Some dto \<Rightarrow>
            (let who = map_option (\<lambda>a. (aa_actor_id a, aa_actor_name a)) actor
             in tell [case kind of FOLLOWER_CREATED \<Rightarrow> LineUserCreated dto who
                                 | FOLLOWER_UPDATED \<Rightarrow> LineUserUpdated dto who])))
       (\<lambda>_. done_with ())"

subsection \<open>Following and unfollowing\<close>

record profile_input =
  pf_lineUserId :: string
  pf_displayName :: "string option"
  pf_pictureUrl :: "string option"
  pf_statusMessage :: "string option"
  pf_language :: "string option"

definition with_profile :: "profile_input \<Rightarrow> follower \<Rightarrow> follower" where
  "with_profile p u = u\<lparr>fo_displayName := pf_displayName p, fo_pictureUrl := pf_pictureUrl p,
     fo_statusMessage := pf_statusMessage p, fo_language := pf_language p\<rparr>"

text \<open>\<open>lineUser.upsert\<close> on the unique \<open>lineUserId\<close>: one atomic statement.\<close>

definition upsert_follower :: "accounts_env \<Rightarrow> profile_input \<Rightarrow> accounts \<Rightarrow> js_error + (accounts \<times> follower)" where
  "upsert_follower env p s =
     (case first_row (\<lambda>u. fo_lineUserId u = pf_lineUserId p) (followers s) of
        None \<Rightarrow> insert_follower env (with_profile p (bare_follower env 0 (pf_lineUserId p))) s
      | Some u \<Rightarrow> update_follower env 0 (fo_id u)
          (\<lambda>u. (with_profile p u)\<lparr>fo_deletedAt := None, fo_followedAt := le_now env 0\<rparr>) s)"

definition upsertOnFollow :: "accounts_env \<Rightarrow> profile_input \<Rightarrow> follower account_act" where
  "upsertOnFollow env p =
     andThen (atomically (put env 0 (upsert_follower env p))) (\<lambda>user.
     andThen (publish_follower env 1 FOLLOWER_CREATED (fo_id user) None) (\<lambda>_.
     andThen (drop_keys env 2 [lineStatusKey (pf_lineUserId p)]) (\<lambda>_. done_with user)))"

definition soft_delete_row :: "accounts_env \<Rightarrow> string \<Rightarrow> accounts \<Rightarrow> js_error + (accounts \<times> nat)" where
  "soft_delete_row env i s =
     (let p = (\<lambda>u. fo_id u = i \<and> fo_deletedAt u = None)
      in Inr (s\<lparr>followers := set_where p (touch env 1 (\<lambda>u. u\<lparr>fo_deletedAt := Some (le_now env 1)\<rparr>)) (followers s)\<rparr>,
              count_where p (followers s)))"

definition softDeleteByLineUserId :: "accounts_env \<Rightarrow> string \<Rightarrow> nat account_act" where
  "softDeleteByLineUserId env sub =
     andThen (fetch env 0 (\<lambda>s. map_option fo_id (live_follower sub s))) (\<lambda>row.
     case row of
       None \<Rightarrow> done_with 0
     | Some i \<Rightarrow>
         andThen (atomically (put env 1 (soft_delete_row env i))) (\<lambda>count.
         if count = 0 then done_with 0
         else
           andThen (tell [LineUserDeleted i None]) (\<lambda>_.
           andThen (drop_keys env 2 [lineStatusKey sub]) (\<lambda>_.
           andThen (tell [UnfollowedWithPending i]) (\<lambda>_. done_with 1)))))"

definition findActiveByLineUserId :: "accounts_env \<Rightarrow> nat \<Rightarrow> string \<Rightarrow> follower option account_act" where
  "findActiveByLineUserId env k sub = fetch env k (live_follower sub)"

definition getOrCreateByLineUserId :: "accounts_env \<Rightarrow> nat \<Rightarrow> string \<Rightarrow> follower account_act" where
  "getOrCreateByLineUserId env k sub =
     andThen (findActiveByLineUserId env k sub) (\<lambda>existing.
     case existing of
       Some u \<Rightarrow> done_with u
     | None \<Rightarrow> atomically (put env (k + 1) (insert_follower env (bare_follower env (k + 1) sub))))"

subsection \<open>Profiles\<close>

text \<open>A field is written when it is sent, not empty, and not what the row at hand holds.\<close>

definition changed_field :: "string option \<Rightarrow> string option \<Rightarrow> string option" where
  "changed_field next stored = (case truthy next of None \<Rightarrow> None | Some v \<Rightarrow> if stored = Some v then None else Some v)"

definition write_profile :: "string option \<Rightarrow> string option \<Rightarrow> follower \<Rightarrow> follower" where
  "write_profile displayName pictureUrl u =
     u\<lparr>fo_displayName := (case displayName of None \<Rightarrow> fo_displayName u | Some v \<Rightarrow> Some v),
       fo_pictureUrl := (case pictureUrl of None \<Rightarrow> fo_pictureUrl u | Some v \<Rightarrow> Some v)\<rparr>"

definition syncProfile :: "accounts_env \<Rightarrow> nat \<Rightarrow> follower \<Rightarrow> string option \<Rightarrow> string option \<Rightarrow> follower account_act" where
  "syncProfile env k user nextName nextPicture =
     (let name = changed_field nextName (fo_displayName user);
          picture = changed_field nextPicture (fo_pictureUrl user)
      in if name = None \<and> picture = None then done_with user
         else
           andThen (atomically (put env k (update_follower env k (fo_id user) (write_profile name picture)))) (\<lambda>updated.
           andThen (publish_follower env (k + 1) FOLLOWER_UPDATED (fo_id updated) None) (\<lambda>_. done_with updated)))"

text \<open>A call of the LINE client: its answer, or its error.\<close>

definition ask_line :: "js_error + 'a \<Rightarrow> 'a account_act" where
  "ask_line r = (case r of Inl e \<Rightarrow> stop_with (Thrown e) | Inr a \<Rightarrow> done_with a)"

definition refreshProfileFromLine :: "accounts_env \<Rightarrow> string \<Rightarrow> unit account_act" where
  "refreshProfileFromLine env sub =
     andThen (cached_at env 0 (lineProfileSyncKey sub)) (\<lambda>mark.
     if mark \<noteq> None then done_with ()
     else
       andThen (findActiveByLineUserId env 1 sub) (\<lambda>user.
       case user of
         None \<Rightarrow> done_with ()
       | Some u \<Rightarrow>
           andThen (keep_at env 2 (lineProfileSyncKey sub) CachedMark) (\<lambda>_.
           catching
             (andThen (ask_line (le_profile env)) (\<lambda>p.
              andThen (syncProfile env 3 u (lp_displayName p) (lp_pictureUrl p)) (\<lambda>_. done_with ())))
             (\<lambda>_. done_with ()))))"

subsection \<open>Rich menus and messages\<close>

definition setRichMenuType :: "accounts_env \<Rightarrow> string \<Rightarrow> rich_menu_type \<Rightarrow> follower option account_act" where
  "setRichMenuType env sub t =
     andThen (findActiveByLineUserId env 0 sub) (\<lambda>user.
     case user of
       None \<Rightarrow> done_with None
     | Some u \<Rightarrow> andThen (atomically (put env 1 (update_follower env 1 (fo_id u) (\<lambda>u. u\<lparr>fo_richMenuType := t\<rparr>))))
         (\<lambda>updated. done_with (Some updated)))"

definition RICH_MENU_SPECS :: "rich_menu_type \<Rightarrow> rich_menu_spec" where
  "RICH_MENU_SPECS t = (case t of
       TYPE_1 \<Rightarrow> \<lparr>rm_name = ''easy-book-liff'', rm_width = 2500, rm_height = 843\<rparr>
     | TYPE_2 \<Rightarrow> \<lparr>rm_name = ''easy-book-main'', rm_width = 2500, rm_height = 1686\<rparr>)"

definition findRichMenuId :: "accounts_env \<Rightarrow> rich_menu_spec \<Rightarrow> string option account_act" where
  "findRichMenuId env spec =
     andThen (ask_line (le_menus env)) (\<lambda>menus. done_with (map_option fst (List.find (\<lambda>m. snd m = spec) menus)))"

definition menu_missing :: "rich_menu_spec \<Rightarrow> string" where
  "menu_missing spec = ''Rich menu '' @ [CHR 0x27] @ rm_name spec @ [CHR 0x27] @ '' ('' @ show_nat (rm_width spec) @
     ''x'' @ show_nat (rm_height spec) @ '') not found on LINE '' @ [CHR 0xE2, CHR 0x80, CHR 0x94] @ '' run '' @
     [CHR 0x27] @ ''npm run line:setup-richmenu'' @ [CHR 0x27] @ '' first.''"

text \<open>\<open>if (!richMenuId)\<close>: an empty id is none.\<close>

definition applyRichMenu :: "accounts_env \<Rightarrow> string \<Rightarrow> rich_menu_type \<Rightarrow> unit account_act" where
  "applyRichMenu env sub t =
     (let spec = RICH_MENU_SPECS t in
      andThen (findRichMenuId env spec) (\<lambda>found.
      case truthy found of
        None \<Rightarrow> stop_with (Thrown (plain_error (menu_missing spec)))
      | Some menu \<Rightarrow> andThen (ask_line (le_link env)) (\<lambda>_. tell [MenuLinked sub menu])))"

definition accessToRichMenuType :: "app_access \<Rightarrow> rich_menu_type" where
  "accessToRichMenuType access = (if access = ACC_ALLOWED then TYPE_2 else TYPE_1)"

text \<open>\<open>line.push\<close> inside its \<open>try\<close>: what LINE refuses is logged.\<close>

definition push_softly :: "accounts_env \<Rightarrow> string \<Rightarrow> json \<Rightarrow> unit account_act" where
  "push_softly env sub message =
     catching (andThen (ask_line (le_push env)) (\<lambda>_. tell [Pushed sub [message]])) (\<lambda>_. done_with ())"

definition notifyAccessChange :: "accounts_env \<Rightarrow> string \<Rightarrow> app_access \<Rightarrow> unit account_act" where
  "notifyAccessChange env sub access = (case (ACCESS_NOTIFICATION_MESSAGES access, as_card_access access) of
       (Some text, Some state) \<Rightarrow> push_softly env sub (buildAccessCard state text None (le_liff_url env))
     | _ \<Rightarrow> done_with ())"

definition notifyRejection :: "accounts_env \<Rightarrow> string \<Rightarrow> string \<Rightarrow> unit account_act" where
  "notifyRejection env sub reason =
     push_softly env sub (buildAccessCard CARD_REJECTED (buildRejectionMessage reason) (Some reason) (le_liff_url env))"

subsection \<open>The registration form's options\<close>

definition by_option_name :: "accounts_env \<Rightarrow> option_row \<Rightarrow> option_row \<Rightarrow> int" where
  "by_option_name env a b = le_collate env (op_name a) (op_name b)"

definition offered :: "accounts_env \<Rightarrow> option_row list \<Rightarrow> (int \<times> string) list" where
  "offered env rows = map (\<lambda>r. (op_id r, op_name r))
     (js_sort (by_option_name env) (filter (\<lambda>r. op_deletedAt r = None \<and> \<not> op_isSystemReserved r) rows))"

definition getRegistrationOptions :: "accounts_env \<Rightarrow> options_view account_act" where
  "getRegistrationOptions env =
     andThen (cached_at env 0 LIFF_OPTIONS_KEY) (\<lambda>found.
     case found of
       Some (CachedOptions payload) \<Rightarrow> done_with payload
     | _ \<Rightarrow>
         andThen (fetch env 1 (\<lambda>s. offered env (ac_departments s))) (\<lambda>departments.
         andThen (fetch env 2 (\<lambda>s. offered env (ac_roles s))) (\<lambda>personnelRoles.
         (let payload = \<lparr>ov_departments = departments, ov_personnelRoles = personnelRoles\<rparr> in
          andThen (keep_at env 3 LIFF_OPTIONS_KEY (CachedOptions payload)) (\<lambda>_. done_with payload)))))"

definition assertActiveOptions :: "accounts_env \<Rightarrow> nat \<Rightarrow> int \<Rightarrow> int \<Rightarrow> unit account_act" where
  "assertActiveOptions env k departmentId personnelRoleId =
     andThen (fetch env k (\<lambda>s. first_row (assignable False departmentId) (ac_departments s))) (\<lambda>department.
     andThen (fetch env (k + 1) (\<lambda>s. first_row (assignable False personnelRoleId) (ac_roles s))) (\<lambda>personnelRole.
     andThen (check (department \<noteq> None) (BadRequest INVALID_DEPARTMENT)) (\<lambda>_.
     check (personnelRole \<noteq> None) (BadRequest INVALID_PERSONNEL_ROLE))))"

subsection \<open>Registering\<close>

record registration_dto =
  rd_firstName :: string
  rd_lastName :: string
  rd_phone :: string
  rd_departmentId :: int
  rd_personnelRoleId :: int

definition new_registration :: "accounts_env \<Rightarrow> nat \<Rightarrow> string \<Rightarrow> registration_dto \<Rightarrow> registration_row" where
  "new_registration env k userId dto =
     \<lparr>rg_id = le_new_id env k, rg_lineUserId = userId, rg_firstName = rd_firstName dto,
      rg_lastName = rd_lastName dto, rg_phone = rd_phone dto, rg_phoneDigits = toPhoneDigits (rd_phone dto),
      rg_departmentId = rd_departmentId dto, rg_personnelRoleId = rd_personnelRoleId dto,
      rg_createdAt = le_now env k, rg_updatedAt = le_now env k, rg_deletedAt = None\<rparr>"

definition insert_registration ::
  "accounts_env \<Rightarrow> registration_row \<Rightarrow> accounts \<Rightarrow> js_error + (accounts \<times> registration_row \<times> registration_view)"
where
  "insert_registration env r s =
     (if rg_id r \<in> rg_id ` set (registrations s) \<or> rg_lineUserId r \<in> rg_lineUserId ` set (registrations s)
      then Inl (le_unique env)
      else Inr (s\<lparr>registrations := registrations s @ [r]\<rparr>, r, toRegistrationResponseDto s r))"

definition edit_registration :: "accounts_env \<Rightarrow> nat \<Rightarrow> registration_dto \<Rightarrow> registration_row \<Rightarrow> registration_row" where
  "edit_registration env k dto r =
     r\<lparr>rg_firstName := rd_firstName dto, rg_lastName := rd_lastName dto, rg_phone := rd_phone dto,
       rg_phoneDigits := toPhoneDigits (rd_phone dto), rg_departmentId := rd_departmentId dto,
       rg_personnelRoleId := rd_personnelRoleId dto, rg_updatedAt := le_now env k\<rparr>"

definition update_registration ::
  "accounts_env \<Rightarrow> nat \<Rightarrow> string \<Rightarrow> registration_dto \<Rightarrow> accounts \<Rightarrow> js_error + (accounts \<times> registration_view)"
where
  "update_registration env k userId dto s = (case registration_of s userId of
       None \<Rightarrow> Inl (le_missing env)
     | Some r \<Rightarrow> Inr (s\<lparr>registrations := set_where (\<lambda>r. rg_lineUserId r = userId) (edit_registration env k dto) (registrations s)\<rparr>,
                     toRegistrationResponseDto s (edit_registration env k dto r)))"

definition mapRegistrationWriteError :: "line_users_message stop \<Rightarrow> line_users_message stop" where
  "mapRegistrationWriteError e = (case e of
       Refused m \<Rightarrow> Refused m
     | Thrown err \<Rightarrow> if isUniqueViolation err then Refused (Conflict ALREADY_REGISTERED) else Thrown err)"

text \<open>What the transaction of \<open>register\<close> returns: the user, the access, the registration, and
  whether the user was created.\<close>

definition register_work ::
  "accounts_env \<Rightarrow> string \<Rightarrow> registration_dto \<Rightarrow> (string \<times> app_access \<times> registration_view \<times> bool) account_act"
where
  "register_work env sub dto =
     andThen (fetch env 0 (live_follower sub)) (\<lambda>existing.
     andThen (case existing of Some u \<Rightarrow> done_with u
       | None \<Rightarrow> put env 1 (insert_follower env (bare_follower env 1 sub))) (\<lambda>user.
     andThen (check (fo_access user = ACC_UNREGISTERED) (Conflict ALREADY_REGISTERED)) (\<lambda>_.
     andThen (assertActiveOptions env 2 (rd_departmentId dto) (rd_personnelRoleId dto)) (\<lambda>_.
     andThen (put env 4 (insert_registration env (new_registration env 4 (fo_id user) dto))) (\<lambda>(created, view).
     andThen (put env 5 (update_follower env 5 (fo_id user)
       (\<lambda>u. u\<lparr>fo_access := ACC_PENDING, fo_registeredAt := Some (rg_createdAt created)\<rparr>))) (\<lambda>updated.
     done_with (fo_id user, fo_access updated, view, existing = None)))))))"

definition register :: "accounts_env \<Rightarrow> string \<Rightarrow> registration_dto \<Rightarrow> status_view account_act" where
  "register env sub dto =
     catching
       (andThen (atomically (register_work env sub dto)) (\<lambda>(userId, access, registration, wasCreated).
        andThen (publish_follower env 6 (if wasCreated then FOLLOWER_CREATED else FOLLOWER_UPDATED) userId None) (\<lambda>_.
        andThen (notifyAccessChange env sub access) (\<lambda>_.
        andThen (drop_keys env 7 (OPTION_LIST_KEYS @ [lineStatusKey sub])) (\<lambda>_.
        andThen (tell [RegistrationSubmitted userId registration]) (\<lambda>_.
        done_with (toStatusDto access (Some registration) None)))))))
       (\<lambda>e. stop_with (mapRegistrationWriteError e))"

definition resubmit_work :: "accounts_env \<Rightarrow> string \<Rightarrow> registration_dto \<Rightarrow> bool \<Rightarrow> registration_view account_act" where
  "resubmit_work env userId dto wasRejected =
     andThen (assertActiveOptions env 1 (rd_departmentId dto) (rd_personnelRoleId dto)) (\<lambda>_.
     andThen (put env 3 (update_registration env 3 userId dto)) (\<lambda>registration.
     if wasRejected then
       andThen (put env 4 (update_follower env 4 userId (\<lambda>u. u\<lparr>fo_access := ACC_PENDING, fo_rejectionReason := None\<rparr>)))
         (\<lambda>_. done_with registration)
     else done_with registration))"

definition updateRegistration :: "accounts_env \<Rightarrow> string \<Rightarrow> registration_dto \<Rightarrow> status_view account_act" where
  "updateRegistration env sub dto =
     andThen (fetch env 0 (live_follower sub)) (\<lambda>found.
     andThen (need found (Forbidden REGISTRATION_NOT_EDITABLE)) (\<lambda>user.
     andThen (check (fo_access user = ACC_PENDING \<or> fo_access user = ACC_REJECTED)
       (Forbidden REGISTRATION_NOT_EDITABLE)) (\<lambda>_.
     (let wasRejected = (fo_access user = ACC_REJECTED) in
      andThen (atomically (resubmit_work env (fo_id user) dto wasRejected)) (\<lambda>updated.
      andThen (publish_follower env 5 FOLLOWER_UPDATED (fo_id user) None) (\<lambda>_.
      andThen (if wasRejected then notifyAccessChange env sub ACC_PENDING else done_with ()) (\<lambda>_.
      andThen (drop_keys env 6 (OPTION_LIST_KEYS @ [lineStatusKey sub])) (\<lambda>_.
      andThen (if wasRejected then tell [RegistrationResubmitted (fo_id user) updated] else done_with ()) (\<lambda>_.
      done_with (toStatusDto ACC_PENDING (Some updated) None))))))))))"

subsection \<open>The caller's own status and settings\<close>

definition live_registration :: "string \<Rightarrow> accounts \<Rightarrow> registration_view option" where
  "live_registration userId s = map_option (toRegistrationResponseDto s)
     (first_row (\<lambda>r. rg_lineUserId r = userId \<and> rg_deletedAt r = None) (registrations s))"

definition getStatus ::
  "accounts_env \<Rightarrow> string \<Rightarrow> (string option \<times> string option) option \<Rightarrow> status_view account_act"
where
  "getStatus env sub profile =
     andThen (cached_at env 0 (lineStatusKey sub)) (\<lambda>found.
     case found of
       Some (CachedStatus dto) \<Rightarrow> done_with dto
     | _ \<Rightarrow>
         andThen (getOrCreateByLineUserId env 1 sub) (\<lambda>user.
         andThen (case profile of None \<Rightarrow> done_with user
           | Some (name, picture) \<Rightarrow> syncProfile env 3 user name picture) (\<lambda>user.
         andThen (fetch env 5 (live_registration (fo_id user))) (\<lambda>registration.
         (let dto = toStatusDto (fo_access user) registration (fo_rejectionReason user) in
          andThen (keep_at env 6 (lineStatusKey sub) (CachedStatus dto)) (\<lambda>_. done_with dto))))))"

definition DEFAULT_LINE_USER_THEME :: string where
  "DEFAULT_LINE_USER_THEME = ''system''"

definition settings_view_of :: "settings_row \<Rightarrow> settings_view" where
  "settings_view_of r = \<lparr>tv_theme = se_theme r, tv_notifications = toNotificationPreferences (Some (se_notifications r)),
     tv_updatedAt = Some (se_updatedAt r)\<rparr>"

definition default_settings :: settings_view where
  "default_settings = \<lparr>tv_theme = DEFAULT_LINE_USER_THEME, tv_notifications = defaultNotificationPreferences,
     tv_updatedAt = None\<rparr>"

definition settings_of :: "accounts \<Rightarrow> string \<Rightarrow> settings_row option" where
  "settings_of s i = first_row (\<lambda>r. se_lineUserId r = i) (settings_rows s)"

definition own_settings :: "string \<Rightarrow> accounts \<Rightarrow> settings_row option" where
  "own_settings sub s = first_row (\<lambda>r. list_ex (\<lambda>u. fo_id u = se_lineUserId r \<and> fo_lineUserId u = sub \<and>
     fo_deletedAt u = None) (followers s)) (settings_rows s)"

definition getSettings :: "accounts_env \<Rightarrow> string \<Rightarrow> settings_view account_act" where
  "getSettings env sub =
     andThen (fetch env 0 (own_settings sub)) (\<lambda>row.
     done_with (case row of None \<Rightarrow> default_settings | Some r \<Rightarrow> settings_view_of r))"

record preferences_patch =
  pp_announcements :: "bool option"
  pp_decisions :: "bool option"
  pp_reminders :: "bool option"

record settings_patch =
  sp_theme :: "string option"
  sp_notifications :: "preferences_patch option"

text \<open>The stored preferences with the keys of \<open>definedPreferences\<close> spread over them.\<close>

definition merged_preferences :: "notification_preferences \<Rightarrow> preferences_patch option \<Rightarrow> notification_preferences" where
  "merged_preferences stored patch = (case patch of
       None \<Rightarrow> stored
     | Some p \<Rightarrow> \<lparr>np_announcements = or_else (pp_announcements p) (np_announcements stored),
         np_decisions = or_else (pp_decisions p) (np_decisions stored),
         np_reminders = or_else (pp_reminders p) (np_reminders stored)\<rparr>)"

definition preferences_json :: "notification_preferences \<Rightarrow> json" where
  "preferences_json p = JObject [(''announcements'', JBool (np_announcements p)),
     (''decisions'', JBool (np_decisions p)), (''reminders'', JBool (np_reminders p))]"

definition upsert_settings ::
  "accounts_env \<Rightarrow> nat \<Rightarrow> string \<Rightarrow> string \<Rightarrow> json \<Rightarrow> accounts \<Rightarrow> js_error + (accounts \<times> settings_row)"
where
  "upsert_settings env k i theme notifications s =
     (let row = \<lparr>se_lineUserId = i, se_theme = theme, se_notifications = notifications, se_updatedAt = le_now env k\<rparr>
      in case settings_of s i of
           None \<Rightarrow> Inr (s\<lparr>settings_rows := settings_rows s @ [row]\<rparr>, row)
         | Some _ \<Rightarrow> Inr (s\<lparr>settings_rows := set_where (\<lambda>r. se_lineUserId r = i) (\<lambda>_. row) (settings_rows s)\<rparr>, row))"

definition patchSettings :: "accounts_env \<Rightarrow> string \<Rightarrow> settings_patch \<Rightarrow> settings_view account_act" where
  "patchSettings env sub dto =
     andThen (getOrCreateByLineUserId env 0 sub) (\<lambda>user.
     andThen (fetch env 2 (\<lambda>s. settings_of s (fo_id user))) (\<lambda>existing.
     (let stored = toNotificationPreferences (map_option se_notifications existing);
          notifications = preferences_json (merged_preferences stored (sp_notifications dto));
          theme = or_else (sp_theme dto) (or_else (map_option se_theme existing) DEFAULT_LINE_USER_THEME)
      in andThen (atomically (put env 3 (upsert_settings env 3 (fo_id user) theme notifications))) (\<lambda>saved.
         done_with (settings_view_of saved)))))"

end
