(* ===== verification/LineUserAdmin.thy ===== *)
theory LineUserAdmin
  imports LineUserCalls
begin

text \<open>
  The back office's side of \<open>LineUserService\<close>: the list with its search and orders, the access
  changes with the matrix of \<open>src/src/line/line-access.policy.ts\<close>, the correction of a
  registration, and the webhook (\<open>src/src/line/line-webhook.service.ts\<close>).
\<close>

subsection \<open>Listing\<close>

definition ilike :: "accounts_env \<Rightarrow> string \<Rightarrow> string \<Rightarrow> bool" where
  "ilike env q text = sql_like (utf8_chars (le_lower env (''%'' @ q @ ''%''))) (utf8_chars (le_lower env text))"

definition ilike_opt :: "accounts_env \<Rightarrow> string \<Rightarrow> string option \<Rightarrow> bool" where
  "ilike_opt env q text = (case text of None \<Rightarrow> False | Some t \<Rightarrow> ilike env q t)"

text \<open>The last alternative compares digits; \<open>contains\<close> without a mode is \<open>LIKE\<close>, and digits hold no wildcard.\<close>

definition buildSearchFilter :: "accounts_env \<Rightarrow> accounts \<Rightarrow> string option \<Rightarrow> follower \<Rightarrow> bool" where
  "buildSearchFilter env s search u =
     (let q = (case search of None \<Rightarrow> [] | Some t \<Rightarrow> js_trim t);
          reg = registration_of s (fo_id u);
          digits = digitsOnly q;
          field = (\<lambda>f. ilike_opt env q (map_option f reg))
      in q = [] \<or> ilike_opt env q (fo_displayName u) \<or> field rg_firstName \<or> field rg_lastName \<or> field rg_phone \<or>
         field (\<lambda>r. name_in (ac_roles s) (rg_personnelRoleId r)) \<or>
         field (\<lambda>r. name_in (ac_departments s) (rg_departmentId r)) \<or>
         (3 \<le> length digits \<and> (case reg of None \<Rightarrow> False | Some r \<Rightarrow> js_includes (rg_phoneDigits r) digits)))"

datatype follower_sort = SORT_NEW | SORT_OLD | SORT_NAME

text \<open>\<open>NULLS LAST\<close>, in either direction.\<close>

definition nulls_last :: "('a \<Rightarrow> 'a \<Rightarrow> int) \<Rightarrow> 'a option \<Rightarrow> 'a option \<Rightarrow> int" where
  "nulls_last cmp a b = (case (a, b) of (None, None) \<Rightarrow> 0 | (None, Some _) \<Rightarrow> 1 | (Some _, None) \<Rightarrow> -1
     | (Some x, Some y) \<Rightarrow> cmp x y)"

fun lexicographic :: "int list \<Rightarrow> int" where
  "lexicographic [] = 0"
| "lexicographic (c # cs) = (if c \<noteq> 0 then c else lexicographic cs)"

definition buildOrderBy :: "accounts_env \<Rightarrow> accounts \<Rightarrow> follower_sort \<Rightarrow> follower \<Rightarrow> follower \<Rightarrow> int" where
  "buildOrderBy env s order a b =
     (let name = (\<lambda>f u. map_option f (registration_of s (fo_id u)));
          cmp = nulls_last (le_collate env)
      in case order of
           SORT_NAME \<Rightarrow> lexicographic [cmp (name rg_lastName a) (name rg_lastName b),
             cmp (name rg_firstName a) (name rg_firstName b), le_collate env (fo_id a) (fo_id b)]
         | SORT_OLD \<Rightarrow> lexicographic [nulls_last (\<lambda>x y. x - y) (fo_registeredAt a) (fo_registeredAt b),
             le_collate env (fo_id b) (fo_id a)]
         | SORT_NEW \<Rightarrow> lexicographic [nulls_last (\<lambda>x y. y - x) (fo_registeredAt a) (fo_registeredAt b),
             le_collate env (fo_id b) (fo_id a)])"

record followers_query =
  fq_page :: nat
  fq_limit :: nat
  fq_search :: "string option"
  fq_access :: "app_access option"
  fq_sort :: "follower_sort option"

record followers_page =
  fp_data :: "follower_dto list"
  fp_page :: nat
  fp_limit :: nat
  fp_total :: nat
  fp_totalPages :: nat

definition listed :: "accounts_env \<Rightarrow> followers_query \<Rightarrow> accounts \<Rightarrow> follower \<Rightarrow> bool" where
  "listed env q s u \<longleftrightarrow> fo_deletedAt u = None \<and> (case fq_access q of None \<Rightarrow> True | Some a \<Rightarrow> fo_access u = a) \<and>
     buildSearchFilter env s (fq_search q) u"

definition followers_page_of :: "accounts_env \<Rightarrow> followers_query \<Rightarrow> accounts \<Rightarrow> followers_page" where
  "followers_page_of env q s =
     (let rows = js_sort (buildOrderBy env s (or_else (fq_sort q) SORT_NEW)) (filter (listed env q s) (followers s));
          n = count_where (listed env q s) (followers s)
      in \<lparr>fp_data = map (toFollowerDto s) (take (fq_limit q) (drop ((fq_page q - 1) * fq_limit q) rows)),
          fp_page = fq_page q, fp_limit = fq_limit q, fp_total = n,
          fp_totalPages = (n + fq_limit q - 1) div fq_limit q\<rparr>)"

text \<open>One \<open>RepeatableRead\<close> snapshot serves the rows and the count.\<close>

definition findManyPaginated_followers :: "accounts_env \<Rightarrow> followers_query \<Rightarrow> followers_page account_act" where
  "findManyPaginated_followers env q = fetch env 0 (followers_page_of env q)"

subsection \<open>Access\<close>

definition canAdminSetAccess :: "app_access \<Rightarrow> app_access \<Rightarrow> bool" where
  "canAdminSetAccess old new =
     (if new = ACC_REJECTED then old = ACC_PENDING \<or> old = ACC_ALLOWED \<or> old = ACC_BLOCKED
      else (new = ACC_ALLOWED \<or> new = ACC_BLOCKED) \<and> old \<noteq> ACC_UNREGISTERED)"

definition set_access :: "app_access \<Rightarrow> string option \<Rightarrow> follower \<Rightarrow> follower" where
  "set_access access reason u =
     u\<lparr>fo_access := access, fo_richMenuType := accessToRichMenuType access,
       fo_rejectionReason := (if access = ACC_REJECTED then reason else None),
       fo_blockReason := (if access = ACC_BLOCKED then reason else None)\<rparr>"

definition write_access ::
  "accounts_env \<Rightarrow> string \<Rightarrow> app_access \<Rightarrow> string option \<Rightarrow> accounts \<Rightarrow> js_error + (accounts \<times> follower_dto)"
where
  "write_access env i access reason s = (case update_follower env 1 i (set_access access reason) s of
       Inl e \<Rightarrow> Inl e | Inr (s', u) \<Rightarrow> Inr (s', toFollowerDto s' u))"

definition updateAccess ::
  "accounts_env \<Rightarrow> string \<Rightarrow> app_access \<Rightarrow> admin_actor \<Rightarrow> string option \<Rightarrow> follower_dto account_act"
where
  "updateAccess env i access actor reason =
     andThen (fetch env 0 (follower_at i)) (\<lambda>found.
     andThen (need found (NotFound LINE_USER_NOT_FOUND)) (\<lambda>row.
     andThen (check (\<not> (aa_actor_role actor = ADMIN \<and> fo_deletedAt row \<noteq> None)) (NotFound LINE_USER_NOT_FOUND)) (\<lambda>_.
     andThen (check (\<not> (aa_actor_role actor = ADMIN \<and> \<not> canAdminSetAccess (fo_access row) access))
       (Forbidden LINE_USER_ACCESS_TRANSITION_FORBIDDEN)) (\<lambda>_.
     andThen (check (\<not> (access = ACC_REJECTED \<and> fo_access row = ACC_UNREGISTERED))
       (BadRequest CANNOT_REJECT_UNREGISTERED)) (\<lambda>_.
     andThen (check (\<not> (access = ACC_REJECTED \<and> truthy reason = None)) (BadRequest REJECTION_REASON_REQUIRED)) (\<lambda>_.
     andThen (atomically (put env 1 (write_access env i access reason))) (\<lambda>updated.
     if fo_deletedAt row \<noteq> None then done_with updated
     else
       andThen (catching (applyRichMenu env (fd_lineUserId updated) (fd_richMenuType updated))
         (\<lambda>_. stop_with (Refused (BadGateway LINE_RICH_MENU_APPLY_FAILED)))) (\<lambda>_.
       andThen (publish_follower env 2 FOLLOWER_UPDATED (fd_id updated) (Some actor)) (\<lambda>_.
       andThen (if access = ACC_REJECTED then notifyRejection env (fd_lineUserId updated) (or_else reason [])
                else notifyAccessChange env (fd_lineUserId updated) access) (\<lambda>_.
       andThen (drop_keys env 3 [lineStatusKey (fd_lineUserId updated)]) (\<lambda>_.
       done_with updated)))))))))))"

subsection \<open>Correcting a registration\<close>

definition updateRegistrationByAdmin ::
  "accounts_env \<Rightarrow> string \<Rightarrow> registration_dto \<Rightarrow> admin_actor \<Rightarrow> follower_dto account_act"
where
  "updateRegistrationByAdmin env i dto actor =
     andThen (fetch env 0 (follower_at i)) (\<lambda>found.
     andThen (need found (NotFound LINE_USER_NOT_FOUND)) (\<lambda>row.
     andThen (check (\<not> (aa_actor_role actor = ADMIN \<and> fo_deletedAt row \<noteq> None)) (NotFound LINE_USER_NOT_FOUND)) (\<lambda>_.
     andThen (fetch env 1 (live_registration i)) (\<lambda>registration.
     andThen (check (registration \<noteq> None) (NotFound LINE_USER_REGISTRATION_NOT_FOUND)) (\<lambda>_.
     andThen (atomically (
       andThen (assertActiveOptions env 2 (rd_departmentId dto) (rd_personnelRoleId dto)) (\<lambda>_.
       put env 4 (update_registration env 4 i dto)))) (\<lambda>_.
     andThen (fetch env 5 (\<lambda>s. map_option (toFollowerDto s) (follower_at i s))) (\<lambda>updated.
     andThen (publish_follower env 6 FOLLOWER_UPDATED i (Some actor)) (\<lambda>_.
     case updated of
       None \<Rightarrow> stop_with (Thrown (plain_error ''Cannot read properties of null''))
     | Some u \<Rightarrow>
         andThen (drop_keys env 7 (OPTION_LIST_KEYS @ [lineStatusKey (fd_lineUserId u)])) (\<lambda>_. done_with u)))))))))"

subsection \<open>The webhook\<close>

datatype event_source = UserSource "string option" | OtherSource

datatype webhook_event =
    FollowEvent "event_source option"
  | UnfollowEvent "event_source option"
  | MessageEvent "event_source option"
  | PostbackEvent "event_source option" "string option" string
  | OtherEvent

definition userIdOf :: "event_source option \<Rightarrow> string option" where
  "userIdOf source = (case source of Some (UserSource u) \<Rightarrow> u | _ \<Rightarrow> None)"

definition no_profile :: line_profile where
  "no_profile = \<lparr>lp_displayName = None, lp_pictureUrl = None, lp_statusMessage = None, lp_language = None\<rparr>"

definition storeFollower :: "accounts_env \<Rightarrow> string \<Rightarrow> unit account_act" where
  "storeFollower env userId =
     (let profile = (case le_profile env of Inl _ \<Rightarrow> no_profile | Inr p \<Rightarrow> p)
      in andThen (upsertOnFollow env \<lparr>pf_lineUserId = userId, pf_displayName = lp_displayName profile,
           pf_pictureUrl = lp_pictureUrl profile, pf_statusMessage = lp_statusMessage profile,
           pf_language = lp_language profile\<rparr>) (\<lambda>_. done_with ()))"

definition for_user :: "event_source option \<Rightarrow> (string \<Rightarrow> unit account_act) \<Rightarrow> unit account_act" where
  "for_user source f = (case truthy (userIdOf source) of None \<Rightarrow> done_with () | Some u \<Rightarrow> f u)"

definition text_message :: "string \<Rightarrow> json" where
  "text_message t = JObject [(''type'', JString ''text''), (''text'', JString t)]"

definition handleEvent :: "accounts_env \<Rightarrow> webhook_event \<Rightarrow> unit account_act" where
  "handleEvent env event = (case event of
       FollowEvent source \<Rightarrow> for_user source (storeFollower env)
     | UnfollowEvent source \<Rightarrow> for_user source (\<lambda>u. andThen (softDeleteByLineUserId env u) (\<lambda>_. done_with ()))
     | MessageEvent source \<Rightarrow> for_user source (refreshProfileFromLine env)
     | PostbackEvent source replyToken dat \<Rightarrow>
         andThen (for_user source (refreshProfileFromLine env)) (\<lambda>_.
         case truthy replyToken of
           None \<Rightarrow> done_with ()
         | Some token \<Rightarrow>
             andThen (ask_line (le_reply env)) (\<lambda>_.
             tell [Replied token [text_message (or_else (PENDING_MESSAGE_BY_POSTBACK_DATA dat) UNKNOWN_COMMAND)]]))
     | OtherEvent \<Rightarrow> done_with ())"

text \<open>Each event has its own statements; a failed one is logged, and the next goes on.\<close>

fun handleEvents :: "(accounts_env \<times> webhook_event) list \<Rightarrow> unit account_act" where
  "handleEvents [] = done_with ()"
| "handleEvents ((env, event) # rest) =
     andThen (catching (handleEvent env event) (\<lambda>_. done_with ())) (\<lambda>_. handleEvents rest)"

end
