(* ===== verification/LineUserRows.thy ===== *)
theory LineUserRows
  imports LineUserAdmin TxLogic
begin

text \<open>
  What the tables of the LINE users satisfy, and what each statement does to it. \<open>accounts_inv K\<close>
  says the rows are well formed and every cached status is the current one, except that of the
  users in \<open>K\<close>, whose key the call at hand has still to drop.
\<close>

subsection \<open>Well-formed rows\<close>

text \<open>A reason is there exactly in the state it explains, and the menu is the one of the access.\<close>

definition follower_ok :: "follower \<Rightarrow> bool" where
  "follower_ok u \<longleftrightarrow> (fo_rejectionReason u \<noteq> None \<longleftrightarrow> fo_access u = ACC_REJECTED) \<and>
     (fo_blockReason u \<noteq> None \<longrightarrow> fo_access u = ACC_BLOCKED) \<and>
     fo_richMenuType u = accessToRichMenuType (fo_access u)"

definition phone_ok :: "registration_row \<Rightarrow> bool" where
  "phone_ok r \<longleftrightarrow> rg_phoneDigits r = toPhoneDigits (rg_phone r)"

definition rows_ok :: "follower list \<Rightarrow> registration_row list \<Rightarrow> bool" where
  "rows_ok us rs \<longleftrightarrow> distinct (map fo_id us) \<and> distinct (map fo_lineUserId us) \<and> distinct (map rg_lineUserId rs) \<and>
     list_all follower_ok us \<and> list_all phone_ok rs \<and> rg_lineUserId ` set rs \<subseteq> fo_id ` set us \<and>
     list_all (\<lambda>u. fo_registeredAt u \<noteq> None \<longleftrightarrow> fo_id u \<in> rg_lineUserId ` set rs) us"

subsection \<open>Current statuses\<close>

definition current_status :: "accounts \<Rightarrow> follower \<Rightarrow> status_view" where
  "current_status s u = toStatusDto (fo_access u) (live_registration (fo_id u) s) (fo_rejectionReason u)"

definition status_current :: "string \<Rightarrow> accounts \<Rightarrow> bool" where
  "status_current sub s \<longleftrightarrow> (case kept s (lineStatusKey sub) of None \<Rightarrow> True
     | Some c \<Rightarrow> (case live_follower sub s of None \<Rightarrow> False | Some u \<Rightarrow> c = CachedStatus (current_status s u)))"

definition accounts_inv :: "string set \<Rightarrow> accounts \<Rightarrow> bool" where
  "accounts_inv K s \<longleftrightarrow> rows_ok (followers s) (registrations s) \<and> (\<forall>sub. sub \<notin> K \<longrightarrow> status_current sub s)"

lemma status_keys_apart [simp]:
  "lineStatusKey a = lineStatusKey b \<longleftrightarrow> a = b" "lineStatusKey a \<noteq> LIFF_OPTIONS_KEY"
  "lineStatusKey a \<noteq> lineProfileSyncKey b" "lineProfileSyncKey b \<noteq> lineStatusKey a" "LIFF_OPTIONS_KEY \<noteq> lineStatusKey a" "lineStatusKey a \<notin> set OPTION_LIST_KEYS"
  by (simp_all add: lineStatusKey_def LIFF_OPTIONS_KEY_def lineProfileSyncKey_def OPTION_LIST_KEYS_def optionListKey_def)

lemma accounts_inv_mono: "accounts_inv K s \<Longrightarrow> K \<subseteq> L \<Longrightarrow> accounts_inv L s"
  by (auto simp: accounts_inv_def)

text \<open>One row per id and per LINE account.\<close>

lemma one_follower:
  assumes "rows_ok us rs" "u \<in> set us" "v \<in> set us"
  shows "fo_id u = fo_id v \<Longrightarrow> u = v" "fo_lineUserId u = fo_lineUserId v \<Longrightarrow> u = v"
  using assms by (auto simp: rows_ok_def distinct_map dest: inj_onD)

lemma follower_atD: "follower_at i s = Some u \<Longrightarrow> u \<in> set (followers s) \<and> fo_id u = i"
  unfolding follower_at_def using first_row_Some by fastforce

lemma live_followerD:
  "live_follower sub s = Some u \<Longrightarrow> u \<in> set (followers s) \<and> fo_lineUserId u = sub \<and> fo_deletedAt u = None"
  unfolding live_follower_def using first_row_Some by fastforce

lemma live_follower_is:
  assumes "rows_ok (followers s) rs" "u \<in> set (followers s)"
  shows "live_follower (fo_lineUserId u) s = (if fo_deletedAt u = None then Some u else None)"
proof (cases "live_follower (fo_lineUserId u) s")
  case None
  then have "fo_deletedAt u \<noteq> None" using assms(2) unfolding live_follower_def first_row_None by auto
  then show ?thesis using None by simp
next
  case (Some v)
  then have "v = u" using live_followerD [OF Some] one_follower(2) [OF assms(1) _ assms(2)] by auto
  then show ?thesis using live_followerD [OF Some] Some by simp
qed

lemma first_row_set_where_same:
  "(\<And>x. x \<in> set xs \<Longrightarrow> p x \<Longrightarrow> \<not> q x \<and> \<not> q (f x)) \<Longrightarrow> first_row q (set_where p f xs) = first_row q xs"
  by (induction xs) (auto simp: first_row_def set_where_def)

lemma first_row_set_where_map:
  "(\<And>x. q (f x) = q x) \<Longrightarrow> first_row q (set_where p f xs) = map_option (\<lambda>x. if p x then f x else x) (first_row q xs)"
  by (induction xs) (auto simp: first_row_def set_where_def)

lemma first_row_snoc: "first_row q (xs @ [x]) = (case first_row q xs of Some y \<Rightarrow> Some y | None \<Rightarrow> if q x then Some x else None)"
  by (induction xs) (auto simp: first_row_def)

subsection \<open>Writing a follower's row\<close>

definition keeps_identity :: "(follower \<Rightarrow> follower) \<Rightarrow> bool" where
  "keeps_identity f \<longleftrightarrow> (\<forall>u. fo_id (f u) = fo_id u \<and> fo_lineUserId (f u) = fo_lineUserId u)"

lemma rows_ok_update:
  assumes "rows_ok us rs" "keeps_identity f"
    and "\<And>u. u \<in> set us \<Longrightarrow> p u \<Longrightarrow> follower_ok u \<Longrightarrow> follower_ok (f u) \<and> (fo_registeredAt (f u) \<noteq> None \<longleftrightarrow> fo_registeredAt u \<noteq> None)"
  shows "rows_ok (set_where p f us) rs"
proof -
  have ids: "map fo_id (set_where p f us) = map fo_id us" "map fo_lineUserId (set_where p f us) = map fo_lineUserId us"
    using assms(2) by (simp_all add: map_set_where keeps_identity_def)
  have keys: "fo_id ` set (set_where p f us) = fo_id ` set us" using ids(1) by (metis list.set_map)
  have "follower_ok v \<and> (fo_registeredAt v \<noteq> None \<longleftrightarrow> fo_id v \<in> rg_lineUserId ` set rs)" if "v \<in> set (set_where p f us)" for v
  proof -
    obtain u where u: "u \<in> set us" "v = (if p u then f u else u)" using \<open>v \<in> _\<close> by (auto simp: set_set_where)
    have "follower_ok u" "fo_registeredAt u \<noteq> None \<longleftrightarrow> fo_id u \<in> rg_lineUserId ` set rs"
      using assms(1) u(1) by (auto simp: rows_ok_def list_all_iff)
    then show ?thesis using u assms(2) assms(3) [OF u(1)] by (simp add: keeps_identity_def)
  qed
  then show ?thesis using assms(1) unfolding rows_ok_def ids keys by (simp add: list_all_iff)
qed

lemma live_registration_followers [simp]: "live_registration i (s\<lparr>followers := us\<rparr>) = live_registration i s"
  by (simp add: live_registration_def toRegistrationResponseDto_def [abs_def])

lemma current_status_followers [simp]: "current_status (s\<lparr>followers := us\<rparr>) = current_status s"
  by (simp add: current_status_def fun_eq_iff)

lemma status_current_elsewhere:
  assumes "status_current sub s" "keeps_identity f" "\<And>u. u \<in> set (followers s) \<Longrightarrow> p u \<Longrightarrow> fo_lineUserId u \<noteq> sub"
  shows "status_current sub (s\<lparr>followers := set_where p f (followers s)\<rparr>)"
proof -
  have live: "live_follower sub (s\<lparr>followers := set_where p f (followers s)\<rparr>) = live_follower sub s"
    unfolding live_follower_def using assms(2,3)
    by (simp, intro first_row_set_where_same) (auto simp: keeps_identity_def)
  show ?thesis using assms(1) unfolding status_current_def current_status_followers live by simp
qed

lemma accounts_inv_update:
  assumes "accounts_inv K s" "keeps_identity f"
    and "\<And>u. u \<in> set (followers s) \<Longrightarrow> p u \<Longrightarrow> follower_ok u \<Longrightarrow>
      fo_lineUserId u \<in> L \<and> follower_ok (f u) \<and> (fo_registeredAt (f u) \<noteq> None \<longleftrightarrow> fo_registeredAt u \<noteq> None)"
  shows "accounts_inv (K \<union> L) (s\<lparr>followers := set_where p f (followers s)\<rparr>)"
proof -
  have ok: "follower_ok u" if "u \<in> set (followers s)" for u
    using assms(1) that by (auto simp: accounts_inv_def rows_ok_def list_all_iff)
  have "rows_ok (set_where p f (followers s)) (registrations s)"
    using rows_ok_update [OF _ assms(2)] assms(1,3) ok unfolding accounts_inv_def by blast
  moreover have "status_current sub (s\<lparr>followers := set_where p f (followers s)\<rparr>)" if "sub \<notin> K \<union> L" for sub
    using status_current_elsewhere [OF _ assms(2), of sub s p] assms(1,3) ok that
    unfolding accounts_inv_def by blast
  ultimately show ?thesis by (simp add: accounts_inv_def)
qed

text \<open>A write that leaves alone what a status shows keeps every cached status current.\<close>

definition keeps_status :: "(follower \<Rightarrow> follower) \<Rightarrow> bool" where
  "keeps_status f \<longleftrightarrow> keeps_identity f \<and> (\<forall>u. fo_access (f u) = fo_access u \<and> fo_deletedAt (f u) = fo_deletedAt u \<and>
     fo_rejectionReason (f u) = fo_rejectionReason u \<and> fo_blockReason (f u) = fo_blockReason u \<and>
     fo_richMenuType (f u) = fo_richMenuType u \<and> fo_registeredAt (f u) = fo_registeredAt u)"

lemma accounts_inv_silent_update:
  assumes "accounts_inv K s" "keeps_status f"
  shows "accounts_inv K (s\<lparr>followers := set_where p f (followers s)\<rparr>)"
proof -
  have live: "live_follower sub (s\<lparr>followers := set_where p f (followers s)\<rparr>) =
      map_option (\<lambda>u. if p u then f u else u) (live_follower sub s)" for sub
    unfolding live_follower_def using assms(2)
    by (simp, intro first_row_set_where_map) (auto simp: keeps_status_def keeps_identity_def)
  have same: "current_status s (if p u then f u else u) = current_status s u" for u
    using assms(2) by (simp add: current_status_def keeps_status_def keeps_identity_def)
  have "status_current sub (s\<lparr>followers := set_where p f (followers s)\<rparr>) = status_current sub s" for sub
    unfolding status_current_def live current_status_followers by (auto simp: same split: option.splits)
  moreover have "rows_ok (set_where p f (followers s)) (registrations s)"
    using assms unfolding accounts_inv_def keeps_status_def
    by (intro rows_ok_update) (auto simp: follower_ok_def)
  ultimately show ?thesis using assms(1) by (simp add: accounts_inv_def)
qed

subsection \<open>What each statement does\<close>

lemma touch_keeps:
  "keeps_identity f \<Longrightarrow> keeps_identity (touch env k f)" "keeps_status f \<Longrightarrow> keeps_status (touch env k f)"
  by (simp_all add: keeps_status_def keeps_identity_def touch_def)

lemma follower_ok_touch [simp]: "follower_ok (u\<lparr>fo_updatedAt := t\<rparr>) = follower_ok u"
  by (simp add: follower_ok_def)

lemma update_followerD:
  "update_follower env k i f s = Inr (s', u') \<Longrightarrow> \<exists>u. follower_at i s = Some u \<and> u' = touch env k f u \<and>
     s' = s\<lparr>followers := set_where (\<lambda>x. fo_id x = i) (touch env k f) (followers s)\<rparr>"
  by (auto simp: update_follower_def split: option.splits)

lemma silent_update_keeps:
  assumes "accounts_inv K s" "update_follower env k i f s = Inr (s', u')" "keeps_status f"
  shows "accounts_inv K s'"
  using update_followerD [OF assms(2)] accounts_inv_silent_update [OF assms(1) touch_keeps(2) [OF assms(3)]] by auto

lemma update_follower_keeps:
  assumes "accounts_inv K s" "update_follower env k i f s = Inr (s', u')" "keeps_identity f"
    and "\<And>u. follower_at i s = Some u \<Longrightarrow> follower_ok u \<Longrightarrow>
      follower_ok (f u) \<and> (fo_registeredAt (f u) \<noteq> None \<longleftrightarrow> fo_registeredAt u \<noteq> None)"
    and "\<And>u t. follower_ok (f (u\<lparr>fo_updatedAt := t\<rparr>)) = follower_ok (f u)"
    and "\<And>u t. fo_registeredAt (f (u\<lparr>fo_updatedAt := t\<rparr>)) = fo_registeredAt (f u)"
  shows "accounts_inv (insert (fo_lineUserId u') K) s'"
proof -
  obtain u where u: "follower_at i s = Some u" "u' = touch env k f u"
      "s' = s\<lparr>followers := set_where (\<lambda>x. fo_id x = i) (touch env k f) (followers s)\<rparr>"
    using update_followerD [OF assms(2)] by blast
  have sub: "fo_lineUserId u' = fo_lineUserId u" using u(2) assms(3) by (simp add: touch_def keeps_identity_def)
  have only: "v = u" if "v \<in> set (followers s)" "fo_id v = i" for v
    using that follower_atD [OF u(1)] one_follower(1) [of "followers s" "registrations s" v u] assms(1)
    by (auto simp: accounts_inv_def)
  have "accounts_inv (K \<union> {fo_lineUserId u}) (s\<lparr>followers := set_where (\<lambda>x. fo_id x = i) (touch env k f) (followers s)\<rparr>)"
  proof (rule accounts_inv_update [OF assms(1) touch_keeps(1) [OF assms(3)]])
    fix v assume v: "v \<in> set (followers s)" "fo_id v = i" "follower_ok v"
    show "fo_lineUserId v \<in> {fo_lineUserId u} \<and> follower_ok (touch env k f v) \<and>
        (fo_registeredAt (touch env k f v) \<noteq> None \<longleftrightarrow> fo_registeredAt v \<noteq> None)"
      using assms(4) [OF u(1)] only [OF v(1,2)] v(3) assms(5,6) by (simp add: touch_def)
  qed
  then show ?thesis using u(3) sub by simp
qed

text \<open>A user with no live row has no cached status, so a first row needs no drop.\<close>

lemma insert_follower_keeps:
  assumes "accounts_inv K s" "insert_follower env u s = Inr (s', u')" "follower_ok u" "fo_registeredAt u = None"
  shows "accounts_inv K s'"
proof -
  have new: "fo_id u \<notin> fo_id ` set (followers s)" "fo_lineUserId u \<notin> fo_lineUserId ` set (followers s)"
    and s': "s' = s\<lparr>followers := followers s @ [u]\<rparr>"
    using assms(2) by (auto simp: insert_follower_def split: if_splits)
  have rows: "rows_ok (followers s @ [u]) (registrations s)"
    using assms(1,3,4) new unfolding accounts_inv_def rows_ok_def by auto
  have "status_current sub s'" if "status_current sub s" for sub
  proof (cases "live_follower sub s")
    case None
    then have "kept s (lineStatusKey sub) = None" using that by (auto simp: status_current_def split: option.splits)
    then show ?thesis by (simp add: status_current_def s')
  next
    case (Some v)
    then have "live_follower sub s' = Some v" by (simp add: live_follower_def s' first_row_snoc)
    then show ?thesis using that Some unfolding status_current_def by (auto simp: s' split: option.splits)
  qed
  then show ?thesis using assms(1) rows by (simp add: accounts_inv_def s')
qed

subsection \<open>Registrations\<close>

lemma accounts_inv_registrations:
  assumes "accounts_inv {} s" "s' = s\<lparr>registrations := rs\<rparr>" "rows_ok (followers s) rs"
    and "\<And>v. v \<in> set (followers s) \<Longrightarrow> fo_lineUserId v \<noteq> sub \<Longrightarrow> live_registration (fo_id v) s' = live_registration (fo_id v) s"
  shows "accounts_inv {sub} s'"
proof -
  have live: "live_follower x s' = live_follower x s" for x by (simp add: live_follower_def assms(2))
  have "status_current x s'" if x: "x \<noteq> sub" for x
  proof -
    have cur: "status_current x s" using assms(1) by (simp add: accounts_inv_def)
    show ?thesis
    proof (cases "live_follower x s")
      case None
      then show ?thesis using cur live by (simp add: status_current_def assms(2) split: option.splits)
    next
      case (Some v)
      then have "live_registration (fo_id v) s' = live_registration (fo_id v) s"
        using live_followerD [OF Some] assms(4) x by auto
      then have "current_status s' v = current_status s v" by (simp add: current_status_def)
      then show ?thesis using cur Some live [of x] by (auto simp: status_current_def assms(2) split: option.splits)
    qed
  qed
  then show ?thesis using assms(2,3) by (simp add: accounts_inv_def)
qed

lemma edit_registration_key [simp]:
  "rg_lineUserId (edit_registration env k dto r) = rg_lineUserId r"
  "rg_deletedAt (edit_registration env k dto r) = rg_deletedAt r"
  by (simp_all add: edit_registration_def)

lemma update_registration_keeps:
  assumes "accounts_inv {} s" "update_registration env k i dto s = Inr (s', shown)"
    and "u \<in> set (followers s)" "fo_id u = i"
  shows "accounts_inv {fo_lineUserId u} s' \<and> followers s' = followers s \<and> kept s' = kept s"
proof -
  let ?p = "\<lambda>r. rg_lineUserId r = i" and ?f = "edit_registration env k dto"
  let ?rs = "set_where ?p ?f (registrations s)"
  have s': "s' = s\<lparr>registrations := ?rs\<rparr>" using assms(2) by (auto simp: update_registration_def split: option.splits)
  have rows: "rows_ok (followers s) (registrations s)" using assms(1) by (simp add: accounts_inv_def)
  have keys: "map rg_lineUserId ?rs = map rg_lineUserId (registrations s)" by (simp add: map_set_where)
  then have sets: "rg_lineUserId ` set ?rs = rg_lineUserId ` set (registrations s)" by (metis list.set_map)
  have phones: "list_all phone_ok ?rs" using rows unfolding rows_ok_def
    by (auto simp: list_all_iff set_set_where phone_ok_def edit_registration_def)
  have "rows_ok (followers s) ?rs" using rows phones unfolding rows_ok_def keys sets by simp
  moreover have "live_registration (fo_id v) s' = live_registration (fo_id v) s"
    if "v \<in> set (followers s)" "fo_lineUserId v \<noteq> fo_lineUserId u" for v
  proof -
    have "fo_id v \<noteq> i" using one_follower(1) [OF rows that(1) assms(3)] assms(4) that(2) by auto
    then have "first_row (\<lambda>r. rg_lineUserId r = fo_id v \<and> rg_deletedAt r = None) ?rs =
        first_row (\<lambda>r. rg_lineUserId r = fo_id v \<and> rg_deletedAt r = None) (registrations s)"
      by (intro first_row_set_where_same) auto
    then show ?thesis by (simp add: live_registration_def s' toRegistrationResponseDto_def [abs_def])
  qed
  ultimately show ?thesis using accounts_inv_registrations [OF assms(1) s'] s' by simp
qed

text \<open>A registration and the day it was made enter together.\<close>

lemma registration_enters:
  assumes "accounts_inv {} s" "insert_registration env (new_registration env k i dto) s = Inr (s1, r, shown)"
    and "update_follower env k' i (\<lambda>u. u\<lparr>fo_access := ACC_PENDING, fo_registeredAt := Some t\<rparr>) s1 = Inr (s', u')"
    and "follower_at i s = Some u" "fo_access u = ACC_UNREGISTERED"
  shows "accounts_inv {fo_lineUserId u} s'"
proof -
  let ?f = "touch env k' (\<lambda>u. u\<lparr>fo_access := ACC_PENDING, fo_registeredAt := Some t\<rparr>)"
  let ?us = "set_where (\<lambda>x. fo_id x = i) ?f (followers s)" and ?r = "new_registration env k i dto"
  have rows: "rows_ok (followers s) (registrations s)" using assms(1) by (simp add: accounts_inv_def)
  have r: "rg_lineUserId ?r = i" "phone_ok ?r" by (simp_all add: new_registration_def phone_ok_def)
  have new: "i \<notin> rg_lineUserId ` set (registrations s)" and s1: "s1 = s\<lparr>registrations := registrations s @ [?r]\<rparr>"
    using assms(2) r(1) by (auto simp: insert_registration_def split: if_splits)
  have s': "s' = s\<lparr>registrations := registrations s @ [?r], followers := ?us\<rparr>"
    using update_followerD [OF assms(3)] by (auto simp: s1)
  have u: "u \<in> set (followers s)" "fo_id u = i" using follower_atD [OF assms(4)] by auto
  have only: "v = u" if "v \<in> set (followers s)" "fo_id v = i" for v using one_follower(1) [OF rows that(1) u(1)] that(2) u(2) by simp
  have ids: "map fo_id ?us = map fo_id (followers s)" "map fo_lineUserId ?us = map fo_lineUserId (followers s)"
    by (simp_all add: map_set_where touch_def)
  have keys: "fo_id ` set ?us = fo_id ` set (followers s)" using ids(1) by (metis list.set_map)
  have "follower_ok v \<and> (fo_registeredAt v \<noteq> None \<longleftrightarrow> fo_id v \<in> rg_lineUserId ` set (registrations s @ [?r]))"
    if v: "v \<in> set ?us" for v
  proof -
    obtain x where x: "x \<in> set (followers s)" "v = (if fo_id x = i then ?f x else x)" using v by (auto simp: set_set_where)
    have "follower_ok x" "fo_registeredAt x \<noteq> None \<longleftrightarrow> fo_id x \<in> rg_lineUserId ` set (registrations s)"
      using rows x(1) by (auto simp: rows_ok_def list_all_iff)
    then show ?thesis using x only [OF x(1)] assms(5) r(1)
      by (auto simp: touch_def follower_ok_def accessToRichMenuType_def)
  qed
  then have rows': "rows_ok ?us (registrations s @ [?r])"
    using rows new r u unfolding rows_ok_def ids keys by (auto simp: list_all_iff)
  have "status_current x s'" if x: "x \<noteq> fo_lineUserId u" for x
  proof -
    have live: "live_follower x s' = live_follower x s"
      unfolding live_follower_def s' using only x u(2)
      by (simp, intro first_row_set_where_same) (auto simp: touch_def)
    have cur: "status_current x s" using assms(1) by (simp add: accounts_inv_def)
    have "current_status s' v = current_status s v" if "live_follower x s = Some v" for v
    proof -
      have "fo_id v \<noteq> i" using live_followerD [OF that] only x by auto
      then have "live_registration (fo_id v) s' = live_registration (fo_id v) s"
        using r(1) by (auto simp: live_registration_def s' first_row_snoc toRegistrationResponseDto_def [abs_def] split: option.splits)
      then show ?thesis by (simp add: current_status_def)
    qed
    then show ?thesis using cur live by (auto simp: status_current_def s' split: option.splits)
  qed
  then show ?thesis using rows' by (simp add: accounts_inv_def s')
qed

end
