(* ===== verification/LineUserSystem.thy ===== *)
theory LineUserSystem
  imports LineUserRows
begin

text \<open>
  Every operation on the LINE users, run with nobody in between and Redis and the rich menus
  answering, keeps the rows well formed and every cached status current: the calls are taken apart
  with the rules of \<open>TxLogic\<close>, and a status key is dropped before the call answers.
\<close>

subsection \<open>The circumstances\<close>

definition serves_menu :: "accounts_env \<Rightarrow> rich_menu_type \<Rightarrow> bool" where
  "serves_menu env t \<longleftrightarrow> (case le_menus env of Inl _ \<Rightarrow> False
     | Inr menus \<Rightarrow> truthy (map_option fst (List.find (\<lambda>m. snd m = RICH_MENU_SPECS t) menus)) \<noteq> None)"

definition menus_apply :: "accounts_env \<Rightarrow> bool" where
  "menus_apply env \<longleftrightarrow> serves_menu env TYPE_1 \<and> serves_menu env TYPE_2 \<and> le_link env = Inr ()"

definition calm_accounts :: "accounts_env \<Rightarrow> bool" where
  "calm_accounts env \<longleftrightarrow> undisturbed env \<and> (\<forall>k. le_redis env k) \<and> menus_apply env"

lemma calm_accountsD: "calm_accounts env \<Longrightarrow> undisturbed env" "calm_accounts env \<Longrightarrow> le_redis env k"
  "calm_accounts env \<Longrightarrow> menus_apply env"
  by (simp_all add: calm_accounts_def)

subsection \<open>Steps that leave the tables alone\<close>

definition silent :: "('s, 'e, 'm, 'a) act \<Rightarrow> bool" where
  "silent m \<longleftrightarrow> (\<forall>w. \<exists>a es. m w = (Inr a, w\<lparr>trace := trace w @ es\<rparr>))"

lemma silentI: "(\<And>w. \<exists>a es. m w = (Inr a, w\<lparr>trace := trace w @ es\<rparr>)) \<Longrightarrow> silent m"
  by (simp add: silent_def)

lemma triple_silent: "silent m \<Longrightarrow> triple I P m (\<lambda>_. P)"
  unfolding silent_def triple_def
  by (metis (no_types, lifting) fst_conv snd_conv store.select_convs(1,2) store.surjective store.update_convs(3) sum.case(2))

lemma silent_basic: "silent (done_with a)" "silent (tell es)"
  by (rule silentI, simp add: act_run, metis append_Nil2 store.surjective store.update_convs(3))+

lemma silent_andThen: "silent m \<Longrightarrow> (\<And>a. silent (f a)) \<Longrightarrow> silent (andThen m f)"
proof (rule silentI)
  fix w
  assume m: "silent m" and f: "\<And>a. silent (f a)"
  obtain a es where run: "m w = (Inr a, w\<lparr>trace := trace w @ es\<rparr>)" using m unfolding silent_def by blast
  let ?w = "w\<lparr>trace := trace w @ es\<rparr>"
  obtain b es' where "f a ?w = (Inr b, ?w\<lparr>trace := trace ?w @ es'\<rparr>)"
    using f [of a] unfolding silent_def by blast
  then show "\<exists>a es. andThen m f w = (Inr a, w\<lparr>trace := trace w @ es\<rparr>)" using run by (auto simp: andThen_def)
qed

lemma silent_publish:
  assumes "undisturbed env"
  shows "silent (publish_follower env k kind i actor)"
proof (rule silentI)
  fix w
  show "\<exists>a es. publish_follower env k kind i actor w = (Inr a, w\<lparr>trace := trace w @ es\<rparr>)"
    unfolding publish_follower_def catching_def
    using silent_basic(1) [unfolded silent_def]
    by (cases "first_row (\<lambda>u. fo_id u = i \<and> fo_deletedAt u = None) (followers (mine w))")
      (auto simp: act_run assms Let_def)
qed

lemma silent_push: "silent (push_softly env sub message)"
proof (rule silentI)
  fix w
  show "\<exists>a es. push_softly env sub message w = (Inr a, w\<lparr>trace := trace w @ es\<rparr>)"
    unfolding push_softly_def catching_def ask_line_def
    using silent_basic(1) [unfolded silent_def] by (cases "le_push env") (auto simp: act_run)
qed

lemma silent_notify: "silent (notifyAccessChange env sub access)" "silent (notifyRejection env sub reason)"
  unfolding notifyAccessChange_def notifyRejection_def
  by (auto intro: silent_push silent_basic split: option.splits)

lemma silent_menu:
  assumes "menus_apply env"
  shows "silent (applyRichMenu env sub t)"
proof (rule silentI)
  fix w
  have "serves_menu env t" using assms by (cases t) (simp_all add: menus_apply_def)
  then obtain menus i where "le_menus env = Inr menus"
      "truthy (map_option fst (List.find (\<lambda>m. snd m = RICH_MENU_SPECS t) menus)) = Some i"
    unfolding serves_menu_def by (auto split: sum.splits)
  then show "\<exists>a es. applyRichMenu env sub t w = (Inr a, w\<lparr>trace := trace w @ es\<rparr>)"
    using assms by (auto simp: applyRichMenu_def findRichMenuId_def ask_line_def act_run menus_apply_def Let_def)
qed

lemma silent_catching: "silent m \<Longrightarrow> silent (catching m h)"
proof (rule silentI)
  fix w :: "('a, 'b) store"
  assume "silent m"
  then obtain a es where "m w = (Inr a, w\<lparr>trace := trace w @ es\<rparr>)" unfolding silent_def by blast
  then show "\<exists>a es. catching m h w = (Inr a, w\<lparr>trace := trace w @ es\<rparr>)" by (auto simp: catching_def)
qed

lemma silent_if: "silent m \<Longrightarrow> silent n \<Longrightarrow> silent (if c then m else n)"
  by simp

lemmas silent_intros = silent_basic silent_push silent_notify silent_catching silent_if

subsection \<open>Statements\<close>

lemma triple_put:
  assumes "undisturbed env" "\<And>s s' a. P s \<Longrightarrow> g s = Inr (s', a) \<Longrightarrow> Q a s'" "\<And>s. P s \<Longrightarrow> I s"
  shows "triple I P (atomically (put env k g)) Q"
  by (rule triple_conseq [OF triple_atomically [OF inner_put [OF assms(1)]]]) (use assms(2,3) in auto)

lemma triple_kept:
  assumes "undisturbed env" "le_redis env k" "\<And>s. P s \<Longrightarrow> Q (s\<lparr>kept := f (kept s)\<rparr>)"
  shows "triple I P (change_kept env k f) (\<lambda>_. Q)"
  using assms by (auto simp: triple_def change_kept_def Let_def undisturbed_simps)

lemma triple_cached:
  assumes "undisturbed env" "le_redis env k"
  shows "triple I P (cached_at env k key) (\<lambda>a s. P s \<and> a = kept s key)"
  using assms by (auto simp: triple_def cached_at_def Let_def undisturbed_simps)

lemma live_follower_kept [simp]: "live_follower sub (s\<lparr>kept := c\<rparr>) = live_follower sub s"
  by (simp add: live_follower_def)

lemma current_status_kept [simp]: "current_status (s\<lparr>kept := c\<rparr>) = current_status s"
  by (simp add: current_status_def [abs_def] live_registration_def toRegistrationResponseDto_def [abs_def])

lemma status_current_iff: "status_current sub s \<longleftrightarrow> (\<forall>c. kept s (lineStatusKey sub) = Some c \<longrightarrow>
    (\<exists>u. live_follower sub s = Some u \<and> c = CachedStatus (current_status s u)))"
  by (auto simp: status_current_def split: option.splits)

lemma dropped_inv:
  assumes "accounts_inv K s"
  shows "accounts_inv (K - {sub. lineStatusKey sub \<in> set keys}) (s\<lparr>kept := (\<lambda>key. if key \<in> set keys then None else kept s key)\<rparr>)"
  using assms by (auto simp: accounts_inv_def status_current_iff)

lemma triple_forget:
  assumes "calm_accounts env" "lineStatusKey sub \<in> set keys"
  shows "triple I (accounts_inv {sub}) (drop_keys env k keys) (\<lambda>_. accounts_inv {})"
  unfolding drop_keys_def
proof (rule triple_kept [OF calm_accountsD(1,2) [OF assms(1)]])
  fix s assume "accounts_inv {sub} s"
  then show "accounts_inv {} (s\<lparr>kept := (\<lambda>key. if key \<in> set keys then None else kept s key)\<rparr>)"
    by (rule accounts_inv_mono [OF dropped_inv]) (use assms(2) in auto)
qed

lemma other_key_inv:
  assumes "accounts_inv K s" "\<And>sub. key \<noteq> lineStatusKey sub"
  shows "accounts_inv K (s\<lparr>kept := (kept s)(key := v)\<rparr>)"
  using assms by (auto simp: accounts_inv_def status_current_iff)

lemma status_kept_inv:
  assumes "accounts_inv K s" "live_follower sub s = Some u" "v = current_status s u"
  shows "accounts_inv K (s\<lparr>kept := (kept s)(lineStatusKey sub := Some (CachedStatus v))\<rparr>)"
  using assms by (auto simp: accounts_inv_def status_current_iff)

subsection \<open>Following, unfollowing, reading the status\<close>

definition kept_right :: "'a account_act \<Rightarrow> bool" where
  "kept_right m \<longleftrightarrow> triple (accounts_inv {}) (accounts_inv {}) m (\<lambda>_. accounts_inv {})"

lemma kept_rightI: "triple (accounts_inv {}) (accounts_inv {}) m (\<lambda>_. accounts_inv {}) \<Longrightarrow> kept_right m"
  by (simp add: kept_right_def)

lemma triple_andThen_same: "triple I P m (\<lambda>_. R) \<Longrightarrow> (\<And>a. triple I R (f a) Q) \<Longrightarrow> triple I P (andThen m f) Q"
  by (rule triple_andThen) auto

lemma triple_return: "(\<And>s. P s \<Longrightarrow> Q a s) \<Longrightarrow> triple I P (done_with a) Q"
  by (simp add: triple_def act_run)

lemma with_profile_ok [simp]: "follower_ok (with_profile p u) = follower_ok u" "fo_registeredAt (with_profile p u) = fo_registeredAt u"
  by (simp_all add: with_profile_def follower_ok_def)

lemma bare_ok [simp]: "follower_ok (bare_follower env k sub)" "fo_registeredAt (bare_follower env k sub) = None"
  by (simp_all add: bare_follower_def follower_ok_def accessToRichMenuType_def)

lemma upsert_keeps:
  assumes "accounts_inv {} s" "upsert_follower env p s = Inr (s', u)"
  shows "accounts_inv {pf_lineUserId p} s'"
proof (cases "first_row (\<lambda>u. fo_lineUserId u = pf_lineUserId p) (followers s)")
  case None
  then have "insert_follower env (with_profile p (bare_follower env 0 (pf_lineUserId p))) s = Inr (s', u)"
    using assms(2) by (simp add: upsert_follower_def)
  then have "accounts_inv {} s'" by (rule insert_follower_keeps [OF assms(1)]) simp_all
  then show ?thesis by (rule accounts_inv_mono) simp
next
  case (Some v)
  let ?f = "\<lambda>u. (with_profile p u)\<lparr>fo_deletedAt := None, fo_followedAt := le_now env 0\<rparr>"
  have upd: "update_follower env 0 (fo_id v) ?f s = Inr (s', u)" using assms(2) Some by (simp add: upsert_follower_def)
  have "accounts_inv (insert (fo_lineUserId u) {}) s'"
    by (rule update_follower_keeps [OF assms(1) upd])
      (auto simp: keeps_identity_def with_profile_def follower_ok_def)
  moreover have "fo_lineUserId u = pf_lineUserId p"
  proof -
    obtain x where x: "follower_at (fo_id v) s = Some x" "u = touch env 0 ?f x" using update_followerD [OF upd] by blast
    have v: "v \<in> set (followers s)" "fo_lineUserId v = pf_lineUserId p" using first_row_Some [OF Some] by auto
    have "x = v" using follower_atD [OF x(1)] one_follower(1) [of "followers s" "registrations s" x v] v(1) assms(1)
      by (simp add: accounts_inv_def)
    then show ?thesis using x(2) v(2) by (simp add: touch_def with_profile_def)
  qed
  ultimately show ?thesis by simp
qed

lemma kept_upsertOnFollow:
  assumes "calm_accounts env"
  shows "kept_right (upsertOnFollow env p)"
  unfolding upsertOnFollow_def
  apply (rule kept_rightI, rule triple_andThen_same)
   apply (rule triple_put [OF calm_accountsD(1) [OF assms]], erule (1) upsert_keeps, assumption)
  apply (rule triple_andThen_same [OF triple_silent [OF silent_publish [OF calm_accountsD(1) [OF assms]]]])
  apply (rule triple_andThen_same [OF triple_forget [OF assms]], simp)
  apply (rule triple_return, assumption)
  done

lemma soft_delete_keeps:
  assumes "accounts_inv {} s" "u \<in> set (followers s)" "fo_lineUserId u = sub" "soft_delete_row env (fo_id u) s = Inr (s', n)"
  shows "accounts_inv (if n = 0 then {} else {sub}) s'"
proof -
  let ?p = "\<lambda>x. fo_id x = fo_id u \<and> fo_deletedAt x = None"
  let ?f = "touch env 1 (\<lambda>u. u\<lparr>fo_deletedAt := Some (le_now env 1)\<rparr>)"
  have s': "s' = s\<lparr>followers := set_where ?p ?f (followers s)\<rparr>" and n: "n = count_where ?p (followers s)"
    using assms(4) by (simp_all add: soft_delete_row_def Let_def)
  have only: "x = u" if "x \<in> set (followers s)" "fo_id x = fo_id u" for x
    using one_follower(1) [of "followers s" "registrations s" x u] that assms(1,2) by (simp add: accounts_inv_def)
  show ?thesis
  proof (cases "n = 0")
    case True
    then have "set_where ?p ?f (followers s) = followers s"
      using n by (auto simp: count_where_def set_where_def filter_empty_conv intro!: map_idI)
    then show ?thesis using True assms(1) s' by simp
  next
    case False
    have "accounts_inv ({} \<union> {sub}) (s\<lparr>followers := set_where ?p ?f (followers s)\<rparr>)"
      by (rule accounts_inv_update [OF assms(1)])
        (use only assms(3) in \<open>auto simp: keeps_identity_def touch_def follower_ok_def\<close>)
    then show ?thesis using False s' by simp
  qed
qed

lemma kept_softDelete:
  assumes "calm_accounts env"
  shows "kept_right (softDeleteByLineUserId env sub)"
proof -
  have tail: "triple (accounts_inv {}) (\<lambda>s. accounts_inv {} s \<and> map_option fo_id (live_follower sub s) = Some i)
      (andThen (atomically (put env 1 (soft_delete_row env i))) (\<lambda>count.
         if count = 0 then done_with (0 :: nat)
         else andThen (tell [LineUserDeleted i None]) (\<lambda>_. andThen (drop_keys env 2 [lineStatusKey sub]) (\<lambda>_.
           andThen (tell [UnfollowedWithPending i]) (\<lambda>_. done_with 1))))) (\<lambda>_. accounts_inv {})" for i
  proof (rule triple_andThen [where Q = "\<lambda>n. accounts_inv (if n = 0 then {} else {sub})"])
    show "triple (accounts_inv {}) (\<lambda>s. accounts_inv {} s \<and> map_option fo_id (live_follower sub s) = Some i)
        (atomically (put env 1 (soft_delete_row env i))) (\<lambda>n. accounts_inv (if n = 0 then {} else {sub}))"
      by (rule triple_put [OF calm_accountsD(1) [OF assms]])
        (use soft_delete_keeps live_followerD in fastforce)+
    show "triple (accounts_inv {}) (accounts_inv (if n = 0 then {} else {sub}))
        (if n = 0 then done_with (0 :: nat)
         else andThen (tell [LineUserDeleted i None]) (\<lambda>_. andThen (drop_keys env 2 [lineStatusKey sub]) (\<lambda>_.
           andThen (tell [UnfollowedWithPending i]) (\<lambda>_. done_with 1)))) (\<lambda>_. accounts_inv {})" for n :: nat
    proof (cases "n = 0")
      case True
      then show ?thesis by (auto intro: triple_return)
    next
      case False
      have "triple (accounts_inv {}) (accounts_inv {sub})
         (andThen (tell [LineUserDeleted i None]) (\<lambda>_. andThen (drop_keys env 2 [lineStatusKey sub]) (\<lambda>_.
           andThen (tell [UnfollowedWithPending i]) (\<lambda>_. done_with (1 :: nat))))) (\<lambda>_. accounts_inv {})"
        apply (rule triple_andThen_same [OF triple_silent [OF silent_basic(2)]])
        apply (rule triple_andThen_same [OF triple_forget [OF assms]], simp)
        apply (rule triple_andThen_same [OF triple_silent [OF silent_basic(2)]])
        apply (rule triple_return, assumption)
        done
      then show ?thesis by (simp only: False if_False)
    qed
  qed
  show ?thesis unfolding softDeleteByLineUserId_def
    apply (rule kept_rightI, rule triple_andThen [OF triple_fetch [OF calm_accountsD(1) [OF assms]]])
    subgoal for row
      apply (cases row; simp only: option.case)
       apply (rule triple_return, simp)
      apply (rule triple_pre [OF tail], simp)
      done
    done
qed

subsection \<open>The caller's own row\<close>

text \<open>The user at hand is the live row of the caller.\<close>

definition own_row :: "string \<Rightarrow> follower \<Rightarrow> accounts \<Rightarrow> bool" where
  "own_row sub u s \<longleftrightarrow> accounts_inv {} s \<and> live_follower sub s = Some u"

lemma inserted_live:
  assumes "insert_follower env u s = Inr (s', u')" "fo_deletedAt u = None"
  shows "live_follower (fo_lineUserId u) s' = Some u' \<and> follower_at (fo_id u) s' = Some u' \<and> u' = u"
proof -
  have s': "s' = s\<lparr>followers := followers s @ [u]\<rparr>" "u' = u"
    and new: "fo_id u \<notin> fo_id ` set (followers s)" "fo_lineUserId u \<notin> fo_lineUserId ` set (followers s)"
    using assms(1) by (auto simp: insert_follower_def split: if_splits)
  have "first_row (\<lambda>x. fo_lineUserId x = fo_lineUserId u \<and> fo_deletedAt x = None) (followers s) = None"
    "first_row (\<lambda>x. fo_id x = fo_id u) (followers s) = None"
    unfolding first_row_None using new by (metis image_eqI)+
  then show ?thesis using assms(2) by (simp add: live_follower_def follower_at_def s' first_row_snoc)
qed

lemma bare_row [simp]: "fo_deletedAt (bare_follower env k sub) = None" "fo_lineUserId (bare_follower env k sub) = sub"
  by (simp_all add: bare_follower_def)

lemma triple_getOrCreate:
  assumes "calm_accounts env"
  shows "triple (accounts_inv {}) (accounts_inv {}) (getOrCreateByLineUserId env k sub) (own_row sub)"
proof -
  have none: "triple (accounts_inv {}) (accounts_inv {})
      (atomically (put env (k + 1) (insert_follower env (bare_follower env (k + 1) sub)))) (own_row sub)"
  proof (rule triple_put [OF calm_accountsD(1) [OF assms]])
    fix s s' u assume s: "accounts_inv {} s" "insert_follower env (bare_follower env (k + 1) sub) s = Inr (s', u)"
    show "own_row sub u s'" unfolding own_row_def
      using insert_follower_keeps [OF s] inserted_live [OF s(2)] by simp
  qed
  show ?thesis unfolding getOrCreateByLineUserId_def findActiveByLineUserId_def
    apply (rule triple_andThen [OF triple_fetch [OF calm_accountsD(1) [OF assms]]])
    subgoal for found
      apply (cases found; simp only: option.case)
       apply (rule triple_pre [OF none], simp)
      apply (rule triple_return, simp add: own_row_def)
      done
    done
qed

lemma write_profile_keeps [simp]: "keeps_status (write_profile name picture)"
  by (simp add: keeps_status_def keeps_identity_def write_profile_def)

lemma synced_row:
  assumes "own_row sub u s" "update_follower env k (fo_id u) f s = Inr (s', u')" "keeps_status f"
  shows "own_row sub u' s'"
proof -
  obtain x where x: "follower_at (fo_id u) s = Some x" "u' = touch env k f x"
    "s' = s\<lparr>followers := set_where (\<lambda>y. fo_id y = fo_id u) (touch env k f) (followers s)\<rparr>"
    using update_followerD [OF assms(2)] by blast
  have u: "u \<in> set (followers s)" using live_followerD assms(1) by (auto simp: own_row_def)
  have "x = u" using follower_atD [OF x(1)] one_follower(1) [of "followers s" "registrations s" x u] u assms(1)
    by (simp add: own_row_def accounts_inv_def)
  moreover have "live_follower sub s' = map_option (\<lambda>y. if fo_id y = fo_id u then touch env k f y else y) (live_follower sub s)"
    unfolding live_follower_def x(3) using touch_keeps(2) [OF assms(3), of env k]
    by (simp, intro first_row_set_where_map) (auto simp: keeps_status_def keeps_identity_def)
  ultimately show ?thesis using assms(1) silent_update_keeps [OF _ assms(2,3)] x(2)
    by (auto simp: own_row_def)
qed

lemma triple_syncProfile:
  assumes "calm_accounts env"
  shows "triple (accounts_inv {}) (own_row sub u) (syncProfile env k u name picture) (own_row sub)"
proof -
  have wrote: "triple (accounts_inv {}) (own_row sub u)
      (atomically (put env k (update_follower env k (fo_id u) (write_profile n p)))) (own_row sub)" for n p
    by (rule triple_put [OF calm_accountsD(1) [OF assms]])
      (erule (1) synced_row, simp, simp add: own_row_def)
  have done_so: "triple (accounts_inv {}) (own_row sub u)
      (andThen (atomically (put env k (update_follower env k (fo_id u) (write_profile n p)))) (\<lambda>updated.
        andThen (publish_follower env (k + 1) FOLLOWER_UPDATED (fo_id updated) None) (\<lambda>_. done_with updated))) (own_row sub)" for n p
    apply (rule triple_andThen [OF wrote])
    apply (rule triple_andThen_same [OF triple_silent [OF silent_publish [OF calm_accountsD(1) [OF assms]]]])
    apply (rule triple_return, assumption)
    done
  show ?thesis unfolding syncProfile_def Let_def
    using done_so by (auto intro: triple_return)
qed

lemma kept_refresh:
  assumes "calm_accounts env"
  shows "kept_right (refreshProfileFromLine env sub)"
proof -
  have fetchy: "triple (accounts_inv {}) (own_row sub u)
      (catching (andThen (ask_line (le_profile env)) (\<lambda>p. andThen (syncProfile env 3 u (lp_displayName p) (lp_pictureUrl p))
         (\<lambda>_. done_with ()))) (\<lambda>_. done_with ())) (\<lambda>_. accounts_inv {})" for u
  proof (rule triple_conseq [OF triple_catching [where J = "accounts_inv {}" and Q = "\<lambda>_. accounts_inv {}" and R = "\<lambda>_. accounts_inv {}"]])
    show "triple (accounts_inv {}) (own_row sub u) (andThen (ask_line (le_profile env))
        (\<lambda>p. andThen (syncProfile env 3 u (lp_displayName p) (lp_pictureUrl p)) (\<lambda>_. done_with ()))) (\<lambda>_. accounts_inv {})"
    proof (rule triple_andThen_same)
      show "triple (accounts_inv {}) (own_row sub u) (ask_line (le_profile env)) (\<lambda>_. own_row sub u)"
        by (auto simp: ask_line_def triple_def act_run own_row_def split: sum.splits)
    next
      show "triple (accounts_inv {}) (own_row sub u) (andThen (syncProfile env 3 u (lp_displayName p) (lp_pictureUrl p))
          (\<lambda>_. done_with ())) (\<lambda>_. accounts_inv {})" for p
        by (rule triple_andThen [OF triple_syncProfile [OF assms]]) (auto intro: triple_return simp: own_row_def)
    qed
  qed (auto intro: triple_return)
  have mark: "triple (accounts_inv {}) (own_row sub u) (keep_at env 2 (lineProfileSyncKey sub) CachedMark) (\<lambda>_. own_row sub u)" for u
    unfolding keep_at_def
    by (rule triple_kept [OF calm_accountsD(1,2) [OF assms]]) (auto simp: own_row_def intro!: other_key_inv)
  have user: "triple (accounts_inv {}) (\<lambda>s. accounts_inv {} s \<and> found = live_follower sub s)
      (case found of None \<Rightarrow> done_with () | Some u \<Rightarrow> andThen (keep_at env 2 (lineProfileSyncKey sub) CachedMark) (\<lambda>_.
         catching (andThen (ask_line (le_profile env)) (\<lambda>p. andThen (syncProfile env 3 u (lp_displayName p) (lp_pictureUrl p))
           (\<lambda>_. done_with ()))) (\<lambda>_. done_with ()))) (\<lambda>_. accounts_inv {})" for found
    apply (cases found; simp only: option.case)
     apply (rule triple_return, simp)
    apply (rule triple_pre [OF triple_andThen_same [OF mark fetchy]], simp add: own_row_def)
    done
  show ?thesis unfolding refreshProfileFromLine_def findActiveByLineUserId_def
    apply (rule kept_rightI, rule triple_andThen [OF triple_cached [OF calm_accountsD(1,2) [OF assms]]])
    subgoal for mark
      apply (cases "mark = None"; simp only: simp_thms if_True if_False)
       apply (rule triple_pre [OF triple_andThen [OF triple_fetch [OF calm_accountsD(1) [OF assms]] user]], simp)
      apply (rule triple_return, simp)
      done
    done
qed

end
