(* ===== verification/LineUserLife.thy ===== *)
theory LineUserLife
  imports LineUserSystem
begin

text \<open>
  The remaining operations on the LINE users keep the same invariant: the status read, the
  registration and its edits, the settings, the back office's decisions and corrections, the
  webhook; and the whole service as a machine over them.
\<close>

lemma triple_case_option:
  "(x = None \<Longrightarrow> triple I P m Q) \<Longrightarrow> (\<And>b. x = Some b \<Longrightarrow> triple I P (f b) Q) \<Longrightarrow>
    triple I P (case x of None \<Rightarrow> m | Some b \<Rightarrow> f b) Q"
  by (cases x) auto

lemma triple_case_if: "(c \<Longrightarrow> triple I P m Q) \<Longrightarrow> (\<not> c \<Longrightarrow> triple I P n Q) \<Longrightarrow> triple I P (if c then m else n) Q"
  by auto

lemma own_row_inv: "own_row sub u s \<Longrightarrow> accounts_inv {} s"
  by (simp add: own_row_def)

lemma own_row_at:
  assumes "own_row sub u s"
  shows "follower_at (fo_id u) s = Some u"
proof -
  have u: "u \<in> set (followers s)" "rows_ok (followers s) (registrations s)"
    using assms live_followerD by (auto simp: own_row_def accounts_inv_def)
  then obtain v where v: "follower_at (fo_id u) s = Some v"
    unfolding follower_at_def using first_row_None [of "\<lambda>x. fo_id x = fo_id u"]
    by (cases "first_row (\<lambda>x. fo_id x = fo_id u) (followers s)") auto
  then show ?thesis using follower_atD [OF v] one_follower(1) [OF u(2) _ u(1)] by auto
qed

subsection \<open>The status\<close>

lemma kept_status:
  assumes "calm_accounts env"
  shows "kept_right (getStatus env sub profile)"
proof -
  note calm = calm_accountsD(1,2) [OF assms]
  have sync: "triple (accounts_inv {}) (own_row sub u)
      (case profile of None \<Rightarrow> done_with u | Some (name, picture) \<Rightarrow> syncProfile env 3 u name picture) (own_row sub)" for u
    by (rule triple_case_option) (auto intro: triple_return triple_syncProfile [OF assms] split: prod.splits)
  have store: "triple (accounts_inv {}) (\<lambda>s. own_row sub u s \<and> registration = live_registration (fo_id u) s)
      (andThen (keep_at env 6 (lineStatusKey sub) (CachedStatus (toStatusDto (fo_access u) registration (fo_rejectionReason u))))
        (\<lambda>_. done_with (toStatusDto (fo_access u) registration (fo_rejectionReason u)))) (\<lambda>_. accounts_inv {})" for u registration
    unfolding keep_at_def
    by (rule triple_andThen_same [where R = "accounts_inv {}", OF triple_kept [OF calm]])
      (auto simp: own_row_def current_status_def intro: status_kept_inv triple_return)
  have fresh: "triple (accounts_inv {}) (accounts_inv {})
      (andThen (getOrCreateByLineUserId env 1 sub) (\<lambda>user.
         andThen (case profile of None \<Rightarrow> done_with user | Some (name, picture) \<Rightarrow> syncProfile env 3 user name picture) (\<lambda>user.
         andThen (fetch env 5 (live_registration (fo_id user))) (\<lambda>registration.
         (let dto = toStatusDto (fo_access user) registration (fo_rejectionReason user) in
          andThen (keep_at env 6 (lineStatusKey sub) (CachedStatus dto)) (\<lambda>_. done_with dto)))))) (\<lambda>_. accounts_inv {})"
    unfolding Let_def
    by (rule triple_andThen [OF triple_getOrCreate [OF assms]], rule triple_andThen [OF sync],
        rule triple_andThen [OF triple_fetch [OF calm(1)] store])
  show ?thesis unfolding getStatus_def
    apply (rule kept_rightI, rule triple_andThen [OF triple_cached [OF calm]])
    subgoal for found
    proof (cases "\<exists>dto. found = Some (CachedStatus dto)")
      case True
      then show ?thesis by (auto intro: triple_return)
    next
      case False
      show ?thesis by (rule triple_pre [where P' = "accounts_inv {}"]) (use False fresh in \<open>auto split: option.splits cached.splits\<close>)
    qed
    done
qed

subsection \<open>Registering\<close>

lemma inner_assert: "undisturbed env \<Longrightarrow> inner P (assertActiveOptions env k d r) (\<lambda>_. P)"
  unfolding assertActiveOptions_def by (auto simp: inner_def act_run)

lemma inner_return: "(\<And>s. P s \<Longrightarrow> Q a s) \<Longrightarrow> inner P (done_with a) Q"
  by (simp add: inner_def act_run)

lemma inner_put_then: "undisturbed env \<Longrightarrow> (\<And>s s' a. P s \<Longrightarrow> g s = Inr (s', a) \<Longrightarrow> Q a s') \<Longrightarrow> inner P (put env k g) Q"
  by (rule inner_conseq [OF inner_put]) auto

lemma inner_register:
  assumes "undisturbed env"
  shows "inner (accounts_inv {}) (register_work env sub dto) (\<lambda>_. accounts_inv {sub})"
proof -
  have user: "inner (\<lambda>s. accounts_inv {} s \<and> existing = live_follower sub s)
      (case existing of Some u \<Rightarrow> done_with u | None \<Rightarrow> put env 1 (insert_follower env (bare_follower env 1 sub))) (own_row sub)" for existing
  proof (cases existing)
    case None
    have "inner (accounts_inv {}) (put env 1 (insert_follower env (bare_follower env 1 sub))) (own_row sub)"
    proof (rule inner_put_then [OF assms])
      fix s s' u assume s: "accounts_inv {} s" "insert_follower env (bare_follower env 1 sub) s = Inr (s', u)"
      show "own_row sub u s'" unfolding own_row_def using insert_follower_keeps [OF s] inserted_live [OF s(2)] by simp
    qed
    then show ?thesis using None by (auto intro: inner_pre)
  next
    case (Some u)
    then show ?thesis by (auto intro: inner_return simp: own_row_def)
  qed
  have insert: "inner (\<lambda>s. own_row sub u s \<and> fo_access u = ACC_UNREGISTERED)
      (put env 4 (insert_registration env (new_registration env 4 (fo_id u) dto)))
      (\<lambda>x s. \<exists>s0. own_row sub u s0 \<and> fo_access u = ACC_UNREGISTERED \<and>
         insert_registration env (new_registration env 4 (fo_id u) dto) s0 = Inr (s, x))" for u
    by (rule inner_put_then [OF assms]) blast
  have flip: "inner (\<lambda>s. \<exists>s0. own_row sub u s0 \<and> fo_access u = ACC_UNREGISTERED \<and>
         insert_registration env (new_registration env 4 (fo_id u) dto) s0 = Inr (s, created, shown))
      (put env 5 (update_follower env 5 (fo_id u) (\<lambda>u. u\<lparr>fo_access := ACC_PENDING, fo_registeredAt := Some t\<rparr>)))
      (\<lambda>_. accounts_inv {sub})" for u created shown t
  proof (rule inner_put_then [OF assms], elim exE conjE)
    fix s s' u' s0 assume s0: "own_row sub u s0" "fo_access u = ACC_UNREGISTERED"
      "insert_registration env (new_registration env 4 (fo_id u) dto) s0 = Inr (s, created, shown)"
      "update_follower env 5 (fo_id u) (\<lambda>u. u\<lparr>fo_access := ACC_PENDING, fo_registeredAt := Some t\<rparr>) s = Inr (s', u')"
    have "fo_lineUserId u = sub" using live_followerD s0(1) by (auto simp: own_row_def)
    then show "accounts_inv {sub} s'"
      using registration_enters [OF own_row_inv [OF s0(1)] s0(3,4) own_row_at [OF s0(1)] s0(2)] by simp
  qed
  show ?thesis unfolding register_work_def
    apply (rule inner_andThen [OF inner_fetch [OF assms]])
    apply (rule inner_andThen [OF user])
    apply (rule inner_andThen [OF inner_basic(3)])
    apply (rule inner_andThen [OF inner_assert [OF assms]])
    apply (rule inner_andThen [OF insert])
    apply (simp only: split_paired_all case_prod_conv)
    apply (rule inner_andThen [OF flip])
    apply (rule inner_return, assumption)
    done
qed

lemma kept_register:
  assumes "calm_accounts env"
  shows "kept_right (register env sub dto)"
proof -
  note calm = calm_accountsD(1) [OF assms]
  have after: "triple (accounts_inv {}) (accounts_inv {sub})
      (andThen (publish_follower env 6 kind userId None) (\<lambda>_.
        andThen (notifyAccessChange env sub access) (\<lambda>_.
        andThen (drop_keys env 7 (OPTION_LIST_KEYS @ [lineStatusKey sub])) (\<lambda>_.
        andThen (tell [RegistrationSubmitted userId registration]) (\<lambda>_.
        done_with (toStatusDto access (Some registration) None)))))) (\<lambda>_. accounts_inv {})" for kind userId access registration
    apply (rule triple_andThen_same [OF triple_silent [OF silent_publish [OF calm]]])
    apply (rule triple_andThen_same [OF triple_silent [OF silent_notify(1)]])
    apply (rule triple_andThen_same [OF triple_forget [OF assms]], simp)
    apply (rule triple_andThen_same [OF triple_silent [OF silent_basic(2)]])
    apply (rule triple_return, assumption)
    done
  have body: "triple (accounts_inv {}) (accounts_inv {})
      (andThen (atomically (register_work env sub dto)) (\<lambda>(userId, access, registration, wasCreated).
        andThen (publish_follower env 6 (if wasCreated then FOLLOWER_CREATED else FOLLOWER_UPDATED) userId None) (\<lambda>_.
        andThen (notifyAccessChange env sub access) (\<lambda>_.
        andThen (drop_keys env 7 (OPTION_LIST_KEYS @ [lineStatusKey sub])) (\<lambda>_.
        andThen (tell [RegistrationSubmitted userId registration]) (\<lambda>_.
        done_with (toStatusDto access (Some registration) None))))))) (\<lambda>_. accounts_inv {})"
    apply (rule triple_andThen [OF triple_atomically [OF inner_register [OF calm]]], assumption)
    apply (simp only: split_paired_all case_prod_conv)
    apply (rule after)
    done
  show ?thesis unfolding register_def
    by (rule kept_rightI, rule triple_conseq [OF triple_catching [OF body triple_stop]]) auto
qed

subsection \<open>Editing one's registration\<close>

lemma inner_update:
  assumes "undisturbed env"
  shows "inner (\<lambda>s. own_row sub u s \<and> (wasRejected \<longrightarrow> fo_access u = ACC_REJECTED))
    (resubmit_work env (fo_id u) dto wasRejected) (\<lambda>_. accounts_inv {sub})"
proof -
  have edit: "inner (\<lambda>s. own_row sub u s \<and> (wasRejected \<longrightarrow> fo_access u = ACC_REJECTED))
      (put env 3 (update_registration env 3 (fo_id u) dto))
      (\<lambda>_ s. accounts_inv {sub} s \<and> follower_at (fo_id u) s = Some u \<and> fo_lineUserId u = sub \<and>
         (wasRejected \<longrightarrow> fo_access u = ACC_REJECTED))"
  proof (rule inner_put_then [OF assms], elim conjE)
    fix s s' shown assume s: "own_row sub u s" "wasRejected \<longrightarrow> fo_access u = ACC_REJECTED"
      "update_registration env 3 (fo_id u) dto s = Inr (s', shown)"
    have u: "u \<in> set (followers s)" "fo_lineUserId u = sub" using live_followerD s(1) by (auto simp: own_row_def)
    show "accounts_inv {sub} s' \<and> follower_at (fo_id u) s' = Some u \<and> fo_lineUserId u = sub \<and>
        (wasRejected \<longrightarrow> fo_access u = ACC_REJECTED)"
      using update_registration_keeps [OF own_row_inv [OF s(1)] s(3) u(1)] u(2) s(2) own_row_at [OF s(1)]
      by (simp add: follower_at_def)
  qed
  have flip: "inner (\<lambda>s. accounts_inv {sub} s \<and> follower_at (fo_id u) s = Some u \<and> fo_lineUserId u = sub \<and> fo_access u = ACC_REJECTED)
      (put env 4 (update_follower env 4 (fo_id u) (\<lambda>u. u\<lparr>fo_access := ACC_PENDING, fo_rejectionReason := None\<rparr>)))
      (\<lambda>_. accounts_inv {sub})"
  proof (rule inner_put_then [OF assms], elim conjE)
    fix s s' u' assume s: "accounts_inv {sub} s" "follower_at (fo_id u) s = Some u" "fo_lineUserId u = sub" "fo_access u = ACC_REJECTED"
      "update_follower env 4 (fo_id u) (\<lambda>u. u\<lparr>fo_access := ACC_PENDING, fo_rejectionReason := None\<rparr>) s = Inr (s', u')"
    have "accounts_inv (insert (fo_lineUserId u') {sub}) s'"
      by (rule update_follower_keeps [OF s(1,5)])
        (use s(2,4) in \<open>auto simp: keeps_identity_def follower_ok_def accessToRichMenuType_def\<close>)
    moreover have "fo_lineUserId u' = sub" using update_followerD [OF s(5)] s(2,3) by (auto simp: touch_def)
    ultimately show "accounts_inv {sub} s'" by simp
  qed
  show ?thesis unfolding resubmit_work_def
    apply (rule inner_andThen [OF inner_assert [OF assms]])
    apply (rule inner_andThen [OF edit])
    apply (cases wasRejected; simp only: if_True if_False simp_thms)
     apply (rule inner_andThen [OF flip])
     apply (rule inner_return, assumption)
    apply (rule inner_return, simp)
    done
qed

lemma kept_updateRegistration:
  assumes "calm_accounts env"
  shows "kept_right (updateRegistration env sub dto)"
proof -
  note calm = calm_accountsD(1) [OF assms]
  have after: "triple (accounts_inv {}) (accounts_inv {sub})
      (andThen (publish_follower env 5 FOLLOWER_UPDATED i None) (\<lambda>_.
        andThen (if c then notifyAccessChange env sub ACC_PENDING else done_with ()) (\<lambda>_.
        andThen (drop_keys env 6 (OPTION_LIST_KEYS @ [lineStatusKey sub])) (\<lambda>_.
        andThen (if c then tell [RegistrationResubmitted i shown] else done_with ()) (\<lambda>_.
        done_with dto'))))) (\<lambda>_. accounts_inv {})" for i c shown and dto' :: status_view
    apply (rule triple_andThen_same [OF triple_silent [OF silent_publish [OF calm]]])
    apply (rule triple_andThen_same [OF triple_silent [OF silent_if [OF silent_notify(1) silent_basic(1)]]])
    apply (rule triple_andThen_same [OF triple_forget [OF assms]], simp)
    apply (rule triple_andThen_same [OF triple_silent [OF silent_if [OF silent_basic(2,1)]]])
    apply (rule triple_return, assumption)
    done
  show ?thesis unfolding updateRegistration_def Let_def
    apply (rule kept_rightI, rule triple_andThen [OF triple_fetch [OF calm]])
    apply (rule triple_andThen [OF triple_need], simp)
    apply (rule triple_andThen [OF triple_check], simp)
    apply (rule triple_andThen_same [OF triple_pre [OF triple_atomically [OF inner_update [OF calm, where sub = sub]]]])
      apply (simp add: own_row_def)
     apply (simp add: own_row_def)
    apply (rule after)
    done
qed

subsection \<open>Settings and options\<close>

lemma settings_kept [simp]: "accounts_inv K (s\<lparr>settings_rows := rs\<rparr>) = accounts_inv K s"
  by (simp add: accounts_inv_def status_current_iff live_follower_def current_status_def live_registration_def
      toRegistrationResponseDto_def [abs_def])

lemma kept_patchSettings:
  assumes "calm_accounts env"
  shows "kept_right (patchSettings env sub dto)"
  unfolding patchSettings_def Let_def
  apply (rule kept_rightI, rule triple_andThen [OF triple_getOrCreate [OF assms]])
  apply (rule triple_andThen [OF triple_fetch [OF calm_accountsD(1) [OF assms]]])
  apply (rule triple_andThen_same [where R = "accounts_inv {}"])
   apply (rule triple_put [OF calm_accountsD(1) [OF assms]])
    apply (auto simp: upsert_settings_def Let_def own_row_def split: option.splits) [2]
  apply (rule triple_return, assumption)
  done

lemma kept_options:
  assumes "calm_accounts env"
  shows "kept_right (getRegistrationOptions env)"
proof -
  note calm = calm_accountsD(1,2) [OF assms]
  have fresh: "triple (accounts_inv {}) (accounts_inv {})
     (andThen (fetch env 1 (\<lambda>s. offered env (ac_departments s))) (\<lambda>departments.
      andThen (fetch env 2 (\<lambda>s. offered env (ac_roles s))) (\<lambda>personnelRoles.
         (let payload = \<lparr>ov_departments = departments, ov_personnelRoles = personnelRoles\<rparr> in
          andThen (keep_at env 3 LIFF_OPTIONS_KEY (CachedOptions payload)) (\<lambda>_. done_with payload))))) (\<lambda>_. accounts_inv {})"
    unfolding Let_def keep_at_def
    apply (rule triple_andThen [OF triple_fetch [OF calm(1)]])
    apply (rule triple_andThen [OF triple_fetch [OF calm(1)]])
    apply (rule triple_andThen_same [where R = "accounts_inv {}", OF triple_kept [OF calm]])
     apply (rule other_key_inv, simp, simp)
    apply (rule triple_return, assumption)
    done
  show ?thesis unfolding getRegistrationOptions_def
    apply (rule kept_rightI, rule triple_andThen [OF triple_cached [OF calm]])
    subgoal for found
    proof (cases "\<exists>p. found = Some (CachedOptions p)")
      case True
      then show ?thesis by (auto intro: triple_return)
    next
      case False
      show ?thesis by (rule triple_pre [where P' = "accounts_inv {}"]) (use False fresh in \<open>auto split: option.splits cached.splits\<close>)
    qed
    done
qed

subsection \<open>Decisions and corrections\<close>

lemma write_access_keeps:
  assumes "accounts_inv {} s" "follower_at i s = Some row" "write_access env i access reason s = Inr (s', dto)"
    and "access = ACC_REJECTED \<Longrightarrow> truthy reason \<noteq> None"
  shows "accounts_inv (if fo_deletedAt row \<noteq> None then {} else {fd_lineUserId dto}) s'"
proof -
  obtain u where upd: "update_follower env 1 i (set_access access reason) s = Inr (s', u)" and dto: "dto = toFollowerDto s' u"
    using assms(3) by (auto simp: write_access_def split: sum.splits)
  have u: "u = touch env 1 (set_access access reason) row" and
    s': "s' = s\<lparr>followers := set_where (\<lambda>x. fo_id x = i) (touch env 1 (set_access access reason)) (followers s)\<rparr>"
    using update_followerD [OF upd] assms(2) by auto
  have sub: "fd_lineUserId dto = fo_lineUserId row" "fo_lineUserId u = fo_lineUserId row"
    by (simp_all add: dto u toFollowerDto_def touch_def set_access_def)
  have reason: "access = ACC_REJECTED \<Longrightarrow> reason \<noteq> None" using assms(4) by (cases reason) (auto simp: truthy_def)
  have inv: "accounts_inv (insert (fo_lineUserId u) {}) s'"
    by (rule update_follower_keeps [OF assms(1) upd])
      (use reason in \<open>auto simp: keeps_identity_def set_access_def follower_ok_def\<close>)
  have row: "row \<in> set (followers s)" "rows_ok (followers s) (registrations s)"
    using follower_atD [OF assms(2)] assms(1) by (auto simp: accounts_inv_def)
  show ?thesis
  proof (cases "fo_deletedAt row = None")
    case True
    then show ?thesis using inv sub by simp
  next
    case False
    then have "live_follower (fo_lineUserId row) s = None" using live_follower_is [OF row(2,1)] by simp
    moreover have "status_current (fo_lineUserId row) s" using assms(1) by (simp add: accounts_inv_def)
    ultimately have "kept s (lineStatusKey (fo_lineUserId row)) = None"
      by (auto simp: status_current_def split: option.splits)
    then have "status_current (fo_lineUserId row) s'" by (simp add: status_current_iff s')
    then have "\<forall>sub. status_current sub s'" using inv sub(2) unfolding accounts_inv_def by (metis insertE empty_iff)
    then show ?thesis using inv False by (simp add: accounts_inv_def)
  qed
qed

lemma kept_updateAccess:
  assumes "calm_accounts env"
  shows "kept_right (updateAccess env i access actor reason)"
proof -
  note calm = calm_accountsD(1) [OF assms]
  have after: "triple (accounts_inv {}) (accounts_inv (if fo_deletedAt row \<noteq> None then {} else {fd_lineUserId updated}))
      (if fo_deletedAt row \<noteq> None then done_with updated
       else
         andThen (catching (applyRichMenu env (fd_lineUserId updated) (fd_richMenuType updated)) h) (\<lambda>_.
         andThen (publish_follower env 2 FOLLOWER_UPDATED (fd_id updated) (Some actor)) (\<lambda>_.
         andThen (if access = ACC_REJECTED then notifyRejection env (fd_lineUserId updated) (or_else reason [])
                  else notifyAccessChange env (fd_lineUserId updated) access) (\<lambda>_.
         andThen (drop_keys env 3 [lineStatusKey (fd_lineUserId updated)]) (\<lambda>_.
         done_with updated))))) (\<lambda>_. accounts_inv {})" for row updated h
    apply (cases "fo_deletedAt row = None"; simp only: simp_thms if_True if_False)
     apply (rule triple_andThen_same [OF triple_silent [OF silent_catching [OF silent_menu [OF calm_accountsD(3) [OF assms]]]]])
     apply (rule triple_andThen_same [OF triple_silent [OF silent_publish [OF calm]]])
     apply (rule triple_andThen_same [OF triple_silent [OF silent_if [OF silent_notify(2,1)]]])
     apply (rule triple_andThen_same [OF triple_forget [OF assms]], simp)
     apply (rule triple_return, assumption)
    apply (rule triple_return, assumption)
    done
  have written: "triple (accounts_inv {})
      (\<lambda>s. accounts_inv {} s \<and> follower_at i s = Some row \<and> (access = ACC_REJECTED \<longrightarrow> truthy reason \<noteq> None))
      (atomically (put env 1 (write_access env i access reason)))
      (\<lambda>updated. accounts_inv (if fo_deletedAt row \<noteq> None then {} else {fd_lineUserId updated}))" for row
    by (rule triple_put [OF calm]) (auto dest: write_access_keeps [rotated 2] simp del: not_None_eq)
  show ?thesis unfolding updateAccess_def
    apply (rule kept_rightI, rule triple_andThen [OF triple_fetch [OF calm]])
    apply (rule triple_andThen [OF triple_need], simp)
    apply (rule triple_andThen [OF triple_check], simp)+
    apply (rule triple_andThen [OF triple_pre [OF written] after])
    apply auto
    done
qed

lemma kept_updateRegistrationByAdmin:
  assumes "calm_accounts env"
  shows "kept_right (updateRegistrationByAdmin env i dto actor)"
proof -
  note calm = calm_accountsD(1) [OF assms]
  let ?edited = "\<lambda>row s. accounts_inv {fo_lineUserId row} s \<and> follower_at i s = Some row"
  have edit: "triple (accounts_inv {}) (\<lambda>s. accounts_inv {} s \<and> follower_at i s = Some row)
      (atomically (andThen (assertActiveOptions env 2 d r) (\<lambda>_. put env 4 (update_registration env 4 i dto))))
      (\<lambda>_. ?edited row)" for row d r
  proof (rule triple_atomically [OF inner_andThen [OF inner_assert [OF calm] inner_put_then [OF calm]]], elim conjE)
    fix s s' shown assume s: "accounts_inv {} s" "follower_at i s = Some row" "update_registration env 4 i dto s = Inr (s', shown)"
    have row: "row \<in> set (followers s)" "fo_id row = i" using follower_atD [OF s(2)] by auto
    show "?edited row s'" using update_registration_keeps [OF s(1,3) row] s(2) by (simp add: follower_at_def)
  qed simp
  have after: "triple (accounts_inv {}) (\<lambda>s. ?edited row s \<and> updated = map_option (toFollowerDto s) (follower_at i s))
      (andThen (publish_follower env 6 FOLLOWER_UPDATED i (Some actor)) (\<lambda>_.
       case updated of
         None \<Rightarrow> stop_with (Thrown (plain_error ''Cannot read properties of null''))
       | Some u \<Rightarrow> andThen (drop_keys env 7 (OPTION_LIST_KEYS @ [lineStatusKey (fd_lineUserId u)])) (\<lambda>_. done_with u)))
      (\<lambda>_. accounts_inv {})" for row updated
  proof (cases "\<exists>u. updated = Some u \<and> fd_lineUserId u = fo_lineUserId row")
    case True
    then obtain u where u: "updated = Some u" "fd_lineUserId u = fo_lineUserId row" by blast
    have "triple (accounts_inv {}) (accounts_inv {fo_lineUserId row})
      (andThen (publish_follower env 6 FOLLOWER_UPDATED i (Some actor)) (\<lambda>_.
       andThen (drop_keys env 7 (OPTION_LIST_KEYS @ [lineStatusKey (fo_lineUserId row)])) (\<lambda>_. done_with u))) (\<lambda>_. accounts_inv {})"
      apply (rule triple_andThen_same [OF triple_silent [OF silent_publish [OF calm]]])
      apply (rule triple_andThen_same [OF triple_forget [OF assms]], simp)
      apply (rule triple_return, assumption)
      done
    then show ?thesis using u by (auto intro: triple_pre)
  next
    case False
    then have none: "\<not> (?edited row s \<and> updated = map_option (toFollowerDto s) (follower_at i s))" for s
      by (auto simp: toFollowerDto_def)
    show ?thesis unfolding triple_def using none by blast
  qed
  show ?thesis unfolding updateRegistrationByAdmin_def
    apply (rule kept_rightI, rule triple_andThen [OF triple_fetch [OF calm]])
    apply (rule triple_andThen [OF triple_need], simp)
    apply (rule triple_andThen [OF triple_check], simp)
    apply (rule triple_andThen [OF triple_fetch [OF calm]])
    apply (rule triple_andThen [OF triple_check], simp)
    subgoal for found row u registration u'
      by (rule triple_andThen [OF triple_pre [OF edit [of row]] triple_andThen [OF triple_fetch [OF calm] after]]) auto
    done
qed

subsection \<open>The webhook\<close>

lemma kept_forget: "kept_right m \<Longrightarrow> kept_right (andThen m (\<lambda>_. done_with a))"
  unfolding kept_right_def by (erule triple_andThen_same) (rule triple_return)

lemma kept_for_user: "(\<And>u. kept_right (f u)) \<Longrightarrow> kept_right (for_user source f)"
  unfolding for_user_def kept_right_def by (rule triple_case_option) (auto intro: triple_return)

lemma kept_handleEvent:
  assumes "calm_accounts env"
  shows "kept_right (handleEvent env event)"
proof (cases event)
  case (FollowEvent source)
  have "kept_right (storeFollower env u)" for u
    unfolding storeFollower_def Let_def by (rule kept_forget [OF kept_upsertOnFollow [OF assms]])
  then show ?thesis by (simp add: handleEvent_def FollowEvent kept_for_user)
next
  case (UnfollowEvent source)
  then show ?thesis by (simp add: handleEvent_def kept_for_user kept_forget kept_softDelete [OF assms])
next
  case (MessageEvent source)
  then show ?thesis by (simp add: handleEvent_def kept_for_user kept_refresh [OF assms])
next
  case (PostbackEvent source replyToken dat)
  have reply: "triple (accounts_inv {}) (accounts_inv {}) (andThen (ask_line (le_reply env)) (\<lambda>_. tell es)) (\<lambda>_. accounts_inv {})" for es
    by (auto simp: ask_line_def triple_def act_run split: sum.splits)
  have "triple (accounts_inv {}) (accounts_inv {}) (for_user source (refreshProfileFromLine env)) (\<lambda>_. accounts_inv {})"
    using kept_for_user [OF kept_refresh [OF assms]] by (simp add: kept_right_def)
  then show ?thesis unfolding handleEvent_def PostbackEvent webhook_event.case kept_right_def
    by (rule triple_andThen_same) (rule triple_case_option; intro triple_return reply; assumption)
next
  case OtherEvent
  then show ?thesis by (simp add: handleEvent_def kept_right_def triple_return)
qed

subsection \<open>The service as a machine\<close>

datatype account_call =
    GetStatus string "(string option \<times> string option) option"
  | RegistrationOptions
  | Register string registration_dto
  | EditOwnRegistration string registration_dto
  | GetSettings string
  | PatchSettings string settings_patch
  | ListFollowers followers_query
  | SetAccess string app_access admin_actor "string option"
  | EditRegistration string registration_dto admin_actor
  | Webhook webhook_event

definition serve_accounts :: "accounts \<Rightarrow> accounts_env \<times> account_call \<Rightarrow> accounts" where
  "serve_accounts s x = (let env = fst x in case snd x of
       GetStatus sub profile \<Rightarrow> leaves (getStatus env sub profile) s
     | RegistrationOptions \<Rightarrow> leaves (getRegistrationOptions env) s
     | Register sub dto \<Rightarrow> leaves (register env sub dto) s
     | EditOwnRegistration sub dto \<Rightarrow> leaves (updateRegistration env sub dto) s
     | GetSettings sub \<Rightarrow> leaves (getSettings env sub) s
     | PatchSettings sub dto \<Rightarrow> leaves (patchSettings env sub dto) s
     | ListFollowers q \<Rightarrow> leaves (findManyPaginated_followers env q) s
     | SetAccess i access actor reason \<Rightarrow> leaves (updateAccess env i access actor reason) s
     | EditRegistration i dto actor \<Rightarrow> leaves (updateRegistrationByAdmin env i dto actor) s
     | Webhook event \<Rightarrow> leaves (handleEvent env event) s)"

lemma kept_leaves: "kept_right m \<Longrightarrow> accounts_inv {} s \<Longrightarrow> accounts_inv {} (leaves m s)"
  unfolding kept_right_def by (rule triple_leaves)

lemma serve_accounts_keeps: "accounts_inv {} s \<Longrightarrow> calm_accounts (fst x) \<Longrightarrow> accounts_inv {} (serve_accounts s x)"
proof -
  assume inv: "accounts_inv {} s" and calm: "calm_accounts (fst x)"
  obtain env c where x: "x = (env, c)" by (cases x)
  have calm': "calm_accounts env" using calm x by simp
  have reads: "kept_right (getSettings env sub)" "kept_right (findManyPaginated_followers env q)" for sub q
    unfolding getSettings_def findManyPaginated_followers_def kept_right_def
    by (auto simp: triple_def act_run calm_accountsD(1) [OF calm'])
  note kept_ops = kept_status [OF calm'] kept_options [OF calm'] kept_register [OF calm'] kept_updateRegistration [OF calm']
    kept_patchSettings [OF calm'] kept_updateAccess [OF calm'] kept_updateRegistrationByAdmin [OF calm']
    kept_handleEvent [OF calm'] reads
  show ?thesis unfolding serve_accounts_def Let_def x
    by (cases c) (simp_all add: kept_ops kept_leaves inv)
qed

interpretation line_accounts: invariant_system serve_accounts "accounts_inv {}" "\<lambda>x. calm_accounts (fst x)"
  by unfold_locales (rule serve_accounts_keeps)

end
