(* ===== verification/LineUserFacts.thy ===== *)
theory LineUserFacts
  imports LineUserLife
begin

text \<open>What single calls on the LINE users do when they run alone.\<close>

subsection \<open>A decision\<close>

text \<open>The guards of \<open>updateAccess\<close>, in their order.\<close>

definition access_refusal ::
  "system_role \<Rightarrow> follower \<Rightarrow> app_access \<Rightarrow> string option \<Rightarrow> line_users_message http_error option"
where
  "access_refusal role u access reason =
     (if role = ADMIN \<and> fo_deletedAt u \<noteq> None then Some (NotFound LINE_USER_NOT_FOUND)
      else if role = ADMIN \<and> \<not> canAdminSetAccess (fo_access u) access then Some (Forbidden LINE_USER_ACCESS_TRANSITION_FORBIDDEN)
      else if access = ACC_REJECTED \<and> fo_access u = ACC_UNREGISTERED then Some (BadRequest CANNOT_REJECT_UNREGISTERED)
      else if access = ACC_REJECTED \<and> truthy reason = None then Some (BadRequest REJECTION_REASON_REQUIRED)
      else None)"

definition decided :: "accounts_env \<Rightarrow> string \<Rightarrow> app_access \<Rightarrow> string option \<Rightarrow> accounts \<Rightarrow> accounts" where
  "decided env i access reason s =
     s\<lparr>followers := set_where (\<lambda>x. fo_id x = i) (touch env 1 (set_access access reason)) (followers s)\<rparr>"

definition links_menu :: "accounts_env \<Rightarrow> rich_menu_type \<Rightarrow> bool" where
  "links_menu env t \<longleftrightarrow> serves_menu env t \<and> le_link env = Inr ()"

definition without_status :: "accounts_env \<Rightarrow> nat \<Rightarrow> string \<Rightarrow> accounts \<Rightarrow> accounts" where
  "without_status env k sub s = (if le_redis env k then s\<lparr>kept := (kept s)(lineStatusKey sub := None)\<rparr> else s)"

lemma menu_fails:
  assumes "\<not> links_menu env t"
  shows "\<exists>e. applyRichMenu env sub t w = (Inl e, w)"
proof (cases "le_menus env")
  case (Inl e)
  then show ?thesis by (simp add: applyRichMenu_def findRichMenuId_def ask_line_def act_run Let_def)
next
  case (Inr menus)
  then show ?thesis using assms
    by (cases "le_link env") (auto simp: applyRichMenu_def findRichMenuId_def ask_line_def act_run Let_def links_menu_def
        serves_menu_def split: option.splits)
qed

lemma menu_links:
  assumes "links_menu env t"
  shows "\<exists>m. applyRichMenu env sub t w = (Inr (), w\<lparr>trace := trace w @ [MenuLinked sub m]\<rparr>)"
proof -
  obtain menus i where "le_menus env = Inr menus"
      "truthy (map_option fst (List.find (\<lambda>m. snd m = RICH_MENU_SPECS t) menus)) = Some i" "le_link env = Inr ()"
    using assms unfolding links_menu_def serves_menu_def by (auto split: sum.splits)
  then show ?thesis by (auto simp: applyRichMenu_def findRichMenuId_def ask_line_def act_run Let_def)
qed

lemma write_access_result:
  "follower_at i s = Some u \<Longrightarrow> write_access env i access reason s =
     Inr (decided env i access reason s, toFollowerDto (decided env i access reason s) (touch env 1 (set_access access reason) u))"
  by (simp add: write_access_def update_follower_def decided_def)

lemma decided_dto:
  "fd_lineUserId (toFollowerDto s (touch env k (set_access access reason) u)) = fo_lineUserId u"
  "fd_richMenuType (toFollowerDto s (touch env k (set_access access reason) u)) = accessToRichMenuType access"
  by (simp_all add: toFollowerDto_def touch_def set_access_def)

lemma drop_status:
  "undisturbed env \<Longrightarrow> drop_keys env k [lineStatusKey sub] w =
     (Inr (), w\<lparr>base := without_status env k sub (base w), mine := without_status env k sub (mine w)\<rparr>)"
  by (auto simp: drop_keys_def change_kept_def Let_def undisturbed_simps without_status_def fun_upd_def)

text \<open>A call that may act writes first; whether it goes on depends on the rich menu.\<close>

lemma access_run:
  assumes "undisturbed env" "follower_at i s = Some u" "access_refusal (aa_actor_role actor) u access reason = None"
  shows "\<exists>es. answer (updateAccess env i access actor reason) s =
    (let s1 = decided env i access reason s; dto = toFollowerDto s1 (touch env 1 (set_access access reason) u)
     in if fo_deletedAt u \<noteq> None then (Inr dto, s1, [])
        else if links_menu env (accessToRichMenuType access) then (Inr dto, without_status env 3 (fo_lineUserId u) s1, es)
        else (Inl (Refused (BadGateway LINE_RICH_MENU_APPLY_FAILED)), s1, []))"
proof -
  have guards: "\<not> (aa_actor_role actor = ADMIN \<and> fo_deletedAt u \<noteq> None)"
    "\<not> (aa_actor_role actor = ADMIN \<and> \<not> canAdminSetAccess (fo_access u) access)"
    "\<not> (access = ACC_REJECTED \<and> fo_access u = ACC_UNREGISTERED)" "\<not> (access = ACC_REJECTED \<and> truthy reason = None)"
    using assms(3) by (auto simp: access_refusal_def split: if_splits)
  define s1 where "s1 = decided env i access reason s"
  define dto where "dto = toFollowerDto s1 (touch env 1 (set_access access reason) u)"
  define w1 where "w1 = \<lparr>base = s1, mine = s1, trace = [] :: account_event list\<rparr>"
  define rest where "rest = (\<lambda>(row :: follower) (updated :: follower_dto). if fo_deletedAt row \<noteq> None then done_with updated
     else
       andThen (catching (applyRichMenu env (fd_lineUserId updated) (fd_richMenuType updated))
         (\<lambda>_. stop_with (Refused (BadGateway LINE_RICH_MENU_APPLY_FAILED)))) (\<lambda>_.
       andThen (publish_follower env 2 FOLLOWER_UPDATED (fd_id updated) (Some actor)) (\<lambda>_.
       andThen (if access = ACC_REJECTED then notifyRejection env (fd_lineUserId updated) (or_else reason [])
                else notifyAccessChange env (fd_lineUserId updated) access) (\<lambda>_.
       andThen (drop_keys env 3 [lineStatusKey (fd_lineUserId updated)]) (\<lambda>_. done_with updated)))))"
  have folded: "(\<lambda>updated. if fo_deletedAt row \<noteq> None then done_with updated
     else
       andThen (catching (applyRichMenu env (fd_lineUserId updated) (fd_richMenuType updated))
         (\<lambda>_. stop_with (Refused (BadGateway LINE_RICH_MENU_APPLY_FAILED)))) (\<lambda>_.
       andThen (publish_follower env 2 FOLLOWER_UPDATED (fd_id updated) (Some actor)) (\<lambda>_.
       andThen (if access = ACC_REJECTED then notifyRejection env (fd_lineUserId updated) (or_else reason [])
                else notifyAccessChange env (fd_lineUserId updated) access) (\<lambda>_.
       andThen (drop_keys env 3 [lineStatusKey (fd_lineUserId updated)]) (\<lambda>_. done_with updated))))) = rest row" for row
    by (simp add: rest_def)
  have fields_of: "fd_lineUserId dto = fo_lineUserId u" "fd_richMenuType dto = accessToRichMenuType access"
    by (simp_all add: dto_def decided_dto)
  have start: "updateAccess env i access actor reason \<lparr>base = s, mine = s, trace = []\<rparr> = rest u dto w1"
    unfolding updateAccess_def folded using guards assms(2)
    by (simp add: act_run assms(1) write_access_result dto_def s1_def w1_def)
  have result: "\<exists>es. (case rest u dto w1 of (r, w) \<Rightarrow> (r, base w, trace w)) =
     (if fo_deletedAt u \<noteq> None then (Inr dto, s1, [])
      else if links_menu env (accessToRichMenuType access) then (Inr dto, without_status env 3 (fo_lineUserId u) s1, es)
      else (Inl (Refused (BadGateway LINE_RICH_MENU_APPLY_FAILED)), s1, []))"
  proof (cases "fo_deletedAt u = None \<and> links_menu env (accessToRichMenuType access)")
    case False
    have "\<exists>e. applyRichMenu env (fd_lineUserId dto) (fd_richMenuType dto) w1 = (Inl e, w1)"
      if "\<not> links_menu env (accessToRichMenuType access)"
      unfolding fields_of by (rule menu_fails [OF that])
    then show ?thesis using False by (auto simp: rest_def act_run catching_def w1_def)
  next
    case True
    obtain m where m: "applyRichMenu env (fd_lineUserId dto) (fd_richMenuType dto) w1 =
        (Inr (), w1\<lparr>trace := trace w1 @ [MenuLinked (fd_lineUserId dto) m]\<rparr>)"
      using menu_links True unfolding fields_of by blast
    define w2 where "w2 = w1\<lparr>trace := trace w1 @ [MenuLinked (fd_lineUserId dto) m]\<rparr>"
    obtain r es where pub: "publish_follower env 2 FOLLOWER_UPDATED (fd_id dto) (Some actor) w2 = (Inr r, w2\<lparr>trace := trace w2 @ es\<rparr>)"
      using silent_publish [OF assms(1), of 2 FOLLOWER_UPDATED "fd_id dto" "Some actor"] unfolding silent_def by blast
    define w3 where "w3 = w2\<lparr>trace := trace w2 @ es\<rparr>"
    obtain r' es' where told: "(if access = ACC_REJECTED then notifyRejection env (fd_lineUserId dto) (or_else reason [])
          else notifyAccessChange env (fd_lineUserId dto) access) w3 = (Inr r', w3\<lparr>trace := trace w3 @ es'\<rparr>)"
      using silent_if [OF silent_notify(2,1), of "access = ACC_REJECTED"] unfolding silent_def by blast
    have "rest u dto w1 = (Inr dto, w3\<lparr>base := without_status env 3 (fo_lineUserId u) s1, mine := without_status env 3 (fo_lineUserId u) s1,
        trace := trace w3 @ es'\<rparr>)"
      unfolding rest_def using True m [folded w2_def] pub [folded w3_def] told drop_status [OF assms(1)] fields_of(1)
      by (simp add: run_andThen catching_def run_basic w3_def w2_def w1_def)
    then show ?thesis using True by auto
  qed
  then show ?thesis unfolding answer_def start Let_def dto_def s1_def .
qed

lemma access_refused:
  assumes "undisturbed env" "follower_at i s = Some u" "access_refusal (aa_actor_role actor) u access reason = Some e"
  shows "answer (updateAccess env i access actor reason) s = (Inl (Refused e), s, [])"
  using assms(2,3) unfolding answer_def updateAccess_def access_refusal_def
  by (auto simp: act_run assms(1) split: if_splits)

lemma decided_lookup: "follower_at j (decided env i access reason s) =
    map_option (\<lambda>x. if fo_id x = i then touch env 1 (set_access access reason) x else x) (follower_at j s)"
proof -
  have "followers (decided env i access reason s) = set_where (\<lambda>x. fo_id x = i) (touch env 1 (set_access access reason)) (followers s)"
    by (simp add: decided_def)
  then show ?thesis unfolding follower_at_def
    by (simp only:) (rule first_row_set_where_map, simp add: touch_def set_access_def)
qed

lemma decided_row:
  assumes "follower_at i s = Some u" "rows_ok (followers s) (registrations s)"
    and "access_refusal role u access reason = None" "followers s' = followers (decided env i access reason s)"
  shows "\<exists>u'. follower_at i s' = Some u' \<and> fo_access u' = access \<and> follower_ok u' \<and>
    (role = ADMIN \<longrightarrow> fo_deletedAt u = None \<and> canAdminSetAccess (fo_access u) access) \<and>
    (access = ACC_REJECTED \<longrightarrow> fo_access u \<noteq> ACC_UNREGISTERED \<and> truthy (fo_rejectionReason u') \<noteq> None) \<and>
    (\<forall>j. j \<noteq> i \<longrightarrow> follower_at j s' = follower_at j s)"
proof -
  let ?f = "touch env 1 (set_access access reason)"
  have at: "follower_at j s' = map_option (\<lambda>x. if fo_id x = i then ?f x else x) (follower_at j s)" for j
    using decided_lookup assms(4) by (simp add: follower_at_def)
  have "follower_at i s' = Some (?f u)" using at [of i] assms(1) follower_atD [OF assms(1)] by simp
  moreover have "follower_at j s' = follower_at j s" if "j \<noteq> i" for j
    using at [of j] that follower_atD by (cases "follower_at j s") auto
  moreover have "follower_ok (?f u)" using assms(3)
    by (cases reason) (auto simp: follower_ok_def touch_def set_access_def access_refusal_def truthy_def split: if_splits)
  ultimately show ?thesis using assms(3)
    by (intro exI [where x = "?f u"]) (auto simp: touch_def set_access_def access_refusal_def split: if_splits)
qed

lemma decided_at:
  assumes "follower_at i s = Some u" "followers s' = followers (decided env i access reason s)"
  shows "follower_at i s' = Some (touch env 1 (set_access access reason) u)"
proof -
  have "follower_at i s' = map_option (\<lambda>x. if fo_id x = i then touch env 1 (set_access access reason) x else x) (follower_at i s)"
    using decided_lookup [of i env i] assms(2) by (simp add: follower_at_def)
  then show ?thesis using assms(1) follower_atD [OF assms(1)] by simp
qed

lemma access_tables:
  assumes "undisturbed env" "follower_at i s = Some u" "access_refusal (aa_actor_role actor) u access reason = None"
  shows "followers (leaves (updateAccess env i access actor reason) s) = followers (decided env i access reason s)"
    and "registrations (leaves (updateAccess env i access actor reason) s) = registrations s"
    and "ac_departments (leaves (updateAccess env i access actor reason) s) = ac_departments s"
    and "ac_roles (leaves (updateAccess env i access actor reason) s) = ac_roles s"
  using access_run [OF assms] by (auto simp: leaves_def Let_def decided_def without_status_def)

lemma follower_at_row:
  assumes "rows_ok (followers s) rs" "u \<in> set (followers s)"
  shows "follower_at (fo_id u) s = Some u"
proof -
  obtain v where v: "follower_at (fo_id u) s = Some v"
    unfolding follower_at_def using assms(2) first_row_None [of "\<lambda>x. fo_id x = fo_id u"]
    by (cases "first_row (\<lambda>x. fo_id x = fo_id u) (followers s)") auto
  then show ?thesis using follower_atD [OF v] one_follower(1) [OF assms(1) _ assms(2)] by auto
qed

lemma decided_id: "fd_id (toFollowerDto s (touch env k (set_access access reason) u)) = fo_id u"
  by (simp add: toFollowerDto_def touch_def set_access_def)

subsection \<open>After an unfollow\<close>

definition unfollowed :: "accounts_env \<Rightarrow> string \<Rightarrow> accounts \<Rightarrow> accounts" where
  "unfollowed env i s = s\<lparr>followers := set_where (\<lambda>u. fo_id u = i \<and> fo_deletedAt u = None)
     (touch env 1 (\<lambda>u. u\<lparr>fo_deletedAt := Some (le_now env 1)\<rparr>)) (followers s)\<rparr>"

lemma unfollow_run:
  assumes "undisturbed env" "live_follower sub s = Some u"
  shows "\<exists>es. answer (softDeleteByLineUserId env sub) s = (Inr 1, without_status env 2 sub (unfollowed env (fo_id u) s), es)"
proof -
  have "count_where (\<lambda>x. fo_id x = fo_id u \<and> fo_deletedAt x = None) (followers s) \<noteq> 0"
    using live_followerD [OF assms(2)] by (auto simp: count_where_def filter_empty_conv)
  then show ?thesis using assms(2)
    by (simp add: answer_def softDeleteByLineUserId_def act_run assms(1) soft_delete_row_def Let_def
        drop_status [OF assms(1)] unfollowed_def)
qed

lemma unfollowed_gone:
  assumes "rows_ok (followers s) (registrations s)" "live_follower sub s = Some u"
  shows "live_follower sub (unfollowed env (fo_id u) s) = None" "sub \<in> fo_lineUserId ` set (followers (unfollowed env (fo_id u) s))"
proof -
  have u: "u \<in> set (followers s)" "fo_lineUserId u = sub" using live_followerD [OF assms(2)] by auto
  have only: "x = u" if "x \<in> set (followers s)" "fo_lineUserId x = sub" for x
    using one_follower(2) [OF assms(1) that(1) u(1)] that(2) u(2) by simp
  show "live_follower sub (unfollowed env (fo_id u) s) = None"
    unfolding live_follower_def first_row_None
  proof
    fix y assume "y \<in> set (followers (unfollowed env (fo_id u) s))"
    then obtain x where x: "x \<in> set (followers s)"
        "y = (if fo_id x = fo_id u \<and> fo_deletedAt x = None then touch env 1 (\<lambda>u. u\<lparr>fo_deletedAt := Some (le_now env 1)\<rparr>) x else x)"
      by (auto simp: unfollowed_def set_set_where)
    have "fo_lineUserId y = fo_lineUserId x" by (simp add: x(2) touch_def)
    then show "\<not> (fo_lineUserId y = sub \<and> fo_deletedAt y = None)"
      using only [OF x(1)] by (cases "fo_deletedAt x") (auto simp: x(2) touch_def)
  qed
  have "map fo_lineUserId (followers (unfollowed env (fo_id u) s)) = map fo_lineUserId (followers s)"
    by (simp add: unfollowed_def map_set_where touch_def)
  then have "fo_lineUserId ` set (followers (unfollowed env (fo_id u) s)) = fo_lineUserId ` set (followers s)" by (metis list.set_map)
  then show "sub \<in> fo_lineUserId ` set (followers (unfollowed env (fo_id u) s))" using u by auto
qed

text \<open>A deleted row still holds its LINE account: whatever creates a row for it fails.\<close>

lemma no_second_row:
  "sub \<in> fo_lineUserId ` set (followers s) \<Longrightarrow> insert_follower env (bare_follower env k sub) s = Inl (le_unique env)"
  by (simp add: insert_follower_def)

lemma locked_out:
  assumes "undisturbed env" "live_follower sub s = None" "sub \<in> fo_lineUserId ` set (followers s)"
    and "kept s (lineStatusKey sub) = None" "isUniqueViolation (le_unique env)"
  shows "answer (getStatus env sub profile) s = (Inl (Thrown (le_unique env)), s, [])"
    and "answer (register env sub dto) s = (Inl (Refused (Conflict ALREADY_REGISTERED)), s, [])"
    and "answer (patchSettings env sub patch) s = (Inl (Thrown (le_unique env)), s, [])"
proof -
  have look: "cached_at env 0 (lineStatusKey sub) w = (Inr (if le_redis env 0 then kept (mine w) (lineStatusKey sub) else None), w)" for w
    using assms(1) by (simp add: cached_at_def Let_def undisturbed_simps)
  show "answer (getStatus env sub profile) s = (Inl (Thrown (le_unique env)), s, [])"
    using assms(2,4) no_second_row [OF assms(3)]
    by (simp add: answer_def getStatus_def run_andThen look getOrCreateByLineUserId_def findActiveByLineUserId_def act_run assms(1))
  show "answer (register env sub dto) s = (Inl (Refused (Conflict ALREADY_REGISTERED)), s, [])"
    using assms(2,5) no_second_row [OF assms(3)]
    by (simp add: answer_def register_def register_work_def act_run assms(1) catching_def mapRegistrationWriteError_def)
  show "answer (patchSettings env sub patch) s = (Inl (Thrown (le_unique env)), s, [])"
    using assms(2) no_second_row [OF assms(3)]
    by (simp add: answer_def patchSettings_def getOrCreateByLineUserId_def findActiveByLineUserId_def act_run assms(1))
qed

subsection \<open>A resubmission and a decision in between\<close>

lemma publish_quietly:
  assumes "others env k = (\<lambda>s. s)" "breaks env k = None"
  shows "\<exists>es. publish_follower env k kind i actor w = (Inr (), w\<lparr>trace := trace w @ es\<rparr>)"
  by (cases "first_row (\<lambda>u. fo_id u = i \<and> fo_deletedAt u = None) (followers (mine w))")
    (auto simp: publish_follower_def catching_def fetch_def issue_def meanwhile_def act_run assms Let_def
      intro: exI [where x = "[]"])

lemma resubmission_run:
  assumes quiet: "\<And>k. breaks env k = None" "\<And>k. k \<noteq> 1 \<Longrightarrow> others env k = (\<lambda>s. s)" and t: "others env 1 s = t"
    and u: "live_follower sub s = Some u" "fo_access u = ACC_REJECTED" and b: "follower_at (fo_id u) t = Some b"
    and opts: "first_row (assignable False (rd_departmentId dto)) (ac_departments t) \<noteq> None"
      "first_row (assignable False (rd_personnelRoleId dto)) (ac_roles t) \<noteq> None" "registration_of t (fo_id u) \<noteq> None"
  shows "follower_at (fo_id u) (leaves (updateRegistration env sub dto) s) =
     Some (touch env 4 (\<lambda>u. u\<lparr>fo_access := ACC_PENDING, fo_rejectionReason := None\<rparr>) b)"
proof -
  let ?i = "fo_id u" and ?f = "touch env 4 (\<lambda>u. u\<lparr>fo_access := ACC_PENDING, fo_rejectionReason := None\<rparr>)"
  define w0 where "w0 = \<lparr>base = s, mine = s, trace = [] :: account_event list\<rparr>"
  define t' where "t' = t\<lparr>registrations := set_where (\<lambda>r. rg_lineUserId r = ?i) (edit_registration env 3 dto) (registrations t),
    followers := set_where (\<lambda>x. fo_id x = ?i) ?f (followers t)\<rparr>"
  define w1 where "w1 = \<lparr>base = t', mine = t', trace = [] :: account_event list\<rparr>"
  have t1: "others env (Suc 0) s = t" and k0: "others env 0 = (\<lambda>s. s)" using t quiet(2) [of 0] by simp_all
  obtain r where r: "registration_of t ?i = Some r" using opts(3) by blast
  have same: "follower_at ?i (t\<lparr>registrations := rs\<rparr>) = Some b" for rs using b by (simp add: follower_at_def)
  have tx: "\<exists>shown. atomically (resubmit_work env ?i dto True) w0 = (Inr shown, w1)"
    using opts(1,2) r same
    by (auto simp: resubmit_work_def assertActiveOptions_def fetch_def put_def issue_def meanwhile_def quiet t1 act_run w0_def w1_def
        t'_def update_registration_def update_follower_def numeral_2_eq_2 split: option.splits)
  obtain shown where tx: "atomically (resubmit_work env ?i dto True) w0 = (Inr shown, w1)" using tx by blast
  obtain es where pub: "publish_follower env 5 FOLLOWER_UPDATED ?i None w1 = (Inr (), w1\<lparr>trace := trace w1 @ es\<rparr>)"
    using publish_quietly [of env 5] quiet by fastforce
  define w2 where "w2 = w1\<lparr>trace := trace w1 @ es\<rparr>"
  obtain x es' where told: "notifyAccessChange env sub ACC_PENDING w2 = (Inr x, w2\<lparr>trace := trace w2 @ es'\<rparr>)"
    using silent_notify(1) unfolding silent_def by blast
  have first: "fetch env 0 (live_follower sub) w0 = (Inr (Some u), w0)"
    by (simp add: fetch_def issue_def meanwhile_def quiet(1) k0 u(1) w0_def)
  have bases: "base w2 = t'" "mine w2 = t'" by (simp_all add: w2_def w1_def)
  have "followers (base (snd (updateRegistration env sub dto w0))) = followers t'"
    using u(2) by (simp add: updateRegistration_def run_andThen run_basic first tx pub [folded w2_def] told
        drop_keys_def change_kept_def Let_def meanwhile_def quiet bases)
  then have "followers (leaves (updateRegistration env sub dto) s) = followers t'"
    by (cases "updateRegistration env sub dto w0") (simp add: leaves_def answer_def w0_def)
  moreover have "follower_at ?i t' = Some (?f b)"
    using b unfolding follower_at_def t'_def
    by (simp add: first_row_set_where_map touch_def) (metis first_row_Some follower_atD b)
  ultimately show ?thesis by (simp add: follower_at_def)
qed

subsection \<open>Settings\<close>

definition settings_seen :: "accounts \<Rightarrow> string \<Rightarrow> settings_view" where
  "settings_seen s sub = (case own_settings sub s of None \<Rightarrow> default_settings | Some r \<Rightarrow> settings_view_of r)"

lemma getSettings_run: "undisturbed env \<Longrightarrow> answer (getSettings env sub) s = (Inr (settings_seen s sub), s, [])"
  by (simp add: answer_def getSettings_def act_run settings_seen_def)

lemma own_settings_is:
  assumes "rows_ok (followers s) (registrations s)" "live_follower sub s = Some u"
  shows "own_settings sub s = settings_of s (fo_id u)"
proof -
  have u: "u \<in> set (followers s)" "fo_lineUserId u = sub" "fo_deletedAt u = None" using live_followerD [OF assms(2)] by auto
  have "(\<exists>x \<in> set (followers s). fo_id x = i \<and> fo_lineUserId x = sub \<and> fo_deletedAt x = None) \<longleftrightarrow> i = fo_id u" for i
    using u one_follower(2) [OF assms(1) _ u(1)] by fastforce
  then show ?thesis by (simp add: own_settings_def settings_of_def list_ex_iff)
qed

lemma own_settings_none:
  assumes "live_follower sub s = None"
  shows "own_settings sub s = None"
proof -
  have "\<not> (fo_lineUserId x = sub \<and> fo_deletedAt x = None)" if "x \<in> set (followers s)" for x
    using assms that by (auto simp: live_follower_def first_row_None)
  then show ?thesis by (auto simp: own_settings_def first_row_None list_ex_iff)
qed

lemma preferences_read_back: "toNotificationPreferences (Some (preferences_json p)) = p"
  by (simp add: toNotificationPreferences_def preferences_json_def read_flag_def)

lemma nothing_stored: "toNotificationPreferences None = defaultNotificationPreferences"
  by (simp add: toNotificationPreferences_def)

lemma upserted:
  assumes "upsert_settings env k i theme notes s = Inr (s', row)"
  shows "row = \<lparr>se_lineUserId = i, se_theme = theme, se_notifications = notes, se_updatedAt = le_now env k\<rparr> \<and>
    settings_of s' i = Some row \<and> followers s' = followers s \<and> registrations s' = registrations s"
proof -
  have "first_row (\<lambda>r. se_lineUserId r = i) (set_where (\<lambda>r. se_lineUserId r = i) (\<lambda>_. row) rs) = Some row"
    if "settings_of (t\<lparr>settings_rows := rs\<rparr>) i = Some r" "se_lineUserId row = i" for rs r row t
    using that by (induction rs) (auto simp: settings_of_def first_row_def set_where_def split: if_splits)
  then show ?thesis using assms
    by (auto simp: upsert_settings_def Let_def settings_of_def first_row_snoc split: option.splits)
qed

text \<open>The row a patch starts from, in the state it starts from.\<close>

lemma getOrCreate_run:
  assumes "undisturbed env" "live_follower sub s = Some u"
  shows "getOrCreateByLineUserId env k sub \<lparr>base = s, mine = s, trace = es\<rparr> = (Inr u, \<lparr>base = s, mine = s, trace = es\<rparr>)"
  using assms by (simp add: getOrCreateByLineUserId_def findActiveByLineUserId_def act_run)

lemma created_run:
  assumes "undisturbed env" "live_follower sub s = None"
    and "getOrCreateByLineUserId env k sub \<lparr>base = s, mine = s, trace = es\<rparr> = (Inr u, w)"
  shows "\<exists>s'. w = \<lparr>base = s', mine = s', trace = es\<rparr> \<and> insert_follower env (bare_follower env (k + 1) sub) s = Inr (s', u)"
  using assms by (auto simp: getOrCreateByLineUserId_def findActiveByLineUserId_def act_run split: sum.splits)

lemma patch_from:
  assumes "undisturbed env" "rows_ok (followers t) (registrations t)" "live_follower sub t = Some u"
    and "andThen (fetch env 2 (\<lambda>s. settings_of s (fo_id u))) (\<lambda>existing.
     (let stored = toNotificationPreferences (map_option se_notifications existing);
          notifications = preferences_json (merged_preferences stored (sp_notifications dto));
          theme = or_else (sp_theme dto) (or_else (map_option se_theme existing) DEFAULT_LINE_USER_THEME)
      in andThen (atomically (put env 3 (upsert_settings env 3 (fo_id u) theme notifications))) (\<lambda>saved.
         done_with (settings_view_of saved)))) \<lparr>base = t, mine = t, trace = []\<rparr> = (Inr v, w)"
  shows "settings_seen (base w) sub = v \<and> trace w = [] \<and>
    tv_notifications v = merged_preferences (tv_notifications (settings_seen t sub)) (sp_notifications dto) \<and>
    tv_theme v = or_else (sp_theme dto) (tv_theme (settings_seen t sub))"
proof -
  let ?e = "settings_of t (fo_id u)"
  let ?stored = "toNotificationPreferences (map_option se_notifications ?e)"
  let ?notes = "preferences_json (merged_preferences ?stored (sp_notifications dto))"
  let ?theme = "or_else (sp_theme dto) (or_else (map_option se_theme ?e) DEFAULT_LINE_USER_THEME)"
  obtain s' row where up: "upsert_settings env 3 (fo_id u) ?theme ?notes t = Inr (s', row)"
    by (cases "settings_of t (fo_id u)") (auto simp: upsert_settings_def Let_def)
  have w: "v = settings_view_of row" "w = \<lparr>base = s', mine = s', trace = []\<rparr>"
    using assms(4) up by (auto simp: act_run assms(1) Let_def)
  note up' = upserted [OF up]
  have "live_follower sub s' = Some u" using assms(3) up' by (simp add: live_follower_def)
  then have "own_settings sub s' = Some row" using own_settings_is [of s' sub u] assms(2) up' by simp
  then have seen: "settings_seen s' sub = v" by (simp add: settings_seen_def w)
  have before: "settings_seen t sub = (case ?e of None \<Rightarrow> default_settings | Some r \<Rightarrow> settings_view_of r)"
    using own_settings_is [OF assms(2,3)] by (simp add: settings_seen_def)
  have row: "row = \<lparr>se_lineUserId = fo_id u, se_theme = ?theme, se_notifications = ?notes, se_updatedAt = le_now env 3\<rparr>" using up' by simp
  show ?thesis using seen unfolding w before row
    by (cases ?e) (simp_all add: settings_view_of_def preferences_read_back default_settings_def or_else_def
        nothing_stored)
qed

lemma patch_run:
  assumes "undisturbed env" "rows_ok (followers s) (registrations s)" "se_lineUserId ` set (settings_rows s) \<subseteq> fo_id ` set (followers s)"
    and "patchSettings env sub dto \<lparr>base = s, mine = s, trace = []\<rparr> = (Inr v, w)"
  shows "settings_seen (base w) sub = v \<and> trace w = [] \<and>
    tv_notifications v = merged_preferences (tv_notifications (settings_seen s sub)) (sp_notifications dto) \<and>
    tv_theme v = or_else (sp_theme dto) (tv_theme (settings_seen s sub))"
proof (cases "live_follower sub s")
  case (Some u)
  show ?thesis
    by (rule patch_from [OF assms(1,2) Some])
      (use assms(4) in \<open>simp add: patchSettings_def run_andThen getOrCreate_run [OF assms(1) Some]\<close>)
next
  case None
  obtain u w0 where got: "getOrCreateByLineUserId env 0 sub \<lparr>base = s, mine = s, trace = []\<rparr> = (Inr u, w0)"
    using assms(4) by (cases "getOrCreateByLineUserId env 0 sub \<lparr>base = s, mine = s, trace = []\<rparr>" rule: prod.exhaust)
      (auto simp: patchSettings_def run_andThen split: sum.splits)
  obtain t where t: "w0 = \<lparr>base = t, mine = t, trace = []\<rparr>" "insert_follower env (bare_follower env (0 + 1) sub) s = Inr (t, u)"
    using created_run [OF assms(1) None got] by blast
  have new: "live_follower sub t = Some u" using inserted_live [OF t(2)] by simp
  have shape: "t = s\<lparr>followers := followers s @ [bare_follower env 1 sub]\<rparr>" "fo_id (bare_follower env 1 sub) \<notin> fo_id ` set (followers s)"
    "fo_lineUserId (bare_follower env 1 sub) \<notin> fo_lineUserId ` set (followers s)"
    using t(2) by (auto simp: insert_follower_def split: if_splits)
  have rows: "rows_ok (followers t) (registrations t)"
    using assms(2) shape unfolding rows_ok_def by (auto simp: list_all_iff)
  have "fo_id u \<notin> se_lineUserId ` set (settings_rows s)"
    using inserted_live [OF t(2)] assms(3) shape(2) by auto
  then have "settings_of t (fo_id u) = None"
    unfolding settings_of_def first_row_None by (simp add: shape(1)) (metis image_eqI)
  then have same: "settings_seen t sub = settings_seen s sub"
    using own_settings_is [OF rows new] own_settings_none [OF None] by (simp add: settings_seen_def)
  show ?thesis unfolding same [symmetric]
    by (rule patch_from [OF assms(1) rows new]) (use assms(4) got t(1) in \<open>simp add: patchSettings_def run_andThen\<close>)
qed

end
