(* ===== verification/LineUserSamples.thy ===== *)
theory LineUserSamples
  imports LineUserFacts AnnouncementSamples
begin

text \<open>Concrete followers, registrations and circumstances for the witnesses.\<close>

definition both_menus :: "(string \<times> rich_menu_spec) list" where
  "both_menus = [(''m1'', RICH_MENU_SPECS TYPE_1), (''m2'', RICH_MENU_SPECS TYPE_2)]"

definition no_accounts_change :: "nat \<Rightarrow> accounts \<Rightarrow> accounts" where
  "no_accounts_change k s = s"

definition still_env :: accounts_env where
  "still_env = \<lparr>others = no_accounts_change, breaks = \<lambda>_. None, le_now = \<lambda>k. 1000 + int k,
     le_new_id = \<lambda>k. CHR ''n'' # show_nat k, le_collate = \<lambda>a b. if a = b then 0 else if a < b then -1 else 1,
     le_lower = ascii_lower, le_unique = JsError True (Some ''P2002'') None None NoTarget None None None None,
     le_missing = JsError True (Some ''P2025'') None None NoTarget None None None None, le_redis = \<lambda>_. True,
     le_push = Inr (), le_reply = Inr (), le_link = Inr (), le_menus = Inr both_menus,
     le_profile = Inr no_profile, le_liff_url = None\<rparr>"

definition rejected_follower :: follower where
  "rejected_follower = \<lparr>fo_id = ''f1'', fo_lineUserId = ''U1'', fo_displayName = Some ''N'', fo_pictureUrl = None,
     fo_statusMessage = None, fo_language = None, fo_richMenuType = TYPE_1, fo_access = ACC_REJECTED,
     fo_rejectionReason = Some ''fix'', fo_blockReason = None, fo_followedAt = 1, fo_registeredAt = Some 2,
     fo_createdAt = 1, fo_updatedAt = 3, fo_deletedAt = None\<rparr>"

definition sample_registration :: registration_row where
  "sample_registration = \<lparr>rg_id = ''r1'', rg_lineUserId = ''f1'', rg_firstName = ''A'', rg_lastName = ''B'',
     rg_phone = ''02-1 ext 5'', rg_phoneDigits = ''021'', rg_departmentId = 1, rg_personnelRoleId = 2,
     rg_createdAt = 2, rg_updatedAt = 2, rg_deletedAt = None\<rparr>"

definition nothing_kept :: "string \<Rightarrow> cached option" where
  "nothing_kept key = None"

definition sample_accounts :: accounts where
  "sample_accounts = \<lparr>followers = [rejected_follower], registrations = [sample_registration], settings_rows = [],
     ac_departments = [option_at 1 ''D'' False], ac_roles = [option_at 2 ''R'' False], kept = nothing_kept\<rparr>"

definition sample_dto :: registration_dto where
  "sample_dto = \<lparr>rd_firstName = ''A'', rd_lastName = ''C'', rd_phone = ''081-2'', rd_departmentId = 1, rd_personnelRoleId = 2\<rparr>"

definition chief :: admin_actor where
  "chief = \<lparr>aa_actor_id = ''s1'', aa_actor_name = ''S'', aa_actor_role = ADMIN\<rparr>"

lemma still_env_calm: "undisturbed still_env" "calm_accounts still_env"
proof -
  show "undisturbed still_env" by (simp add: undisturbed_def still_env_def no_accounts_change_def fun_eq_iff)
  moreover have "menus_apply still_env" by code_simp
  ultimately show "calm_accounts still_env" by (simp add: calm_accounts_def still_env_def)
qed

lemma sample_accounts_ok: "accounts_inv {} sample_accounts"
proof -
  have "rows_ok (followers sample_accounts) (registrations sample_accounts)" by code_simp
  then show ?thesis by (simp add: accounts_inv_def status_current_def sample_accounts_def nothing_kept_def)
qed

text \<open>An administrator blocks the user right after the resubmission has read the row.\<close>

definition block_in_between :: "nat \<Rightarrow> accounts \<Rightarrow> accounts" where
  "block_in_between k s = (if k = 1 then leaves (updateAccess still_env ''f1'' ACC_BLOCKED chief (Some ''abuse'')) s else s)"

definition block_race_env :: accounts_env where
  "block_race_env = still_env\<lparr>others := block_in_between\<rparr>"

text \<open>The same user, allowed; a LINE account without its menus; a patch of one preference.\<close>

definition allowed_accounts :: accounts where
  "allowed_accounts = sample_accounts\<lparr>followers := [rejected_follower\<lparr>fo_access := ACC_ALLOWED, fo_richMenuType := TYPE_2,
     fo_rejectionReason := None\<rparr>]\<rparr>"

definition menuless_env :: accounts_env where
  "menuless_env = still_env\<lparr>le_menus := Inr []\<rparr>"

definition no_preferences :: preferences_patch where
  "no_preferences = \<lparr>pp_announcements = None, pp_decisions = None, pp_reminders = None\<rparr>"

definition mute_decisions :: settings_patch where
  "mute_decisions = \<lparr>sp_theme = None, sp_notifications = Some (no_preferences\<lparr>pp_decisions := Some False\<rparr>)\<rparr>"

end
