(* ===== verification/LineUserProperties.thy ===== *)
theory LineUserProperties
  imports LineUserSamples
begin

text \<open>The claims about the LINE users, their registrations and their settings, with their witnesses.\<close>

subsection \<open>Every call\<close>

text \<open>C20: However many calls and webhook events are served, one at a time with Redis and the rich menus
  answering: no two rows share a LINE account, a rejection reason is there exactly while the user is
  REJECTED, a block reason only while BLOCKED, the menu is the one of the access, whoever has a registration
  has its date and the digits searched are those of its phone number; and a cached status is the status a
  fresh read of the tables gives.\<close>

theorem accounts_stay_coherent:
  assumes "rows_ok (followers s) (registrations s)" "\<And>sub. status_current sub s" "list_all (\<lambda>x. calm_accounts (fst x)) calls"
  shows "rows_ok (followers (run_ops serve_accounts s calls)) (registrations (run_ops serve_accounts s calls)) \<and>
    status_current sub (run_ops serve_accounts s calls)"
  using line_accounts.run_inv [OF _ assms(3), of s] assms(1,2) by (simp add: accounts_inv_def)

lemma accounts_stay_coherent_witness:
  "status_current ''U1'' (run_ops serve_accounts sample_accounts
     [(still_env, GetStatus ''U1'' None), (still_env, EditOwnRegistration ''U1'' sample_dto),
      (still_env, SetAccess ''f1'' ACC_ALLOWED chief None), (still_env, Webhook (UnfollowEvent (Some (UserSource (Some ''U1'')))))])"
  using accounts_stay_coherent [of sample_accounts "[(still_env, GetStatus ''U1'' None),
      (still_env, EditOwnRegistration ''U1'' sample_dto), (still_env, SetAccess ''f1'' ACC_ALLOWED chief None),
      (still_env, Webhook (UnfollowEvent (Some (UserSource (Some ''U1'')))))]" "''U1''"]
    sample_accounts_ok still_env_calm by (simp add: accounts_inv_def)

subsection \<open>Decisions\<close>

text \<open>C21: What a decision of the back office does, run alone: it is refused with nothing changed and
  nothing told, or it changes the access of exactly the user named, an ADMIN only of a live user and only
  along the transition matrix, nobody ever from UNREGISTERED to REJECTED or to REJECTED without a reason;
  the row then satisfies its rules again, and no message is sent unless the decision is answered with
  the row.\<close>

theorem decisions_follow_the_matrix:
  assumes "undisturbed env" "rows_ok (followers s) (registrations s)" "answer (updateAccess env i access actor reason) s = (r, s', es)"
  shows "(s' = s \<and> es = [] \<and> (\<exists>e. r = Inl e)) \<or>
    (\<exists>u u'. follower_at i s = Some u \<and> follower_at i s' = Some u' \<and> fo_access u' = access \<and> follower_ok u' \<and>
       (aa_actor_role actor = ADMIN \<longrightarrow> fo_deletedAt u = None \<and> canAdminSetAccess (fo_access u) access) \<and>
       (access = ACC_REJECTED \<longrightarrow> fo_access u \<noteq> ACC_UNREGISTERED \<and> truthy (fo_rejectionReason u') \<noteq> None) \<and>
       (\<forall>j. j \<noteq> i \<longrightarrow> follower_at j s' = follower_at j s) \<and> registrations s' = registrations s \<and>
       (es \<noteq> [] \<longrightarrow> (\<exists>dto. r = Inr dto \<and> fd_id dto = i)))"
proof (cases "follower_at i s")
  case None
  then have "answer (updateAccess env i access actor reason) s = (Inl (Refused (NotFound LINE_USER_NOT_FOUND)), s, [])"
    by (simp add: answer_def updateAccess_def act_run assms(1))
  then show ?thesis using assms(3) by auto
next
  case (Some u)
  show ?thesis
  proof (cases "access_refusal (aa_actor_role actor) u access reason")
    case (Some e)
    have "answer (updateAccess env i access actor reason) s = (Inl (Refused e), s, [])"
      by (rule access_refused [OF assms(1) \<open>follower_at i s = Some u\<close> Some])
    then show ?thesis using assms(3) by auto
  next
    case None
    obtain es' where run: "answer (updateAccess env i access actor reason) s =
      (let s1 = decided env i access reason s; dto = toFollowerDto s1 (touch env 1 (set_access access reason) u)
       in if fo_deletedAt u \<noteq> None then (Inr dto, s1, [])
          else if links_menu env (accessToRichMenuType access) then (Inr dto, without_status env 3 (fo_lineUserId u) s1, es')
          else (Inl (Refused (BadGateway LINE_RICH_MENU_APPLY_FAILED)), s1, []))"
      using access_run [OF assms(1) \<open>follower_at i s = Some u\<close> None] by blast
    have tables: "followers s' = followers (decided env i access reason s)" "registrations s' = registrations s"
      and told: "es \<noteq> [] \<Longrightarrow> r = Inr (toFollowerDto (decided env i access reason s) (touch env 1 (set_access access reason) u))"
      using assms(3) unfolding run by (auto simp: Let_def decided_def without_status_def split: if_splits)
    note decision = decided_row [OF \<open>follower_at i s = Some u\<close> assms(2) None tables(1)]
    have "es \<noteq> [] \<longrightarrow> (\<exists>dto. r = Inr dto \<and> fd_id dto = i)"
      using told follower_atD [OF \<open>follower_at i s = Some u\<close>] by (simp add: decided_id)
    then show ?thesis using decision tables(2) \<open>follower_at i s = Some u\<close> by blast
  qed
qed

lemma decisions_follow_the_matrix_witness:
  "\<exists>u'. follower_at ''f1'' (leaves (updateAccess still_env ''f1'' ACC_ALLOWED chief None) sample_accounts) = Some u' \<and>
     fo_access u' = ACC_ALLOWED \<and> follower_ok u'"
proof -
  obtain r s' es where run: "answer (updateAccess still_env ''f1'' ACC_ALLOWED chief None) sample_accounts = (r, s', es)"
    by (metis prod_cases3)
  have "case fst (answer (updateAccess still_env ''f1'' ACC_ALLOWED chief None) sample_accounts) of Inl _ \<Rightarrow> False | Inr _ \<Rightarrow> True"
    by code_simp
  then show ?thesis
    using decisions_follow_the_matrix [OF still_env_calm(1) _ run] run sample_accounts_ok
    by (auto simp: leaves_def accounts_inv_def)
qed

text \<open>When the rich menu cannot be linked, the decision stands although it is answered with 502, and the
  cached status of the user stays too: until it expires the client app keeps showing the access the user no
  longer has.\<close>

theorem failed_menu_keeps_stale_status:
  assumes "undisturbed env" "rows_ok (followers s) (registrations s)" "follower_at i s = Some u" "fo_deletedAt u = None"
    and "access_refusal (aa_actor_role actor) u access reason = None" "\<not> links_menu env (accessToRichMenuType access)"
    and "kept s (lineStatusKey (fo_lineUserId u)) = Some (CachedStatus v)" "undisturbed env'" "le_redis env' 0"
  shows "\<exists>s1 u1. answer (updateAccess env i access actor reason) s = (Inl (Refused (BadGateway LINE_RICH_MENU_APPLY_FAILED)), s1, []) \<and>
    follower_at i s1 = Some u1 \<and> fo_access u1 = access \<and>
    answer (getStatus env' (fo_lineUserId u) profile) s1 = (Inr v, s1, [])"
proof -
  let ?s1 = "decided env i access reason s"
  have run: "answer (updateAccess env i access actor reason) s = (Inl (Refused (BadGateway LINE_RICH_MENU_APPLY_FAILED)), ?s1, [])"
    using access_run [OF assms(1,3,5)] assms(4,6) by (auto simp: Let_def)
  have "kept ?s1 = kept s" by (simp add: decided_def)
  then have "answer (getStatus env' (fo_lineUserId u) profile) ?s1 = (Inr v, ?s1, [])"
    using assms(7,9) by (simp add: answer_def getStatus_def run_andThen cached_at_def Let_def undisturbed_simps [OF assms(8)] run_basic)
  then show ?thesis using run decided_row [OF assms(3,2,5) refl, of env] by auto
qed

lemma failed_menu_keeps_stale_status_witness:
  "let s = allowed_accounts\<lparr>kept := [lineStatusKey ''U1'' \<mapsto> CachedStatus (toStatusDto ACC_ALLOWED None None)]\<rparr> in
   (\<exists>s1 u1. answer (updateAccess menuless_env ''f1'' ACC_BLOCKED chief None) s = (Inl (Refused (BadGateway LINE_RICH_MENU_APPLY_FAILED)), s1, []) \<and>
    follower_at ''f1'' s1 = Some u1 \<and> fo_access u1 = ACC_BLOCKED \<and>
    answer (getStatus still_env ''U1'' None) s1 = (Inr (toStatusDto ACC_ALLOWED None None), s1, []))"
proof -
  let ?s = "allowed_accounts\<lparr>kept := [lineStatusKey ''U1'' \<mapsto> CachedStatus (toStatusDto ACC_ALLOWED None None)]\<rparr>"
  let ?u = "rejected_follower\<lparr>fo_access := ACC_ALLOWED, fo_richMenuType := TYPE_2, fo_rejectionReason := None\<rparr>"
  have env: "undisturbed menuless_env" using still_env_calm(1) by (simp add: menuless_env_def undisturbed_def)
  have rows: "rows_ok (followers ?s) (registrations ?s)" by code_simp
  have u: "follower_at ''f1'' ?s = Some ?u" "fo_deletedAt ?u = None" "fo_lineUserId ?u = ''U1''"
    by (simp_all add: follower_at_def first_row_def allowed_accounts_def rejected_follower_def)
  have "access_refusal (aa_actor_role chief) ?u ACC_BLOCKED None = None" "\<not> links_menu menuless_env (accessToRichMenuType ACC_BLOCKED)"
    by (code_simp)+
  from failed_menu_keeps_stale_status [OF env rows u(1,2) this _ still_env_calm(1)] show ?thesis
    unfolding u(3) by (simp add: still_env_def)
qed

subsection \<open>Coming back, and coming in between\<close>

text \<open>C23: A follower who unfollows is locked out of the client app: the soft-deleted row keeps the unique LINE
  account, the live lookup does not see it, and the insert of a fresh row fails. The next status read and
  settings write are raw errors of the driver and a registration is refused as registered already, although
  the code says a status read builds a fresh UNREGISTERED row.\<close>

theorem unfollowed_user_is_locked_out:
  assumes "undisturbed env" "le_redis env 2" "rows_ok (followers s) (registrations s)" "live_follower sub s = Some u"
    and "isUniqueViolation (le_unique env)"
  shows "let s' = leaves (softDeleteByLineUserId env sub) s in
    answer (getStatus env sub profile) s' = (Inl (Thrown (le_unique env)), s', []) \<and>
    answer (patchSettings env sub patch) s' = (Inl (Thrown (le_unique env)), s', []) \<and>
    answer (register env sub dto) s' = (Inl (Refused (Conflict ALREADY_REGISTERED)), s', [])"
proof -
  let ?s' = "without_status env 2 sub (unfollowed env (fo_id u) s)"
  have s': "leaves (softDeleteByLineUserId env sub) s = ?s'"
    using unfollow_run [OF assms(1,4)] by (auto simp: leaves_def)
  have gone: "live_follower sub ?s' = None" "sub \<in> fo_lineUserId ` set (followers ?s')" "kept ?s' (lineStatusKey sub) = None"
    using unfollowed_gone [OF assms(3,4), of env] assms(2) by (simp_all add: without_status_def)
  show ?thesis unfolding Let_def s' using locked_out [OF assms(1) gone assms(5)] by simp
qed

lemma unfollowed_user_is_locked_out_witness:
  "fst (answer (getStatus still_env ''U1'' None) (leaves (softDeleteByLineUserId still_env ''U1'') sample_accounts))
     = Inl (Thrown (le_unique still_env))"
proof -
  have "live_follower ''U1'' sample_accounts = Some rejected_follower"
    by (simp add: live_follower_def first_row_def sample_accounts_def rejected_follower_def)
  moreover have "isUniqueViolation (le_unique still_env)" "le_redis still_env 2" by (simp_all add: still_env_def isUniqueViolation_def)
  ultimately show ?thesis
    using unfollowed_user_is_locked_out [OF still_env_calm(1), of sample_accounts "''U1''" rejected_follower] sample_accounts_ok
    by (simp add: accounts_inv_def Let_def)
qed

text \<open>C22: A block does not survive a resubmission that is under way: updateRegistration reads the access before
  its transaction and writes PENDING in it, so when an administrator blocks the user in between, the user is
  PENDING again, with the reason of the block still on the row.\<close>

theorem resubmission_undoes_block:
  assumes "\<And>k. breaks env k = None" "\<And>k. k \<noteq> 1 \<Longrightarrow> others env k = (\<lambda>s. s)"
    and "others env 1 s = leaves (updateAccess env' (fo_id u) ACC_BLOCKED admin (Some why)) s" "undisturbed env'"
    and "rows_ok (followers s) (registrations s)" "live_follower sub s = Some u" "fo_access u = ACC_REJECTED"
    and "first_row (assignable False (rd_departmentId dto)) (ac_departments s) \<noteq> None"
    and "first_row (assignable False (rd_personnelRoleId dto)) (ac_roles s) \<noteq> None" "registration_of s (fo_id u) \<noteq> None"
  shows "\<exists>b p. follower_at (fo_id u) (others env 1 s) = Some b \<and> fo_access b = ACC_BLOCKED \<and>
    follower_at (fo_id u) (leaves (updateRegistration env sub dto) s) = Some p \<and>
    fo_access p = ACC_PENDING \<and> fo_blockReason p = Some why"
proof -
  have u: "u \<in> set (followers s)" "fo_deletedAt u = None" using live_followerD [OF assms(6)] by auto
  have at: "follower_at (fo_id u) s = Some u" by (rule follower_at_row [OF assms(5) u(1)])
  have "access_refusal (aa_actor_role admin) u ACC_BLOCKED (Some why) = None"
    using assms(7) u(2) by (simp add: access_refusal_def canAdminSetAccess_def)
  note after = access_tables [OF assms(4) at this]
  have tables: "followers (others env 1 s) = followers (decided env' (fo_id u) ACC_BLOCKED (Some why) s)"
    "registrations (others env 1 s) = registrations s" "ac_departments (others env 1 s) = ac_departments s"
    "ac_roles (others env 1 s) = ac_roles s"
    unfolding assms(3) by (rule after)+
  have b: "follower_at (fo_id u) (others env 1 s) = Some (touch env' 1 (set_access ACC_BLOCKED (Some why)) u)"
    using decided_at [OF at tables(1)] .
  have opts: "first_row (assignable False (rd_departmentId dto)) (ac_departments (others env 1 s)) \<noteq> None"
    "first_row (assignable False (rd_personnelRoleId dto)) (ac_roles (others env 1 s)) \<noteq> None"
    "registration_of (others env 1 s) (fo_id u) \<noteq> None"
    using assms(8-10) tables(2-4) by (simp_all add: registration_of_def)
  have "follower_at (fo_id u) (leaves (updateRegistration env sub dto) s) =
     Some (touch env 4 (\<lambda>u. u\<lparr>fo_access := ACC_PENDING, fo_rejectionReason := None\<rparr>) (touch env' 1 (set_access ACC_BLOCKED (Some why)) u))"
    by (rule resubmission_run [OF assms(1,2) refl assms(6,7) b opts])
  then show ?thesis using b by (simp add: touch_def set_access_def)
qed

lemma resubmission_undoes_block_witness:
  "\<exists>p. follower_at ''f1'' (leaves (updateRegistration block_race_env ''U1'' sample_dto) sample_accounts) = Some p \<and>
     fo_access p = ACC_PENDING \<and> fo_blockReason p = Some ''abuse''"
proof -
  have env: "breaks block_race_env k = None" "k \<noteq> 1 \<Longrightarrow> others block_race_env k = (\<lambda>s. s)"
    "others block_race_env 1 s = leaves (updateAccess still_env ''f1'' ACC_BLOCKED chief (Some ''abuse'')) s" for k s
    by (simp_all add: block_race_env_def block_in_between_def still_env_def fun_eq_iff)
  have u: "live_follower ''U1'' sample_accounts = Some rejected_follower" "fo_access rejected_follower = ACC_REJECTED"
    "fo_id rejected_follower = ''f1''"
    by (simp_all add: live_follower_def first_row_def sample_accounts_def rejected_follower_def)
  have opts: "first_row (assignable False (rd_departmentId sample_dto)) (ac_departments sample_accounts) \<noteq> None"
    "first_row (assignable False (rd_personnelRoleId sample_dto)) (ac_roles sample_accounts) \<noteq> None"
    "registration_of sample_accounts (fo_id rejected_follower) \<noteq> None"
    by (simp_all add: first_row_def sample_accounts_def sample_dto_def assignable_def option_at_def registration_of_def
        sample_registration_def rejected_follower_def)
  from resubmission_undoes_block [OF env(1) env(2) env(3) [of sample_accounts, folded u(3)] still_env_calm(1) _ u(1,2) opts] show ?thesis
    using sample_accounts_ok by (auto simp: accounts_inv_def u(3))
qed

subsection \<open>Settings\<close>

text \<open>What a settings write answers is what the next read answers, and it is what a read answered before
  with exactly the sent keys replaced: a key or a theme that was not sent stays as it was, the documented
  defaults included, whether or not the caller had a row.\<close>

theorem settings_merge:
  assumes "undisturbed env" "rows_ok (followers s) (registrations s)" "se_lineUserId ` set (settings_rows s) \<subseteq> fo_id ` set (followers s)"
    and "answer (patchSettings env sub patch) s = (Inr v, s', es)"
  shows "\<exists>before. fst (answer (getSettings env sub) s) = Inr before \<and> fst (answer (getSettings env sub) s') = Inr v \<and>
    tv_notifications v = merged_preferences (tv_notifications before) (sp_notifications patch) \<and>
    tv_theme v = or_else (sp_theme patch) (tv_theme before) \<and> es = []"
proof -
  obtain w where w: "patchSettings env sub patch \<lparr>base = s, mine = s, trace = []\<rparr> = (Inr v, w)" "s' = base w" "es = trace w"
    using assms(4) by (auto simp: answer_def split: prod.splits)
  have "settings_seen (base w) sub = v \<and> trace w = [] \<and>
    tv_notifications v = merged_preferences (tv_notifications (settings_seen s sub)) (sp_notifications patch) \<and>
    tv_theme v = or_else (sp_theme patch) (tv_theme (settings_seen s sub))"
    by (rule patch_run [OF assms(1-3) w(1)])
  then show ?thesis using w(2,3) by (simp add: getSettings_run [OF assms(1)])
qed

lemma settings_merge_witness:
  "case answer (patchSettings still_env ''U1'' mute_decisions) sample_accounts of
     (Inr v, s', es) \<Rightarrow> fst (answer (getSettings still_env ''U1'') s') = Inr v \<and> tv_theme v = DEFAULT_LINE_USER_THEME | _ \<Rightarrow> False"
proof -
  obtain r s' es where run: "answer (patchSettings still_env ''U1'' mute_decisions) sample_accounts = (r, s', es)"
    by (metis prod_cases3)
  have "case fst (answer (patchSettings still_env ''U1'' mute_decisions) sample_accounts) of Inl _ \<Rightarrow> False | Inr v \<Rightarrow> tv_theme v = DEFAULT_LINE_USER_THEME"
    by code_simp
  then obtain v where v: "r = Inr v" "tv_theme v = DEFAULT_LINE_USER_THEME" using run by (cases r) auto
  have "se_lineUserId ` set (settings_rows sample_accounts) \<subseteq> fo_id ` set (followers sample_accounts)" by (simp add: sample_accounts_def)
  then show ?thesis
    using settings_merge [OF still_env_calm(1) _ _ run [unfolded v(1)]] sample_accounts_ok run v by (auto simp: accounts_inv_def)
qed

end
