(* ===== verification/UserAgent.thy ===== *)
theory UserAgent
  imports JsText
begin

text \<open>
  \<open>src/src/auth/sessions/user-agent.ts\<close>: what a sign-in keeps of the \<open>User-Agent\<close> header and how
  the sessions screen reads it back. A header is Latin-1 text, one character per UTF-16 unit, so its
  lengths are list lengths. A regular expression is a function from a position of the text, with the
  knowledge whether a word character stands before it (\<open>\b\<close>), to its group; \<open>first_at\<close> takes the
  leftmost position that matches.
\<close>

subsection \<open>Matching\<close>

definition USER_AGENT_MAX_LENGTH :: nat where
  "USER_AGENT_MAX_LENGTH = 512"

definition code_of :: "char \<Rightarrow> nat" where
  "code_of c = of_char c"

definition is_digit :: "char \<Rightarrow> bool" where
  "is_digit c \<longleftrightarrow> 48 \<le> code_of c \<and> code_of c \<le> 57"

definition is_upper :: "char \<Rightarrow> bool" where
  "is_upper c \<longleftrightarrow> 65 \<le> code_of c \<and> code_of c \<le> 90"

definition is_lower :: "char \<Rightarrow> bool" where
  "is_lower c \<longleftrightarrow> 97 \<le> code_of c \<and> code_of c \<le> 122"

text \<open>\<open>\w\<close>.\<close>

definition word_char :: "char \<Rightarrow> bool" where
  "word_char c \<longleftrightarrow> is_digit c \<or> is_upper c \<or> is_lower c \<or> c = CHR ''_''"

fun first_at :: "(bool \<Rightarrow> string \<Rightarrow> 'a option) \<Rightarrow> bool \<Rightarrow> string \<Rightarrow> 'a option" where
  "first_at p before [] = p before []"
| "first_at p before (c # cs) =
     (case p before (c # cs) of Some a \<Rightarrow> Some a | None \<Rightarrow> first_at p (word_char c) cs)"

definition rematch :: "(bool \<Rightarrow> string \<Rightarrow> 'a option) \<Rightarrow> string \<Rightarrow> 'a option" where
  "rematch p ua = first_at p False ua"

text \<open>\<open>/\btoken/\<close> and \<open>/token/\<close>: the text after it. The tokens begin with a word character.\<close>

definition after_token :: "string \<Rightarrow> bool \<Rightarrow> string \<Rightarrow> string option" where
  "after_token tok before s = (if \<not> before \<and> js_prefix tok s then Some (drop (length tok) s) else None)"

definition after_text :: "string \<Rightarrow> bool \<Rightarrow> string \<Rightarrow> string option" where
  "after_text tok before s = (if js_prefix tok s then Some (drop (length tok) s) else None)"

text \<open>\<open>/\btoken\b/\<close>, for tokens that end in a word character.\<close>

definition word_here :: "string \<Rightarrow> bool \<Rightarrow> string \<Rightarrow> unit option" where
  "word_here tok before s = (case after_token tok before s of
       None \<Rightarrow> None
     | Some rest \<Rightarrow> if rest \<noteq> [] \<and> word_char (hd rest) then None else Some ())"

definition has_word :: "string \<Rightarrow> string \<Rightarrow> bool" where
  "has_word tok ua \<longleftrightarrow> rematch (word_here tok) ua \<noteq> None"

text \<open>\<open>(\d+)\<close> at the head of a text.\<close>

definition digits_of :: "string \<Rightarrow> string option" where
  "digits_of s = or_null (takeWhile is_digit s)"

definition then_digits :: "(bool \<Rightarrow> string \<Rightarrow> string option) \<Rightarrow> bool \<Rightarrow> string \<Rightarrow> string option" where
  "then_digits p before s = Option.bind (p before s) digits_of"

definition alternatives :: "string list \<Rightarrow> bool \<Rightarrow> string \<Rightarrow> string option" where
  "alternatives toks before s =
     (case filter (\<lambda>t. after_token t before s \<noteq> None) toks of [] \<Rightarrow> None | t # _ \<Rightarrow> after_token t before s)"

subsection \<open>The operating system\<close>

datatype device_type = DesktopDevice | TabletDevice | PhoneDevice | UnknownDevice
datatype ua_os = Windows | MacOS | IOS | IPadOS | Android | ChromeOS | Linux
datatype ua_browser = LineApp | Edge | Opera | SamsungInternet | Firefox | Chrome | Safari

record os_result =
  or_os :: ua_os
  or_deviceType :: device_type
  or_osVersion :: "string option"
  or_rawIosMajor :: "nat option"

record parsed_user_agent =
  pu_deviceType :: device_type
  pu_os :: "ua_os option"
  pu_osVersion :: "string option"
  pu_browser :: "ua_browser option"
  pu_browserVersion :: "string option"

definition UNKNOWN_AGENT :: parsed_user_agent where
  "UNKNOWN_AGENT = \<lparr>pu_deviceType = UnknownDevice, pu_os = None, pu_osVersion = None,
     pu_browser = None, pu_browserVersion = None\<rparr>"

text \<open>\<open>raw.replace(CONTROL_CHARS, '').slice(0, 512)\<close>.\<close>

definition control_char :: "char \<Rightarrow> bool" where
  "control_char c \<longleftrightarrow> code_of c \<le> 31 \<or> code_of c = 127"

definition sanitizeUa :: "string option \<Rightarrow> string" where
  "sanitizeUa raw = (case raw of None \<Rightarrow> []
     | Some s \<Rightarrow> take USER_AGENT_MAX_LENGTH (filter (\<lambda>c. \<not> control_char c) s))"

text \<open>\<open>Number(v)\<close> of a text of digits.\<close>

definition number_of_digits :: "string \<Rightarrow> nat" where
  "number_of_digits s = nat (read_digits 0 s)"

text \<open>\<open>/OS (\d+)_/\<close>.\<close>

definition ios_major :: "bool \<Rightarrow> string \<Rightarrow> string option" where
  "ios_major before s = (case after_text ''OS '' before s of
       None \<Rightarrow> None
     | Some rest \<Rightarrow> (case digits_of rest of
         None \<Rightarrow> None
       | Some ds \<Rightarrow> if js_prefix ''_'' (drop (length ds) rest) then Some ds else None))"

text \<open>\<open>/\bWindows NT (\d+\.\d+)/\<close>.\<close>

definition windows_nt :: "bool \<Rightarrow> string \<Rightarrow> string option" where
  "windows_nt before s = (case after_token ''Windows NT '' before s of
       None \<Rightarrow> None
     | Some rest \<Rightarrow> (case digits_of rest of
         None \<Rightarrow> None
       | Some ds \<Rightarrow> (case drop (length ds) rest of
           [] \<Rightarrow> None
         | c # after \<Rightarrow> if c \<noteq> CHR ''.'' then None
             else map_option (\<lambda>minor. ds @ ''.'' @ minor) (digits_of after))))"

definition WINDOWS_NT_VERSIONS :: "string \<Rightarrow> string option" where
  "WINDOWS_NT_VERSIONS v = map_of [(''6.1'', ''7''), (''6.2'', ''8''), (''6.3'', ''8.1'')] v"

definition ios_result :: "ua_os \<Rightarrow> device_type \<Rightarrow> string \<Rightarrow> os_result" where
  "ios_result os device ua = (let v = rematch ios_major ua in
     \<lparr>or_os = os, or_deviceType = device, or_osVersion = v, or_rawIosMajor = map_option number_of_digits v\<rparr>)"

definition plain_os :: "ua_os \<Rightarrow> device_type \<Rightarrow> string option \<Rightarrow> os_result" where
  "plain_os os device v = \<lparr>or_os = os, or_deviceType = device, or_osVersion = v, or_rawIosMajor = None\<rparr>"

definition parseOs :: "string \<Rightarrow> os_result option" where
  "parseOs ua =
     (if has_word ''iPad'' ua then Some (ios_result IPadOS TabletDevice ua)
      else if has_word ''iPhone'' ua \<or> has_word ''iPod'' ua then Some (ios_result IOS PhoneDevice ua)
      else if has_word ''Android'' ua then
        Some (plain_os Android (if has_word ''Mobile'' ua then PhoneDevice else TabletDevice)
          (if js_includes ua ''Android 10; K)'' then None
           else rematch (then_digits (after_text ''Android '')) ua))
      else if has_word ''CrOS'' ua then Some (plain_os ChromeOS DesktopDevice None)
      else (case rematch windows_nt ua of
          Some nt \<Rightarrow> Some (plain_os Windows DesktopDevice (WINDOWS_NT_VERSIONS nt))
        | None \<Rightarrow>
            if has_word ''Macintosh'' ua \<or> has_word ''Mac OS X'' ua then Some (plain_os MacOS DesktopDevice None)
            else if has_word ''Linux'' ua \<or> has_word ''X11'' ua then Some (plain_os Linux DesktopDevice None)
            else None))"

subsection \<open>The browser\<close>

definition BROWSER_TABLE :: "(ua_browser \<times> string list) list" where
  "BROWSER_TABLE =
     [(LineApp, [''Line/'']), (Edge, [''Edge/'', ''EdgA/'', ''EdgiOS/'', ''Edg/'']),
      (Opera, [''OPR/'', ''OPiOS/'']), (SamsungInternet, [''SamsungBrowser/'']),
      (Firefox, [''Firefox/'', ''FxiOS/'']), (Chrome, [''CriOS/'', ''Chrome/''])]"

fun first_browser :: "(ua_browser \<times> string list) list \<Rightarrow> string \<Rightarrow> (ua_browser \<times> string) option" where
  "first_browser [] ua = None"
| "first_browser ((browser, toks) # rest) ua =
     (case rematch (then_digits (alternatives toks)) ua of
        Some v \<Rightarrow> Some (browser, v) | None \<Rightarrow> first_browser rest ua)"

definition parseBrowser :: "string \<Rightarrow> (ua_browser \<times> string) option" where
  "parseBrowser ua = (case first_browser BROWSER_TABLE ua of
       Some b \<Rightarrow> Some b
     | None \<Rightarrow> (case rematch (then_digits (after_token ''Version/'')) ua of
         Some v \<Rightarrow> if rematch (after_token ''Safari/'') ua \<noteq> None then Some (Safari, v) else None
       | None \<Rightarrow> None))"

definition parseUserAgent :: "string option \<Rightarrow> parsed_user_agent" where
  "parseUserAgent raw = (case raw of
       None \<Rightarrow> UNKNOWN_AGENT
     | Some s \<Rightarrow> if s = [] then UNKNOWN_AGENT else
         (let ua = take USER_AGENT_MAX_LENGTH s;
              os = parseOs ua;
              browser = parseBrowser ua;
              osVersion = Option.bind os or_osVersion;
              osVersion' = (case browser of
                  Some (Safari, v) \<Rightarrow>
                    if Option.bind os or_rawIosMajor = Some 18 \<and> 26 \<le> number_of_digits v then Some v else osVersion
                | _ \<Rightarrow> osVersion)
          in if os = None \<and> browser = None then UNKNOWN_AGENT
             else \<lparr>pu_deviceType = (case os of None \<Rightarrow> UnknownDevice | Some r \<Rightarrow> or_deviceType r),
                   pu_os = map_option or_os os, pu_osVersion = osVersion',
                   pu_browser = map_option fst browser, pu_browserVersion = map_option snd browser\<rparr>))"

subsection \<open>What is kept and what is shown\<close>

lemma sanitizeUa_bounds: "length (sanitizeUa raw) \<le> 512" "\<forall>c \<in> set (sanitizeUa raw). \<not> control_char c"
  by (auto simp: sanitizeUa_def USER_AGENT_MAX_LENGTH_def dest: in_set_takeD split: option.splits)

lemma sanitizeUa_again: "sanitizeUa (Some (sanitizeUa raw)) = sanitizeUa raw"
proof -
  have "filter (\<lambda>c. \<not> control_char c) (sanitizeUa raw) = sanitizeUa raw"
    using sanitizeUa_bounds(2) by (simp add: filter_id_conv)
  then show ?thesis using sanitizeUa_bounds(1) [of raw]
    by (simp add: sanitizeUa_def [of "Some (sanitizeUa raw)"] USER_AGENT_MAX_LENGTH_def)
qed

text \<open>Reading back what a sign-in stored is reading the header without its control characters.\<close>

lemma parse_of_stored: "s \<noteq> [] \<Longrightarrow> parseUserAgent (Some s) = parseUserAgent (Some (take 512 s))"
  by (simp add: parseUserAgent_def USER_AGENT_MAX_LENGTH_def)

lemma parse_shows_device_of_os: "pu_os (parseUserAgent raw) = None \<Longrightarrow> pu_deviceType (parseUserAgent raw) = UnknownDevice"
  by (auto simp: parseUserAgent_def UNKNOWN_AGENT_def Let_def split: option.splits)

lemma parse_browser_has_version:
  "pu_browser (parseUserAgent raw) = None \<longleftrightarrow> pu_browserVersion (parseUserAgent raw) = None"
  by (auto simp: parseUserAgent_def UNKNOWN_AGENT_def Let_def split: option.splits)

end
