(* ===== verification/SignInDb.thy ===== *)
theory SignInDb
  imports OfficeDb UserAgent
begin

text \<open>
  The state behind signing in (\<open>src/src/auth\<close>, \<open>src/src/session\<close>): the staff table, the login
  history (\<open>system_user_login_logs\<close>) and what Redis holds, namely the session payloads
  (\<open>eb:sess:<sid>\<close>), the index of every account's sessions (\<open>eb:user-sessions:<id>\<close>) and the
  counters of the login throttle (\<open>eb:throttle:...\<close>). A Redis value carries the instant it expires
  at and is there up to that instant. Every statement runs at the clock of its number; a statement on
  Redis fails like one on the database.
\<close>

subsection \<open>Values\<close>

datatype auth_message =
    INVALID_CREDENTIALS | AUTHENTICATION_REQUIRED | ACCOUNT_UNAVAILABLE | MUST_CHANGE_PASSWORD
  | INVALID_CURRENT_PASSWORD | PASSWORD_UNCHANGED | SESSION_STORE_UNAVAILABLE
  | SESSION_NOT_FOUND | CANNOT_REVOKE_CURRENT_SESSION | RATE_LIMITER_UNAVAILABLE | INVALID_NEW_PASSWORD
  | PolicyMessage staff_message

text \<open>\<open>SessionData\<close>; a member that is absent or of another type is \<open>None\<close>.\<close>

record session_data =
  sd_systemUserId :: "string option"
  sd_createdAt :: "time option"
  sd_ip :: "string option"
  sd_userAgent :: "string option"

definition empty_session :: session_data where
  "empty_session = \<lparr>sd_systemUserId = None, sd_createdAt = None, sd_ip = None, sd_userAgent = None\<rparr>"

text \<open>What a session key holds: a JSON object, or a text that does not parse to one.\<close>

datatype stored_session = Unreadable | Payload session_data

datatype login_status = SUCCESS | FAILED_BAD_PASSWORD | FORCE_REVOKED

record login_row =
  lr_id :: string
  lr_systemUserId :: string
  lr_status :: login_status
  lr_ipAddress :: "string option"
  lr_userAgent :: "string option"
  lr_sessionRef :: "string option"
  lr_actorId :: "string option"
  lr_createdAt :: time

record sign_in =
  users :: "system_user list"
  login_rows :: "login_row list"
  sess_keys :: "string \<Rightarrow> (stored_session \<times> time) option"
  sess_index :: "string \<Rightarrow> (string list \<times> time) option"
  counters :: "string \<Rightarrow> (nat \<times> time) option"

text \<open>
  From outside: the clock, the ids of \<open>express-session\<close> and of new rows, \<open>argon2\<close>, the HMAC of a
  session id, the hash of an address and an email, lower-casing, the collation of row ids, the idle
  window, the error of an update that finds no row.
\<close>

record sign_in_env = "sign_in driver" +
  si_clock :: "nat \<Rightarrow> time"
  si_new_sid :: string
  si_row_id :: "nat \<Rightarrow> string"
  si_argon2_verify :: "string \<Rightarrow> string \<Rightarrow> js_error + bool"
  si_argon2_hash :: "string \<Rightarrow> string"
  si_dummy :: string
  si_handle :: "string \<Rightarrow> string"
  si_digest :: "string \<Rightarrow> string"
  si_lower :: "string \<Rightarrow> string"
  si_collation :: "string \<Rightarrow> string \<Rightarrow> int"
  si_idle_ttl :: time
  si_missing :: js_error

text \<open>What an observer of a call can see besides its answer: one password check costs one argon2
  run, and a rejected login is logged with the address it came from.\<close>

datatype sign_in_event = PasswordChecked | LoginFailureLogged string string | CookieCleared

type_synonym 'a sign_in_act = "(sign_in, sign_in_event, auth_message, 'a) act"

subsection \<open>Constants\<close>

definition SESSION_ABSOLUTE_MAX_AGE_MS :: time where
  "SESSION_ABSOLUTE_MAX_AGE_MS = 24 * 60 * 60 * 1000"

definition SESSION_INDEX_TTL_SECONDS :: time where
  "SESSION_INDEX_TTL_SECONDS = SESSION_ABSOLUTE_MAX_AGE_MS div 1000 + 60"

definition LOGIN_LOG_RETENTION_DAYS :: time where
  "LOGIN_LOG_RETENTION_DAYS = 90"

definition IP_MAX_LENGTH :: nat where
  "IP_MAX_LENGTH = 64"

subsection \<open>Redis\<close>

definition unexpired :: "time \<Rightarrow> ('a \<times> time) option \<Rightarrow> 'a option" where
  "unexpired t x = (case x of None \<Rightarrow> None | Some (a, e) \<Rightarrow> if t \<le> e then Some a else None)"

text \<open>\<open>PTTL\<close>: what is left, or \<open>-2\<close> when there is no key.\<close>

definition pttl :: "time \<Rightarrow> ('a \<times> time) option \<Rightarrow> time" where
  "pttl t x = (case x of None \<Rightarrow> -2 | Some (a, e) \<Rightarrow> if t \<le> e then e - t else -2)"

definition ask_redis :: "sign_in_env \<Rightarrow> nat \<Rightarrow> (time \<Rightarrow> sign_in \<Rightarrow> 'a) \<Rightarrow> 'a sign_in_act" where
  "ask_redis env k f = fetch env k (f (si_clock env k))"

definition tell_redis :: "sign_in_env \<Rightarrow> nat \<Rightarrow> (time \<Rightarrow> sign_in \<Rightarrow> sign_in \<times> 'a) \<Rightarrow> 'a sign_in_act" where
  "tell_redis env k g = atomically (put env k (\<lambda>s. Inr (g (si_clock env k) s)))"

definition with_keys ::
  "((string \<Rightarrow> (stored_session \<times> time) option) \<Rightarrow> string \<Rightarrow> (stored_session \<times> time) option) \<Rightarrow> sign_in \<Rightarrow> sign_in"
where
  "with_keys f s = s\<lparr>sess_keys := f (sess_keys s)\<rparr>"

definition with_index ::
  "((string \<Rightarrow> (string list \<times> time) option) \<Rightarrow> string \<Rightarrow> (string list \<times> time) option) \<Rightarrow> sign_in \<Rightarrow> sign_in"
where
  "with_index f s = s\<lparr>sess_index := f (sess_index s)\<rparr>"

lemma with_simps [simp]:
  "users (with_keys f s) = users s" "users (with_index g s) = users s"
  "login_rows (with_keys f s) = login_rows s" "login_rows (with_index g s) = login_rows s"
  "sess_keys (with_keys f s) = f (sess_keys s)" "sess_keys (with_index g s) = sess_keys s"
  "sess_index (with_index g s) = g (sess_index s)" "sess_index (with_keys f s) = sess_index s"
  "counters (with_keys f s) = counters s" "counters (with_index g s) = counters s"
  by (simp_all add: with_keys_def with_index_def)

text \<open>\<open>SMEMBERS\<close>, \<open>SADD\<close> with \<open>EXPIRE\<close>, \<open>SREM\<close>: a set that loses its last member is gone.\<close>

definition smembers :: "time \<Rightarrow> string \<Rightarrow> sign_in \<Rightarrow> string list" where
  "smembers t u s = (case unexpired t (sess_index s u) of None \<Rightarrow> [] | Some ids \<Rightarrow> ids)"

definition srem :: "time \<Rightarrow> string \<Rightarrow> string list \<Rightarrow> sign_in \<Rightarrow> sign_in" where
  "srem t u ids = with_index (\<lambda>ix. ix(u := (case ix u of
       None \<Rightarrow> None
     | Some (old, e) \<Rightarrow> (let left = filter (\<lambda>i. i \<notin> set ids) old in
         if t \<le> e \<and> left \<noteq> [] then Some (left, e) else None))))"

definition sadd :: "time \<Rightarrow> string \<Rightarrow> string \<Rightarrow> sign_in \<Rightarrow> sign_in" where
  "sadd t u sid s = (let old = smembers t u s in
     with_index (\<lambda>ix. ix(u := Some (if sid \<in> set old then old else old @ [sid],
       t + SESSION_INDEX_TTL_SECONDS * 1000))) s)"

text \<open>\<open>DEL\<close> answers how many keys it removed.\<close>

definition del_session :: "time \<Rightarrow> string \<Rightarrow> sign_in \<Rightarrow> sign_in \<times> bool" where
  "del_session t sid s =
     (with_keys (\<lambda>ks. ks(sid := None)) s, unexpired t (sess_keys s sid) \<noteq> None)"

subsection \<open>\<open>session.util.ts\<close> and \<open>session.middleware.ts\<close>\<close>

text \<open>\<open>toStoreError\<close>: a failure of the store is a 503; quiet steps swallow it.\<close>

definition store_step :: "'a sign_in_act \<Rightarrow> 'a sign_in_act" where
  "store_step m = catching m (\<lambda>_. stop_with (Refused (ServiceUnavailable SESSION_STORE_UNAVAILABLE)))"

definition quietly :: "unit sign_in_act \<Rightarrow> unit sign_in_act" where
  "quietly m = catching m (\<lambda>_. done_with ())"

text \<open>
  The middleware reads the payload of the cookie's session id: an absent key is a new, empty session
  that is not saved; a value that cannot be read is a failure of the store.
\<close>

definition open_session :: "sign_in_env \<Rightarrow> nat \<Rightarrow> string \<Rightarrow> session_data sign_in_act" where
  "open_session env k sid =
     andThen (store_step (ask_redis env k (\<lambda>t s. unexpired t (sess_keys s sid)))) (\<lambda>found.
     case found of
       None \<Rightarrow> done_with empty_session
     | Some Unreadable \<Rightarrow> stop_with (Refused (ServiceUnavailable SESSION_STORE_UNAVAILABLE))
     | Some (Payload d) \<Rightarrow> done_with d)"

text \<open>\<open>rolling: true\<close>: at its end a request re-arms the key, if it is still there.\<close>

definition touchSession :: "sign_in_env \<Rightarrow> nat \<Rightarrow> string \<Rightarrow> unit sign_in_act" where
  "touchSession env k sid = tell_redis env k (\<lambda>t s. (with_keys (\<lambda>ks. ks(sid := (case ks sid of
       Some (v, e) \<Rightarrow> if t \<le> e then Some (v, t + si_idle_ttl env) else None | None \<Rightarrow> None))) s, ()))"

definition destroySession :: "sign_in_env \<Rightarrow> nat \<Rightarrow> string \<Rightarrow> unit sign_in_act" where
  "destroySession env k sid = store_step (tell_redis env k (\<lambda>t s. (fst (del_session t sid s), ())))"

definition regenerateSession :: "sign_in_env \<Rightarrow> nat \<Rightarrow> string \<Rightarrow> string sign_in_act" where
  "regenerateSession env k sid = andThen (destroySession env k sid) (\<lambda>_. done_with (si_new_sid env))"

definition saveSession :: "sign_in_env \<Rightarrow> nat \<Rightarrow> string \<Rightarrow> session_data \<Rightarrow> unit sign_in_act" where
  "saveSession env k sid d = store_step (tell_redis env k (\<lambda>t s.
     (with_keys (\<lambda>ks. ks(sid := Some (Payload d, t + si_idle_ttl env))) s, ())))"

definition destroySessionQuietly :: "sign_in_env \<Rightarrow> nat \<Rightarrow> string \<Rightarrow> unit sign_in_act" where
  "destroySessionQuietly env k sid = quietly (destroySession env k sid)"

end
