(* ===== verification/SessionTracker.thy ===== *)
theory SessionTracker
  imports SignInDb
begin

text \<open>
  \<open>SessionTrackerService\<close> (\<open>src/src/auth/sessions/session-tracker.service.ts\<close>), the index of every
  account's live sessions and the revocations built on it, and \<open>LoginLogService\<close>
  (\<open>login-log.service.ts\<close>), the only writer and reader of the login history.
\<close>

subsection \<open>Handles\<close>

definition handle_char :: "char \<Rightarrow> bool" where
  "handle_char c \<longleftrightarrow> is_upper c \<or> is_lower c \<or> is_digit c \<or> c = CHR ''_'' \<or> c = CHR ''-''"

text \<open>\<open>/^[A-Za-z0-9_-]{22}$/\<close>.\<close>

definition SESSION_HANDLE_PATTERN :: "string \<Rightarrow> bool" where
  "SESSION_HANDLE_PATTERN h \<longleftrightarrow> length h = 22 \<and> list_all handle_char h"

subsection \<open>Classification\<close>

record tracked_session =
  ts_sid :: string
  ts_handle :: string
  ts_loginAt :: time
  ts_lastActiveAt :: time
  ts_ip :: "string option"
  ts_userAgent :: "string option"

datatype classified = Live tracked_session | PastCap | Foreign | Missing

definition classify :: "sign_in_env \<Rightarrow> string \<Rightarrow> string \<Rightarrow> stored_session option \<Rightarrow> time \<Rightarrow> time \<Rightarrow> classified" where
  "classify env userId sid raw ttl at = (case raw of
       None \<Rightarrow> Missing
     | Some Unreadable \<Rightarrow> Missing
     | Some (Payload d) \<Rightarrow>
         if sd_systemUserId d \<noteq> Some userId then Foreign
         else (case sd_createdAt d of
             None \<Rightarrow> PastCap
           | Some loginAt \<Rightarrow>
               if at - loginAt > SESSION_ABSOLUTE_MAX_AGE_MS then PastCap
               else (let idleMs = (if ttl \<ge> 0 then si_idle_ttl env - ttl else at - loginAt)
                     in Live \<lparr>ts_sid = sid, ts_handle = si_handle env sid, ts_loginAt = loginAt,
                          ts_lastActiveAt = min (max (at - idleMs) loginAt) at,
                          ts_ip = sd_ip d, ts_userAgent = sd_userAgent d\<rparr>)))"

definition is_live :: "classified \<Rightarrow> bool" where
  "is_live c = (case c of Live _ \<Rightarrow> True | _ \<Rightarrow> False)"

definition live_session :: "classified \<Rightarrow> tracked_session option" where
  "live_session c = (case c of Live x \<Rightarrow> Some x | _ \<Rightarrow> None)"

text \<open>The user's own key, live or merely past the cap.\<close>

definition own_key :: "classified \<Rightarrow> bool" where
  "own_key c = (case c of Live _ \<Rightarrow> True | PastCap \<Rightarrow> True | _ \<Rightarrow> False)"

text \<open>\<open>readMembers\<close>: \<open>SMEMBERS\<close>, then one pipeline of \<open>GET\<close> and \<open>PTTL\<close>.\<close>

definition readMembers :: "sign_in_env \<Rightarrow> nat \<Rightarrow> string \<Rightarrow> (string \<times> classified) list sign_in_act" where
  "readMembers env k userId = store_step
     (andThen (ask_redis env k (\<lambda>t. smembers t userId)) (\<lambda>sids.
      if sids = [] then done_with []
      else andThen (ask_redis env (k + 1) (\<lambda>t s.
          map (\<lambda>sid. (sid, unexpired t (sess_keys s sid), pttl t (sess_keys s sid))) sids)) (\<lambda>replies.
        done_with (map (\<lambda>(sid, raw, ttl). (sid, classify env userId sid raw ttl (si_clock env (k + 2)))) replies))))"

subsection \<open>Tracking\<close>

definition track :: "sign_in_env \<Rightarrow> nat \<Rightarrow> string \<Rightarrow> string \<Rightarrow> (string \<times> string) option \<Rightarrow> unit sign_in_act" where
  "track env k userId sid prev = quietly (tell_redis env k (\<lambda>t s.
     (sadd t userId sid (case prev of None \<Rightarrow> s | Some (u, old) \<Rightarrow> srem t u [old] s), ())))"

definition untrack :: "sign_in_env \<Rightarrow> nat \<Rightarrow> string \<Rightarrow> string \<Rightarrow> unit sign_in_act" where
  "untrack env k userId sid = quietly (tell_redis env k (\<lambda>t s. (srem t userId [sid] s, ())))"

definition list_sessions :: "sign_in_env \<Rightarrow> nat \<Rightarrow> string \<Rightarrow> tracked_session list sign_in_act" where
  "list_sessions env k userId =
     andThen (readMembers env k userId) (\<lambda>members.
     let stale = map fst (filter (\<lambda>m. \<not> is_live (snd m)) members) in
     andThen (if stale \<noteq> [] then quietly (tell_redis env (k + 3) (\<lambda>t s. (srem t userId stale s, ())))
              else done_with ()) (\<lambda>_.
     done_with (List.map_filter (\<lambda>m. live_session (snd m)) members)))"

definition resolveHandle :: "sign_in_env \<Rightarrow> nat \<Rightarrow> string \<Rightarrow> string \<Rightarrow> tracked_session option sign_in_act" where
  "resolveHandle env k userId h =
     andThen (list_sessions env k userId) (\<lambda>sessions. done_with (List.find (\<lambda>x. ts_handle x = h) sessions))"

subsection \<open>Revocation\<close>

definition revokeOne :: "sign_in_env \<Rightarrow> nat \<Rightarrow> string \<Rightarrow> string \<Rightarrow> bool sign_in_act" where
  "revokeOne env k userId sid = store_step (tell_redis env k (\<lambda>t s.
     let (s', gone) = del_session t sid s in (srem t userId [sid] s', gone)))"

text \<open>One \<open>DEL\<close> per own member, its reply remembered, in the order of the list.\<close>

fun del_each :: "time \<Rightarrow> string list \<Rightarrow> sign_in \<Rightarrow> sign_in \<times> bool list" where
  "del_each t [] s = (s, [])"
| "del_each t (sid # sids) s = (let (s', gone) = del_session t sid s; (s'', rest) = del_each t sids s'
     in (s'', gone # rest))"

definition revokeAll :: "sign_in_env \<Rightarrow> nat \<Rightarrow> string \<Rightarrow> string option \<Rightarrow> nat sign_in_act" where
  "revokeAll env k userId spared =
     andThen (readMembers env k userId) (\<lambda>found.
     let members = filter (\<lambda>m. Some (fst m) \<noteq> spared) found in
     if members = [] then done_with 0
     else (let toDelete = filter (\<lambda>m. own_key (snd m)) members in
       andThen (store_step (tell_redis env (k + 3) (\<lambda>t s.
         let (s', replies) = del_each t (map fst toDelete) s
         in (srem t userId (map fst members) s', replies)))) (\<lambda>replies.
       done_with (length (filter (\<lambda>(m, gone). is_live (snd m) \<and> gone) (zip toDelete replies))))))"

subsection \<open>The login history\<close>

definition DAY_MS :: time where
  "DAY_MS = 24 * 60 * 60 * 1000"

definition retentionCutoff :: "time \<Rightarrow> time" where
  "retentionCutoff at = at - LOGIN_LOG_RETENTION_DAYS * DAY_MS"

definition insert_login :: "sign_in_env \<Rightarrow> login_row \<Rightarrow> sign_in \<Rightarrow> js_error + (sign_in \<times> unit)" where
  "insert_login env row s =
     (if lr_systemUserId row \<notin> su_id ` set (users s) then Inl (si_missing env)
      else Inr (s\<lparr>login_rows := login_rows s @ [row]\<rparr>, ()))"

definition clipIp :: "string \<Rightarrow> string" where
  "clipIp ip = take IP_MAX_LENGTH ip"

definition insertQuietly :: "sign_in_env \<Rightarrow> nat \<Rightarrow> login_row \<Rightarrow> unit sign_in_act" where
  "insertQuietly env k row = quietly (atomically (put env k (insert_login env row)))"

definition recordSuccess :: "sign_in_env \<Rightarrow> nat \<Rightarrow> string \<Rightarrow> string \<Rightarrow> string \<Rightarrow> string \<Rightarrow> unit sign_in_act" where
  "recordSuccess env k userId ip userAgent sessionRef = insertQuietly env k
     \<lparr>lr_id = si_row_id env k, lr_systemUserId = userId, lr_status = SUCCESS, lr_ipAddress = Some (clipIp ip),
      lr_userAgent = Some (sanitizeUa (Some userAgent)), lr_sessionRef = Some sessionRef, lr_actorId = None,
      lr_createdAt = si_clock env k\<rparr>"

definition recordFailure :: "sign_in_env \<Rightarrow> nat \<Rightarrow> string \<Rightarrow> string \<Rightarrow> string \<Rightarrow> unit sign_in_act" where
  "recordFailure env k userId ip userAgent = insertQuietly env k
     \<lparr>lr_id = si_row_id env k, lr_systemUserId = userId, lr_status = FAILED_BAD_PASSWORD,
      lr_ipAddress = Some (clipIp ip), lr_userAgent = Some (sanitizeUa (Some userAgent)), lr_sessionRef = None,
      lr_actorId = None, lr_createdAt = si_clock env k\<rparr>"

definition recordForceRevoked :: "sign_in_env \<Rightarrow> nat \<Rightarrow> string \<Rightarrow> string \<Rightarrow> unit sign_in_act" where
  "recordForceRevoked env k targetUserId actorId = atomically (put env k (insert_login env
     \<lparr>lr_id = si_row_id env k, lr_systemUserId = targetUserId, lr_status = FORCE_REVOKED, lr_ipAddress = None,
      lr_userAgent = None, lr_sessionRef = None, lr_actorId = Some actorId, lr_createdAt = si_clock env k\<rparr>))"

record login_history_item =
  li_id :: string
  li_status :: login_status
  li_createdAt :: time
  li_device :: "parsed_user_agent option"
  li_ipAddress :: "string option"
  li_isCurrentSession :: bool

record login_history_page =
  lp_data :: "login_history_item list"
  lp_total :: nat
  lp_totalPages :: nat

text \<open>\<open>orderBy: [{ createdAt: 'desc' }, { id: 'desc' }]\<close>.\<close>

definition newest_login_first :: "sign_in_env \<Rightarrow> login_row \<Rightarrow> login_row \<Rightarrow> int" where
  "newest_login_first env a b = (if lr_createdAt a \<noteq> lr_createdAt b then lr_createdAt b - lr_createdAt a
     else si_collation env (lr_id b) (lr_id a))"

definition toHistoryItem :: "string \<Rightarrow> login_row \<Rightarrow> login_history_item" where
  "toHistoryItem currentHandle row =
     \<lparr>li_id = lr_id row, li_status = lr_status row, li_createdAt = lr_createdAt row,
      li_device = (if lr_status row = FORCE_REVOKED then None
        else Some (parseUserAgent (Some (case lr_userAgent row of None \<Rightarrow> [] | Some a \<Rightarrow> a)))),
      li_ipAddress = lr_ipAddress row,
      li_isCurrentSession = (lr_status row = SUCCESS \<and> lr_sessionRef row = Some currentHandle)\<rparr>"

definition own_recent :: "string \<Rightarrow> time \<Rightarrow> login_row \<Rightarrow> bool" where
  "own_recent userId cutoff row \<longleftrightarrow> lr_systemUserId row = userId \<and> cutoff \<le> lr_createdAt row"

definition listOwn ::
  "sign_in_env \<Rightarrow> nat \<Rightarrow> string \<Rightarrow> nat \<Rightarrow> nat \<Rightarrow> string \<Rightarrow> login_history_page sign_in_act"
where
  "listOwn env k userId page limit currentHandle = fetch env k (\<lambda>s.
     let cutoff = retentionCutoff (si_clock env k);
         rows = js_sort (newest_login_first env) (filter (own_recent userId cutoff) (login_rows s));
         total = length (filter (own_recent userId cutoff) (login_rows s))
     in \<lparr>lp_data = map (toHistoryItem currentHandle) (take limit (drop ((page - 1) * limit) rows)),
         lp_total = total,
         lp_totalPages = (if total = 0 then 0 else (total + limit - 1) div limit)\<rparr>)"

definition latest_login :: "sign_in_env \<Rightarrow> nat \<Rightarrow> string \<Rightarrow> login_status \<Rightarrow> login_row option sign_in_act" where
  "latest_login env k userId status = fetch env k (\<lambda>s.
     case js_sort (newest_login_first env)
        (filter (\<lambda>r. own_recent userId (retentionCutoff (si_clock env k)) r \<and> lr_status r = status) (login_rows s))
     of [] \<Rightarrow> None | r # _ \<Rightarrow> Some r)"

definition purgeExpired :: "sign_in_env \<Rightarrow> nat \<Rightarrow> nat sign_in_act" where
  "purgeExpired env k = atomically (put env k (\<lambda>s.
     let old = (\<lambda>r. lr_createdAt r < retentionCutoff (si_clock env k))
     in Inr (s\<lparr>login_rows := filter (\<lambda>r. \<not> old r) (login_rows s)\<rparr>, length (filter old (login_rows s)))))"

text \<open>\<open>LoginLogPurgeCron.purge\<close>: nothing escapes the tick.\<close>

definition purge_tick :: "sign_in_env \<Rightarrow> unit sign_in_act" where
  "purge_tick env = quietly (andThen (purgeExpired env 0) (\<lambda>_. done_with ()))"

end
