(* ===== verification/SignIn.thy ===== *)
theory SignIn
  imports SessionTracker
begin

text \<open>
  Signing in and out: \<open>PasswordService\<close>, \<open>AuthService\<close>, the resolver of a session and the two
  guards (\<open>session-user.resolver.ts\<close>, \<open>guards/session.guard.ts\<close>, \<open>guards/roles.guard.ts\<close>), the
  handlers of \<open>auth-system.controller.ts\<close> that change state, and the sessions screens
  (\<open>sessions.service.ts\<close>, \<open>staff-sessions.service.ts\<close>).
\<close>

subsection \<open>Passwords\<close>

text \<open>\<open>generateTemporaryPassword\<close>, over the draws of \<open>randomInt\<close>.\<close>

definition TEMP_PASSWORD_ALPHABET :: string where
  "TEMP_PASSWORD_ALPHABET = ''ABCDEFGHJKMNPQRSTUVWXYZabcdefghjkmnpqrstuvwxyz23456789''"

definition TEMP_PASSWORD_LENGTH :: nat where
  "TEMP_PASSWORD_LENGTH = 16"

definition generateTemporaryPassword :: "(nat \<Rightarrow> nat) \<Rightarrow> string" where
  "generateTemporaryPassword draw = map (\<lambda>i. TEMP_PASSWORD_ALPHABET ! draw i) [0..<TEMP_PASSWORD_LENGTH]"

text \<open>
  The rules of \<open>ChangePasswordDto.newPassword\<close>. A password is a list of characters here, its length in
  UTF-16 units for the characters the rules name; white space is the ASCII white space.
\<close>

definition ascii_space :: "char \<Rightarrow> bool" where
  "ascii_space c \<longleftrightarrow> code_of c = 32 \<or> (9 \<le> code_of c \<and> code_of c \<le> 13) \<or> code_of c = 160"

definition special_char :: "char \<Rightarrow> bool" where
  "special_char c \<longleftrightarrow> \<not> is_upper c \<and> \<not> is_lower c \<and> \<not> is_digit c \<and> \<not> ascii_space c"

definition new_password_ok :: "string \<Rightarrow> bool" where
  "new_password_ok p \<longleftrightarrow> 8 \<le> length p \<and> length p \<le> 128 \<and> list_ex is_upper p \<and> list_ex is_lower p
     \<and> list_ex is_digit p \<and> list_ex special_char p"

text \<open>\<open>verify\<close> answers \<open>false\<close> when argon2 throws; every call costs one run of it.\<close>

definition verify_password :: "sign_in_env \<Rightarrow> string \<Rightarrow> string \<Rightarrow> bool" where
  "verify_password env digest plain = (case si_argon2_verify env digest plain of Inl _ \<Rightarrow> False | Inr ok \<Rightarrow> ok)"

definition check_password :: "sign_in_env \<Rightarrow> string \<Rightarrow> string \<Rightarrow> bool sign_in_act" where
  "check_password env digest plain =
     andThen (tell [PasswordChecked]) (\<lambda>_. done_with (verify_password env digest plain))"

subsection \<open>\<open>AuthService\<close>\<close>

definition normalise_email :: "sign_in_env \<Rightarrow> string option \<Rightarrow> string" where
  "normalise_email env value = (case value of None \<Rightarrow> [] | Some v \<Rightarrow> si_lower env (js_trim v))"

definition loginIpKey :: "string \<Rightarrow> string" where
  "loginIpKey ip = ''eb:throttle:login:ip:'' @ ip"

definition loginIpEmailKey :: "sign_in_env \<Rightarrow> string \<Rightarrow> string \<Rightarrow> string" where
  "loginIpEmailKey env ip email =
     ''eb:throttle:login:ip-email:'' @ take 32 (si_digest env (ip @ ''|'' @ email))"

definition logFailure :: "string \<Rightarrow> string \<Rightarrow> unit sign_in_act" where
  "logFailure email ip = tell [LoginFailureLogged email ip]"

definition usable :: "system_user \<Rightarrow> bool" where
  "usable u \<longleftrightarrow> su_deletedAt u = None \<and> su_isActive u"

definition user_at :: "string \<Rightarrow> sign_in \<Rightarrow> system_user option" where
  "user_at i s = first_row (\<lambda>u. su_id u = i) (users s)"

definition user_with_email :: "string \<Rightarrow> sign_in \<Rightarrow> system_user option" where
  "user_with_email email s = first_row (\<lambda>u. su_email u = email) (users s)"

definition reject_login :: "sign_in_env \<Rightarrow> nat \<Rightarrow> system_user option \<Rightarrow> string \<Rightarrow> string \<Rightarrow> string \<Rightarrow> 'a sign_in_act" where
  "reject_login env k user email ip userAgent =
     andThen (case user of None \<Rightarrow> done_with () | Some u \<Rightarrow> recordFailure env k (su_id u) ip userAgent) (\<lambda>_.
     andThen (logFailure email ip) (\<lambda>_.
     stop_with (Refused (Unauthorized INVALID_CREDENTIALS))))"

definition validateCredentials ::
  "sign_in_env \<Rightarrow> nat \<Rightarrow> string \<Rightarrow> string \<Rightarrow> string \<Rightarrow> string \<Rightarrow> system_user sign_in_act"
where
  "validateCredentials env k email password ip userAgent =
     (let normalised = normalise_email env (Some email) in
      andThen (fetch env k (user_with_email normalised)) (\<lambda>found.
      case found of
        None \<Rightarrow> andThen (check_password env (si_dummy env) password) (\<lambda>_.
          reject_login env (k + 1) None normalised ip userAgent)
      | Some user \<Rightarrow>
          if \<not> usable user then
            andThen (check_password env (si_dummy env) password) (\<lambda>_.
            reject_login env (k + 1) (Some user) normalised ip userAgent)
          else andThen (check_password env (su_passwordHash user) password) (\<lambda>ok.
            if \<not> ok then reject_login env (k + 1) (Some user) normalised ip userAgent
            else done_with user)))"

definition set_user :: "sign_in_env \<Rightarrow> string \<Rightarrow> (system_user \<Rightarrow> system_user) \<Rightarrow> sign_in \<Rightarrow> js_error + (sign_in \<times> unit)" where
  "set_user env i f s = (case user_at i s of
       None \<Rightarrow> Inl (si_missing env)
     | Some _ \<Rightarrow> Inr (s\<lparr>users := set_where (\<lambda>u. su_id u = i) f (users s)\<rparr>, ()))"

definition touchLastLogin :: "sign_in_env \<Rightarrow> nat \<Rightarrow> string \<Rightarrow> unit sign_in_act" where
  "touchLastLogin env k i = atomically (put env k (set_user env i
     (\<lambda>u. u\<lparr>su_lastLoginAt := Some (si_clock env k), su_updatedAt := si_clock env k\<rparr>)))"

definition clearLoginThrottle :: "sign_in_env \<Rightarrow> nat \<Rightarrow> string \<Rightarrow> string \<Rightarrow> unit sign_in_act" where
  "clearLoginThrottle env k ip email = quietly (tell_redis env k (\<lambda>_ s.
     (s\<lparr>counters := (counters s)(loginIpEmailKey env ip (normalise_email env (Some email)) := None)\<rparr>, ())))"

definition changeOwnPassword :: "sign_in_env \<Rightarrow> nat \<Rightarrow> string \<Rightarrow> string \<Rightarrow> string \<Rightarrow> unit sign_in_act" where
  "changeOwnPassword env k i currentPassword newPassword =
     andThen (fetch env k (user_at i)) (\<lambda>found.
     andThen (need found (Unauthorized INVALID_CREDENTIALS)) (\<lambda>user.
     andThen (check_password env (su_passwordHash user) currentPassword) (\<lambda>ok.
     andThen (check ok (BadRequest INVALID_CURRENT_PASSWORD)) (\<lambda>_.
     andThen (check (currentPassword \<noteq> newPassword) (BadRequest PASSWORD_UNCHANGED)) (\<lambda>_.
     atomically (put env (k + 1) (set_user env (su_id user)
       (\<lambda>u. u\<lparr>su_passwordHash := si_argon2_hash env newPassword, su_mustChangePassword := False,
            su_updatedAt := si_clock env (k + 1)\<rparr>))))))))"

subsection \<open>From a session to a user\<close>

datatype session_rejection = NO_SESSION | SESSION_EXPIRED | USER_NOT_FOUND | USER_REVOKED

definition resolveSystemUserById :: "sign_in_env \<Rightarrow> nat \<Rightarrow> string \<Rightarrow> (session_rejection + system_user) sign_in_act" where
  "resolveSystemUserById env k i =
     andThen (fetch env k (user_at i)) (\<lambda>found. done_with (case found of
       None \<Rightarrow> Inl USER_NOT_FOUND
     | Some user \<Rightarrow> if su_deletedAt user \<noteq> None \<or> \<not> su_isActive user then Inl USER_REVOKED else Inr user))"

definition resolveSessionUser :: "sign_in_env \<Rightarrow> nat \<Rightarrow> session_data \<Rightarrow> (session_rejection + system_user) sign_in_act" where
  "resolveSessionUser env k d = (case Option.bind (sd_systemUserId d) or_null of
       None \<Rightarrow> done_with (Inl NO_SESSION)
     | Some i \<Rightarrow>
         if si_clock env k - (case sd_createdAt d of None \<Rightarrow> 0 | Some c \<Rightarrow> c) > SESSION_ABSOLUTE_MAX_AGE_MS
         then done_with (Inl SESSION_EXPIRED)
         else resolveSystemUserById env k i)"

text \<open>\<open>SessionGuard.canActivate\<close>; \<open>exempt\<close> is the handler's \<open>@AllowPasswordChangeGate()\<close>.\<close>

definition session_guard :: "sign_in_env \<Rightarrow> nat \<Rightarrow> string \<Rightarrow> session_data \<Rightarrow> bool \<Rightarrow> system_user sign_in_act" where
  "session_guard env k sid d exempt =
     andThen (resolveSessionUser env k d) (\<lambda>resolution. case resolution of
       Inl reason \<Rightarrow>
         andThen (if reason \<noteq> NO_SESSION then destroySessionQuietly env (k + 1) sid else done_with ()) (\<lambda>_.
         stop_with (Refused (Unauthorized
           (if reason = USER_NOT_FOUND \<or> reason = USER_REVOKED then ACCOUNT_UNAVAILABLE
            else AUTHENTICATION_REQUIRED))))
     | Inr user \<Rightarrow> andThen (check (\<not> (su_mustChangePassword user \<and> \<not> exempt)) (Forbidden MUST_CHANGE_PASSWORD)) (\<lambda>_.
         done_with user))"

definition roles_guard :: "system_role list \<Rightarrow> system_user \<Rightarrow> unit sign_in_act" where
  "roles_guard required user =
     check (required = [] \<or> su_role user \<in> set required) (Forbidden (PolicyMessage INSUFFICIENT_ROLE))"

subsection \<open>The handlers\<close>

record login_request =
  rq_sid :: string
  rq_session :: session_data
  rq_ip :: string
  rq_userAgent :: "string option"

record login_response =
  lo_id :: string
  lo_email :: string
  lo_firstName :: string
  lo_lastName :: string
  lo_role :: system_role

definition toLoginResponse :: "system_user \<Rightarrow> login_response" where
  "toLoginResponse u = \<lparr>lo_id = su_id u, lo_email = su_email u, lo_firstName = su_firstName u,
     lo_lastName = su_lastName u, lo_role = su_role u\<rparr>"

definition previous_session :: "login_request \<Rightarrow> (string \<times> string) option" where
  "previous_session req = map_option (\<lambda>u. (u, rq_sid req)) (Option.bind (sd_systemUserId (rq_session req)) or_null)"

text \<open>The second half of \<open>login\<close>: the id is rotated before the payload is assigned.\<close>

definition establish_session :: "sign_in_env \<Rightarrow> nat \<Rightarrow> login_request \<Rightarrow> string \<Rightarrow> system_user \<Rightarrow> login_response sign_in_act" where
  "establish_session env k req email user =
     (let ip = take IP_MAX_LENGTH (rq_ip req); userAgent = sanitizeUa (rq_userAgent req) in
      andThen (regenerateSession env k (rq_sid req)) (\<lambda>sid.
      andThen (saveSession env (k + 1) sid \<lparr>sd_systemUserId = Some (su_id user),
        sd_createdAt = Some (si_clock env k), sd_ip = Some ip, sd_userAgent = Some userAgent\<rparr>) (\<lambda>_.
      andThen (track env (k + 2) (su_id user) sid (previous_session req)) (\<lambda>_.
      andThen (touchLastLogin env (k + 3) (su_id user)) (\<lambda>_.
      andThen (recordSuccess env (k + 4) (su_id user) ip userAgent (si_handle env sid)) (\<lambda>_.
      andThen (clearLoginThrottle env (k + 5) (rq_ip req) email) (\<lambda>_.
      done_with (toLoginResponse user))))))))"

definition login :: "sign_in_env \<Rightarrow> nat \<Rightarrow> login_request \<Rightarrow> string \<Rightarrow> string \<Rightarrow> login_response sign_in_act" where
  "login env k req email password =
     andThen (validateCredentials env k email password (take IP_MAX_LENGTH (rq_ip req)) (sanitizeUa (rq_userAgent req)))
       (\<lambda>user. establish_session env (k + 2) req email user)"

definition logout :: "sign_in_env \<Rightarrow> nat \<Rightarrow> string \<Rightarrow> system_user \<Rightarrow> unit sign_in_act" where
  "logout env k sid user =
     andThen (destroySession env k sid) (\<lambda>_.
     andThen (untrack env (k + 1) (su_id user) sid) (\<lambda>_.
     tell [CookieCleared]))"

text \<open>\<open>POST /auth/system/password\<close>: the DTO is validated before the handler runs.\<close>

definition changePassword :: "sign_in_env \<Rightarrow> nat \<Rightarrow> system_user \<Rightarrow> string \<Rightarrow> string \<Rightarrow> unit sign_in_act" where
  "changePassword env k user currentPassword newPassword =
     andThen (check (new_password_ok newPassword) (BadRequest INVALID_NEW_PASSWORD)) (\<lambda>_.
     changeOwnPassword env k (su_id user) currentPassword newPassword)"

subsection \<open>One's own sessions\<close>

record session_item =
  sn_handle :: string
  sn_isCurrent :: bool
  sn_device :: parsed_user_agent
  sn_ipAddress :: "string option"
  sn_loginAt :: time
  sn_lastActiveAt :: time

record session_list =
  sl_current :: session_item
  sl_others :: "session_item list"

definition toSessionItem :: "tracked_session \<Rightarrow> session_item" where
  "toSessionItem x = \<lparr>sn_handle = ts_handle x, sn_isCurrent = False, sn_device = parseUserAgent (ts_userAgent x),
     sn_ipAddress = ts_ip x, sn_loginAt = ts_loginAt x, sn_lastActiveAt = ts_lastActiveAt x\<rparr>"

definition recently_active_first :: "tracked_session \<Rightarrow> tracked_session \<Rightarrow> int" where
  "recently_active_first a b = (if ts_lastActiveAt b - ts_lastActiveAt a \<noteq> 0 then ts_lastActiveAt b - ts_lastActiveAt a
     else ts_loginAt b - ts_loginAt a)"

definition own_sessions :: "sign_in_env \<Rightarrow> nat \<Rightarrow> string \<Rightarrow> string \<Rightarrow> session_data \<Rightarrow> session_list sign_in_act" where
  "own_sessions env k userId sid d = (let at = si_clock env k in
     andThen (list_sessions env k userId) (\<lambda>tracked.
     done_with \<lparr>sl_current = \<lparr>sn_handle = si_handle env sid, sn_isCurrent = True,
          sn_device = parseUserAgent (sd_userAgent d), sn_ipAddress = sd_ip d,
          sn_loginAt = (case sd_createdAt d of None \<Rightarrow> at | Some c \<Rightarrow> c), sn_lastActiveAt = at\<rparr>,
        sl_others = map toSessionItem (js_sort recently_active_first (filter (\<lambda>x. ts_sid x \<noteq> sid) tracked))\<rparr>))"

definition revokeOthers :: "sign_in_env \<Rightarrow> nat \<Rightarrow> string \<Rightarrow> string \<Rightarrow> nat sign_in_act" where
  "revokeOthers env k userId sid = revokeAll env k userId (Some sid)"

definition revoke_own_session :: "sign_in_env \<Rightarrow> nat \<Rightarrow> string \<Rightarrow> string \<Rightarrow> string \<Rightarrow> nat sign_in_act" where
  "revoke_own_session env k userId sid h =
     andThen (check (h \<noteq> si_handle env sid) (BadRequest CANNOT_REVOKE_CURRENT_SESSION)) (\<lambda>_.
     andThen (check (SESSION_HANDLE_PATTERN h) (NotFound SESSION_NOT_FOUND)) (\<lambda>_.
     andThen (resolveHandle env k userId h) (\<lambda>found.
     andThen (need found (NotFound SESSION_NOT_FOUND)) (\<lambda>target.
     andThen (revokeOne env (k + 4) userId (ts_sid target)) (\<lambda>gone.
     andThen (check gone (NotFound SESSION_NOT_FOUND)) (\<lambda>_.
     done_with 1))))))"

subsection \<open>Another account's sessions\<close>

definition findLiveTarget :: "sign_in_env \<Rightarrow> nat \<Rightarrow> string \<Rightarrow> system_user sign_in_act" where
  "findLiveTarget env k i =
     andThen (fetch env k (user_at i)) (\<lambda>found.
     need (case found of Some u \<Rightarrow> if su_deletedAt u \<noteq> None then None else Some u | None \<Rightarrow> None)
       (NotFound (PolicyMessage SYSTEM_USER_NOT_FOUND)))"

record staff_session_summary =
  sm_activeSessionCount :: nat
  sm_lastLogin :: "(time \<times> parsed_user_agent option \<times> string option) option"
  sm_lastForceRevokedAt :: "time option"

definition session_summary :: "sign_in_env \<Rightarrow> nat \<Rightarrow> string \<Rightarrow> staff_session_summary sign_in_act" where
  "session_summary env k i =
     andThen (findLiveTarget env k i) (\<lambda>target.
     andThen (if su_isActive target then andThen (list_sessions env (k + 1) i) (\<lambda>xs. done_with (length xs))
              else done_with 0) (\<lambda>n.
     andThen (latest_login env (k + 5) i SUCCESS) (\<lambda>lastSuccess.
     andThen (latest_login env (k + 6) i FORCE_REVOKED) (\<lambda>lastForce.
     done_with \<lparr>sm_activeSessionCount = n,
       sm_lastLogin = (case lastSuccess of
           Some r \<Rightarrow> Some (lr_createdAt r,
             Some (parseUserAgent (Some (case lr_userAgent r of None \<Rightarrow> [] | Some a \<Rightarrow> a))), lr_ipAddress r)
         | None \<Rightarrow> map_option (\<lambda>at. (at, None, None)) (su_lastLoginAt target)),
       sm_lastForceRevokedAt = map_option lr_createdAt lastForce\<rparr>))))"

definition forceRevoke :: "sign_in_env \<Rightarrow> nat \<Rightarrow> staff_actor \<Rightarrow> string \<Rightarrow> nat sign_in_act" where
  "forceRevoke env k actor i = (case canRevokeSessions actor i of
       Denied r \<Rightarrow> stop_with (Refused
         (if r = CANNOT_REVOKE_OWN_SESSIONS then BadRequest (PolicyMessage r) else Forbidden (PolicyMessage r)))
     | Allowed \<Rightarrow>
         andThen (findLiveTarget env k i) (\<lambda>_.
         andThen (revokeAll env (k + 1) i None) (\<lambda>revoked.
         andThen (if revoked \<ge> 1 then quietly (recordForceRevoked env (k + 5) i (sa_id actor)) else done_with ()) (\<lambda>_.
         done_with revoked))))"

end
