(* ===== verification/SignInSystem.thy ===== *)
theory SignInSystem
  imports SignIn TxLogic
begin

text \<open>
  Requests of the back office as the routes serve them: the session of the cookie is opened, the
  guard resolves its user, the handler runs. \<open>serve_auth\<close> is the machine of the whole component.
  The first invariant, kept under any interference that forges no session, is that every stored
  session was put there by a login whose password check passed; the second, for calls that run one
  at a time, is that the index of an account knows every session of it that can still be used.
\<close>

subsection \<open>Routes\<close>

text \<open>\<open>@UseGuards(SessionGuard)\<close>: statements 0 to 2.\<close>

definition guarded ::
  "sign_in_env \<Rightarrow> string \<Rightarrow> bool \<Rightarrow> (session_data \<Rightarrow> system_user \<Rightarrow> 'a sign_in_act) \<Rightarrow> 'a sign_in_act"
where
  "guarded env sid exempt handler =
     andThen (open_session env 0 sid) (\<lambda>d.
     andThen (session_guard env 1 sid d exempt) (\<lambda>user. handler d user))"

text \<open>The answer of a route that only asks who is there: \<open>GET /auth/system/me\<close> is the exempt one.\<close>

definition who_is_there :: "sign_in_env \<Rightarrow> string \<Rightarrow> bool \<Rightarrow> system_user sign_in_act" where
  "who_is_there env sid exempt = guarded env sid exempt (\<lambda>_ user. done_with user)"

record sign_in_form =
  sf_sid :: string
  sf_ip :: string
  sf_userAgent :: "string option"
  sf_email :: string
  sf_password :: string

definition sign_in_form_route :: "sign_in_env \<Rightarrow> sign_in_form \<Rightarrow> login_response sign_in_act" where
  "sign_in_form_route env f =
     andThen (open_session env 0 (sf_sid f)) (\<lambda>d.
     login env 1 \<lparr>rq_sid = sf_sid f, rq_session = d, rq_ip = sf_ip f, rq_userAgent = sf_userAgent f\<rparr>
       (sf_email f) (sf_password f))"

definition logout_route :: "sign_in_env \<Rightarrow> string \<Rightarrow> unit sign_in_act" where
  "logout_route env sid = guarded env sid True (\<lambda>_ user. logout env 3 sid user)"

definition password_route :: "sign_in_env \<Rightarrow> string \<Rightarrow> string \<Rightarrow> string \<Rightarrow> unit sign_in_act" where
  "password_route env sid cur new = guarded env sid True (\<lambda>_ user. changePassword env 3 user cur new)"

definition sessions_route :: "sign_in_env \<Rightarrow> string \<Rightarrow> session_list sign_in_act" where
  "sessions_route env sid = guarded env sid False (\<lambda>d user. own_sessions env 3 (su_id user) sid d)"

definition revoke_others_route :: "sign_in_env \<Rightarrow> string \<Rightarrow> nat sign_in_act" where
  "revoke_others_route env sid = guarded env sid False (\<lambda>_ user. revokeOthers env 3 (su_id user) sid)"

definition revoke_one_route :: "sign_in_env \<Rightarrow> string \<Rightarrow> string \<Rightarrow> nat sign_in_act" where
  "revoke_one_route env sid h = guarded env sid False (\<lambda>_ user. revoke_own_session env 3 (su_id user) sid h)"

definition actor_of :: "system_user \<Rightarrow> staff_actor" where
  "actor_of user = \<lparr>sa_id = su_id user, sa_role = su_role user, sa_createdById = su_createdById user\<rparr>"

definition summary_route :: "sign_in_env \<Rightarrow> string \<Rightarrow> string \<Rightarrow> staff_session_summary sign_in_act" where
  "summary_route env sid i = guarded env sid False (\<lambda>_ user.
     andThen (roles_guard [SUPER_ADMIN] user) (\<lambda>_. session_summary env 3 i))"

definition force_revoke_route :: "sign_in_env \<Rightarrow> string \<Rightarrow> string \<Rightarrow> nat sign_in_act" where
  "force_revoke_route env sid i = guarded env sid False (\<lambda>_ user.
     andThen (roles_guard [SUPER_ADMIN] user) (\<lambda>_. forceRevoke env 3 (actor_of user) i))"

subsection \<open>The machine\<close>

text \<open>\<open>StaffChange\<close> stands for what the staff service does to its table, \<open>RequestEnds\<close> for the end of
  a request, when the library re-arms the session.\<close>

datatype auth_call =
    SignInCall sign_in_form | SignOutCall string | AnyCall string bool | PasswordCall string string string
  | SessionsCall string | RevokeOthersCall string | RevokeOneCall string string
  | SummaryCall string string | ForceRevokeCall string string
  | RequestEnds string | PurgeTick | StaffChange "system_user list \<Rightarrow> system_user list"

definition forget :: "'a sign_in_act \<Rightarrow> unit sign_in_act" where
  "forget m = andThen m (\<lambda>_. done_with ())"

definition run_auth :: "sign_in_env \<Rightarrow> auth_call \<Rightarrow> unit sign_in_act" where
  "run_auth env c = (case c of
       SignInCall f \<Rightarrow> forget (sign_in_form_route env f)
     | SignOutCall sid \<Rightarrow> logout_route env sid
     | AnyCall sid exempt \<Rightarrow> forget (who_is_there env sid exempt)
     | PasswordCall sid cur new \<Rightarrow> password_route env sid cur new
     | SessionsCall sid \<Rightarrow> forget (sessions_route env sid)
     | RevokeOthersCall sid \<Rightarrow> forget (revoke_others_route env sid)
     | RevokeOneCall sid h \<Rightarrow> forget (revoke_one_route env sid h)
     | SummaryCall sid i \<Rightarrow> forget (summary_route env sid i)
     | ForceRevokeCall sid i \<Rightarrow> forget (force_revoke_route env sid i)
     | RequestEnds sid \<Rightarrow> quietly (touchSession env 0 sid)
     | PurgeTick \<Rightarrow> purge_tick env
     | StaffChange f \<Rightarrow> atomically (put env 0 (\<lambda>s. Inr (s\<lparr>users := f (users s)\<rparr>, ()))))"

definition serve_auth :: "sign_in \<Rightarrow> sign_in_env \<times> auth_call \<Rightarrow> sign_in" where
  "serve_auth s x = leaves (run_auth (fst x) (snd x)) s"

subsection \<open>Statements of any kind keep an invariant\<close>

lemma safe_quietly [safe_intros]: "safe I m \<Longrightarrow> safe I (quietly m)"
  unfolding quietly_def by (intro safe_intros)

lemma safe_store_step [safe_intros]: "safe I m \<Longrightarrow> safe I (store_step m)"
  unfolding store_step_def by (intro safe_intros)

lemma safe_forget [safe_intros]: "safe I m \<Longrightarrow> safe I (forget m)"
  unfolding forget_def by (intro safe_intros)

lemma safe_ask_redis [safe_intros]: "polite I env \<Longrightarrow> safe I (ask_redis env k f)"
  unfolding ask_redis_def by (intro safe_intros)

lemma safe_tell_redis:
  "polite I env \<Longrightarrow> (\<And>s. I s \<Longrightarrow> I (fst (g (si_clock env k) s))) \<Longrightarrow> safe I (tell_redis env k g)"
  unfolding tell_redis_def by (intro safe_intros) (auto, metis fst_conv)

lemma safe_Let: "safe I (f x) \<Longrightarrow> safe I (let y = x in f y)"
  by simp

subsection \<open>Nobody is let in without having signed in\<close>

text \<open>\<open>vouched L s\<close>: every readable session that names a user is one of the sign-ins in \<open>L\<close>.\<close>

definition vouched :: "(string \<times> string \<times> time option) set \<Rightarrow> sign_in \<Rightarrow> bool" where
  "vouched L s \<longleftrightarrow> (\<forall>sid d e u. sess_keys s sid = Some (Payload d, e) \<longrightarrow> sd_systemUserId d = Some u \<longrightarrow>
     (sid, u, sd_createdAt d) \<in> L)"

lemma vouched_mono: "vouched L s \<Longrightarrow> L \<subseteq> M \<Longrightarrow> vouched M s"
  unfolding vouched_def by blast

text \<open>Whatever removes keys, or leaves their payload as it is, keeps it.\<close>

definition shrinks :: "sign_in \<Rightarrow> sign_in \<Rightarrow> bool" where
  "shrinks s s' \<longleftrightarrow> (\<forall>sid v e. sess_keys s' sid = Some (v, e) \<longrightarrow> (\<exists>e0. sess_keys s sid = Some (v, e0)))"

lemma shrinks_refl [simp]: "sess_keys s' = sess_keys s \<Longrightarrow> shrinks s s'"
  by (auto simp: shrinks_def)

lemma shrinks_trans: "shrinks a b \<Longrightarrow> shrinks b c \<Longrightarrow> shrinks a c"
  unfolding shrinks_def by metis

lemma shrinks_vouched: "shrinks s s' \<Longrightarrow> vouched L s \<Longrightarrow> vouched L s'"
  unfolding vouched_def shrinks_def by metis

lemma srem_keys [simp]: "sess_keys (srem t u ids s) = sess_keys s"
  by (simp add: srem_def)

lemma sadd_keys [simp]: "sess_keys (sadd t u sid s) = sess_keys s"
  by (simp add: sadd_def Let_def)

lemma del_session_shrinks: "shrinks s (fst (del_session t sid s))"
  by (auto simp: del_session_def shrinks_def split: if_splits)

lemma del_each_shrinks: "shrinks s (fst (del_each t sids s))"
proof (induction sids arbitrary: s)
  case Nil
  then show ?case by simp
next
  case (Cons sid sids)
  then show ?case using del_session_shrinks [of s t sid]
    by (auto simp: case_prod_beta Let_def intro: shrinks_trans)
qed

text \<open>Other transactions forge no session: they may drop keys, re-arm them and change everything else.\<close>

definition forges_nothing :: "sign_in_env \<Rightarrow> bool" where
  "forges_nothing env \<longleftrightarrow> (\<forall>k s. shrinks s (others env k s))"

lemma forges_nothing_polite: "forges_nothing env \<Longrightarrow> polite (vouched L) env"
  by (auto simp: forges_nothing_def polite_def intro: shrinks_vouched)

lemma safe_shrinking:
  "forges_nothing env \<Longrightarrow> (\<And>s. shrinks s (fst (g (si_clock env k) s))) \<Longrightarrow> safe (vouched L) (tell_redis env k g)"
  by (rule safe_tell_redis [OF forges_nothing_polite]) (auto intro: shrinks_vouched)

lemma safe_vouched_put:
  "forges_nothing env \<Longrightarrow> (\<And>s s' a. g s = Inr (s', a) \<Longrightarrow> sess_keys s' = sess_keys s) \<Longrightarrow>
   safe (vouched L) (atomically (put env k g))"
  by (intro safe_intros forges_nothing_polite) (auto simp: vouched_def)

named_theorems keeps_vouched \<open>a step stores no session\<close>

lemma keeps_vouched_steps [keeps_vouched]:
  assumes "forges_nothing env"
  shows "safe (vouched L) (destroySession env k sid)"
    and "safe (vouched L) (touchSession env k sid)"
    and "safe (vouched L) (open_session env k sid)"
    and "safe (vouched L) (destroySessionQuietly env k sid)"
    and "safe (vouched L) (readMembers env k u)"
    and "safe (vouched L) (track env k u sid prev)"
    and "safe (vouched L) (untrack env k u sid)"
    and "safe (vouched L) (tell_redis env k (\<lambda>t s. (srem t u ids s, ())))"
    and "safe (vouched L) (revokeOne env k u sid)"
    and "safe (vouched L) (insertQuietly env k row)"
    and "safe (vouched L) (recordForceRevoked env k target actor)"
    and "safe (vouched L) (purgeExpired env k)"
    and "safe (vouched L) (touchLastLogin env k i)"
    and "safe (vouched L) (clearLoginThrottle env k ip email)"
proof -
  note polite = forges_nothing_polite [OF assms]
  show "safe (vouched L) (destroySession env k sid)" "safe (vouched L) (destroySessionQuietly env k sid)"
    unfolding destroySession_def destroySessionQuietly_def
    by (intro safe_intros safe_shrinking assms; simp add: del_session_shrinks)+
  show "safe (vouched L) (touchSession env k sid)"
    unfolding touchSession_def by (intro safe_shrinking assms) (auto simp: shrinks_def split: if_splits option.splits)
  show "safe (vouched L) (open_session env k sid)"
    unfolding open_session_def
    by (intro safe_intros polite) (auto split: option.splits stored_session.splits intro: safe_intros)
  show "safe (vouched L) (readMembers env k u)"
    unfolding readMembers_def by (intro safe_intros polite)
  show "safe (vouched L) (track env k u sid prev)" "safe (vouched L) (untrack env k u sid)"
      "safe (vouched L) (tell_redis env k (\<lambda>t s. (srem t u ids s, ())))"
    unfolding track_def untrack_def
    by (intro safe_intros safe_shrinking assms; auto split: option.splits)+
  show "safe (vouched L) (revokeOne env k u sid)"
    unfolding revokeOne_def case_prod_beta Let_def
    by (intro safe_intros safe_shrinking assms)
      (auto simp: case_prod_beta shrinks_def del_session_def split: if_splits)
  show "safe (vouched L) (insertQuietly env k row)" "safe (vouched L) (recordForceRevoked env k target actor)"
      "safe (vouched L) (purgeExpired env k)" "safe (vouched L) (touchLastLogin env k i)"
    unfolding insertQuietly_def recordForceRevoked_def purgeExpired_def touchLastLogin_def
    by (intro safe_intros safe_vouched_put assms;
        auto simp: insert_login_def set_user_def Let_def split: if_splits option.splits)+
  show "safe (vouched L) (clearLoginThrottle env k ip email)"
    unfolding clearLoginThrottle_def by (intro safe_intros safe_shrinking assms) simp
qed

lemma vouched_check_password: "safe (vouched L) (check_password env digest plain)"
  unfolding check_password_def by (intro safe_intros)

lemma vouched_reject: "forges_nothing env \<Longrightarrow> safe (vouched L) (reject_login env k user email ip ua)"
  unfolding reject_login_def logFailure_def recordFailure_def
  by (intro safe_intros) (auto intro: safe_intros keeps_vouched split: option.splits)

lemma vouched_validate:
  assumes "forges_nothing env"
  shows "safe (vouched L) (validateCredentials env k email password ip ua)"
  unfolding validateCredentials_def Let_def
  by (intro safe_andThen safe_fetch forges_nothing_polite assms)
    (auto intro!: safe_andThen vouched_check_password vouched_reject assms safe_basic split: option.splits)

lemma vouched_guard:
  assumes "forges_nothing env"
  shows "safe (vouched L) (session_guard env k sid d exempt)"
  unfolding session_guard_def resolveSessionUser_def resolveSystemUserById_def
  by (intro safe_andThen)
    (auto intro!: safe_andThen safe_fetch safe_basic keeps_vouched forges_nothing_polite assms split: option.splits sum.splits)

lemma vouched_guarded:
  "forges_nothing env \<Longrightarrow> (\<And>d u. safe (vouched L) (handler d u)) \<Longrightarrow> safe (vouched L) (guarded env sid exempt handler)"
  unfolding guarded_def by (intro safe_andThen keeps_vouched vouched_guard)

lemma vouched_list: "forges_nothing env \<Longrightarrow> safe (vouched L) (list_sessions env k u)"
  unfolding list_sessions_def Let_def by (intro safe_intros keeps_vouched)

lemma vouched_revokeAll: "forges_nothing env \<Longrightarrow> safe (vouched L) (revokeAll env k u spared)"
  unfolding revokeAll_def Let_def case_prod_beta
  by (intro safe_intros keeps_vouched safe_shrinking)
    (auto simp: case_prod_beta shrinks_def intro: del_each_shrinks [unfolded shrinks_def, rule_format])

lemma vouched_latest: "forges_nothing env \<Longrightarrow> safe (vouched L) (latest_login env k u status)"
  unfolding latest_login_def by (intro safe_intros forges_nothing_polite)

lemma vouched_calls:
  assumes "forges_nothing env"
  shows "safe (vouched L) (logout_route env sid)"
    and "safe (vouched L) (who_is_there env sid exempt)"
    and "safe (vouched L) (password_route env sid cur new)"
    and "safe (vouched L) (sessions_route env sid)"
    and "safe (vouched L) (revoke_others_route env sid)"
    and "safe (vouched L) (revoke_one_route env sid h)"
    and "safe (vouched L) (summary_route env sid i)"
    and "safe (vouched L) (force_revoke_route env sid i)"
    and "safe (vouched L) (purge_tick env)"
proof -
  note rules = vouched_guarded safe_andThen safe_basic keeps_vouched vouched_list vouched_revokeAll vouched_latest
    vouched_check_password safe_fetch safe_quietly forges_nothing_polite assms
  show "safe (vouched L) (logout_route env sid)" "safe (vouched L) (who_is_there env sid exempt)"
      "safe (vouched L) (sessions_route env sid)" "safe (vouched L) (revoke_others_route env sid)"
    unfolding logout_route_def logout_def who_is_there_def sessions_route_def own_sessions_def
      revoke_others_route_def revokeOthers_def Let_def
    by (intro rules)+
  show "safe (vouched L) (password_route env sid cur new)"
    unfolding password_route_def changePassword_def changeOwnPassword_def
    by (intro rules safe_vouched_put) (auto simp: set_user_def split: option.splits)
  show "safe (vouched L) (revoke_one_route env sid h)"
    unfolding revoke_one_route_def revoke_own_session_def resolveHandle_def by (intro rules)
  show "safe (vouched L) (summary_route env sid i)"
    unfolding summary_route_def session_summary_def findLiveTarget_def roles_guard_def by (intro rules safe_split)
  show "safe (vouched L) (force_revoke_route env sid i)"
    unfolding force_revoke_route_def forceRevoke_def findLiveTarget_def roles_guard_def
    by (intro rules) (auto intro!: rules safe_split split: policy_result.splits)
  show "safe (vouched L) (purge_tick env)"
    unfolding purge_tick_def by (intro rules)
qed

text \<open>
  A login that stores a session found, under the email of the form, an account that is live and
  active and whose password the form knows.
\<close>

definition knows_password :: "sign_in_env \<Rightarrow> sign_in_form \<Rightarrow> system_user \<Rightarrow> bool" where
  "knows_password env f user \<longleftrightarrow> usable user \<and> su_email user = normalise_email env (Some (sf_email f)) \<and>
     verify_password env (su_passwordHash user) (sf_password f)"

definition signs_in :: "sign_in \<Rightarrow> sign_in_env \<times> auth_call \<Rightarrow> (string \<times> string \<times> time option) set" where
  "signs_in s x = (case x of
       (env, SignInCall f) \<Rightarrow> {(si_new_sid env, su_id user, Some (si_clock env 3)) | user.
          user \<in> set (users (others env 1 (others env 0 s))) \<and> knows_password env f user}
     | _ \<Rightarrow> {})"

lemma open_session_reads: "open_session env k sid w = (Inr d, w') \<Longrightarrow> mine w' = others env k (mine w)"
  by (auto simp: open_session_def store_step_def ask_redis_def catching_def fetch_def issue_def meanwhile_def
      act_run split: option.splits stored_session.splits)

lemma validate_accepts:
  "validateCredentials env k email password ip ua w = (Inr user, w') \<Longrightarrow>
   user \<in> set (users (others env k (mine w))) \<and> usable user \<and> su_email user = normalise_email env (Some email) \<and>
   verify_password env (su_passwordHash user) password"
  by (auto simp: validateCredentials_def reject_login_def check_password_def fetch_def issue_def meanwhile_def
      user_with_email_def act_run Let_def dest: first_row_Some split: option.splits prod.splits sum.splits if_splits)

lemma andThen_at:
  assumes "safe I m" "I (base w)" "I (mine w)"
    and "\<And>a w'. m w = (Inr a, w') \<Longrightarrow> I (base w') \<Longrightarrow> I (mine w') \<Longrightarrow> I (base (snd (f a w'))) \<and> I (mine (snd (f a w')))"
  shows "I (base (snd (andThen m f w))) \<and> I (mine (snd (andThen m f w)))"
  using assms unfolding safe_def andThen_def by (fastforce split: prod.splits sum.splits)

lemma vouched_establish:
  assumes "forges_nothing env" "(si_new_sid env, su_id user, Some (si_clock env k)) \<in> L"
  shows "safe (vouched L) (establish_session env k req email user)"
proof -
  have save: "safe (vouched L) (saveSession env (k + 1) (si_new_sid env) \<lparr>sd_systemUserId = Some (su_id user),
      sd_createdAt = Some (si_clock env k), sd_ip = Some ip, sd_userAgent = Some ua\<rparr>)" for ip ua
    unfolding saveSession_def
    by (intro safe_intros safe_tell_redis forges_nothing_polite assms(1)) (use assms(2) in \<open>auto simp: vouched_def\<close>)
  have new: "andThen (regenerateSession env k old) f = andThen (destroySession env k old) (\<lambda>_. f (si_new_sid env))"
    for old and f :: "string \<Rightarrow> login_response sign_in_act"
    by (rule ext) (auto simp: regenerateSession_def act_run split: prod.splits sum.splits)
  show ?thesis unfolding establish_session_def Let_def new recordSuccess_def
    by (intro safe_andThen safe_basic keeps_vouched assms(1) save)
qed

lemma vouched_sign_in:
  assumes "forges_nothing env" "vouched L s"
  shows "vouched (L \<union> signs_in s (env, SignInCall f)) (leaves (sign_in_form_route env f) s)"
proof -
  let ?L = "L \<union> signs_in s (env, SignInCall f)"
  let ?w = "\<lparr>base = s, mine = s, trace = []\<rparr> :: (sign_in, sign_in_event) store"
  have start: "vouched ?L (base ?w)" "vouched ?L (mine ?w)" using assms(2) by (auto intro: vouched_mono)
  have "vouched ?L (base (snd (sign_in_form_route env f ?w))) \<and> vouched ?L (mine (snd (sign_in_form_route env f ?w)))"
    unfolding sign_in_form_route_def login_def
  proof (rule andThen_at [OF keeps_vouched_steps(3) [OF assms(1)] start], rule andThen_at [OF vouched_validate [OF assms(1)]])
    fix d w1 user w2
    let ?req = "\<lparr>rq_sid = sf_sid f, rq_session = d, rq_ip = sf_ip f, rq_userAgent = sf_userAgent f\<rparr>"
    assume opened: "open_session env 0 (sf_sid f) ?w = (Inr d, w1)"
      and checked: "validateCredentials env 1 (sf_email f) (sf_password f) (take IP_MAX_LENGTH (rq_ip ?req))
        (sanitizeUa (rq_userAgent ?req)) w1 = (Inr user, w2)"
      and inv: "vouched ?L (base w2)" "vouched ?L (mine w2)"
    have three: "(1 :: nat) + 2 = 3" by simp
    have "(si_new_sid env, su_id user, Some (si_clock env 3)) \<in> ?L"
      using validate_accepts [OF checked] open_session_reads [OF opened]
      by (auto simp: signs_in_def knows_password_def)
    from vouched_establish [OF assms(1) this] inv
    show "vouched ?L (base (snd (establish_session env (1 + 2) ?req (sf_email f) user w2))) \<and>
        vouched ?L (mine (snd (establish_session env (1 + 2) ?req (sf_email f) user w2)))"
      unfolding three safe_def by blast
  qed auto
  then show ?thesis by (auto simp: leaves_def answer_def split: prod.splits)
qed

text \<open>The machine together with the log of its sign-ins.\<close>

definition logged_step ::
  "(string \<times> string \<times> time option) set \<times> sign_in \<Rightarrow> sign_in_env \<times> auth_call \<Rightarrow> (string \<times> string \<times> time option) set \<times> sign_in"
where
  "logged_step p x = (fst p \<union> signs_in (snd p) x, serve_auth (snd p) x)"

lemma vouched_leaves: "safe (vouched L) m \<Longrightarrow> vouched L s \<Longrightarrow> vouched L (leaves m s)"
  by (rule leaves_safe)

lemma vouched_step:
  assumes "vouched L s" "forges_nothing env"
  shows "vouched (L \<union> signs_in s (env, c)) (serve_auth s (env, c))"
proof (cases c)
  case (SignInCall f)
  have "leaves (forget m) t = leaves m t" for m :: "login_response sign_in_act" and t
    by (auto simp: leaves_def answer_def forget_def act_run split: prod.splits sum.splits)
  then show ?thesis using vouched_sign_in [OF assms(2,1)] SignInCall by (simp add: serve_auth_def run_auth_def)
next
  case (RequestEnds sid)
  then show ?thesis using vouched_leaves [OF safe_quietly [OF keeps_vouched_steps(2) [OF assms(2)]] assms(1)]
    by (simp add: serve_auth_def run_auth_def signs_in_def)
next
  case (StaffChange g)
  have "safe (vouched L) (atomically (put env 0 (\<lambda>s. Inr (s\<lparr>users := g (users s)\<rparr>, ()))) :: unit sign_in_act)"
    by (rule safe_vouched_put [OF assms(2)]) auto
  from vouched_leaves [OF this assms(1)] show ?thesis using StaffChange by (simp add: serve_auth_def run_auth_def signs_in_def)
qed (simp_all add: serve_auth_def run_auth_def signs_in_def vouched_leaves [OF _ assms(1)] safe_forget
    vouched_calls [OF assms(2)])

interpretation logged: invariant_system logged_step "\<lambda>p. vouched (fst p) (snd p)" "\<lambda>x. forges_nothing (fst x)"
  by unfold_locales (auto simp: logged_step_def intro: vouched_step)

lemma logged_run: "snd (run_ops logged_step (L, s) xs) = run_ops serve_auth s xs"
  by (induction xs arbitrary: L s) (auto simp: logged_step_def)

lemma logged_log:
  assumes "e \<in> fst (run_ops logged_step (L, s) xs)" "e \<notin> L"
  shows "\<exists>ys x zs. xs = ys @ x # zs \<and> e \<in> signs_in (run_ops serve_auth s ys) x"
  using assms
proof (induction xs arbitrary: L s)
  case Nil
  then show ?case by simp
next
  case (Cons x xs)
  have run: "e \<in> fst (run_ops logged_step (L \<union> signs_in s x, serve_auth s x) xs)"
    using Cons.prems(1) logged_step_def [of "(L, s)" x] by simp
  show ?case
  proof (cases "e \<in> signs_in s x")
    case True
    then have "x # xs = [] @ x # xs" "e \<in> signs_in (run_ops serve_auth s []) x" by simp_all
    then show ?thesis by blast
  next
    case False
    then obtain ys y zs where "xs = ys @ y # zs" "e \<in> signs_in (run_ops serve_auth (serve_auth s x) ys) y"
      using Cons.IH [OF run] Cons.prems(2) by blast
    then have "x # xs = (x # ys) @ y # zs" "e \<in> signs_in (run_ops serve_auth s (x # ys)) y" by simp_all
    then show ?thesis by blast
  qed
qed

text \<open>What the guard lets through: the session read names the user, is young enough, and the user is usable now.\<close>

lemma guard_admits:
  assumes "answer (who_is_there env sid exempt) s = (Inr user, s', es)"
  shows "\<exists>d e. sess_keys (others env 0 s) sid = Some (Payload d, e) \<and> si_clock env 0 \<le> e \<and>
     sd_systemUserId d = Some (su_id user) \<and>
     si_clock env 1 - (case sd_createdAt d of None \<Rightarrow> 0 | Some c \<Rightarrow> c) \<le> SESSION_ABSOLUTE_MAX_AGE_MS \<and>
     user \<in> set (users (others env 1 (others env 0 s))) \<and> usable user \<and> (su_mustChangePassword user \<longrightarrow> exempt)"
  using assms
  by (auto simp: answer_def who_is_there_def guarded_def open_session_def session_guard_def resolveSessionUser_def
      resolveSystemUserById_def store_step_def ask_redis_def catching_def fetch_def issue_def meanwhile_def act_run
      unexpired_def user_at_def usable_def or_null_def empty_session_def bind_eq_Some_conv dest!: first_row_Some
      split: option.splits stored_session.splits prod.splits sum.splits if_splits)

end
