(* ===== verification/SessionIndex.thy ===== *)
theory SessionIndex
  imports SignInSystem
begin

text \<open>
  The index of an account's sessions for calls that run one at a time while Redis answers. It lists
  every session of the account that can still pass the guard, and outlives each of them; that is what
  the revocations rely on, which only reach what the index names.
\<close>

subsection \<open>The invariant\<close>

text \<open>
  \<open>indexed X C T s\<close>: sessions were created by \<open>C\<close>, and those that are still there and young enough
  at \<open>T\<close>, the ones in \<open>X\<close> apart, are in the index of their user, which expires after they are too old.
\<close>

definition indexed :: "string set \<Rightarrow> time \<Rightarrow> time \<Rightarrow> sign_in \<Rightarrow> bool" where
  "indexed X C T s \<longleftrightarrow> (\<forall>sid d e u. sess_keys s sid = Some (Payload d, e) \<longrightarrow> sd_systemUserId d = Some u \<longrightarrow>
     (\<exists>c. sd_createdAt d = Some c \<and> c \<le> C \<and>
       (sid \<notin> X \<and> T \<le> e \<and> T \<le> c + SESSION_ABSOLUTE_MAX_AGE_MS \<longrightarrow>
         (\<exists>ids ex. sess_index s u = Some (ids, ex) \<and> sid \<in> set ids \<and> c + SESSION_ABSOLUTE_MAX_AGE_MS \<le> ex))))"

lemma indexedD:
  "indexed X C T s \<Longrightarrow> sess_keys s sid = Some (Payload d, e) \<Longrightarrow> sd_systemUserId d = Some u \<Longrightarrow>
   \<exists>c. sd_createdAt d = Some c \<and> c \<le> C \<and> (sid \<notin> X \<and> T \<le> e \<and> T \<le> c + SESSION_ABSOLUTE_MAX_AGE_MS \<longrightarrow>
     (\<exists>ids ex. sess_index s u = Some (ids, ex) \<and> sid \<in> set ids \<and> c + SESSION_ABSOLUTE_MAX_AGE_MS \<le> ex))"
  by (simp add: indexed_def)

lemma indexed_later: "indexed X C T s \<Longrightarrow> X \<subseteq> Y \<Longrightarrow> C \<le> C' \<Longrightarrow> T \<le> T' \<Longrightarrow> indexed Y C' T' s"
  unfolding indexed_def
  by (meson order.trans subset_iff)

lemma indexed_start: "sess_keys s = (\<lambda>_. None) \<Longrightarrow> indexed X C T s"
  by (simp add: indexed_def)

lemma indexed_cong: "sess_keys s' = sess_keys s \<Longrightarrow> sess_index s' = sess_index s \<Longrightarrow> indexed X C T s' = indexed X C T s"
  by (simp add: indexed_def)

lemma indexed_fewer:
  assumes "indexed X C T s" "sess_index s' = sess_index s"
    and "\<And>sid v e. sess_keys s' sid = Some (v, e) \<Longrightarrow> sess_keys s sid = Some (v, e)"
  shows "indexed X C T s'"
  using assms(1) unfolding indexed_def assms(2) by (auto dest: assms(3))

lemma indexed_del: "indexed X C T s \<Longrightarrow> indexed X C T (fst (del_session t sid s))"
  by (erule indexed_fewer) (auto simp: del_session_def split: if_splits)

lemma del_session_keys: "sess_keys (fst (del_session t sid s)) = (sess_keys s)(sid := None)"
  by (rule ext) (simp add: del_session_def)

text \<open>A session that is still of use at \<open>T\<close>: what the guard and the tracker both ask for.\<close>

definition in_use :: "time \<Rightarrow> string \<Rightarrow> string \<Rightarrow> sign_in \<Rightarrow> bool" where
  "in_use T u sid s \<longleftrightarrow> (\<exists>d e c. sess_keys s sid = Some (Payload d, e) \<and> sd_systemUserId d = Some u \<and>
     sd_createdAt d = Some c \<and> T \<le> e \<and> T \<le> c + SESSION_ABSOLUTE_MAX_AGE_MS)"

lemma in_use_indexed:
  assumes "indexed {} C T s" "in_use T u sid s" "t \<le> T"
  shows "sid \<in> set (smembers t u s)"
  using assms unfolding indexed_def in_use_def smembers_def unexpired_def
  by (fastforce split: option.splits prod.splits)

lemma indexed_srem:
  assumes "indexed X C T s" "t \<le> T" "\<And>sid. sid \<in> set ids \<Longrightarrow> sid \<notin> X \<Longrightarrow> \<not> in_use T u sid s"
  shows "indexed X C T (srem t u ids s)"
  unfolding indexed_def
proof (intro allI impI)
  fix sid d e v assume key: "sess_keys (srem t u ids s) sid = Some (Payload d, e)" "sd_systemUserId d = Some v"
  then obtain c where c: "sd_createdAt d = Some c" "c \<le> C"
    "sid \<notin> X \<and> T \<le> e \<and> T \<le> c + SESSION_ABSOLUTE_MAX_AGE_MS \<longrightarrow>
      (\<exists>ids ex. sess_index s v = Some (ids, ex) \<and> sid \<in> set ids \<and> c + SESSION_ABSOLUTE_MAX_AGE_MS \<le> ex)"
    using indexedD [OF assms(1), of sid d e v] by auto
  have "\<exists>ids' ex. sess_index (srem t u ids s) v = Some (ids', ex) \<and> sid \<in> set ids' \<and> c + SESSION_ABSOLUTE_MAX_AGE_MS \<le> ex"
    if live: "sid \<notin> X \<and> T \<le> e \<and> T \<le> c + SESSION_ABSOLUTE_MAX_AGE_MS"
  proof -
    obtain old ex where old: "sess_index s v = Some (old, ex)" "sid \<in> set old" "c + SESSION_ABSOLUTE_MAX_AGE_MS \<le> ex"
      using c(3) live by blast
    show ?thesis
    proof (cases "v = u")
      case True
      then have "in_use T u sid s" using key c(1) live unfolding in_use_def by auto
      then have "sid \<notin> set ids" using assms(3) live by blast
      then have "sid \<in> set (filter (\<lambda>i. i \<notin> set ids) old)" using old(2) by simp
      moreover have "t \<le> ex" using assms(2) live old(3) by linarith
      ultimately show ?thesis using True old by (auto simp: srem_def Let_def filter_empty_conv)
    qed (use old in \<open>simp add: srem_def\<close>)
  qed
  then show "\<exists>c. sd_createdAt d = Some c \<and> c \<le> C \<and>
      (sid \<notin> X \<and> T \<le> e \<and> T \<le> c + SESSION_ABSOLUTE_MAX_AGE_MS \<longrightarrow>
        (\<exists>ids' ex. sess_index (srem t u ids s) v = Some (ids', ex) \<and> sid \<in> set ids' \<and> c + SESSION_ABSOLUTE_MAX_AGE_MS \<le> ex))"
    using c by blast
qed

lemma indexed_sadd:
  assumes "indexed {sid} C T s" "C \<le> t" "t \<le> T"
    and "\<And>d e v. sess_keys s sid = Some (Payload d, e) \<Longrightarrow> sd_systemUserId d = Some v \<Longrightarrow> v = u"
  shows "indexed {} C T (sadd t u sid s)"
  unfolding indexed_def
proof (intro allI impI)
  fix i d e v assume key: "sess_keys (sadd t u sid s) i = Some (Payload d, e)" "sd_systemUserId d = Some v"
  then obtain c where c: "sd_createdAt d = Some c" "c \<le> C"
    "i \<noteq> sid \<and> T \<le> e \<and> T \<le> c + SESSION_ABSOLUTE_MAX_AGE_MS \<longrightarrow>
      (\<exists>ids ex. sess_index s v = Some (ids, ex) \<and> i \<in> set ids \<and> c + SESSION_ABSOLUTE_MAX_AGE_MS \<le> ex)"
    using indexedD [OF assms(1), of i d e v] by auto
  have long: "c + SESSION_ABSOLUTE_MAX_AGE_MS \<le> t + SESSION_INDEX_TTL_SECONDS * 1000"
    using c(2) assms(2) by (simp add: SESSION_INDEX_TTL_SECONDS_def SESSION_ABSOLUTE_MAX_AGE_MS_def)
  have "\<exists>ids ex. sess_index (sadd t u sid s) v = Some (ids, ex) \<and> i \<in> set ids \<and> c + SESSION_ABSOLUTE_MAX_AGE_MS \<le> ex"
    if live: "T \<le> e \<and> T \<le> c + SESSION_ABSOLUTE_MAX_AGE_MS"
  proof (cases "i = sid")
    case True
    then have "v = u" using key assms(4) by simp
    then show ?thesis using True long by (auto simp: sadd_def Let_def)
  next
    case False
    then obtain ids ex where old: "sess_index s v = Some (ids, ex)" "i \<in> set ids" "c + SESSION_ABSOLUTE_MAX_AGE_MS \<le> ex"
      using c(3) live by blast
    moreover have "t \<le> ex" using assms(3) live old(3) by linarith
    ultimately show ?thesis using long
      by (cases "v = u") (auto simp: sadd_def Let_def smembers_def unexpired_def)
  qed
  then show "\<exists>c. sd_createdAt d = Some c \<and> c \<le> C \<and>
      (i \<notin> {} \<and> T \<le> e \<and> T \<le> c + SESSION_ABSOLUTE_MAX_AGE_MS \<longrightarrow>
        (\<exists>ids ex. sess_index (sadd t u sid s) v = Some (ids, ex) \<and> i \<in> set ids \<and> c + SESSION_ABSOLUTE_MAX_AGE_MS \<le> ex))"
    using c by blast
qed

subsection \<open>Undisturbed statements\<close>

definition calm_auth :: "sign_in_env \<Rightarrow> bool" where
  "calm_auth env \<longleftrightarrow> undisturbed env \<and> mono (si_clock env)"

lemma calm_authD: "calm_auth env \<Longrightarrow> undisturbed env" "calm_auth env \<Longrightarrow> j \<le> k \<Longrightarrow> si_clock env j \<le> si_clock env k"
  by (auto simp: calm_auth_def monoD)

lemma triple_tell_redis:
  "undisturbed env \<Longrightarrow> (\<And>s. P s \<Longrightarrow> Q (snd (g (si_clock env k) s)) (fst (g (si_clock env k) s))) \<Longrightarrow>
   triple I P (tell_redis env k g) Q"
  by (auto simp: triple_def tell_redis_def act_run split: prod.splits) (metis fst_conv snd_conv)

lemma triple_ask_redis: "undisturbed env \<Longrightarrow> triple I P (ask_redis env k f) (\<lambda>a s. P s \<and> a = f (si_clock env k) s)"
  unfolding ask_redis_def by (rule triple_fetch)

lemma triple_store_step: "triple (\<lambda>_. False) P m Q \<Longrightarrow> triple I P (store_step m) Q"
  by (fastforce simp: triple_def store_step_def catching_def act_run split: prod.splits sum.splits)

lemma triple_quietly: "triple Q P m (\<lambda>_. Q) \<Longrightarrow> triple I P (quietly m) (\<lambda>_. Q)"
  by (fastforce simp: triple_def quietly_def catching_def act_run split: prod.splits sum.splits)

lemma triple_each: "(\<And>s0. P s0 \<Longrightarrow> triple I (\<lambda>s. s = s0) m Q) \<Longrightarrow> triple I P m Q"
  unfolding triple_def by blast

text \<open>\<open>steady K m\<close>: whatever \<open>m\<close> answers, it keeps \<open>K\<close>.\<close>

definition steady :: "('s \<Rightarrow> bool) \<Rightarrow> ('s, 'e, 'm, 'a) act \<Rightarrow> bool" where
  "steady K m \<longleftrightarrow> triple K K m (\<lambda>_. K)"

named_theorems steady_intros \<open>a step keeps an invariant when it runs undisturbed\<close>

lemma steady_basic [steady_intros]:
  "steady K (done_with a)" "steady K (stop_with e)" "steady K (tell es)" "steady K (check ok err)" "steady K (need x err)"
  by (auto simp: steady_def triple_def act_run split: option.splits)

lemma steady_andThen [steady_intros]: "steady K m \<Longrightarrow> (\<And>a. steady K (f a)) \<Longrightarrow> steady K (andThen m f)"
  unfolding steady_def by (rule triple_andThen)

lemma steady_fetch [steady_intros]: "undisturbed env \<Longrightarrow> steady K (fetch env k f)"
  by (simp add: steady_def triple_def act_run)

lemma steady_put: "undisturbed env \<Longrightarrow> (\<And>s s' a. K s \<Longrightarrow> g s = Inr (s', a) \<Longrightarrow> K s') \<Longrightarrow> steady K (atomically (put env k g))"
  by (auto simp: steady_def triple_def act_run split: sum.splits)

lemma steady_ask_redis [steady_intros]: "undisturbed env \<Longrightarrow> steady K (ask_redis env k f)"
  unfolding ask_redis_def by (rule steady_fetch)

lemma steady_tell_redis:
  "undisturbed env \<Longrightarrow> (\<And>s. K s \<Longrightarrow> K (fst (g (si_clock env k) s))) \<Longrightarrow> steady K (tell_redis env k g)"
  unfolding steady_def by (rule triple_tell_redis)

lemma steady_catching: "steady K m \<Longrightarrow> (\<And>e. steady K (h e)) \<Longrightarrow> steady K (catching m h)"
  unfolding steady_def by (rule triple_conseq [OF triple_catching]) auto

lemma steady_store_step [steady_intros]: "steady K m \<Longrightarrow> steady K (store_step m)"
  unfolding store_step_def by (intro steady_catching steady_basic)

lemma steady_quietly [steady_intros]: "steady K m \<Longrightarrow> steady K (quietly m)"
  unfolding quietly_def by (intro steady_catching steady_basic)

lemma steady_if [steady_intros]: "steady K m \<Longrightarrow> steady K n \<Longrightarrow> steady K (if c then m else n)"
  by simp

lemma steady_leaves: "steady K m \<Longrightarrow> K s \<Longrightarrow> K (leaves m s)"
  unfolding steady_def by (rule triple_leaves)

subsection \<open>What the tracker reads\<close>

definition members_of :: "sign_in_env \<Rightarrow> nat \<Rightarrow> string \<Rightarrow> sign_in \<Rightarrow> (string \<times> classified) list" where
  "members_of env k u s = map (\<lambda>sid. (sid, classify env u sid (unexpired (si_clock env (k + 1)) (sess_keys s sid))
     (pttl (si_clock env (k + 1)) (sess_keys s sid)) (si_clock env (k + 2)))) (smembers (si_clock env k) u s)"

lemma triple_readMembers:
  assumes "undisturbed env"
  shows "triple I P (readMembers env k u) (\<lambda>a s. P s \<and> a = members_of env k u s)"
  unfolding readMembers_def
  apply (rule triple_store_step)
  apply (rule triple_andThen [OF triple_ask_redis [OF assms]])
  subgoal for sids
    apply (cases "sids = []"; simp only: if_True if_False simp_thms)
     apply (rule triple_conseq [OF triple_done], simp add: members_of_def)
    apply (rule triple_andThen [OF triple_ask_redis [OF assms]])
    apply (rule triple_conseq [OF triple_done])
    apply (auto simp: members_of_def)
    done
  done

lemma classify_in_use:
  assumes "in_use T u sid s" "t1 \<le> T" "t2 \<le> T"
  shows "is_live (classify env u sid (unexpired t1 (sess_keys s sid)) ttl t2)"
  using assms by (auto simp: in_use_def classify_def unexpired_def is_live_def Let_def)

lemma live_is_own: "is_live c \<Longrightarrow> own_key c"
  by (auto simp: is_live_def own_key_def split: classified.splits)

lemma own_key_names:
  assumes "own_key (classify env u sid (unexpired t1 (sess_keys s sid)) ttl t2)"
  shows "\<exists>d e. sess_keys s sid = Some (Payload d, e) \<and> sd_systemUserId d = Some u \<and> t1 \<le> e"
  using assms by (auto simp: own_key_def classify_def unexpired_def Let_def split: option.splits stored_session.splits if_splits)

text \<open>Every session in use is among the members and classified as live; so whatever is not, is not in use.\<close>

lemma members_complete:
  assumes "indexed {} C T s" "in_use T u sid s" "si_clock env k \<le> T"
  shows "sid \<in> fst ` set (members_of env k u s)"
  using in_use_indexed [OF assms] by (force simp: members_of_def)

lemma members_live:
  assumes "m \<in> set (members_of env k u s)" "in_use T u (fst m) s" "si_clock env (k + 1) \<le> T" "si_clock env (k + 2) \<le> T"
  shows "is_live (snd m)"
  using assms by (auto simp: members_of_def intro: classify_in_use)

lemma del_each_keys: "sess_keys (fst (del_each t sids s)) sid = (if sid \<in> set sids then None else sess_keys s sid)"
  by (induction sids arbitrary: s) (auto simp: del_session_def Let_def case_prod_beta)

lemma del_each_index: "sess_index (fst (del_each t sids s)) = sess_index s"
  by (induction sids arbitrary: s) (auto simp: del_session_def Let_def case_prod_beta)

lemma del_each_users: "users (fst (del_each t sids s)) = users s"
  by (induction sids arbitrary: s) (auto simp: del_session_def Let_def case_prod_beta)

lemma steady_list:
  assumes "calm_auth env" "si_clock env (k + 3) \<le> T"
  shows "steady (indexed {} C T) (list_sessions env k u)"
proof -
  note calm = calm_authD(1) [OF assms(1)]
  have le: "si_clock env (k + 1) \<le> T" "si_clock env (k + 2) \<le> T"
    using calm_authD(2) [OF assms(1), of "k + 1" "k + 3"] calm_authD(2) [OF assms(1), of "k + 2" "k + 3"] assms(2) by auto
  let ?stale = "\<lambda>ms :: (string \<times> classified) list. map fst (filter (\<lambda>m. \<not> is_live (snd m)) ms)"
  have prune: "triple I (\<lambda>s. indexed {} C T s \<and> ms = members_of env k u s)
      (if ?stale ms \<noteq> [] then quietly (tell_redis env (k + 3) (\<lambda>t s. (srem t u (?stale ms) s, ()))) else done_with ())
      (\<lambda>_. indexed {} C T)" for ms I
  proof (cases "?stale ms = []")
    case True
    then show ?thesis by (auto intro: triple_conseq [OF triple_done])
  next
    case False
    have "triple (indexed {} C T) (\<lambda>s. indexed {} C T s \<and> ms = members_of env k u s)
        (tell_redis env (k + 3) (\<lambda>t s. (srem t u (?stale ms) s, ()))) (\<lambda>_. indexed {} C T)"
      by (rule triple_tell_redis [OF calm]) (use members_live le assms(2) in \<open>fastforce intro!: indexed_srem\<close>)
    with False show ?thesis by (auto intro: triple_quietly)
  qed
  show ?thesis unfolding steady_def list_sessions_def Let_def
    by (intro triple_andThen [OF triple_readMembers [OF calm]] triple_andThen [OF prune] triple_conseq [OF triple_done]) auto
qed

subsection \<open>Revocation\<close>

text \<open>What \<open>revokeAll\<close> leaves of the state it started from.\<close>

definition revoked_all :: "time \<Rightarrow> string \<Rightarrow> string option \<Rightarrow> sign_in \<Rightarrow> sign_in \<Rightarrow> bool" where
  "revoked_all T u spared s s' \<longleftrightarrow> users s' = users s \<and>
     (\<forall>sid. Some sid \<noteq> spared \<longrightarrow> \<not> in_use T u sid s') \<and>
     (\<forall>sid. sess_keys s' sid = sess_keys s sid \<or>
        (sess_keys s' sid = None \<and> Some sid \<noteq> spared \<and> (\<exists>d e. sess_keys s sid = Some (Payload d, e) \<and> sd_systemUserId d = Some u)))"

lemma revoke_step:
  assumes "calm_auth env" "si_clock env (k + 3) \<le> T" "indexed {} C T s"
    and members: "members = filter (\<lambda>m. Some (fst m) \<noteq> spared) (members_of env k u s)"
  defines "doomed \<equiv> map fst (filter (\<lambda>m. own_key (snd m)) members)"
  defines "s' \<equiv> srem (si_clock env (k + 3)) u (map fst members) (fst (del_each (si_clock env (k + 3)) doomed s))"
  shows "indexed {} C T s'" "revoked_all T u spared s s'"
proof -
  have le: "si_clock env (k + j) \<le> T" if "j \<le> 3" for j
    using calm_authD(2) [OF assms(1), of "k + j" "k + 3"] that assms(2) by auto
  have le1: "si_clock env k \<le> T" "si_clock env (k + 1) \<le> T" "si_clock env (k + 2) \<le> T"
    using le [of 0] le [of 1] le [of 2] by simp_all
  let ?d = "fst (del_each (si_clock env (k + 3)) doomed s)"
  have in_use_doomed: "sid \<in> set doomed" if used: "in_use T u sid s" and other: "Some sid \<noteq> spared" for sid
  proof -
    obtain m where m: "m \<in> set (members_of env k u s)" "fst m = sid"
      using members_complete [OF assms(3) used le1(1)] by blast
    then have "own_key (snd m)" using members_live [OF m(1) _ le1(2,3)] used live_is_own by blast
    then show ?thesis using m other by (auto simp: doomed_def members)
  qed
  have still: "in_use T u sid ?d \<Longrightarrow> in_use T u sid s \<and> sid \<notin> set doomed" for sid
    by (auto simp: in_use_def del_each_keys split: if_splits)
  have dead: "\<not> in_use T u sid ?d" if "Some sid \<noteq> spared" for sid
    using still in_use_doomed that by blast
  have "indexed {} C T ?d"
    by (rule indexed_fewer [OF assms(3) del_each_index]) (auto simp: del_each_keys split: if_splits)
  then show "indexed {} C T s'" unfolding s'_def
    by (rule indexed_srem) (use assms(2) dead in \<open>auto simp: members\<close>)
  have "\<exists>d e. sess_keys s sid = Some (Payload d, e) \<and> sd_systemUserId d = Some u" "Some sid \<noteq> spared" if "sid \<in> set doomed" for sid
    using that own_key_names by (fastforce simp: doomed_def members members_of_def)+
  then show "revoked_all T u spared s s'" unfolding revoked_all_def s'_def
    using dead by (auto simp: del_each_keys in_use_def srem_def del_each_users)
qed

lemma triple_revokeAll:
  assumes "calm_auth env" "si_clock env (k + 3) \<le> T" "indexed {} C T s0"
  shows "triple I (\<lambda>s. s = s0) (revokeAll env k u spared) (\<lambda>n s'. indexed {} C T s' \<and> revoked_all T u spared s0 s')"
proof -
  note calm = calm_authD(1) [OF assms(1)]
  have "si_clock env k \<le> T" using calm_authD(2) [OF assms(1), of k "k + 3"] assms(2) by simp
  then have idle: "revoked_all T u spared s0 s0" if "filter (\<lambda>m. Some (fst m) \<noteq> spared) (members_of env k u s0) = []"
    using that members_complete [OF assms(3), of u _ env k] by (auto simp: revoked_all_def filter_empty_conv image_iff)
  let ?after = "\<lambda>_ s'. indexed {} C T s' \<and> revoked_all T u spared s0 s'"
  let ?rest = "\<lambda>found. filter (\<lambda>m. Some (fst m) \<noteq> spared) found"
  have act: "triple J (\<lambda>s. s = s0 \<and> found = members_of env k u s)
      (tell_redis env (k + 3) (\<lambda>t s.
         let (s', replies) = del_each t (map fst (filter (\<lambda>m. own_key (snd m)) (?rest found))) s
         in (srem t u (map fst (?rest found)) s', replies))) ?after" for found J
    by (rule triple_tell_redis [OF calm]) (use revoke_step [OF assms refl] in \<open>simp add: case_prod_beta Let_def\<close>)
  show ?thesis unfolding revokeAll_def Let_def
  proof (rule triple_andThen [OF triple_readMembers [OF calm]])
    fix found
    show "triple I (\<lambda>s. s = s0 \<and> found = members_of env k u s)
      (if ?rest found = [] then done_with 0
       else andThen (store_step (tell_redis env (k + 3) (\<lambda>t s.
           case del_each t (map fst (filter (\<lambda>m. own_key (snd m)) (?rest found))) s of
             (s', replies) \<Rightarrow> (srem t u (map fst (?rest found)) s', replies)))) (\<lambda>replies.
         done_with (length (filter (\<lambda>(m, gone). is_live (snd m) \<and> gone)
           (zip (filter (\<lambda>m. own_key (snd m)) (?rest found)) replies))))) ?after"
    proof (cases "?rest found = []")
      case True
      have ends: "?after n s" if now: "(s = s0 \<and> found = members_of env k u s) \<and> n = 0" for n :: nat and s
      proof -
        from now have s: "s = s0" and f: "found = members_of env k u s0" by simp_all
        from idle [OF True [unfolded f]] assms(3) show ?thesis unfolding s by (rule conjI [rotated])
      qed
      show ?thesis unfolding if_P [OF True] by (rule triple_conseq [OF triple_done]) (rule ends)
    next
      case False
      show ?thesis unfolding if_not_P [OF False]
        by (rule triple_andThen [OF triple_store_step [OF act [unfolded Let_def]]])
          (rule triple_conseq [OF triple_done], simp)
    qed
  qed
qed

subsection \<open>Every call keeps the index\<close>

lemma steady_revokeAll:
  assumes "calm_auth env" "si_clock env (k + 3) \<le> T"
  shows "steady (indexed {} C T) (revokeAll env k u spared)"
  unfolding steady_def
  by (rule triple_each) (rule triple_conseq [OF triple_revokeAll [OF assms]], auto)

lemma steady_steps:
  assumes "calm_auth env"
  shows "steady (indexed X C T) (destroySession env k sid)"
    and "steady (indexed X C T) (destroySessionQuietly env k sid)"
    and "steady (indexed X C T) (open_session env k sid)"
    and "steady (indexed X C T) (clearLoginThrottle env k ip email)"
    and "steady (indexed X C T) (insertQuietly env k row)"
    and "steady (indexed X C T) (recordForceRevoked env k target actor)"
    and "steady (indexed X C T) (purgeExpired env k)"
    and "steady (indexed X C T) (touchLastLogin env k i)"
    and "steady (indexed X C T) (latest_login env k i status)"
    and "steady (indexed X C T) (check_password env digest plain)"
proof -
  note calm = calm_authD(1) [OF assms]
  show "steady (indexed X C T) (destroySession env k sid)" "steady (indexed X C T) (destroySessionQuietly env k sid)"
    unfolding destroySession_def destroySessionQuietly_def
    by (intro steady_intros steady_tell_redis calm; simp add: indexed_del)+
  show "steady (indexed X C T) (open_session env k sid)"
    unfolding open_session_def
    by (intro steady_intros calm) (auto intro: steady_intros split: option.splits stored_session.splits)
  show "steady (indexed X C T) (clearLoginThrottle env k ip email)"
    unfolding clearLoginThrottle_def by (intro steady_intros steady_tell_redis calm) (simp add: indexed_def)
  show "steady (indexed X C T) (insertQuietly env k row)" "steady (indexed X C T) (recordForceRevoked env k target actor)"
      "steady (indexed X C T) (purgeExpired env k)" "steady (indexed X C T) (touchLastLogin env k i)"
    unfolding insertQuietly_def recordForceRevoked_def purgeExpired_def touchLastLogin_def
    by (intro steady_intros steady_put calm;
        auto simp: insert_login_def set_user_def Let_def indexed_def split: if_splits option.splits)+
  show "steady (indexed X C T) (latest_login env k i status)" "steady (indexed X C T) (check_password env digest plain)"
    unfolding latest_login_def check_password_def by (intro steady_intros calm)+
qed

lemma steady_guard:
  assumes "calm_auth env"
  shows "steady (indexed X C T) (session_guard env k sid d exempt)"
  unfolding session_guard_def resolveSessionUser_def resolveSystemUserById_def
  by (intro steady_andThen)
    (auto intro!: steady_intros steady_steps(2) assms calm_authD(1) [OF assms] split: option.splits sum.splits)

lemma steady_guarded:
  "calm_auth env \<Longrightarrow> (\<And>d u. steady (indexed X C T) (handler d u)) \<Longrightarrow>
   steady (indexed X C T) (guarded env sid exempt handler)"
  unfolding guarded_def by (intro steady_andThen steady_steps(3) steady_guard)

lemma steady_validate:
  assumes "calm_auth env"
  shows "steady (indexed X C T) (validateCredentials env k email password ip ua)"
proof -
  have reject: "steady (indexed X C T) (reject_login env j user m ip ua :: system_user sign_in_act)" for j user m
    unfolding reject_login_def recordFailure_def logFailure_def
    by (intro steady_andThen) (auto intro!: steady_intros steady_steps(5) assms split: option.splits)
  show ?thesis unfolding validateCredentials_def Let_def
    by (intro steady_andThen steady_fetch calm_authD(1) [OF assms])
      (auto intro!: steady_intros reject steady_steps(10) [OF assms] split: option.splits)
qed

lemma triple_destroySession:
  assumes "calm_auth env"
  shows "triple I (indexed X C T) (destroySession env k sid) (\<lambda>_ s. indexed X C T s \<and> sess_keys s sid = None)"
  unfolding destroySession_def
  by (rule triple_store_step, rule triple_tell_redis [OF calm_authD(1) [OF assms]])
    (simp add: indexed_del, simp add: del_session_def)

lemma triple_untrack:
  assumes "calm_auth env" "si_clock env k \<le> T"
  shows "triple I (\<lambda>s. indexed X C T s \<and> sess_keys s sid = None) (untrack env k u sid) (\<lambda>_. indexed X C T)"
  unfolding untrack_def
  by (rule triple_quietly, rule triple_tell_redis [OF calm_authD(1) [OF assms(1)]])
    (use assms(2) in \<open>auto intro!: indexed_srem simp: in_use_def\<close>)

lemma steady_logout:
  assumes "calm_auth env" "si_clock env (k + 1) \<le> T"
  shows "steady (indexed X C T) (logout env k sid user)"
  unfolding steady_def logout_def
  by (rule triple_andThen [OF triple_destroySession [OF assms(1)] triple_andThen [OF triple_untrack [OF assms]]])
    (rule triple_tell)

lemma steady_revokeOne:
  assumes "calm_auth env" "si_clock env k \<le> T"
  shows "steady (indexed X C T) (revokeOne env k u sid)"
  unfolding revokeOne_def case_prod_beta Let_def
  by (intro steady_intros steady_tell_redis calm_authD(1) [OF assms(1)])
    (use assms(2) in \<open>auto intro!: indexed_srem indexed_del simp: in_use_def del_session_keys case_prod_beta\<close>)

lemma steady_routes:
  assumes "calm_auth env" "si_clock env 12 \<le> T"
  shows "steady (indexed {} C T) (logout_route env sid)"
    and "steady (indexed {} C T) (who_is_there env sid exempt)"
    and "steady (indexed {} C T) (password_route env sid cur new)"
    and "steady (indexed {} C T) (sessions_route env sid)"
    and "steady (indexed {} C T) (revoke_others_route env sid)"
    and "steady (indexed {} C T) (revoke_one_route env sid h)"
    and "steady (indexed {} C T) (summary_route env sid i)"
    and "steady (indexed {} C T) (force_revoke_route env sid i)"
    and "steady (indexed {} C T) (purge_tick env)"
proof -
  note calm = calm_authD(1) [OF assms(1)]
  have at: "si_clock env k \<le> T" if "k \<le> 12" for k
    using calm_authD(2) [OF assms(1) that] assms(2) by simp
  have bounds: "si_clock env (3 + 1) \<le> T" "si_clock env (3 + 3) \<le> T" "si_clock env (3 + 1 + 3) \<le> T"
      "si_clock env (3 + 4) \<le> T" "si_clock env 7 \<le> T"
    by (rule at; simp)+
  note rules = steady_guarded [OF assms(1)] steady_andThen steady_basic steady_if steady_quietly steady_fetch [OF calm]
    steady_list [OF assms(1)] steady_revokeAll [OF assms(1)] steady_steps [OF assms(1)] steady_logout [OF assms(1)]
    steady_revokeOne [OF assms(1)] bounds
  show "steady (indexed {} C T) (logout_route env sid)" "steady (indexed {} C T) (who_is_there env sid exempt)"
      "steady (indexed {} C T) (sessions_route env sid)" "steady (indexed {} C T) (revoke_others_route env sid)"
      "steady (indexed {} C T) (purge_tick env)"
    unfolding logout_route_def who_is_there_def sessions_route_def own_sessions_def revoke_others_route_def
      revokeOthers_def purge_tick_def Let_def
    by (intro rules)+
  show "steady (indexed {} C T) (password_route env sid cur new)"
    unfolding password_route_def changePassword_def changeOwnPassword_def
    by (intro rules steady_put calm) (auto simp: set_user_def indexed_def split: option.splits)
  show "steady (indexed {} C T) (revoke_one_route env sid h)"
    unfolding revoke_one_route_def revoke_own_session_def resolveHandle_def by (intro rules)
  show "steady (indexed {} C T) (summary_route env sid i)"
    unfolding summary_route_def session_summary_def findLiveTarget_def roles_guard_def by (intro rules)
  show "steady (indexed {} C T) (force_revoke_route env sid i)"
    unfolding force_revoke_route_def forceRevoke_def findLiveTarget_def roles_guard_def
    by (intro rules) (auto intro!: rules simp del: add_2_eq_Suc' split: policy_result.splits)
qed

text \<open>A login: its new session is not indexed until it is tracked.\<close>

lemma triple_establish:
  assumes "calm_auth env" "si_clock env (k + 5) \<le> T"
  shows "triple (indexed {} (si_clock env k) T) (indexed {} (si_clock env k) T)
    (establish_session env k req email user) (\<lambda>_. indexed {} (si_clock env k) T)"
proof -
  note calm = calm_authD(1) [OF assms(1)]
  let ?C = "si_clock env k" and ?sid = "si_new_sid env"
  have track_at: "si_clock env k \<le> si_clock env (k + 2)" "si_clock env (k + 2) \<le> T"
    using calm_authD(2) [OF assms(1), of k "k + 2"] calm_authD(2) [OF assms(1), of "k + 2" "k + 5"] assms(2) by auto
  let ?old = "\<lambda>s. \<forall>u sid. previous_session req = Some (u, sid) \<longrightarrow> sid = ?sid \<or> sess_keys s sid = None"
  have destroy: "triple (indexed {} ?C T) (indexed {} ?C T) (regenerateSession env k (rq_sid req))
      (\<lambda>sid s. indexed {} ?C T s \<and> sess_keys s (rq_sid req) = None \<and> sid = ?sid)"
    unfolding regenerateSession_def
    by (rule triple_andThen [OF triple_destroySession [OF assms(1)]]) (rule triple_conseq [OF triple_done], simp)
  have save: "triple I (\<lambda>s. indexed {} ?C T s \<and> sess_keys s (rq_sid req) = None)
      (saveSession env (k + 1) ?sid \<lparr>sd_systemUserId = Some (su_id user), sd_createdAt = Some ?C, sd_ip = ip, sd_userAgent = ua\<rparr>)
      (\<lambda>_ s. indexed {?sid} ?C T s \<and> ?old s \<and>
         (\<forall>d e v. sess_keys s ?sid = Some (Payload d, e) \<longrightarrow> sd_systemUserId d = Some v \<longrightarrow> v = su_id user))" for I ip ua
    unfolding saveSession_def
    by (rule triple_store_step, rule triple_tell_redis [OF calm]) (auto simp: indexed_def previous_session_def)
  have srem: "indexed {?sid} ?C T (case previous_session req of None \<Rightarrow> s | Some (u, old) \<Rightarrow> srem t u [old] s)"
    if "indexed {?sid} ?C T s" "?old s" "t \<le> T" for s t
    using that by (auto intro!: indexed_srem simp: in_use_def split: option.splits)
  have same: "sess_keys (case previous_session req of None \<Rightarrow> s | Some (u, old) \<Rightarrow> srem t u [old] s) = sess_keys s" for s t
    by (auto split: option.splits)
  have track: "triple I (\<lambda>s. indexed {?sid} ?C T s \<and> ?old s \<and>
         (\<forall>d e v. sess_keys s ?sid = Some (Payload d, e) \<longrightarrow> sd_systemUserId d = Some v \<longrightarrow> v = su_id user))
      (track env (k + 2) (su_id user) ?sid (previous_session req)) (\<lambda>_. indexed {} ?C T)" for I
    unfolding track_def
    by (rule triple_quietly, rule triple_tell_redis [OF calm], simp only: fst_conv,
        rule indexed_sadd [OF srem track_at]) (use track_at in \<open>auto simp: same\<close>)
  have rest: "steady (indexed {} ?C T) (andThen (touchLastLogin env (k + 3) (su_id user)) (\<lambda>_.
      andThen (recordSuccess env (k + 4) (su_id user) ip ua h) (\<lambda>_.
      andThen (clearLoginThrottle env (k + 5) addr email) (\<lambda>_. done_with (toLoginResponse user)))))" for ip ua h addr
    unfolding recordSuccess_def by (intro steady_andThen steady_basic steady_steps assms(1))
  show ?thesis unfolding establish_session_def Let_def
    apply (rule triple_andThen [OF destroy])
    subgoal for sid
      apply (rule triple_pre [where P' = "\<lambda>s. sid = ?sid \<and> (indexed {} ?C T s \<and> sess_keys s (rq_sid req) = None)"])
       apply (cases "sid = ?sid"; simp only: simp_thms)
        apply (rule triple_andThen [OF save])
        apply (rule triple_andThen [OF track])
        apply (rule rest [unfolded steady_def])
       apply (simp add: triple_def)
      apply simp
      done
    done
qed

end
