(* ===== verification/LoginThrottle.thy ===== *)
theory LoginThrottle
  imports SignIn
begin

text \<open>
  The rate limits of the login route: \<open>RedisThrottlerStorage.increment\<close>
  (\<open>src/src/redis/redis-throttler.storage.ts\<close>), the keys of \<open>LoginThrottleGuard\<close>
  (\<open>src/src/auth/guards/login-throttle.guard.ts\<close>) and the two limits (\<open>src/src/app.module.ts\<close>,
  \<open>auth.constants.ts\<close>). Every counter counts in fixed windows that open with its first hit; the
  lemmas bound what passes a counter in any span of one window's length, however the windows lie.
\<close>

subsection \<open>The counter\<close>

definition LOGIN_THROTTLE_TTL_MS :: time where
  "LOGIN_THROTTLE_TTL_MS = 15 * 60 * 1000"

definition LOGIN_IP_EMAIL_LIMIT :: nat where
  "LOGIN_IP_EMAIL_LIMIT = 5"

definition LOGIN_IP_LIMIT :: nat where
  "LOGIN_IP_LIMIT = 20"

record throttle_record =
  tr_totalHits :: nat
  tr_timeToExpire :: int
  tr_isBlocked :: bool
  tr_timeToBlockExpire :: int

text \<open>\<open>SET key 0 PX ttl NX; INCR key\<close>: the counter afterwards, with the instant it expires at.\<close>

definition hit :: "time \<Rightarrow> time \<Rightarrow> (nat \<times> time) option \<Rightarrow> nat \<times> time" where
  "hit ttlMs t c = (case c of
       Some (n, e) \<Rightarrow> if t \<le> e then (Suc n, e) else (1, t + ttlMs)
     | None \<Rightarrow> (1, t + ttlMs))"

text \<open>\<open>Math.ceil(ms / 1000)\<close>.\<close>

definition ceil_seconds :: "time \<Rightarrow> int" where
  "ceil_seconds ms = - ((- ms) div 1000)"

definition throttle_answer :: "time \<Rightarrow> nat \<Rightarrow> nat \<Rightarrow> time \<Rightarrow> throttle_record" where
  "throttle_answer ttlMs limit totalHits left =
     (let timeToExpire = ceil_seconds (if left > 0 then left else ttlMs); isBlocked = totalHits > limit
      in \<lparr>tr_totalHits = totalHits, tr_timeToExpire = timeToExpire, tr_isBlocked = isBlocked,
          tr_timeToBlockExpire = (if isBlocked then timeToExpire else 0)\<rparr>)"

definition increment :: "sign_in_env \<Rightarrow> nat \<Rightarrow> string \<Rightarrow> time \<Rightarrow> nat \<Rightarrow> throttle_record sign_in_act" where
  "increment env k key ttlMs limit = catching
     (andThen (tell_redis env k (\<lambda>t s. let (n, e) = hit ttlMs t (counters s key)
         in (s\<lparr>counters := (counters s)(key := Some (n, e))\<rparr>, (n, e - t)))) (\<lambda>(totalHits, left).
      done_with (throttle_answer ttlMs limit totalHits left)))
     (\<lambda>_. stop_with (Refused (ServiceUnavailable RATE_LIMITER_UNAVAILABLE)))"

subsection \<open>The guard of the login route\<close>

datatype throttler_name = LOGIN_IP_EMAIL_THROTTLER | LOGIN_IP_THROTTLER

definition limit_of :: "throttler_name \<Rightarrow> nat" where
  "limit_of name = (case name of LOGIN_IP_EMAIL_THROTTLER \<Rightarrow> LOGIN_IP_EMAIL_LIMIT | LOGIN_IP_THROTTLER \<Rightarrow> LOGIN_IP_LIMIT)"

text \<open>\<open>generateKey\<close>; the body's email may be anything before validation.\<close>

definition generateKey :: "sign_in_env \<Rightarrow> string \<Rightarrow> string option \<Rightarrow> throttler_name \<Rightarrow> string" where
  "generateKey env ip email name = (case name of
       LOGIN_IP_EMAIL_THROTTLER \<Rightarrow> loginIpEmailKey env ip (normalise_email env email)
     | LOGIN_IP_THROTTLER \<Rightarrow> loginIpKey ip)"

text \<open>
  Every named limit is counted in turn, and the first one that is exceeded answers 429 with its
  \<open>Retry-After\<close> (\<open>Some seconds\<close>); the order is the module's.
\<close>

fun throttle_all :: "sign_in_env \<Rightarrow> nat \<Rightarrow> string \<Rightarrow> string option \<Rightarrow> throttler_name list \<Rightarrow> int option sign_in_act" where
  "throttle_all env k ip email [] = done_with None"
| "throttle_all env k ip email (name # names) =
     andThen (increment env k (generateKey env ip email name) LOGIN_THROTTLE_TTL_MS (limit_of name)) (\<lambda>r.
     if tr_isBlocked r then done_with (Some (tr_timeToBlockExpire r))
     else throttle_all env (k + 1) ip email names)"

definition login_throttlers :: "throttler_name list" where
  "login_throttlers = [LOGIN_IP_EMAIL_THROTTLER, LOGIN_IP_THROTTLER]"

text \<open>The route: \<open>Inl seconds\<close> is the 429.\<close>

definition login_route ::
  "sign_in_env \<Rightarrow> login_request \<Rightarrow> string \<Rightarrow> string \<Rightarrow> (int + login_response) sign_in_act"
where
  "login_route env req email password =
     andThen (throttle_all env 0 (rq_ip req) (Some email) login_throttlers) (\<lambda>blocked. case blocked of
       Some seconds \<Rightarrow> done_with (Inl seconds)
     | None \<Rightarrow> andThen (login env 2 req email password) (\<lambda>r. done_with (Inr r)))"

subsection \<open>One counter over time\<close>

text \<open>What the hits at the instants \<open>ts\<close> find: whether each of them passes.\<close>

fun passes :: "time \<Rightarrow> nat \<Rightarrow> (nat \<times> time) option \<Rightarrow> time list \<Rightarrow> bool list" where
  "passes ttlMs limit c [] = []"
| "passes ttlMs limit c (t # ts) = (let c' = hit ttlMs t c in (fst c' \<le> limit) # passes ttlMs limit (Some c') ts)"

definition passed_between :: "time \<Rightarrow> nat \<Rightarrow> (nat \<times> time) option \<Rightarrow> time list \<Rightarrow> time \<Rightarrow> time \<Rightarrow> nat" where
  "passed_between ttlMs limit c ts a b =
     length (filter (\<lambda>(t, ok). ok \<and> a \<le> t \<and> t \<le> b) (zip ts (passes ttlMs limit c ts)))"

lemma length_passes [simp]: "length (passes ttlMs limit c ts) = length ts"
  by (induction ttlMs limit c ts rule: passes.induct) (auto simp: Let_def)

lemma passed_between_simps [simp]:
  "passed_between ttl lim c [] a b = 0"
  "passed_between ttl lim c (t # ts) a b =
     (if fst (hit ttl t c) \<le> lim \<and> a \<le> t \<and> t \<le> b then 1 else 0) + passed_between ttl lim (Some (hit ttl t c)) ts a b"
  by (simp_all add: passed_between_def Let_def)

text \<open>Inside the open window at most what it has left; up to one window further, one full window more.\<close>

lemma passed_in_window:
  assumes "sorted (t0 # ts)" "t0 \<le> e" "b \<le> e" "1 \<le> lim"
  shows "passed_between ttl lim (Some (n, e)) ts a b \<le> lim - n"
  using assms
proof (induction ts arbitrary: n t0)
  case Nil
  then show ?case by simp
next
  case (Cons t ts)
  show ?case
  proof (cases "t \<le> e")
    case True
    then show ?thesis using Cons.IH [of t "Suc n"] Cons.prems by (auto simp: hit_def)
  next
    case False
    have "passed_between ttl lim (Some c) ts a b = 0" if "sorted (t # ts)" for c :: "nat \<times> time" and ts
      using that
    proof (induction ts arbitrary: c)
      case (Cons u us)
      then show ?case using False \<open>b \<le> e\<close> by (cases c) (auto simp: hit_def)
    qed simp
    then show ?thesis using False Cons.prems by (auto simp: hit_def)
  qed
qed

lemma passed_after_window:
  assumes "sorted (t0 # ts)" "t0 \<le> e" "b \<le> e + ttl" "1 \<le> lim" "0 \<le> ttl"
  shows "passed_between ttl lim (Some (n, e)) ts a b \<le> (lim - n) + lim"
  using assms
proof (induction ts arbitrary: n t0)
  case Nil
  then show ?case by simp
next
  case (Cons t ts)
  show ?case
  proof (cases "t \<le> e")
    case True
    then show ?thesis using Cons.IH [of t "Suc n"] Cons.prems by (auto simp: hit_def)
  next
    case False
    have "passed_between ttl lim (Some (1, t + ttl)) ts a b \<le> lim - 1"
      by (rule passed_in_window [of t]) (use False Cons.prems in auto)
    then show ?thesis using False Cons.prems by (auto simp: hit_def)
  qed
qed

lemma passed_fresh:
  assumes "sorted ts" "1 \<le> lim" "0 \<le> ttl" "\<forall>t \<in> set ts. a \<le> t" "b \<le> a + ttl"
  shows "passed_between ttl lim None ts a b \<le> lim"
proof (cases ts)
  case Nil
  then show ?thesis by simp
next
  case (Cons t us)
  have "passed_between ttl lim (Some (1, t + ttl)) us a b \<le> lim - 1"
    by (rule passed_in_window [of t]) (use Cons assms in auto)
  then show ?thesis using Cons assms by (auto simp: hit_def)
qed

text \<open>Whatever the counter holds: in any span of one window's length at most twice the limit passes.\<close>

lemma passed_in_any_span:
  assumes "sorted ts" "1 \<le> lim" "0 \<le> ttl"
  shows "passed_between ttl lim c ts a (a + ttl) \<le> 2 * lim"
  using assms
proof (induction ts arbitrary: c)
  case Nil
  then show ?case by simp
next
  case (Cons t ts)
  show ?case
  proof (cases "t < a")
    case True
    then show ?thesis using Cons by (auto simp: hit_def)
  next
    case False
    obtain n e where c': "hit ttl t c = (n, e)" by fastforce
    have n: "t \<le> e" "1 \<le> n" using c' Cons.prems(3) by (auto simp: hit_def split: option.splits if_splits prod.splits)
    have "passed_between ttl lim (Some (n, e)) ts a (a + ttl) \<le> (lim - n) + lim"
      by (rule passed_after_window [of t]) (use False n Cons.prems in auto)
    then show ?thesis using c' n False by auto
  qed
qed

text \<open>A blocked hit says how long to wait, and who waits that long passes.\<close>

lemma ceil_seconds_ge: "ms \<le> 1000 * ceil_seconds ms"
proof -
  have "0 \<le> (- ms) mod 1000" "- ms = 1000 * ((- ms) div 1000) + (- ms) mod 1000" by simp_all
  then show ?thesis unfolding ceil_seconds_def by linarith
qed

lemma hit_alive: "0 \<le> ttl \<Longrightarrow> hit ttl t c = (n, e) \<Longrightarrow> t \<le> e"
  by (auto simp: hit_def split: option.splits if_splits prod.splits)

lemma block_ends:
  assumes "hit ttl t c = (n, e)" "0 \<le> ttl" "1 \<le> lim"
    and "t' > t + 1000 * tr_timeToExpire (throttle_answer ttl lim n (e - t))"
  shows "fst (hit ttl t' (Some (n, e))) \<le> lim"
proof -
  have "e - t \<le> 1000 * tr_timeToExpire (throttle_answer ttl lim n (e - t))"
    using hit_alive [OF assms(2,1)] ceil_seconds_ge [of ttl] ceil_seconds_ge [of "e - t"] assms(2)
    by (auto simp: throttle_answer_def Let_def)
  then show ?thesis using assms by (simp add: hit_def)
qed

end
