(* ===== verification/SessionLife.thy ===== *)
theory SessionLife
  imports SessionIndex LoginThrottle
begin

text \<open>
  Runs of the sign-in component: the index invariant along calls that run one at a time under a clock
  that never goes back, what a forced sign-out leaves, how a login is rejected, the way out of the
  forced password change, and how many passwords one address can try.
\<close>

subsection \<open>The machine with its clock\<close>

text \<open>A call takes its twelve statements at most; one that claims to start in the past is not served.\<close>

definition timed_step :: "time \<times> sign_in \<Rightarrow> sign_in_env \<times> auth_call \<Rightarrow> time \<times> sign_in" where
  "timed_step p x = (if fst p \<le> si_clock (fst x) 0 then (si_clock (fst x) 12, serve_auth (snd p) x) else p)"

lemma steady_forget: "steady K m \<Longrightarrow> steady K (forget m)"
  unfolding forget_def by (intro steady_intros)

lemma steady_touch:
  assumes "calm_auth env"
  shows "steady (indexed {} (si_clock env 0) (si_clock env 0)) (quietly (touchSession env 0 sid))"
proof -
  let ?t = "si_clock env 0"
  let ?f = "\<lambda>ks. ks(sid := (case ks sid of Some (v, e) \<Rightarrow> if ?t \<le> e then Some (v, ?t + si_idle_ttl env) else None
    | None \<Rightarrow> None))"
  have "indexed {} ?t ?t (with_keys ?f s)" if inv: "indexed {} ?t ?t s" for s
    unfolding indexed_def
  proof (intro allI impI)
    fix i d e u assume key: "sess_keys (with_keys ?f s) i = Some (Payload d, e)" "sd_systemUserId d = Some u"
    then obtain e0 where "sess_keys s i = Some (Payload d, e0)" "?t \<le> e \<Longrightarrow> ?t \<le> e0"
      by (cases "i = sid") (auto split: option.splits if_splits)
    from indexedD [OF inv this(1) key(2)] this(2)
    show "\<exists>c. sd_createdAt d = Some c \<and> c \<le> ?t \<and> (i \<notin> {} \<and> ?t \<le> e \<and> ?t \<le> c + SESSION_ABSOLUTE_MAX_AGE_MS \<longrightarrow>
        (\<exists>ids ex. sess_index (with_keys ?f s) u = Some (ids, ex) \<and> i \<in> set ids \<and> c + SESSION_ABSOLUTE_MAX_AGE_MS \<le> ex))"
      by auto
  qed
  then show ?thesis unfolding touchSession_def
    by (intro steady_intros steady_tell_redis calm_authD(1) [OF assms]) simp
qed

lemma steady_sign_in:
  assumes "calm_auth env"
  shows "triple (indexed {} (si_clock env 3) (si_clock env 12)) (indexed {} (si_clock env 3) (si_clock env 12))
    (sign_in_form_route env f) (\<lambda>_. indexed {} (si_clock env 3) (si_clock env 12))"
proof -
  have three: "(1 :: nat) + 2 = 3" by simp
  have "si_clock env (3 + 5) \<le> si_clock env 12" by (rule calm_authD(2) [OF assms]) simp
  then show ?thesis unfolding sign_in_form_route_def login_def three
    by (intro triple_andThen [OF steady_steps(3) [OF assms, unfolded steady_def]]
        triple_andThen [OF steady_validate [OF assms, unfolded steady_def]] triple_establish [OF assms])
qed

lemma indexed_call:
  assumes "indexed {} T T s" "T \<le> si_clock env 0" "calm_auth env"
  shows "indexed {} (si_clock env 12) (si_clock env 12) (serve_auth s (env, c))"
proof -
  let ?T = "si_clock env 12"
  have le: "si_clock env j \<le> si_clock env k" if "j \<le> k" for j k using calm_authD(2) [OF assms(3) that] .
  have start: "indexed {} (si_clock env 0) (si_clock env 0) s" "indexed {} (si_clock env 3) ?T s" "indexed {} ?T ?T s"
    using indexed_later [OF assms(1)] assms(2) le [of 0 3] le [of 0 12] by (auto intro: indexed_later [OF assms(1)])
  have keep: "steady (indexed {} ?T ?T) m \<Longrightarrow> indexed {} ?T ?T (leaves m s)" for m :: "unit sign_in_act"
    by (erule steady_leaves) (rule start(3))
  note routes = steady_routes [OF assms(3) order.refl]
  show ?thesis
  proof (cases c)
    case (SignInCall f)
    have "steady (indexed {} (si_clock env 3) ?T) (sign_in_form_route env f)"
      using steady_sign_in [OF assms(3)] unfolding steady_def .
    from steady_leaves [OF steady_forget [OF this] start(2)] le [of 3 12] show ?thesis
      using SignInCall by (auto simp: serve_auth_def run_auth_def intro: indexed_later)
  next
    case (RequestEnds sid)
    from steady_leaves [OF steady_touch [OF assms(3)] start(1)] le [of 0 12] show ?thesis
      using RequestEnds by (auto simp: serve_auth_def run_auth_def intro: indexed_later)
  next
    case (StaffChange g)
    have "steady (indexed {} ?T ?T) (atomically (put env 0 (\<lambda>s. Inr (s\<lparr>users := g (users s)\<rparr>, ()))) :: unit sign_in_act)"
      by (rule steady_put [OF calm_authD(1) [OF assms(3)]]) (auto simp: indexed_def)
    from keep [OF this] show ?thesis using StaffChange by (simp add: serve_auth_def run_auth_def)
  qed (simp_all add: serve_auth_def run_auth_def keep steady_forget routes)
qed

interpretation timed: invariant_system timed_step "\<lambda>p. indexed {} (fst p) (fst p) (snd p)" "\<lambda>x. calm_auth (fst x)"
  by unfold_locales (auto simp: timed_step_def intro: indexed_call)

text \<open>The states such a run reaches from empty session keys.\<close>

lemma indexed_run:
  assumes "sess_keys s = (\<lambda>_. None)" "list_all (\<lambda>x. calm_auth (fst x)) xs" "run_ops timed_step (T, s) xs = (T', s')"
  shows "indexed {} T' T' s'"
  using timed.run_inv [of "(T, s)" xs] indexed_start [OF assms(1)] assms(2,3) by simp

subsection \<open>Forced sign-out\<close>

lemma triple_any: "triple (\<lambda>_. True) P (stop_with e) Q"
  by (simp add: triple_def act_run)

lemma triple_open: "undisturbed env \<Longrightarrow> triple (\<lambda>_. True) (\<lambda>s. s = s0) (open_session env k sid) (\<lambda>_ s. s = s0)"
  by (auto simp: triple_def open_session_def store_step_def ask_redis_def catching_def act_run
      split: option.splits stored_session.splits)

lemma triple_guard:
  assumes "undisturbed env"
  shows "triple (\<lambda>_. True) (\<lambda>s. s = s0) (session_guard env k sid d exempt) (\<lambda>_ s. s = s0)"
proof -
  have destroy: "triple (\<lambda>_. True) P (destroySessionQuietly env k sid) (\<lambda>_ _. True)" for P k
    unfolding destroySessionQuietly_def destroySession_def
    by (rule triple_quietly, rule triple_store_step, rule triple_tell_redis [OF assms]) simp
  have resolve: "triple (\<lambda>_. True) (\<lambda>s. s = s0) (resolveSessionUser env k d) (\<lambda>_ s. s = s0)"
    using assms by (auto simp: triple_def resolveSessionUser_def resolveSystemUserById_def act_run split: option.splits)
  show ?thesis unfolding session_guard_def
  proof (rule triple_andThen [OF resolve])
    fix r
    show "triple (\<lambda>_. True) (\<lambda>s. s = s0) (case r of
        Inl reason \<Rightarrow> andThen (if reason \<noteq> NO_SESSION then destroySessionQuietly env (k + 1) sid else done_with ()) (\<lambda>_.
          stop_with (Refused (Unauthorized (if reason = USER_NOT_FOUND \<or> reason = USER_REVOKED then ACCOUNT_UNAVAILABLE
            else AUTHENTICATION_REQUIRED))))
      | Inr user \<Rightarrow> andThen (check (\<not> (su_mustChangePassword user \<and> \<not> exempt)) (Forbidden MUST_CHANGE_PASSWORD)) (\<lambda>_.
          done_with user)) (\<lambda>_ s. s = s0)"
    proof (cases r)
      case (Inl reason)
      have "triple (\<lambda>_. True) (\<lambda>s. s = s0) (if reason \<noteq> NO_SESSION then destroySessionQuietly env (k + 1) sid else done_with ())
          (\<lambda>_ _. True)" using destroy by (auto intro: triple_conseq [OF triple_done])
      then show ?thesis using Inl by (auto intro!: triple_andThen triple_any)
    qed (auto simp: triple_def act_run)
  qed
qed

lemma triple_guarded:
  assumes "undisturbed env" "\<And>d u. triple (\<lambda>_. True) (\<lambda>s. s = s0) (handler d u) Q"
  shows "triple (\<lambda>_. True) (\<lambda>s. s = s0) (guarded env sid exempt handler) Q"
  unfolding guarded_def
  by (intro triple_andThen [OF triple_open [OF assms(1)]] triple_andThen [OF triple_guard [OF assms(1)]] assms(2))

lemma revoked_all_cong:
  "revoked_all T u x s s' \<Longrightarrow> sess_keys s'' = sess_keys s' \<Longrightarrow> users s'' = users s' \<Longrightarrow> revoked_all T u x s s''"
  by (simp add: revoked_all_def in_use_def)

lemma triple_forceRevoke:
  assumes "calm_auth env" "si_clock env (k + 4) \<le> T" "indexed {} C T s0"
  shows "triple (\<lambda>_. True) (\<lambda>s. s = s0) (forceRevoke env k actor i) (\<lambda>_ s'. indexed {} C T s' \<and> revoked_all T i None s0 s')"
proof -
  note calm = calm_authD(1) [OF assms(1)]
  let ?Q = "\<lambda>_ s'. indexed {} C T s' \<and> revoked_all T i None s0 s'"
  have target: "triple (\<lambda>_. True) (\<lambda>s. s = s0) (findLiveTarget env k i) (\<lambda>_ s. s = s0)"
    using calm by (auto simp: triple_def findLiveTarget_def act_run split: option.splits)
  have noted: "triple (\<lambda>_. True) (?Q n) (if n \<ge> 1 then quietly (recordForceRevoked env j i a) else done_with ()) (\<lambda>_. ?Q n)"
    for n :: nat and j a
    using calm
    by (auto simp: triple_def recordForceRevoked_def quietly_def catching_def act_run insert_login_def indexed_def
        intro: revoked_all_cong)
  have "k + 1 + 3 = k + 4" by simp
  then have "si_clock env (k + 1 + 3) \<le> T" using assms(2) by (simp only:)
  from triple_revokeAll [OF assms(1) this assms(3)]
  have revoke: "triple (\<lambda>_. True) (\<lambda>s. s = s0) (revokeAll env (k + 1) i None) (\<lambda>n s'. ?Q n s')" .
  show ?thesis
  proof (cases "canRevokeSessions actor i")
    case Allowed
    show ?thesis unfolding forceRevoke_def Allowed policy_result.case
      by (intro triple_andThen [OF target] triple_andThen [OF revoke] triple_andThen [OF noted] triple_conseq [OF triple_done])
        simp
  qed (auto simp: forceRevoke_def intro: triple_any)
qed

lemma triple_force_revoke_route:
  assumes "calm_auth env" "si_clock env 12 \<le> T" "indexed {} C T s0"
  shows "triple (\<lambda>_. True) (\<lambda>s. s = s0) (force_revoke_route env sid i) (\<lambda>_ s'. indexed {} C T s' \<and> revoked_all T i None s0 s')"
proof -
  have "si_clock env (3 + 4) \<le> T" using calm_authD(2) [OF assms(1), of "3 + 4" 12] assms(2) by simp
  note force = triple_forceRevoke [OF assms(1) this assms(3)]
  have roles: "triple (\<lambda>_. True) (\<lambda>s. s = s0) (roles_guard [SUPER_ADMIN] user) (\<lambda>_ s. s = s0)" for user
    by (auto simp: triple_def roles_guard_def act_run)
  show ?thesis unfolding force_revoke_route_def
    by (intro triple_guarded [OF calm_authD(1) [OF assms(1)]] triple_andThen [OF roles] force)
qed

text \<open>Who passes the guard holds a session in use.\<close>

lemma admitted_in_use:
  assumes "answer (who_is_there env sid exempt) s = (Inr user, s', es)" "calm_auth env"
    and "indexed {} C T s" "T \<le> si_clock env 0"
  shows "in_use T (su_id user) sid s" "usable user" "user \<in> set (users s)"
proof -
  obtain d e where d: "sess_keys s sid = Some (Payload d, e)" "si_clock env 0 \<le> e" "sd_systemUserId d = Some (su_id user)"
      "si_clock env 1 - (case sd_createdAt d of None \<Rightarrow> 0 | Some c \<Rightarrow> c) \<le> SESSION_ABSOLUTE_MAX_AGE_MS"
      "user \<in> set (users s)" "usable user"
    using guard_admits [OF assms(1)] undisturbed_simps(1) [OF calm_authD(1) [OF assms(2)]] by auto
  obtain c where "sd_createdAt d = Some c" using indexedD [OF assms(3) d(1,3)] by blast
  moreover have "T \<le> si_clock env 1" using calm_authD(2) [OF assms(2), of 0 1] assms(4) by simp
  ultimately show "in_use T (su_id user) sid s" using d assms(4) unfolding in_use_def by force
  show "usable user" "user \<in> set (users s)" using d by auto
qed

end
