(* ===== verification/SignInFacts.thy ===== *)
theory SignInFacts
  imports SessionLife
begin

text \<open>
  What single calls do when nothing disturbs them: the outcome of a password check, the change of
  one's password and the request after it, and how many checks the limits let through.
\<close>

subsection \<open>The outcome of a check\<close>

definition failure_row :: "sign_in_env \<Rightarrow> nat \<Rightarrow> string \<Rightarrow> string \<Rightarrow> string \<Rightarrow> login_row" where
  "failure_row env k i ip ua = \<lparr>lr_id = si_row_id env k, lr_systemUserId = i, lr_status = FAILED_BAD_PASSWORD,
     lr_ipAddress = Some (clipIp ip), lr_userAgent = Some (sanitizeUa (Some ua)), lr_sessionRef = None,
     lr_actorId = None, lr_createdAt = si_clock env k\<rparr>"

lemma user_with_email_mem: "user_with_email m s = Some u \<Longrightarrow> u \<in> set (users s) \<and> su_email u = m"
  unfolding user_with_email_def by (drule first_row_Some) simp

lemma validate_outcome:
  assumes "undisturbed env"
  defines "m \<equiv> \<lambda>email. normalise_email env (Some email)"
  shows "answer (validateCredentials env k email password ip ua) s =
    (case user_with_email (m email) s of
       None \<Rightarrow> (Inl (Refused (Unauthorized INVALID_CREDENTIALS)), s, [PasswordChecked, LoginFailureLogged (m email) ip])
     | Some u \<Rightarrow>
         if usable u \<and> verify_password env (su_passwordHash u) password then (Inr u, s, [PasswordChecked])
         else (Inl (Refused (Unauthorized INVALID_CREDENTIALS)),
           s\<lparr>login_rows := login_rows s @ [failure_row env (k + 1) (su_id u) ip ua]\<rparr>,
           [PasswordChecked, LoginFailureLogged (m email) ip]))"
  using assms(1)
  by (auto simp: answer_def validateCredentials_def reject_login_def check_password_def logFailure_def recordFailure_def
      insertQuietly_def quietly_def catching_def insert_login_def failure_row_def m_def Let_def act_run
      split: option.splits dest: user_with_email_mem)

text \<open>The state a login leaves that nothing disturbs.\<close>

definition success_row :: "sign_in_env \<Rightarrow> nat \<Rightarrow> string \<Rightarrow> string \<Rightarrow> string \<Rightarrow> login_row" where
  "success_row env k i ip ua = \<lparr>lr_id = si_row_id env k, lr_systemUserId = i, lr_status = SUCCESS,
     lr_ipAddress = Some (clipIp ip), lr_userAgent = Some (sanitizeUa (Some ua)),
     lr_sessionRef = Some (si_handle env (si_new_sid env)), lr_actorId = None, lr_createdAt = si_clock env k\<rparr>"

definition stamped :: "time \<Rightarrow> system_user \<Rightarrow> system_user" where
  "stamped at u = u\<lparr>su_lastLoginAt := Some at, su_updatedAt := at\<rparr>"

definition fresh_session :: "sign_in_env \<Rightarrow> nat \<Rightarrow> login_request \<Rightarrow> system_user \<Rightarrow> session_data" where
  "fresh_session env k req u = \<lparr>sd_systemUserId = Some (su_id u), sd_createdAt = Some (si_clock env k),
     sd_ip = Some (take IP_MAX_LENGTH (rq_ip req)), sd_userAgent = Some (sanitizeUa (rq_userAgent req))\<rparr>"

definition untracked :: "time \<Rightarrow> (string \<times> string) option \<Rightarrow> sign_in \<Rightarrow> sign_in" where
  "untracked t prev s = (case prev of None \<Rightarrow> s | Some (u, old) \<Rightarrow> srem t u [old] s)"

definition after_login :: "sign_in_env \<Rightarrow> nat \<Rightarrow> login_request \<Rightarrow> string \<Rightarrow> system_user \<Rightarrow> sign_in \<Rightarrow> sign_in" where
  "after_login env k req email u s =
     (let s1 = with_keys (\<lambda>ks. ks(rq_sid req := None)) s;
          s2 = with_keys (\<lambda>ks. ks(si_new_sid env := Some (Payload (fresh_session env k req u), si_clock env (k + 1) + si_idle_ttl env))) s1;
          s3 = sadd (si_clock env (k + 2)) (su_id u) (si_new_sid env) (untracked (si_clock env (k + 2)) (previous_session req) s2);
          s4 = s3\<lparr>users := set_where (\<lambda>x. su_id x = su_id u) (stamped (si_clock env (k + 3))) (users s3)\<rparr>;
          s5 = s4\<lparr>login_rows := login_rows s4 @ [success_row env (k + 4) (su_id u) (take IP_MAX_LENGTH (rq_ip req))
            (sanitizeUa (rq_userAgent req))]\<rparr>
      in s5\<lparr>counters := (counters s5)(loginIpEmailKey env (rq_ip req) (normalise_email env (Some email)) := None)\<rparr>)"

lemma user_at_of_email: "user_with_email m s = Some u \<Longrightarrow> \<exists>v. user_at (su_id u) s = Some v"
  using user_with_email_mem [of m s u] by (auto simp: user_at_def first_row_None not_None_eq [symmetric] simp del: not_None_eq)

lemma users_sadd [simp]: "users (sadd t u sid s) = users s" "users (untracked t prev s) = users s" "users (srem t u ids s) = users s"
  by (auto simp: sadd_def untracked_def srem_def Let_def split: option.splits)

lemma user_at_users: "users s' = users s \<Longrightarrow> user_at i s' = user_at i s"
  by (simp add: user_at_def)

text \<open>Single steps from a settled store.\<close>

definition settled :: "sign_in \<Rightarrow> sign_in_event list \<Rightarrow> (sign_in, sign_in_event) store" where
  "settled s es = \<lparr>base = s, mine = s, trace = es\<rparr>"

lemma settled_steps:
  assumes "undisturbed env"
  shows "tell_redis env k g (settled s es) = (Inr (snd (g (si_clock env k) s)), settled (fst (g (si_clock env k) s)) es)"
    and "atomically (put env k h) (settled s es) = (case h s of Inl e \<Rightarrow> (Inl (Thrown e), settled s es)
      | Inr (s', a) \<Rightarrow> (Inr a, settled s' es))"
    and "m (settled s es) = (Inr a, w) \<Longrightarrow> store_step m (settled s es) = (Inr a, w)"
    and "n (settled s es) = (Inr (), w) \<Longrightarrow> quietly n (settled s es) = (Inr (), w)"
  using assms
  by (auto simp: settled_def tell_redis_def store_step_def quietly_def catching_def act_run split: sum.splits prod.splits)

lemma settled_session_steps:
  assumes "undisturbed env"
  shows "regenerateSession env k old (settled s es) = (Inr (si_new_sid env), settled (with_keys (\<lambda>ks. ks(old := None)) s) es)"
    and "saveSession env k sid d (settled s es) =
      (Inr (), settled (with_keys (\<lambda>ks. ks(sid := Some (Payload d, si_clock env k + si_idle_ttl env))) s) es)"
    and "track env k u sid prev (settled s es) =
      (Inr (), settled (sadd (si_clock env k) u sid (untracked (si_clock env k) prev s)) es)"
    and "clearLoginThrottle env k ip email (settled s es) =
      (Inr (), settled (s\<lparr>counters := (counters s)(loginIpEmailKey env ip (normalise_email env (Some email)) := None)\<rparr>) es)"
  unfolding regenerateSession_def destroySession_def saveSession_def track_def clearLoginThrottle_def
  by (simp_all add: settled_steps [OF assms] run_andThen done_with_def del_session_def untracked_def)

lemma settled_user_steps:
  assumes "undisturbed env" "user_at i s = Some v"
  shows "touchLastLogin env k i (settled s es) =
      (Inr (), settled (s\<lparr>users := set_where (\<lambda>x. su_id x = i) (stamped (si_clock env k)) (users s)\<rparr>) es)"
    and "lr_systemUserId row = i \<Longrightarrow> insertQuietly env k row (settled s es) =
      (Inr (), settled (s\<lparr>login_rows := login_rows s @ [row]\<rparr>) es)"
proof -
  show "touchLastLogin env k i (settled s es) =
      (Inr (), settled (s\<lparr>users := set_where (\<lambda>x. su_id x = i) (stamped (si_clock env k)) (users s)\<rparr>) es)"
    unfolding touchLastLogin_def using assms by (simp add: settled_steps set_user_def stamped_def [abs_def])
  have "v \<in> set (users s)" "su_id v = i" using assms(2) first_row_Some unfolding user_at_def by (metis (mono_tags, lifting))+
  then have "i \<in> su_id ` set (users s)" by blast
  then show "insertQuietly env k row (settled s es) = (Inr (), settled (s\<lparr>login_rows := login_rows s @ [row]\<rparr>) es)"
    if "lr_systemUserId row = i"
    unfolding insertQuietly_def using that by (intro settled_steps(4) [OF assms(1)]) (simp add: settled_steps(2) [OF assms(1)] insert_login_def)
qed

lemma user_at_set_where:
  "(\<And>u. su_id (f u) = su_id u) \<Longrightarrow> user_at i (s\<lparr>users := set_where (\<lambda>u. su_id u = i) f (users s)\<rparr>) = map_option f (user_at i s)"
proof -
  assume keep: "\<And>u. su_id (f u) = su_id u"
  have "List.find (\<lambda>u. su_id u = i) (map (\<lambda>x. if su_id x = i then f x else x) us) =
      map_option f (List.find (\<lambda>u. su_id u = i) us)" for us
    by (induction us) (auto simp: keep)
  then show ?thesis by (simp add: user_at_def first_row_def set_where_def)
qed

lemma establish_outcome:
  assumes "undisturbed env" "user_at (su_id u) s = Some v"
  shows "establish_session env k req email u (settled s es) = (Inr (toLoginResponse u), settled (after_login env k req email u s) es)"
proof -
  let ?s1 = "with_keys (\<lambda>ks. ks(rq_sid req := None)) s"
  let ?s2 = "with_keys (\<lambda>ks. ks(si_new_sid env := Some (Payload (fresh_session env k req u), si_clock env (k + 1) + si_idle_ttl env))) ?s1"
  let ?s3 = "sadd (si_clock env (k + 2)) (su_id u) (si_new_sid env) (untracked (si_clock env (k + 2)) (previous_session req) ?s2)"
  let ?s4 = "?s3\<lparr>users := set_where (\<lambda>x. su_id x = su_id u) (stamped (si_clock env (k + 3))) (users ?s3)\<rparr>"
  have at3: "user_at (su_id u) ?s3 = Some v" using assms(2) by (simp add: user_at_def)
  have at4: "user_at (su_id u) ?s4 = Some (stamped (si_clock env (k + 3)) v)"
    by (subst user_at_set_where, simp add: stamped_def, simp only: at3 option.map)
  have row: "recordSuccess env (k + 4) (su_id u) ip ua (si_handle env (si_new_sid env)) (settled ?s4 es) =
      (Inr (), settled (?s4\<lparr>login_rows := login_rows ?s4 @ [success_row env (k + 4) (su_id u) ip ua]\<rparr>) es)" for ip ua
    unfolding recordSuccess_def success_row_def by (rule settled_user_steps(2) [OF assms(1) at4]) simp
  note steps = settled_session_steps [OF assms(1)] settled_user_steps(1) [OF assms(1) at3] row
  show ?thesis
    unfolding establish_session_def after_login_def Let_def run_andThen done_with_def fresh_session_def [symmetric]
    by (simp only: steps prod.case sum.case)
qed

definition first_visit :: "sign_in_form \<Rightarrow> login_request" where
  "first_visit f = \<lparr>rq_sid = sf_sid f, rq_session = empty_session, rq_ip = sf_ip f, rq_userAgent = sf_userAgent f\<rparr>"

lemma serve_sign_in:
  assumes "undisturbed env" "unexpired (si_clock env 0) (sess_keys s (sf_sid f)) = None"
    and "user_with_email (normalise_email env (Some (sf_email f))) s = Some u" "usable u"
    and "verify_password env (su_passwordHash u) (sf_password f)"
  shows "serve_auth s (env, SignInCall f) = after_login env 3 (first_visit f) (sf_email f) u s"
proof -
  obtain v where v: "user_at (su_id u) s = Some v" using user_at_of_email [OF assms(3)] by blast
  have three: "(1 :: nat) + 2 = 3" by simp
  have opened: "open_session env 0 (sf_sid f) (settled s []) = (Inr empty_session, settled s [])"
    using assms(1,2) by (simp add: open_session_def store_step_def ask_redis_def catching_def settled_def act_run)
  have checked: "validateCredentials env 1 (sf_email f) (sf_password f) ip ua (settled s []) =
      (Inr u, settled s [PasswordChecked])" for ip ua
    using assms(1,3-5)
    by (simp add: validateCredentials_def check_password_def settled_def act_run Let_def)
  have "sign_in_form_route env f (settled s []) = (Inr (toLoginResponse u),
      settled (after_login env 3 (first_visit f) (sf_email f) u s) [PasswordChecked])"
    unfolding sign_in_form_route_def login_def run_andThen three
    by (simp add: opened checked [unfolded One_nat_def] establish_outcome [OF assms(1) v] first_visit_def)
  then show ?thesis
    by (simp add: serve_auth_def run_auth_def forget_def leaves_def answer_def run_andThen done_with_def settled_def)
qed

subsection \<open>Changing one's password\<close>

definition holds_session :: "time \<Rightarrow> string \<Rightarrow> system_user \<Rightarrow> sign_in \<Rightarrow> bool" where
  "holds_session T sid u s \<longleftrightarrow> in_use T (su_id u) sid s \<and> su_id u \<noteq> [] \<and> user_at (su_id u) s = Some u \<and> usable u"

lemma guard_opens:
  assumes "undisturbed env" "holds_session T sid u s" "si_clock env 0 \<le> T" "si_clock env 1 \<le> T"
    and "su_mustChangePassword u \<Longrightarrow> exempt"
  shows "\<exists>d. guarded env sid exempt handler \<lparr>base = s, mine = s, trace = []\<rparr> =
    handler d u \<lparr>base = s, mine = s, trace = []\<rparr>"
proof -
  obtain d e c where d: "sess_keys s sid = Some (Payload d, e)" "sd_systemUserId d = Some (su_id u)" "sd_createdAt d = Some c"
      "T \<le> e" "T \<le> c + SESSION_ABSOLUTE_MAX_AGE_MS"
    using assms(2) by (auto simp: holds_session_def in_use_def)
  have "guarded env sid exempt handler \<lparr>base = s, mine = s, trace = []\<rparr> = handler d u \<lparr>base = s, mine = s, trace = []\<rparr>"
    using assms d
    by (auto simp: guarded_def open_session_def session_guard_def resolveSessionUser_def resolveSystemUserById_def
        store_step_def ask_redis_def catching_def unexpired_def or_null_def holds_session_def usable_def act_run)
  then show ?thesis ..
qed

lemma guard_gates:
  assumes "undisturbed env" "holds_session T sid u s" "si_clock env 0 \<le> T" "si_clock env 1 \<le> T" "su_mustChangePassword u"
  shows "fst (answer (who_is_there env sid False) s) = Inl (Refused (Forbidden MUST_CHANGE_PASSWORD))"
proof -
  obtain d e c where d: "sess_keys s sid = Some (Payload d, e)" "sd_systemUserId d = Some (su_id u)" "sd_createdAt d = Some c"
      "T \<le> e" "T \<le> c + SESSION_ABSOLUTE_MAX_AGE_MS"
    using assms(2) by (auto simp: holds_session_def in_use_def)
  then show ?thesis
    using assms
    by (auto simp: answer_def who_is_there_def guarded_def open_session_def session_guard_def resolveSessionUser_def
        resolveSystemUserById_def store_step_def ask_redis_def catching_def unexpired_def or_null_def holds_session_def
        usable_def act_run)
qed

definition with_new_password :: "sign_in_env \<Rightarrow> string \<Rightarrow> time \<Rightarrow> system_user \<Rightarrow> system_user" where
  "with_new_password env new at u =
     u\<lparr>su_passwordHash := si_argon2_hash env new, su_mustChangePassword := False, su_updatedAt := at\<rparr>"

lemma password_route_outcome:
  assumes "undisturbed env" "holds_session T sid u s" "si_clock env 0 \<le> T" "si_clock env 1 \<le> T"
  shows "answer (password_route env sid cur new) s =
    (if \<not> new_password_ok new then (Inl (Refused (BadRequest INVALID_NEW_PASSWORD)), s, [])
     else if \<not> verify_password env (su_passwordHash u) cur then
       (Inl (Refused (BadRequest INVALID_CURRENT_PASSWORD)), s, [PasswordChecked])
     else if cur = new then (Inl (Refused (BadRequest PASSWORD_UNCHANGED)), s, [PasswordChecked])
     else (Inr (), s\<lparr>users := set_where (\<lambda>x. su_id x = su_id u) (with_new_password env new (si_clock env 4)) (users s)\<rparr>,
       [PasswordChecked]))"
proof -
  obtain d where run: "guarded env sid True (\<lambda>_ user. changePassword env 3 user cur new) \<lparr>base = s, mine = s, trace = []\<rparr> =
      changePassword env 3 u cur new \<lparr>base = s, mine = s, trace = []\<rparr>"
    using guard_opens [OF assms, of True "\<lambda>_ user. changePassword env 3 user cur new"] by auto
  have u: "user_at (su_id u) s = Some u" using assms(2) by (simp add: holds_session_def)
  show ?thesis unfolding answer_def password_route_def run
    using assms(1) u
    by (auto simp: changePassword_def changeOwnPassword_def check_password_def set_user_def with_new_password_def [abs_def] act_run)
qed

subsection \<open>Counting the checks\<close>

text \<open>The login attempts of a run, one after the other, with what they try.\<close>

type_synonym attempt = "sign_in_env \<times> login_request \<times> string \<times> string"

definition try_login :: "attempt \<Rightarrow> (int + login_response) sign_in_act" where
  "try_login x = (case x of (env, req, email, password) \<Rightarrow> login_route env req email password)"

definition tries_password :: "sign_in \<Rightarrow> attempt \<Rightarrow> bool" where
  "tries_password s x \<longleftrightarrow> PasswordChecked \<in> set (snd (snd (answer (try_login x) s)))"

definition attempt_ip :: "attempt \<Rightarrow> string" where
  "attempt_ip x = rq_ip (fst (snd x))"

definition attempt_at :: "attempt \<Rightarrow> time" where
  "attempt_at x = si_clock (fst x) 1"

fun checks_between :: "string \<Rightarrow> sign_in \<Rightarrow> attempt list \<Rightarrow> time \<Rightarrow> time \<Rightarrow> nat" where
  "checks_between ip s [] a b = 0"
| "checks_between ip s (x # xs) a b =
     (if attempt_ip x = ip \<and> tries_password s x \<and> a \<le> attempt_at x \<and> attempt_at x \<le> b then 1 else 0) +
     checks_between ip (leaves (try_login x) s) xs a b"

text \<open>Other transactions leave the counter of an address alone; every write to it is a counted hit.\<close>

definition leaves_counters :: "sign_in_env \<Rightarrow> bool" where
  "leaves_counters env \<longleftrightarrow> (\<forall>k s. counters (others env k s) = counters s)"

definition counter_is :: "string \<Rightarrow> (nat \<times> time) option \<Rightarrow> sign_in \<Rightarrow> bool" where
  "counter_is key c s \<longleftrightarrow> counters s key = c"

lemma counter_polite: "leaves_counters env \<Longrightarrow> polite (counter_is key c) env"
  by (simp add: leaves_counters_def polite_def counter_is_def)

lemma keys_differ: "loginIpEmailKey env ip email \<noteq> loginIpKey ip'"
  by (simp add: loginIpEmailKey_def loginIpKey_def)

lemma counter_redis:
  "leaves_counters env \<Longrightarrow> (\<And>t s. counters (fst (g t s)) key = counters s key) \<Longrightarrow> safe (counter_is key c) (tell_redis env k g)"
  by (rule safe_tell_redis [OF counter_polite]) (simp_all add: counter_is_def)

lemma counters_simps [simp]:
  "counters (srem t u ids s) = counters s" "counters (sadd t u sid s) = counters s" "counters (fst (del_session t sid s)) = counters s"
  by (simp_all add: srem_def sadd_def del_session_def Let_def)

lemma counter_login:
  assumes "leaves_counters env"
  shows "safe (counter_is (loginIpKey ip) c) (login env k req email password)"
proof -
  note polite = counter_polite [OF assms]
  have stored: "safe (counter_is (loginIpKey ip) c) (atomically (put env j g) :: unit sign_in_act)"
    if "\<And>s s' a. g s = Inr (s', a) \<Longrightarrow> counters s' = counters s" for j g
    by (intro safe_intros polite) (auto simp: counter_is_def dest: that)
  have quiet: "safe (counter_is (loginIpKey ip) c) (insertQuietly env j row)" for j row
    unfolding insertQuietly_def by (intro safe_quietly stored) (auto simp: insert_login_def split: if_splits)
  have check: "safe (counter_is (loginIpKey ip) c) (check_password env digest plain)" for digest plain
    unfolding check_password_def by (intro safe_intros)
  have reject: "safe (counter_is (loginIpKey ip) c) (reject_login env j u m i a :: system_user sign_in_act)" for j u m i a
    unfolding reject_login_def recordFailure_def logFailure_def
    by (intro safe_andThen) (auto intro!: safe_basic quiet split: option.splits)
  have validate: "safe (counter_is (loginIpKey ip) c) (validateCredentials env j m p i a)" for j m p i a
    unfolding validateCredentials_def Let_def
    by (intro safe_andThen safe_fetch polite) (auto intro!: safe_andThen safe_basic check reject split: option.splits)
  have rest: "safe (counter_is (loginIpKey ip) c) (establish_session env j req email u)" for j u
    unfolding establish_session_def Let_def regenerateSession_def destroySession_def saveSession_def track_def
      touchLastLogin_def recordSuccess_def clearLoginThrottle_def
    by (intro safe_andThen safe_basic safe_store_step safe_quietly counter_redis assms quiet stored)
      (auto simp: set_user_def with_keys_def keys_differ keys_differ [symmetric] split: option.splits)
  show ?thesis unfolding login_def by (intro safe_andThen validate rest)
qed

lemma increment_run:
  assumes "leaves_counters env" "base w = mine w" "increment env k key ttl lim w = (r, w')"
  shows "base w' = mine w' \<and> trace w' = trace w \<and>
    ((\<exists>e. r = Inl e) \<and> counters (mine w') = counters (mine w) \<or>
     (\<exists>n e. hit ttl (si_clock env k) (counters (mine w) key) = (n, e) \<and>
       r = Inr (throttle_answer ttl lim n (e - si_clock env k)) \<and>
       counters (mine w') = (counters (mine w))(key := Some (n, e))))"
  using assms
  by (auto simp: increment_def tell_redis_def atomically_def put_def issue_def meanwhile_def catching_def act_run
      leaves_counters_def split: option.splits prod.splits sum.splits)

text \<open>One attempt hits the counter of its address at most once, and tries the password only below the limit.\<close>

lemma attempt_counts:
  assumes "leaves_counters env" "x = (env, req, email, password)"
  defines "key \<equiv> loginIpKey (rq_ip req)"
  shows "counters (leaves (try_login x) s) key = counters s key \<and> \<not> tries_password s x \<or>
    counters (leaves (try_login x) s) key = Some (hit LOGIN_THROTTLE_TTL_MS (si_clock env 1) (counters s key)) \<and>
    (tries_password s x \<longrightarrow> fst (hit LOGIN_THROTTLE_TTL_MS (si_clock env 1) (counters s key)) \<le> LOGIN_IP_LIMIT)"
proof -
  let ?w = "\<lparr>base = s, mine = s, trace = []\<rparr> :: (sign_in, sign_in_event) store"
  let ?k1 = "generateKey env (rq_ip req) (Some email) LOGIN_IP_EMAIL_THROTTLER"
  have other: "?k1 \<noteq> key" by (simp add: generateKey_def key_def keys_differ)
  obtain r1 w1 where one: "increment env 0 ?k1 LOGIN_THROTTLE_TTL_MS LOGIN_IP_EMAIL_LIMIT ?w = (r1, w1)" by fastforce
  note f1 = increment_run [OF assms(1) _ one]
  have w1: "base w1 = mine w1" "trace w1 = []" "counters (mine w1) key = counters s key" using f1 other by auto
  obtain r2 w2 where two: "increment env 1 key LOGIN_THROTTLE_TTL_MS LOGIN_IP_LIMIT w1 = (r2, w2)" by fastforce
  note f2 = increment_run [OF assms(1) w1(1) two]
  obtain r3 w3 where three: "login env 2 req email password w2 = (r3, w3)" by fastforce
  have kept: "counters (base w3) key = counters (base w2) key"
    using counter_login [OF assms(1), of "rq_ip req" "counters (base w2) key" 2 req email password] f2 three
    unfolding safe_def counter_is_def key_def by (metis snd_conv)
  have run: "snd (login_route env req email password ?w) =
      (case r1 of Inl _ \<Rightarrow> w1 | Inr a \<Rightarrow> if tr_isBlocked a then w1 else
        (case r2 of Inl _ \<Rightarrow> w2 | Inr b \<Rightarrow> if tr_isBlocked b then w2 else w3))"
    using one two three
    by (auto simp: login_route_def login_throttlers_def limit_of_def generateKey_def key_def act_run
        split: sum.splits prod.splits)
  have "leaves (try_login x) s = base (snd (login_route env req email password ?w))"
      "tries_password s x \<longleftrightarrow> PasswordChecked \<in> set (trace (snd (login_route env req email password ?w)))"
    by (auto simp: assms(2) try_login_def tries_password_def leaves_def answer_def split: prod.splits)
  then show ?thesis unfolding run
    using f1 f2 w1 other kept
    by (auto simp: throttle_answer_def Let_def split: sum.splits)
qed

lemma loginIpKey_inj: "loginIpKey a = loginIpKey b \<Longrightarrow> a = b"
  by (simp add: loginIpKey_def)

lemma attempt_elsewhere:
  assumes "leaves_counters env" "rq_ip req \<noteq> ip"
  shows "counters (leaves (try_login (env, req, email, password)) s) (loginIpKey ip) = counters s (loginIpKey ip)"
proof -
  have hit: "safe (counter_is (loginIpKey ip) c) (increment env k (generateKey env (rq_ip req) e name) ttl lim)" for c k e name ttl lim
    unfolding increment_def
    by (intro safe_catching safe_andThen safe_basic counter_redis assms(1))
      (use assms(2) in \<open>auto simp: case_prod_beta Let_def generateKey_def keys_differ [symmetric] split: throttler_name.splits
        intro: safe_basic dest: loginIpKey_inj\<close>)
  have "safe (counter_is (loginIpKey ip) c) (throttle_all env k (rq_ip req) e names)" for c k e names
    by (induction names arbitrary: k) (auto intro!: safe_andThen safe_basic hit)
  then have "safe (counter_is (loginIpKey ip) c) (login_route env req email password)" for c
    unfolding login_route_def
    by (intro safe_andThen) (auto intro!: safe_andThen safe_basic counter_login assms(1) split: option.splits)
  from leaves_safe [OF this, of "counters s (loginIpKey ip)" s] show ?thesis
    by (simp add: counter_is_def try_login_def)
qed

lemma checks_bounded:
  assumes "list_all (\<lambda>x. leaves_counters (fst x)) xs" "sorted (map attempt_at xs)"
  shows "\<exists>ts. sorted ts \<and> set ts \<subseteq> attempt_at ` set xs \<and>
    checks_between ip s xs a b \<le> passed_between LOGIN_THROTTLE_TTL_MS LOGIN_IP_LIMIT (counters s (loginIpKey ip)) ts a b"
  using assms
proof (induction xs arbitrary: s)
  case Nil
  then show ?case by (auto intro: exI [of _ "[]"])
next
  case (Cons x xs)
  obtain env req email password where x: "x = (env, req, email, password)" by (cases x) auto
  have env: "leaves_counters env" using Cons.prems(1) x by simp
  let ?s = "leaves (try_login x) s" and ?key = "loginIpKey ip"
  have rest: "list_all (\<lambda>x. leaves_counters (fst x)) xs" "sorted (map attempt_at xs)" using Cons.prems by simp_all
  obtain ts where ts: "sorted ts" "set ts \<subseteq> attempt_at ` set xs"
      "checks_between ip ?s xs a b \<le> passed_between LOGIN_THROTTLE_TTL_MS LOGIN_IP_LIMIT (counters ?s ?key) ts a b"
    using Cons.IH [OF rest, of ?s] by blast
  have later: "\<forall>t \<in> set ts. attempt_at x \<le> t" using ts(2) Cons.prems(2) by auto
  show ?case
  proof (cases "counters ?s ?key = counters s ?key \<and> (attempt_ip x = ip \<longrightarrow> \<not> tries_password s x)")
    case True
    then show ?thesis using ts by (intro exI [of _ ts]) auto
  next
    case False
    then have ip: "rq_ip req = ip" using attempt_elsewhere [OF env, of req ip email password s] x by (auto simp: attempt_ip_def)
    let ?t = "attempt_at x"
    have "counters ?s ?key = Some (hit LOGIN_THROTTLE_TTL_MS ?t (counters s ?key)) \<and>
        (tries_password s x \<longrightarrow> fst (hit LOGIN_THROTTLE_TTL_MS ?t (counters s ?key)) \<le> LOGIN_IP_LIMIT)"
      using attempt_counts [OF env x, of s] False ip x by (auto simp: attempt_at_def attempt_ip_def)
    then show ?thesis using ts later by (intro exI [of _ "?t # ts"]) auto
  qed
qed

end
