(* ===== verification/SignInProperties.thy ===== *)
theory SignInProperties
  imports SignInFacts
begin

text \<open>
  The promises of the sign-in component with concrete runs that apply them: a super administrator
  \<open>boss\<close> and a viewer \<open>ann\<close>, one login each, a second for \<open>ann\<close>.
\<close>

subsection \<open>A small office\<close>

definition no_auth_change :: "nat \<Rightarrow> sign_in \<Rightarrow> sign_in" where
  "no_auth_change k s = s"

definition auth_env :: "time \<Rightarrow> string \<Rightarrow> sign_in_env" where
  "auth_env t sid = \<lparr>others = no_auth_change, breaks = \<lambda>_. None, si_clock = \<lambda>k. t + int k, si_new_sid = sid,
     si_row_id = \<lambda>k. sid @ show_nat k, si_argon2_verify = \<lambda>d p. Inr (d = CHR ''$'' # p),
     si_argon2_hash = \<lambda>p. CHR ''$'' # p, si_dummy = ''none'', si_handle = \<lambda>s. CHR ''h'' # s,
     si_digest = \<lambda>x. x, si_lower = \<lambda>x. x,
     si_collation = \<lambda>a b. if a = b then 0 else if a < b then -1 else 1, si_idle_ttl = 28800000,
     si_missing = JsError True (Some ''P2025'') None None NoTarget None None None None\<rparr>"

definition office_member :: "string \<Rightarrow> system_role \<Rightarrow> bool \<Rightarrow> system_user" where
  "office_member name role mustChange = \<lparr>su_id = name, su_email = name @ ''@x'', su_passwordHash = CHR ''$'' # name,
     su_firstName = name, su_lastName = ''L'', su_role = role, su_mustChangePassword = mustChange,
     su_departmentId = 1, su_personnelRoleId = 1, su_phoneNumber = None, su_profilePictureUrl = None,
     su_isActive = True, su_lastLoginAt = None, su_deletedAt = None, su_createdById = None, su_lineUserId = None,
     su_createdAt = 0, su_updatedAt = 0\<rparr>"

definition nothing_stored :: "string \<Rightarrow> 'a option" where
  "nothing_stored key = None"

definition quiet_office :: sign_in where
  "quiet_office = \<lparr>users = [office_member ''boss'' SUPER_ADMIN False, office_member ''ann'' VIEWER True], login_rows = [],
     sess_keys = nothing_stored, sess_index = nothing_stored, counters = nothing_stored\<rparr>"

definition form_of :: "string \<Rightarrow> string \<Rightarrow> sign_in_form" where
  "form_of name password = \<lparr>sf_sid = ''new'', sf_ip = ''10.0.0.1'', sf_userAgent = None, sf_email = name @ ''@x'',
     sf_password = password\<rparr>"

definition three_logins :: "(sign_in_env \<times> auth_call) list" where
  "three_logins = [(auth_env 1000 ''S1'', SignInCall (form_of ''boss'' ''boss'')),
     (auth_env 2000 ''S2'', SignInCall (form_of ''ann'' ''ann'')),
     (auth_env 3000 ''S3'', SignInCall (form_of ''ann'' ''ann''))]"

lemma auth_env_calm [simp]: "calm_auth (auth_env t sid)" "undisturbed (auth_env t sid)" "forges_nothing (auth_env t sid)"
    "leaves_counters (auth_env t sid)"
  by (simp_all add: calm_auth_def undisturbed_def auth_env_def no_auth_change_def mono_def fun_eq_iff forges_nothing_def
      leaves_counters_def)

lemma auth_env_clock [simp]: "si_clock (auth_env t sid) k = t + int k"
  by (simp add: auth_env_def)

lemma quiet_office_empty [simp]: "sess_keys quiet_office = (\<lambda>_. None)"
  by (simp add: quiet_office_def nothing_stored_def [abs_def])

text \<open>The three logins one after the other.\<close>

definition boss :: system_user where
  "boss = office_member ''boss'' SUPER_ADMIN False"

definition ann :: system_user where
  "ann = office_member ''ann'' VIEWER True"

definition office_1 :: sign_in where
  "office_1 = after_login (auth_env 1000 ''S1'') 3 (first_visit (form_of ''boss'' ''boss'')) ''boss@x'' boss quiet_office"

definition office_2 :: sign_in where
  "office_2 = after_login (auth_env 2000 ''S2'') 3 (first_visit (form_of ''ann'' ''ann'')) ''ann@x'' ann office_1"

definition office_3 :: sign_in where
  "office_3 = after_login (auth_env 3000 ''S3'') 3 (first_visit (form_of ''ann'' ''ann'')) ''ann@x'' (stamped 2006 ann) office_2"

lemma served_1: "serve_auth quiet_office (auth_env 1000 ''S1'', SignInCall (form_of ''boss'' ''boss'')) = office_1"
proof -
  have "unexpired (si_clock (auth_env 1000 ''S1'') 0) (sess_keys quiet_office (sf_sid (form_of ''boss'' ''boss''))) = None"
      "user_with_email (normalise_email (auth_env 1000 ''S1'') (Some (sf_email (form_of ''boss'' ''boss'')))) quiet_office = Some boss"
      "usable boss" "verify_password (auth_env 1000 ''S1'') (su_passwordHash boss) (sf_password (form_of ''boss'' ''boss''))"
      "sf_email (form_of ''boss'' ''boss'') = ''boss@x''"
    by code_simp+
  from serve_sign_in [OF auth_env_calm(2) this(1-4)] this(5) show ?thesis by (simp add: office_1_def)
qed

lemma served_2: "serve_auth office_1 (auth_env 2000 ''S2'', SignInCall (form_of ''ann'' ''ann'')) = office_2"
proof -
  have "unexpired (si_clock (auth_env 2000 ''S2'') 0) (sess_keys office_1 (sf_sid (form_of ''ann'' ''ann''))) = None"
      "user_with_email (normalise_email (auth_env 2000 ''S2'') (Some (sf_email (form_of ''ann'' ''ann'')))) office_1 = Some ann"
      "usable ann" "verify_password (auth_env 2000 ''S2'') (su_passwordHash ann) (sf_password (form_of ''ann'' ''ann''))"
      "sf_email (form_of ''ann'' ''ann'') = ''ann@x''"
    by code_simp+
  from serve_sign_in [OF auth_env_calm(2) this(1-4)] this(5) show ?thesis by (simp add: office_2_def)
qed

lemma served_3: "serve_auth office_2 (auth_env 3000 ''S3'', SignInCall (form_of ''ann'' ''ann'')) = office_3"
proof -
  have "unexpired (si_clock (auth_env 3000 ''S3'') 0) (sess_keys office_2 (sf_sid (form_of ''ann'' ''ann''))) = None"
      "user_with_email (normalise_email (auth_env 3000 ''S3'') (Some (sf_email (form_of ''ann'' ''ann'')))) office_2 =
        Some (stamped 2006 ann)"
      "usable (stamped 2006 ann)"
      "verify_password (auth_env 3000 ''S3'') (su_passwordHash (stamped 2006 ann)) (sf_password (form_of ''ann'' ''ann''))"
      "sf_email (form_of ''ann'' ''ann'') = ''ann@x''"
    by code_simp+
  from serve_sign_in [OF auth_env_calm(2) this(1-4)] this(5) show ?thesis by (simp add: office_3_def)
qed

lemma three_logins_run: "run_ops serve_auth quiet_office three_logins = office_3"
  by (simp add: three_logins_def served_1 served_2 served_3)

lemma three_logins_timed: "run_ops timed_step (0, quiet_office) three_logins = (3012, office_3)"
  by (simp add: three_logins_def timed_step_def served_1 served_2 served_3)

lemma three_logins_calm: "list_all (\<lambda>x. forges_nothing (fst x)) three_logins" "list_all (\<lambda>x. calm_auth (fst x)) three_logins"
  by (simp_all add: three_logins_def)

subsection \<open>Who is let in\<close>

text \<open>
  C29: Nobody is let in without having signed in. After any run of requests, revocations, staff changes
  and ends of requests, whatever other transactions do in between short of forging a session, and
  whichever statements fail: a cookie that passes the guard was handed out by a login of this run
  whose form carried the email and the password of the very account the guard answers with, at most
  24 hours ago, and that account is live and active now; one that must change its password passes
  only where that is allowed.
\<close>

theorem guard_admits_only_signed_in:
  assumes "sess_keys s = (\<lambda>_. None)" "list_all (\<lambda>x. forges_nothing (fst x)) xs" "forges_nothing env"
    and "fst (answer (who_is_there env sid exempt) (run_ops serve_auth s xs)) = Inr user"
  shows "(\<exists>ys x zs c. xs = ys @ x # zs \<and> (sid, su_id user, Some c) \<in> signs_in (run_ops serve_auth s ys) x \<and>
      si_clock env 1 - c \<le> SESSION_ABSOLUTE_MAX_AGE_MS) \<and>
    user \<in> set (users (others env 1 (others env 0 (run_ops serve_auth s xs)))) \<and> usable user \<and>
    (su_mustChangePassword user \<longrightarrow> exempt)"
proof -
  let ?s = "run_ops serve_auth s xs" and ?L = "fst (run_ops logged_step ({}, s) xs)"
  have "vouched {} s" using assms(1) by (simp add: vouched_def)
  then have "vouched ?L ?s" using logged.run_inv [of "({}, s)" xs] assms(2) logged_run by simp
  then have now: "vouched ?L (others env 0 ?s)" using assms(3) by (auto simp: forges_nothing_def intro: shrinks_vouched)
  obtain s' es where "answer (who_is_there env sid exempt) ?s = (Inr user, s', es)"
    using assms(4) by (metis prod.collapse)
  from guard_admits [OF this] obtain d e where d: "sess_keys (others env 0 ?s) sid = Some (Payload d, e)"
      "sd_systemUserId d = Some (su_id user)"
      "si_clock env 1 - (case sd_createdAt d of None \<Rightarrow> 0 | Some c \<Rightarrow> c) \<le> SESSION_ABSOLUTE_MAX_AGE_MS"
      "user \<in> set (users (others env 1 (others env 0 ?s)))" "usable user" "su_mustChangePassword user \<longrightarrow> exempt"
    by blast
  have "(sid, su_id user, sd_createdAt d) \<in> ?L" using now d(1,2) by (simp add: vouched_def)
  from logged_log [OF this] obtain ys x zs where
      x: "xs = ys @ x # zs" "(sid, su_id user, sd_createdAt d) \<in> signs_in (run_ops serve_auth s ys) x" by auto
  then obtain c where c: "sd_createdAt d = Some c" by (auto simp: signs_in_def split: prod.splits auth_call.splits)
  have "si_clock env 1 - c \<le> SESSION_ABSOLUTE_MAX_AGE_MS" using d(3) c by simp
  with x(1) x(2) [unfolded c] d(4-6) show ?thesis by blast
qed

lemma ann_passes: "\<exists>user. fst (answer (who_is_there (auth_env 5000 ''S9'') ''S2'' True) office_3) = Inr user \<and> su_id user = ''ann''"
proof -
  have "(case fst (answer (who_is_there (auth_env 5000 ''S9'') ''S2'' True) office_3) of
      Inr user \<Rightarrow> su_id user = ''ann'' | Inl _ \<Rightarrow> False)" by code_simp
  then show ?thesis by (auto split: sum.splits)
qed

theorem guard_admits_only_signed_in_witness:
  "\<exists>user. fst (answer (who_is_there (auth_env 5000 ''S9'') ''S2'' True) (run_ops serve_auth quiet_office three_logins)) = Inr user \<and>
     su_id user = ''ann'' \<and> usable user \<and>
     (\<exists>ys x zs c. three_logins = ys @ x # zs \<and> (''S2'', su_id user, Some c) \<in> signs_in (run_ops serve_auth quiet_office ys) x)"
proof -
  obtain user where user: "fst (answer (who_is_there (auth_env 5000 ''S9'') ''S2'' True)
      (run_ops serve_auth quiet_office three_logins)) = Inr user" "su_id user = ''ann''"
    using ann_passes unfolding three_logins_run by blast
  from guard_admits_only_signed_in [OF quiet_office_empty three_logins_calm(1) auth_env_calm(3) user(1)] user
  show ?thesis by blast
qed

subsection \<open>Forced sign-out\<close>

text \<open>
  C30: A forced sign-out is complete. After any calls that ran one at a time under a clock that never
  goes back, with Redis answering, a force sign-out that reports success leaves no cookie with which
  the target passes the guard, however long its sessions would have lasted, because the index named
  every one of them; it touches the session of nobody else and leaves the accounts as they are: the
  target is not suspended and may sign in again.
\<close>

theorem forced_sign_out_is_complete:
  assumes "sess_keys s0 = (\<lambda>_. None)" "list_all (\<lambda>x. calm_auth (fst x)) xs" "run_ops timed_step (T, s0) xs = (T', s)"
    and "calm_auth env" "T' \<le> si_clock env 0" "fst (answer (force_revoke_route env sid i) s) = Inr n"
  shows "(\<forall>env' sid' exempt user. calm_auth env' \<longrightarrow> si_clock env 12 \<le> si_clock env' 0 \<longrightarrow>
      fst (answer (who_is_there env' sid' exempt) (leaves (force_revoke_route env sid i) s)) = Inr user \<longrightarrow> su_id user \<noteq> i) \<and>
    (\<forall>sid' d e. sess_keys s sid' = Some (Payload d, e) \<longrightarrow> sd_systemUserId d \<noteq> Some i \<longrightarrow>
      sess_keys (leaves (force_revoke_route env sid i) s) sid' = Some (Payload d, e)) \<and>
    users (leaves (force_revoke_route env sid i) s) = users s"
proof -
  let ?T = "si_clock env 12" and ?s' = "leaves (force_revoke_route env sid i) s"
  have "T' \<le> ?T" using assms(5) calm_authD(2) [OF assms(4), of 0 12] by simp
  then have start: "indexed {} ?T ?T s" using indexed_later [OF indexed_run [OF assms(1-3)]] by blast
  obtain es where "answer (force_revoke_route env sid i) s = (Inr n, ?s', es)"
    using assms(6) by (metis leaves_def prod.collapse)
  from triple_answer_ok [OF triple_force_revoke_route [OF assms(4) order.refl start] refl this]
  have after: "indexed {} ?T ?T ?s'" "revoked_all ?T i None s ?s'" by simp_all
  have out: "su_id user \<noteq> i" if later: "calm_auth env'" "?T \<le> si_clock env' 0"
    and admitted: "fst (answer (who_is_there env' sid' exempt) ?s') = Inr user" for env' sid' exempt user
  proof -
    obtain s'' es' where "answer (who_is_there env' sid' exempt) ?s' = (Inr user, s'', es')"
      using admitted by (metis prod.collapse)
    from admitted_in_use(1) [OF this later(1) after(1) later(2)] show ?thesis
      using after(2) by (auto simp: revoked_all_def)
  qed
  have others: "sess_keys ?s' sid' = Some (Payload d, e)"
    if "sess_keys s sid' = Some (Payload d, e)" "sd_systemUserId d \<noteq> Some i" for sid' d e
  proof -
    have "sess_keys ?s' sid' = sess_keys s sid' \<or>
        (\<exists>d e. sess_keys s sid' = Some (Payload d, e) \<and> sd_systemUserId d = Some i)"
      using after(2) unfolding revoked_all_def by blast
    then show ?thesis using that by auto
  qed
  show ?thesis using out others after(2) by (simp add: revoked_all_def)
qed

lemma boss_forces_ann_out: "fst (answer (force_revoke_route (auth_env 10000 ''S9'') ''S1'' ''ann'') office_3) = Inr 2"
  by code_simp

theorem forced_sign_out_is_complete_witness:
  "fst (answer (force_revoke_route (auth_env 10000 ''S9'') ''S1'' ''ann'') office_3) = Inr 2 \<and>
   \<not> (\<exists>user. fst (answer (who_is_there (auth_env 20000 ''S9'') ''S3'' True)
      (leaves (force_revoke_route (auth_env 10000 ''S9'') ''S1'' ''ann'') office_3)) = Inr user \<and> su_id user = ''ann'') \<and>
   users (leaves (force_revoke_route (auth_env 10000 ''S9'') ''S1'' ''ann'') office_3) = users office_3"
proof -
  have "(3012 :: time) \<le> si_clock (auth_env 10000 ''S9'') 0"
      "si_clock (auth_env 10000 ''S9'') 12 \<le> si_clock (auth_env 20000 ''S9'') 0" by simp_all
  then show ?thesis
    using forced_sign_out_is_complete [OF quiet_office_empty three_logins_calm(2) three_logins_timed auth_env_calm(1) _
        boss_forces_ann_out] boss_forces_ann_out auth_env_calm(1) by blast
qed

subsection \<open>A rejected login\<close>

text \<open>
  C31: Rejected logins look alike. A login is accepted exactly when the account with the email is live
  and active and the password is its own; every other attempt, be the email unknown, the account
  suspended or deleted or the password wrong, gets the same answer, costs the same one run of argon2
  and logs the same line, which depend on the form alone; it changes no account and no session, and
  leaves at most one row in the history of the account that was addressed.
\<close>

theorem rejected_logins_look_alike:
  assumes "undisturbed env"
  shows "(\<exists>u. answer (validateCredentials env k email password ip ua) s = (Inr u, s, [PasswordChecked]) \<and>
      user_with_email (normalise_email env (Some email)) s = Some u \<and> usable u \<and>
      verify_password env (su_passwordHash u) password) \<or>
    (\<exists>rows. answer (validateCredentials env k email password ip ua) s =
        (Inl (Refused (Unauthorized INVALID_CREDENTIALS)), s\<lparr>login_rows := login_rows s @ rows\<rparr>,
         [PasswordChecked, LoginFailureLogged (normalise_email env (Some email)) ip]) \<and>
      length rows \<le> 1 \<and>
      (\<forall>r \<in> set rows. lr_status r = FAILED_BAD_PASSWORD \<and>
        map_option su_id (user_with_email (normalise_email env (Some email)) s) = Some (lr_systemUserId r)) \<and>
      \<not> (\<exists>u. user_with_email (normalise_email env (Some email)) s = Some u \<and> usable u \<and>
        verify_password env (su_passwordHash u) password))"
proof (cases "user_with_email (normalise_email env (Some email)) s")
  case None
  then show ?thesis using validate_outcome [OF assms, of k email password ip ua s] by (intro disjI2 exI [of _ "[]"]) simp
next
  case (Some u)
  show ?thesis
  proof (cases "usable u \<and> verify_password env (su_passwordHash u) password")
    case True
    then show ?thesis using Some validate_outcome [OF assms, of k email password ip ua s] by auto
  next
    case False
    then show ?thesis using Some validate_outcome [OF assms, of k email password ip ua s]
      by (intro disjI2 exI [of _ "[failure_row env (k + 1) (su_id u) ip ua]"]) (auto simp: failure_row_def)
  qed
qed

lemma nobody_has_p: "\<not> (\<exists>u. user_with_email m quiet_office = Some u \<and> usable u \<and>
    verify_password (auth_env 1 ''S'') (su_passwordHash u) ''p'')"
proof -
  have "\<forall>u \<in> set (users quiet_office). \<not> verify_password (auth_env 1 ''S'') (su_passwordHash u) ''p''" by code_simp
  then show ?thesis using user_with_email_mem by blast
qed

theorem rejected_logins_look_alike_witness:
  "fst (answer (validateCredentials (auth_env 1 ''S'') 1 ''who@x'' ''p'' ''1'' []) quiet_office) =
     fst (answer (validateCredentials (auth_env 1 ''S'') 1 ''ann@x'' ''p'' ''1'' []) quiet_office) \<and>
   snd (snd (answer (validateCredentials (auth_env 1 ''S'') 1 ''ann@x'' ''p'' ''1'' []) quiet_office)) =
     [PasswordChecked, LoginFailureLogged ''ann@x'' ''1'']"
proof -
  have email: "normalise_email (auth_env 1 ''S'') (Some ''ann@x'') = ''ann@x''" by code_simp
  have rejected: "\<exists>rows. answer (validateCredentials (auth_env 1 ''S'') 1 m ''p'' ''1'' []) quiet_office =
      (Inl (Refused (Unauthorized INVALID_CREDENTIALS)), quiet_office\<lparr>login_rows := login_rows quiet_office @ rows\<rparr>,
       [PasswordChecked, LoginFailureLogged (normalise_email (auth_env 1 ''S'') (Some m)) ''1''])" for m
    using rejected_logins_look_alike [OF auth_env_calm(2), of 1 "''S''" 1 m "''p''" "''1''" "[]" quiet_office] nobody_has_p by blast
  show ?thesis using rejected [of "''who@x''"] rejected [of "''ann@x''"] email by auto
qed

subsection \<open>The forced change of a password\<close>




subsection \<open>How many passwords an address can try\<close>

text \<open>
  C33: One address tries at most 40 passwords in any 15 minutes. However many logins arrive, from
  whichever addresses, for whichever accounts, interleaved with whatever leaves the counters alone,
  and although every success clears the counter of its email: the attempts of one address that reach
  a password check within any span of 15 minutes are at most twice the limit of 20, wherever the
  windows of the counter lie; a store that fails lets nobody through.
\<close>

theorem guesses_per_address_bounded:
  assumes "list_all (\<lambda>x. leaves_counters (fst x)) xs" "sorted (map attempt_at xs)"
  shows "checks_between ip s xs a (a + LOGIN_THROTTLE_TTL_MS) \<le> 40"
proof -
  obtain ts where ts: "sorted ts" "checks_between ip s xs a (a + LOGIN_THROTTLE_TTL_MS) \<le>
      passed_between LOGIN_THROTTLE_TTL_MS LOGIN_IP_LIMIT (counters s (loginIpKey ip)) ts a (a + LOGIN_THROTTLE_TTL_MS)"
    using checks_bounded [OF assms] by blast
  have "passed_between LOGIN_THROTTLE_TTL_MS LOGIN_IP_LIMIT (counters s (loginIpKey ip)) ts a (a + LOGIN_THROTTLE_TTL_MS)
      \<le> 2 * LOGIN_IP_LIMIT"
    by (rule passed_in_any_span [OF ts(1)]) (simp_all add: LOGIN_IP_LIMIT_def LOGIN_THROTTLE_TTL_MS_def)
  then show ?thesis using ts(2) by (simp add: LOGIN_IP_LIMIT_def)
qed

definition guess :: attempt where
  "guess = (auth_env 1000 ''S1'', first_visit (form_of ''ann'' ''nope''), ''ann@x'', ''nope'')"

theorem guesses_per_address_bounded_witness:
  "checks_between ''10.0.0.1'' quiet_office [guess, guess] 0 900000 \<le> 40"
proof -
  have "list_all (\<lambda>x. leaves_counters (fst x)) [guess, guess]" "sorted (map attempt_at [guess, guess])"
    by (simp_all add: guess_def)
  from guesses_per_address_bounded [OF this, of "''10.0.0.1''" quiet_office 0] show ?thesis
    by (simp add: LOGIN_THROTTLE_TTL_MS_def)
qed

subsection \<open>Temporary passwords\<close>

text \<open>
  A temporary password has no special character, so it never meets the rules a new password must
  meet today: it could not be kept even if nothing forced the change.
\<close>

lemma temporary_password_breaks_rules:
  assumes "\<And>i. draw i < 54"
  shows "\<not> new_password_ok (generateTemporaryPassword draw)"
proof -
  have plain: "list_all (\<lambda>c. \<not> special_char c) TEMP_PASSWORD_ALPHABET" "length TEMP_PASSWORD_ALPHABET = 54" by code_simp+
  then have "\<not> special_char (TEMP_PASSWORD_ALPHABET ! draw i)" for i
    using assms [of i] by (simp add: list_all_length)
  then have "\<not> list_ex special_char (generateTemporaryPassword draw)"
    by (auto simp: generateTemporaryPassword_def list_ex_iff)
  then show ?thesis by (simp add: new_password_ok_def)
qed

end
