(* ===== verification/Uploads.thy ===== *)
theory Uploads
  imports LineUsers Venues "HOL-Library.AList" "HOL-Library.List_Lexorder" "HOL-Library.Char_ord"
begin

text \<open>
  The bucket and what is uploaded to it: \<open>image-sniff.ts\<close>, the operations of \<open>R2StorageService\<close> that
  change the bucket (\<open>src/src/storage/r2-storage.service.ts\<close>), the nightly sweep, and the three upload
  services, of avatars (\<open>auth/avatar-upload.service.ts\<close>), venue photos
  (\<open>venues/venue-photo-upload.service.ts\<close>) and feedback photos (\<open>feedback/feedback-photo.service.ts\<close>).
  A request to R2 is a statement like one to the database: others act before it and it may fail.
\<close>

subsection \<open>What the bytes are\<close>

datatype image_type = IMAGE_JPEG | IMAGE_PNG | IMAGE_WEBP

type_synonym buffer = "8 word list"

definition AVATAR_IMAGE_TYPES :: "(string \<times> image_type) list" where
  "AVATAR_IMAGE_TYPES = [(''image/jpeg'', IMAGE_JPEG), (''image/png'', IMAGE_PNG), (''image/webp'', IMAGE_WEBP)]"

definition isAvatarImageType :: "string \<Rightarrow> image_type option" where
  "isAvatarImageType value = map_of AVATAR_IMAGE_TYPES value"

definition isFeedbackPhotoType :: "string \<Rightarrow> image_type option" where
  "isFeedbackPhotoType value = map_of [(''image/jpeg'', IMAGE_JPEG), (''image/png'', IMAGE_PNG)] value"

definition startsWith :: "buffer \<Rightarrow> 8 word list \<Rightarrow> bool" where
  "startsWith buffer bytes \<longleftrightarrow> length buffer \<ge> length bytes \<and> list_all2 (=) (take (length bytes) buffer) bytes"

definition isJpeg :: "buffer \<Rightarrow> bool" where
  "isJpeg b = startsWith b [0xff, 0xd8, 0xff]"

definition isPng :: "buffer \<Rightarrow> bool" where
  "isPng b = startsWith b [0x89, 0x50, 0x4e, 0x47, 0x0d, 0x0a, 0x1a, 0x0a]"

text \<open>\<open>b.toString('ascii', from, to)\<close>: Node clears the high bit of every byte before it decodes it.\<close>

definition toString_ascii :: "buffer \<Rightarrow> nat \<Rightarrow> nat \<Rightarrow> string" where
  "toString_ascii b from to = map (\<lambda>x. char_of (unat x mod 128)) (take (to - from) (drop from b))"

definition isWebp :: "buffer \<Rightarrow> bool" where
  "isWebp b \<longleftrightarrow> length b \<ge> 12 \<and> toString_ascii b 0 4 = ''RIFF'' \<and> toString_ascii b 8 12 = ''WEBP''"

definition sniffImageType :: "buffer \<Rightarrow> image_type option" where
  "sniffImageType b = (if isJpeg b then Some IMAGE_JPEG else if isPng b then Some IMAGE_PNG
     else if isWebp b then Some IMAGE_WEBP else None)"

subsection \<open>The bucket\<close>

record stored_object =
  ob_bytes :: buffer
  ob_type :: image_type
  ob_modified :: "time option"

record media =
  bucket :: "(string \<times> stored_object) list"
  md_staff :: "system_user list"
  md_photos :: "photo_row list"
  md_followers :: "follower list"

datatype media_message =
    STORAGE_NOT_CONFIGURED | IMAGE_UPLOAD_FAILED | STORAGE_SWEEP_FAILED
  | AVATAR_REQUIRED | AVATAR_TYPE_UNSUPPORTED | VENUE_PHOTO_REQUIRED | VENUE_PHOTO_TYPE_UNSUPPORTED
  | FEEDBACK_PHOTO_REQUIRED | FEEDBACK_PHOTO_TYPE_UNSUPPORTED | MEDIA_NOT_ALLOWED
  | MEDIA_INVALID_PHOTO_URL | VENUE_PHOTO_IN_USE

text \<open>
  The driver, the clock, the public base URL, whether the other four variables are set, the random hex
  of a new key, the keys R2 refuses to delete in a batch, the error of an update without a row.
\<close>

record media_env = "media driver" +
  md_now :: "nat \<Rightarrow> time"
  md_base :: "string option"
  md_credentials :: bool
  md_hex :: string
  md_refuses :: "string \<Rightarrow> bool"
  md_missing :: js_error

type_synonym 'a media_act = "(media, string, media_message, 'a) act"

definition isConfigured :: "media_env \<Rightarrow> bool" where
  "isConfigured env \<longleftrightarrow> md_credentials env \<and> md_base env \<noteq> None"

definition s3 :: "media_env \<Rightarrow> 'a media_act \<Rightarrow> 'a media_act" where
  "s3 env m = (if isConfigured env then m else stop_with (Refused (InternalServerError (Some STORAGE_NOT_CONFIGURED))))"

definition tell_bucket :: "media_env \<Rightarrow> nat \<Rightarrow> ((string \<times> stored_object) list \<Rightarrow> (string \<times> stored_object) list) \<Rightarrow> unit media_act" where
  "tell_bucket env k f = atomically (put env k (\<lambda>s. Inr (s\<lparr>bucket := f (bucket s)\<rparr>, ())))"

definition EXTENSION :: "image_type \<Rightarrow> string" where
  "EXTENSION t = (case t of IMAGE_JPEG \<Rightarrow> ''jpg'' | IMAGE_PNG \<Rightarrow> ''png'' | IMAGE_WEBP \<Rightarrow> ''webp'')"

definition buildAvatarKey :: "media_env \<Rightarrow> string \<Rightarrow> image_type \<Rightarrow> string" where
  "buildAvatarKey env systemUserId t = ''avatars/'' @ systemUserId @ ''/'' @ md_hex env @ ''.'' @ EXTENSION t"

definition buildVenuePhotoKey :: "media_env \<Rightarrow> image_type \<Rightarrow> string" where
  "buildVenuePhotoKey env t = VENUE_PHOTO_STAGING_PREFIX @ md_hex env @ ''.'' @ EXTENSION t"

definition buildFeedbackPhotoKey :: "media_env \<Rightarrow> image_type \<Rightarrow> string" where
  "buildFeedbackPhotoKey env t = ''feedback/'' @ md_hex env @ ''.'' @ EXTENSION t"

text \<open>\<open>getOrThrow\<close>: the callers have put an object before, so the base is there.\<close>

definition publicUrlFor :: "media_env \<Rightarrow> string \<Rightarrow> string media_act" where
  "publicUrlFor env key = (case md_base env of None \<Rightarrow> stop_with (Thrown (md_missing env)) | Some b \<Rightarrow> done_with (b @ ''/'' @ key))"

definition putImage :: "media_env \<Rightarrow> nat \<Rightarrow> string \<Rightarrow> buffer \<Rightarrow> image_type \<Rightarrow> unit media_act" where
  "putImage env k key body contentType = s3 env (catching
     (tell_bucket env k (AList.update key \<lparr>ob_bytes = body, ob_type = contentType, ob_modified = Some (md_now env k)\<rparr>))
     (\<lambda>_. stop_with (Refused (BadGateway IMAGE_UPLOAD_FAILED))))"

definition deleteObject :: "media_env \<Rightarrow> nat \<Rightarrow> string \<Rightarrow> bool media_act" where
  "deleteObject env k key = catching
     (andThen (s3 env (tell_bucket env k (AList.delete key))) (\<lambda>_. done_with True)) (\<lambda>_. done_with False)"

definition copyObject :: "media_env \<Rightarrow> nat \<Rightarrow> string \<Rightarrow> string \<Rightarrow> bool media_act" where
  "copyObject env k fromKey toKey = catching
     (s3 env (andThen (fetch env k (\<lambda>s. map_of (bucket s) fromKey)) (\<lambda>found. case found of
        None \<Rightarrow> stop_with (Thrown (md_missing env))
      | Some x \<Rightarrow> andThen (tell_bucket env (k + 1) (AList.update toKey (x\<lparr>ob_modified := Some (md_now env (k + 1))\<rparr>))) (\<lambda>_.
          done_with True))))
     (\<lambda>_. done_with False)"

subsection \<open>The sweep of the staging folder\<close>

definition STAGED_PHOTO_MIN_AGE_MS :: time where
  "STAGED_PHOTO_MIN_AGE_MS = 24 * 60 * 60 * 1000"

definition DELETE_BATCH_LIMIT :: nat where
  "DELETE_BATCH_LIMIT = 1000"

definition LIST_PAGE :: nat where
  "LIST_PAGE = 1000"

record sweep_result =
  sw_scannedCount :: nat
  sw_eligibleCount :: nat
  sw_deletedCount :: nat
  sw_freedBytes :: nat
  sw_dryRun :: bool

text \<open>\<open>ListObjectsV2\<close> lists in the order of the keys, a page at a time, after the token.\<close>

definition staged_after :: "string option \<Rightarrow> media \<Rightarrow> (string \<times> stored_object) list" where
  "staged_after token s = filter (\<lambda>x. prefix VENUE_PHOTO_STAGING_PREFIX (fst x) \<and>
     (case token of None \<Rightarrow> True | Some a \<Rightarrow> a < fst x)) (sort_key fst (bucket s))"

text \<open>\<open>fuel\<close> bounds the pages; \<open>None\<close> is a listing that has not ended by then.\<close>

fun list_staged ::
  "media_env \<Rightarrow> nat \<Rightarrow> nat \<Rightarrow> string option \<Rightarrow> (string \<times> stored_object) list \<Rightarrow> (string \<times> stored_object) list option media_act"
where
  "list_staged env 0 k token acc = done_with None"
| "list_staged env (Suc fuel) k token acc =
     andThen (fetch env k (staged_after token)) (\<lambda>rest. let page = take LIST_PAGE rest in
     if length rest > LIST_PAGE then list_staged env fuel (k + 1) (Some (fst (last page))) (acc @ page)
     else done_with (Some (acc @ page)))"

definition is_stale :: "time \<Rightarrow> stored_object \<Rightarrow> bool" where
  "is_stale cutoff x = (case ob_modified x of None \<Rightarrow> False | Some t \<Rightarrow> t < cutoff)"

definition batch_without :: "media_env \<Rightarrow> string list \<Rightarrow> (string \<times> stored_object) list \<Rightarrow> (string \<times> stored_object) list" where
  "batch_without env keys xs = filter (\<lambda>x. \<not> (fst x \<in> set keys \<and> \<not> md_refuses env (fst x))) xs"

text \<open>Each batch answers the keys it deleted; a key that is not there counts as deleted.\<close>

fun delete_batches ::
  "media_env \<Rightarrow> nat \<Rightarrow> (string \<times> nat) list list \<Rightarrow> (string \<times> nat) list \<Rightarrow> (string \<times> nat) list media_act"
where
  "delete_batches env k [] gone = done_with gone"
| "delete_batches env k (batch # batches) gone =
     andThen (tell_bucket env k (batch_without env (map fst batch))) (\<lambda>_.
     delete_batches env (k + 1) batches (gone @ filter (\<lambda>x. \<not> md_refuses env (fst x)) batch))"

fun chunks_of :: "nat \<Rightarrow> 'a list \<Rightarrow> nat \<Rightarrow> 'a list list" where
  "chunks_of 0 xs n = []"
| "chunks_of (Suc fuel) xs n = (if xs = [] then [] else take n xs # chunks_of fuel (drop n xs) n)"

definition sweepStagedPhotos :: "media_env \<Rightarrow> nat \<Rightarrow> nat \<Rightarrow> time \<Rightarrow> bool \<Rightarrow> sweep_result option media_act" where
  "sweepStagedPhotos env fuel k olderThanMs dryRun = (let cutoff = md_now env k - olderThanMs in
     s3 env (catching
       (andThen (list_staged env fuel k None []) (\<lambda>listed. case listed of
          None \<Rightarrow> done_with None
        | Some objects \<Rightarrow>
            (let eligible = map (\<lambda>x. (fst x, length (ob_bytes (snd x)))) (filter (\<lambda>x. is_stale cutoff (snd x)) objects) in
             andThen (if dryRun then done_with []
               else delete_batches env (k + fuel) (chunks_of (length eligible) eligible DELETE_BATCH_LIMIT) []) (\<lambda>gone.
             done_with (Some \<lparr>sw_scannedCount = length objects, sw_eligibleCount = length eligible,
               sw_deletedCount = length gone, sw_freedBytes = sum_list (map snd (if dryRun then eligible else gone)),
               sw_dryRun = dryRun\<rparr>)))))
       (\<lambda>_. stop_with (Refused (BadGateway STORAGE_SWEEP_FAILED)))))"

text \<open>\<open>OrphanPhotoSweeperCron.sweep\<close>: nothing escapes the tick.\<close>

definition sweep_tick :: "media_env \<Rightarrow> nat \<Rightarrow> unit media_act" where
  "sweep_tick env fuel =
     (if \<not> isConfigured env then done_with ()
      else catching (andThen (sweepStagedPhotos env fuel 0 STAGED_PHOTO_MIN_AGE_MS False) (\<lambda>_. done_with ())) (\<lambda>_. done_with ()))"

subsection \<open>The upload services\<close>

record upload =
  up_buffer :: buffer
  up_mimetype :: string

definition sniffOrThrow :: "upload \<Rightarrow> image_type media_act" where
  "sniffOrThrow file =
     andThen (check (up_buffer file \<noteq> []) (BadRequest AVATAR_REQUIRED)) (\<lambda>_.
     andThen (need (isAvatarImageType (up_mimetype file)) (BadRequest AVATAR_TYPE_UNSUPPORTED)) (\<lambda>declared.
     andThen (check (sniffImageType (up_buffer file) = Some declared) (BadRequest AVATAR_TYPE_UNSUPPORTED)) (\<lambda>_.
     done_with declared)))"

definition setOwnAvatar_row :: "media_env \<Rightarrow> nat \<Rightarrow> string \<Rightarrow> string \<Rightarrow> system_user media_act" where
  "setOwnAvatar_row env k i url = atomically (put env k (\<lambda>s.
     let s' = s\<lparr>md_staff := set_where (\<lambda>u. su_id u = i) (set_picture (Some (Some url)) (md_now env k)) (md_staff s)\<rparr> in
     case first_row (\<lambda>u. su_id u = i) (md_staff s') of None \<Rightarrow> Inl (md_missing env) | Some u \<Rightarrow> Inr (s', u)))"

text \<open>\<open>startsWith\<close>, then the key behind the base.\<close>

definition key_behind :: "string \<Rightarrow> string \<Rightarrow> string" where
  "key_behind b url = drop (length (b @ ''/'')) url"

definition deletePreviousAvatar :: "media_env \<Rightarrow> nat \<Rightarrow> string option \<Rightarrow> unit media_act" where
  "deletePreviousAvatar env k previousUrl =
     (case (Option.bind previousUrl or_null, Option.bind (md_base env) or_null) of
        (Some url, Some b) \<Rightarrow>
          if prefix (b @ ''/avatars/'') url
          then andThen (deleteObject env k (key_behind b url)) (\<lambda>_. done_with ()) else done_with ()
      | _ \<Rightarrow> done_with ())"

text \<open>\<open>user\<close> is the account as the session guard read it.\<close>

definition replaceAvatar :: "media_env \<Rightarrow> system_user \<Rightarrow> upload \<Rightarrow> system_user media_act" where
  "replaceAvatar env user file =
     andThen (sniffOrThrow file) (\<lambda>contentType.
     let key = buildAvatarKey env (su_id user) contentType in
     andThen (putImage env 0 key (up_buffer file) contentType) (\<lambda>_.
     andThen (catching (andThen (publicUrlFor env key) (setOwnAvatar_row env 1 (su_id user)))
       (\<lambda>e. andThen (deleteObject env 2 key) (\<lambda>_. stop_with e))) (\<lambda>updated.
     andThen (deletePreviousAvatar env 3 (su_profilePictureUrl user)) (\<lambda>_.
     done_with updated))))"

definition upload_venue_photo :: "media_env \<Rightarrow> upload \<Rightarrow> string media_act" where
  "upload_venue_photo env file =
     andThen (check (up_buffer file \<noteq> []) (BadRequest VENUE_PHOTO_REQUIRED)) (\<lambda>_.
     andThen (need (isAvatarImageType (up_mimetype file)) (BadRequest VENUE_PHOTO_TYPE_UNSUPPORTED)) (\<lambda>declared.
     andThen (check (sniffImageType (up_buffer file) = Some declared) (BadRequest VENUE_PHOTO_TYPE_UNSUPPORTED)) (\<lambda>_.
     let key = buildVenuePhotoKey env declared in
     andThen (putImage env 0 key (up_buffer file) declared) (\<lambda>_. publicUrlFor env key))))"

definition discard_venue_photo :: "media_env \<Rightarrow> string \<Rightarrow> unit media_act" where
  "discard_venue_photo env url =
     andThen (need (case Option.bind (md_base env) or_null of None \<Rightarrow> None
         | Some b \<Rightarrow> if prefix (b @ ''/venues/'') url then Some b else None) (BadRequest MEDIA_INVALID_PHOTO_URL)) (\<lambda>b.
     andThen (fetch env 0 (\<lambda>s. first_row (\<lambda>p. vp_url p = url) (md_photos s))) (\<lambda>referenced.
     andThen (check (referenced = None) (Conflict VENUE_PHOTO_IN_USE)) (\<lambda>_.
     andThen (deleteObject env 1 (key_behind b url)) (\<lambda>_. done_with ()))))"

definition upload_feedback_photo :: "media_env \<Rightarrow> string \<Rightarrow> upload \<Rightarrow> string media_act" where
  "upload_feedback_photo env lineSub file =
     andThen (fetch env 0 (\<lambda>s. first_row (\<lambda>u. fo_lineUserId u = lineSub \<and> fo_deletedAt u = None) (md_followers s))) (\<lambda>found.
     andThen (need (case found of Some u \<Rightarrow> if fo_access u \<noteq> ACC_ALLOWED then None else Some (fo_id u) | None \<Rightarrow> None)
       (Forbidden MEDIA_NOT_ALLOWED)) (\<lambda>_.
     andThen (check (up_buffer file \<noteq> []) (BadRequest FEEDBACK_PHOTO_REQUIRED)) (\<lambda>_.
     andThen (need (isFeedbackPhotoType (up_mimetype file)) (BadRequest FEEDBACK_PHOTO_TYPE_UNSUPPORTED)) (\<lambda>declared.
     andThen (check (sniffImageType (up_buffer file) = Some declared) (BadRequest FEEDBACK_PHOTO_TYPE_UNSUPPORTED)) (\<lambda>_.
     let key = buildFeedbackPhotoKey env declared in
     andThen (putImage env 1 key (up_buffer file) declared) (\<lambda>_. publicUrlFor env key))))))"

end
