(* ===== verification/Feedback.thy ===== *)
theory Feedback
  imports LineUsers Overlap
begin

text \<open>
  The feedback of LINE users and its handling by staff: \<open>FeedbackService\<close>, \<open>feedback-code.ts\<close> and
  \<open>feedback-reporter.ts\<close>, and \<open>AdminFeedbackService\<close> (\<open>src/src/feedback\<close>). The tables are the
  reports with their log entries, and the LINE users, venues, options and staff they refer to.
\<close>

subsection \<open>Rows and answers\<close>

datatype feedback_type = ISSUE | FEEDBACK
datatype feedback_status = FB_PENDING | FB_IN_PROGRESS | FB_RESOLVED | FB_DISMISSED

record feedback_row =
  fb_id :: string
  fb_code :: string
  fb_type :: feedback_type
  fb_lineUserId :: string
  fb_venueId :: "string option"
  fb_subject :: string
  fb_description :: string
  fb_photos :: "string list"
  fb_status :: feedback_status
  fb_createdAt :: time
  fb_updatedAt :: time

record feedback_log =
  gl_id :: string
  gl_feedbackId :: string
  gl_status :: feedback_status
  gl_note :: "string option"
  gl_authorId :: "string option"
  gl_createdAt :: time

record desk =
  reports :: "feedback_row list"
  desk_logs :: "feedback_log list"
  dk_users :: "follower list"
  dk_registrations :: "registration_row list"
  dk_departments :: "option_row list"
  dk_roles :: "option_row list"
  dk_venues :: "venue_row list"
  dk_staff :: "system_user list"

datatype feedback_message =
    FEEDBACK_NOT_ALLOWED | FEEDBACK_VENUE_INVALID | FEEDBACK_PHOTO_URL_INVALID | FEEDBACK_NOT_FOUND
  | FEEDBACK_UPDATE_EMPTY | FEEDBACK_NO_CHANGE | FEEDBACK_CONCURRENT_MODIFICATION

datatype desk_event = FeedbackSubmitted string

text \<open>
  The driver, the clock of the service and the one that stamps \<open>createdAt\<close>, new ids, collation and
  case folding of the database, the errors of a repeated code, of a repeated key and of a missing row, the public base
  URL of the bucket.
\<close>

record desk_env = "desk driver" +
  fe_now :: "nat \<Rightarrow> time"
  fe_stamp :: "nat \<Rightarrow> time"
  fe_new_id :: "nat \<Rightarrow> string"
  fe_collate :: "string \<Rightarrow> string \<Rightarrow> int"
  fe_lower :: "string \<Rightarrow> string"
  fe_code_taken :: js_error
  fe_duplicate :: js_error
  fe_missing :: js_error
  fe_base :: "string option"

type_synonym 'a desk_act = "(desk, desk_event, feedback_message, 'a) act"

subsection \<open>The reference code\<close>

definition FEEDBACK_CODE_PREFIX :: "feedback_type \<Rightarrow> string" where
  "FEEDBACK_CODE_PREFIX t = (case t of ISSUE \<Rightarrow> ''ISS'' | FEEDBACK \<Rightarrow> ''FDB'')"

definition FEEDBACK_CODE_SEQUENCE_WIDTH :: nat where
  "FEEDBACK_CODE_SEQUENCE_WIDTH = 3"

definition FEEDBACK_CODE_MAX_ATTEMPTS :: nat where
  "FEEDBACK_CODE_MAX_ATTEMPTS = 5"

definition formatFeedbackCode :: "feedback_type \<Rightarrow> time \<Rightarrow> nat \<Rightarrow> string" where
  "formatFeedbackCode t at sameDayCount =
     (let seq = pad_start FEEDBACK_CODE_SEQUENCE_WIDTH (show_nat (sameDayCount + 1))
      in FEEDBACK_CODE_PREFIX t @ ''-'' @ bookingCodeDatePart at @ ''-'' @ seq)"

definition same_day :: "feedback_type \<Rightarrow> time \<Rightarrow> feedback_row \<Rightarrow> bool" where
  "same_day t at r \<longleftrightarrow> fb_type r = t \<and>
     fst (bangkokDayRange at) \<le> fb_createdAt r \<and> fb_createdAt r < snd (bangkokDayRange at)"

definition nextFeedbackCode :: "desk_env \<Rightarrow> nat \<Rightarrow> feedback_type \<Rightarrow> time \<Rightarrow> string desk_act" where
  "nextFeedbackCode env k t at =
     andThen (fetch env k (\<lambda>s. count_where (same_day t at) (reports s))) (\<lambda>n.
     done_with (formatFeedbackCode t at n))"

subsection \<open>Submitting\<close>

definition resolveAllowedReporter :: "desk_env \<Rightarrow> nat \<Rightarrow> string \<Rightarrow> string desk_act" where
  "resolveAllowedReporter env k lineSub =
     andThen (fetch env k (\<lambda>s. first_row (\<lambda>u. fo_lineUserId u = lineSub \<and> fo_deletedAt u = None) (dk_users s))) (\<lambda>found.
     need (case found of Some u \<Rightarrow> if fo_access u \<noteq> ACC_ALLOWED then None else Some (fo_id u) | None \<Rightarrow> None)
       (Forbidden FEEDBACK_NOT_ALLOWED))"

record feedback_dto =
  fi_type :: feedback_type
  fi_venueId :: "string option"
  fi_subject :: string
  fi_description :: string
  fi_photos :: "string list option"

record feedback_answer =
  fa_id :: string
  fa_code :: string
  fa_type :: feedback_type
  fa_venueId :: "string option"
  fa_venueName :: "string option"
  fa_subject :: string
  fa_description :: string
  fa_photos :: "string list"
  fa_createdAt :: string

definition FEEDBACK_PHOTO_PREFIX :: string where
  "FEEDBACK_PHOTO_PREFIX = ''feedback/''"

definition assertOwnPhotoUrls :: "desk_env \<Rightarrow> string list \<Rightarrow> unit desk_act" where
  "assertOwnPhotoUrls env urls =
     (if urls = [] then done_with ()
      else (let base = (case fe_base env of None \<Rightarrow> ''undefined'' | Some b \<Rightarrow> b);
                pre = base @ ''/'' @ FEEDBACK_PHOTO_PREFIX
            in check (Option.bind (fe_base env) or_null \<noteq> None \<and> list_all (prefix pre) urls)
                 (BadRequest FEEDBACK_PHOTO_URL_INVALID)))"

text \<open>\<open>create\<close> under the unique index on \<open>code\<close> and the foreign keys of the reporter and the venue.\<close>

definition insert_report :: "desk_env \<Rightarrow> feedback_row \<Rightarrow> desk \<Rightarrow> js_error + (desk \<times> feedback_row)" where
  "insert_report env row s =
     (if fb_code row \<in> fb_code ` set (reports s) then Inl (fe_code_taken env)
      else if fb_id row \<in> fb_id ` set (reports s) then Inl (fe_duplicate env)
      else if fb_lineUserId row \<notin> fo_id ` set (dk_users s) \<or>
          (\<exists>v. fb_venueId row = Some v \<and> v \<notin> vn_id ` set (dk_venues s)) then Inl (fe_missing env)
      else Inr (s\<lparr>reports := reports s @ [row]\<rparr>, row))"

definition new_report ::
  "desk_env \<Rightarrow> nat \<Rightarrow> string \<Rightarrow> string \<Rightarrow> string option \<Rightarrow> feedback_dto \<Rightarrow> string list \<Rightarrow> feedback_row"
where
  "new_report env k code lineUserId venueId dto photos =
     \<lparr>fb_id = fe_new_id env k, fb_code = code, fb_type = fi_type dto, fb_lineUserId = lineUserId,
      fb_venueId = venueId, fb_subject = fi_subject dto, fb_description = fi_description dto,
      fb_photos = photos, fb_status = FB_PENDING, fb_createdAt = fe_stamp env k, fb_updatedAt = fe_stamp env k\<rparr>"

definition insertOnce_report ::
  "desk_env \<Rightarrow> nat \<Rightarrow> string \<Rightarrow> string option \<Rightarrow> feedback_dto \<Rightarrow> string list \<Rightarrow> feedback_row desk_act"
where
  "insertOnce_report env k lineUserId venueId dto photos = atomically
     (andThen (nextFeedbackCode env k (fi_type dto) (fe_now env k)) (\<lambda>code.
      put env (k + 1) (insert_report env (new_report env (k + 1) code lineUserId venueId dto photos))))"

text \<open>The retry is around the whole transaction; \<open>left\<close> counts the attempts still allowed.\<close>

fun insert_attempts ::
  "desk_env \<Rightarrow> nat \<Rightarrow> nat \<Rightarrow> string \<Rightarrow> string option \<Rightarrow> feedback_dto \<Rightarrow> string list \<Rightarrow> feedback_row desk_act"
where
  "insert_attempts env 0 k lineUserId venueId dto photos = stop_with (Refused (InternalServerError None))"
| "insert_attempts env (Suc left) k lineUserId venueId dto photos =
     catching (insertOnce_report env k lineUserId venueId dto photos) (\<lambda>e.
       if (case e of Refused _ \<Rightarrow> True | Thrown err \<Rightarrow> \<not> isCodeCollision err) \<or> left = 0 then stop_with e
       else insert_attempts env left (k + 2) lineUserId venueId dto photos)"

definition insertWithCode_report ::
  "desk_env \<Rightarrow> nat \<Rightarrow> string \<Rightarrow> string option \<Rightarrow> feedback_dto \<Rightarrow> string list \<Rightarrow> feedback_row desk_act"
where
  "insertWithCode_report env = insert_attempts env FEEDBACK_CODE_MAX_ATTEMPTS"

definition toFeedbackResponseDto :: "feedback_row \<Rightarrow> string option \<Rightarrow> feedback_answer" where
  "toFeedbackResponseDto row venueName =
     \<lparr>fa_id = fb_id row, fa_code = fb_code row, fa_type = fb_type row, fa_venueId = fb_venueId row,
      fa_venueName = venueName, fa_subject = fb_subject row, fa_description = fb_description row,
      fa_photos = fb_photos row, fa_createdAt = toISOString (fb_createdAt row)\<rparr>"

definition live_venue_of :: "desk \<Rightarrow> string \<Rightarrow> venue_row option" where
  "live_venue_of s i = first_row (\<lambda>v. vn_id v = i \<and> vn_deletedAt v = None) (dk_venues s)"

definition create_feedback :: "desk_env \<Rightarrow> string \<Rightarrow> feedback_dto \<Rightarrow> feedback_answer desk_act" where
  "create_feedback env lineSub dto =
     andThen (resolveAllowedReporter env 0 lineSub) (\<lambda>reporter.
     andThen (case Option.bind (fi_venueId dto) or_null of
         None \<Rightarrow> done_with None
       | Some i \<Rightarrow> fetch env 1 (\<lambda>s. live_venue_of s i)) (\<lambda>venue.
     andThen (check (Option.bind (fi_venueId dto) or_null = None \<or> venue \<noteq> None) (BadRequest FEEDBACK_VENUE_INVALID)) (\<lambda>_.
     let photos = or_else (fi_photos dto) [] in
     andThen (assertOwnPhotoUrls env photos) (\<lambda>_.
     andThen (insertWithCode_report env 2 reporter (map_option vn_id venue) dto photos) (\<lambda>row.
     andThen (tell [FeedbackSubmitted (fb_id row)]) (\<lambda>_.
     done_with (toFeedbackResponseDto row (map_option vn_name venue))))))))"

end
