(* ===== verification/FeedbackDesk.thy ===== *)
theory FeedbackDesk
  imports Feedback
begin

text \<open>
  \<open>AdminFeedbackService\<close> (\<open>src/src/feedback/admin-feedback.service.ts\<close>): the list with its counts, one
  report with its log, and the one write. \<open>SELECT ... FOR UPDATE\<close> is a read; what the lock excludes
  is an assumption on \<open>others\<close>.
\<close>

subsection \<open>What a report looks like to staff\<close>

record feedback_reporter =
  fr_firstName :: "string option"
  fr_lastName :: "string option"
  fr_personnelRoleName :: "string option"
  fr_departmentName :: "string option"
  fr_phone :: "string option"
  fr_lineDisplayName :: "string option"
  fr_pictureUrl :: "string option"

record feedback_item =
  ft_id :: string
  ft_code :: string
  ft_type :: feedback_type
  ft_status :: feedback_status
  ft_subject :: string
  ft_description :: string
  ft_photoCount :: nat
  ft_venue :: "(string \<times> string) option"
  ft_reporter :: feedback_reporter
  ft_createdAt :: string

record feedback_log_view =
  gv_id :: string
  gv_status :: feedback_status
  gv_note :: "string option"
  gv_createdAt :: string
  gv_author :: "(string \<times> string \<times> string) option"

record feedback_detail =
  fv_item :: feedback_item
  fv_photos :: "string list"
  fv_logs :: "feedback_log_view list"

text \<open>Nothing here looks at \<open>deletedAt\<close>: venue, registration, options and authors are read as history.\<close>

definition reporter_row :: "desk \<Rightarrow> feedback_row \<Rightarrow> follower option" where
  "reporter_row s r = first_row (\<lambda>u. fo_id u = fb_lineUserId r) (dk_users s)"

definition reporter_registration :: "desk \<Rightarrow> feedback_row \<Rightarrow> registration_row option" where
  "reporter_registration s r = first_row (\<lambda>g. rg_lineUserId g = fb_lineUserId r) (dk_registrations s)"

definition toFeedbackListItem :: "desk \<Rightarrow> feedback_row \<Rightarrow> feedback_item" where
  "toFeedbackListItem s row =
     (let registration = reporter_registration s row; user = reporter_row s row in
      \<lparr>ft_id = fb_id row, ft_code = fb_code row, ft_type = fb_type row, ft_status = fb_status row,
       ft_subject = fb_subject row, ft_description = fb_description row, ft_photoCount = length (fb_photos row),
       ft_venue = Option.bind (fb_venueId row) (\<lambda>i.
         map_option (\<lambda>v. (vn_id v, vn_name v)) (first_row (\<lambda>v. vn_id v = i) (dk_venues s))),
       ft_reporter =
         \<lparr>fr_firstName = map_option rg_firstName registration, fr_lastName = map_option rg_lastName registration,
          fr_personnelRoleName = map_option (\<lambda>g. name_in (dk_roles s) (rg_personnelRoleId g)) registration,
          fr_departmentName = map_option (\<lambda>g. name_in (dk_departments s) (rg_departmentId g)) registration,
          fr_phone = map_option rg_phone registration,
          fr_lineDisplayName = Option.bind user fo_displayName, fr_pictureUrl = Option.bind user fo_pictureUrl\<rparr>,
       ft_createdAt = toISOString (fb_createdAt row)\<rparr>)"

definition oldest_log_first :: "desk_env \<Rightarrow> feedback_log \<Rightarrow> feedback_log \<Rightarrow> int" where
  "oldest_log_first env a b = (if gl_createdAt a \<noteq> gl_createdAt b then gl_createdAt a - gl_createdAt b
     else fe_collate env (gl_id a) (gl_id b))"

definition toLogView :: "desk \<Rightarrow> feedback_log \<Rightarrow> feedback_log_view" where
  "toLogView s l = \<lparr>gv_id = gl_id l, gv_status = gl_status l, gv_note = gl_note l,
     gv_createdAt = toISOString (gl_createdAt l), gv_author = creator_ref (dk_staff s) (gl_authorId l)\<rparr>"

definition logs_of :: "string \<Rightarrow> desk \<Rightarrow> feedback_log list" where
  "logs_of i s = filter (\<lambda>l. gl_feedbackId l = i) (desk_logs s)"

definition report_detail :: "desk_env \<Rightarrow> desk \<Rightarrow> feedback_row \<Rightarrow> feedback_detail" where
  "report_detail env s row = \<lparr>fv_item = toFeedbackListItem s row, fv_photos = fb_photos row,
     fv_logs = map (toLogView s) (js_sort (oldest_log_first env) (logs_of (fb_id row) s))\<rparr>"

definition report_at :: "string \<Rightarrow> desk \<Rightarrow> feedback_row option" where
  "report_at i s = first_row (\<lambda>r. fb_id r = i) (reports s)"

definition readDetail :: "desk_env \<Rightarrow> nat \<Rightarrow> string \<Rightarrow> feedback_detail desk_act" where
  "readDetail env k i =
     andThen (fetch env k (\<lambda>s. map_option (report_detail env s) (report_at i s))) (\<lambda>row.
     need row (NotFound FEEDBACK_NOT_FOUND))"

definition getDetail_feedback :: "desk_env \<Rightarrow> string \<Rightarrow> feedback_detail desk_act" where
  "getDetail_feedback env i = readDetail env 0 i"

subsection \<open>The list\<close>

definition FEEDBACK_VENUE_GENERAL :: string where
  "FEEDBACK_VENUE_GENERAL = ''general''"

record feedback_query =
  qf_page :: nat
  qf_limit :: nat
  qf_type :: "feedback_type option"
  qf_status :: "feedback_status option"
  qf_venueId :: "string option"
  qf_q :: "string option"

definition desk_ilike :: "desk_env \<Rightarrow> string \<Rightarrow> string option \<Rightarrow> bool" where
  "desk_ilike env q text = (case text of None \<Rightarrow> False
     | Some t \<Rightarrow> sql_like (utf8_chars (fe_lower env (''%'' @ q @ ''%''))) (utf8_chars (fe_lower env t)))"

definition feedbackSearchWhere :: "desk_env \<Rightarrow> desk \<Rightarrow> string option \<Rightarrow> feedback_row \<Rightarrow> bool" where
  "feedbackSearchWhere env s q r =
     (let term = (case q of None \<Rightarrow> [] | Some t \<Rightarrow> js_trim (strip_hash (js_trim t)));
          like = desk_ilike env term; registration = reporter_registration s r
      in term = [] \<or> like (Some (fb_code r)) \<or> like (Some (fb_subject r)) \<or>
         like (Option.bind (reporter_row s r) fo_displayName) \<or>
         like (map_option rg_firstName registration) \<or> like (map_option rg_lastName registration))"

definition feedbackListWhere :: "desk_env \<Rightarrow> desk \<Rightarrow> feedback_query \<Rightarrow> feedback_row \<Rightarrow> bool" where
  "feedbackListWhere env s q r \<longleftrightarrow>
     (case qf_type q of None \<Rightarrow> True | Some t \<Rightarrow> fb_type r = t) \<and>
     (case qf_status q of None \<Rightarrow> True | Some st \<Rightarrow> fb_status r = st) \<and>
     (case Option.bind (qf_venueId q) or_null of None \<Rightarrow> True
      | Some v \<Rightarrow> if v = FEEDBACK_VENUE_GENERAL then fb_venueId r = None else fb_venueId r = Some v) \<and>
     feedbackSearchWhere env s (qf_q q) r"

text \<open>\<open>groupBy(type, status)\<close> lists the groups that have rows, in any order; here in that of the enums.\<close>

definition feedback_groups :: "feedback_row list \<Rightarrow> ((feedback_type \<times> feedback_status) \<times> nat) list" where
  "feedback_groups rows = filter (\<lambda>g. snd g \<noteq> 0)
     (map (\<lambda>(t, st). ((t, st), count_where (\<lambda>r. fb_type r = t \<and> fb_status r = st) rows))
       (List.product [ISSUE, FEEDBACK] [FB_PENDING, FB_IN_PROGRESS, FB_RESOLVED, FB_DISMISSED]))"

record feedback_counts =
  fc_pendingCount :: nat
  fc_issueCount :: nat
  fc_feedbackCount :: nat

definition toFeedbackCounts :: "((feedback_type \<times> feedback_status) \<times> nat) list \<Rightarrow> feedback_counts" where
  "toFeedbackCounts grouped =
     (let total = (\<lambda>p. sum_list (map snd (filter (\<lambda>g. p (fst g)) grouped)))
      in \<lparr>fc_pendingCount = total (\<lambda>g. snd g = FB_PENDING), fc_issueCount = total (\<lambda>g. fst g = ISSUE),
          fc_feedbackCount = total (\<lambda>g. fst g = FEEDBACK)\<rparr>)"

definition newest_report_first :: "desk_env \<Rightarrow> feedback_row \<Rightarrow> feedback_row \<Rightarrow> int" where
  "newest_report_first env a b = (if fb_createdAt a \<noteq> fb_createdAt b then fb_createdAt b - fb_createdAt a
     else fe_collate env (fb_code b) (fb_code a))"

record feedback_page =
  fg_data :: "feedback_item list"
  fg_page :: nat
  fg_limit :: nat
  fg_total :: nat
  fg_totalPages :: nat
  fg_counts :: feedback_counts

text \<open>Three queries side by side, outside a transaction: each may see another state.\<close>

definition list_feedback :: "desk_env \<Rightarrow> feedback_query \<Rightarrow> feedback_page desk_act" where
  "list_feedback env q =
     andThen (fetch env 0 (\<lambda>s. map (toFeedbackListItem s) (take (qf_limit q) (drop ((qf_page q - 1) * qf_limit q)
       (js_sort (newest_report_first env) (filter (feedbackListWhere env s q) (reports s))))))) (\<lambda>rows.
     andThen (fetch env 1 (\<lambda>s. count_where (feedbackListWhere env s q) (reports s))) (\<lambda>total.
     andThen (fetch env 2 (\<lambda>s. feedback_groups (reports s))) (\<lambda>grouped.
     done_with \<lparr>fg_data = rows, fg_page = qf_page q, fg_limit = qf_limit q, fg_total = total,
       fg_totalPages = (total + qf_limit q - 1) div qf_limit q, fg_counts = toFeedbackCounts grouped\<rparr>)))"

subsection \<open>The save\<close>

text \<open>\<open>UpdateFeedbackDto\<close> after its transforms: a blank note is absent, \<open>DISMISSED\<close> is refused.\<close>

datatype feedback_update_status = TO_PENDING | TO_IN_PROGRESS | TO_RESOLVED

definition target_status :: "feedback_update_status \<Rightarrow> feedback_status" where
  "target_status t = (case t of TO_PENDING \<Rightarrow> FB_PENDING | TO_IN_PROGRESS \<Rightarrow> FB_IN_PROGRESS | TO_RESOLVED \<Rightarrow> FB_RESOLVED)"

definition FEEDBACK_NOTE_MAX :: nat where
  "FEEDBACK_NOTE_MAX = 500"

definition trimToUndefined :: "string \<Rightarrow> string option" where
  "trimToUndefined value = or_null (js_trim value)"

record feedback_update =
  fp_status :: "feedback_update_status option"
  fp_note :: "string option"

definition status_row :: "desk_env \<Rightarrow> nat \<Rightarrow> string \<Rightarrow> feedback_status \<Rightarrow> desk \<Rightarrow> js_error + (desk \<times> unit)" where
  "status_row env k i st s =
     (if report_at i s = None then Inl (fe_missing env)
      else Inr (s\<lparr>reports := set_where (\<lambda>r. fb_id r = i)
             (\<lambda>r. r\<lparr>fb_status := st, fb_updatedAt := fe_now env k\<rparr>) (reports s)\<rparr>, ()))"

definition append_log :: "desk_env \<Rightarrow> feedback_log \<Rightarrow> desk \<Rightarrow> js_error + (desk \<times> unit)" where
  "append_log env l s =
     (if report_at (gl_feedbackId l) s = None \<or>
         (\<exists>a. gl_authorId l = Some a \<and> a \<notin> su_id ` set (dk_staff s)) then Inl (fe_missing env)
      else Inr (s\<lparr>desk_logs := desk_logs s @ [l]\<rparr>, ()))"

definition save_work :: "desk_env \<Rightarrow> string \<Rightarrow> feedback_update \<Rightarrow> string \<Rightarrow> feedback_detail desk_act" where
  "save_work env i dto actor =
     andThen (fetch env 0 (\<lambda>s. map_option fb_status (report_at i s))) (\<lambda>locked.
     andThen (need locked (NotFound FEEDBACK_NOT_FOUND)) (\<lambda>current.
     let new = (case fp_status dto of None \<Rightarrow> current | Some t \<Rightarrow> target_status t) in
     andThen (check (new \<noteq> current \<or> fp_note dto \<noteq> None) (BadRequest FEEDBACK_NO_CHANGE)) (\<lambda>_.
     andThen (if new \<noteq> current then put env 1 (status_row env 1 i new) else done_with ()) (\<lambda>_.
     andThen (put env 2 (append_log env \<lparr>gl_id = fe_new_id env 2, gl_feedbackId = i, gl_status = new,
       gl_note = fp_note dto, gl_authorId = Some actor, gl_createdAt = fe_stamp env 2\<rparr>)) (\<lambda>_.
     readDetail env 3 i)))))"

text \<open>\<open>mapTransactionError\<close> of \<open>src/src/common/prisma-tx.util.ts\<close>.\<close>

definition map_desk_error :: "feedback_message stop \<Rightarrow> feedback_message stop" where
  "map_desk_error e = (case e of
       Refused m \<Rightarrow> Refused m
     | Thrown err \<Rightarrow> if isWriteConflict err then Refused (Conflict FEEDBACK_CONCURRENT_MODIFICATION) else Thrown err)"

definition update_feedback :: "desk_env \<Rightarrow> string \<Rightarrow> feedback_update \<Rightarrow> string \<Rightarrow> feedback_detail desk_act" where
  "update_feedback env i dto actor =
     andThen (check (fp_status dto \<noteq> None \<or> fp_note dto \<noteq> None) (BadRequest FEEDBACK_UPDATE_EMPTY)) (\<lambda>_.
     catching (atomically (save_work env i dto actor)) (\<lambda>e. stop_with (map_desk_error e)))"

end
