(* ===== verification/FeedbackSystem.thy ===== *)
theory FeedbackSystem
  imports FeedbackDesk LineUserRows
begin

text \<open>
  The life of a report under interference: its status is the one its newest log entry left, a report
  is never lost and never changes but in its status, and the log only grows. \<open>within I P m Q\<close> is an
  assertion about the inside of a transaction: others keep the committed state in \<open>I\<close>, while the
  transaction's own view, which may break \<open>I\<close> on the way, goes from \<open>P\<close> to \<open>Q\<close>.
\<close>

subsection \<open>Inside a transaction\<close>

definition within :: "('s \<Rightarrow> bool) \<Rightarrow> ('s \<Rightarrow> bool) \<Rightarrow> ('s, 'e, 'm, 'a) act \<Rightarrow> ('a \<Rightarrow> 's \<Rightarrow> bool) \<Rightarrow> bool" where
  "within I P m Q \<longleftrightarrow> (\<forall>w. I (base w) \<and> P (mine w) \<longrightarrow> I (base (snd (m w))) \<and>
     (case fst (m w) of Inl _ \<Rightarrow> True | Inr a \<Rightarrow> Q a (mine (snd (m w)))))"

named_theorems within_intros \<open>assertions inside a transaction\<close>

lemma within_andThen [within_intros]:
  assumes "within I P m Q" "\<And>a. within I (Q a) (f a) R"
  shows "within I P (andThen m f) R"
  unfolding within_def
proof (intro allI impI)
  fix w :: "('a, 'b) store" assume w: "I (base w) \<and> P (mine w)"
  obtain r w' where run: "m w = (r, w')" by fastforce
  have w': "I (base w')" "\<And>a. r = Inr a \<Longrightarrow> Q a (mine w')"
    using assms(1) w run unfolding within_def by (metis fst_conv snd_conv sum.case(2))+
  show "I (base (snd (andThen m f w))) \<and>
      (case fst (andThen m f w) of Inl _ \<Rightarrow> True | Inr a \<Rightarrow> R a (mine (snd (andThen m f w))))"
  proof (cases r)
    case (Inl e)
    then show ?thesis using w' run by (simp add: andThen_def)
  next
    case (Inr a)
    then have eq: "andThen m f w = f a w'" using run by (simp add: andThen_def)
    show ?thesis unfolding eq using w' Inr assms(2) [of a] unfolding within_def by blast
  qed
qed

lemma within_basic [within_intros]:
  "within I P (done_with b) (\<lambda>a s. P s \<and> a = b)" "within I P (stop_with e) (\<lambda>a s. False)"
  "within I P (check ok err) (\<lambda>a s. P s \<and> ok)" "within I P (need x err) (\<lambda>a s. P s \<and> x = Some a)"
  by (auto simp: within_def act_run split: option.splits)

lemma within_fetch:
  "polite I drv \<Longrightarrow> (\<And>s. P s \<Longrightarrow> R (others drv k s)) \<Longrightarrow> within I P (fetch drv k f) (\<lambda>a s. R s \<and> a = f s)"
  by (auto simp: within_def polite_def fetch_def issue_def meanwhile_def split: option.splits)

lemma within_put:
  "polite I drv \<Longrightarrow> (\<And>s s' a. P s \<Longrightarrow> g (others drv k s) = Inr (s', a) \<Longrightarrow> Q a s') \<Longrightarrow> within I P (put drv k g) Q"
  by (auto simp: within_def polite_def put_def issue_def meanwhile_def split: option.splits sum.splits)

lemma within_if:
  "(c \<Longrightarrow> within I P m Q) \<Longrightarrow> (\<not> c \<Longrightarrow> within I P n Q) \<Longrightarrow> within I P (if c then m else n) Q"
  by auto

lemma within_conseq:
  "within I P' m Q \<Longrightarrow> (\<And>s. P s \<Longrightarrow> P' s) \<Longrightarrow> (\<And>a s. Q a s \<Longrightarrow> R a s) \<Longrightarrow> within I P m R"
  unfolding within_def by (fastforce split: sum.splits)

lemma safe_within:
  assumes "within I P m Q" "\<And>s. I s \<Longrightarrow> P s" "\<And>a s. Q a s \<Longrightarrow> I s"
  shows "safe I (atomically m)"
proof (rule safeI)
  fix w :: "('a, 'b) store" assume w: "I (base w)" "I (mine w)"
  obtain r w' where run: "m w = (r, w')" by fastforce
  have "I (base w')" "\<And>a. r = Inr a \<Longrightarrow> I (mine w')"
    using assms w run unfolding within_def by (metis fst_conv snd_conv sum.case(2))+
  then show "I (base (snd (atomically m w))) \<and> I (mine (snd (atomically m w)))"
    using run by (cases r) (auto simp: act_run)
qed

subsection \<open>What holds of the tables\<close>

definition left_in :: "string \<Rightarrow> desk \<Rightarrow> feedback_status" where
  "left_in i s = (case rev (logs_of i s) of [] \<Rightarrow> FB_PENDING | l # _ \<Rightarrow> gl_status l)"

definition consistent :: "string \<Rightarrow> desk \<Rightarrow> bool" where
  "consistent i s \<longleftrightarrow> (case report_at i s of None \<Rightarrow> logs_of i s = [] | Some r \<Rightarrow> fb_status r = left_in i s)"

definition same_report :: "feedback_row \<Rightarrow> feedback_row \<Rightarrow> bool" where
  "same_report a b \<longleftrightarrow> b = a\<lparr>fb_status := fb_status b, fb_updatedAt := fb_updatedAt b\<rparr>"

definition desk_moves :: "desk \<Rightarrow> desk \<Rightarrow> bool" where
  "desk_moves s t \<longleftrightarrow> (\<forall>i r. report_at i s = Some r \<longrightarrow> (\<exists>r'. report_at i t = Some r' \<and> same_report r r')) \<and>
     (\<forall>i. prefix (logs_of i s) (logs_of i t))"

definition keys_ok :: "desk \<Rightarrow> bool" where
  "keys_ok s \<longleftrightarrow> distinct (map fb_id (reports s)) \<and> distinct (map fb_code (reports s))"

definition frame :: "desk \<Rightarrow> desk \<Rightarrow> bool" where
  "frame s0 s \<longleftrightarrow> keys_ok s \<and> desk_moves s0 s"

definition desk_inv :: "desk \<Rightarrow> desk \<Rightarrow> bool" where
  "desk_inv s0 s \<longleftrightarrow> frame s0 s \<and> (\<forall>i. consistent i s)"

text \<open>What other transactions do: each report is left consistent if it was, nothing is lost.\<close>

definition lawful_desk :: "desk_env \<Rightarrow> bool" where
  "lawful_desk env \<longleftrightarrow> (\<forall>k s. keys_ok s \<longrightarrow> keys_ok (others env k s) \<and> desk_moves s (others env k s) \<and>
     (\<forall>i. consistent i s \<longrightarrow> consistent i (others env k s)))"

definition report_locked :: "desk_env \<Rightarrow> string \<Rightarrow> bool" where
  "report_locked env i \<longleftrightarrow> (\<forall>k \<in> {1..3}. \<forall>s. report_at i (others env k s) = report_at i s \<and>
     logs_of i (others env k s) = logs_of i s)"

lemma same_report_refl [simp]: "same_report a a"
  by (simp add: same_report_def)

lemma same_report_trans: "same_report a b \<Longrightarrow> same_report b c \<Longrightarrow> same_report a c"
  unfolding same_report_def by (cases a, cases b, cases c) simp

lemma desk_moves_refl [simp]: "desk_moves s s"
  by (simp add: desk_moves_def)

lemma desk_moves_trans: "desk_moves s t \<Longrightarrow> desk_moves t u \<Longrightarrow> desk_moves s u"
  unfolding desk_moves_def by (meson same_report_trans prefix_order.trans)

lemma frame_others: "lawful_desk env \<Longrightarrow> frame s0 s \<Longrightarrow> frame s0 (others env k s)"
  unfolding lawful_desk_def frame_def using desk_moves_trans by blast

lemma consistent_others: "lawful_desk env \<Longrightarrow> frame s0 s \<Longrightarrow> consistent i s \<Longrightarrow> consistent i (others env k s)"
  unfolding lawful_desk_def frame_def by blast

lemma polite_desk: "lawful_desk env \<Longrightarrow> polite (desk_inv s0) env"
  unfolding polite_def desk_inv_def using frame_others consistent_others by blast

subsection \<open>A new report\<close>

lemma insert_report_keeps:
  assumes "desk_inv s0 s" "insert_report env row s = Inr (s', a)" "fb_status row = FB_PENDING"
  shows "desk_inv s0 s' \<and> a = row \<and> reports s' = reports s @ [row]"
proof -
  have s': "s' = s\<lparr>reports := reports s @ [row]\<rparr>" "a = row" "fb_code row \<notin> fb_code ` set (reports s)"
      "fb_id row \<notin> fb_id ` set (reports s)"
    using assms(2) by (auto simp: insert_report_def split: if_splits)
  have at: "report_at i s' = (case report_at i s of Some r \<Rightarrow> Some r | None \<Rightarrow> if fb_id row = i then Some row else None)" for i
    by (simp add: report_at_def s' first_row_snoc)
  have logs: "logs_of i s' = logs_of i s" "left_in i s' = left_in i s" for i by (simp_all add: logs_of_def left_in_def s')
  have "keys_ok s'" using assms(1) s'(3,4) by (auto simp: desk_inv_def frame_def keys_ok_def s'(1))
  moreover have "desk_moves s s'" by (auto simp: desk_moves_def at logs)
  moreover have "consistent i s'" for i
  proof -
    have con: "consistent i s" using assms(1) by (simp add: desk_inv_def)
    show ?thesis
    proof (cases "report_at i s")
      case None
      then have "logs_of i s = []" using con by (simp add: consistent_def)
      then show ?thesis using None assms(3) by (simp add: consistent_def at logs left_in_def)
    next
      case (Some r)
      then show ?thesis using con by (simp add: consistent_def at logs)
    qed
  qed
  moreover have "desk_moves s0 s" using assms(1) by (simp add: desk_inv_def frame_def)
  ultimately show ?thesis using desk_moves_trans [of s0 s s'] s'(1,2) by (simp add: desk_inv_def frame_def)
qed

lemma safe_insert_attempts:
  assumes "lawful_desk env"
  shows "safe (desk_inv s0) (insert_attempts env left k u v dto photos)"
proof (induction left arbitrary: k)
  case 0
  show ?case by (simp add: safe_intros)
next
  case (Suc left)
  have once: "safe (desk_inv s0) (insertOnce_report env k u v dto photos)" for k
    unfolding insertOnce_report_def nextFeedbackCode_def
    by (intro safe_intros polite_desk assms)
      (use insert_report_keeps in \<open>auto simp: new_report_def\<close>)
  show ?case using Suc.IH once by (auto intro!: safe_intros split: stop.splits)
qed

lemma safe_create_feedback:
  assumes "lawful_desk env"
  shows "safe (desk_inv s0) (create_feedback env sub dto)"
  unfolding create_feedback_def resolveAllowedReporter_def assertOwnPhotoUrls_def Let_def insertWithCode_report_def
  by (intro safe_intros polite_desk assms safe_insert_attempts)

subsection \<open>A save\<close>

text \<open>Between its two writes the transaction's own view has a report whose log is one entry behind.\<close>

definition half_saved :: "desk \<Rightarrow> string \<Rightarrow> feedback_status \<Rightarrow> desk \<Rightarrow> bool" where
  "half_saved s0 i st s \<longleftrightarrow> frame s0 s \<and> (\<forall>j. j \<noteq> i \<longrightarrow> consistent j s) \<and>
     (\<exists>r. report_at i s = Some r \<and> fb_status r = st)"

definition locked_at :: "desk \<Rightarrow> string \<Rightarrow> feedback_status \<Rightarrow> desk \<Rightarrow> bool" where
  "locked_at s0 i st s \<longleftrightarrow> desk_inv s0 s \<and> map_option fb_status (report_at i s) = Some st"

lemma locked_at_stable:
  "lawful_desk env \<Longrightarrow> report_locked env i \<Longrightarrow> k \<in> {1..3} \<Longrightarrow> locked_at s0 i st s \<Longrightarrow> locked_at s0 i st (others env k s)"
  using polite_desk [of env s0] unfolding locked_at_def report_locked_def polite_def by auto

lemma half_saved_stable:
  "lawful_desk env \<Longrightarrow> report_locked env i \<Longrightarrow> k \<in> {1..3} \<Longrightarrow> half_saved s0 i st s \<Longrightarrow> half_saved s0 i st (others env k s)"
  using frame_others consistent_others unfolding half_saved_def report_locked_def by auto

lemma locked_half: "locked_at s0 i st s \<Longrightarrow> half_saved s0 i st s"
  by (auto simp: locked_at_def half_saved_def desk_inv_def)

lemma status_row_half:
  assumes "half_saved s0 i st s" "status_row env k i new s = Inr (s', u)"
  shows "half_saved s0 i new s'"
proof -
  let ?f = "\<lambda>r. r\<lparr>fb_status := new, fb_updatedAt := fe_now env k\<rparr>"
  have s': "s' = s\<lparr>reports := set_where (\<lambda>r. fb_id r = i) ?f (reports s)\<rparr>"
    using assms(2) by (auto simp: status_row_def split: if_splits)
  have at: "report_at j s' = map_option (\<lambda>r. if fb_id r = i then ?f r else r) (report_at j s)" for j
    unfolding report_at_def s' by (simp add: first_row_set_where_map)
  have id: "report_at j s = Some r \<Longrightarrow> fb_id r = j" for j r
    unfolding report_at_def using first_row_Some by fastforce
  have logs: "logs_of j s' = logs_of j s" "left_in j s' = left_in j s" for j by (simp_all add: logs_of_def left_in_def s')
  have con: "j \<noteq> i \<Longrightarrow> consistent j s" for j using assms(1) by (simp add: half_saved_def)
  have "keys_ok s'" using assms(1) by (simp add: half_saved_def frame_def keys_ok_def s' map_set_where)
  moreover have "desk_moves s s'" by (auto simp: desk_moves_def at logs same_report_def)
  moreover have "consistent j s'" if "j \<noteq> i" for j
    using con [OF that] that id [of j] by (auto simp: consistent_def at logs split: option.splits)
  moreover have "\<exists>r. report_at i s' = Some r \<and> fb_status r = new"
  proof -
    obtain r where r: "report_at i s = Some r" using assms(1) by (auto simp: half_saved_def)
    then show ?thesis using id [OF r] by (simp add: at)
  qed
  ultimately show ?thesis using assms(1) desk_moves_trans [of s0 s s'] by (simp add: half_saved_def frame_def)
qed

lemma append_log_completes:
  assumes "half_saved s0 i st s" "append_log env l s = Inr (s', u)" "gl_feedbackId l = i" "gl_status l = st"
  shows "desk_inv s0 s'"
proof -
  have s': "s' = s\<lparr>desk_logs := desk_logs s @ [l]\<rparr>"
    using assms(2) by (auto simp: append_log_def split: if_splits)
  have at: "report_at j s' = report_at j s" for j by (simp add: report_at_def s')
  have logs: "logs_of j s' = logs_of j s @ (if j = i then [l] else [])" for j
    by (simp add: logs_of_def s' assms(3))
  have "consistent j s'" for j
  proof (cases "j = i")
    case True
    then show ?thesis using assms(1,4) by (auto simp: half_saved_def consistent_def at left_in_def logs)
  next
    case False
    then have "consistent j s" using assms(1) by (simp add: half_saved_def)
    moreover have "logs_of j s' = logs_of j s" "left_in j s' = left_in j s" using False by (simp_all add: logs left_in_def)
    ultimately show ?thesis by (simp add: consistent_def at split: option.splits)
  qed
  moreover have "keys_ok s'" using assms(1) by (simp add: half_saved_def frame_def keys_ok_def s')
  moreover have "desk_moves s s'" by (simp add: desk_moves_def at logs)
  ultimately show ?thesis using assms(1) desk_moves_trans [of s0 s s'] by (simp add: half_saved_def frame_def desk_inv_def)
qed

lemma within_save:
  assumes "lawful_desk env" "report_locked env i"
  shows "within (desk_inv s0) (desk_inv s0) (save_work env i dto actor) (\<lambda>_. desk_inv s0)"
proof -
  note polite = polite_desk [OF assms(1), of s0]
  let ?P = "\<lambda>x s. desk_inv s0 s \<and> x = map_option fb_status (report_at i s)"
  have saved: "within (desk_inv s0) (half_saved s0 i new)
      (andThen (put env 2 (append_log env \<lparr>gl_id = fe_new_id env 2, gl_feedbackId = i, gl_status = new,
         gl_note = fp_note dto, gl_authorId = Some actor, gl_createdAt = fe_stamp env 2\<rparr>)) (\<lambda>_. readDetail env 3 i))
      (\<lambda>_. desk_inv s0)" for new
    unfolding readDetail_def
    apply (rule within_andThen)
     apply (rule within_put [OF polite, where Q = "\<lambda>_. desk_inv s0"])
     apply (rule append_log_completes [OF half_saved_stable [OF assms, of 2]], simp, assumption, assumption, simp, simp)
    apply (rule within_andThen)
     apply (rule within_fetch [OF polite, where R = "desk_inv s0"])
    using polite apply (simp add: polite_def)
    apply (rule within_conseq [OF within_basic(4)], assumption, simp)
    done
  have written: "within (desk_inv s0) (locked_at s0 i current)
      (if new \<noteq> current then put env 1 (status_row env 1 i new) else done_with ()) (\<lambda>_. half_saved s0 i new)" for new current
    apply (rule within_if)
     apply (rule within_put [OF polite])
     apply (rule status_row_half [OF locked_half [OF locked_at_stable [OF assms, of 1]]], simp, assumption, assumption)
    apply (rule within_conseq [OF within_basic(1) [where P = "locked_at s0 i current"]], assumption)
    apply (simp add: locked_half)
    done
  show ?thesis unfolding save_work_def Let_def
    apply (rule within_andThen)
     apply (rule within_fetch [OF polite, where R = "desk_inv s0"])
    using polite apply (simp add: polite_def)
    apply (rule within_andThen [OF within_basic(4)])
    apply (rule within_andThen [OF within_basic(3)])
    apply (rule within_andThen)
     apply (rule within_conseq [OF written])
      apply (unfold locked_at_def, metis)
     apply assumption
    apply (rule saved)
    done
qed

lemma safe_update_feedback:
  assumes "lawful_desk env" "report_locked env i"
  shows "safe (desk_inv s0) (update_feedback env i dto actor)"
  unfolding update_feedback_def
  by (intro safe_intros safe_within [OF within_save [OF assms]])

subsection \<open>The machine\<close>

datatype desk_call =
    SubmitFeedback string feedback_dto | ListFeedback feedback_query | ReadFeedback string
  | SaveFeedback string feedback_update string

definition serve_desk :: "desk \<Rightarrow> desk_env \<times> desk_call \<Rightarrow> desk" where
  "serve_desk s x = (case snd x of
       SubmitFeedback sub dto \<Rightarrow> leaves (create_feedback (fst x) sub dto) s
     | ListFeedback q \<Rightarrow> leaves (list_feedback (fst x) q) s
     | ReadFeedback i \<Rightarrow> leaves (getDetail_feedback (fst x) i) s
     | SaveFeedback i dto actor \<Rightarrow> leaves (update_feedback (fst x) i dto actor) s)"

text \<open>A save relies on its row lock.\<close>

definition lawful_desk_call :: "desk_env \<times> desk_call \<Rightarrow> bool" where
  "lawful_desk_call x \<longleftrightarrow> lawful_desk (fst x) \<and>
     (case snd x of SaveFeedback i dto actor \<Rightarrow> report_locked (fst x) i | _ \<Rightarrow> True)"

interpretation desk_system: invariant_system serve_desk "desk_inv s0" lawful_desk_call for s0
proof
  fix s x assume inv: "desk_inv s0 s" and ok: "lawful_desk_call x"
  then have lawful: "lawful_desk (fst x)" by (simp add: lawful_desk_call_def)
  have reads: "safe (desk_inv s0) (list_feedback (fst x) q)" "safe (desk_inv s0) (getDetail_feedback (fst x) i)" for q i
    unfolding list_feedback_def getDetail_feedback_def readDetail_def
    by (intro safe_intros polite_desk lawful)+
  show "desk_inv s0 (serve_desk s x)"
  proof (cases "snd x")
    case (SubmitFeedback sub dto)
    then show ?thesis by (simp add: serve_desk_def leaves_safe [OF safe_create_feedback [OF lawful] inv])
  next
    case (ListFeedback q)
    then show ?thesis by (simp add: serve_desk_def leaves_safe [OF reads(1) inv])
  next
    case (ReadFeedback i)
    then show ?thesis by (simp add: serve_desk_def leaves_safe [OF reads(2) inv])
  next
    case (SaveFeedback i dto actor)
    then have "report_locked (fst x) i" using ok by (simp add: lawful_desk_call_def)
    then show ?thesis by (simp add: SaveFeedback serve_desk_def leaves_safe [OF safe_update_feedback [OF lawful] inv])
  qed
qed

end
