(* ===== verification/FeedbackProperties.thy ===== *)
theory FeedbackProperties
  imports FeedbackSystem LineUserSamples
begin

text \<open>
  What a submission and a save do when they run alone, and that the reference codes number the
  reports of a type and a Bangkok day without gaps, so that the first attempt at a code succeeds.
  At the end what the feedback desk guarantees: a log that always explains the status, codes that
  count, and a save that does what it says.
\<close>

subsection \<open>Codes\<close>

lemma formatFeedbackCode_eq_iff:
  assumes "0 \<le> get_utc_full_year (inBangkok a) + BUDDHIST_ERA_OFFSET"
  shows "formatFeedbackCode t a m = formatFeedbackCode u b n \<longleftrightarrow>
    t = u \<and> bookingCodeDatePart a = bookingCodeDatePart b \<and> m = n"
proof -
  let ?seq = "\<lambda>n. pad_start FEEDBACK_CODE_SEQUENCE_WIDTH (show_nat (n + 1))"
  have seq: "?seq m = ?seq n \<longleftrightarrow> m = n"
    by (metis add_right_cancel read_pad_start)
  have len: "length (FEEDBACK_CODE_PREFIX t) = length (FEEDBACK_CODE_PREFIX u)"
      "FEEDBACK_CODE_PREFIX t = FEEDBACK_CODE_PREFIX u \<longleftrightarrow> t = u"
    by (cases t; cases u; simp add: FEEDBACK_CODE_PREFIX_def)+
  have "formatFeedbackCode t a m = formatFeedbackCode u b n \<longleftrightarrow> t = u \<and>
      bookingCodeDatePart a @ CHR ''-'' # ?seq m = bookingCodeDatePart b @ CHR ''-'' # ?seq n"
    using len by (simp add: formatFeedbackCode_def)
  also have "\<dots> \<longleftrightarrow> t = u \<and> bookingCodeDatePart a = bookingCodeDatePart b \<and> ?seq m = ?seq n"
    using append_Cons_eq_iff [of "CHR ''-''" "bookingCodeDatePart a" "?seq n" "?seq m" "bookingCodeDatePart b"]
      append_Cons_eq_iff date_part_no_minus [OF assms] pad_show_no_minus by metis
  finally show ?thesis by (simp only: seq)
qed

definition modern :: "time \<Rightarrow> bool" where
  "modern t \<longleftrightarrow> 99 < get_utc_full_year (inBangkok t)"

definition day_key :: "feedback_row \<Rightarrow> feedback_type \<times> string" where
  "day_key r = (fb_type r, bookingCodeDatePart (fb_createdAt r))"

lemma same_day_key: "modern t \<Longrightarrow> same_day ty t r \<longleftrightarrow> day_key r = (ty, bookingCodeDatePart t)"
  unfolding same_day_def day_key_def modern_def
  by (simp add: bangkokDayRange_eq bookingCodeDatePart_eq_iff in_bangkok_day_iff)

lemma same_day_count:
  "modern t \<Longrightarrow> count_where (same_day ty t) rows = length (filter (\<lambda>r. day_key r = (ty, bookingCodeDatePart t)) rows)"
proof -
  assume "modern t"
  then have "same_day ty t = (\<lambda>r. day_key r = (ty, bookingCodeDatePart t))" using same_day_key by blast
  then show ?thesis by (simp add: count_where_def)
qed

definition earlier_same_day :: "feedback_row list \<Rightarrow> nat \<Rightarrow> nat" where
  "earlier_same_day rows n = length (filter (\<lambda>r. day_key r = day_key (rows ! n)) (take n rows))"

definition numbered :: "feedback_row list \<Rightarrow> bool" where
  "numbered rows \<longleftrightarrow> (\<forall>n < length rows. modern (fb_createdAt (rows ! n)) \<and>
     fb_code (rows ! n) = formatFeedbackCode (fb_type (rows ! n)) (fb_createdAt (rows ! n)) (earlier_same_day rows n))"

lemma earlier_snoc: "n < length rows \<Longrightarrow> earlier_same_day (rows @ [r]) n = earlier_same_day rows n"
  by (simp add: earlier_same_day_def nth_append)

lemma numbered_snoc:
  assumes "numbered rows" "modern (fb_createdAt r)"
    and "fb_code r = formatFeedbackCode (fb_type r) (fb_createdAt r) (length (filter (\<lambda>x. day_key x = day_key r) rows))"
  shows "numbered (rows @ [r])"
  unfolding numbered_def
proof (intro allI impI)
  fix n assume n: "n < length (rows @ [r])"
  show "modern (fb_createdAt ((rows @ [r]) ! n)) \<and> fb_code ((rows @ [r]) ! n) =
      formatFeedbackCode (fb_type ((rows @ [r]) ! n)) (fb_createdAt ((rows @ [r]) ! n)) (earlier_same_day (rows @ [r]) n)"
  proof (cases "n < length rows")
    case True
    then show ?thesis using assms(1) earlier_snoc [OF True, of r] by (simp add: numbered_def nth_append)
  next
    case False
    then have "n = length rows" using n by simp
    then show ?thesis using assms(2,3) by (simp add: earlier_same_day_def)
  qed
qed

lemma filter_take_less:
  assumes "n < length xs" "p (xs ! n)"
  shows "length (filter p (take n xs)) < length (filter p xs)"
proof -
  have "filter p xs = filter p (take n xs) @ xs ! n # filter p (drop (Suc n) xs)"
    using id_take_nth_drop [OF assms(1)] assms(2) by (metis filter.simps(2) filter_append)
  then show ?thesis by simp
qed

lemma next_code_fresh:
  assumes "numbered rows" "modern t"
  shows "formatFeedbackCode ty t (count_where (same_day ty t) rows) \<notin> fb_code ` set rows"
proof
  assume "formatFeedbackCode ty t (count_where (same_day ty t) rows) \<in> fb_code ` set rows"
  then obtain n where n: "n < length rows" "formatFeedbackCode ty t (count_where (same_day ty t) rows) = fb_code (rows ! n)"
    by (auto simp: in_set_conv_nth)
  have year: "0 \<le> get_utc_full_year (inBangkok t) + BUDDHIST_ERA_OFFSET"
    using assms(2) by (simp add: modern_def BUDDHIST_ERA_OFFSET_def)
  have code: "formatFeedbackCode ty t (count_where (same_day ty t) rows) =
      formatFeedbackCode (fb_type (rows ! n)) (fb_createdAt (rows ! n)) (earlier_same_day rows n)"
    using assms(1) n by (simp add: numbered_def)
  then have same: "ty = fb_type (rows ! n)" "bookingCodeDatePart t = bookingCodeDatePart (fb_createdAt (rows ! n))"
      "count_where (same_day ty t) rows = earlier_same_day rows n"
    unfolding formatFeedbackCode_eq_iff [OF year] by blast+
  have key: "day_key (rows ! n) = (ty, bookingCodeDatePart t)" using same(1,2) by (simp add: day_key_def)
  have "earlier_same_day rows n < length (filter (\<lambda>r. day_key r = day_key (rows ! n)) rows)"
    unfolding earlier_same_day_def by (rule filter_take_less [OF n(1)]) simp
  also have "\<dots> = count_where (same_day ty t) rows"
    using same_day_count [OF assms(2)] key by simp
  finally show False using same(3) by simp
qed

subsection \<open>A submission that runs alone\<close>

definition calm_desk :: "desk_env \<Rightarrow> bool" where
  "calm_desk env \<longleftrightarrow> undisturbed env \<and> (\<forall>k. modern (fe_now env k) \<and> modern (fe_stamp env k) \<and>
     bookingCodeDatePart (fe_stamp env (k + 1)) = bookingCodeDatePart (fe_now env k))"

definition first_row_of :: "desk_env \<Rightarrow> nat \<Rightarrow> string \<Rightarrow> string option \<Rightarrow> feedback_dto \<Rightarrow> string list \<Rightarrow> desk \<Rightarrow> feedback_row" where
  "first_row_of env k u v dto photos s = new_report env (k + 1)
     (formatFeedbackCode (fi_type dto) (fe_now env k) (count_where (same_day (fi_type dto) (fe_now env k)) (reports s)))
     u v dto photos"

lemma first_row_numbered:
  assumes "calm_desk env" "numbered (reports s)"
  shows "numbered (reports s @ [first_row_of env k u v dto photos s])"
proof (rule numbered_snoc [OF assms(2)])
  have calm: "modern (fe_now env k)" "modern (fe_stamp env (k + 1))"
      "bookingCodeDatePart (fe_stamp env (k + 1)) = bookingCodeDatePart (fe_now env k)"
    using assms(1) by (simp_all add: calm_desk_def)
  let ?r = "first_row_of env k u v dto photos s"
  show "modern (fb_createdAt ?r)" using calm by (simp add: first_row_of_def new_report_def)
  have "day_key ?r = (fi_type dto, bookingCodeDatePart (fe_now env k))"
    using calm(3) by (simp add: day_key_def first_row_of_def new_report_def)
  then have "count_where (same_day (fi_type dto) (fe_now env k)) (reports s) =
      length (filter (\<lambda>x. day_key x = day_key ?r) (reports s))"
    using same_day_count [OF calm(1)] by simp
  moreover have "formatFeedbackCode ty (fe_stamp env (k + 1)) n = formatFeedbackCode ty (fe_now env k) n" for ty n
    using calm(3) by (simp add: formatFeedbackCode_def)
  ultimately show "fb_code ?r = formatFeedbackCode (fb_type ?r) (fb_createdAt ?r)
      (length (filter (\<lambda>x. day_key x = day_key ?r) (reports s)))"
    by (simp add: first_row_of_def new_report_def)
qed

lemma insertOnce_run:
  assumes "undisturbed env"
  shows "insertOnce_report env k u v dto photos w =
    (case insert_report env (first_row_of env k u v dto photos (mine w)) (mine w) of
       Inl e \<Rightarrow> (Inl (Thrown e), w\<lparr>mine := base w\<rparr>)
     | Inr (s', r) \<Rightarrow> (Inr r, w\<lparr>mine := s', base := s'\<rparr>))"
  unfolding insertOnce_report_def nextFeedbackCode_def
  by (simp add: act_run assms first_row_of_def split: sum.splits prod.splits)

text \<open>On numbered reports only a missing or repeated key can refuse the row, never its code.\<close>

lemma insert_attempts_run:
  assumes "undisturbed env" "numbered (reports (mine w))" "modern (fe_now env k)"
  shows "insert_attempts env (Suc left) k u v dto photos w =
    (let r = first_row_of env k u v dto photos (mine w) in
     if fb_id r \<in> fb_id ` set (reports (mine w)) then
       insert_attempts env (Suc left) k u v dto photos w
     else if u \<notin> fo_id ` set (dk_users (mine w)) \<or> (\<exists>x. v = Some x \<and> x \<notin> vn_id ` set (dk_venues (mine w))) then
       insert_attempts env (Suc left) k u v dto photos w
     else (let s' = (mine w)\<lparr>reports := reports (mine w) @ [r]\<rparr> in (Inr r, w\<lparr>mine := s', base := s'\<rparr>)))"
proof -
  let ?r = "first_row_of env k u v dto photos (mine w)"
  have "fb_code ?r \<notin> fb_code ` set (reports (mine w))"
    using next_code_fresh [OF assms(2,3)] by (simp add: first_row_of_def new_report_def)
  moreover have "fb_lineUserId ?r = u" "fb_venueId ?r = v" by (simp_all add: first_row_of_def new_report_def)
  ultimately show ?thesis
    by (auto simp: catching_def insertOnce_run [OF assms(1)] insert_report_def Let_def)
qed

lemma insertWithCode_run:
  assumes "undisturbed env" "numbered (reports (mine w))" "modern (fe_now env k)"
    and "fe_new_id env (k + 1) \<notin> fb_id ` set (reports (mine w))" "u \<in> fo_id ` set (dk_users (mine w))"
    and "\<And>x. v = Some x \<Longrightarrow> x \<in> vn_id ` set (dk_venues (mine w))"
  shows "insertWithCode_report env k u v dto photos w =
    (let r = first_row_of env k u v dto photos (mine w); s' = (mine w)\<lparr>reports := reports (mine w) @ [r]\<rparr>
     in (Inr r, w\<lparr>mine := s', base := s'\<rparr>))"
proof -
  have five: "FEEDBACK_CODE_MAX_ATTEMPTS = Suc 4" by (simp add: FEEDBACK_CODE_MAX_ATTEMPTS_def)
  have "fb_id (first_row_of env k u v dto photos (mine w)) = fe_new_id env (k + 1)"
    by (simp add: first_row_of_def new_report_def)
  then show ?thesis
    unfolding insertWithCode_report_def five
    by (subst insert_attempts_run [OF assms(1-3)]) (use assms(4-6) in \<open>auto simp: Let_def\<close>)
qed

definition allowed_reporter :: "string \<Rightarrow> desk \<Rightarrow> follower option" where
  "allowed_reporter sub s = (case first_row (\<lambda>u. fo_lineUserId u = sub \<and> fo_deletedAt u = None) (dk_users s) of
       Some u \<Rightarrow> if fo_access u \<noteq> ACC_ALLOWED then None else Some u | None \<Rightarrow> None)"

definition own_photos :: "desk_env \<Rightarrow> string list \<Rightarrow> bool" where
  "own_photos env urls \<longleftrightarrow> urls = [] \<or> (\<exists>b. fe_base env = Some b \<and> b \<noteq> [] \<and> list_all (prefix (b @ ''/feedback/'')) urls)"

lemma run_assertOwnPhotoUrls:
  "Feedback.assertOwnPhotoUrls env urls w =
     (if own_photos env urls then (Inr (), w) else (Inl (Refused (BadRequest FEEDBACK_PHOTO_URL_INVALID)), w))"
  by (cases "fe_base env") (auto simp: Feedback.assertOwnPhotoUrls_def own_photos_def Let_def act_run or_null_def FEEDBACK_PHOTO_PREFIX_def)

text \<open>The venue that is named: none for an absent or empty id.\<close>

definition named_venue :: "feedback_dto \<Rightarrow> string option" where
  "named_venue dto = Option.bind (fi_venueId dto) or_null"

lemma create_feedback_outcome:
  assumes "calm_desk env" "numbered (reports s)" "fe_new_id env 3 \<notin> fb_id ` set (reports s)"
  shows "answer (create_feedback env sub dto) s =
    (case allowed_reporter sub s of
       None \<Rightarrow> (Inl (Refused (Forbidden FEEDBACK_NOT_ALLOWED)), s, [])
     | Some u \<Rightarrow>
         (let venue = Option.bind (named_venue dto) (live_venue_of s); photos = or_else (fi_photos dto) [] in
          if named_venue dto \<noteq> None \<and> venue = None then (Inl (Refused (BadRequest FEEDBACK_VENUE_INVALID)), s, [])
          else if \<not> own_photos env photos then (Inl (Refused (BadRequest FEEDBACK_PHOTO_URL_INVALID)), s, [])
          else (let r = first_row_of env 2 (fo_id u) (map_option vn_id venue) dto photos s
                in (Inr (toFeedbackResponseDto r (map_option vn_name venue)),
                    s\<lparr>reports := reports s @ [r]\<rparr>, [FeedbackSubmitted (fb_id r)]))))"
proof -
  have calm: "undisturbed env" "modern (fe_now env 2)" using assms(1) by (simp_all add: calm_desk_def)
  have fresh: "fe_new_id env (2 + 1) \<notin> fb_id ` set (reports s)" using assms(3) by simp
  have user: "fo_id u \<in> fo_id ` set (dk_users s)" if "allowed_reporter sub s = Some u" for u
    using that by (auto simp: allowed_reporter_def split: option.splits if_splits dest!: first_row_Some)
  have venue: "vn_id v \<in> vn_id ` set (dk_venues s)" if "live_venue_of s i = Some v" for i v
    using that by (auto simp: live_venue_of_def dest!: first_row_Some)
  have insert: "insertWithCode_report env 2 (fo_id u) (map_option vn_id venue) dto photos \<lparr>base = s, mine = s, trace = []\<rparr> =
      (let r = first_row_of env 2 (fo_id u) (map_option vn_id venue) dto photos s; s' = s\<lparr>reports := reports s @ [r]\<rparr>
       in (Inr r, \<lparr>base = s', mine = s', trace = []\<rparr>))"
    if "allowed_reporter sub s = Some u" "venue = None \<or> (\<exists>i. venue = live_venue_of s i)" for u venue photos
    by (subst insertWithCode_run [OF calm(1)]) (use assms(2) calm(2) fresh user [OF that(1)] venue that(2) in \<open>auto simp: Let_def\<close>)
  show ?thesis
  proof (cases "allowed_reporter sub s")
    case None
    then show ?thesis
      by (auto simp: create_feedback_def resolveAllowedReporter_def answer_def act_run calm(1) allowed_reporter_def
          split: option.splits if_splits)
  next
    case (Some u)
    have reporter: "resolveAllowedReporter env 0 sub \<lparr>base = s, mine = s, trace = []\<rparr> =
        (Inr (fo_id u), \<lparr>base = s, mine = s, trace = []\<rparr>)"
      using Some by (auto simp: resolveAllowedReporter_def act_run calm(1) allowed_reporter_def split: option.splits if_splits)
    show ?thesis
    proof (cases "named_venue dto")
      case no_venue: None
      then show ?thesis using Some reporter insert [OF Some, of None]
        by (simp add: create_feedback_def named_venue_def answer_def act_run calm(1) run_assertOwnPhotoUrls Let_def)
    next
      case named: (Some i)
      show ?thesis
      proof (cases "live_venue_of s i")
        case None
        then show ?thesis using Some named reporter
          by (simp add: create_feedback_def named_venue_def answer_def act_run calm(1) Let_def)
      next
        case found: (Some v)
        have "Some v = None \<or> (\<exists>i. Some v = live_venue_of s i)" using found by metis
        then show ?thesis using Some named found reporter insert [OF Some, of "Some v"]
          by (simp add: create_feedback_def named_venue_def answer_def act_run calm(1) run_assertOwnPhotoUrls Let_def)
      qed
    qed
  qed
qed

subsection \<open>A save that runs alone\<close>

definition resulting_status :: "feedback_update \<Rightarrow> feedback_row \<Rightarrow> feedback_status" where
  "resulting_status dto r = (case fp_status dto of None \<Rightarrow> fb_status r | Some t \<Rightarrow> target_status t)"

definition saved_log :: "desk_env \<Rightarrow> string \<Rightarrow> feedback_update \<Rightarrow> string \<Rightarrow> feedback_row \<Rightarrow> feedback_log" where
  "saved_log env i dto actor r = \<lparr>gl_id = fe_new_id env 2, gl_feedbackId = i, gl_status = resulting_status dto r,
     gl_note = fp_note dto, gl_authorId = Some actor, gl_createdAt = fe_stamp env 2\<rparr>"

definition saved_desk :: "desk_env \<Rightarrow> string \<Rightarrow> feedback_update \<Rightarrow> string \<Rightarrow> feedback_row \<Rightarrow> desk \<Rightarrow> desk" where
  "saved_desk env i dto actor r s = s\<lparr>
     reports := (if resulting_status dto r = fb_status r then reports s
       else set_where (\<lambda>x. fb_id x = i) (\<lambda>x. x\<lparr>fb_status := resulting_status dto r, fb_updatedAt := fe_now env 1\<rparr>) (reports s)),
     desk_logs := desk_logs s @ [saved_log env i dto actor r]\<rparr>"

lemma report_at_saved:
  assumes "report_at i s = Some r"
  shows "\<exists>r'. report_at i (saved_desk env i dto actor r s) = Some r' \<and> same_report r r' \<and> fb_status r' = resulting_status dto r \<and>
     (resulting_status dto r = fb_status r \<longrightarrow> r' = r)"
proof -
  have id: "fb_id r = i" using assms unfolding report_at_def by (auto dest: first_row_Some)
  have "report_at i (saved_desk env i dto actor r s) = Some
      (if resulting_status dto r = fb_status r then r
       else r\<lparr>fb_status := resulting_status dto r, fb_updatedAt := fe_now env 1\<rparr>)"
    using assms id by (simp add: report_at_def saved_desk_def first_row_set_where_map)
  then show ?thesis by (simp add: same_report_def)
qed

lemma update_feedback_outcome:
  assumes "undisturbed env" "report_at i s = Some r" "actor \<in> su_id ` set (dk_staff s)"
  shows "answer (update_feedback env i dto actor) s =
    (if fp_status dto = None \<and> fp_note dto = None then (Inl (Refused (BadRequest FEEDBACK_UPDATE_EMPTY)), s, [])
     else if resulting_status dto r = fb_status r \<and> fp_note dto = None
       then (Inl (Refused (BadRequest FEEDBACK_NO_CHANGE)), s, [])
     else (let s' = saved_desk env i dto actor r s
           in (Inr (report_detail env s' (the (report_at i s'))), s', [])))"
proof -
  obtain r' where r': "report_at i (saved_desk env i dto actor r s) = Some r'"
    using report_at_saved [OF assms(2)] by blast
  let ?g = "\<lambda>x. x\<lparr>fb_status := resulting_status dto r, fb_updatedAt := fe_now env 1\<rparr>"
  have status: "status_row env 1 i (resulting_status dto r) s = Inr (s\<lparr>reports := set_where (\<lambda>x. fb_id x = i) ?g (reports s)\<rparr>, ())"
    using assms(2) by (simp add: status_row_def)
  have at: "report_at i (s\<lparr>reports := set_where (\<lambda>x. fb_id x = i) ?g (reports s)\<rparr>) \<noteq> None"
    using assms(2) by (auto simp: report_at_def first_row_set_where_map)
  have log: "append_log env (saved_log env i dto actor r) x = Inr (x\<lparr>desk_logs := desk_logs x @ [saved_log env i dto actor r]\<rparr>, ())"
    if "report_at i x \<noteq> None" "dk_staff x = dk_staff s" for x
    using that assms(3) by (auto simp: append_log_def saved_log_def)
  have new: "(case fp_status dto of None \<Rightarrow> fb_status r | Some t \<Rightarrow> target_status t) = resulting_status dto r"
    by (simp add: resulting_status_def)
  have entry: "\<lparr>gl_id = fe_new_id env 2, gl_feedbackId = i, gl_status = resulting_status dto r, gl_note = fp_note dto,
      gl_authorId = Some actor, gl_createdAt = fe_stamp env 2\<rparr> = saved_log env i dto actor r"
    by (simp add: saved_log_def)
  have detail: "readDetail env 3 i \<lparr>base = b, mine = saved_desk env i dto actor r s, trace = []\<rparr> =
      (Inr (report_detail env (saved_desk env i dto actor r s) r'), \<lparr>base = b, mine = saved_desk env i dto actor r s, trace = []\<rparr>)" for b
    by (simp add: readDetail_def act_run assms(1) r')
  have work: "save_work env i dto actor \<lparr>base = s, mine = s, trace = []\<rparr> =
    (if resulting_status dto r = fb_status r \<and> fp_note dto = None
     then (Inl (Refused (BadRequest FEEDBACK_NO_CHANGE)), \<lparr>base = s, mine = s, trace = []\<rparr>)
     else (Inr (report_detail env (saved_desk env i dto actor r s) r'),
           \<lparr>base = s, mine = saved_desk env i dto actor r s, trace = []\<rparr>))"
  proof (cases "resulting_status dto r = fb_status r")
    case same: True
    have "saved_desk env i dto actor r s = s\<lparr>desk_logs := desk_logs s @ [saved_log env i dto actor r]\<rparr>"
      using same by (simp add: saved_desk_def)
    then show ?thesis using same log [of s] assms(2) detail [of s]
      by (simp add: save_work_def act_run assms(1) Let_def new entry [unfolded same])
  next
    case changed: False
    have "saved_desk env i dto actor r s = s\<lparr>reports := set_where (\<lambda>x. fb_id x = i) ?g (reports s),
        desk_logs := desk_logs s @ [saved_log env i dto actor r]\<rparr>"
      using changed by (simp add: saved_desk_def)
    then show ?thesis using changed log [OF at] assms(2) detail [of s] status
      by (simp add: save_work_def act_run assms(1) Let_def new entry)
  qed
  show ?thesis using work r'
    by (auto simp: update_feedback_def answer_def act_run catching_def map_desk_error_def Let_def)
qed

lemma update_feedback_refused:
  assumes "undisturbed env" "report_at i s = None \<or> actor \<notin> su_id ` set (dk_staff s)"
  shows "\<exists>e. answer (update_feedback env i dto actor) s = (Inl e, s, [])"
proof (cases "report_at i s")
  case None
  then show ?thesis
    by (auto simp: update_feedback_def save_work_def answer_def act_run catching_def assms(1) map_desk_error_def)
next
  case (Some r)
  then have actor: "actor \<notin> su_id ` set (dk_staff s)" using assms(2) by simp
  have "\<exists>e x. save_work env i dto actor \<lparr>base = s, mine = s, trace = []\<rparr> = (Inl e, \<lparr>base = s, mine = x, trace = []\<rparr>)"
    using Some actor by (auto simp: save_work_def act_run assms(1) Let_def append_log_def status_row_def split: sum.splits)
  then obtain e x where run: "save_work env i dto actor \<lparr>base = s, mine = s, trace = []\<rparr> = (Inl e, \<lparr>base = s, mine = x, trace = []\<rparr>)"
    by blast
  then show ?thesis by (auto simp: update_feedback_def answer_def act_run catching_def)
qed

subsection \<open>Serial runs number the reports\<close>

lemma numbered_set_where:
  assumes "\<And>x. fb_type (f x) = fb_type x \<and> fb_createdAt (f x) = fb_createdAt x \<and> fb_code (f x) = fb_code x" "numbered rows"
  shows "numbered (set_where p f rows)"
proof -
  let ?g = "\<lambda>x. if p x then f x else x"
  have sw: "set_where p f rows = map ?g rows" by (simp add: set_where_def)
  have key: "day_key (?g x) = day_key x" for x using assms(1) [of x] by (simp add: day_key_def)
  have earlier: "earlier_same_day (map ?g rows) n = earlier_same_day rows n" if "n < length rows" for n
  proof -
    have "filter (\<lambda>r. day_key r = k) (map ?g xs) = map ?g (filter (\<lambda>r. day_key r = k) xs)" for k xs
      by (induction xs) (auto simp: key)
    then show ?thesis using that by (simp add: earlier_same_day_def take_map key del: filter_map)
  qed
  show ?thesis using assms(2) earlier assms(1) unfolding sw numbered_def by simp
qed

definition numbered_desk :: "desk \<Rightarrow> bool" where
  "numbered_desk s \<longleftrightarrow> numbered (reports s)"

lemma triple_insertOnce:
  assumes "calm_desk env"
  shows "triple numbered_desk numbered_desk (insertOnce_report env k u v dto photos) (\<lambda>_. numbered_desk)"
proof -
  have calm: "undisturbed env" using assms by (simp add: calm_desk_def)
  show ?thesis unfolding triple_def insertOnce_run [OF calm]
    using first_row_numbered [OF assms] by (auto simp: insert_report_def numbered_desk_def)
qed

lemma triple_insert_attempts:
  assumes "calm_desk env"
  shows "triple numbered_desk numbered_desk (insert_attempts env left k u v dto photos) (\<lambda>_. numbered_desk)"
proof (induction left arbitrary: k)
  case 0
  show ?case by (simp add: triple_def act_run)
next
  case (Suc left)
  have handler: "triple numbered_desk numbered_desk
      (if (case e of Refused _ \<Rightarrow> True | Thrown err \<Rightarrow> \<not> isCodeCollision err) \<or> left = 0 then stop_with e
       else insert_attempts env left (k + 2) u v dto photos) (\<lambda>_. numbered_desk)" for e
    using Suc.IH [of "k + 2"] by (simp add: triple_def act_run)
  show ?case unfolding insert_attempts.simps
    by (rule triple_conseq [OF triple_catching [OF triple_insertOnce [OF assms] handler]]) simp
qed

lemma triple_quiet: "(\<And>w. snd (m w) = w) \<Longrightarrow> triple I I m (\<lambda>_. I)"
  by (simp add: triple_def split: sum.splits)

lemma triple_create_feedback:
  assumes "calm_desk env"
  shows "triple numbered_desk numbered_desk (create_feedback env sub dto) (\<lambda>_. numbered_desk)"
proof -
  have calm: "undisturbed env" using assms by (simp add: calm_desk_def)
  have reporter: "triple numbered_desk numbered_desk (resolveAllowedReporter env 0 sub) (\<lambda>_. numbered_desk)"
    by (rule triple_quiet) (simp add: resolveAllowedReporter_def act_run calm split: option.splits)
  have photos: "triple numbered_desk numbered_desk (Feedback.assertOwnPhotoUrls env urls) (\<lambda>_. numbered_desk)" for urls
    by (rule triple_quiet) (simp add: run_assertOwnPhotoUrls)
  have venue: "triple numbered_desk numbered_desk (case v of None \<Rightarrow> done_with None | Some i \<Rightarrow> fetch env 1 (\<lambda>s. live_venue_of s i))
      (\<lambda>_. numbered_desk)" for v
    by (rule triple_quiet) (simp add: act_run calm split: option.splits)
  have told: "triple numbered_desk numbered_desk (andThen (tell es) (\<lambda>_. done_with a)) (\<lambda>_. numbered_desk)"
    for es :: "desk_event list" and a :: feedback_answer
    by (simp add: triple_def act_run)
  have checked: "triple numbered_desk numbered_desk (check ok err) (\<lambda>_. numbered_desk)" for ok and err :: "feedback_message http_error"
    by (rule triple_quiet) (simp add: act_run)
  show ?thesis unfolding create_feedback_def Let_def insertWithCode_report_def
    by (intro triple_andThen [OF reporter] triple_andThen [OF venue] triple_andThen [OF checked] triple_andThen [OF photos]
        triple_andThen [OF triple_insert_attempts [OF assms]] told)
qed

lemma serve_desk_numbered:
  assumes "numbered_desk s" "calm_desk (fst x)"
  shows "numbered_desk (serve_desk s x)"
proof -
  obtain env c where x: "x = (env, c)" by fastforce
  have calm: "calm_desk env" "undisturbed env" using assms(2) x by (simp_all add: calm_desk_def)
  have n: "numbered (reports s)" using assms(1) by (simp add: numbered_desk_def)
  show ?thesis
  proof (cases c)
    case (ListFeedback q)
    then show ?thesis using n by (simp add: x serve_desk_def numbered_desk_def leaves_def answer_def list_feedback_def act_run calm)
  next
    case (ReadFeedback i)
    then show ?thesis using n
      by (simp add: x serve_desk_def numbered_desk_def leaves_def answer_def getDetail_feedback_def readDetail_def act_run calm
          split: option.splits)
  next
    case (SaveFeedback i dto actor)
    have "numbered (reports (leaves (update_feedback env i dto actor) s))"
    proof (cases "report_at i s = None \<or> actor \<notin> su_id ` set (dk_staff s)")
      case True
      then show ?thesis using update_feedback_refused [OF calm(2) True, of dto] n by (auto simp: leaves_def)
    next
      case False
      then obtain r where r: "report_at i s = Some r" "actor \<in> su_id ` set (dk_staff s)" by auto
      have "numbered (reports (saved_desk env i dto actor r s))"
        using n numbered_set_where by (simp add: saved_desk_def)
      then show ?thesis using n by (simp add: leaves_def update_feedback_outcome [OF calm(2) r] Let_def)
    qed
    then show ?thesis using SaveFeedback by (simp add: x serve_desk_def numbered_desk_def)
  next
    case (SubmitFeedback sub dto)
    show ?thesis
      using triple_leaves [OF triple_create_feedback [OF calm(1)] assms(1)] SubmitFeedback by (simp add: x serve_desk_def)
  qed
qed

interpretation desk_in_turn: invariant_system serve_desk numbered_desk "\<lambda>x. calm_desk (fst x)"
  by unfold_locales (rule serve_desk_numbered)


subsection \<open>Sample data\<close>

definition quiet_desk_env :: desk_env where
  "quiet_desk_env = \<lparr>others = \<lambda>_ s. s, breaks = \<lambda>_. None, fe_now = \<lambda>_. 1789900000000, fe_stamp = \<lambda>_. 1789900000000,
     fe_new_id = \<lambda>k. if k = 3 then ''R1'' else ''L1'', fe_collate = \<lambda>a b. if a = b then 0 else if a < b then -1 else 1,
     fe_lower = ascii_lower, fe_code_taken = JsError True (Some ''P2002'') None None (TargetList [''code'']) None None None None,
     fe_duplicate = JsError True (Some ''P2002'') None None NoTarget None None None None,
     fe_missing = JsError True (Some ''P2003'') None None NoTarget None None None None, fe_base = Some ''https://cdn''\<rparr>"

definition allowed_user :: follower where
  "allowed_user = rejected_follower\<lparr>fo_access := ACC_ALLOWED, fo_rejectionReason := None\<rparr>"

definition empty_desk :: desk where
  "empty_desk = \<lparr>reports = [], desk_logs = [], dk_users = [allowed_user], dk_registrations = [sample_registration],
     dk_departments = [], dk_roles = [], dk_venues = [], dk_staff = [account ''s1'' SUPER_ADMIN 1]\<rparr>"

definition broken_chair :: feedback_dto where
  "broken_chair = \<lparr>fi_type = ISSUE, fi_venueId = None, fi_subject = ''chair'', fi_description = ''broken'',
     fi_photos = Some [''https://cdn/feedback/a.jpg'']\<rparr>"

definition take_it_up :: feedback_update where
  "take_it_up = \<lparr>fp_status = Some TO_IN_PROGRESS, fp_note = None\<rparr>"

lemma quiet_desk_env_ok:
  "undisturbed quiet_desk_env" "calm_desk quiet_desk_env" "lawful_desk quiet_desk_env" "report_locked quiet_desk_env i"
proof -
  show u: "undisturbed quiet_desk_env" by (simp add: quiet_desk_env_def undisturbed_def)
  have "modern 1789900000000" unfolding modern_def by code_simp
  then show "calm_desk quiet_desk_env" using u by (simp add: calm_desk_def quiet_desk_env_def)
  show "lawful_desk quiet_desk_env" "report_locked quiet_desk_env i"
    by (simp_all add: lawful_desk_def report_locked_def quiet_desk_env_def)
qed

lemma first_code: "formatFeedbackCode ISSUE 1789900000000 0 = ''ISS-25690920-001''"
  by code_simp

lemma broken_chair_facts:
  "allowed_reporter ''U1'' empty_desk = Some allowed_user" "named_venue broken_chair = None"
  "own_photos quiet_desk_env (or_else (fi_photos broken_chair) [])"
  by (simp_all add: allowed_reporter_def empty_desk_def first_row_def allowed_user_def rejected_follower_def named_venue_def
      own_photos_def quiet_desk_env_def broken_chair_def or_else_def)

lemma broken_chair_stored:
  "\<exists>r. leaves (create_feedback quiet_desk_env ''U1'' broken_chair) empty_desk = empty_desk\<lparr>reports := [r]\<rparr> \<and>
    fb_id r = ''R1'' \<and> fb_code r = ''ISS-25690920-001'' \<and> fb_status r = FB_PENDING"
proof -
  note facts = broken_chair_facts
  let ?r = "first_row_of quiet_desk_env 2 (fo_id allowed_user) None broken_chair [''https://cdn/feedback/a.jpg''] empty_desk"
  have "fb_code ?r = ''ISS-25690920-001''"
    using first_code by (simp add: first_row_of_def new_report_def quiet_desk_env_def empty_desk_def count_where_def broken_chair_def)
  moreover have "fb_id ?r = ''R1''" "fb_status ?r = FB_PENDING"
    by (simp_all add: first_row_of_def new_report_def quiet_desk_env_def)
  moreover have "leaves (create_feedback quiet_desk_env ''U1'' broken_chair) empty_desk = empty_desk\<lparr>reports := [?r]\<rparr>"
    using facts create_feedback_outcome [OF quiet_desk_env_ok(2), of empty_desk "''U1''" broken_chair]
    by (simp add: leaves_def numbered_def empty_desk_def Let_def broken_chair_def or_else_def)
  ultimately show ?thesis by blast
qed

subsection \<open>The log explains the status\<close>

text \<open>
  C34: Along any run of submissions, reads and saves, whatever lawful commits of others come in between
  and whichever statements fail, the status of every report is the one its newest log entry left, or
  PENDING while it has none; codes stay unique; no report is lost or changes in anything but its status
  and the time of its change, and the log of a report only grows. A save relies on its row lock.
\<close>

theorem log_explains_status:
  assumes "reports s0 = []" "desk_logs s0 = []" "list_all lawful_desk_call (xs @ ys)"
    and "s = run_ops serve_desk s0 xs" "t = run_ops serve_desk s ys"
  shows "list_all (\<lambda>r. fb_status r = left_in (fb_id r) t) (reports t) \<and> distinct (map fb_code (reports t)) \<and>
    (\<forall>i r. report_at i s = Some r \<longrightarrow> (\<exists>r'. report_at i t = Some r' \<and> same_report r r')) \<and>
    (\<forall>i. prefix (logs_of i s) (logs_of i t))"
proof -
  have none: "report_at i s0 = None" "logs_of i s0 = []" for i using assms(1,2) by (simp_all add: report_at_def first_row_def logs_of_def)
  then have "desk_inv s0 s0" using assms(1) by (simp add: desk_inv_def frame_def keys_ok_def consistent_def)
  then have s: "desk_inv s0 s" using desk_system.run_inv [of s0 s0 xs] assms(3,4) by simp
  then have "desk_inv s s" by (simp add: desk_inv_def frame_def)
  then have t: "desk_inv s t" using desk_system.run_inv [of s s ys] assms(3,5) by simp
  have "fb_status r = left_in (fb_id r) t" if r: "r \<in> set (reports t)" for r
  proof -
    have "report_at (fb_id r) t = Some r"
    proof (cases "report_at (fb_id r) t")
      case None
      then have "\<forall>x \<in> set (reports t). fb_id x \<noteq> fb_id r" by (simp add: report_at_def first_row_None)
      then show ?thesis using r by blast
    next
      case (Some q)
      then have "q \<in> set (reports t)" "fb_id q = fb_id r" unfolding report_at_def by (auto dest: first_row_Some)
      then have "q = r" using t r unfolding desk_inv_def frame_def keys_ok_def by (metis distinct_map inj_onD)
      then show ?thesis using Some by simp
    qed
    moreover have "consistent (fb_id r) t" using t by (simp add: desk_inv_def)
    ultimately show ?thesis by (simp add: consistent_def)
  qed
  then show ?thesis using t by (simp add: list_all_iff desk_inv_def frame_def keys_ok_def desk_moves_def)
qed

theorem log_explains_status_witness:
  "\<exists>r r'. leaves (create_feedback quiet_desk_env ''U1'' broken_chair) empty_desk = empty_desk\<lparr>reports := [r]\<rparr> \<and>
     report_at ''R1'' (leaves (update_feedback quiet_desk_env ''R1'' take_it_up ''s1'') (empty_desk\<lparr>reports := [r]\<rparr>)) = Some r' \<and>
     same_report r r' \<and> fb_code r' = ''ISS-25690920-001''"
proof -
  obtain r where r: "leaves (create_feedback quiet_desk_env ''U1'' broken_chair) empty_desk = empty_desk\<lparr>reports := [r]\<rparr>"
      "fb_id r = ''R1''" "fb_code r = ''ISS-25690920-001''"
    using broken_chair_stored by blast
  let ?xs = "[(quiet_desk_env, SubmitFeedback ''U1'' broken_chair)]"
    and ?ys = "[(quiet_desk_env, SaveFeedback ''R1'' take_it_up ''s1'')]"
  have "list_all lawful_desk_call (?xs @ ?ys)" using quiet_desk_env_ok by (simp add: lawful_desk_call_def)
  moreover have s: "empty_desk\<lparr>reports := [r]\<rparr> = run_ops serve_desk empty_desk ?xs" using r(1) by (simp add: serve_desk_def)
  moreover have "reports empty_desk = []" "desk_logs empty_desk = []" by (simp_all add: empty_desk_def)
  moreover have "report_at ''R1'' (empty_desk\<lparr>reports := [r]\<rparr>) = Some r" using r(2) by (simp add: report_at_def first_row_def)
  ultimately obtain r' where "report_at ''R1'' (run_ops serve_desk (empty_desk\<lparr>reports := [r]\<rparr>) ?ys) = Some r'" "same_report r r'"
    using log_explains_status [of empty_desk ?xs ?ys "empty_desk\<lparr>reports := [r]\<rparr>"] by blast
  moreover from this have "fb_code r' = fb_code r" unfolding same_report_def by (metis feedback_row.ext_inject feedback_row.surjective feedback_row.update_convs(9,11))
  ultimately show ?thesis using r by (auto simp: serve_desk_def)
qed

subsection \<open>Codes count\<close>

text \<open>
  C35: When calls run one at a time and both clocks agree on the Bangkok day, the reports of one type
  and one day are numbered 001, 002, 003, ... without gaps in the order they arrived; and an allowed
  LINE user whose venue is none or a live one and whose photos are ours is answered with the next
  number at the first attempt: the code is never taken.
\<close>

theorem codes_count:
  assumes "reports s0 = []" "list_all (\<lambda>x. calm_desk (fst x)) xs" "s = run_ops serve_desk s0 xs"
    and "calm_desk env" "fe_new_id env 3 \<notin> fb_id ` set (reports s)" "allowed_reporter sub s = Some u"
    and "named_venue dto = None \<or> Option.bind (named_venue dto) (live_venue_of s) \<noteq> None"
    and "own_photos env (or_else (fi_photos dto) [])"
  shows "(\<forall>n < length (reports s). fb_code (reports s ! n) =
      formatFeedbackCode (fb_type (reports s ! n)) (fb_createdAt (reports s ! n)) (earlier_same_day (reports s) n)) \<and>
    (\<exists>a. fst (answer (create_feedback env sub dto) s) = Inr a \<and>
      fa_code a = formatFeedbackCode (fi_type dto) (fe_now env 2)
        (length (filter (\<lambda>r. day_key r = (fi_type dto, bookingCodeDatePart (fe_now env 2))) (reports s))))"
proof -
  have numbered: "numbered (reports s)"
    using desk_in_turn.run_inv [of s0 xs] assms(1-3) by (simp add: numbered_desk_def numbered_def)
  have modern: "modern (fe_now env 2)" using assms(4) by (simp add: calm_desk_def)
  have "\<exists>a. fst (answer (create_feedback env sub dto) s) = Inr a \<and> fa_code a =
      formatFeedbackCode (fi_type dto) (fe_now env 2) (count_where (same_day (fi_type dto) (fe_now env 2)) (reports s))"
    using create_feedback_outcome [OF assms(4) numbered assms(5), of sub dto] assms(6-8)
    by (auto simp: Let_def toFeedbackResponseDto_def first_row_of_def new_report_def)
  then show ?thesis using numbered same_day_count [OF modern] by (simp add: numbered_def)
qed

theorem codes_count_witness:
  "\<exists>a. fst (answer (create_feedback quiet_desk_env ''U1'' broken_chair) empty_desk) = Inr a \<and> fa_code a = ''ISS-25690920-001''"
proof -
  note facts = broken_chair_facts
  have "reports empty_desk = []" "fe_now quiet_desk_env 2 = 1789900000000" "fi_type broken_chair = ISSUE"
    by (simp_all add: empty_desk_def quiet_desk_env_def broken_chair_def)
  then show ?thesis
    using codes_count [of empty_desk "[]" empty_desk quiet_desk_env "''U1''" allowed_user broken_chair] facts quiet_desk_env_ok(2) first_code
    by simp
qed

end
