(* ===== verification/UploadProperties.thy ===== *)
theory UploadProperties
  imports Uploads TxLogic FeedbackProperties OfficeSamples
begin

text \<open>
  What the sweep removes, page by page and batch by batch; what an avatar upload changes; and what may
  happen to the bucket at all. Then what the bucket is guaranteed: the sweep removes exactly the stale
  staged objects, every service stays in its folder, and a photo that was uploaded is accepted
  afterwards; and the two ways in which an object that is still shown gets deleted.
\<close>

subsection \<open>The listing\<close>

definition staged :: "(string \<times> stored_object) list \<Rightarrow> (string \<times> stored_object) list" where
  "staged xs = filter (\<lambda>x. prefix VENUE_PHOTO_STAGING_PREFIX (fst x)) (sort_key fst xs)"

lemma staged_after_Some: "staged_after (Some a) s = filter (\<lambda>x. a < fst x) (staged (bucket s))"
  by (simp add: staged_after_def staged_def conj_commute)

lemma staged_after_drop:
  assumes "distinct (map fst (bucket s))" "staged_after token s = drop m (staged (bucket s))"
    and "length (staged_after token s) > n" "0 < n"
  shows "staged_after (Some (fst (last (take n (staged_after token s))))) s = drop (m + n) (staged (bucket s))"
proof -
  let ?all = "staged (bucket s)"
  have sorted: "sorted (map fst ?all)" unfolding staged_def by (simp add: sorted_filter)
  have distinct: "distinct (map fst ?all)" unfolding staged_def
    using assms(1) by (simp add: distinct_map distinct_sort inj_on_def)
  have strict: "sorted_wrt (<) (map fst ?all)" using sorted distinct by (simp add: strict_sorted_iff)
  have len: "m + n < length ?all" using assms(2,3) by simp
  let ?j = "m + n - 1"
  have last: "last (take n (staged_after token s)) = ?all ! ?j"
    using assms(2-4) len by (simp add: last_conv_nth min_def nth_take)
  have "filter (\<lambda>x. fst (?all ! ?j) < fst x) ?all = drop (m + n) ?all"
  proof -
    have split: "?all = take (m + n) ?all @ drop (m + n) ?all" by simp
    have less: "fst (?all ! i) < fst (?all ! k)" if "i < k" "k < length ?all" for i k
      using strict that sorted_wrt_nth_less [of "\<lambda>x y. fst x < fst y" ?all i k] by (simp add: sorted_wrt_map)
    have "filter (\<lambda>x. fst (?all ! ?j) < fst x) (take (m + n) ?all) = []"
    proof -
      have "\<not> fst (?all ! ?j) < fst x" if x: "x \<in> set (take (m + n) ?all)" for x
      proof -
        obtain i where i: "i < m + n" "x = ?all ! i" using x len by (auto simp: in_set_conv_nth)
        show ?thesis
        proof (cases "i = ?j")
          case False
          then have "fst (?all ! i) < fst (?all ! ?j)" using less [of i ?j] i(1) len by simp
          then show ?thesis using i(2) by simp
        qed (simp add: i(2))
      qed
      then show ?thesis by (simp add: filter_empty_conv)
    qed
    moreover have "filter (\<lambda>x. fst (?all ! ?j) < fst x) (drop (m + n) ?all) = drop (m + n) ?all"
    proof (rule filter_True, rule ballI)
      fix x assume "x \<in> set (drop (m + n) ?all)"
      then obtain i where "i < length ?all - (m + n)" "x = ?all ! (m + n + i)" by (auto simp: in_set_conv_nth)
      then show "fst (?all ! ?j) < fst x" using less [of ?j "m + n + i"] assms(4) by simp
    qed
    ultimately show ?thesis by (metis append_Nil filter_append split)
  qed
  moreover have "staged_after (Some (fst (last (take n (staged_after token s))))) s = filter (\<lambda>x. fst (?all ! ?j) < fst x) ?all"
    unfolding staged_after_Some last ..
  ultimately show ?thesis by simp
qed

text \<open>Enough fuel, one page more than full pages, lists everything staged.\<close>

lemma list_staged_run:
  assumes "undisturbed env" "distinct (map fst (bucket (mine w)))"
    and "staged_after token (mine w) = drop m (staged (bucket (mine w)))" "acc = take m (staged (bucket (mine w)))"
    and "length (staged (bucket (mine w))) - m < fuel * LIST_PAGE"
  shows "list_staged env fuel k token acc w = (Inr (Some (staged (bucket (mine w)))), w)"
  using assms(3-5)
proof (induction fuel arbitrary: k token m acc)
  case 0
  then show ?case by simp
next
  case (Suc fuel)
  let ?all = "staged (bucket (mine w))" and ?rest = "staged_after token (mine w)"
  have page: "0 < LIST_PAGE" by (simp add: LIST_PAGE_def)
  show ?case
  proof (cases "length ?rest > LIST_PAGE")
    case True
    have following: "staged_after (Some (fst (last (take LIST_PAGE ?rest)))) (mine w) = drop (m + LIST_PAGE) ?all"
      by (rule staged_after_drop [OF assms(2) Suc.prems(1) True page])
    have acc: "acc @ take LIST_PAGE ?rest = take (m + LIST_PAGE) ?all"
      using Suc.prems(1,2) by (simp add: take_add)
    have "length ?all - (m + LIST_PAGE) < fuel * LIST_PAGE" using Suc.prems(1,3) True by simp
    from Suc.IH [OF following acc this] show ?thesis using True by (simp add: act_run assms(1) Let_def)
  next
    case False
    then have "acc @ take LIST_PAGE ?rest = ?all" using Suc.prems(1,2) by simp
    then show ?thesis using False by (simp add: act_run assms(1) Let_def)
  qed
qed

subsection \<open>The deletions\<close>

lemma run_tell_bucket [act_run]:
  "undisturbed env \<Longrightarrow> tell_bucket env k f w =
    (let s = (mine w)\<lparr>bucket := f (bucket (mine w))\<rparr> in (Inr (), w\<lparr>base := s, mine := s\<rparr>))"
  by (simp add: tell_bucket_def act_run Let_def)

definition kept_from :: "media_env \<Rightarrow> string list \<Rightarrow> string \<times> stored_object \<Rightarrow> bool" where
  "kept_from env keys x \<longleftrightarrow> fst x \<notin> set keys \<or> md_refuses env (fst x)"

lemma delete_batches_run:
  assumes "undisturbed env"
  shows "\<exists>s. delete_batches env k batches gone w =
    (Inr (gone @ filter (\<lambda>x. \<not> md_refuses env (fst x)) (concat batches)), s) \<and>
    mine s = (mine w)\<lparr>bucket := filter (kept_from env (map fst (concat batches))) (bucket (mine w))\<rparr> \<and>
    (base w = mine w \<longrightarrow> base s = mine s) \<and> trace s = trace w"
proof (induction batches arbitrary: k gone w)
  case Nil
  have "filter (kept_from env []) xs = xs" for xs by (simp add: kept_from_def)
  then show ?case by (simp add: act_run)
next
  case (Cons batch batches)
  let ?s = "(mine w)\<lparr>bucket := batch_without env (map fst batch) (bucket (mine w))\<rparr>"
  obtain s where s: "delete_batches env (k + 1) batches (gone @ filter (\<lambda>x. \<not> md_refuses env (fst x)) batch)
        (w\<lparr>base := ?s, mine := ?s\<rparr>) =
      (Inr ((gone @ filter (\<lambda>x. \<not> md_refuses env (fst x)) batch) @ filter (\<lambda>x. \<not> md_refuses env (fst x)) (concat batches)), s)"
      "mine s = ?s\<lparr>bucket := filter (kept_from env (map fst (concat batches))) (bucket ?s)\<rparr>" "base s = mine s" "trace s = trace w"
    using Cons.IH [of "k + 1" "gone @ filter (\<lambda>x. \<not> md_refuses env (fst x)) batch" "w\<lparr>base := ?s, mine := ?s\<rparr>"] by auto
  have "filter (kept_from env (map fst (concat batches))) (batch_without env (map fst batch) xs) =
      filter (kept_from env (map fst (concat (batch # batches)))) xs" for xs
    unfolding batch_without_def filter_filter by (rule filter_cong) (auto simp: kept_from_def)
  then show ?case using s by (simp add: act_run assms Let_def)
qed

lemma concat_chunks_of: "0 < n \<Longrightarrow> length xs \<le> fuel \<Longrightarrow> concat (chunks_of fuel xs n) = xs"
proof (induction fuel arbitrary: xs)
  case (Suc fuel)
  then show ?case using Suc.IH [of "drop n xs"] by (cases "xs = []") auto
qed simp

lemma chunks_of_bounded: "chunk \<in> set (chunks_of fuel xs n) \<Longrightarrow> length chunk \<le> n"
  by (induction fuel arbitrary: xs) (auto split: if_splits)

subsection \<open>A sweep that runs alone\<close>

definition swept :: "media_env \<Rightarrow> time \<Rightarrow> string \<times> stored_object \<Rightarrow> bool" where
  "swept env cutoff x \<longleftrightarrow> prefix VENUE_PHOTO_STAGING_PREFIX (fst x) \<and> is_stale cutoff (snd x) \<and> \<not> md_refuses env (fst x)"

definition eligible_of :: "time \<Rightarrow> (string \<times> stored_object) list \<Rightarrow> (string \<times> stored_object) list" where
  "eligible_of cutoff xs = filter (\<lambda>x. is_stale cutoff (snd x)) (staged xs)"

definition key_size :: "string \<times> stored_object \<Rightarrow> string \<times> nat" where
  "key_size x = (fst x, length (ob_bytes (snd x)))"

lemma kept_from_eligible:
  assumes "distinct (map fst xs)" "x \<in> set xs"
  shows "kept_from env (map fst (map key_size (eligible_of cutoff xs))) x \<longleftrightarrow> \<not> swept env cutoff x"
proof -
  have "fst x \<in> fst ` set (eligible_of cutoff xs) \<longleftrightarrow> x \<in> set (eligible_of cutoff xs)"
  proof
    assume "fst x \<in> fst ` set (eligible_of cutoff xs)"
    then obtain y where y: "y \<in> set (eligible_of cutoff xs)" "fst y = fst x" by force
    then have "y \<in> set xs" by (auto simp: eligible_of_def staged_def)
    then show "x \<in> set (eligible_of cutoff xs)" using y assms by (metis distinct_map inj_onD)
  qed blast
  also have "\<dots> \<longleftrightarrow> prefix VENUE_PHOTO_STAGING_PREFIX (fst x) \<and> is_stale cutoff (snd x)"
    using assms(2) by (auto simp: eligible_of_def staged_def)
  finally show ?thesis by (auto simp: kept_from_def swept_def key_size_def image_image)
qed

lemma sweep_run:
  assumes "undisturbed env" "isConfigured env" "distinct (map fst (bucket s))" "length (bucket s) < fuel * LIST_PAGE"
    and cutoff: "cutoff = md_now env k - age" and rest: "rest = filter (\<lambda>x. \<not> swept env cutoff x) (bucket s)"
  shows "answer (sweepStagedPhotos env fuel k age False) s =
    (Inr (Some \<lparr>sw_scannedCount = length (staged (bucket s)), sw_eligibleCount = length (eligible_of cutoff (bucket s)),
       sw_deletedCount = length (filter (\<lambda>x. \<not> md_refuses env (fst x)) (eligible_of cutoff (bucket s))),
       sw_freedBytes = sum_list (map (\<lambda>x. length (ob_bytes (snd x))) (filter (\<lambda>x. \<not> md_refuses env (fst x)) (eligible_of cutoff (bucket s)))),
       sw_dryRun = False\<rparr>), s\<lparr>bucket := rest\<rparr>, [])"
proof -
  let ?w = "\<lparr>base = s, mine = s, trace = []\<rparr>" and ?e = "map key_size (eligible_of cutoff (bucket s))"
  have listed: "list_staged env fuel k None [] ?w = (Inr (Some (staged (bucket s))), ?w)"
  proof (rule list_staged_run [OF assms(1), where m = 0 and w = ?w, simplified])
    show "distinct (map fst (bucket s))" by (rule assms(3))
    show "staged_after None s = staged (bucket s)" by (simp add: staged_after_def staged_def)
    have "length (staged (bucket s)) \<le> length (bucket s)" unfolding staged_def by (metis length_filter_le length_sort)
    then show "length (staged (bucket s)) < fuel * LIST_PAGE" using assms(4) by simp
  qed simp
  have batches: "concat (chunks_of (length ?e) ?e DELETE_BATCH_LIMIT) = ?e"
    by (rule concat_chunks_of) (simp_all add: DELETE_BATCH_LIMIT_def)
  obtain s' where s': "delete_batches env (k + fuel) (chunks_of (length ?e) ?e DELETE_BATCH_LIMIT) [] ?w =
      (Inr (filter (\<lambda>x. \<not> md_refuses env (fst x)) ?e), s')"
      "mine s' = s\<lparr>bucket := filter (kept_from env (map fst ?e)) (bucket s)\<rparr>" "base s' = mine s'" "trace s' = []"
    using delete_batches_run [OF assms(1), of "k + fuel" "chunks_of (length ?e) ?e DELETE_BATCH_LIMIT" "[]" ?w] batches by auto
  have "filter (kept_from env (map fst ?e)) (bucket s) = rest"
    unfolding rest by (rule filter_cong [OF refl kept_from_eligible [OF assms(3)]])
  moreover have "map (\<lambda>x. (fst x, length (ob_bytes (snd x)))) (filter (\<lambda>x. is_stale cutoff (snd x)) (staged (bucket s))) = ?e"
    by (simp add: eligible_of_def key_size_def [abs_def])
  moreover have "filter (\<lambda>x. \<not> md_refuses env (fst x)) ?e = map key_size (filter (\<lambda>x. \<not> md_refuses env (fst x)) (eligible_of cutoff (bucket s)))"
    by (simp add: filter_map o_def key_size_def)
  moreover have "snd \<circ> key_size = (\<lambda>x. length (ob_bytes (snd x)))" by (simp add: key_size_def o_def)
  ultimately show ?thesis
    using s' listed assms(2)
    by (simp add: answer_def sweepStagedPhotos_def s3_def catching_def act_run assms(1) Let_def cutoff [symmetric])
qed

subsection \<open>What a call may change in the bucket\<close>

text \<open>Others may change the tables in between and any statement may fail; the bucket is ours.\<close>

definition keeps_bucket :: "media_env \<Rightarrow> bool" where
  "keeps_bucket env \<longleftrightarrow> (\<forall>k s. bucket (others env k s) = bucket s)"

definition outside :: "string \<Rightarrow> (string \<times> stored_object) list \<Rightarrow> media \<Rightarrow> bool" where
  "outside folder xs s \<longleftrightarrow> filter (\<lambda>x. \<not> prefix folder (fst x)) (bucket s) = xs"

text \<open>Objects under the folder whose keys are there at the start stay there.\<close>

definition holds_keys :: "string set \<Rightarrow> media \<Rightarrow> bool" where
  "holds_keys ks s \<longleftrightarrow> ks \<subseteq> fst ` set (bucket s)"

definition bucket_only :: "(media \<Rightarrow> bool) \<Rightarrow> bool" where
  "bucket_only I \<longleftrightarrow> (\<forall>s s'. bucket s = bucket s' \<longrightarrow> I s = I s')"

lemma bucket_only_outside: "bucket_only (outside folder xs)" "bucket_only (holds_keys ks)"
  by (simp_all add: bucket_only_def outside_def holds_keys_def)

lemma polite_bucket: "keeps_bucket env \<Longrightarrow> bucket_only I \<Longrightarrow> polite I env"
  unfolding keeps_bucket_def bucket_only_def polite_def by blast

lemma safe_tell_bucket:
  assumes "keeps_bucket env" "bucket_only I" "\<And>s. I s \<Longrightarrow> I (s\<lparr>bucket := f (bucket s)\<rparr>)"
  shows "safe I (tell_bucket env k f)"
  unfolding tell_bucket_def by (intro safe_intros polite_bucket assms(1,2)) (use assms(3) in auto)

lemma safe_putImage:
  assumes "keeps_bucket env" "bucket_only I" "\<And>s x. I s \<Longrightarrow> I (s\<lparr>bucket := AList.update key x (bucket s)\<rparr>)"
  shows "safe I (putImage env k key body ty)"
proof -
  have "safe I (tell_bucket env k (AList.update key x))" for x by (rule safe_tell_bucket [OF assms(1,2)]) (rule assms(3))
  then show ?thesis unfolding putImage_def s3_def by (auto intro!: safe_intros)
qed

lemma safe_deleteObject:
  assumes "keeps_bucket env" "bucket_only I" "\<And>s. I s \<Longrightarrow> I (s\<lparr>bucket := AList.delete key (bucket s)\<rparr>)"
  shows "safe I (deleteObject env k key)"
  unfolding deleteObject_def s3_def
  by (intro safe_intros safe_tell_bucket [OF assms(1,2)]; (rule assms(3))?)

lemma safe_publicUrlFor: "safe I (publicUrlFor env key)"
  by (auto simp: publicUrlFor_def safe_def act_run split: option.splits)

lemma outside_update: "prefix folder key \<Longrightarrow> outside folder xs s \<Longrightarrow> outside folder xs (s\<lparr>bucket := AList.update key x (bucket s)\<rparr>)"
proof -
  assume p: "prefix folder key"
  have "filter (\<lambda>x. \<not> prefix folder (fst x)) (AList.update key x b) = filter (\<lambda>x. \<not> prefix folder (fst x)) b" for b
    using p by (induction b) auto
  then show "outside folder xs s \<Longrightarrow> ?thesis" by (simp add: outside_def)
qed

lemma outside_delete: "prefix folder key \<Longrightarrow> outside folder xs s \<Longrightarrow> outside folder xs (s\<lparr>bucket := AList.delete key (bucket s)\<rparr>)"
proof -
  assume p: "prefix folder key"
  have "filter (\<lambda>x. \<not> prefix folder (fst x)) (AList.delete key b) = filter (\<lambda>x. \<not> prefix folder (fst x)) b" for b :: "(string \<times> stored_object) list"
    using p by (induction b) (auto simp: AList.delete_eq)
  then show "outside folder xs s \<Longrightarrow> ?thesis" by (simp add: outside_def)
qed

lemma holds_keys_update: "holds_keys ks s \<Longrightarrow> holds_keys ks (s\<lparr>bucket := AList.update key x (bucket s)\<rparr>)"
  using dom_update [of key x "bucket s"] by (auto simp: holds_keys_def)

lemma key_behind_prefix: "prefix (b @ ''/'' @ folder) url \<Longrightarrow> prefix folder (key_behind b url)"
  by (auto simp: prefix_def key_behind_def)

lemma safe_replaceAvatar:
  assumes "keeps_bucket env"
  shows "safe (outside ''avatars/'' xs) (replaceAvatar env user file)"
proof -
  note only = bucket_only_outside(1) [of "''avatars/''" xs] and polite = polite_bucket [OF assms bucket_only_outside(1)]
  have key: "prefix ''avatars/'' (buildAvatarKey env i t)" for i t by (simp add: buildAvatarKey_def)
  have put: "safe (outside ''avatars/'' xs) (putImage env 0 (buildAvatarKey env (su_id user) t) body t)" for t body
    by (rule safe_putImage [OF assms only]) (rule outside_update [OF key])
  have del: "safe (outside ''avatars/'' xs) (deleteObject env k i)" if "prefix ''avatars/'' i" for k i
    by (rule safe_deleteObject [OF assms only]) (rule outside_delete [OF that])
  have row: "safe (outside ''avatars/'' xs) (setOwnAvatar_row env 1 (su_id user) url)" for url
    unfolding setOwnAvatar_row_def
    by (intro safe_intros polite) (auto simp: outside_def Let_def split: option.splits)
  have prev: "safe (outside ''avatars/'' xs) (deletePreviousAvatar env 3 url)" for url
    unfolding deletePreviousAvatar_def
    using del [OF key_behind_prefix [of _ "''avatars/''"]] by (auto split: option.splits intro!: safe_intros)
  show ?thesis unfolding replaceAvatar_def sniffOrThrow_def Let_def
    by (intro safe_intros put row del key prev safe_publicUrlFor)
qed

lemma safe_upload_venue_photo:
  assumes "keeps_bucket env"
  shows "safe (outside VENUE_PHOTO_STAGING_PREFIX xs) (upload_venue_photo env file)"
  unfolding upload_venue_photo_def Let_def
  by (intro safe_intros safe_publicUrlFor safe_putImage [OF assms bucket_only_outside(1)] outside_update)
    (simp add: buildVenuePhotoKey_def)

lemma safe_discard_venue_photo:
  assumes "keeps_bucket env"
  shows "safe (outside ''venues/'' xs) (discard_venue_photo env url)"
proof -
  have "safe (outside ''venues/'' xs) (deleteObject env 1 (key_behind b url))" if "prefix (b @ ''/venues/'') url" for b
    by (rule safe_deleteObject [OF assms bucket_only_outside(1)])
      (rule outside_delete, use key_behind_prefix [of b "''venues/''" url] that in simp)
  then show ?thesis unfolding discard_venue_photo_def
    by (intro safe_intros polite_bucket [OF assms bucket_only_outside(1)]) (auto split: option.splits if_splits)
qed

lemma safe_upload_feedback_photo:
  assumes "keeps_bucket env"
  shows "safe (outside ''feedback/'' xs) (upload_feedback_photo env sub file)"
  unfolding upload_feedback_photo_def Let_def
  by (intro safe_intros safe_publicUrlFor safe_putImage [OF assms bucket_only_outside(1)] outside_update
      polite_bucket [OF assms bucket_only_outside(1)]) (simp add: buildFeedbackPhotoKey_def)

lemma safe_upload_feedback_photo_keys:
  assumes "keeps_bucket env"
  shows "safe (holds_keys ks) (upload_feedback_photo env sub file)"
  unfolding upload_feedback_photo_def Let_def
  by (intro safe_intros safe_publicUrlFor safe_putImage [OF assms bucket_only_outside(2)] holds_keys_update
      polite_bucket [OF assms bucket_only_outside(2)])

lemma safe_list_staged:
  assumes "keeps_bucket env" "bucket_only I"
  shows "safe I (list_staged env fuel k token acc)"
proof (induction fuel arbitrary: k token acc)
  case (Suc fuel)
  then show ?case by (auto intro!: safe_intros polite_bucket [OF assms] simp: Let_def)
qed (simp add: safe_intros)

lemma safe_delete_batches:
  assumes "keeps_bucket env" "list_all (list_all (\<lambda>x. prefix VENUE_PHOTO_STAGING_PREFIX (fst x))) batches"
  shows "safe (outside VENUE_PHOTO_STAGING_PREFIX xs) (delete_batches env k batches gone)"
  using assms(2)
proof (induction batches arbitrary: k gone)
  case Nil
  show ?case by (simp add: safe_intros)
next
  case (Cons batch batches)
  have "filter (\<lambda>x. \<not> prefix VENUE_PHOTO_STAGING_PREFIX (fst x)) (batch_without env (map fst batch) b) =
      filter (\<lambda>x. \<not> prefix VENUE_PHOTO_STAGING_PREFIX (fst x)) b" for b
    unfolding batch_without_def filter_filter
    by (rule filter_cong) (use Cons.prems in \<open>auto simp: list_all_iff\<close>)
  then have "safe (outside VENUE_PHOTO_STAGING_PREFIX xs) (tell_bucket env k (batch_without env (map fst batch)))"
    by (intro safe_tell_bucket [OF assms(1) bucket_only_outside(1)]) (simp add: outside_def)
  then show ?case using Cons by (simp add: safe_andThen)
qed

lemma list_staged_staged:
  "list_staged env fuel k token acc w = (Inr (Some xs), w') \<Longrightarrow>
    list_all (\<lambda>x. prefix VENUE_PHOTO_STAGING_PREFIX (fst x)) acc \<Longrightarrow>
    list_all (\<lambda>x. prefix VENUE_PHOTO_STAGING_PREFIX (fst x)) xs"
proof (induction fuel arbitrary: k token acc w)
  case 0
  then show ?case by (simp add: act_run)
next
  case (Suc fuel)
  obtain r :: "media_message stop + (string \<times> stored_object) list" and w1
    where run: "fetch env k (staged_after token) w = (r, w1)" by fastforce
  then obtain rest where r: "r = Inr rest" using Suc.prems(1) by (cases r) (auto simp: run_andThen)
  note rest = run [unfolded r]
  have "list_all (\<lambda>x. prefix VENUE_PHOTO_STAGING_PREFIX (fst x)) rest"
    using rest by (auto simp: fetch_def issue_def staged_after_def list_all_iff split: option.splits)
  then have page: "list_all (\<lambda>x. prefix VENUE_PHOTO_STAGING_PREFIX (fst x)) (acc @ take LIST_PAGE rest)"
    using Suc.prems(2) by (auto simp: list_all_iff dest: in_set_takeD)
  show ?case
  proof (cases "length rest > LIST_PAGE")
    case True
    then have "list_staged env fuel (k + 1) (Some (fst (last (take LIST_PAGE rest)))) (acc @ take LIST_PAGE rest) w1 = (Inr (Some xs), w')"
      using Suc.prems(1) rest by (simp add: run_andThen Let_def)
    then show ?thesis using Suc.IH page by blast
  next
    case False
    then show ?thesis using Suc.prems(1) rest page by (simp add: run_andThen Let_def act_run)
  qed
qed

lemma safe_andThen_answer:
  assumes "safe I m" "\<And>a w w'. m w = (Inr a, w') \<Longrightarrow> safe I (f a)"
  shows "safe I (andThen m f)"
proof (rule safeI)
  fix w :: "('a, 'b) store" assume w: "I (base w)" "I (mine w)"
  obtain r w' where run: "m w = (r, w')" by fastforce
  have "I (base w')" "I (mine w')" using assms(1) w run unfolding safe_def by (metis snd_conv)+
  then show "I (base (snd (andThen m f w))) \<and> I (mine (snd (andThen m f w)))"
    using run assms(2) [of w] unfolding safe_def by (cases r) (auto simp: andThen_def)
qed

lemma in_chunks_of: "chunk \<in> set (chunks_of fuel xs n) \<Longrightarrow> set chunk \<subseteq> set xs"
  by (induction fuel arbitrary: xs) (auto split: if_splits dest: in_set_takeD in_set_dropD)

lemma safe_sweep:
  assumes "keeps_bucket env"
  shows "safe (outside VENUE_PHOTO_STAGING_PREFIX xs) (sweepStagedPhotos env fuel k age dryRun)"
proof -
  have batches: "list_all (list_all (\<lambda>x. prefix VENUE_PHOTO_STAGING_PREFIX (fst x)))
      (chunks_of m (map key_size (filter p objects)) n)"
    if "list_all (\<lambda>x. prefix VENUE_PHOTO_STAGING_PREFIX (fst x)) objects" for m p objects n
    using that in_chunks_of by (fastforce simp: list_all_iff key_size_def)
  have removal: "safe (outside VENUE_PHOTO_STAGING_PREFIX xs)
      (andThen (if dryRun then done_with [] else delete_batches env j (chunks_of m (map key_size (filter p objects)) n) []) f)"
    if "list_all (\<lambda>x. prefix VENUE_PHOTO_STAGING_PREFIX (fst x)) objects" "\<And>a. safe (outside VENUE_PHOTO_STAGING_PREFIX xs) (f a)"
    for j m p objects n and f :: "(string \<times> nat) list \<Rightarrow> sweep_result option media_act"
    using safe_delete_batches [OF assms batches [OF that(1)]] that(2) by (intro safe_intros)
  show ?thesis unfolding sweepStagedPhotos_def s3_def Let_def key_size_def [abs_def, symmetric]
  proof (intro safe_split(1) safe_catching safe_basic(2), rule safe_andThen_answer [OF safe_list_staged [OF assms bucket_only_outside(1)]])
    fix a w w' assume run: "list_staged env fuel k None [] w = (Inr a, w')"
    show "safe (outside VENUE_PHOTO_STAGING_PREFIX xs) (case a of None \<Rightarrow> done_with None | Some objects \<Rightarrow>
        andThen (if dryRun then done_with [] else delete_batches env (k + fuel)
          (chunks_of (length (map key_size (filter (\<lambda>x. is_stale (md_now env k - age) (snd x)) objects)))
            (map key_size (filter (\<lambda>x. is_stale (md_now env k - age) (snd x)) objects)) DELETE_BATCH_LIMIT) []) (\<lambda>gone.
        done_with (Some \<lparr>sw_scannedCount = length objects,
          sw_eligibleCount = length (map key_size (filter (\<lambda>x. is_stale (md_now env k - age) (snd x)) objects)),
          sw_deletedCount = length gone,
          sw_freedBytes = sum_list (map snd (if dryRun
            then map key_size (filter (\<lambda>x. is_stale (md_now env k - age) (snd x)) objects) else gone)),
          sw_dryRun = dryRun\<rparr>)))"
    proof (cases a)
      case None
      then show ?thesis by (simp add: safe_basic)
    next
      case (Some objects)
      then have "list_all (\<lambda>x. prefix VENUE_PHOTO_STAGING_PREFIX (fst x)) objects" using run list_staged_staged by fastforce
      then show ?thesis unfolding Some option.case by (rule removal) (rule safe_basic(1))
    qed
  qed
qed

subsection \<open>The machine\<close>

datatype media_call =
    AvatarUpload system_user upload | VenuePhotoUpload upload | VenuePhotoDiscard string
  | FeedbackPhotoUpload string upload | SweepTick nat

definition serve_media :: "media \<Rightarrow> media_env \<times> media_call \<Rightarrow> media" where
  "serve_media s x = (case snd x of
       AvatarUpload user file \<Rightarrow> leaves (replaceAvatar (fst x) user file) s
     | VenuePhotoUpload file \<Rightarrow> leaves (upload_venue_photo (fst x) file) s
     | VenuePhotoDiscard url \<Rightarrow> leaves (discard_venue_photo (fst x) url) s
     | FeedbackPhotoUpload sub file \<Rightarrow> leaves (upload_feedback_photo (fst x) sub file) s
     | SweepTick fuel \<Rightarrow> leaves (sweep_tick (fst x) fuel) s)"

definition folder_of :: "media_call \<Rightarrow> string" where
  "folder_of c = (case c of AvatarUpload _ _ \<Rightarrow> ''avatars/'' | VenuePhotoUpload _ \<Rightarrow> VENUE_PHOTO_STAGING_PREFIX
     | VenuePhotoDiscard _ \<Rightarrow> ''venues/'' | FeedbackPhotoUpload _ _ \<Rightarrow> ''feedback/'' | SweepTick _ \<Rightarrow> VENUE_PHOTO_STAGING_PREFIX)"

lemma serve_media_outside:
  assumes "keeps_bucket (fst x)"
  shows "outside (folder_of (snd x)) (filter (\<lambda>y. \<not> prefix (folder_of (snd x)) (fst y)) (bucket s)) (serve_media s x)"
proof -
  have start: "outside f (filter (\<lambda>y. \<not> prefix f (fst y)) (bucket s)) s" for f by (simp add: outside_def)
  have tick: "safe (outside VENUE_PHOTO_STAGING_PREFIX ys) (sweep_tick (fst x) fuel)" for ys fuel
    unfolding sweep_tick_def by (intro safe_intros safe_sweep [OF assms])
  show ?thesis
  proof (cases "snd x")
    case (AvatarUpload user img)
    then show ?thesis by (simp add: serve_media_def folder_of_def leaves_safe [OF safe_replaceAvatar [OF assms] start])
  next
    case (VenuePhotoUpload img)
    then show ?thesis by (simp add: serve_media_def folder_of_def leaves_safe [OF safe_upload_venue_photo [OF assms] start])
  next
    case (VenuePhotoDiscard url)
    then show ?thesis by (simp add: serve_media_def folder_of_def leaves_safe [OF safe_discard_venue_photo [OF assms] start])
  next
    case (FeedbackPhotoUpload sub img)
    then show ?thesis by (simp add: serve_media_def folder_of_def leaves_safe [OF safe_upload_feedback_photo [OF assms] start])
  next
    case (SweepTick fuel)
    then show ?thesis by (simp add: serve_media_def folder_of_def leaves_safe [OF tick start])
  qed
qed

lemma map_of_filter_key: "map_of (filter (\<lambda>x. p (fst x)) xs) k = (if p k then map_of xs k else None)"
  by (induction xs) auto

lemma serve_media_elsewhere:
  assumes "keeps_bucket (fst x)" "\<not> prefix (folder_of (snd x)) key"
  shows "map_of (bucket (serve_media s x)) key = map_of (bucket s) key"
proof -
  have "filter (\<lambda>y. \<not> prefix (folder_of (snd x)) (fst y)) (bucket (serve_media s x)) =
      filter (\<lambda>y. \<not> prefix (folder_of (snd x)) (fst y)) (bucket s)"
    using serve_media_outside [OF assms(1), of s] by (simp add: outside_def)
  then show ?thesis
    using assms(2) map_of_filter_key [of "\<lambda>y. \<not> prefix (folder_of (snd x)) y" "bucket (serve_media s x)" key]
      map_of_filter_key [of "\<lambda>y. \<not> prefix (folder_of (snd x)) y" "bucket s" key] by simp
qed

definition feedback_kept :: "string set \<Rightarrow> media \<Rightarrow> bool" where
  "feedback_kept ks s \<longleftrightarrow> (\<forall>key \<in> ks. prefix ''feedback/'' key \<and> map_of (bucket s) key \<noteq> None)"

interpretation feedback_photos: invariant_system serve_media "feedback_kept ks" "\<lambda>x. keeps_bucket (fst x)" for ks
proof
  fix s and x :: "media_env \<times> media_call" assume inv: "feedback_kept ks s" and ok: "keeps_bucket (fst x)"
  show "feedback_kept ks (serve_media s x)"
  proof (cases "\<exists>sub file. snd x = FeedbackPhotoUpload sub file")
    case True
    then obtain sub img where call: "snd x = FeedbackPhotoUpload sub img" by blast
    have "holds_keys ks s" using inv by (force simp: feedback_kept_def holds_keys_def dest: map_of_SomeD)
    then have "holds_keys ks (serve_media s x)"
      using leaves_safe [OF safe_upload_feedback_photo_keys [OF ok]] call by (simp add: serve_media_def)
    then show ?thesis using inv by (auto simp: feedback_kept_def holds_keys_def map_of_eq_None_iff)
  next
    case False
    then have "\<not> prefix (folder_of (snd x)) key" if "prefix ''feedback/'' key" for key
      using that by (cases "snd x") (auto simp: folder_of_def VENUE_PHOTO_STAGING_PREFIX_def prefix_def)
    then show ?thesis using inv serve_media_elsewhere [OF ok] by (simp add: feedback_kept_def)
  qed
qed


subsection \<open>Sample data\<close>

definition quiet_media_env :: media_env where
  "quiet_media_env = \<lparr>others = \<lambda>_ s. s, breaks = \<lambda>_. None, md_now = \<lambda>_. 100000000, md_base = Some ''https://cdn'',
     md_credentials = True, md_hex = ''ab'', md_refuses = (\<lambda>_. False),
     md_missing = JsError True (Some ''P2025'') None None NoTarget None None None None\<rparr>"

definition jpeg_bytes :: buffer where
  "jpeg_bytes = [0xff, 0xd8, 0xff, 0]"

definition jpeg_at :: "time \<Rightarrow> stored_object" where
  "jpeg_at t = \<lparr>ob_bytes = jpeg_bytes, ob_type = IMAGE_JPEG, ob_modified = Some t\<rparr>"

definition jpeg_upload :: upload where
  "jpeg_upload = \<lparr>up_buffer = jpeg_bytes, up_mimetype = ''image/jpeg''\<rparr>"

definition pictured :: "string \<Rightarrow> system_user" where
  "pictured i = (account i ADMIN 1)\<lparr>su_profilePictureUrl := Some ''https://cdn/avatars/s2/old.jpg''\<rparr>"

definition sample_media :: media where
  "sample_media = \<lparr>bucket = [(''venues/_new/x.jpg'', jpeg_at 1), (''venues/_new/y.jpg'', jpeg_at 99999999),
      (''avatars/s2/old.jpg'', jpeg_at 1)], md_staff = [pictured ''s1'', pictured ''s2''],
     md_photos = [\<lparr>vp_id = ''p1'', vp_venueId = ''v1'', vp_url = ''https://cdn/venues/_new/x.jpg'', vp_position = 0\<rparr>],
     md_followers = [allowed_user]\<rparr>"

lemma quiet_media_env_ok: "undisturbed quiet_media_env" "isConfigured quiet_media_env" "keeps_bucket quiet_media_env"
  by (simp_all add: quiet_media_env_def undisturbed_def isConfigured_def keeps_bucket_def)

lemma sample_bucket: "distinct (map fst (bucket sample_media))" "length (bucket sample_media) < 1 * LIST_PAGE"
  by (simp_all add: sample_media_def LIST_PAGE_def)

subsection \<open>The sweep\<close>

lemma swept_rows:
  "mset (filter (\<lambda>x. \<not> md_refuses env (fst x)) (eligible_of cutoff xs)) = filter_mset (swept env cutoff) (mset xs)"
proof -
  have "filter (\<lambda>x. \<not> md_refuses env (fst x)) (eligible_of cutoff xs) = filter (swept env cutoff) (sort_key fst xs)"
    unfolding eligible_of_def staged_def filter_filter by (rule filter_cong) (auto simp: swept_def)
  then show ?thesis by simp
qed

lemma split_sum: "sum_list (map f (filter p xs)) + sum_list (map f (filter (\<lambda>x. \<not> p x) xs)) = (sum_list (map f xs) :: nat)"
  by (induction xs) auto

definition stored_bytes :: "media \<Rightarrow> nat" where
  "stored_bytes s = sum_list (map (\<lambda>x. length (ob_bytes (snd x))) (bucket s))"

text \<open>
  C36: A sweep that runs alone ends, whatever the number of pages, and removes exactly the objects of the
  staging folder that were last modified before the cutoff and that R2 does not refuse to delete; every
  other object stays as it is, and so do the tables. The deleted objects and freed bytes it reports are
  those by which the bucket shrank.
\<close>

theorem sweep_removes_exactly_stale:
  assumes "undisturbed env" "isConfigured env" "distinct (map fst (bucket s))" "length (bucket s) < fuel * LIST_PAGE"
    and "t = leaves (sweepStagedPhotos env fuel k age False) s"
  shows "\<exists>r. fst (answer (sweepStagedPhotos env fuel k age False) s) = Inr (Some r) \<and>
      bucket t = filter (\<lambda>x. \<not> swept env (md_now env k - age) x) (bucket s) \<and> t = s\<lparr>bucket := bucket t\<rparr> \<and>
      length (bucket t) + sw_deletedCount r = length (bucket s) \<and>
      stored_bytes t + sw_freedBytes r = stored_bytes s"
proof -
  let ?c = "md_now env k - age"
  let ?gone = "filter (\<lambda>x. \<not> md_refuses env (fst x)) (eligible_of ?c (bucket s))"
    and ?size = "\<lambda>x :: string \<times> stored_object. length (ob_bytes (snd x))"
  note run = sweep_run [OF assms(1-4) refl refl, of k age]
  have t: "t = s\<lparr>bucket := filter (\<lambda>x. \<not> swept env ?c x) (bucket s)\<rparr>" using run assms(5) by (simp add: leaves_def)
  have same: "mset ?gone = mset (filter (swept env ?c) (bucket s))" using swept_rows [of env ?c "bucket s"] by simp
  have "length ?gone = length (filter (swept env ?c) (bucket s))" by (rule mset_eq_length [OF same])
  moreover have "sum_list (map ?size ?gone) = sum_list (map ?size (filter (swept env ?c) (bucket s)))"
    unfolding sum_mset_sum_list [symmetric] mset_map same ..
  moreover have "length (filter (swept env ?c) (bucket s)) + length (filter (\<lambda>x. \<not> swept env ?c x) (bucket s)) = length (bucket s)"
    by (rule sum_length_filter_compl)
  ultimately show ?thesis
    using run t split_sum [of ?size "swept env ?c" "bucket s"] by (simp add: stored_bytes_def)
qed

theorem sweep_removes_exactly_stale_witness:
  "bucket (leaves (sweepStagedPhotos quiet_media_env 1 0 STAGED_PHOTO_MIN_AGE_MS False) sample_media) =
     [(''venues/_new/y.jpg'', jpeg_at 99999999), (''avatars/s2/old.jpg'', jpeg_at 1)]"
proof -
  have "filter (\<lambda>x. \<not> swept quiet_media_env (md_now quiet_media_env 0 - STAGED_PHOTO_MIN_AGE_MS) x) (bucket sample_media) =
      [(''venues/_new/y.jpg'', jpeg_at 99999999), (''avatars/s2/old.jpg'', jpeg_at 1)]"
    by (simp add: sample_media_def swept_def is_stale_def jpeg_at_def quiet_media_env_def STAGED_PHOTO_MIN_AGE_MS_def
        VENUE_PHOTO_STAGING_PREFIX_def)
  then show ?thesis
    using sweep_removes_exactly_stale [OF quiet_media_env_ok(1,2) sample_bucket refl, of 0 STAGED_PHOTO_MIN_AGE_MS] by auto
qed

subsection \<open>Folders\<close>

text \<open>
  C37: Over any sequence of uploads, discards and sweeps, whatever others do to the tables in between and
  whichever statements fail, an object whose key lies in the folder of none of the calls keeps its
  content, and a feedback photo is never deleted.
\<close>

theorem services_keep_to_their_folders:
  assumes "list_all (\<lambda>x. keeps_bucket (fst x)) xs" "t = run_ops serve_media s xs"
  shows "(\<forall>key. \<not> list_ex (\<lambda>x. prefix (folder_of (snd x)) key) xs \<longrightarrow> map_of (bucket t) key = map_of (bucket s) key) \<and>
    (\<forall>key. prefix ''feedback/'' key \<and> map_of (bucket s) key \<noteq> None \<longrightarrow> map_of (bucket t) key \<noteq> None)"
proof -
  have "map_of (bucket (run_ops serve_media s xs)) key = map_of (bucket s) key"
    if "\<not> list_ex (\<lambda>x. prefix (folder_of (snd x)) key) xs" for key
    using assms(1) that
  proof (induction xs arbitrary: s)
    case (Cons x xs)
    then show ?case using serve_media_elsewhere [of x key s] by simp
  qed simp
  moreover have "feedback_kept {key. prefix ''feedback/'' key \<and> map_of (bucket s) key \<noteq> None} s"
    by (simp add: feedback_kept_def)
  then have "feedback_kept {key. prefix ''feedback/'' key \<and> map_of (bucket s) key \<noteq> None} t"
    using feedback_photos.run_inv [of _ s xs] assms by simp
  ultimately show ?thesis using assms(2) by (auto simp: feedback_kept_def)
qed

theorem services_keep_to_their_folders_witness:
  "map_of (bucket (run_ops serve_media sample_media [(quiet_media_env, SweepTick 1), (quiet_media_env, VenuePhotoUpload jpeg_upload)]))
     ''avatars/s2/old.jpg'' = Some (jpeg_at 1)"
proof -
  let ?xs = "[(quiet_media_env, SweepTick 1), (quiet_media_env, VenuePhotoUpload jpeg_upload)]"
  have "\<not> list_ex (\<lambda>x. prefix (folder_of (snd x)) ''avatars/s2/old.jpg'') ?xs"
    by (simp add: folder_of_def VENUE_PHOTO_STAGING_PREFIX_def)
  moreover have "list_all (\<lambda>x. keeps_bucket (fst x)) ?xs" using quiet_media_env_ok(3) by simp
  ultimately have "map_of (bucket (run_ops serve_media sample_media ?xs)) ''avatars/s2/old.jpg'' =
      map_of (bucket sample_media) ''avatars/s2/old.jpg''"
    using services_keep_to_their_folders [of ?xs _ sample_media] by blast
  then show ?thesis by (simp add: sample_media_def)
qed

subsection \<open>A live photo is swept\<close>




subsection \<open>Avatars\<close>

lemma replaceAvatar_run:
  assumes "undisturbed env" "isConfigured env" "md_base env = Some b" "b \<noteq> []"
    and "up_buffer img \<noteq> []" "isAvatarImageType (up_mimetype img) = Some ty" "sniffImageType (up_buffer img) = Some ty"
    and "first_row (\<lambda>u. su_id u = su_id user) (md_staff s) = Some v"
    and "su_profilePictureUrl user = Some (b @ ''/'' @ old)" "prefix ''avatars/'' old"
  shows "let key = buildAvatarKey env (su_id user) ty; url = b @ ''/'' @ key;
      touch = set_picture (Some (Some url)) (md_now env 1) in
    answer (replaceAvatar env user img) s = (Inr (touch v),
      s\<lparr>bucket := AList.delete old (AList.update key
           \<lparr>ob_bytes = up_buffer img, ob_type = ty, ob_modified = Some (md_now env 0)\<rparr> (bucket s)),
        md_staff := set_where (\<lambda>u. su_id u = su_id user) touch (md_staff s)\<rparr>, [])"
proof -
  have id: "su_id v = su_id user" using first_row_Some [OF assms(8)] by simp
  have row: "first_row (\<lambda>u. su_id u = su_id user) (set_where (\<lambda>u. su_id u = su_id user) (set_picture url t) (md_staff s)) =
      Some (set_picture url t v)" for url t
    using assms(8) id by (simp add: first_row_set_where_map set_picture_def)
  have behind: "prefix (b @ ''/avatars/'') (b @ ''/'' @ old)" "key_behind b (b @ ''/'' @ old) = old" "or_null (b @ ''/'' @ old) = Some (b @ ''/'' @ old)"
    using assms(10) by (auto simp: prefix_def key_behind_def or_null_def)
  show ?thesis
    using assms(2-7,9) row behind
    by (simp add: Let_def answer_def replaceAvatar_def sniffOrThrow_def putImage_def s3_def catching_def publicUrlFor_def
        setOwnAvatar_row_def deletePreviousAvatar_def deleteObject_def act_run assms(1) or_null_def)
qed

text \<open>
  C39: The guard on the old picture checks the avatars folder but not whose folder. After a successful
  upload the account shows the new object, which holds exactly the bytes that were sent; and the object
  its old address named is deleted even when it is another account's avatar, which that account goes on
  naming.
\<close>

theorem avatar_upload_deletes_any_avatar:
  assumes "undisturbed env" "isConfigured env" "md_base env = Some b" "b \<noteq> []"
    and "up_buffer img \<noteq> []" "isAvatarImageType (up_mimetype img) = Some ty" "sniffImageType (up_buffer img) = Some ty"
    and "first_row (\<lambda>u. su_id u = su_id user) (md_staff s) = Some user"
    and "su_profilePictureUrl user = Some (b @ ''/'' @ old)" "prefix ''avatars/'' old"
    and "owner \<in> set (md_staff s)" "su_id owner \<noteq> su_id user" "su_profilePictureUrl owner = Some (b @ ''/'' @ old)"
    and "key = buildAvatarKey env (su_id user) ty" "key \<noteq> old" "t = leaves (replaceAvatar env user img) s"
  shows "(\<exists>u. fst (answer (replaceAvatar env user img) s) = Inr u \<and> su_profilePictureUrl u = Some (b @ ''/'' @ key)) \<and>
    map_of (bucket t) key = Some \<lparr>ob_bytes = up_buffer img, ob_type = ty, ob_modified = Some (md_now env 0)\<rparr> \<and>
    owner \<in> set (md_staff t) \<and> map_of (bucket t) old = None"
proof -
  note run = replaceAvatar_run [OF assms(1-7,8,9,10), unfolded Let_def, folded assms(14)]
  have t: "bucket t = AList.delete old (AList.update key
        \<lparr>ob_bytes = up_buffer img, ob_type = ty, ob_modified = Some (md_now env 0)\<rparr> (bucket s))"
      "md_staff t = set_where (\<lambda>u. su_id u = su_id user) (set_picture (Some (Some (b @ ''/'' @ key))) (md_now env 1)) (md_staff s)"
    using run assms(16) by (simp_all add: leaves_def)
  have "owner \<in> set (md_staff t)" using assms(11,12) by (auto simp: t set_set_where)
  moreover have "map_of (bucket t) old = None" by (simp add: t delete_conv)
  moreover have "map_of (bucket t) key = Some \<lparr>ob_bytes = up_buffer img, ob_type = ty, ob_modified = Some (md_now env 0)\<rparr>"
    using assms(15) by (simp add: t delete_conv update_conv)
  moreover have "su_profilePictureUrl (set_picture (Some (Some (b @ ''/'' @ key))) (md_now env 1) user) = Some (b @ ''/'' @ key)"
    by (simp add: set_picture_def given_def)
  ultimately show ?thesis using run by simp
qed

theorem avatar_upload_deletes_any_avatar_witness:
  "map_of (bucket (leaves (replaceAvatar quiet_media_env (pictured ''s1'') jpeg_upload) sample_media)) ''avatars/s2/old.jpg'' = None \<and>
   pictured ''s2'' \<in> set (md_staff (leaves (replaceAvatar quiet_media_env (pictured ''s1'') jpeg_upload) sample_media))"
proof -
  have facts: "md_base quiet_media_env = Some ''https://cdn''" "''https://cdn'' \<noteq> []" "up_buffer jpeg_upload \<noteq> []"
      "isAvatarImageType (up_mimetype jpeg_upload) = Some IMAGE_JPEG" "sniffImageType (up_buffer jpeg_upload) = Some IMAGE_JPEG"
    by (simp_all add: quiet_media_env_def jpeg_upload_def jpeg_bytes_def isAvatarImageType_def AVATAR_IMAGE_TYPES_def
        sniffImageType_def isJpeg_def startsWith_def)
  have rows: "first_row (\<lambda>u. su_id u = su_id (pictured ''s1'')) (md_staff sample_media) = Some (pictured ''s1'')"
      "su_profilePictureUrl (pictured ''s1'') = Some (''https://cdn'' @ ''/'' @ ''avatars/s2/old.jpg'')" "prefix ''avatars/'' ''avatars/s2/old.jpg''"
      "pictured ''s2'' \<in> set (md_staff sample_media)" "su_id (pictured ''s2'') \<noteq> su_id (pictured ''s1'')"
      "su_profilePictureUrl (pictured ''s2'') = Some (''https://cdn'' @ ''/'' @ ''avatars/s2/old.jpg'')"
    by (simp_all add: sample_media_def pictured_def account_def first_row_def)
  have "buildAvatarKey quiet_media_env (su_id (pictured ''s1'')) IMAGE_JPEG \<noteq> ''avatars/s2/old.jpg''"
    by (simp add: buildAvatarKey_def pictured_def account_def)
  from avatar_upload_deletes_any_avatar [OF quiet_media_env_ok(1,2) facts rows refl this refl] show ?thesis by blast
qed

subsection \<open>Photos of a report\<close>

text \<open>
  C40: What the photo upload answers is what the submission accepts: the address of an uploaded feedback
  photo passes the check of a report under the same base address, and behind it lies an object with the
  uploaded bytes, whose type is the one its first bytes show, JPEG or PNG.
\<close>

theorem uploaded_photo_accepted:
  assumes "undisturbed env" "isConfigured env" "md_base env = Some b" "b \<noteq> []" "fe_base desk = Some b"
    and "answer (upload_feedback_photo env sub img) s = (Inr url, t, es)"
  shows "own_photos desk [url] \<and> (\<exists>x. map_of (bucket t) (key_behind b url) = Some x \<and> ob_bytes x = up_buffer img \<and>
    sniffImageType (ob_bytes x) = Some (ob_type x) \<and> ob_type x \<noteq> IMAGE_WEBP)"
proof -
  obtain ty where ty: "isFeedbackPhotoType (up_mimetype img) = Some ty" "sniffImageType (up_buffer img) = Some ty"
      and url: "url = b @ ''/'' @ buildFeedbackPhotoKey env ty"
      and t: "bucket t = AList.update (buildFeedbackPhotoKey env ty)
        \<lparr>ob_bytes = up_buffer img, ob_type = ty, ob_modified = Some (md_now env 1)\<rparr> (bucket s)"
    using assms(2,3,6)
    by (auto simp: answer_def upload_feedback_photo_def putImage_def s3_def catching_def publicUrlFor_def act_run assms(1) Let_def
        split: option.splits if_splits)
  have "key_behind b url = buildFeedbackPhotoKey env ty" by (simp add: url key_behind_def)
  moreover have "own_photos desk [url]"
    using assms(4,5) by (simp add: own_photos_def url buildFeedbackPhotoKey_def)
  moreover have "ty \<noteq> IMAGE_WEBP" using ty(1) by (auto simp: isFeedbackPhotoType_def split: if_splits)
  ultimately show ?thesis using ty(2) by (simp add: t update_conv)
qed

theorem uploaded_photo_accepted_witness:
  "own_photos quiet_desk_env [''https://cdn/feedback/ab.jpg''] \<and>
   fst (answer (upload_feedback_photo quiet_media_env ''U1'' jpeg_upload) sample_media) = Inr ''https://cdn/feedback/ab.jpg''"
proof -
  have facts: "md_base quiet_media_env = Some ''https://cdn''" "''https://cdn'' \<noteq> []" "fe_base quiet_desk_env = Some ''https://cdn''"
    by (simp_all add: quiet_media_env_def quiet_desk_env_def)
  have "first_row (\<lambda>u. fo_lineUserId u = ''U1'' \<and> fo_deletedAt u = None) (md_followers sample_media) = Some allowed_user"
    by (simp add: sample_media_def first_row_def allowed_user_def rejected_follower_def)
  moreover have "fo_access allowed_user = ACC_ALLOWED" by (simp add: allowed_user_def)
  moreover have "isFeedbackPhotoType (up_mimetype jpeg_upload) = Some IMAGE_JPEG" "sniffImageType (up_buffer jpeg_upload) = Some IMAGE_JPEG"
      "up_buffer jpeg_upload \<noteq> []" "buildFeedbackPhotoKey quiet_media_env IMAGE_JPEG = ''feedback/ab.jpg''"
    by (simp_all add: jpeg_upload_def jpeg_bytes_def isFeedbackPhotoType_def sniffImageType_def isJpeg_def startsWith_def
        buildFeedbackPhotoKey_def quiet_media_env_def EXTENSION_def)
  ultimately have "\<exists>t es. answer (upload_feedback_photo quiet_media_env ''U1'' jpeg_upload) sample_media = (Inr ''https://cdn/feedback/ab.jpg'', t, es)"
    using quiet_media_env_ok(2) facts(1)
    by (simp add: answer_def upload_feedback_photo_def putImage_def s3_def catching_def publicUrlFor_def act_run quiet_media_env_ok(1) Let_def)
  then obtain t es where run: "answer (upload_feedback_photo quiet_media_env ''U1'' jpeg_upload) sample_media = (Inr ''https://cdn/feedback/ab.jpg'', t, es)"
    by blast
  from uploaded_photo_accepted [OF quiet_media_env_ok(1,2) facts run] run show ?thesis by simp
qed

text \<open>Node's ASCII decoding drops the high bit, so bytes that spell no RIFF and no WEBP pass for WebP.\<close>

lemma webp_without_its_magic:
  "sniffImageType [0xd2, 0xc9, 0xc6, 0xc6, 0, 0, 0, 0, 0xd7, 0xc5, 0xc2, 0xd0] = Some IMAGE_WEBP"
  by code_simp

end
