(* ===== verification/Spec2Isabelle.thy ===== *)
theory Spec2Isabelle
  imports SweepProperties SerialProperties AnnouncementProperties LineUserProperties SignInProperties UploadProperties
begin

text \<open>
  \<^bold>\<open>Easybook, as verified.\<close> A model of the backend of easybook-service (NestJS over Prisma,
  PostgreSQL and Redis): the booking services under \<open>src/src/bookings\<close>, the back office under
  \<open>system-users\<close>, \<open>options\<close>, \<open>venue-types\<close>, \<open>amenities\<close> and \<open>venues\<close>, the announcements,
  the LINE users with their registrations and the webhook under \<open>line\<close>, signing in and the
  sessions under \<open>auth\<close> and \<open>session\<close>, the feedback of users with its desk under \<open>feedback\<close>,
  the bucket of photos with the services that upload to it under \<open>storage\<close>, the parts of \<open>common\<close>,
  and \<open>redis\<close> these call, and the triggers, the partial unique indexes and the
  exclusion constraint of the migrations.

  \<^bold>\<open>The program.\<close> A LINE user submits a request for slots of a venue (\<open>BookingsService\<close>);
  staff approve, reject, cancel or enter bookings directly (\<open>AdminBookingsService\<close>); two crons
  expire overdue requests and remind of upcoming slots. All of them write the tables
  \<open>booking_requests\<close> and \<open>booking_slots\<close> and then announce what they wrote, to two
  websocket namespaces and by LINE cards. What they must get right is that a venue is never given
  twice, that a decision is made once, that nobody hears of somebody else's booking, and that a
  failure leaves either everything or nothing. The back office keeps the accounts, the options they
  refer to and the venues on offer, and serves their lists from a cache in Redis. There the system
  must never lose its last active super admin, must keep the reserved option rows as they are, and
  must not serve a list that its tables contradict. A LINE user enters by following the official
  account, registers, and is approved, sent back or blocked by staff (\<open>LineUserService\<close>); staff
  draft announcements and send each once, by multicast, to the users who may see them
  (\<open>AnnouncementsService\<close>). Staff sign in with a password and are known afterwards by a session
  in Redis, which the guard in front of every back-office route resolves to a live, active account.
  A LINE user may also report a problem with photos of it (\<open>FeedbackService\<close>), which staff work
  through and note what they did in a log (\<open>AdminFeedbackService\<close>); photos lie in an R2 bucket, where
  a nightly sweep removes those that were staged and never attached (\<open>R2StorageService\<close>).

  \<^bold>\<open>Theories of the common base.\<close> \<open>Prelude\<close> holds JavaScript's sort and number texts, the
  HTTP errors and the two locales: \<open>comparator\<close>, a sort by an antisymmetric transitive
  comparator, interpreted on the comparators of slots and spans, and \<open>invariant_system\<close>, a machine
  whose calls keep a property, interpreted on the booking machine \<open>serve\<close> (twice: under
  interference, and one call at a time), on the office machine \<open>serve_office\<close> (likewise), on the
  announcement machine \<open>serve_board\<close>, on the machine of the LINE users \<open>serve_accounts\<close> and on
  the machine of the sign-in routes \<open>serve_auth\<close> (with the log of the sign-ins, and with the clock),
  on the feedback machine \<open>serve_desk\<close> (under interference, and one call at a time) and on the machine
  of the bucket \<open>serve_media\<close>.
  \<open>JsDate\<close> is the proleptic Gregorian calendar behind \<open>Date\<close>; \<open>BangkokTime\<close> is
  \<open>booking-code.ts\<close>, \<open>booking-window.ts\<close> and \<open>booking-time-text.ts\<close>; \<open>JsText\<close> is
  trimming, \<open>parseInt\<close> and the stored notification preferences; \<open>DriverErrors\<close> is the error
  classification of \<open>prisma-tx.util.ts\<close>.

  \<^bold>\<open>Theories of the bookings.\<close> \<open>BookingDb\<close> has the rows, the triggers, the constraint and the
  transactions; \<open>BookingInv\<close> the invariant of the tables and the rules that carry it through a
  transaction. \<open>Overlap\<close> is \<open>booking-overlap.ts\<close>; \<open>BookingView\<close> is
  \<open>booking-list-view.ts\<close>; \<open>Fanout\<close> is \<open>booking-realtime.ts\<close> and
  \<open>booking-notifier.ts\<close>; \<open>LineViews\<close> and \<open>LineBookings\<close> are \<open>bookings.service.ts\<close>;
  \<open>AdminViews\<close> and \<open>AdminBookings\<close> are \<open>admin-bookings.service.ts\<close> and the crons. The
  remaining theories prove: \<open>OverlapFacts\<close> that the overlap rules mean what they say;
  \<open>BookingHistory\<close> and \<open>BookingSystem\<close> that every call keeps the tables well formed and
  moves a request only along its life cycle, whatever runs beside it; \<open>Calm\<close>, \<open>Decisions\<close>,
  \<open>Withdrawals\<close> and \<open>SpanInvariant\<close> what a call does when nothing runs beside it;
  \<open>Samples\<close> concrete tables; \<open>BookingProperties\<close>, \<open>SlotProperties\<close>, \<open>CancelProperties\<close>
  and \<open>SweepProperties\<close> the claims and their witnesses.

  \<^bold>\<open>Theories of the back office.\<close> \<open>Tx\<close> is a transaction over any store: the committed data,
  the data as the transaction sees them, the log of effects, and the numbered places where others
  commit or the driver fails; \<open>TxLogic\<close> is its logic of triples. \<open>StaffPolicy\<close> is
  \<open>system-users.policy.ts\<close>; \<open>OfficeDb\<close> the tables, the cache and the storage calls; \<open>Staff\<close>,
  \<open>Options\<close>, \<open>Catalogue\<close> and \<open>Venues\<close> are \<open>system-users.service.ts\<close>,
  \<open>options.service.ts\<close>, \<open>venue-types.service.ts\<close> with \<open>amenities.service.ts\<close>, and
  \<open>venues.service.ts\<close>, one definition per method. \<open>OfficeGuard\<close> and \<open>OfficeSystem\<close> show what
  every call keeps under interference: an active super admin, the reserved rows, the tie between a
  venue's state and its closing reason. \<open>OfficeSerial\<close>, \<open>OfficeSerialCalls\<close> and
  \<open>OfficeSerialVenues\<close> show what holds besides when calls run one at a time with Redis up: each
  cached list is the list of the tables, each reference points to a live row.
  \<open>OfficeSamples\<close> has concrete data; \<open>OfficeProperties\<close> and \<open>SerialProperties\<close> the claims.

  \<^bold>\<open>Theories of the announcements.\<close> \<open>LineCalls\<close> is the failure classification, the retry
  keys and the multicast of \<open>line-call-error.ts\<close>, \<open>line-retry-key.ts\<close> and \<open>line.service.ts\<close>,
  with \<open>LineFacts\<close> on what a multicast reports and which requests share a key.
  \<open>AnnouncementCards\<close> is \<open>announcement-card.ts\<close> with \<open>toAltText\<close> and its bounds.
  \<open>Announcements\<close> is \<open>announcements.service.ts\<close>, one definition per method; \<open>LikeSearch\<close> shows
  that its search is literal. \<open>AnnouncementGuard\<close> adds assertions under interference to the
  transaction logic, \<open>AnnouncementSystem\<close> proves the life cycle of every row with them, and
  \<open>AnnouncementSends\<close> what a send commits and whom it reaches. \<open>AnnouncementSamples\<close> and
  \<open>AnnouncementProperties\<close> have the data and the claims.

  \<^bold>\<open>Theories of the LINE users.\<close> \<open>AccessCards\<close> is \<open>access-card.ts\<close> with the copy of each
  state; \<open>LineUsers\<close> the rows, the cache of statuses and option lists and the statements;
  \<open>LineUserCalls\<close> and \<open>LineUserAdmin\<close> are \<open>line-user.service.ts\<close>, \<open>line-access.policy.ts\<close>
  and \<open>line-webhook.service.ts\<close>, one definition per method. \<open>LineUserRows\<close> states what the rows
  satisfy and that each statement keeps it; \<open>LineUserSystem\<close> and \<open>LineUserLife\<close> carry it through
  every call, with the cached statuses; \<open>LineUserFacts\<close> has what a decision, an unfollow, a
  resubmission and a settings write do; \<open>LineUserSamples\<close> and \<open>LineUserProperties\<close> the data and
  the claims. The menu of a user is written by decisions alone: \<open>setRichMenuType\<close> has no caller in
  the program and is left out of the machine.

  \<^bold>\<open>Theories of signing in.\<close> \<open>UserAgent\<close> is \<open>user-agent.ts\<close>, its regular expressions written
  as matchers; \<open>SignInDb\<close> the accounts, the login history, the session payloads, the index of each
  account's sessions and the throttle counters in Redis, every value with the instant it expires at,
  and \<open>session.util.ts\<close> over them; \<open>SessionTracker\<close> is \<open>session-tracker.service.ts\<close> and
  \<open>login-log.service.ts\<close>; \<open>SignIn\<close> is \<open>auth.service.ts\<close>, \<open>password.service.ts\<close>,
  \<open>session-user.resolver.ts\<close>, the two guards, the handlers of \<open>auth-system.controller.ts\<close> and both
  services of session screens; \<open>LoginThrottle\<close> the rate limits with what passes a fixed-window
  counter in any span of time. \<open>SignInSystem\<close> puts the guard before the handlers, makes a machine of
  the routes and shows that no session arises but by a sign-in, under interference and faults;
  \<open>SessionIndex\<close> and \<open>SessionLife\<close> that the index of an account names every session of it that is
  still in use, when calls run one at a time; \<open>SignInFacts\<close> what a login, a password change and the
  guard do; \<open>SignInProperties\<close> the data and the claims.

  \<^bold>\<open>Theories of the feedback and of the bucket.\<close> \<open>Feedback\<close> is \<open>feedback.service.ts\<close> with
  \<open>feedback-code.ts\<close> and \<open>feedback-reporter.ts\<close>: a submission, with the retry of a taken
  reference code. \<open>FeedbackDesk\<close> is \<open>admin-feedback.service.ts\<close>: the list with its search and its
  counts, the detail, and the save that moves the status and appends to the log. \<open>FeedbackSystem\<close>
  shows that every call keeps each report's log in step with its status, even between the statements
  of a save; \<open>FeedbackProperties\<close> what a submission and a save do alone, that serial runs number the
  reports of a type and a day from one without gaps, and the claims. \<open>Uploads\<close> is
  \<open>image-sniff.ts\<close>, \<open>r2-storage.service.ts\<close>, \<open>orphan-photo-sweeper.cron.ts\<close> and the three
  upload services, over a bucket that maps keys to objects; \<open>UploadProperties\<close> what the sweep removes,
  which keys each service may touch, and the claims.

  \<^bold>\<open>State and concurrency.\<close> A table is the list of its rows. A call is a function on a world:
  the committed tables, the tables as the running transaction sees them, and the log of what was
  announced. A transaction is modelled at READ COMMITTED, statement by statement: before its
  statement \<open>k\<close> other transactions may commit any change (\<open>interfere env k\<close>), and the driver may
  fail it (\<open>fault env k\<close>), which rolls the transaction's own writes back. The numbers \<open>k\<close> only
  name the places where this happens. A SERIALIZABLE transaction sees no change after its first
  statement and may be refused at its end. The safety theorems quantify over every interference
  that itself keeps the invariant; the functional ones take the call alone (\<open>calm\<close>). A lock is
  therefore a statement without effect: what it excludes is an assumption on \<open>interfere\<close>. The
  services after the bookings run over the stores of \<open>Tx\<close>, where the same two parameters are called
  \<open>others\<close> and \<open>breaks\<close>; there \<open>lock_held\<close> says that nobody writes the row a send holds locked,
  and \<open>calm_accounts\<close> that a call runs alone with Redis and the rich menus answering.

  \<^bold>\<open>Bounds.\<close> Instants are unbounded integers of milliseconds; the calendar theorems state the
  years they hold for, since \<open>Date.UTC\<close> maps the years 0 to 99 into the twentieth century. The retry
  of a taken booking number runs at most \<open>BOOKING_CODE_MAX_ATTEMPTS\<close> times, by recursion on the
  attempts left. \<open>errorChain\<close> terminates because the driver's errors are finite trees here. A
  multicast sends chunks of at most \<open>LINE_MULTICAST_MAX_RECIPIENTS\<close> and tries each at most twice, by
  recursion on the chunks and the attempts. A reference code of a report is tried at most
  \<open>FEEDBACK_CODE_MAX_ATTEMPTS\<close> times. The listing of staged photos has a fuel of pages;
  each page starts behind the last one, so one page more than the bucket has full pages is enough when
  the sweep runs alone. Lengths of messages are counted in UTF-16 units.

  \<^bold>\<open>Not modelled.\<close> Controllers (but for the handlers of the sign-in routes), modules and DTO validation
  (framework wiring); the CSRF tokens; the health probes of
  the bucket; the LINE
  SDK, the sockets and the storage drivers (third-party transports: what they answer is a parameter,
  and an event in the log was handed to them); SHA-1, SQL collation and the folding of \<open>ILIKE\<close>,
  password generation and hashing (parameters of the environments); the parser behind
  \<open>new Date(text)\<close> (a parameter). The services the manifest lists as not modelled (reports, admin
  notifications, incidents, canned replies and others) are left out
  for now; nothing above calls them except to announce. The LINE users appear in the bookings and the
  announcements as the columns those read; that \<open>LineUserService\<close> is the writer of these columns is
  not connected to them.
\<close>

end
